(* ===== verification/Jmux_Prelude.thy ===== *)
theory Jmux_Prelude imports Complex_Main "HOL-Library.Word" "HOL-Library.AList" "HOL-Library.Multiset" begin

text \<open>
  Shared vocabulary of the development: the names of the model's basic types, the Rust
  standard-library operations on \<open>Vec\<close>, \<open>Option\<close> and \<open>HashMap\<close> the source uses, and the lemmas
  about them that several components need.

  \<^item> A \<open>Uuid\<close> is an opaque identifier that the code only compares, sorts and prints; it is a
    \<open>nat\<close>. \<open>Uuid::new_v4()\<close> is an argument of the definition that calls it.
  \<^item> \<open>usize\<close> indices are \<open>nat\<close>; every read and removal writes out the out-of-range case.
  \<^item> A \<open>HashMap\<close> is an association list with distinct keys; its iteration order is the order of
    the list, which no theorem fixes.
\<close>

type_synonym uuid = nat
type_synonym u32 = "32 word"
type_synonym u64 = "64 word"
type_synonym ('k, 'v) hashmap = "('k \<times> 'v) list"

named_theorems keeps \<open>preservation facts: an operation keeps a well-formedness predicate\<close>
named_theorems ids \<open>characteristic equations of the identifiers a structure holds\<close>

section \<open>Vectors\<close>

definition remove_at :: "nat \<Rightarrow> 'a list \<Rightarrow> 'a list" where
  "remove_at i xs = take i xs @ drop (Suc i) xs"

definition insert_at :: "nat \<Rightarrow> 'a \<Rightarrow> 'a list \<Rightarrow> 'a list" where
  "insert_at i x xs = take i xs @ x # drop i xs"

fun position :: "('a \<Rightarrow> bool) \<Rightarrow> 'a list \<Rightarrow> nat option" where
  "position p [] = None"
| "position p (x # xs) = (if p x then Some 0 else map_option Suc (position p xs))"

text \<open>\<open>Vec::get\<close>: no value out of range.\<close>

definition get_at :: "nat \<Rightarrow> 'a list \<Rightarrow> 'a option" where
  "get_at i xs = (if i < length xs then Some (xs ! i) else None)"

text \<open>\<open>iter_mut().find(p)\<close> followed by a mutation of what it found: the first match only.\<close>

fun update_first :: "('a \<Rightarrow> bool) \<Rightarrow> ('a \<Rightarrow> 'a) \<Rightarrow> 'a list \<Rightarrow> 'a list" where
  "update_first p f [] = []"
| "update_first p f (x # xs) = (if p x then f x # xs else x # update_first p f xs)"

text \<open>\<open>if v.len() > cap { v.drain(0..v.len() - cap) }\<close>: the newest \<open>cap\<close> entries stay.\<close>

definition keep_last :: "nat \<Rightarrow> 'a list \<Rightarrow> 'a list" where
  "keep_last cap xs = drop (length xs - cap) xs"

text \<open>
  \<open>enumerate().min_by(le)\<close> gives the first index of a minimum, \<open>enumerate().max_by(le)\<close> the
  last index of a maximum.
\<close>

fun min_index_from :: "('a \<Rightarrow> 'a \<Rightarrow> bool) \<Rightarrow> nat \<Rightarrow> 'a \<Rightarrow> nat \<Rightarrow> 'a list \<Rightarrow> nat" where
  "min_index_from lt best b i [] = best"
| "min_index_from lt best b i (x # xs) =
     (if lt x b then min_index_from lt i x (Suc i) xs
      else min_index_from lt best b (Suc i) xs)"

definition min_index :: "('a \<Rightarrow> 'a \<Rightarrow> bool) \<Rightarrow> 'a list \<Rightarrow> nat option" where
  "min_index lt xs = (case xs of [] \<Rightarrow> None | x # ys \<Rightarrow> Some (min_index_from lt 0 x 1 ys))"

fun last_max :: "('a \<Rightarrow> 'a \<Rightarrow> bool) \<Rightarrow> 'a list \<Rightarrow> 'a option" where
  "last_max lt [] = None"
| "last_max lt (x # xs) =
     (case last_max lt xs of
        None \<Rightarrow> Some x
      | Some y \<Rightarrow> if lt y x then Some x else Some y)"

definition or_else :: "'a option \<Rightarrow> 'a option \<Rightarrow> 'a option" where
  "or_else a b = (case a of Some x \<Rightarrow> Some x | None \<Rightarrow> b)"

definition opt_filter :: "('a \<Rightarrow> bool) \<Rightarrow> 'a option \<Rightarrow> 'a option" where
  "opt_filter p a = (case a of Some x \<Rightarrow> if p x then Some x else None | None \<Rightarrow> None)"

definition head_opt :: "'a list \<Rightarrow> 'a option" where
  "head_opt xs = (case xs of [] \<Rightarrow> None | x # _ \<Rightarrow> Some x)"

definition last_opt :: "'a list \<Rightarrow> 'a option" where
  "last_opt xs = (if xs = [] then None else Some (last xs))"

section \<open>Lemmas on vectors\<close>

lemma length_remove_at [simp]: "i < length xs \<Longrightarrow> length (remove_at i xs) = length xs - 1"
  by (simp add: remove_at_def)

lemma length_insert_at [simp]: "length (insert_at i x xs) = Suc (length xs)"
  by (simp add: insert_at_def)

lemma mset_insert_at [simp]: "mset (insert_at i x xs) = add_mset x (mset xs)"
proof -
  have "mset (take i xs) + mset (drop i xs) = mset xs"
    by (simp flip: mset_append)
  then show ?thesis by (simp add: insert_at_def)
qed

lemma set_insert_at [simp]: "set (insert_at i x xs) = insert x (set xs)"
  by (simp flip: set_mset_mset)

lemma mset_remove_at: "i < length xs \<Longrightarrow> add_mset (xs ! i) (mset (remove_at i xs)) = mset xs"
  using arg_cong [OF id_take_nth_drop, of i xs mset] by (simp add: remove_at_def)

lemma set_remove_at_subset: "set (remove_at i xs) \<subseteq> set xs"
  by (auto simp: remove_at_def dest: in_set_takeD in_set_dropD)

lemma map_remove_at: "map f (remove_at i xs) = remove_at i (map f xs)"
  by (simp add: remove_at_def take_map drop_map)

lemma map_insert_at: "map f (insert_at i x xs) = insert_at i (f x) (map f xs)"
  by (simp add: insert_at_def take_map drop_map)

lemma distinct_remove_at: "distinct xs \<Longrightarrow> distinct (remove_at i xs)"
  by (auto simp: remove_at_def distinct_append dest: set_take_disj_set_drop_if_distinct [where i = i and j = "Suc i"])

lemma distinct_insert_at: "distinct (insert_at i x xs) \<longleftrightarrow> distinct xs \<and> x \<notin> set xs"
  using mset_eq_imp_distinct_iff [of "insert_at i x xs" "x # xs"] by auto

lemma nth_remove_at:
  "i < length xs \<Longrightarrow> j < length xs - 1 \<Longrightarrow> remove_at i xs ! j = (if j < i then xs ! j else xs ! Suc j)"
  by (auto simp: remove_at_def nth_append)

lemma nth_insert_at:
  "i \<le> length xs \<Longrightarrow> j \<le> length xs \<Longrightarrow>
   insert_at i x xs ! j = (if j < i then xs ! j else if j = i then x else xs ! (j - 1))"
  by (cases "j < i"; cases "j = i") (auto simp: insert_at_def nth_append nth_Cons')

lemma position_Some:
  "position p xs = Some i \<Longrightarrow> i < length xs \<and> p (xs ! i) \<and> (\<forall>j < i. \<not> p (xs ! j))"
proof (induction xs arbitrary: i)
  case Nil
  then show ?case by simp
next
  case (Cons x xs)
  show ?case
  proof (cases "p x")
    case True
    with Cons.prems show ?thesis by simp
  next
    case False
    with Cons.prems obtain k where k: "position p xs = Some k" "i = Suc k" by auto
    from Cons.IH [OF k(1)] False k(2) show ?thesis
      by (auto simp: nth_Cons split: nat.splits)
  qed
qed

lemma position_None: "position p xs = None \<longleftrightarrow> (\<forall>x \<in> set xs. \<not> p x)"
  by (induction xs) auto

lemma position_exists: "x \<in> set xs \<Longrightarrow> p x \<Longrightarrow> \<exists>i. position p xs = Some i"
  by (metis position_None not_None_eq)

lemma position_eq_index: "distinct xs \<Longrightarrow> i < length xs \<Longrightarrow> position (\<lambda>y. y = xs ! i) xs = Some i"
  using position_exists [of "xs ! i" xs "\<lambda>y. y = xs ! i"] position_Some [of "\<lambda>y. y = xs ! i" xs]
  by (auto simp: nth_eq_iff_index_eq)

lemma position_map: "position p (map f xs) = position (\<lambda>x. p (f x)) xs"
  by (induction xs) auto

lemma remove_at_position: "position (\<lambda>y. y = x) xs = Some i \<Longrightarrow> remove_at i xs = remove1 x xs"
  by (induction xs arbitrary: i) (auto simp: remove_at_def split: if_splits)

lemma length_keep_last: "length (keep_last cap xs) = min cap (length xs)"
  by (simp add: keep_last_def)

lemma set_keep_last: "set (keep_last cap xs) \<subseteq> set xs"
  by (simp add: keep_last_def set_drop_subset)

lemma keep_last_all [simp]: "length xs \<le> cap \<Longrightarrow> keep_last cap xs = xs"
  by (simp add: keep_last_def)

lemma last_keep_last: "xs \<noteq> [] \<Longrightarrow> 0 < cap \<Longrightarrow> last (keep_last cap xs) = last xs"
  by (simp add: keep_last_def last_drop)

lemma map_update_first:
  "(\<And>x. p x \<Longrightarrow> g (f x) = g x) \<Longrightarrow> map g (update_first p f xs) = map g xs"
  by (induction xs) auto

lemma length_update_first [simp]: "length (update_first p f xs) = length xs"
  by (induction xs) auto

lemma set_update_first: "set (update_first p f xs) \<subseteq> set xs \<union> f ` {x \<in> set xs. p x}"
  by (induction xs) auto

lemma find_update_first:
  "(\<And>x. p x \<Longrightarrow> p (f x)) \<Longrightarrow> find p (update_first p f xs) = map_option f (find p xs)"
  by (induction xs) auto

lemma min_index_from_less:
  "best < i \<Longrightarrow> min_index_from lt best b i xs < i + length xs"
proof (induction xs arbitrary: best b i)
  case Nil
  then show ?case by simp
next
  case (Cons x xs)
  from Cons.IH [of i "Suc i" x] Cons.IH [of best "Suc i" b] Cons.prems show ?case by auto
qed

lemma min_index_less: "min_index lt xs = Some i \<Longrightarrow> i < length xs"
  using min_index_from_less [where best = 0 and i = 1] by (auto simp: min_index_def split: list.splits)

lemma min_index_None [simp]: "min_index lt xs = None \<longleftrightarrow> xs = []"
  by (simp add: min_index_def split: list.splits)

lemma last_max_in: "last_max lt xs = Some x \<Longrightarrow> x \<in> set xs"
  by (induction xs arbitrary: x) (auto split: option.splits if_splits)

lemma last_max_None [simp]: "last_max lt xs = None \<longleftrightarrow> xs = []"
  by (cases xs) (auto split: option.splits)

lemma find_Some_in: "find p xs = Some x \<Longrightarrow> x \<in> set xs \<and> p x"
  by (induction xs) (auto split: if_splits)

lemma find_None_all: "find p xs = None \<longleftrightarrow> (\<forall>x \<in> set xs. \<not> p x)"
  by (induction xs) auto

lemma or_else_simps [simp]: "or_else (Some x) b = Some x" "or_else None b = b"
  by (simp_all add: or_else_def)

lemma or_else_split: "or_else a b = Some x \<longleftrightarrow> a = Some x \<or> (a = None \<and> b = Some x)"
  by (cases a) auto

lemma head_opt_in: "head_opt xs = Some x \<Longrightarrow> x \<in> set xs"
  by (auto simp: head_opt_def split: list.splits)

lemma head_opt_None [simp]: "head_opt xs = None \<longleftrightarrow> xs = []"
  by (auto simp: head_opt_def split: list.splits)

lemma head_opt_simps [simp]: "head_opt [] = None" "head_opt (x # xs) = Some x"
  by (simp_all add: head_opt_def)

lemma last_opt_in: "last_opt xs = Some x \<Longrightarrow> x \<in> set xs"
  by (auto simp: last_opt_def split: if_splits)

lemma opt_filter_Some: "opt_filter p a = Some x \<longleftrightarrow> a = Some x \<and> p x"
  by (auto simp: opt_filter_def split: option.splits)

section \<open>Hash maps as association lists\<close>

abbreviation has_key :: "'k \<Rightarrow> ('k, 'v) hashmap \<Rightarrow> bool" where
  "has_key k m \<equiv> map_of m k \<noteq> None"

abbreviation keys_of :: "('k, 'v) hashmap \<Rightarrow> 'k list" where
  "keys_of m \<equiv> map fst m"

lemma has_key_iff: "has_key k m \<longleftrightarrow> k \<in> set (keys_of m)"
  by (metis map_of_eq_None_iff set_map)

lemma keys_update: "set (keys_of (AList.update k v m)) = insert k (set (keys_of m))"
  by (simp add: AList.dom_update)

lemma keys_delete: "set (keys_of (AList.delete k m)) = set (keys_of m) - {k}"
  by (simp add: AList.delete_keys)

lemma distinct_keys_delete: "distinct (keys_of m) \<Longrightarrow> distinct (keys_of (AList.delete k m))"
  by (simp add: AList.distinct_delete)

lemma distinct_keys_update: "distinct (keys_of m) \<Longrightarrow> distinct (keys_of (AList.update k v m))"
  by (simp add: AList.distinct_update)

end
