(* ===== verification/F64.thy ===== *)
theory F64 imports Jmux_Prelude "HOL-Library.Log_Nat" begin

text \<open>
  The part of Rust's \<open>f64\<close> the source uses: comparison, addition, subtraction, absolute value,
  \<open>clamp\<close> and \<open>total_cmp\<close>. A value is a NaN, an infinity or a finite number given by its sign bit
  and its magnitude; the payload of a NaN is left out, because no operation here reads it. The
  result of an addition is rounded to the nearest binary64 value, ties to even, with gradual
  underflow and overflow to infinity.
\<close>

datatype f64 = NaN bool | Inf bool | Fin bool rat

fun f64_val :: "f64 \<Rightarrow> rat" where
  "f64_val (Fin s m) = (if s then - m else m)"
| "f64_val _ = 0"

fun is_nan :: "f64 \<Rightarrow> bool" where
  "is_nan (NaN _) = True"
| "is_nan _ = False"

fun is_finite :: "f64 \<Rightarrow> bool" where
  "is_finite (Fin _ _) = True"
| "is_finite _ = False"

text \<open>\<open>a < b\<close> and \<open>a > b\<close>: false whenever an operand is a NaN.\<close>

fun f64_lt :: "f64 \<Rightarrow> f64 \<Rightarrow> bool" where
  "f64_lt (NaN _) _ = False"
| "f64_lt _ (NaN _) = False"
| "f64_lt (Inf s) (Inf t) = (s \<and> \<not> t)"
| "f64_lt (Inf s) (Fin _ _) = s"
| "f64_lt (Fin _ _) (Inf t) = (\<not> t)"
| "f64_lt (Fin s m) (Fin t n) = (f64_val (Fin s m) < f64_val (Fin t n))"

definition f64_le :: "f64 \<Rightarrow> f64 \<Rightarrow> bool" where
  "f64_le a b \<longleftrightarrow> \<not> is_nan a \<and> \<not> is_nan b \<and> \<not> f64_lt b a"

text \<open>Rounding a positive rational to 53 significant bits, with exponents at least \<open>-1074\<close>.\<close>

definition round_even :: "rat \<Rightarrow> int" where
  "round_even q =
     (let f = \<lfloor>q\<rfloor>; d = q - of_int f
      in if d < 1 / 2 then f else if 1 / 2 < d then f + 1 else if even f then f else f + 1)"

definition pow2 :: "int \<Rightarrow> rat" where
  "pow2 e = (if 0 \<le> e then 2 ^ nat e else 1 / 2 ^ nat (- e))"

definition rat_log2 :: "rat \<Rightarrow> int" where
  "rat_log2 q =
     (let (a, b) = quotient_of q; e = int (floorlog 2 (nat a)) - int (floorlog 2 (nat b))
      in if pow2 e \<le> q then e else e - 1)"

definition f64_round :: "bool \<Rightarrow> rat \<Rightarrow> f64" where
  "f64_round s q =
     (if q \<le> 0 then Fin s 0
      else let e = max (rat_log2 q - 52) (-1074); r = of_int (round_even (q / pow2 e)) * pow2 e
           in if 1024 \<le> rat_log2 r then Inf s else Fin s r)"

definition f64_of_rat :: "rat \<Rightarrow> f64" where
  "f64_of_rat q = (if q < 0 then f64_round True (- q) else f64_round False q)"

fun f64_add :: "f64 \<Rightarrow> f64 \<Rightarrow> f64" where
  "f64_add (NaN s) _ = NaN s"
| "f64_add _ (NaN t) = NaN t"
| "f64_add (Inf s) (Inf t) = (if s = t then Inf s else NaN False)"
| "f64_add (Inf s) (Fin _ _) = Inf s"
| "f64_add (Fin _ _) (Inf t) = Inf t"
| "f64_add (Fin s m) (Fin t n) =
     (let v = f64_val (Fin s m) + f64_val (Fin t n)
      in if v = 0 then Fin (s \<and> t) 0 else f64_of_rat v)"

fun f64_neg :: "f64 \<Rightarrow> f64" where
  "f64_neg (NaN s) = NaN (\<not> s)"
| "f64_neg (Inf s) = Inf (\<not> s)"
| "f64_neg (Fin s m) = Fin (\<not> s) m"

fun f64_abs :: "f64 \<Rightarrow> f64" where
  "f64_abs (NaN s) = NaN False"
| "f64_abs (Inf s) = Inf False"
| "f64_abs (Fin s m) = Fin False m"

definition f64_sub :: "f64 \<Rightarrow> f64 \<Rightarrow> f64" where
  "f64_sub a b = f64_add a (f64_neg b)"

definition f64_clamp :: "f64 \<Rightarrow> f64 \<Rightarrow> f64 \<Rightarrow> f64" where
  "f64_clamp x lo hi = (if f64_lt x lo then lo else if f64_lt hi x then hi else x)"

definition f64_epsilon :: f64 where
  "f64_epsilon = Fin False (1 / 2 ^ 52)"

section \<open>Facts\<close>

lemma f64_lt_irrefl [simp]: "\<not> f64_lt a a"
  by (cases a) auto

lemma f64_lt_asym: "f64_lt a b \<Longrightarrow> \<not> f64_lt b a"
  by (cases a; cases b) auto

lemma f64_round_not_nan [simp]: "\<not> is_nan (f64_round s q)"
  by (simp add: f64_round_def Let_def)

lemma f64_of_rat_not_nan [simp]: "\<not> is_nan (f64_of_rat q)"
  by (simp add: f64_of_rat_def)

lemma f64_add_not_nan: "is_finite a \<Longrightarrow> \<not> is_nan b \<Longrightarrow> \<not> is_nan (f64_add a b)"
  by (cases a; cases b) (auto simp: Let_def)

lemma is_nan_neg [simp]: "is_nan (f64_neg a) = is_nan a"
  by (cases a) auto

text \<open>\<open>clamp\<close> ends inside its bounds whenever its argument is a number.\<close>

lemma f64_clamp_bounds:
  assumes "\<not> is_nan x" and "f64_le lo hi"
  shows "f64_le lo (f64_clamp x lo hi) \<and> f64_le (f64_clamp x lo hi) hi"
  using assms by (auto simp: f64_le_def f64_clamp_def)

lemma f64_clamp_id: "f64_le lo x \<Longrightarrow> f64_le x hi \<Longrightarrow> f64_clamp x lo hi = x"
  by (auto simp: f64_le_def f64_clamp_def)

lemma f64_le_finite: "f64_le a x \<Longrightarrow> f64_le x b \<Longrightarrow> is_finite a \<Longrightarrow> is_finite b \<Longrightarrow> is_finite x"
  by (cases a; cases b; cases x) (auto simp: f64_le_def)

lemma f64_le_trans: "f64_le a b \<Longrightarrow> f64_le b c \<Longrightarrow> f64_le a c"
  by (cases a; cases b; cases c) (auto simp: f64_le_def split: if_splits)

section \<open>The total order of \<open>total_cmp\<close>\<close>

text \<open>
  \<open>f64::total_cmp\<close> orders negative NaNs below everything, then \<open>-inf\<close>, the negative numbers,
  \<open>-0\<close>, \<open>+0\<close>, the positive numbers, \<open>+inf\<close> and the positive NaNs.
\<close>

fun total_key :: "f64 \<Rightarrow> int \<times> rat" where
  "total_key (NaN s) = (if s then - 3 else 3, 0)"
| "total_key (Inf s) = (if s then - 2 else 2, 0)"
| "total_key (Fin s m) = (if s then (- 1, - m) else (1, m))"

definition key_le :: "int \<times> rat \<Rightarrow> int \<times> rat \<Rightarrow> bool" where
  "key_le a b \<longleftrightarrow> fst a < fst b \<or> (fst a = fst b \<and> snd a \<le> snd b)"

instantiation f64 :: linorder
begin

definition less_eq_f64 :: "f64 \<Rightarrow> f64 \<Rightarrow> bool" where
  "less_eq_f64 a b = key_le (total_key a) (total_key b)"

definition less_f64 :: "f64 \<Rightarrow> f64 \<Rightarrow> bool" where
  "less_f64 a b = (key_le (total_key a) (total_key b) \<and> \<not> key_le (total_key b) (total_key a))"

instance
proof
  fix x y z :: f64
  show "(x < y) = (x \<le> y \<and> \<not> y \<le> x)" by (simp add: less_eq_f64_def less_f64_def)
  show "x \<le> x" by (simp add: less_eq_f64_def key_le_def)
  show "x \<le> y \<Longrightarrow> y \<le> z \<Longrightarrow> x \<le> z" by (auto simp: less_eq_f64_def key_le_def)
  show "x \<le> y \<Longrightarrow> y \<le> x \<Longrightarrow> x = y"
    by (cases x; cases y) (auto simp: less_eq_f64_def key_le_def split: if_splits)
  show "x \<le> y \<or> y \<le> x" by (auto simp: less_eq_f64_def key_le_def)
qed

end

end
