(* ===== verification/Layout_Interface.thy ===== *)
theory Layout_Interface imports Jmux_Prelude begin

text \<open>
  What a workspace relies on from its layout: a structure that holds panel identifiers, from which
  a panel can be removed and into which one can be put next to another. The client lemmas say that
  the operations keep a panel map and the layout in step, however the layout is represented.
\<close>

definition consistent :: "(uuid, 'v) hashmap \<Rightarrow> uuid list \<Rightarrow> bool" where
  "consistent m is \<longleftrightarrow> distinct (keys_of m) \<and> set (keys_of m) = set is"

locale panel_layout =
  fixes panel_ids :: "'l \<Rightarrow> uuid list"
    and ok :: "'l \<Rightarrow> bool"
    and remove :: "uuid \<Rightarrow> 'l \<Rightarrow> 'l \<times> bool"
    and add_tab :: "uuid \<Rightarrow> uuid \<Rightarrow> 'l \<Rightarrow> 'l \<times> bool"
    and split_at :: "uuid \<Rightarrow> uuid \<Rightarrow> 'o \<Rightarrow> 'd \<Rightarrow> 'l \<Rightarrow> 'l \<times> bool"
    and select :: "uuid \<Rightarrow> 'l \<Rightarrow> 'l \<times> bool"
  assumes ok_distinct: "ok l \<Longrightarrow> distinct (panel_ids l)"
    and remove_ids: "panel_ids (fst (remove p l)) = remove1 p (panel_ids l)"
    and remove_ok: "ok l \<Longrightarrow> ok (fst (remove p l))"
    and add_found: "snd (add_tab t p l) \<longleftrightarrow> t \<in> set (panel_ids l)"
    and add_ids: "t \<in> set (panel_ids l) \<Longrightarrow>
      mset (panel_ids (fst (add_tab t p l))) = add_mset p (mset (panel_ids l))"
    and add_ok: "ok l \<Longrightarrow> p \<notin> set (panel_ids l) \<Longrightarrow> ok (fst (add_tab t p l))"
    and split_found: "snd (split_at t p ori dir l) \<longleftrightarrow> t \<in> set (panel_ids l)"
    and split_ids: "t \<in> set (panel_ids l) \<Longrightarrow>
      mset (panel_ids (fst (split_at t p ori dir l))) = add_mset p (mset (panel_ids l))"
    and split_ok: "ok l \<Longrightarrow> p \<notin> set (panel_ids l) \<Longrightarrow> ok (fst (split_at t p ori dir l))"
    and select_found: "snd (select p l) \<longleftrightarrow> p \<in> set (panel_ids l)"
    and select_ids: "panel_ids (fst (select p l)) = panel_ids l"
    and select_ok: "ok l \<Longrightarrow> ok (fst (select p l))"
begin

lemma remove_set: "ok l \<Longrightarrow> set (panel_ids (fst (remove p l))) = set (panel_ids l) - {p}"
  by (simp add: remove_ids ok_distinct)

lemma add_set:
  "t \<in> set (panel_ids l) \<Longrightarrow> set (panel_ids (fst (add_tab t p l))) = insert p (set (panel_ids l))"
  by (metis add_ids set_mset_add_mset_insert set_mset_mset)

lemma split_set:
  "t \<in> set (panel_ids l) \<Longrightarrow> set (panel_ids (fst (split_at t p ori dir l))) = insert p (set (panel_ids l))"
  by (metis split_ids set_mset_add_mset_insert set_mset_mset)

text \<open>Taking a panel out of both the map and the layout keeps them in step.\<close>

lemma detach_consistent:
  "ok l \<Longrightarrow> consistent m (panel_ids l) \<Longrightarrow>
   consistent (AList.delete p m) (panel_ids (fst (remove p l)))"
  by (simp add: consistent_def remove_set distinct_keys_delete keys_delete del: set_map)

text \<open>Moving a panel beside another one, as a tab or in a new split, loses and adds nothing.\<close>

lemma move_tab:
  assumes "ok l" and "p \<noteq> t" and "p \<in> set (panel_ids l)" and "t \<in> set (panel_ids l)"
  shows "snd (add_tab t p (fst (remove p l)))"
    and "set (panel_ids (fst (add_tab t p (fst (remove p l))))) = set (panel_ids l)"
    and "ok (fst (add_tab t p (fst (remove p l))))"
  using assms by (auto simp: add_found add_set remove_set intro!: add_ok remove_ok)

lemma move_split:
  assumes "ok l" and "p \<noteq> t" and "p \<in> set (panel_ids l)" and "t \<in> set (panel_ids l)"
  shows "snd (split_at t p ori dir (fst (remove p l)))"
    and "set (panel_ids (fst (split_at t p ori dir (fst (remove p l))))) = set (panel_ids l)"
    and "ok (fst (split_at t p ori dir (fst (remove p l))))"
  using assms by (auto simp: split_found split_set remove_set intro!: split_ok remove_ok)

text \<open>A fresh panel enters the map and the layout together.\<close>

lemma insert_tab:
  assumes "ok l" and "consistent m (panel_ids l)" and "\<not> has_key p m" and "t \<in> set (panel_ids l)"
  shows "consistent (AList.update p v m) (panel_ids (fst (add_tab t p l)))"
    and "ok (fst (add_tab t p l))"
proof -
  have "p \<notin> set (panel_ids l)"
    using assms(2,3) has_key_iff [of m p] by (simp add: consistent_def del: set_map)
  then show "ok (fst (add_tab t p l))" using assms(1) by (simp add: add_ok)
  show "consistent (AList.update p v m) (panel_ids (fst (add_tab t p l)))"
    using assms(2,4) by (simp add: consistent_def add_set keys_update distinct_keys_update del: set_map)
qed

end

end
