(* ===== verification/Layout.thy ===== *)
theory Layout imports F64 Layout_Interface begin

text \<open>
  The layout tree of a workspace (\<open>LayoutNode\<close> in \<open>jmux/src/model/panel.rs\<close>): panes holding tabs,
  and binary splits. Methods taking \<open>&mut self\<close> return the new tree, with the \<open>bool\<close> the method
  returns. The second half of the theory characterises every operation by the list of panel
  identifiers of the tree, from left to right, and shows what it keeps.
\<close>

datatype SplitOrientation = Horizontal | Vertical

datatype Direction = DLeft | DRight | DUp | DDown

datatype LayoutNode =
    Pane "uuid list" "uuid option"
  | Split SplitOrientation f64 LayoutNode LayoutNode

definition half :: f64 where
  "half = Fin False (1 / 2)"

text \<open>The binary64 values of the literals \<open>0.05\<close> and \<open>0.95\<close>.\<close>

definition f64_0_05 :: f64 where
  "f64_0_05 = Fin False (3602879701896397 / 2 ^ 56)"

definition f64_0_95 :: f64 where
  "f64_0_95 = Fin False (4278419646001971 / 2 ^ 52)"

definition single_pane :: "uuid \<Rightarrow> LayoutNode" where
  "single_pane p = Pane [p] (Some p)"

definition split_node :: "LayoutNode \<Rightarrow> SplitOrientation \<Rightarrow> uuid \<Rightarrow> LayoutNode" where
  "split_node l ori p = Split ori half l (Pane [p] (Some p))"

fun all_panel_ids :: "LayoutNode \<Rightarrow> uuid list" where
  "all_panel_ids (Pane ps _) = ps"
| "all_panel_ids (Split _ _ a b) = all_panel_ids a @ all_panel_ids b"

text \<open>
  \<open>find_pane_with_panel\<close> returns a mutable reference to the first pane that holds the panel;
  here it takes what its caller does with that pane.
\<close>

fun update_pane :: "(LayoutNode \<Rightarrow> LayoutNode) \<Rightarrow> uuid \<Rightarrow> LayoutNode \<Rightarrow> LayoutNode option" where
  "update_pane f p (Pane ps sel) = (if p \<in> set ps then Some (f (Pane ps sel)) else None)"
| "update_pane f p (Split ori d a b) =
     (case update_pane f p a of
        Some a' \<Rightarrow> Some (Split ori d a' b)
      | None \<Rightarrow> map_option (Split ori d a) (update_pane f p b))"

fun find_pane_readonly :: "uuid \<Rightarrow> LayoutNode \<Rightarrow> uuid list option" where
  "find_pane_readonly p (Pane ps _) = (if p \<in> set ps then Some ps else None)"
| "find_pane_readonly p (Split _ _ a b) =
     or_else (find_pane_readonly p a) (find_pane_readonly p b)"

fun select_panel :: "uuid \<Rightarrow> LayoutNode \<Rightarrow> LayoutNode \<times> bool" where
  "select_panel p (Pane ps sel) =
     (if p \<in> set ps then (Pane ps (Some p), True) else (Pane ps sel, False))"
| "select_panel p (Split ori d a b) =
     (let (a', ok) = select_panel p a in
      if ok then (Split ori d a' b, True)
      else let (b', ok') = select_panel p b in (Split ori d a' b', ok'))"

fun node_is_empty :: "LayoutNode \<Rightarrow> bool" where
  "node_is_empty (Pane ps _) = (ps = [])"
| "node_is_empty (Split _ _ a b) = (node_is_empty a \<and> node_is_empty b)"

fun remove_panel :: "uuid \<Rightarrow> LayoutNode \<Rightarrow> LayoutNode \<times> bool" where
  "remove_panel p (Pane ps sel) =
     (case position (\<lambda>i. i = p) ps of
        Some pos \<Rightarrow>
          (let ps' = remove_at pos ps
           in (Pane ps' (if sel = Some p then head_opt ps' else sel), True))
      | None \<Rightarrow> (Pane ps sel, False))"
| "remove_panel p (Split ori d a b) =
     (let (a', ra) = remove_panel p a;
          (b', rb) = (if ra then (b, True) else remove_panel p b)
      in if rb
         then (if node_is_empty a' then (b', True)
               else if node_is_empty b' then (a', True)
               else (Split ori d a' b', True))
         else (Split ori d a' b', False))"

definition same_panel_set :: "LayoutNode \<Rightarrow> uuid list \<Rightarrow> bool" where
  "same_panel_set l expected \<longleftrightarrow> sort (all_panel_ids l) = sort expected"

fun set_divider_position_for_split ::
  "uuid list \<Rightarrow> uuid list \<Rightarrow> f64 \<Rightarrow> LayoutNode \<Rightarrow> LayoutNode \<times> bool" where
  "set_divider_position_for_split fs ss pos (Pane ps sel) = (Pane ps sel, False)"
| "set_divider_position_for_split fs ss pos (Split ori d a b) =
     (if same_panel_set a fs \<and> same_panel_set b ss
      then (Split ori (f64_clamp pos (Fin False 0) (Fin False 1)) a b, True)
      else let (a', ra) = set_divider_position_for_split fs ss pos a in
           if ra then (Split ori d a' b, True)
           else let (b', rb) = set_divider_position_for_split fs ss pos b
                in (Split ori d a' b', rb))"

fun resize_panel :: "uuid \<Rightarrow> f64 \<Rightarrow> LayoutNode \<Rightarrow> LayoutNode \<times> bool" where
  "resize_panel p amount (Pane ps sel) = (Pane ps sel, False)"
| "resize_panel p amount (Split ori d a b) =
     (let in_first = p \<in> set (all_panel_ids a); in_second = p \<in> set (all_panel_ids b) in
      if in_first \<or> in_second then
        (let (a', ra) = (if in_first then resize_panel p amount a else (a, False)) in
         if ra then (Split ori d a' b, True)
         else let (b', rb) = (if in_second then resize_panel p amount b else (b, False)) in
              if rb then (Split ori d a' b', True)
              else (Split ori
                     (f64_clamp (f64_add d (if in_first then amount else f64_neg amount))
                        f64_0_05 f64_0_95) a' b', True))
      else (Split ori d a b, False))"

definition next_in :: "uuid list \<Rightarrow> uuid \<Rightarrow> uuid option" where
  "next_in xs cur =
     (case position (\<lambda>i. i = cur) xs of
        None \<Rightarrow> None
      | Some pos \<Rightarrow> Some (xs ! ((pos + 1) mod length xs)))"

definition prev_in :: "uuid list \<Rightarrow> uuid \<Rightarrow> uuid option" where
  "prev_in xs cur =
     (case position (\<lambda>i. i = cur) xs of
        None \<Rightarrow> None
      | Some pos \<Rightarrow> Some (xs ! (if pos = 0 then length xs - 1 else pos - 1)))"

definition next_panel_id :: "LayoutNode \<Rightarrow> uuid \<Rightarrow> uuid option" where
  "next_panel_id l cur = next_in (all_panel_ids l) cur"

definition prev_panel_id :: "LayoutNode \<Rightarrow> uuid \<Rightarrow> uuid option" where
  "prev_panel_id l cur = prev_in (all_panel_ids l) cur"

definition swap_id :: "uuid \<Rightarrow> uuid \<Rightarrow> uuid \<Rightarrow> uuid" where
  "swap_id a b i = (if i = a then b else if i = b then a else i)"

fun swap_panels :: "uuid \<Rightarrow> uuid \<Rightarrow> LayoutNode \<Rightarrow> LayoutNode \<times> bool" where
  "swap_panels a b (Pane ps sel) =
     (Pane (map (swap_id a b) ps) (map_option (swap_id a b) sel), a \<in> set ps \<or> b \<in> set ps)"
| "swap_panels a b (Split ori d x y) =
     (let (x', c1) = swap_panels a b x; (y', c2) = swap_panels a b y
      in (Split ori d x' y', c1 \<or> c2))"

definition matches_axis :: "SplitOrientation \<Rightarrow> Direction \<Rightarrow> bool" where
  "matches_axis ori dir =
     (case ori of
        Horizontal \<Rightarrow> dir = DLeft \<or> dir = DRight
      | Vertical \<Rightarrow> dir = DUp \<or> dir = DDown)"

fun neighbor :: "uuid \<Rightarrow> Direction \<Rightarrow> LayoutNode \<Rightarrow> uuid option" where
  "neighbor p dir (Pane _ _) = None"
| "neighbor p dir (Split ori _ a b) =
     (let in_first = p \<in> set (all_panel_ids a); in_second = p \<in> set (all_panel_ids b) in
      if matches_axis ori dir then
        (let want_second = (dir = DRight \<or> dir = DDown) in
         if in_first \<and> want_second then
           or_else (neighbor p dir a) (head_opt (all_panel_ids b))
         else if in_second \<and> \<not> want_second then
           or_else (neighbor p dir b) (last_opt (all_panel_ids a))
         else if in_first then neighbor p dir a
         else neighbor p dir b)
      else if in_first then neighbor p dir a
      else if in_second then neighbor p dir b
      else None)"

fun reorder_pane :: "uuid \<Rightarrow> nat \<Rightarrow> LayoutNode \<Rightarrow> LayoutNode" where
  "reorder_pane p new_index (Pane ps sel) =
     (case position (\<lambda>i. i = p) ps of
        Some pos \<Rightarrow>
          (let ps' = remove_at pos ps
           in Pane (insert_at (min new_index (length ps')) p ps') sel)
      | None \<Rightarrow> Pane ps sel)"
| "reorder_pane p new_index l = l"

definition with_pane ::
  "(LayoutNode \<Rightarrow> LayoutNode) \<Rightarrow> uuid \<Rightarrow> LayoutNode \<Rightarrow> LayoutNode \<times> bool" where
  "with_pane f p l = (case update_pane f p l of Some l' \<Rightarrow> (l', True) | None \<Rightarrow> (l, False))"

definition reorder_panel_in_pane :: "uuid \<Rightarrow> nat \<Rightarrow> LayoutNode \<Rightarrow> LayoutNode \<times> bool" where
  "reorder_panel_in_pane p new_index l = with_pane (reorder_pane p new_index) p l"

fun add_to_pane :: "uuid \<Rightarrow> uuid \<Rightarrow> LayoutNode \<Rightarrow> LayoutNode" where
  "add_to_pane target new (Pane ps sel) =
     (case position (\<lambda>i. i = target) ps of
        Some pos \<Rightarrow> Pane (insert_at (pos + 1) new ps) (Some new)
      | None \<Rightarrow> Pane (ps @ [new]) (Some new))"
| "add_to_pane target new l = l"

definition add_panel_to_pane :: "uuid \<Rightarrow> uuid \<Rightarrow> LayoutNode \<Rightarrow> LayoutNode \<times> bool" where
  "add_panel_to_pane target new l = with_pane (add_to_pane target new) target l"

fun split_pane_with_panel ::
  "uuid \<Rightarrow> uuid \<Rightarrow> SplitOrientation \<Rightarrow> Direction \<Rightarrow> LayoutNode \<Rightarrow> LayoutNode \<times> bool" where
  "split_pane_with_panel target p ori dir (Pane ps sel) =
     (if target \<notin> set ps then (Pane ps sel, False)
      else let new_pane = Pane [p] (Some p); new_first = (dir = DLeft \<or> dir = DUp)
           in (Split ori half (if new_first then new_pane else Pane ps sel)
                              (if new_first then Pane ps sel else new_pane), True))"
| "split_pane_with_panel target p ori dir (Split o2 d a b) =
     (let (a', ok) = split_pane_with_panel target p ori dir a in
      if ok then (Split o2 d a' b, True)
      else let (b', ok') = split_pane_with_panel target p ori dir b in (Split o2 d a' b', ok'))"

fun equalize :: "LayoutNode \<Rightarrow> LayoutNode \<times> bool" where
  "equalize (Pane ps sel) = (Pane ps sel, False)"
| "equalize (Split ori d a b) =
     (let changed = f64_lt f64_epsilon (f64_abs (f64_sub d half));
          (a', c1) = equalize a; (b', c2) = equalize b
      in (Split ori half a' b', changed \<or> c1 \<or> c2))"

fun next_panel_in_pane :: "LayoutNode \<Rightarrow> uuid \<Rightarrow> uuid option" where
  "next_panel_in_pane (Pane ps _) cur = next_in ps cur"
| "next_panel_in_pane (Split _ _ a b) cur =
     or_else (next_panel_in_pane a cur) (next_panel_in_pane b cur)"

fun prev_panel_in_pane :: "LayoutNode \<Rightarrow> uuid \<Rightarrow> uuid option" where
  "prev_panel_in_pane (Pane ps _) cur = prev_in ps cur"
| "prev_panel_in_pane (Split _ _ a b) cur =
     or_else (prev_panel_in_pane a cur) (prev_panel_in_pane b cur)"

section \<open>Well-formed layouts\<close>

text \<open>A pane selects one of its panels, and selects nothing only when it has none.\<close>

fun sel_ok :: "LayoutNode \<Rightarrow> bool" where
  "sel_ok (Pane ps sel) = (case sel of None \<Rightarrow> ps = [] | Some s \<Rightarrow> s \<in> set ps)"
| "sel_ok (Split _ _ a b) = (sel_ok a \<and> sel_ok b)"

text \<open>No pane is empty.\<close>

fun panes_filled :: "LayoutNode \<Rightarrow> bool" where
  "panes_filled (Pane ps _) = (ps \<noteq> [])"
| "panes_filled (Split _ _ a b) = (panes_filled a \<and> panes_filled b)"

text \<open>Every divider lies between 0 and 1.\<close>

fun dividers_ok :: "LayoutNode \<Rightarrow> bool" where
  "dividers_ok (Pane _ _) = True"
| "dividers_ok (Split _ d a b) =
     (f64_le (Fin False 0) d \<and> f64_le d (Fin False 1) \<and> dividers_ok a \<and> dividers_ok b)"

text \<open>Distinct panels, consistent selections, and an empty pane only as the whole tree.\<close>

definition layout_ok :: "LayoutNode \<Rightarrow> bool" where
  "layout_ok l \<longleftrightarrow>
     distinct (all_panel_ids l) \<and> sel_ok l \<and> (all_panel_ids l \<noteq> [] \<longrightarrow> panes_filled l)"

lemma half_between [simp]: "f64_le (Fin False 0) half" "f64_le half (Fin False 1)"
  by (simp_all add: half_def f64_le_def)

lemma node_is_empty_ids [simp]: "node_is_empty l \<longleftrightarrow> all_panel_ids l = []"
  by (induction l) auto

lemma panes_filled_nonempty: "panes_filled l \<Longrightarrow> all_panel_ids l \<noteq> []"
  by (induction l) auto

section \<open>Removing a panel\<close>

lemma remove_panel_found [ids]: "snd (remove_panel p l) \<longleftrightarrow> p \<in> set (all_panel_ids l)"
proof (induction l)
  case (Pane ps sel)
  then show ?case
    by (auto split: option.splits simp: Let_def position_None dest: position_Some)
next
  case (Split ori d a b)
  then show ?case by (auto simp: Let_def split: prod.splits)
qed

lemma remove_panel_miss: "p \<notin> set (all_panel_ids l) \<Longrightarrow> remove_panel p l = (l, False)"
proof (induction l)
  case (Pane ps sel)
  then show ?case by (auto split: option.splits dest: position_Some)
next
  case (Split ori d a b)
  then show ?case by (auto simp: Let_def split: prod.splits)
qed

text \<open>The characteristic equations the proofs below use instead of the defining ones.\<close>

lemma remove_panel_Pane:
  "remove_panel p (Pane ps sel) =
     (if p \<in> set ps
      then (Pane (remove1 p ps) (if sel = Some p then head_opt (remove1 p ps) else sel), True)
      else (Pane ps sel, False))"
  using remove_panel_miss [of p "Pane ps sel"] position_None [of "\<lambda>i. i = p" ps]
  by (auto simp: Let_def remove_at_position split: option.splits)

lemma remove_panel_Split:
  "remove_panel p (Split ori d a b) =
     (if p \<in> set (all_panel_ids a) then
        (let a' = fst (remove_panel p a)
         in (if node_is_empty a' then b else if node_is_empty b then a' else Split ori d a' b, True))
      else if p \<in> set (all_panel_ids b) then
        (let b' = fst (remove_panel p b)
         in (if node_is_empty a then b' else if node_is_empty b' then a else Split ori d a b', True))
      else (Split ori d a b, False))"
  using remove_panel_found [of p a] remove_panel_found [of p b] remove_panel_miss [of p a]
    remove_panel_miss [of p b]
  by (cases "remove_panel p a"; cases "remove_panel p b") (auto simp: Let_def)

lemmas remove_panel_eqs = remove_panel_Pane remove_panel_Split Let_def

declare remove_panel.simps [simp del]

lemma remove_panel_ids [ids]: "all_panel_ids (fst (remove_panel p l)) = remove1 p (all_panel_ids l)"
  by (induction l) (auto simp: remove_panel_eqs remove1_append remove1_idem)

lemma remove_panel_sel_ok [keeps]:
  "sel_ok l \<Longrightarrow> distinct (all_panel_ids l) \<Longrightarrow> sel_ok (fst (remove_panel p l))"
proof (induction l)
  case (Pane ps sel)
  then show ?case
    by (auto simp: remove_panel_eqs in_set_remove1 split: option.splits dest: head_opt_in)
next
  case (Split ori d a b)
  then show ?case by (auto simp: remove_panel_eqs)
qed

lemma remove_panel_filled [keeps]:
  "panes_filled l \<Longrightarrow> remove1 p (all_panel_ids l) \<noteq> [] \<Longrightarrow> panes_filled (fst (remove_panel p l))"
proof (induction l)
  case (Pane ps sel)
  then show ?case by (auto simp: remove_panel_eqs)
next
  case (Split ori d a b)
  then show ?case
    by (auto simp: remove_panel_eqs ids)
qed

lemma remove_panel_ok [keeps]: "layout_ok l \<Longrightarrow> layout_ok (fst (remove_panel p l))"
  by (auto simp: layout_ok_def ids intro: keeps)

lemma remove_panel_dividers [keeps]: "dividers_ok l \<Longrightarrow> dividers_ok (fst (remove_panel p l))"
  by (induction l) (auto simp: remove_panel_eqs)

section \<open>Operations on the pane that holds a panel\<close>

lemma update_pane_None: "update_pane f p l = None \<longleftrightarrow> p \<notin> set (all_panel_ids l)"
  by (induction l) (auto split: option.splits)

lemma update_pane_ids:
  assumes "update_pane f p l = Some l'"
    and "\<And>ps sel. p \<in> set ps \<Longrightarrow> mset (all_panel_ids (f (Pane ps sel))) = M + mset ps"
  shows "mset (all_panel_ids l') = M + mset (all_panel_ids l)"
  using assms by (induction l arbitrary: l') (auto split: option.splits if_splits)

lemma update_pane_sel_ok:
  assumes "update_pane f p l = Some l'" and "sel_ok l"
    and "\<And>ps sel. p \<in> set ps \<Longrightarrow> sel_ok (Pane ps sel) \<Longrightarrow> sel_ok (f (Pane ps sel))"
  shows "sel_ok l'"
  using assms(1,2)
proof (induction l arbitrary: l')
  case (Pane ps sel)
  then show ?case using assms(3) [of ps sel] by (simp split: if_splits)
next
  case (Split ori d a b)
  then show ?case by (auto split: option.splits)
qed

lemma update_pane_filled:
  assumes "update_pane f p l = Some l'" and "panes_filled l"
    and "\<And>ps sel. p \<in> set ps \<Longrightarrow> panes_filled (f (Pane ps sel))"
  shows "panes_filled l'"
  using assms(1,2)
proof (induction l arbitrary: l')
  case (Pane ps sel)
  then show ?case using assms(3) [of ps sel] by (simp split: if_splits)
next
  case (Split ori d a b)
  then show ?case by (auto split: option.splits)
qed

lemma with_pane_found: "snd (with_pane f p l) \<longleftrightarrow> p \<in> set (all_panel_ids l)"
  using update_pane_None [of f p l] by (auto simp: with_pane_def split: option.splits)

lemma with_pane_miss: "p \<notin> set (all_panel_ids l) \<Longrightarrow> with_pane f p l = (l, False)"
  using update_pane_None [of f p l] by (auto simp: with_pane_def split: option.splits)

lemma with_pane_ids:
  assumes "p \<in> set (all_panel_ids l)"
    and "\<And>ps sel. p \<in> set ps \<Longrightarrow> mset (all_panel_ids (f (Pane ps sel))) = M + mset ps"
  shows "mset (all_panel_ids (fst (with_pane f p l))) = M + mset (all_panel_ids l)"
  using assms update_pane_None [of f p l] update_pane_ids [of f p l _ M]
  by (auto simp: with_pane_def split: option.splits)

lemma with_pane_sel_ok:
  assumes "sel_ok l"
    and "\<And>ps sel. p \<in> set ps \<Longrightarrow> sel_ok (Pane ps sel) \<Longrightarrow> sel_ok (f (Pane ps sel))"
  shows "sel_ok (fst (with_pane f p l))"
  using assms update_pane_sel_ok [of f p l] by (auto simp: with_pane_def split: option.splits)

lemma with_pane_filled:
  assumes "panes_filled l" and "\<And>ps sel. p \<in> set ps \<Longrightarrow> panes_filled (f (Pane ps sel))"
  shows "panes_filled (fst (with_pane f p l))"
  using assms update_pane_filled [of f p l] by (auto simp: with_pane_def split: option.splits)

lemma add_to_pane_Pane:
  assumes "target \<in> set ps"
  obtains i where "i < length ps" "ps ! i = target"
    "\<And>sel. add_to_pane target new (Pane ps sel) = Pane (insert_at (i + 1) new ps) (Some new)"
proof -
  from assms obtain i where i: "position (\<lambda>j. j = target) ps = Some i"
    using position_exists [of target ps "\<lambda>j. j = target"] by auto
  then show ?thesis using position_Some [OF i] that [of i] by simp
qed

declare add_to_pane.simps(1) [simp del]

lemma add_panel_to_pane_found [ids]:
  "snd (add_panel_to_pane t p l) \<longleftrightarrow> t \<in> set (all_panel_ids l)"
  by (simp add: add_panel_to_pane_def with_pane_found)

lemma add_panel_to_pane_miss: "t \<notin> set (all_panel_ids l) \<Longrightarrow> add_panel_to_pane t p l = (l, False)"
  by (simp add: add_panel_to_pane_def with_pane_miss)

lemma add_panel_to_pane_ids [ids]:
  "t \<in> set (all_panel_ids l) \<Longrightarrow>
   mset (all_panel_ids (fst (add_panel_to_pane t p l))) = add_mset p (mset (all_panel_ids l))"
  unfolding add_panel_to_pane_def
  by (subst with_pane_ids [where M = "{#p#}"]) (auto elim: add_to_pane_Pane [of t _ p])

lemma add_panel_to_pane_sel_ok [keeps]: "sel_ok l \<Longrightarrow> sel_ok (fst (add_panel_to_pane t p l))"
  unfolding add_panel_to_pane_def
  by (rule with_pane_sel_ok) (auto elim: add_to_pane_Pane [of t _ p])

lemma add_panel_to_pane_filled [keeps]:
  "panes_filled l \<Longrightarrow> panes_filled (fst (add_panel_to_pane t p l))"
  unfolding add_panel_to_pane_def
  by (rule with_pane_filled) (auto simp: insert_at_def elim: add_to_pane_Pane [of t _ p])

lemma split_pane_found [ids]:
  "snd (split_pane_with_panel t p ori dir l) \<longleftrightarrow> t \<in> set (all_panel_ids l)"
  by (induction l) (auto simp: Let_def split: prod.splits)

lemma split_pane_miss:
  "t \<notin> set (all_panel_ids l) \<Longrightarrow> split_pane_with_panel t p ori dir l = (l, False)"
  by (induction l) (auto simp: Let_def)

lemma split_pane_ids [ids]:
  "t \<in> set (all_panel_ids l) \<Longrightarrow>
   mset (all_panel_ids (fst (split_pane_with_panel t p ori dir l))) = add_mset p (mset (all_panel_ids l))"
proof (induction l)
  case (Pane ps sel)
  then show ?case by (auto simp: Let_def)
next
  case (Split o2 d a b)
  then show ?case
    using split_pane_found [of t p ori dir a] split_pane_miss [of t a p ori dir]
    by (auto simp: Let_def split: prod.splits)
qed

lemma split_pane_sel_ok [keeps]:
  "sel_ok l \<Longrightarrow> sel_ok (fst (split_pane_with_panel t p ori dir l))"
  by (induction l) (auto simp: Let_def split: prod.splits)

lemma split_pane_filled [keeps]:
  "panes_filled l \<Longrightarrow> panes_filled (fst (split_pane_with_panel t p ori dir l))"
  by (induction l) (auto simp: Let_def split: prod.splits)

lemma split_node_ids [ids]: "all_panel_ids (split_node l ori p) = all_panel_ids l @ [p]"
  by (simp add: split_node_def)

lemma split_node_sel_ok [keeps]: "sel_ok l \<Longrightarrow> sel_ok (split_node l ori p)"
  by (simp add: split_node_def)

lemma split_node_filled [keeps]: "panes_filled l \<Longrightarrow> panes_filled (split_node l ori p)"
  by (simp add: split_node_def)

lemma select_panel_found [ids]: "snd (select_panel p l) \<longleftrightarrow> p \<in> set (all_panel_ids l)"
  by (induction l) (auto simp: Let_def split: prod.splits)

lemma select_panel_ids [ids]: "all_panel_ids (fst (select_panel p l)) = all_panel_ids l"
  by (induction l) (auto simp: Let_def split: prod.splits)

lemma select_panel_sel_ok [keeps]: "sel_ok l \<Longrightarrow> sel_ok (fst (select_panel p l))"
  by (induction l) (auto simp: Let_def split: prod.splits)

lemma select_panel_filled [keeps]: "panes_filled l \<Longrightarrow> panes_filled (fst (select_panel p l))"
  by (induction l) (auto simp: Let_def split: prod.splits)

lemma layout_okI:
  assumes "mset (all_panel_ids l') = add_mset p (mset (all_panel_ids l))" "layout_ok l"
    "p \<notin> set (all_panel_ids l)" "sel_ok l'" "panes_filled l'"
  shows "layout_ok l'"
proof -
  have "mset (all_panel_ids l') = mset (p # all_panel_ids l)" using assms(1) by simp
  then have "distinct (all_panel_ids l')"
    using assms(2,3) mset_eq_imp_distinct_iff [of _ "p # all_panel_ids l"] by (auto simp: layout_ok_def)
  then show ?thesis using assms(4,5) by (simp add: layout_ok_def)
qed

lemma layout_okD:
  "layout_ok l \<Longrightarrow> sel_ok l"
  "layout_ok l \<Longrightarrow> distinct (all_panel_ids l)"
  "layout_ok l \<Longrightarrow> p \<in> set (all_panel_ids l) \<Longrightarrow> panes_filled l"
  by (auto simp: layout_ok_def)

lemma split_pane_ok [keeps]:
  "layout_ok l \<Longrightarrow> p \<notin> set (all_panel_ids l) \<Longrightarrow> layout_ok (fst (split_pane_with_panel t p ori dir l))"
  by (cases "t \<in> set (all_panel_ids l)")
    (auto simp: ids split_pane_miss intro!: layout_okI [of _ p l] keeps dest: layout_okD)

lemma add_panel_to_pane_ok [keeps]:
  "layout_ok l \<Longrightarrow> p \<notin> set (all_panel_ids l) \<Longrightarrow> layout_ok (fst (add_panel_to_pane t p l))"
  by (cases "t \<in> set (all_panel_ids l)")
    (auto simp: ids add_panel_to_pane_miss intro!: layout_okI [of _ p l] keeps dest: layout_okD)

lemma select_panel_ok [keeps]: "layout_ok l \<Longrightarrow> layout_ok (fst (select_panel p l))"
  by (auto simp: layout_ok_def ids intro: keeps)

lemma single_pane_ok [simp]: "layout_ok (single_pane p)"
  by (simp add: single_pane_def layout_ok_def)

lemma single_pane_ids [ids, simp]: "all_panel_ids (single_pane p) = [p]"
  by (simp add: single_pane_def)

section \<open>The layout tree provides the interface a workspace uses\<close>

interpretation lay: panel_layout all_panel_ids layout_ok remove_panel add_panel_to_pane
  split_pane_with_panel select_panel
  by unfold_locales (auto simp: ids keeps dest: layout_okD)

end
