(* ===== verification/Rust_Str.thy ===== *)
theory Rust_Str imports Jmux_Prelude begin

text \<open>
  Rust strings as the bytes of their UTF-8 encoding: \<open>len\<close> is \<open>length\<close>, and a byte that continues a
  code point is one of \<open>0x80\<close> to \<open>0xBF\<close>. The operations are those the source calls: cutting at a
  character boundary, taking characters, trimming and splitting at Unicode white space.
\<close>

type_synonym rstr = string

definition is_cont :: "char \<Rightarrow> bool" where
  "is_cont c \<longleftrightarrow> 128 \<le> (of_char c :: nat) \<and> (of_char c :: nat) < 192"

definition is_char_boundary :: "rstr \<Rightarrow> nat \<Rightarrow> bool" where
  "is_char_boundary s i \<longleftrightarrow>
     i = 0 \<or> (if i \<ge> length s then i = length s else \<not> is_cont (s ! i))"

fun back_to_boundary :: "rstr \<Rightarrow> nat \<Rightarrow> nat" where
  "back_to_boundary s 0 = 0"
| "back_to_boundary s (Suc n) =
     (if is_char_boundary s (Suc n) then Suc n else back_to_boundary s n)"

text \<open>\<open>truncate_str\<close> of \<open>model/workspace.rs\<close>: the longest prefix of at most \<open>max_bytes\<close> bytes.\<close>

definition truncate_str :: "rstr \<Rightarrow> nat \<Rightarrow> rstr" where
  "truncate_str s max_bytes =
     (if length s \<le> max_bytes then s else take (back_to_boundary s max_bytes) s)"

text \<open>\<open>chars().count()\<close> and \<open>chars().take(n)\<close> of valid UTF-8.\<close>

definition char_count :: "rstr \<Rightarrow> nat" where
  "char_count s = length (filter (\<lambda>c. \<not> is_cont c) s)"

fun take_chars :: "nat \<Rightarrow> rstr \<Rightarrow> rstr" where
  "take_chars n [] = []"
| "take_chars n (c # cs) =
     (if is_cont c then c # take_chars n cs
      else case n of 0 \<Rightarrow> [] | Suc m \<Rightarrow> c # take_chars m cs)"

text \<open>The encodings of the code points with the \<open>White_Space\<close> property.\<close>

definition white_space :: "rstr list" where
  "white_space =
     [[CHR 0x09], [CHR 0x0A], [CHR 0x0B], [CHR 0x0C], [CHR 0x0D], [CHR 0x20],
      [CHR 0xC2, CHR 0x85], [CHR 0xC2, CHR 0xA0], [CHR 0xE1, CHR 0x9A, CHR 0x80],
      [CHR 0xE2, CHR 0x80, CHR 0x80], [CHR 0xE2, CHR 0x80, CHR 0x81],
      [CHR 0xE2, CHR 0x80, CHR 0x82], [CHR 0xE2, CHR 0x80, CHR 0x83],
      [CHR 0xE2, CHR 0x80, CHR 0x84], [CHR 0xE2, CHR 0x80, CHR 0x85],
      [CHR 0xE2, CHR 0x80, CHR 0x86], [CHR 0xE2, CHR 0x80, CHR 0x87],
      [CHR 0xE2, CHR 0x80, CHR 0x88], [CHR 0xE2, CHR 0x80, CHR 0x89],
      [CHR 0xE2, CHR 0x80, CHR 0x8A], [CHR 0xE2, CHR 0x80, CHR 0xA8],
      [CHR 0xE2, CHR 0x80, CHR 0xA9], [CHR 0xE2, CHR 0x80, CHR 0xAF],
      [CHR 0xE2, CHR 0x81, CHR 0x9F], [CHR 0xE3, CHR 0x80, CHR 0x80]]"

definition starts_with :: "rstr \<Rightarrow> rstr \<Rightarrow> bool" where
  "starts_with p s \<longleftrightarrow> take (length p) s = p"

definition ends_with :: "rstr \<Rightarrow> rstr \<Rightarrow> bool" where
  "ends_with p s \<longleftrightarrow> starts_with (rev p) (rev s)"

definition strip_prefix :: "rstr \<Rightarrow> rstr \<Rightarrow> rstr option" where
  "strip_prefix p s = (if starts_with p s then Some (drop (length p) s) else None)"

definition strip_suffix :: "rstr \<Rightarrow> rstr \<Rightarrow> rstr option" where
  "strip_suffix p s = map_option rev (strip_prefix (rev p) (rev s))"

text \<open>The length of the white-space character a string starts with, if it starts with one.\<close>

definition ws_len :: "rstr list \<Rightarrow> rstr \<Rightarrow> nat option" where
  "ws_len ws s = map_option length (find (\<lambda>w. starts_with w s) ws)"

function trim_with :: "rstr list \<Rightarrow> rstr \<Rightarrow> rstr" where
  "trim_with ws s =
     (case ws_len ws s of
        None \<Rightarrow> s
      | Some n \<Rightarrow> if n = 0 \<or> s = [] then s else trim_with ws (drop n s))"
  by pat_completeness auto
termination
  by (relation "measure (\<lambda>(ws, s). length s)") auto

declare trim_with.simps [simp del]

definition trim_start :: "rstr \<Rightarrow> rstr" where
  "trim_start s = trim_with white_space s"

definition trim_end :: "rstr \<Rightarrow> rstr" where
  "trim_end s = rev (trim_with (map rev white_space) (rev s))"

definition trim :: "rstr \<Rightarrow> rstr" where
  "trim s = trim_end (trim_start s)"

text \<open>\<open>split_whitespace()\<close>: the maximal runs of characters that are not white space.\<close>

function split_ws :: "rstr \<Rightarrow> rstr \<Rightarrow> rstr list" where
  "split_ws acc s =
     (case s of
        [] \<Rightarrow> if acc = [] then [] else [rev acc]
      | c # cs \<Rightarrow>
          (case ws_len white_space s of
             None \<Rightarrow> split_ws (c # acc) cs
           | Some n \<Rightarrow> (if acc = [] then [] else [rev acc]) @ split_ws [] (drop (max 1 n) s)))"
  by pat_completeness auto
termination
  by (relation "measure (\<lambda>(acc, s). length s)") auto

declare split_ws.simps [simp del]

definition split_whitespace :: "rstr \<Rightarrow> rstr list" where
  "split_whitespace s = split_ws [] s"

fun join :: "rstr \<Rightarrow> rstr list \<Rightarrow> rstr" where
  "join sep [] = []"
| "join sep [x] = x"
| "join sep (x # y # zs) = x @ sep @ join sep (y # zs)"

definition to_ascii_lower :: "char \<Rightarrow> char" where
  "to_ascii_lower c =
     (if 65 \<le> (of_char c :: nat) \<and> (of_char c :: nat) \<le> 90 then char_of ((of_char c :: nat) + 32) else c)"

definition is_ascii_lower :: "char \<Rightarrow> bool" where
  "is_ascii_lower c \<longleftrightarrow> 97 \<le> (of_char c :: nat) \<and> (of_char c :: nat) \<le> 122"

definition is_ascii_digit :: "char \<Rightarrow> bool" where
  "is_ascii_digit c \<longleftrightarrow> 48 \<le> (of_char c :: nat) \<and> (of_char c :: nat) \<le> 57"

definition is_ascii_alnum :: "char \<Rightarrow> bool" where
  "is_ascii_alnum c \<longleftrightarrow>
     is_ascii_lower c \<or> is_ascii_digit c \<or> (65 \<le> (of_char c :: nat) \<and> (of_char c :: nat) \<le> 90)"

text \<open>\<open>to_string()\<close> of an unsigned number.\<close>

fun show_nat :: "nat \<Rightarrow> rstr" where
  "show_nat n =
     (if n < 10 then [char_of (48 + n)] else show_nat (n div 10) @ [char_of (48 + n mod 10)])"

declare show_nat.simps [simp del]

fun split_on :: "char \<Rightarrow> rstr \<Rightarrow> rstr \<Rightarrow> rstr list" where
  "split_on d acc [] = [rev acc]"
| "split_on d acc (c # cs) = (if c = d then rev acc # split_on d [] cs else split_on d (c # acc) cs)"

text \<open>
  \<open>Path::components()\<close> on Unix: repeated separators and inner \<open>.\<close> components vanish, a leading
  \<open>.\<close> of a relative path is kept.
\<close>

datatype component = RootDir | CurDir | ParentDir | Normal rstr

fun component_of :: "rstr \<Rightarrow> component option" where
  "component_of s = (if s = [] \<or> s = ''.'' then None else if s = ''..'' then Some ParentDir else Some (Normal s))"

definition components :: "rstr \<Rightarrow> component list" where
  "components p =
     (let parts = split_on (CHR ''/'') [] p;
          rest = List.map_filter component_of parts
      in if starts_with ''/'' p then RootDir # rest
         else if head_opt parts = Some ''.'' then CurDir # rest
         else rest)"

text \<open>\<open>Path::file_name()\<close>: the last component, when it is a normal one.\<close>

definition file_name :: "rstr \<Rightarrow> rstr option" where
  "file_name p = (case last_opt (components p) of Some (Normal s) \<Rightarrow> Some s | _ \<Rightarrow> None)"

definition contains_str :: "rstr \<Rightarrow> rstr \<Rightarrow> bool" where
  "contains_str needle s \<longleftrightarrow> (\<exists>i \<in> set [0..<Suc (length s)]. starts_with needle (drop i s))"

text \<open>\<open>str::replace\<close>: non-overlapping matches from the left.\<close>

function replace_all :: "rstr \<Rightarrow> rstr \<Rightarrow> rstr \<Rightarrow> rstr" where
  "replace_all pat to s =
     (case s of
        [] \<Rightarrow> []
      | c # cs \<Rightarrow>
          if pat \<noteq> [] \<and> starts_with pat s then to @ replace_all pat to (drop (length pat) s)
          else c # replace_all pat to cs)"
  by pat_completeness auto
termination
  by (relation "measure (\<lambda>(_, _, s). length s)") auto

declare replace_all.simps [simp del]

section \<open>Facts\<close>

lemma back_to_boundary_le: "back_to_boundary s n \<le> n"
  by (induction n) (auto simp: le_Suc_eq)

lemma back_to_boundary_ok: "is_char_boundary s (back_to_boundary s n)"
  by (induction n) (auto simp: is_char_boundary_def)

lemma back_to_boundary_max:
  "k \<le> n \<Longrightarrow> is_char_boundary s k \<Longrightarrow> k \<le> back_to_boundary s n"
  by (induction n) (auto simp: le_Suc_eq)

lemma truncate_str_take: "\<exists>k. truncate_str s n = take k s \<and> is_char_boundary s k \<and> k \<le> length s"
proof (cases "length s \<le> n")
  case True
  then show ?thesis
    by (intro exI [of _ "length s"]) (simp add: truncate_str_def is_char_boundary_def)
next
  case False
  then show ?thesis
    using back_to_boundary_le [of s n] back_to_boundary_ok [of s n]
    by (intro exI [of _ "back_to_boundary s n"]) (simp add: truncate_str_def)
qed

lemma length_truncate_str: "length (truncate_str s n) \<le> n"
  using back_to_boundary_le [of s n] by (simp add: truncate_str_def)

lemma truncate_str_idem: "truncate_str (truncate_str s n) n = truncate_str s n"
  using length_truncate_str [of s n] by (simp add: truncate_str_def [of "truncate_str s n"])

lemma starts_with_iff: "starts_with p s \<longleftrightarrow> (\<exists>r. s = p @ r)"
  by (metis append_eq_conv_conj append_take_drop_id starts_with_def)

lemma trim_with_empty [simp]: "trim_with ws [] = []"
  by (subst trim_with.simps) (auto split: option.splits)

lemma show_nat_nonempty [simp]: "show_nat n \<noteq> []"
  by (subst show_nat.simps) simp

section \<open>Valid UTF-8\<close>

text \<open>\<open>str::from_utf8\<close> accepts these bytes.\<close>

definition byte_in :: "nat \<Rightarrow> nat \<Rightarrow> char \<Rightarrow> bool" where
  "byte_in a b c \<longleftrightarrow> a \<le> of_char c \<and> of_char c \<le> b"

definition utf8_len :: "rstr \<Rightarrow> nat option" where
  "utf8_len s =
     (case s of
        [] \<Rightarrow> None
      | a # r \<Rightarrow>
          if byte_in 0 0x7F a then Some 1
          else if byte_in 0xC2 0xDF a
          then (case r of b # _ \<Rightarrow> if is_cont b then Some 2 else None | [] \<Rightarrow> None)
          else if byte_in 0xE0 0xEF a
          then (case r of
                  b # c # _ \<Rightarrow>
                    if byte_in (if a = CHR 0xE0 then 0xA0 else 0x80) (if a = CHR 0xED then 0x9F else 0xBF) b \<and> is_cont c
                    then Some 3 else None
                | _ \<Rightarrow> None)
          else if byte_in 0xF0 0xF4 a
          then (case r of
                  b # c # d # _ \<Rightarrow>
                    if byte_in (if a = CHR 0xF0 then 0x90 else 0x80) (if a = CHR 0xF4 then 0x8F else 0xBF) b
                       \<and> is_cont c \<and> is_cont d
                    then Some 4 else None
                | _ \<Rightarrow> None)
          else None)"

lemma utf8_len_pos: "utf8_len s = Some n \<Longrightarrow> 0 < n"
  by (auto simp: utf8_len_def split: list.splits if_splits)

function utf8_valid :: "rstr \<Rightarrow> bool" where
  "utf8_valid s =
     (if s = [] then True
      else case utf8_len s of None \<Rightarrow> False | Some n \<Rightarrow> utf8_valid (drop n s))"
  by pat_completeness auto
termination
  by (relation "measure length") (auto dest: utf8_len_pos)

declare utf8_valid.simps [simp del]

lemma utf8_valid_Nil [simp]: "utf8_valid []"
  by (simp add: utf8_valid.simps)

lemma utf8_valid_ascii: "byte_in 0 0x7F c \<Longrightarrow> utf8_valid (c # s) = utf8_valid s"
  by (subst utf8_valid.simps) (simp add: utf8_len_def)

end
