(* ===== verification/Panels.thy ===== *)
theory Panels imports Layout Rust_Str begin

text \<open>
  A panel of a workspace (\<open>Panel\<close>, \<open>PanelType\<close> and the \<open>Panel::new_*\<close> constructors of
  \<open>jmux/src/model/panel.rs\<close>), its display title, and the JSON rendering of a layout tree.
\<close>

datatype PanelType =
    Terminal | Browser | Markdown | Diff | Project | FilePreview | Notes | History | Vault
  | AgentMonitor | Graph

record git_branch =
  gb_branch :: rstr
  gb_is_dirty :: bool

record panel =
  p_id :: uuid
  p_panel_type :: PanelType
  p_title :: "rstr option"
  p_custom_title :: "rstr option"
  p_directory :: "rstr option"
  p_is_pinned :: bool
  p_is_manually_unread :: bool
  p_git_branch :: "git_branch option"
  p_listening_ports :: "16 word list"
  p_tty_name :: "rstr option"
  p_browser_url :: "rstr option"
  p_markdown_file :: "rstr option"
  p_command :: "rstr option"
  p_pending_scrollback :: "rstr option"
  p_pending_zoom :: "f64 option"
  p_parent_panel_id :: "uuid option"
  p_agent_session_id :: "rstr option"

text \<open>The fields every constructor sets alike; \<open>i\<close> is the fresh identifier.\<close>

definition blank_panel :: "uuid \<Rightarrow> PanelType \<Rightarrow> panel" where
  "blank_panel i ty =
     \<lparr> p_id = i, p_panel_type = ty, p_title = None, p_custom_title = None, p_directory = None,
       p_is_pinned = False, p_is_manually_unread = False, p_git_branch = None,
       p_listening_ports = [], p_tty_name = None, p_browser_url = None, p_markdown_file = None,
       p_command = None, p_pending_scrollback = None, p_pending_zoom = None,
       p_parent_panel_id = None, p_agent_session_id = None \<rparr>"

definition new_terminal :: "uuid \<Rightarrow> panel" where
  "new_terminal i = blank_panel i Terminal"

definition new_browser :: "uuid \<Rightarrow> panel" where
  "new_browser i = blank_panel i Browser"

definition new_diff :: "uuid \<Rightarrow> rstr option \<Rightarrow> panel" where
  "new_diff i dir = (blank_panel i Diff)\<lparr> p_title := Some ''Diff'', p_directory := dir \<rparr>"

definition new_project :: "uuid \<Rightarrow> rstr option \<Rightarrow> panel" where
  "new_project i dir = (blank_panel i Project)\<lparr> p_title := Some ''Project'', p_directory := dir \<rparr>"

definition new_notes :: "uuid \<Rightarrow> rstr \<Rightarrow> panel" where
  "new_notes i f =
     (blank_panel i Notes)\<lparr> p_title := or_else (file_name f) (Some ''Notes''), p_markdown_file := Some f \<rparr>"

definition new_file_preview :: "uuid \<Rightarrow> rstr \<Rightarrow> panel" where
  "new_file_preview i f =
     (blank_panel i FilePreview)\<lparr> p_title := file_name f, p_markdown_file := Some f \<rparr>"

definition new_markdown :: "uuid \<Rightarrow> rstr \<Rightarrow> panel" where
  "new_markdown i f = (blank_panel i Markdown)\<lparr> p_title := file_name f, p_markdown_file := Some f \<rparr>"

definition new_history :: "uuid \<Rightarrow> panel" where
  "new_history i = (blank_panel i History)\<lparr> p_title := Some ''History'' \<rparr>"

definition new_vault :: "uuid \<Rightarrow> panel" where
  "new_vault i = (blank_panel i Vault)\<lparr> p_title := Some ''Vault'' \<rparr>"

definition new_agent_monitor :: "uuid \<Rightarrow> rstr \<Rightarrow> rstr \<Rightarrow> panel" where
  "new_agent_monitor i transcript_path title =
     (blank_panel i AgentMonitor)\<lparr> p_title := Some title, p_markdown_file := Some transcript_path \<rparr>"

definition new_graph :: "uuid \<Rightarrow> rstr \<Rightarrow> panel" where
  "new_graph i graph_name =
     (blank_panel i Graph)\<lparr> p_title := Some (''graph: '' @ graph_name), p_command := Some graph_name \<rparr>"

definition fallback_title :: "PanelType \<Rightarrow> rstr option \<Rightarrow> rstr" where
  "fallback_title ty f =
     (case ty of
        Terminal \<Rightarrow> ''Terminal''
      | Browser \<Rightarrow> ''Browser''
      | AgentMonitor \<Rightarrow> ''Sub-agent''
      | Graph \<Rightarrow> ''Graph''
      | Markdown \<Rightarrow>
          (case Option.bind f file_name of Some s \<Rightarrow> s | None \<Rightarrow> ''Markdown'')
      | Diff \<Rightarrow> ''Diff''
      | Project \<Rightarrow> ''Project''
      | FilePreview \<Rightarrow>
          (case Option.bind f file_name of Some s \<Rightarrow> s | None \<Rightarrow> ''Preview'')
      | Notes \<Rightarrow> ''Notes''
      | History \<Rightarrow> ''History''
      | Vault \<Rightarrow> ''Vault'')"

definition display_title :: "panel \<Rightarrow> rstr" where
  "display_title p =
     (case p_custom_title p of
        Some t \<Rightarrow> t
      | None \<Rightarrow>
          (case p_title p of
             Some t \<Rightarrow> t
           | None \<Rightarrow> fallback_title (p_panel_type p) (p_markdown_file p)))"

section \<open>JSON\<close>

text \<open>A JSON value as \<open>serde_json\<close> builds it: integers that fit 64 bits are kept apart from other numbers,
  an object is the list of its fields, whose names are distinct.\<close>

datatype json =
    JNull
  | JBool bool
  | JNum f64
  | JInt int
  | JStr rstr
  | JArr "json list"
  | JObj "(rstr \<times> json) list"

definition json_opt_str :: "rstr option \<Rightarrow> json" where
  "json_opt_str s = (case s of None \<Rightarrow> JNull | Some t \<Rightarrow> JStr t)"

definition hex_digit :: "nat \<Rightarrow> char" where
  "hex_digit n = (if n < 10 then char_of (48 + n) else char_of (87 + n))"

text \<open>The lower-case hyphenated form of an identifier: 32 hexadecimal digits in five groups.\<close>

definition uuid_str :: "uuid \<Rightarrow> rstr" where
  "uuid_str u =
     (let h = map (\<lambda>k. hex_digit (u div 16 ^ (31 - k) mod 16)) [0..<32]
      in take 8 h @ ''-'' @ take 4 (drop 8 h) @ ''-'' @ take 4 (drop 12 h) @ ''-''
         @ take 4 (drop 16 h) @ ''-'' @ drop 20 h)"

definition panel_type_name :: "PanelType \<Rightarrow> rstr" where
  "panel_type_name ty =
     (case ty of
        Terminal \<Rightarrow> ''terminal'' | Browser \<Rightarrow> ''browser'' | Markdown \<Rightarrow> ''markdown'' | Diff \<Rightarrow> ''diff''
      | Project \<Rightarrow> ''project'' | FilePreview \<Rightarrow> ''filepreview'' | Notes \<Rightarrow> ''notes'' | History \<Rightarrow> ''history''
      | Vault \<Rightarrow> ''vault'' | AgentMonitor \<Rightarrow> ''agentmonitor'' | Graph \<Rightarrow> ''graph'')"

definition orientation_name :: "SplitOrientation \<Rightarrow> rstr" where
  "orientation_name ori = (case ori of Horizontal \<Rightarrow> ''horizontal'' | Vertical \<Rightarrow> ''vertical'')"

definition panel_json :: "uuid \<Rightarrow> panel \<Rightarrow> json" where
  "panel_json i p =
     JObj [(''id'', JStr (uuid_str i)), (''type'', JStr (panel_type_name (p_panel_type p))),
           (''title'', JStr (display_title p)), (''directory'', json_opt_str (p_directory p)),
           (''tty'', json_opt_str (p_tty_name p))]"

fun to_json_tree :: "(uuid, panel) hashmap \<Rightarrow> LayoutNode \<Rightarrow> json" where
  "to_json_tree panels (Pane ps sel) =
     JObj [(''type'', JStr ''pane''),
           (''panels'', JArr (List.map_filter (\<lambda>i. map_option (panel_json i) (map_of panels i)) ps)),
           (''selected'', json_opt_str (map_option uuid_str sel))]"
| "to_json_tree panels (Split ori d a b) =
     JObj [(''type'', JStr ''split''), (''orientation'', JStr (orientation_name ori)),
           (''divider_position'', JNum d), (''first'', to_json_tree panels a),
           (''second'', to_json_tree panels b)]"

end
