(* ===== verification/Layout_Nav.thy ===== *)
theory Layout_Nav imports Layout begin

text \<open>
  Facts about moving through a layout tree and rearranging it in place: cycling through panels,
  directional neighbours, reordering and swapping tabs, moving dividers, and where a new split
  puts a panel.
\<close>

section \<open>Cycling\<close>

lemma next_in_position:
  "next_in xs c = Some q \<Longrightarrow> \<exists>i < length xs. xs ! i = c \<and> q = xs ! (Suc i mod length xs)"
  by (auto simp: next_in_def split: option.splits dest!: position_Some)

lemma next_in_mem: "next_in xs c = Some q \<Longrightarrow> c \<in> set xs \<and> q \<in> set xs"
proof -
  assume "next_in xs c = Some q"
  then obtain i where i: "i < length xs" "xs ! i = c" "q = xs ! (Suc i mod length xs)"
    using next_in_position by blast
  then have "Suc i mod length xs < length xs" by (intro mod_less_divisor) auto
  with i show ?thesis by auto
qed

lemma next_in_None: "next_in xs c = None \<longleftrightarrow> c \<notin> set xs"
  by (auto simp: next_in_def position_None split: option.splits dest: position_Some)

lemma prev_in_None: "prev_in xs c = None \<longleftrightarrow> c \<notin> set xs"
  by (auto simp: prev_in_def position_None split: option.splits dest: position_Some)

lemma prev_in_nth:
  "distinct xs \<Longrightarrow> i < length xs \<Longrightarrow> prev_in xs (xs ! i) = Some (xs ! (if i = 0 then length xs - 1 else i - 1))"
  by (simp add: prev_in_def position_eq_index)

lemma next_in_prev_in:
  assumes "distinct xs" and "next_in xs c = Some q"
  shows "prev_in xs q = Some c"
proof -
  from assms(2) obtain i where i: "i < length xs" "xs ! i = c" "q = xs ! (Suc i mod length xs)"
    using next_in_position by blast
  show ?thesis
  proof (cases "Suc i = length xs")
    case True
    then have "q = xs ! 0" "0 < length xs" "length xs - 1 = i" using i by auto
    with i prev_in_nth [OF assms(1), of 0] show ?thesis by simp
  next
    case False
    with i prev_in_nth [OF assms(1), of "Suc i"] show ?thesis by simp
  qed
qed

lemma next_panel_in_pane_mem:
  "next_panel_in_pane l c = Some q \<Longrightarrow> c \<in> set (all_panel_ids l) \<and> q \<in> set (all_panel_ids l)"
  by (induction l) (auto simp: or_else_split dest: next_in_mem)

lemma prev_panel_in_pane_None: "prev_panel_in_pane l c = None \<longleftrightarrow> c \<notin> set (all_panel_ids l)"
  by (induction l) (auto simp: prev_in_None or_else_def split: option.splits)

lemma next_panel_in_pane_back:
  "distinct (all_panel_ids l) \<Longrightarrow> next_panel_in_pane l c = Some q \<Longrightarrow> prev_panel_in_pane l q = Some c"
proof (induction l)
  case (Pane ps sel)
  then show ?case by (simp add: next_in_prev_in)
next
  case (Split ori d a b)
  show ?case
  proof (cases "next_panel_in_pane a c = Some q")
    case True
    with Split show ?thesis by simp
  next
    case False
    with Split.prems(2) have b: "next_panel_in_pane b c = Some q" by (simp add: or_else_split)
    with Split.prems(1) have "prev_panel_in_pane a q = None"
      using next_panel_in_pane_mem [OF b] by (auto simp: prev_panel_in_pane_None)
    with b Split show ?thesis by simp
  qed
qed

section \<open>Directional neighbours\<close>

fun opposite :: "Direction \<Rightarrow> Direction" where
  "opposite DLeft = DRight" | "opposite DRight = DLeft" | "opposite DUp = DDown" | "opposite DDown = DUp"

lemma matches_axis_opposite [simp]: "matches_axis ori (opposite dir) = matches_axis ori dir"
  by (cases ori; cases dir) (auto simp: matches_axis_def)

lemma neighbor_mem:
  "neighbor p dir l = Some q \<Longrightarrow> p \<in> set (all_panel_ids l) \<and> q \<in> set (all_panel_ids l)"
  by (induction l)
    (auto simp: Let_def or_else_split split: if_splits dest: head_opt_in last_opt_in)

lemma neighbor_other: "distinct (all_panel_ids l) \<Longrightarrow> neighbor p dir l = Some q \<Longrightarrow> q \<noteq> p"
proof (induction l)
  case (Pane ps sel)
  then show ?case by simp
next
  case (Split ori d a b)
  then show ?case
    by (auto simp: Let_def or_else_split split: if_splits dest: head_opt_in last_opt_in neighbor_mem)
qed

lemma last_opt_Some: "xs \<noteq> [] \<Longrightarrow> \<exists>y. last_opt xs = Some y"
  by (simp add: last_opt_def)

lemma head_opt_Some: "xs \<noteq> [] \<Longrightarrow> \<exists>y. head_opt xs = Some y"
  by (cases xs) (simp_all add: head_opt_def)

lemma or_else_ex: "(\<exists>y. b = Some y) \<Longrightarrow> \<exists>y. or_else a b = Some y"
  by (cases a) auto

lemma neighbor_return:
  "distinct (all_panel_ids l) \<Longrightarrow> neighbor p dir l = Some q \<Longrightarrow> \<exists>r. neighbor q (opposite dir) l = Some r"
proof (induction l)
  case (Pane ps sel)
  then show ?case by simp
next
  case (Split ori d a b)
  have a: ?case if "neighbor p dir a = Some q"
  proof -
    from that have q: "q \<in> set (all_panel_ids a)" "q \<notin> set (all_panel_ids b)"
      using neighbor_mem [OF that] Split.prems(1) by auto
    have "\<exists>r. neighbor q (opposite dir) a = Some r" using Split that by auto
    with q show ?thesis by (auto simp: Let_def)
  qed
  have b: ?case if "neighbor p dir b = Some q"
  proof -
    from that have q: "q \<in> set (all_panel_ids b)" "q \<notin> set (all_panel_ids a)"
      using neighbor_mem [OF that] Split.prems(1) by auto
    have "\<exists>r. neighbor q (opposite dir) b = Some r" using Split that by auto
    with q show ?thesis by (auto simp: Let_def)
  qed
  have cross1: ?case if "matches_axis ori dir" "dir = DRight \<or> dir = DDown" "p \<in> set (all_panel_ids a)"
    "head_opt (all_panel_ids b) = Some q"
  proof -
    from that have q: "q \<in> set (all_panel_ids b)" "all_panel_ids a \<noteq> []"
      by (auto dest: head_opt_in)
    with that show ?thesis
      using last_opt_Some [OF q(2)] by (auto simp: Let_def or_else_def split: option.splits)
  qed
  have cross2: ?case if "matches_axis ori dir" "\<not> (dir = DRight \<or> dir = DDown)"
    "p \<in> set (all_panel_ids b)" "last_opt (all_panel_ids a) = Some q"
  proof -
    from that have q: "q \<in> set (all_panel_ids a)" "all_panel_ids b \<noteq> []"
      by (auto dest: last_opt_in)
    from that(2) have "opposite dir = DRight \<or> opposite dir = DDown" by (cases dir) auto
    with that q show ?thesis
      using head_opt_Some [OF q(2)] by (auto simp: Let_def or_else_def split: option.splits)
  qed
  from Split.prems(2) show ?case
    using a b cross1 cross2 by (auto simp: Let_def or_else_split split: if_splits)
qed

section \<open>Reordering and swapping\<close>

lemma find_pane_readonly_None: "find_pane_readonly p l = None \<longleftrightarrow> p \<notin> set (all_panel_ids l)"
  by (induction l) (auto simp: or_else_def split: option.splits)

lemma find_pane_readonly_mem:
  "find_pane_readonly p l = Some ps \<Longrightarrow> p \<in> set ps \<and> set ps \<subseteq> set (all_panel_ids l)"
  by (induction l) (auto simp: or_else_split split: if_splits)

lemma reorder_pane_Pane:
  "p \<in> set ps \<Longrightarrow>
   reorder_pane p n (Pane ps sel) = Pane (insert_at (min n (length ps - 1)) p (remove1 p ps)) sel"
  using position_exists [of p ps "\<lambda>i. i = p"]
  by (auto simp: Let_def remove_at_position length_remove1)

lemma reorder_pane_found:
  assumes "update_pane (reorder_pane p n) p l = Some l'" and "find_pane_readonly p l = Some ps"
  shows "find_pane_readonly p l' = Some (insert_at (min n (length ps - 1)) p (remove1 p ps))"
  using assms
proof (induction l arbitrary: l')
  case (Pane qs sel)
  then show ?case by (auto simp: reorder_pane_Pane simp del: reorder_pane.simps split: if_splits)
next
  case (Split ori d a b)
  show ?case
  proof (cases "p \<in> set (all_panel_ids a)")
    case True
    then obtain a' where "update_pane (reorder_pane p n) p a = Some a'"
      using update_pane_None [of "reorder_pane p n" p a] by auto
    moreover have "find_pane_readonly p a = Some ps"
      using True Split.prems(2) by (auto simp: or_else_split find_pane_readonly_None)
    ultimately show ?thesis using Split by auto
  next
    case False
    then have u: "update_pane (reorder_pane p n) p a = None" "find_pane_readonly p a = None"
      by (simp_all add: update_pane_None find_pane_readonly_None)
    with Split.prems obtain b' where "update_pane (reorder_pane p n) p b = Some b'"
      "l' = Split ori d a b'" by auto
    with u Split show ?thesis by auto
  qed
qed

lemma reorder_ids:
  "mset (all_panel_ids (fst (reorder_panel_in_pane p n l))) = mset (all_panel_ids l)"
proof (cases "p \<in> set (all_panel_ids l)")
  case True
  then show ?thesis
    unfolding reorder_panel_in_pane_def
    by (subst with_pane_ids [where M = "{#}"])
      (auto simp: reorder_pane_Pane simp del: reorder_pane.simps)
next
  case False
  then show ?thesis by (simp add: reorder_panel_in_pane_def with_pane_miss)
qed

lemma reorder_sel_ok [keeps]: "sel_ok l \<Longrightarrow> sel_ok (fst (reorder_panel_in_pane p n l))"
  unfolding reorder_panel_in_pane_def
  by (rule with_pane_sel_ok)
    (auto simp: reorder_pane_Pane simp del: reorder_pane.simps split: option.splits,
      metis in_set_remove1)

lemma reorder_filled [keeps]: "panes_filled l \<Longrightarrow> panes_filled (fst (reorder_panel_in_pane p n l))"
  unfolding reorder_panel_in_pane_def
  by (rule with_pane_filled)
    (auto simp: reorder_pane_Pane insert_at_def simp del: reorder_pane.simps)

lemma reorder_ok [keeps]:
  assumes "layout_ok l" shows "layout_ok (fst (reorder_panel_in_pane p n l))"
  using assms reorder_ids [of p n l] mset_eq_imp_distinct_iff [OF reorder_ids [of p n l]]
  by (auto simp: layout_ok_def intro: keeps)

lemma swap_id_swap_id [simp]: "swap_id a b (swap_id a b i) = i"
  by (simp add: swap_id_def)

lemma swap_id_inj: "inj (swap_id a b)"
  by (rule inj_on_inverseI [where g = "swap_id a b"]) simp

lemma swap_panels_ids [ids]: "all_panel_ids (fst (swap_panels a b l)) = map (swap_id a b) (all_panel_ids l)"
  by (induction l) (auto simp: Let_def split: prod.splits)

lemma swap_panels_changed:
  "snd (swap_panels a b l) \<longleftrightarrow> a \<in> set (all_panel_ids l) \<or> b \<in> set (all_panel_ids l)"
  by (induction l) (auto simp: Let_def split: prod.splits)

lemma swap_panels_twice: "fst (swap_panels a b (fst (swap_panels a b l))) = l"
  by (induction l) (auto simp: Let_def option.map_comp o_def option.map_ident split: prod.splits)

section \<open>Dividers\<close>

lemma resize_bounds:
  "f64_le (Fin False 0) f64_0_05" "f64_le f64_0_05 f64_0_95" "f64_le f64_0_95 (Fin False 1)"
  by (simp_all add: f64_0_05_def f64_0_95_def f64_le_def)

lemma resize_dividers:
  "dividers_ok l \<Longrightarrow> \<not> is_nan amount \<Longrightarrow> dividers_ok (fst (resize_panel p amount l))"
proof (induction l)
  case (Pane ps sel)
  then show ?case by simp
next
  case (Split ori d a b)
  have "is_finite d" using Split.prems(1) f64_le_finite [of "Fin False 0" d "Fin False 1"] by simp
  then have n: "\<not> is_nan (f64_add d x)" if "\<not> is_nan x" for x using that by (rule f64_add_not_nan)
  have "f64_le (Fin False 0) (f64_clamp y f64_0_05 f64_0_95) \<and>
      f64_le (f64_clamp y f64_0_05 f64_0_95) (Fin False 1)"
    if "\<not> is_nan y" for y
    using f64_clamp_bounds [OF that resize_bounds(2)] resize_bounds(1,3) by (blast intro: f64_le_trans)
  with n Split show ?case by (auto simp: Let_def split: prod.splits)
qed

lemma resize_ids [ids]: "all_panel_ids (fst (resize_panel p amount l)) = all_panel_ids l"
  by (induction l) (auto simp: Let_def split: prod.splits)

lemma set_divider_dividers:
  "dividers_ok l \<Longrightarrow> \<not> is_nan pos \<Longrightarrow> dividers_ok (fst (set_divider_position_for_split fs ss pos l))"
proof (induction l)
  case (Pane ps sel)
  then show ?case by simp
next
  case (Split ori d a b)
  have "f64_le (Fin False 0) (Fin False 1)" by (simp add: f64_le_def)
  from f64_clamp_bounds [OF Split.prems(2) this] Split show ?case
    by (auto simp: Let_def split: prod.splits)
qed

lemma equalize_ids [ids]: "all_panel_ids (fst (equalize l)) = all_panel_ids l"
  by (induction l) (auto simp: Let_def split: prod.splits)

lemma equalize_dividers: "dividers_ok (fst (equalize l))"
  by (induction l) (auto simp: Let_def split: prod.splits)

lemma half_sub_half: "\<not> f64_lt f64_epsilon (f64_abs (f64_sub half half))"
  by (simp add: half_def f64_sub_def f64_epsilon_def)

lemma equalize_again: "equalize (fst (equalize l)) = (fst (equalize l), False)"
  by (induction l) (auto simp: Let_def half_sub_half split: prod.splits)

section \<open>Where a split puts the new panel\<close>

lemma split_pane_place:
  assumes "find_pane_readonly t l = Some ps"
  shows "\<exists>xs ys. all_panel_ids l = xs @ ps @ ys \<and>
     all_panel_ids (fst (split_pane_with_panel t p ori dir l)) =
       (if dir = DLeft \<or> dir = DUp then xs @ p # ps @ ys else xs @ ps @ p # ys)"
  using assms
proof (induction l)
  case (Pane qs sel)
  then have "ps = qs" "t \<in> set qs" by (auto split: if_splits)
  then show ?case by (intro exI [of _ "[]"]) (simp add: Let_def)
next
  case (Split o2 d a b)
  show ?case
  proof (cases "t \<in> set (all_panel_ids a)")
    case True
    then have "find_pane_readonly t a = Some ps"
      using Split.prems by (auto simp: or_else_split find_pane_readonly_None)
    then obtain xs ys where "all_panel_ids a = xs @ ps @ ys"
      "all_panel_ids (fst (split_pane_with_panel t p ori dir a)) =
        (if dir = DLeft \<or> dir = DUp then xs @ p # ps @ ys else xs @ ps @ p # ys)"
      using Split.IH(1) by blast
    moreover have "snd (split_pane_with_panel t p ori dir a)" using True by (simp add: split_pane_found)
    ultimately show ?thesis
      by (rule_tac x = xs in exI, rule_tac x = "ys @ all_panel_ids b" in exI)
        (cases dir, simp_all add: split_beta Let_def)
  next
    case False
    then have "find_pane_readonly t b = Some ps"
      using Split.prems by (auto simp: or_else_split find_pane_readonly_None dest: find_pane_readonly_mem)
    then obtain xs ys where "all_panel_ids b = xs @ ps @ ys"
      "all_panel_ids (fst (split_pane_with_panel t p ori dir b)) =
        (if dir = DLeft \<or> dir = DUp then xs @ p # ps @ ys else xs @ ps @ p # ys)"
      using Split.IH(2) by blast
    then show ?thesis
      by (rule_tac x = "all_panel_ids a @ xs" in exI, rule_tac x = ys in exI)
        (cases dir, simp_all add: split_pane_miss [OF False] split_beta Let_def)
  qed
qed

end
