(* ===== verification/Remote_Config.thy ===== *)
theory Remote_Config imports Rust_Str begin

text \<open>
  The SSH configuration of a remote workspace and the command-line arguments built from it
  (\<open>RemoteConfig\<close> and \<open>RemoteState\<close> in \<open>jmux/src/remote/session.rs\<close>). Configurations come from
  session files, so the code filters whatever could be read as another flag.
\<close>

record remote_config =
  rc_destination :: rstr
  rc_port :: "16 word option"
  rc_identity :: "rstr option"
  rc_ssh_options :: "rstr list"
  rc_agent_forward :: bool
  rc_remote_daemon_path :: "rstr option"

datatype remote_state =
    Disconnected
  | Connecting
  | Connected "16 word" rstr
  | RemoteError rstr

definition valid_ssh_option :: "rstr \<Rightarrow> bool" where
  "valid_ssh_option opt \<longleftrightarrow>
     contains_str ''='' opt \<and> \<not> starts_with ''-'' opt \<and> length opt < 256"

definition ssh_args :: "remote_config \<Rightarrow> rstr list" where
  "ssh_args c =
     (if starts_with ''-'' (rc_destination c) then []
      else (if rc_agent_forward c then [''-A''] else [])
         @ (case rc_port c of None \<Rightarrow> [] | Some p \<Rightarrow> [''-p'', show_nat (unat p)])
         @ (case rc_identity c of
              None \<Rightarrow> []
            | Some i \<Rightarrow> if starts_with ''-'' i then [] else [''-i'', i])
         @ concat (map (\<lambda>opt. if valid_ssh_option opt then [''-o'', opt] else []) (rc_ssh_options c))
         @ [rc_destination c])"

definition daemon_path :: "remote_config \<Rightarrow> rstr" where
  "daemon_path c = (case rc_remote_daemon_path c of Some p \<Rightarrow> p | None \<Rightarrow> ''~/.jmux/bin/jmuxd-remote'')"

text \<open>
  How \<open>ssh\<close> reads the list: flags without a value, flags that take the next word, and the
  destination, which is the first word that does not start with a dash.
\<close>

fun ssh_parse :: "rstr list \<Rightarrow> ((rstr \<times> rstr option) list \<times> rstr option)" where
  "ssh_parse [] = ([], None)"
| "ssh_parse (w # ws) =
     (if w \<in> {''-p'', ''-i'', ''-o''}
      then (case ws of
              [] \<Rightarrow> ([(w, None)], None)
            | v # vs \<Rightarrow> (let (fs, d) = ssh_parse vs in ((w, Some v) # fs, d)))
      else if starts_with ''-'' w then (let (fs, d) = ssh_parse ws in ((w, None) # fs, d))
      else ([], Some w))"

lemma show_nat_no_dash: "\<not> starts_with ''-'' (show_nat n)"
proof (induction n rule: less_induct)
  case (less n)
  show ?case
  proof (cases "n < 10")
    case True
    then have "n \<in> {0,1,2,3,4,5,6,7,8,9}" by auto
    then show ?thesis by (subst show_nat.simps) (auto simp: starts_with_def char_of_eq_iff)
  next
    case False
    then have "\<not> starts_with ''-'' (show_nat (n div 10))" using less by simp
    then have "\<not> starts_with ''-'' (show_nat (n div 10) @ [char_of (48 + n mod 10)])"
      by (cases "show_nat (n div 10)") (auto simp: starts_with_def)
    with False show ?thesis by (subst show_nat.simps) simp
  qed
qed

lemma ssh_parse_options:
  "ssh_parse (concat (map (\<lambda>opt. if valid_ssh_option opt then [''-o'', opt] else []) opts) @ ws)
   = (let (fs, d) = ssh_parse ws in (map (\<lambda>o'. (''-o'', Some o')) (filter valid_ssh_option opts) @ fs, d))"
  by (induction opts) (auto simp: split_beta Let_def)

lemma ssh_parse_dest: "\<not> starts_with ''-'' d \<Longrightarrow> ssh_parse [d] = ([], Some d)"
  by (auto simp: starts_with_def)

lemma ssh_parse_args:
  "\<not> starts_with ''-'' (rc_destination c) \<Longrightarrow>
   ssh_parse (ssh_args c) =
     ((if rc_agent_forward c then [(''-A'', None)] else [])
      @ (case rc_port c of None \<Rightarrow> [] | Some p \<Rightarrow> [(''-p'', Some (show_nat (unat p)))])
      @ (case rc_identity c of
           None \<Rightarrow> []
         | Some i \<Rightarrow> if starts_with ''-'' i then [] else [(''-i'', Some i)])
      @ map (\<lambda>o'. (''-o'', Some o')) (filter valid_ssh_option (rc_ssh_options c)),
      Some (rc_destination c))"
  using ssh_parse_dest [of "rc_destination c"]
  by (simp add: ssh_args_def ssh_parse_options Let_def starts_with_def split: option.splits)

end
