(* ===== verification/Bounded_Log.thy ===== *)
theory Bounded_Log imports Jmux_Prelude begin

text \<open>
  The contract shared by every capped list of the program (closed tabs, closed workspaces, log
  entries, notifications, focus history): pushing appends the new entry, drops only the oldest
  ones, and never passes the cap. The client lemmas are about whole runs of pushes.
\<close>

locale bounded_log =
  fixes push :: "'a \<Rightarrow> 'a list \<Rightarrow> 'a list"
    and cap :: nat
  assumes push_drop: "\<exists>k. push x xs = drop k xs @ [x]"
    and push_cap: "length xs \<le> cap \<Longrightarrow> length (push x xs) \<le> cap"
begin

lemma push_last: "last (push x xs) = x" "push x xs \<noteq> []"
  using push_drop [of x xs] by auto

lemma push_set: "set (push x xs) \<subseteq> insert x (set xs)"
proof -
  obtain k where "push x xs = drop k xs @ [x]" using push_drop by blast
  then show ?thesis using set_drop_subset [of k xs] by auto
qed

lemma run_cap: "length xs \<le> cap \<Longrightarrow> length (fold push ys xs) \<le> cap"
  by (induction ys arbitrary: xs) (auto simp: push_cap)

text \<open>What is left after any number of pushes is a suffix of everything ever pushed, in order.\<close>

lemma run_suffix: "\<exists>k. fold push ys xs = drop k (xs @ ys)"
proof (induction ys arbitrary: xs)
  case Nil
  then show ?case by (intro exI [of _ 0]) simp
next
  case (Cons y ys)
  obtain k where k: "push y xs = drop k xs @ [y]" using push_drop by blast
  obtain j where "fold push ys (push y xs) = drop j (push y xs @ ys)" using Cons.IH by blast
  then have "fold push (y # ys) xs = drop (j + min k (length xs)) (xs @ y # ys)"
    by (cases "k \<le> length xs") (auto simp: k add.commute)
  then show ?case by blast
qed

end

text \<open>The two ways the source caps a list.\<close>

definition push_quarter :: "nat \<Rightarrow> 'a \<Rightarrow> 'a list \<Rightarrow> 'a list" where
  "push_quarter cap x xs = (if cap \<le> length xs then drop (length xs div 4) xs else xs) @ [x]"

definition push_capped :: "nat \<Rightarrow> 'a \<Rightarrow> 'a list \<Rightarrow> 'a list" where
  "push_capped cap x xs = keep_last cap (xs @ [x])"

lemma push_quarter_log: "4 \<le> cap \<Longrightarrow> bounded_log (push_quarter cap) cap"
proof
  fix x :: 'a and xs
  show "\<exists>k. push_quarter cap x xs = drop k xs @ [x]"
    by (cases "cap \<le> length xs") (auto simp: push_quarter_def intro: exI [of _ 0])
  assume "4 \<le> cap" and "length xs \<le> cap"
  then show "length (push_quarter cap x xs) \<le> cap" by (auto simp: push_quarter_def)
qed

lemma push_capped_log: "0 < cap \<Longrightarrow> bounded_log (push_capped cap) cap"
proof
  fix x :: 'a and xs
  assume "0 < cap"
  then show "\<exists>k. push_capped cap x xs = drop k xs @ [x]"
    by (auto simp: push_capped_def keep_last_def)
  show "length (push_capped cap x xs) \<le> cap"
    by (simp add: push_capped_def length_keep_last)
qed

end
