(* ===== verification/Workspaces.thy ===== *)
theory Workspaces imports Panels Layout_Nav Remote_Config Bounded_Log begin

text \<open>
  A workspace (\<open>Workspace\<close> in \<open>jmux/src/model/workspace.rs\<close>): the panels, the layout that arranges
  them, the focus, and the bounded lists of metadata agents report. Every method is a definition of
  the same name with the prefix \<open>ws_\<close> where the name is used elsewhere; \<open>now\<close> is the wall clock
  the method reads, and identifiers drawn with \<open>Uuid::new_v4()\<close> are arguments.
\<close>

record status_entry =
  se_key :: rstr
  se_value :: rstr
  se_icon :: "rstr option"
  se_color :: "rstr option"
  se_url :: "rstr option"
  se_timestamp :: f64

datatype metadata_format = FPlain | FMarkdown

record metadata_entry =
  me_key :: rstr
  me_value :: rstr
  me_icon :: "rstr option"
  me_color :: "rstr option"
  me_url :: "rstr option"
  me_priority :: int
  me_format :: metadata_format
  me_timestamp :: f64

record metadata_block =
  mb_key :: rstr
  mb_content :: rstr
  mb_priority :: int
  mb_timestamp :: f64

record log_entry =
  le_message :: rstr
  le_level :: rstr
  le_source :: "rstr option"
  le_timestamp :: f64

record progress =
  pg_value :: f64
  pg_label :: "rstr option"

record pr_check =
  pc_name :: rstr
  pc_conclusion :: rstr

record workspace =
  ws_id :: uuid
  ws_process_title :: rstr
  ws_custom_title :: "rstr option"
  ws_custom_color :: "rstr option"
  ws_is_pinned :: bool
  ws_current_directory :: rstr
  ws_focused_panel_id :: "uuid option"
  ws_previous_focused_panel_id :: "uuid option"
  ws_zoomed_panel_id :: "uuid option"
  ws_layout :: LayoutNode
  ws_panels :: "(uuid, panel) hashmap"
  ws_status_entries :: "status_entry list"
  ws_metadata_entries :: "metadata_entry list"
  ws_metadata_blocks :: "metadata_block list"
  ws_log_entries :: "log_entry list"
  ws_progress :: "progress option"
  ws_git_branch :: "git_branch option"
  ws_unread_count :: u32
  ws_latest_notification :: "rstr option"
  ws_latest_notification_at :: "f64 option"
  ws_attention_panel_id :: "uuid option"
  ws_pr_status :: "rstr option"
  ws_pr_url :: "rstr option"
  ws_pr_checks :: "pr_check list"
  ws_window_id :: "uuid option"
  ws_group_id :: "uuid option"
  ws_remote_config :: "remote_config option"
  ws_remote_state :: "remote_state option"
  ws_imessage_mode :: bool
  ws_closed_panels :: "panel list"
  ws_env :: "(rstr \<times> rstr) list"
  ws_description :: "rstr option"
  ws_subagent_monitor :: bool

definition CLOSED_PANELS_CAP :: nat where "CLOSED_PANELS_CAP = 10"
definition MAX_STATUS_ENTRIES :: nat where "MAX_STATUS_ENTRIES = 100"
definition MAX_STATUS_KEY_LEN :: nat where "MAX_STATUS_KEY_LEN = 256"
definition MAX_STATUS_VALUE_LEN :: nat where "MAX_STATUS_VALUE_LEN = 4096"
definition MAX_METADATA_ENTRIES :: nat where "MAX_METADATA_ENTRIES = 100"
definition MAX_METADATA_BLOCKS :: nat where "MAX_METADATA_BLOCKS = 50"
definition MAX_BLOCK_CONTENT_LEN :: nat where "MAX_BLOCK_CONTENT_LEN = 32768"
definition MAX_LOG_ENTRIES :: nat where "MAX_LOG_ENTRIES = 1000"
definition MAX_LOG_MESSAGE_LEN :: nat where "MAX_LOG_MESSAGE_LEN = 8192"

section \<open>Construction\<close>

text \<open>\<open>home\<close> is the value of the environment variable \<open>HOME\<close>.\<close>

definition ws_new :: "rstr option \<Rightarrow> uuid \<Rightarrow> uuid \<Rightarrow> workspace" where
  "ws_new home wid pid =
     \<lparr> ws_id = wid, ws_process_title = ''Terminal'', ws_custom_title = None, ws_custom_color = None,
       ws_is_pinned = False,
       ws_current_directory = (case home of Some h \<Rightarrow> h | None \<Rightarrow> ''/''),
       ws_focused_panel_id = Some pid, ws_previous_focused_panel_id = None,
       ws_zoomed_panel_id = None, ws_layout = single_pane pid,
       ws_panels = [(pid, new_terminal pid)], ws_status_entries = [], ws_metadata_entries = [],
       ws_metadata_blocks = [], ws_log_entries = [], ws_progress = None, ws_git_branch = None,
       ws_unread_count = 0, ws_latest_notification = None, ws_latest_notification_at = None,
       ws_attention_panel_id = None, ws_pr_status = None, ws_pr_url = None, ws_pr_checks = [],
       ws_window_id = None, ws_group_id = None, ws_remote_config = None, ws_remote_state = None,
       ws_imessage_mode = False, ws_closed_panels = [], ws_env = [], ws_description = None,
       ws_subagent_monitor = False \<rparr>"

text \<open>\<open>panels.get_mut(i)\<close> followed by a mutation.\<close>

definition modify_panel :: "uuid \<Rightarrow> (panel \<Rightarrow> panel) \<Rightarrow> (uuid, panel) hashmap \<Rightarrow> (uuid, panel) hashmap" where
  "modify_panel i f m = map (\<lambda>(k, p). if k = i then (k, f p) else (k, p)) m"

definition with_directory :: "rstr option \<Rightarrow> uuid \<Rightarrow> uuid \<Rightarrow> rstr \<Rightarrow> workspace" where
  "with_directory home wid pid dir =
     (let ws = (ws_new home wid pid)\<lparr> ws_current_directory := dir \<rparr> in
      case ws_focused_panel_id ws of
        Some i \<Rightarrow> ws\<lparr> ws_panels := modify_panel i (\<lambda>p. p\<lparr> p_directory := Some dir \<rparr>) (ws_panels ws) \<rparr>
      | None \<Rightarrow> ws)"

definition ws_display_title :: "workspace \<Rightarrow> rstr" where
  "ws_display_title ws =
     (case ws_custom_title ws of Some t \<Rightarrow> t | None \<Rightarrow> ws_process_title ws)"

definition inherited_terminal_directory :: "workspace \<Rightarrow> rstr option" where
  "inherited_terminal_directory ws =
     or_else
       (opt_filter (\<lambda>d. d \<noteq> [])
          (Option.bind (Option.bind (ws_focused_panel_id ws) (map_of (ws_panels ws))) p_directory))
       (opt_filter (\<lambda>d. d \<noteq> []) (Some (ws_current_directory ws)))"

section \<open>Panels and layout\<close>

definition panel_for_split :: "PanelType \<Rightarrow> uuid \<Rightarrow> panel" where
  "panel_for_split ty i =
     (case ty of
        Terminal \<Rightarrow> new_terminal i
      | Browser \<Rightarrow> new_browser i
      | Markdown \<Rightarrow> new_markdown i []
      | Diff \<Rightarrow> new_diff i None
      | Project \<Rightarrow> new_project i None
      | FilePreview \<Rightarrow> new_file_preview i []
      | Notes \<Rightarrow> new_notes i []
      | History \<Rightarrow> new_history i
      | Vault \<Rightarrow> new_vault i
      | AgentMonitor \<Rightarrow> new_terminal i
      | Graph \<Rightarrow> new_terminal i)"

text \<open>
  Both \<open>split\<close> and \<open>insert_panel\<close> split the pane of the focused panel, or the whole tree when no
  pane holds it.
\<close>

definition split_focused :: "uuid option \<Rightarrow> SplitOrientation \<Rightarrow> uuid \<Rightarrow> LayoutNode \<Rightarrow> LayoutNode" where
  "split_focused focused ori new l =
     (case Option.bind focused (\<lambda>f. update_pane (\<lambda>pane. split_node pane ori new) f l) of
        Some l' \<Rightarrow> l'
      | None \<Rightarrow> split_node l ori new)"

definition insert_panel :: "panel \<Rightarrow> SplitOrientation \<Rightarrow> workspace \<Rightarrow> workspace \<times> bool" where
  "insert_panel panel ori ws =
     (ws\<lparr> ws_panels := AList.update (p_id panel) panel (ws_panels ws),
          ws_layout := split_focused (ws_focused_panel_id ws) ori (p_id panel) (ws_layout ws),
          ws_previous_focused_panel_id := ws_focused_panel_id ws,
          ws_focused_panel_id := Some (p_id panel) \<rparr>, True)"

definition ws_split :: "SplitOrientation \<Rightarrow> PanelType \<Rightarrow> uuid \<Rightarrow> workspace \<Rightarrow> workspace \<times> uuid" where
  "ws_split ori ty fresh ws =
     (let new_panel = panel_for_split ty fresh; new_id = p_id new_panel
      in (ws\<lparr> ws_panels := AList.update new_id new_panel (ws_panels ws),
              ws_layout := split_focused (ws_focused_panel_id ws) ori new_id (ws_layout ws),
              ws_previous_focused_panel_id := ws_focused_panel_id ws,
              ws_focused_panel_id := Some new_id \<rparr>, new_id))"

text \<open>The tab to the left of a panel in its pane, or the one to its right.\<close>

definition adjacent_tab :: "uuid \<Rightarrow> LayoutNode \<Rightarrow> uuid option" where
  "adjacent_tab p l =
     Option.bind (find_pane_readonly p l) (\<lambda>pane.
       Option.bind (position (\<lambda>i. i = p) pane) (\<lambda>idx.
         if 0 < idx then Some (pane ! (idx - 1)) else get_at (idx + 1) pane))"

definition ws_remove_panel :: "uuid \<Rightarrow> workspace \<Rightarrow> workspace \<times> bool" where
  "ws_remove_panel p ws =
     (case map_of (ws_panels ws) p of
        None \<Rightarrow> (ws, False)
      | Some panel \<Rightarrow>
          (let panels' = AList.delete p (ws_panels ws);
               removing_focused = (ws_focused_panel_id ws = Some p);
               neighbor = (if removing_focused then adjacent_tab p (ws_layout ws) else None);
               l' = fst (remove_panel p (ws_layout ws))
           in (ws\<lparr> ws_panels := panels',
                   ws_closed_panels := push_capped CLOSED_PANELS_CAP panel (ws_closed_panels ws),
                   ws_layout := l',
                   ws_focused_panel_id :=
                     (if removing_focused
                      then or_else (opt_filter (\<lambda>i. has_key i panels') neighbor) (head_opt (all_panel_ids l'))
                      else ws_focused_panel_id ws) \<rparr>, True)))"

definition reopen_last_closed_panel :: "uuid \<Rightarrow> workspace \<Rightarrow> workspace \<times> uuid option" where
  "reopen_last_closed_panel fresh ws =
     (if ws_closed_panels ws = [] then (ws, None)
      else let panel = (last (ws_closed_panels ws))
                 \<lparr> p_id := fresh, p_pending_scrollback := None, p_tty_name := None \<rparr>;
               target = or_else (ws_focused_panel_id ws) (head_opt (all_panel_ids (ws_layout ws)))
           in (ws\<lparr> ws_closed_panels := butlast (ws_closed_panels ws),
                   ws_panels := AList.update fresh panel (ws_panels ws),
                   ws_layout := (case target of
                       Some t \<Rightarrow> fst (add_panel_to_pane t fresh (ws_layout ws))
                     | None \<Rightarrow> single_pane fresh),
                   ws_previous_focused_panel_id := ws_focused_panel_id ws,
                   ws_focused_panel_id := Some fresh \<rparr>, Some fresh))"

definition detach_panel :: "uuid \<Rightarrow> workspace \<Rightarrow> workspace \<times> panel option" where
  "detach_panel p ws =
     (case map_of (ws_panels ws) p of
        None \<Rightarrow> (ws, None)
      | Some panel \<Rightarrow>
          (let l' = fst (remove_panel p (ws_layout ws))
           in (ws\<lparr> ws_panels := AList.delete p (ws_panels ws),
                   ws_layout := l',
                   ws_focused_panel_id :=
                     (if ws_focused_panel_id ws = Some p then head_opt (all_panel_ids l')
                      else ws_focused_panel_id ws),
                   ws_previous_focused_panel_id :=
                     (if ws_previous_focused_panel_id ws = Some p then None
                      else ws_previous_focused_panel_id ws),
                   ws_zoomed_panel_id :=
                     (if ws_zoomed_panel_id ws = Some p then None else ws_zoomed_panel_id ws) \<rparr>,
               Some panel)))"

text \<open>The common end of a move inside a workspace: focus follows the panel when it was placed.\<close>

definition focus_moved :: "uuid \<Rightarrow> LayoutNode \<times> bool \<Rightarrow> workspace \<Rightarrow> workspace \<times> bool" where
  "focus_moved p r ws =
     (if snd r
      then (ws\<lparr> ws_layout := fst r, ws_previous_focused_panel_id := ws_focused_panel_id ws,
                ws_focused_panel_id := Some p \<rparr>, True)
      else (ws\<lparr> ws_layout := fst r \<rparr>, False))"

definition move_panel_to_pane :: "uuid \<Rightarrow> uuid \<Rightarrow> workspace \<Rightarrow> workspace \<times> bool" where
  "move_panel_to_pane source target ws =
     (if source = target then (ws, False)
      else if \<not> has_key source (ws_panels ws) \<or> \<not> has_key target (ws_panels ws) then (ws, False)
      else if (case find_pane_readonly target (ws_layout ws) of
                 Some ps \<Rightarrow> source \<in> set ps | None \<Rightarrow> False) then (ws, False)
      else focus_moved source
             (add_panel_to_pane target source (fst (remove_panel source (ws_layout ws)))) ws)"

definition split_panel_into_pane ::
  "uuid \<Rightarrow> uuid \<Rightarrow> SplitOrientation \<Rightarrow> Direction \<Rightarrow> workspace \<Rightarrow> workspace \<times> bool" where
  "split_panel_into_pane source target ori dir ws =
     (if source = target then (ws, False)
      else if \<not> has_key source (ws_panels ws) \<or> \<not> has_key target (ws_panels ws) then (ws, False)
      else focus_moved source
             (split_pane_with_panel target source ori dir (fst (remove_panel source (ws_layout ws)))) ws)"

definition orientation_of :: "Direction \<Rightarrow> SplitOrientation" where
  "orientation_of dir =
     (case dir of DLeft \<Rightarrow> Horizontal | DRight \<Rightarrow> Horizontal | DUp \<Rightarrow> Vertical | DDown \<Rightarrow> Vertical)"

definition drag_to_split :: "uuid \<Rightarrow> Direction \<Rightarrow> workspace \<Rightarrow> workspace \<times> bool" where
  "drag_to_split p dir ws =
     (if \<not> has_key p (ws_panels ws) then (ws, False)
      else let target = (if ws_focused_panel_id ws = Some p
                         then find (\<lambda>i. i \<noteq> p) (all_panel_ids (ws_layout ws))
                         else ws_focused_panel_id ws)
           in case target of
                None \<Rightarrow> (ws, False)
              | Some t \<Rightarrow>
                  (let l1 = fst (remove_panel p (ws_layout ws));
                       (l2, done') = split_pane_with_panel t p (orientation_of dir) dir l1;
                       l3 = (if done' then l2 else fst (add_panel_to_pane t p l2))
                   in (ws\<lparr> ws_layout := l3, ws_previous_focused_panel_id := ws_focused_panel_id ws,
                           ws_focused_panel_id := Some p \<rparr>, True)))"

definition ws_panel_ids :: "workspace \<Rightarrow> uuid list" where
  "ws_panel_ids ws = all_panel_ids (ws_layout ws)"

definition ws_is_empty :: "workspace \<Rightarrow> bool" where
  "ws_is_empty ws \<longleftrightarrow> ws_panels ws = []"

definition focus_panel :: "uuid \<Rightarrow> workspace \<Rightarrow> workspace \<times> bool" where
  "focus_panel p ws =
     (if \<not> has_key p (ws_panels ws) then (ws, False)
      else let (l', ok) = select_panel p (ws_layout ws) in
           if ok then
             (ws\<lparr> ws_layout := l',
                  ws_previous_focused_panel_id :=
                    (if ws_focused_panel_id ws \<noteq> Some p then ws_focused_panel_id ws
                     else ws_previous_focused_panel_id ws),
                  ws_focused_panel_id := Some p \<rparr>, True)
           else (ws\<lparr> ws_layout := l' \<rparr>, False))"

section \<open>Metadata reported by agents\<close>

text \<open>
  The three upserts share their shape: the entry with the key is rewritten in place; otherwise one
  entry is evicted when the list is full, and the new one goes to the end.
\<close>

definition evict_one :: "('e \<Rightarrow> 'e \<Rightarrow> bool) \<Rightarrow> nat \<Rightarrow> 'e list \<Rightarrow> 'e list" where
  "evict_one lt cap es =
     (if cap \<le> length es
      then (case min_index lt es of Some i \<Rightarrow> remove_at i es | None \<Rightarrow> es)
      else es)"

definition upsert :: "('e \<Rightarrow> rstr) \<Rightarrow> ('e \<Rightarrow> 'e \<Rightarrow> bool) \<Rightarrow> nat \<Rightarrow> rstr \<Rightarrow> ('e \<Rightarrow> 'e) \<Rightarrow> 'e \<Rightarrow> 'e list \<Rightarrow> 'e list" where
  "upsert key lt cap k rewrite fresh es =
     (if \<exists>e \<in> set es. key e = k then update_first (\<lambda>e. key e = k) rewrite es
      else evict_one lt cap es @ [fresh])"

definition older_status :: "status_entry \<Rightarrow> status_entry \<Rightarrow> bool" where
  "older_status a b \<longleftrightarrow> f64_lt (se_timestamp a) (se_timestamp b)"

definition set_status_with_url ::
  "f64 \<Rightarrow> rstr \<Rightarrow> rstr \<Rightarrow> rstr option \<Rightarrow> rstr option \<Rightarrow> rstr option \<Rightarrow> workspace \<Rightarrow> workspace" where
  "set_status_with_url now key value icon color url ws =
     (let key' = truncate_str key MAX_STATUS_KEY_LEN;
          value' = truncate_str value MAX_STATUS_VALUE_LEN;
          icon' = map_option (\<lambda>s. truncate_str s 256) icon;
          color' = map_option (\<lambda>s. truncate_str s 64) color;
          url' = map_option (\<lambda>s. truncate_str s 2048) url
      in ws\<lparr> ws_status_entries :=
           upsert se_key older_status MAX_STATUS_ENTRIES key'
             (\<lambda>e. e\<lparr> se_value := value', se_icon := icon', se_color := color', se_url := url',
                     se_timestamp := now \<rparr>)
             \<lparr> se_key = key', se_value = value', se_icon = icon', se_color = color', se_url = url',
               se_timestamp = now \<rparr>
             (ws_status_entries ws) \<rparr>)"

definition set_status ::
  "f64 \<Rightarrow> rstr \<Rightarrow> rstr \<Rightarrow> rstr option \<Rightarrow> rstr option \<Rightarrow> workspace \<Rightarrow> workspace" where
  "set_status now key value icon color ws = set_status_with_url now key value icon color None ws"

definition lower_metadata :: "metadata_entry \<Rightarrow> metadata_entry \<Rightarrow> bool" where
  "lower_metadata a b \<longleftrightarrow>
     me_priority a < me_priority b \<or>
     (me_priority a = me_priority b \<and> f64_lt (me_timestamp a) (me_timestamp b))"

definition set_metadata ::
  "f64 \<Rightarrow> rstr \<Rightarrow> rstr \<Rightarrow> rstr option \<Rightarrow> rstr option \<Rightarrow> rstr option \<Rightarrow> int \<Rightarrow> metadata_format \<Rightarrow>
   workspace \<Rightarrow> workspace" where
  "set_metadata now key value icon color url priority format ws =
     (let key' = truncate_str key MAX_STATUS_KEY_LEN;
          value' = truncate_str value MAX_STATUS_VALUE_LEN
      in ws\<lparr> ws_metadata_entries :=
           upsert me_key lower_metadata MAX_METADATA_ENTRIES key'
             (\<lambda>e. e\<lparr> me_value := value', me_icon := icon, me_color := color, me_url := url,
                     me_priority := priority, me_format := format, me_timestamp := now \<rparr>)
             \<lparr> me_key = key', me_value = value', me_icon = icon, me_color = color, me_url = url,
               me_priority = priority, me_format = format, me_timestamp = now \<rparr>
             (ws_metadata_entries ws) \<rparr>)"

definition clear_metadata :: "rstr \<Rightarrow> workspace \<Rightarrow> workspace" where
  "clear_metadata key ws =
     ws\<lparr> ws_metadata_entries := filter (\<lambda>e. me_key e \<noteq> key) (ws_metadata_entries ws) \<rparr>"

definition lower_block :: "metadata_block \<Rightarrow> metadata_block \<Rightarrow> bool" where
  "lower_block a b \<longleftrightarrow>
     mb_priority a < mb_priority b \<or>
     (mb_priority a = mb_priority b \<and> f64_lt (mb_timestamp a) (mb_timestamp b))"

definition set_metadata_block :: "f64 \<Rightarrow> rstr \<Rightarrow> rstr \<Rightarrow> int \<Rightarrow> workspace \<Rightarrow> workspace" where
  "set_metadata_block now key content priority ws =
     (let key' = truncate_str key MAX_STATUS_KEY_LEN;
          content' = truncate_str content MAX_BLOCK_CONTENT_LEN
      in ws\<lparr> ws_metadata_blocks :=
           upsert mb_key lower_block MAX_METADATA_BLOCKS key'
             (\<lambda>b. b\<lparr> mb_content := content', mb_priority := priority, mb_timestamp := now \<rparr>)
             \<lparr> mb_key = key', mb_content = content', mb_priority = priority, mb_timestamp = now \<rparr>
             (ws_metadata_blocks ws) \<rparr>)"

definition clear_metadata_block :: "rstr \<Rightarrow> workspace \<Rightarrow> workspace" where
  "clear_metadata_block key ws =
     ws\<lparr> ws_metadata_blocks := filter (\<lambda>b. mb_key b \<noteq> key) (ws_metadata_blocks ws) \<rparr>"

definition append_log :: "f64 \<Rightarrow> rstr \<Rightarrow> rstr \<Rightarrow> rstr option \<Rightarrow> workspace \<Rightarrow> workspace" where
  "append_log now message level source ws =
     ws\<lparr> ws_log_entries :=
       push_quarter MAX_LOG_ENTRIES
         \<lparr> le_message = truncate_str message MAX_LOG_MESSAGE_LEN, le_level = truncate_str level 64,
           le_source = map_option (\<lambda>s. truncate_str s 256) source, le_timestamp = now \<rparr>
         (ws_log_entries ws) \<rparr>"

definition sidebar_status_label :: "workspace \<Rightarrow> rstr option" where
  "sidebar_status_label ws =
     map_option se_value
       (or_else (find (\<lambda>e. se_key e = ''agent'') (rev (ws_status_entries ws)))
          (last_opt (ws_status_entries ws)))"

section \<open>Notifications\<close>

definition truncate_for_sidebar :: "rstr \<Rightarrow> nat \<Rightarrow> rstr" where
  "truncate_for_sidebar text max_chars =
     take_chars max_chars text @ (if max_chars < char_count text then ''...'' else [])"

definition notification_summary :: "rstr \<Rightarrow> rstr \<Rightarrow> rstr" where
  "notification_summary title body =
     (let t = trim title; b = trim body;
          summary = (if t \<noteq> [] \<and> b \<noteq> [] \<and> b = t then t
                     else if t \<noteq> [] \<and> b \<noteq> [] then t @ '': '' @ b
                     else if t \<noteq> [] then t
                     else if b \<noteq> [] then b
                     else ''Notification'')
      in truncate_for_sidebar (join '' '' (split_whitespace summary)) 120)"

definition saturating_inc :: "u32 \<Rightarrow> u32" where
  "saturating_inc n = (if n = - 1 then - 1 else n + 1)"

definition record_notification :: "f64 \<Rightarrow> rstr \<Rightarrow> rstr \<Rightarrow> uuid option \<Rightarrow> workspace \<Rightarrow> workspace" where
  "record_notification now title body panel_id ws =
     ws\<lparr> ws_unread_count := saturating_inc (ws_unread_count ws),
         ws_latest_notification := Some (notification_summary title body),
         ws_latest_notification_at := Some now,
         ws_attention_panel_id := opt_filter (\<lambda>i. has_key i (ws_panels ws)) panel_id \<rparr>"

definition mark_notifications_read :: "workspace \<Rightarrow> workspace" where
  "mark_notifications_read ws = ws\<lparr> ws_unread_count := 0 \<rparr>"

definition clear_attention :: "workspace \<Rightarrow> workspace" where
  "clear_attention ws = ws\<lparr> ws_attention_panel_id := None \<rparr>"

end
