(* ===== verification/Tab_Manager.thy ===== *)
theory Tab_Manager imports Workspaces begin

text \<open>
  The collection of workspaces behind the sidebar: \<open>TabManager\<close> in
  \<open>jmux/src/model/tab_manager.rs\<close> with the groups of \<open>jmux/src/model/workspace_group.rs\<close> and the
  placement setting of \<open>jmux/src/settings/mod.rs\<close>. Methods keep their names with the prefix
  \<open>tm_\<close>; the value a method returns comes second. Every index a method reads or inserts at is in
  range under the invariant of \<open>Tab_Manager_Facts\<close>, so no indexing panics.
\<close>

section \<open>Data\<close>

record closed_entry =
  ce_workspace :: workspace
  ce_closed_at :: nat
  ce_title :: rstr

record workspace_group =
  wg_id :: uuid
  wg_name :: rstr
  wg_color :: "rstr option"
  wg_collapsed :: bool
  wg_window_id :: "uuid option"

record tab_manager =
  tm_workspaces :: "workspace list"
  tm_selected_index :: "nat option"
  tm_groups :: "workspace_group list"
  tm_focus_history :: "uuid list"
  tm_focus_pos :: nat
  tm_closed_stack :: "closed_entry list"

datatype NewWorkspacePlacement = PEnd | PAfterCurrent | PTop

definition CLOSED_STACK_CAP :: nat where "CLOSED_STACK_CAP = 10"
definition FOCUS_HISTORY_CAP :: nat where "FOCUS_HISTORY_CAP = 50"

definition tm_new :: "workspace \<Rightarrow> tab_manager" where
  "tm_new ws = \<lparr> tm_workspaces = [ws], tm_selected_index = Some 0, tm_groups = [],
     tm_focus_history = [], tm_focus_pos = 0, tm_closed_stack = [] \<rparr>"

definition tm_empty :: tab_manager where
  "tm_empty = \<lparr> tm_workspaces = [], tm_selected_index = None, tm_groups = [],
     tm_focus_history = [], tm_focus_pos = 0, tm_closed_stack = [] \<rparr>"

section \<open>Selection\<close>

definition tm_selected :: "tab_manager \<Rightarrow> workspace option" where
  "tm_selected tm = Option.bind (tm_selected_index tm) (\<lambda>i. get_at i (tm_workspaces tm))"

definition tm_selected_id :: "tab_manager \<Rightarrow> uuid option" where
  "tm_selected_id tm = map_option ws_id (tm_selected tm)"

definition tm_select :: "nat \<Rightarrow> tab_manager \<Rightarrow> tab_manager \<times> bool" where
  "tm_select i tm =
     (if i < length (tm_workspaces tm) then (tm\<lparr> tm_selected_index := Some i \<rparr>, True) else (tm, False))"

definition workspace_index :: "uuid \<Rightarrow> tab_manager \<Rightarrow> nat option" where
  "workspace_index i tm = position (\<lambda>w. ws_id w = i) (tm_workspaces tm)"

definition select_by_id :: "uuid \<Rightarrow> tab_manager \<Rightarrow> tab_manager \<times> bool" where
  "select_by_id i tm =
     (case position (\<lambda>w. ws_id w = i) (tm_workspaces tm) of
        Some idx \<Rightarrow> (tm\<lparr> tm_selected_index := Some idx \<rparr>, True)
      | None \<Rightarrow> (tm, False))"

definition select_next :: "bool \<Rightarrow> tab_manager \<Rightarrow> tab_manager" where
  "select_next wrap tm =
     (if tm_workspaces tm = [] then tm
      else case tm_selected_index tm of
        Some i \<Rightarrow>
          if i + 1 < length (tm_workspaces tm) then tm\<lparr> tm_selected_index := Some (i + 1) \<rparr>
          else if wrap then tm\<lparr> tm_selected_index := Some 0 \<rparr> else tm
      | None \<Rightarrow> tm\<lparr> tm_selected_index := Some 0 \<rparr>)"

definition select_previous :: "bool \<Rightarrow> tab_manager \<Rightarrow> tab_manager" where
  "select_previous wrap tm =
     (if tm_workspaces tm = [] then tm
      else case tm_selected_index tm of
        Some i \<Rightarrow>
          if i = 0 \<and> wrap then tm\<lparr> tm_selected_index := Some (length (tm_workspaces tm) - 1) \<rparr>
          else if 0 < i then tm\<lparr> tm_selected_index := Some (i - 1) \<rparr> else tm
      | None \<Rightarrow> tm\<lparr> tm_selected_index := Some (length (tm_workspaces tm) - 1) \<rparr>)"

definition select_last :: "tab_manager \<Rightarrow> tab_manager" where
  "select_last tm =
     (if tm_workspaces tm = [] then tm
      else tm\<lparr> tm_selected_index := Some (length (tm_workspaces tm) - 1) \<rparr>)"

section \<open>Adding workspaces\<close>

definition add_workspace :: "workspace \<Rightarrow> tab_manager \<Rightarrow> tab_manager \<times> uuid" where
  "add_workspace ws tm =
     (let wss = tm_workspaces tm @ [ws]
      in (tm\<lparr> tm_workspaces := wss, tm_selected_index := Some (length wss - 1) \<rparr>, ws_id ws))"

definition add_workspace_at_top :: "workspace \<Rightarrow> tab_manager \<Rightarrow> tab_manager \<times> uuid" where
  "add_workspace_at_top ws tm =
     (tm\<lparr> tm_workspaces := ws # tm_workspaces tm, tm_selected_index := Some 0 \<rparr>, ws_id ws)"

definition add_workspace_after_current :: "workspace \<Rightarrow> tab_manager \<Rightarrow> tab_manager \<times> uuid" where
  "add_workspace_after_current ws tm =
     (let pos = (case tm_selected_index tm of Some i \<Rightarrow> i + 1 | None \<Rightarrow> 0)
      in (tm\<lparr> tm_workspaces := insert_at pos ws (tm_workspaces tm), tm_selected_index := Some pos \<rparr>, ws_id ws))"

definition add_workspace_with_placement ::
  "workspace \<Rightarrow> NewWorkspacePlacement \<Rightarrow> tab_manager \<Rightarrow> tab_manager \<times> uuid" where
  "add_workspace_with_placement ws placement tm =
     (case placement of
        PEnd \<Rightarrow> add_workspace ws tm
      | PAfterCurrent \<Rightarrow> add_workspace_after_current ws tm
      | PTop \<Rightarrow> add_workspace_at_top ws tm)"

definition add_workspace_keep_selection ::
  "workspace \<Rightarrow> NewWorkspacePlacement \<Rightarrow> tab_manager \<Rightarrow> tab_manager \<times> uuid" where
  "add_workspace_keep_selection ws placement tm =
     (let pos = (case placement of
                  PEnd \<Rightarrow> length (tm_workspaces tm)
                | PTop \<Rightarrow> 0
                | PAfterCurrent \<Rightarrow>
                    (case tm_selected_index tm of Some i \<Rightarrow> i + 1 | None \<Rightarrow> length (tm_workspaces tm)));
          tm1 = tm\<lparr> tm_workspaces := insert_at pos ws (tm_workspaces tm) \<rparr>
      in (case tm_selected_index tm of
            Some sel \<Rightarrow> if pos \<le> sel then tm1\<lparr> tm_selected_index := Some (sel + 1) \<rparr> else tm1
          | None \<Rightarrow> tm1, ws_id ws))"

section \<open>Removing workspaces\<close>

text \<open>\<open>now\<close> is the wall clock \<open>SystemTime::now()\<close> reads.\<close>

definition tm_remove :: "nat \<Rightarrow> nat \<Rightarrow> tab_manager \<Rightarrow> tab_manager \<times> workspace option" where
  "tm_remove now index tm =
     (if length (tm_workspaces tm) \<le> index then (tm, None)
      else let ws = tm_workspaces tm ! index;
               wss = remove_at index (tm_workspaces tm);
               closed = (if ws_panels ws \<noteq> []
                         then push_capped CLOSED_STACK_CAP
                                \<lparr> ce_workspace = ws, ce_closed_at = now, ce_title = ws_display_title ws \<rparr>
                                (tm_closed_stack tm)
                         else tm_closed_stack tm);
               sel = (if wss = [] then None
                      else case tm_selected_index tm of
                        Some s \<Rightarrow>
                          Some (if length wss \<le> s then length wss - 1 else if index < s then s - 1 else s)
                      | None \<Rightarrow> None)
           in (tm\<lparr> tm_workspaces := wss, tm_closed_stack := closed, tm_selected_index := sel \<rparr>, Some ws))"

definition remove_by_id :: "nat \<Rightarrow> uuid \<Rightarrow> tab_manager \<Rightarrow> tab_manager \<times> workspace option" where
  "remove_by_id now i tm =
     (case position (\<lambda>w. ws_id w = i) (tm_workspaces tm) of
        None \<Rightarrow> (tm, None)
      | Some idx \<Rightarrow> tm_remove now idx tm)"

definition find_workspace_with_panel :: "uuid \<Rightarrow> tab_manager \<Rightarrow> workspace option" where
  "find_workspace_with_panel p tm = find (\<lambda>w. has_key p (ws_panels w)) (tm_workspaces tm)"

definition close_panel :: "nat \<Rightarrow> uuid \<Rightarrow> tab_manager \<Rightarrow> tab_manager \<times> bool" where
  "close_panel now p tm =
     (case find_workspace_with_panel p tm of
        None \<Rightarrow> (tm, False)
      | Some ws \<Rightarrow>
          (let (ws', removed) = ws_remove_panel p ws;
               tm1 = tm\<lparr> tm_workspaces :=
                 update_first (\<lambda>w. has_key p (ws_panels w)) (\<lambda>_. ws') (tm_workspaces tm) \<rparr>
           in (if removed \<and> ws_is_empty ws' then fst (remove_by_id now (ws_id ws') tm1) else tm1, removed)))"

text \<open>Removing the listed indices from the highest to the lowest.\<close>

definition indices_where :: "(nat \<Rightarrow> 'a \<Rightarrow> bool) \<Rightarrow> 'a list \<Rightarrow> nat list" where
  "indices_where P xs = map fst (filter (\<lambda>(i, x). P i x) (enumerate 0 xs))"

definition remove_indices :: "nat list \<Rightarrow> 'a list \<Rightarrow> 'a list" where
  "remove_indices is xs = fold remove_at (rev is) xs"

definition close_others :: "uuid \<Rightarrow> tab_manager \<Rightarrow> tab_manager \<times> nat" where
  "close_others keep tm =
     (let to_remove = indices_where (\<lambda>_ w. ws_id w \<noteq> keep \<and> \<not> ws_is_pinned w) (tm_workspaces tm);
          wss = remove_indices to_remove (tm_workspaces tm)
      in (tm\<lparr> tm_workspaces := wss,
              tm_selected_index :=
                (case position (\<lambda>w. ws_id w = keep) wss of
                   Some i \<Rightarrow> Some i
                 | None \<Rightarrow> if wss = [] then None else Some 0) \<rparr>, length to_remove))"

definition close_above :: "uuid \<Rightarrow> tab_manager \<Rightarrow> tab_manager \<times> nat" where
  "close_above i tm =
     (case workspace_index i tm of
        None \<Rightarrow> (tm, 0)
      | Some target \<Rightarrow>
          (let to_remove = indices_where (\<lambda>_ w. \<not> ws_is_pinned w) (take target (tm_workspaces tm));
               wss = remove_indices to_remove (tm_workspaces tm)
           in (tm\<lparr> tm_workspaces := wss,
                   tm_selected_index :=
                     (case position (\<lambda>w. ws_id w = i) wss of
                        Some k \<Rightarrow> Some k
                      | None \<Rightarrow> tm_selected_index tm) \<rparr>, length to_remove)))"

definition close_below :: "uuid \<Rightarrow> tab_manager \<Rightarrow> tab_manager \<times> nat" where
  "close_below i tm =
     (case workspace_index i tm of
        None \<Rightarrow> (tm, 0)
      | Some target \<Rightarrow>
          (let to_remove = map (\<lambda>k. target + 1 + k)
                 (indices_where (\<lambda>_ w. \<not> ws_is_pinned w) (drop (target + 1) (tm_workspaces tm)));
               wss = remove_indices to_remove (tm_workspaces tm)
           in (tm\<lparr> tm_workspaces := wss,
                   tm_selected_index :=
                     (case tm_selected_index tm of
                        Some s \<Rightarrow> if length wss \<le> s then Some (length wss - 1) else Some s
                      | None \<Rightarrow> None) \<rparr>, length to_remove)))"

section \<open>Unread notifications and moves\<close>

definition or_zero :: "f64 option \<Rightarrow> f64" where
  "or_zero t = (case t of Some x \<Rightarrow> x | None \<Rightarrow> Fin False 0)"

definition latest_unread_index :: "tab_manager \<Rightarrow> nat option" where
  "latest_unread_index tm =
     map_option fst
       (last_max
          (\<lambda>(_, a) (_, b). or_zero (ws_latest_notification_at a) < or_zero (ws_latest_notification_at b) :: bool)
          (filter (\<lambda>(_, w). 0 < ws_unread_count w) (enumerate 0 (tm_workspaces tm))))"

definition select_latest_unread :: "tab_manager \<Rightarrow> tab_manager \<times> uuid option" where
  "select_latest_unread tm =
     (case latest_unread_index tm of
        None \<Rightarrow> (tm, None)
      | Some i \<Rightarrow> (tm\<lparr> tm_selected_index := Some i \<rparr>, map_option ws_id (get_at i (tm_workspaces tm))))"

definition move_workspace :: "nat \<Rightarrow> nat \<Rightarrow> tab_manager \<Rightarrow> tab_manager \<times> bool" where
  "move_workspace from to tm =
     (let n = length (tm_workspaces tm) in
      if n \<le> from \<or> n \<le> to \<or> from = to then (tm, from = to \<and> from < n)
      else
        (tm\<lparr> tm_workspaces := insert_at to (tm_workspaces tm ! from) (remove_at from (tm_workspaces tm)),
             tm_selected_index :=
               (case tm_selected_index tm of
                  None \<Rightarrow> None
                | Some s \<Rightarrow> Some (
                    if s = from then to
                    else if from < to \<and> from < s \<and> s \<le> to then s - 1
                    else if to < from \<and> to \<le> s \<and> s < from then s + 1
                    else s)) \<rparr>, True))"

text \<open>\<open>workspace_mut(id)\<close> followed by a mutation.\<close>

definition edit_workspace :: "uuid \<Rightarrow> (workspace \<Rightarrow> workspace) \<Rightarrow> tab_manager \<Rightarrow> tab_manager" where
  "edit_workspace i f tm =
     tm\<lparr> tm_workspaces := update_first (\<lambda>w. ws_id w = i) f (tm_workspaces tm) \<rparr>"

definition tm_workspace :: "uuid \<Rightarrow> tab_manager \<Rightarrow> workspace option" where
  "tm_workspace i tm = find (\<lambda>w. ws_id w = i) (tm_workspaces tm)"

definition move_panel_to_workspace ::
  "nat \<Rightarrow> uuid \<Rightarrow> uuid \<Rightarrow> tab_manager \<Rightarrow> tab_manager \<times> uuid option" where
  "move_panel_to_workspace now p target tm =
     (case find_workspace_with_panel p tm of
        None \<Rightarrow> (tm, None)
      | Some found \<Rightarrow>
          (let source = ws_id found in
           if source = target then (tm, None)
           else if tm_workspace target tm = None then (tm, None)
           else case tm_workspace source tm of
             None \<Rightarrow> (tm, None)
           | Some src \<Rightarrow>
               (case detach_panel p src of
                  (_, None) \<Rightarrow> (tm, None)
                | (src', Some panel) \<Rightarrow>
                    (let tm1 = edit_workspace source (\<lambda>_. src') tm;
                         source_empty = (case tm_workspace source tm1 of Some w \<Rightarrow> ws_is_empty w | None \<Rightarrow> False);
                         tm2 = (if source_empty then fst (remove_by_id now source tm1) else tm1)
                     in case tm_workspace target tm2 of
                          None \<Rightarrow> (tm2, None)
                        | Some _ \<Rightarrow>
                            (edit_workspace target (\<lambda>w. fst (insert_panel panel Horizontal w)) tm2,
                             Some target)))))"

section \<open>Groups\<close>

definition new_group :: "uuid \<Rightarrow> rstr \<Rightarrow> workspace_group" where
  "new_group i name = \<lparr> wg_id = i, wg_name = name, wg_color = None, wg_collapsed = False, wg_window_id = None \<rparr>"

definition tm_group :: "uuid \<Rightarrow> tab_manager \<Rightarrow> workspace_group option" where
  "tm_group i tm = find (\<lambda>g. wg_id g = i) (tm_groups tm)"

definition edit_group :: "uuid \<Rightarrow> (workspace_group \<Rightarrow> workspace_group) \<Rightarrow> tab_manager \<Rightarrow> tab_manager \<times> bool" where
  "edit_group i f tm =
     (case tm_group i tm of
        Some _ \<Rightarrow> (tm\<lparr> tm_groups := update_first (\<lambda>g. wg_id g = i) f (tm_groups tm) \<rparr>, True)
      | None \<Rightarrow> (tm, False))"

definition create_group :: "uuid \<Rightarrow> rstr \<Rightarrow> uuid option \<Rightarrow> tab_manager \<Rightarrow> tab_manager \<times> uuid" where
  "create_group fresh name window tm =
     (let g = (new_group fresh name)\<lparr> wg_window_id := window \<rparr>
      in (tm\<lparr> tm_groups := tm_groups tm @ [g] \<rparr>, wg_id g))"

definition remove_group :: "uuid \<Rightarrow> tab_manager \<Rightarrow> tab_manager \<times> bool" where
  "remove_group i tm =
     (let gs = filter (\<lambda>g. wg_id g \<noteq> i) (tm_groups tm) in
      if length gs = length (tm_groups tm) then (tm\<lparr> tm_groups := gs \<rparr>, False)
      else (tm\<lparr> tm_groups := gs,
               tm_workspaces :=
                 map (\<lambda>w. if ws_group_id w = Some i then w\<lparr> ws_group_id := None \<rparr> else w) (tm_workspaces tm) \<rparr>,
            True))"

definition rename_group :: "uuid \<Rightarrow> rstr \<Rightarrow> tab_manager \<Rightarrow> tab_manager \<times> bool" where
  "rename_group i name = edit_group i (\<lambda>g. g\<lparr> wg_name := name \<rparr>)"

definition set_group_color :: "uuid \<Rightarrow> rstr option \<Rightarrow> tab_manager \<Rightarrow> tab_manager \<times> bool" where
  "set_group_color i color = edit_group i (\<lambda>g. g\<lparr> wg_color := color \<rparr>)"

definition set_group_collapsed :: "uuid \<Rightarrow> bool option \<Rightarrow> tab_manager \<Rightarrow> tab_manager \<times> bool option" where
  "set_group_collapsed i collapsed tm =
     (case tm_group i tm of
        None \<Rightarrow> (tm, None)
      | Some g \<Rightarrow>
          (let c = (case collapsed of Some b \<Rightarrow> b | None \<Rightarrow> \<not> wg_collapsed g)
           in (fst (edit_group i (\<lambda>g. g\<lparr> wg_collapsed := c \<rparr>) tm), Some c)))"

definition assign_to_group :: "uuid \<Rightarrow> uuid option \<Rightarrow> tab_manager \<Rightarrow> tab_manager \<times> bool" where
  "assign_to_group wid gid tm =
     (if (case gid of Some g \<Rightarrow> tm_group g tm = None | None \<Rightarrow> False) then (tm, False)
      else case workspace_index wid tm of
        None \<Rightarrow> (tm, False)
      | Some idx \<Rightarrow>
          (let tm1 = tm\<lparr> tm_workspaces := (tm_workspaces tm)[idx := (tm_workspaces tm ! idx)\<lparr> ws_group_id := gid \<rparr>] \<rparr>
           in (case gid of
                 None \<Rightarrow> tm1
               | Some g \<Rightarrow>
                   (case last_opt (indices_where (\<lambda>i w. i \<noteq> idx \<and> ws_group_id w = Some g) (tm_workspaces tm1)) of
                      None \<Rightarrow> tm1
                    | Some last_member \<Rightarrow>
                        fst (move_workspace idx (if idx < last_member then last_member else last_member + 1) tm1)),
               True)))"

definition move_group_before :: "uuid \<Rightarrow> uuid option \<Rightarrow> tab_manager \<Rightarrow> tab_manager \<times> bool" where
  "move_group_before gid target tm =
     (if tm_group gid tm = None then (tm, False)
      else let members = filter (\<lambda>w. ws_group_id w = Some gid) (tm_workspaces tm);
               rest = filter (\<lambda>w. ws_group_id w \<noteq> Some gid) (tm_workspaces tm) in
           if members = [] then (tm\<lparr> tm_workspaces := rest \<rparr>, False)
           else let pos = (case Option.bind target (\<lambda>t. position (\<lambda>w. ws_id w = t) rest) of
                            Some k \<Rightarrow> k | None \<Rightarrow> length rest);
                    wss = take pos rest @ members @ drop pos rest
                in (tm\<lparr> tm_workspaces := wss,
                        tm_selected_index :=
                          (case tm_selected_id tm of
                             Some s \<Rightarrow> position (\<lambda>w. ws_id w = s) wss
                           | None \<Rightarrow> tm_selected_index tm) \<rparr>, True))"

text \<open>\<open>sum()\<close> of \<open>u32\<close> values; the release build wraps.\<close>

definition group_unread_count :: "uuid \<Rightarrow> tab_manager \<Rightarrow> u32" where
  "group_unread_count gid tm =
     sum_list (map ws_unread_count (filter (\<lambda>w. ws_group_id w = Some gid) (tm_workspaces tm)))"

section \<open>Focus history and reopening\<close>

definition record_focus_if_changed :: "tab_manager \<Rightarrow> tab_manager" where
  "record_focus_if_changed tm =
     (case tm_selected_id tm of
        None \<Rightarrow> tm
      | Some i \<Rightarrow>
          (if get_at (tm_focus_pos tm) (tm_focus_history tm) = Some i then tm
           else let h = push_capped FOCUS_HISTORY_CAP i (take (tm_focus_pos tm + 1) (tm_focus_history tm))
                in tm\<lparr> tm_focus_history := h, tm_focus_pos := length h - 1 \<rparr>))"

definition reopen_last_closed :: "tab_manager \<Rightarrow> tab_manager \<times> uuid option" where
  "reopen_last_closed tm =
     (if tm_closed_stack tm = [] then (tm, None)
      else let ws = ce_workspace (last (tm_closed_stack tm));
               tm1 = tm\<lparr> tm_closed_stack := butlast (tm_closed_stack tm) \<rparr> in
           if tm_workspace (ws_id ws) tm1 \<noteq> None then (tm1, Some (ws_id ws))
           else (fst (add_workspace ws tm1), Some (ws_id ws)))"

definition reopen_closed :: "uuid \<Rightarrow> tab_manager \<Rightarrow> tab_manager \<times> uuid option" where
  "reopen_closed wid tm =
     (case position (\<lambda>e. ws_id (ce_workspace e) = wid) (tm_closed_stack tm) of
        None \<Rightarrow> (tm, None)
      | Some pos \<Rightarrow>
          (let ws = ce_workspace (tm_closed_stack tm ! pos);
               tm1 = tm\<lparr> tm_closed_stack := remove_at pos (tm_closed_stack tm) \<rparr> in
           if tm_workspace (ws_id ws) tm1 \<noteq> None then (tm1, Some (ws_id ws))
           else (fst (add_workspace ws tm1), Some (ws_id ws))))"

definition clear_closed :: "tab_manager \<Rightarrow> tab_manager" where
  "clear_closed tm = tm\<lparr> tm_closed_stack := [] \<rparr>"

definition set_closed_entries :: "closed_entry list \<Rightarrow> tab_manager \<Rightarrow> tab_manager" where
  "set_closed_entries es tm = tm\<lparr> tm_closed_stack := keep_last CLOSED_STACK_CAP es \<rparr>"

lemma select_by_id_pos [simp]:
  "tm_focus_pos (fst (select_by_id i tm)) = tm_focus_pos tm"
  "tm_focus_history (fst (select_by_id i tm)) = tm_focus_history tm"
  by (simp_all add: select_by_id_def split: option.splits)

text \<open>The two \<open>while\<close> loops skip entries whose workspace is gone.\<close>

function focus_back :: "tab_manager \<Rightarrow> tab_manager \<times> uuid option" where
  "focus_back tm =
     (if tm_focus_pos tm = 0 then (tm, None)
      else let tm1 = tm\<lparr> tm_focus_pos := tm_focus_pos tm - 1 \<rparr> in
           case get_at (tm_focus_pos tm1) (tm_focus_history tm1) of
             Some i \<Rightarrow>
               if snd (select_by_id i tm1) then (fst (select_by_id i tm1), Some i)
               else focus_back (fst (select_by_id i tm1))
           | None \<Rightarrow> focus_back tm1)"
  by pat_completeness auto
termination by (relation "measure tm_focus_pos") auto

function focus_forward :: "tab_manager \<Rightarrow> tab_manager \<times> uuid option" where
  "focus_forward tm =
     (if length (tm_focus_history tm) \<le> tm_focus_pos tm + 1 then (tm, None)
      else let tm1 = tm\<lparr> tm_focus_pos := tm_focus_pos tm + 1 \<rparr> in
           case get_at (tm_focus_pos tm1) (tm_focus_history tm1) of
             Some i \<Rightarrow>
               if snd (select_by_id i tm1) then (fst (select_by_id i tm1), Some i)
               else focus_forward (fst (select_by_id i tm1))
           | None \<Rightarrow> focus_forward tm1)"
  by pat_completeness auto
termination by (relation "measure (\<lambda>tm. length (tm_focus_history tm) - tm_focus_pos tm)") auto

declare focus_back.simps [simp del] focus_forward.simps [simp del]

end
