(* ===== verification/Workspace_Facts.thy ===== *)
theory Workspace_Facts imports Workspaces begin

text \<open>
  What keeps a workspace sound: the panel map and the layout hold the same panels, the focus is a
  live panel, and the metadata lists stay within their caps. Each operation keeps it.
\<close>

interpretation closed_panels_log: bounded_log "push_capped CLOSED_PANELS_CAP :: panel \<Rightarrow> panel list \<Rightarrow> panel list"
    CLOSED_PANELS_CAP
  by (rule push_capped_log) (simp add: CLOSED_PANELS_CAP_def)

interpretation log_entries_log: bounded_log "push_quarter MAX_LOG_ENTRIES :: log_entry \<Rightarrow> log_entry list \<Rightarrow> log_entry list"
    MAX_LOG_ENTRIES
  by (rule push_quarter_log) (simp add: MAX_LOG_ENTRIES_def)

section \<open>Well-formed workspaces\<close>

definition focus_ok :: "uuid option \<Rightarrow> (uuid, panel) hashmap \<Rightarrow> bool" where
  "focus_ok focused panels \<longleftrightarrow> (case focused of None \<Rightarrow> panels = [] | Some f \<Rightarrow> has_key f panels)"

definition panels_keyed :: "(uuid, panel) hashmap \<Rightarrow> bool" where
  "panels_keyed m \<longleftrightarrow> (\<forall>k p. map_of m k = Some p \<longrightarrow> p_id p = k)"

text \<open>The lists agents feed stay within their caps and have no duplicate keys.\<close>

definition meta_ok :: "workspace \<Rightarrow> bool" where
  "meta_ok ws \<longleftrightarrow>
     length (ws_status_entries ws) \<le> MAX_STATUS_ENTRIES \<and> distinct (map se_key (ws_status_entries ws)) \<and>
     length (ws_metadata_entries ws) \<le> MAX_METADATA_ENTRIES \<and> distinct (map me_key (ws_metadata_entries ws)) \<and>
     length (ws_metadata_blocks ws) \<le> MAX_METADATA_BLOCKS \<and> distinct (map mb_key (ws_metadata_blocks ws)) \<and>
     length (ws_log_entries ws) \<le> MAX_LOG_ENTRIES"

text \<open>The other fields do not matter to it.\<close>

lemma meta_ok_frame [simp]:
  "meta_ok (ws\<lparr> ws_id := v0 \<rparr>) = meta_ok ws"
  "meta_ok (ws\<lparr> ws_process_title := v1 \<rparr>) = meta_ok ws"
  "meta_ok (ws\<lparr> ws_custom_title := v2 \<rparr>) = meta_ok ws"
  "meta_ok (ws\<lparr> ws_custom_color := v3 \<rparr>) = meta_ok ws"
  "meta_ok (ws\<lparr> ws_is_pinned := v4 \<rparr>) = meta_ok ws"
  "meta_ok (ws\<lparr> ws_current_directory := v5 \<rparr>) = meta_ok ws"
  "meta_ok (ws\<lparr> ws_focused_panel_id := v6 \<rparr>) = meta_ok ws"
  "meta_ok (ws\<lparr> ws_previous_focused_panel_id := v7 \<rparr>) = meta_ok ws"
  "meta_ok (ws\<lparr> ws_zoomed_panel_id := v8 \<rparr>) = meta_ok ws"
  "meta_ok (ws\<lparr> ws_layout := v9 \<rparr>) = meta_ok ws"
  "meta_ok (ws\<lparr> ws_panels := v10 \<rparr>) = meta_ok ws"
  "meta_ok (ws\<lparr> ws_progress := v11 \<rparr>) = meta_ok ws"
  "meta_ok (ws\<lparr> ws_git_branch := v12 \<rparr>) = meta_ok ws"
  "meta_ok (ws\<lparr> ws_unread_count := v13 \<rparr>) = meta_ok ws"
  "meta_ok (ws\<lparr> ws_latest_notification := v14 \<rparr>) = meta_ok ws"
  "meta_ok (ws\<lparr> ws_latest_notification_at := v15 \<rparr>) = meta_ok ws"
  "meta_ok (ws\<lparr> ws_attention_panel_id := v16 \<rparr>) = meta_ok ws"
  "meta_ok (ws\<lparr> ws_pr_status := v17 \<rparr>) = meta_ok ws"
  "meta_ok (ws\<lparr> ws_pr_url := v18 \<rparr>) = meta_ok ws"
  "meta_ok (ws\<lparr> ws_pr_checks := v19 \<rparr>) = meta_ok ws"
  "meta_ok (ws\<lparr> ws_window_id := v20 \<rparr>) = meta_ok ws"
  "meta_ok (ws\<lparr> ws_group_id := v21 \<rparr>) = meta_ok ws"
  "meta_ok (ws\<lparr> ws_remote_config := v22 \<rparr>) = meta_ok ws"
  "meta_ok (ws\<lparr> ws_remote_state := v23 \<rparr>) = meta_ok ws"
  "meta_ok (ws\<lparr> ws_imessage_mode := v24 \<rparr>) = meta_ok ws"
  "meta_ok (ws\<lparr> ws_closed_panels := v25 \<rparr>) = meta_ok ws"
  "meta_ok (ws\<lparr> ws_env := v26 \<rparr>) = meta_ok ws"
  "meta_ok (ws\<lparr> ws_description := v27 \<rparr>) = meta_ok ws"
  "meta_ok (ws\<lparr> ws_subagent_monitor := v28 \<rparr>) = meta_ok ws"
  by (simp_all add: meta_ok_def)

definition ws_ok :: "workspace \<Rightarrow> bool" where
  "ws_ok ws \<longleftrightarrow>
     layout_ok (ws_layout ws) \<and>
     consistent (ws_panels ws) (all_panel_ids (ws_layout ws)) \<and>
     panels_keyed (ws_panels ws) \<and>
     focus_ok (ws_focused_panel_id ws) (ws_panels ws) \<and>
     length (ws_closed_panels ws) \<le> CLOSED_PANELS_CAP \<and> meta_ok ws"

lemma ws_okD:
  assumes "ws_ok ws"
  shows "layout_ok (ws_layout ws)" "consistent (ws_panels ws) (all_panel_ids (ws_layout ws))"
    "panels_keyed (ws_panels ws)" "focus_ok (ws_focused_panel_id ws) (ws_panels ws)"
    "length (ws_closed_panels ws) \<le> CLOSED_PANELS_CAP" "meta_ok ws"
  using assms by (simp_all add: ws_ok_def)

lemma consistent_has_key: "consistent m is \<Longrightarrow> has_key k m \<longleftrightarrow> k \<in> set is"
  unfolding consistent_def has_key_iff by blast

lemma ws_ok_has_key: "ws_ok ws \<Longrightarrow> has_key k (ws_panels ws) \<longleftrightarrow> k \<in> set (all_panel_ids (ws_layout ws))"
  by (rule consistent_has_key) (rule ws_okD)

lemma consistent_empty: "consistent m is \<Longrightarrow> m = [] \<longleftrightarrow> is = []"
  by (auto simp: consistent_def)

lemma panels_keyed_update: "panels_keyed m \<Longrightarrow> p_id p = k \<Longrightarrow> panels_keyed (AList.update k p m)"
  by (auto simp: panels_keyed_def AList.update_conv)

lemma panels_keyed_delete: "panels_keyed m \<Longrightarrow> panels_keyed (AList.delete k m)"
  by (auto simp: panels_keyed_def AList.delete_conv' split: if_splits)

lemma head_focus_ok:
  "consistent m is \<Longrightarrow> focus_ok (head_opt is) m"
  using consistent_has_key [of m "is"] consistent_empty [of m "is"]
  by (cases "is") (simp_all add: focus_ok_def head_opt_def)

lemma ws_new_ok: "ws_ok (ws_new home wid pid)"
  by (simp add: ws_ok_def ws_new_def consistent_def panels_keyed_def focus_ok_def new_terminal_def
      blank_panel_def meta_ok_def)

lemma split_focused_ids:
  "mset (all_panel_ids (split_focused f ori p l)) = add_mset p (mset (all_panel_ids l))"
  by (auto simp: split_focused_def ids split: option.splits bind_splits
      dest!: update_pane_ids [where M = "{#p#}"])

lemma split_focused_ok:
  assumes "layout_ok l" and "all_panel_ids l \<noteq> []" and "p \<notin> set (all_panel_ids l)"
  shows "layout_ok (split_focused f ori p l)"
proof (rule layout_okI [OF split_focused_ids assms(1,3)])
  have l: "sel_ok l" "panes_filled l" using assms by (auto simp: layout_ok_def)
  then show "sel_ok (split_focused f ori p l)"
    by (auto simp: split_focused_def split: option.splits bind_splits intro!: keeps elim!: update_pane_sel_ok)
  show "panes_filled (split_focused f ori p l)"
    using l by (auto simp: split_focused_def split: option.splits bind_splits
        intro!: keeps elim!: update_pane_filled)
qed

lemma split_focused_consistent:
  assumes "consistent m (all_panel_ids l)" and "\<not> has_key p m"
  shows "consistent (AList.update p v m) (all_panel_ids (split_focused f ori p l))"
proof -
  have "set (all_panel_ids (split_focused f ori p l)) = insert p (set (all_panel_ids l))"
    using arg_cong [OF split_focused_ids, of set_mset] by simp
  with assms show ?thesis by (simp add: consistent_def keys_update distinct_keys_update del: set_map)
qed

lemma insert_panel_ok [keeps]:
  assumes "ws_ok ws" and "\<not> has_key (p_id p) (ws_panels ws)" and "\<not> ws_is_empty ws"
  shows "ws_ok (fst (insert_panel p ori ws))"
proof -
  from assms have "all_panel_ids (ws_layout ws) \<noteq> []" "p_id p \<notin> set (all_panel_ids (ws_layout ws))"
    using ws_okD(2) [OF assms(1), THEN consistent_empty] ws_ok_has_key [OF assms(1), of "p_id p"]
    by (simp_all add: ws_is_empty_def)
  then have "layout_ok (split_focused (ws_focused_panel_id ws) ori (p_id p) (ws_layout ws))"
    using ws_okD(1) [OF assms(1)] by (intro split_focused_ok)
  moreover have "consistent (AList.update (p_id p) p (ws_panels ws))
      (all_panel_ids (split_focused (ws_focused_panel_id ws) ori (p_id p) (ws_layout ws)))"
    by (rule split_focused_consistent [OF ws_okD(2) [OF assms(1)] assms(2)])
  ultimately show ?thesis
    using ws_okD [OF assms(1)]
    by (simp add: ws_ok_def insert_panel_def panels_keyed_update focus_ok_def AList.update_conv)
qed

lemma panel_for_split_id [simp]: "p_id (panel_for_split ty i) = i"
  by (cases ty) (simp_all add: panel_for_split_def new_terminal_def new_browser_def new_markdown_def
      new_diff_def new_project_def new_file_preview_def new_notes_def new_history_def new_vault_def
      blank_panel_def)

lemma ws_split_insert: "fst (ws_split ori ty fresh ws) = fst (insert_panel (panel_for_split ty fresh) ori ws)"
  by (simp add: ws_split_def insert_panel_def Let_def)

lemma ws_split_ok [keeps]:
  "ws_ok ws \<Longrightarrow> \<not> has_key fresh (ws_panels ws) \<Longrightarrow> \<not> ws_is_empty ws \<Longrightarrow> ws_ok (fst (ws_split ori ty fresh ws))"
  by (simp add: ws_split_insert insert_panel_ok)

lemma ws_remove_panel_ok [keeps]:
  assumes "ws_ok ws" shows "ws_ok (fst (ws_remove_panel p ws))"
proof (cases "map_of (ws_panels ws) p")
  case None
  with assms show ?thesis by (simp add: ws_remove_panel_def)
next
  case (Some panel)
  let ?m = "AList.delete p (ws_panels ws)" and ?l = "fst (remove_panel p (ws_layout ws))"
  have c: "consistent ?m (all_panel_ids ?l)"
    by (rule lay.detach_consistent) (use assms in \<open>auto dest: ws_okD\<close>)
  have "focus_ok (ws_focused_panel_id (fst (ws_remove_panel p ws))) ?m"
  proof (cases "ws_focused_panel_id ws = Some p")
    case True
    then show ?thesis
      using Some head_focus_ok [OF c]
      by (auto simp: ws_remove_panel_def Let_def or_else_def focus_ok_def opt_filter_Some split: option.splits)
  next
    case False
    then show ?thesis
      using Some ws_okD(4) [OF assms]
      by (auto simp: ws_remove_panel_def Let_def focus_ok_def AList.delete_conv' split: option.splits)
  qed
  with Some c ws_okD [OF assms] show ?thesis
    by (simp add: ws_ok_def ws_remove_panel_def Let_def remove_panel_ok panels_keyed_delete
        closed_panels_log.push_cap)
qed

lemma detach_panel_ok [keeps]:
  assumes "ws_ok ws" shows "ws_ok (fst (detach_panel p ws))"
proof (cases "map_of (ws_panels ws) p")
  case None
  with assms show ?thesis by (simp add: detach_panel_def)
next
  case (Some panel)
  have c: "consistent (AList.delete p (ws_panels ws)) (all_panel_ids (fst (remove_panel p (ws_layout ws))))"
    by (rule lay.detach_consistent) (use assms in \<open>auto dest: ws_okD\<close>)
  have "focus_ok (ws_focused_panel_id (fst (detach_panel p ws))) (AList.delete p (ws_panels ws))"
    using Some ws_okD(4) [OF assms] head_focus_ok [OF c]
    by (auto simp: detach_panel_def Let_def focus_ok_def AList.delete_conv' split: option.splits)
  with Some c ws_okD [OF assms] show ?thesis
    by (simp add: ws_ok_def detach_panel_def Let_def remove_panel_ok panels_keyed_delete)
qed

lemma reopen_ok [keeps]:
  assumes "ws_ok ws" and "\<not> has_key fresh (ws_panels ws)"
  shows "ws_ok (fst (reopen_last_closed_panel fresh ws))"
proof (cases "ws_closed_panels ws = []")
  case True
  with assms show ?thesis by (simp add: reopen_last_closed_panel_def)
next
  case False
  note d = ws_okD [OF assms(1)]
  let ?t = "or_else (ws_focused_panel_id ws) (head_opt (all_panel_ids (ws_layout ws)))"
  have len: "length (ws_closed_panels ws) - 1 \<le> CLOSED_PANELS_CAP" using d(5) by simp
  show ?thesis
  proof (cases ?t)
    case None
    then have "ws_panels ws = []" using d(2) consistent_empty by (auto simp: or_else_def split: option.splits)
    with None False len d(6) show ?thesis
      by (simp add: reopen_last_closed_panel_def ws_ok_def Let_def consistent_def panels_keyed_def focus_ok_def)
  next
    case (Some t)
    then have "t \<in> set (all_panel_ids (ws_layout ws))"
      using d(4) ws_ok_has_key [OF assms(1)]
      by (auto simp: or_else_def focus_ok_def split: option.splits dest: head_opt_in)
    from lay.insert_tab [OF d(1,2) assms(2) this] Some False len d(3,6) show ?thesis
      by (simp add: reopen_last_closed_panel_def ws_ok_def Let_def panels_keyed_update focus_ok_def
          AList.update_conv)
  qed
qed

lemma focus_moved_ok:
  assumes "ws_ok ws" and "layout_ok (fst r)" and "set (all_panel_ids (fst r)) = set (all_panel_ids (ws_layout ws))"
    and "p \<in> set (all_panel_ids (ws_layout ws))"
  shows "ws_ok (fst (focus_moved p r ws))"
  using assms(2-4) ws_okD [OF assms(1)] ws_ok_has_key [OF assms(1), of p]
  by (simp add: focus_moved_def ws_ok_def consistent_def focus_ok_def cong: option.case_cong)

lemma move_panel_to_pane_ok [keeps]:
  assumes "ws_ok ws" shows "ws_ok (fst (move_panel_to_pane s t ws))"
proof (cases "s \<noteq> t \<and> has_key s (ws_panels ws) \<and> has_key t (ws_panels ws)")
  case True
  then have "s \<noteq> t" "s \<in> set (all_panel_ids (ws_layout ws))" "t \<in> set (all_panel_ids (ws_layout ws))"
    using ws_ok_has_key [OF assms] by auto
  with lay.move_tab [OF ws_okD(1) [OF assms] this] assms show ?thesis
    by (auto simp: move_panel_to_pane_def intro!: focus_moved_ok)
qed (use assms in \<open>auto simp: move_panel_to_pane_def\<close>)

lemma split_panel_into_pane_ok [keeps]:
  assumes "ws_ok ws" shows "ws_ok (fst (split_panel_into_pane s t ori dir ws))"
proof (cases "s \<noteq> t \<and> has_key s (ws_panels ws) \<and> has_key t (ws_panels ws)")
  case True
  then have "s \<noteq> t" "s \<in> set (all_panel_ids (ws_layout ws))" "t \<in> set (all_panel_ids (ws_layout ws))"
    using ws_ok_has_key [OF assms] by auto
  with lay.move_split [OF ws_okD(1) [OF assms] this] assms show ?thesis
    by (auto simp: split_panel_into_pane_def intro!: focus_moved_ok)
qed (use assms in \<open>auto simp: split_panel_into_pane_def\<close>)

lemma drag_to_split_ok [keeps]:
  assumes "ws_ok ws" shows "ws_ok (fst (drag_to_split p dir ws))"
proof (cases "has_key p (ws_panels ws)")
  case False
  with assms show ?thesis by (simp add: drag_to_split_def)
next
  case True
  let ?l = "ws_layout ws"
  let ?t = "if ws_focused_panel_id ws = Some p then find (\<lambda>i. i \<noteq> p) (all_panel_ids ?l) else ws_focused_panel_id ws"
  show ?thesis
  proof (cases ?t)
    case None
    with assms True show ?thesis by (simp add: drag_to_split_def)
  next
    case (Some t)
    have t: "t \<noteq> p" "t \<in> set (all_panel_ids ?l)" "p \<in> set (all_panel_ids ?l)"
      using Some True ws_okD(4) [OF assms] ws_ok_has_key [OF assms]
      by (auto simp: focus_ok_def split: if_splits dest: find_Some_in)
    note m = lay.move_split [OF ws_okD(1) [OF assms] t(1) [symmetric] t(3) t(2), of "orientation_of dir" dir]
    from Some True m assms ws_okD [OF assms] t ws_ok_has_key [OF assms] show ?thesis
      by (auto simp: drag_to_split_def Let_def split_beta ws_ok_def consistent_def focus_ok_def)
  qed
qed

lemma focus_panel_ok [keeps]: "ws_ok ws \<Longrightarrow> ws_ok (fst (focus_panel p ws))"
  using select_panel_ids [of p "ws_layout ws"] select_panel_ok [of "ws_layout ws" p]
  by (auto simp: focus_panel_def ws_ok_def focus_ok_def split_beta Let_def cong: option.case_cong)

end
