(* ===== verification/Layout_Props.thy ===== *)
theory Layout_Props imports Layout_Nav begin

text \<open>
  What the layout tree promises: its invariant over every sequence of operations, where panels go
  when one is closed, split off or reordered, and how navigation moves between them.
\<close>

section \<open>Sequences of operations\<close>

text \<open>
  One step of the tree. A panel enters the tree only when it is not in it; a divider position that
  is not a number never reaches the tree, since it comes from JSON or from the pointer.
\<close>

inductive layout_step :: "LayoutNode \<Rightarrow> LayoutNode \<Rightarrow> bool" where
  step_split: "all_panel_ids l \<noteq> [] \<Longrightarrow> p \<notin> set (all_panel_ids l) \<Longrightarrow> layout_step l (split_node l ori p)"
| step_split_pane: "p \<notin> set (all_panel_ids l) \<Longrightarrow> layout_step l (fst (split_pane_with_panel t p ori dir l))"
| step_add_tab: "p \<notin> set (all_panel_ids l) \<Longrightarrow> layout_step l (fst (add_panel_to_pane t p l))"
| step_remove: "layout_step l (fst (remove_panel p l))"
| step_select: "layout_step l (fst (select_panel p l))"
| step_reorder: "layout_step l (fst (reorder_panel_in_pane p n l))"
| step_swap: "a \<in> set (all_panel_ids l) \<Longrightarrow> b \<in> set (all_panel_ids l) \<Longrightarrow> layout_step l (fst (swap_panels a b l))"
| step_divider: "\<not> is_nan pos \<Longrightarrow> layout_step l (fst (set_divider_position_for_split fs ss pos l))"
| step_resize: "\<not> is_nan amount \<Longrightarrow> layout_step l (fst (resize_panel p amount l))"
| step_equalize: "layout_step l (fst (equalize l))"

definition layout_inv :: "LayoutNode \<Rightarrow> bool" where
  "layout_inv l \<longleftrightarrow> layout_ok l \<and> dividers_ok l"

lemma swap_sel_ok [keeps]: "sel_ok l \<Longrightarrow> sel_ok (fst (swap_panels a b l))"
  by (induction l) (auto simp: split_beta Let_def split: option.splits)

lemma swap_filled [keeps]: "panes_filled l \<Longrightarrow> panes_filled (fst (swap_panels a b l))"
  by (induction l) (auto simp: split_beta Let_def)

lemma swap_dividers [keeps]: "dividers_ok l \<Longrightarrow> dividers_ok (fst (swap_panels a b l))"
  by (induction l) (auto simp: split_beta Let_def)

lemma swap_ok [keeps]: "layout_ok l \<Longrightarrow> layout_ok (fst (swap_panels a b l))"
  by (auto simp: layout_ok_def swap_panels_ids distinct_map intro: keeps inj_on_subset [OF swap_id_inj])

lemma set_divider_ids [ids]: "all_panel_ids (fst (set_divider_position_for_split fs ss pos l)) = all_panel_ids l"
  by (induction l) (auto simp: split_beta Let_def)

lemma set_divider_sel_ok [keeps]: "sel_ok l \<Longrightarrow> sel_ok (fst (set_divider_position_for_split fs ss pos l))"
  by (induction l) (auto simp: split_beta Let_def)

lemma set_divider_filled [keeps]:
  "panes_filled l \<Longrightarrow> panes_filled (fst (set_divider_position_for_split fs ss pos l))"
  by (induction l) (auto simp: split_beta Let_def)

lemma resize_sel_ok [keeps]: "sel_ok l \<Longrightarrow> sel_ok (fst (resize_panel p amount l))"
  by (induction l) (auto simp: split_beta Let_def)

lemma resize_filled [keeps]: "panes_filled l \<Longrightarrow> panes_filled (fst (resize_panel p amount l))"
  by (induction l) (auto simp: split_beta Let_def)

lemma equalize_sel_ok [keeps]: "sel_ok l \<Longrightarrow> sel_ok (fst (equalize l))"
  by (induction l) (auto simp: split_beta Let_def)

lemma equalize_filled [keeps]: "panes_filled l \<Longrightarrow> panes_filled (fst (equalize l))"
  by (induction l) (auto simp: split_beta Let_def)

lemma select_dividers [keeps]: "dividers_ok l \<Longrightarrow> dividers_ok (fst (select_panel p l))"
  by (induction l) (auto simp: split_beta Let_def)

lemma split_pane_dividers [keeps]:
  "dividers_ok l \<Longrightarrow> dividers_ok (fst (split_pane_with_panel t p ori dir l))"
  by (induction l) (auto simp: split_beta Let_def)

lemma update_pane_dividers:
  "update_pane f p l = Some l' \<Longrightarrow> dividers_ok l \<Longrightarrow> (\<And>ps sel. dividers_ok (f (Pane ps sel))) \<Longrightarrow> dividers_ok l'"
  by (induction l arbitrary: l') (auto split: if_splits option.splits)

lemma with_pane_dividers:
  "dividers_ok l \<Longrightarrow> (\<And>ps sel. dividers_ok (f (Pane ps sel))) \<Longrightarrow> dividers_ok (fst (with_pane f p l))"
  by (auto simp: with_pane_def split: option.splits elim: update_pane_dividers)

lemma add_to_pane_dividers [simp]: "dividers_ok (add_to_pane t p (Pane ps sel))"
  by (cases "position (\<lambda>i. i = t) ps") (simp_all add: add_to_pane.simps)

lemma reorder_pane_dividers [simp]: "dividers_ok (reorder_pane p n (Pane ps sel))"
  by (cases "position (\<lambda>i. i = p) ps") (simp_all add: reorder_pane.simps Let_def)

lemma split_node_ok [keeps]:
  "layout_ok l \<Longrightarrow> all_panel_ids l \<noteq> [] \<Longrightarrow> p \<notin> set (all_panel_ids l) \<Longrightarrow> layout_ok (split_node l ori p)"
  by (simp add: layout_ok_def split_node_ids split_node_sel_ok split_node_filled)

lemma same_ids_ok:
  "layout_ok l \<Longrightarrow> all_panel_ids l' = all_panel_ids l \<Longrightarrow> (sel_ok l \<Longrightarrow> sel_ok l') \<Longrightarrow>
   (panes_filled l \<Longrightarrow> panes_filled l') \<Longrightarrow> layout_ok l'"
  by (simp add: layout_ok_def)

lemma set_divider_ok [keeps]: "layout_ok l \<Longrightarrow> layout_ok (fst (set_divider_position_for_split fs ss pos l))"
  by (erule same_ids_ok [OF _ set_divider_ids set_divider_sel_ok set_divider_filled])

lemma resize_ok [keeps]: "layout_ok l \<Longrightarrow> layout_ok (fst (resize_panel p amount l))"
  by (erule same_ids_ok [OF _ resize_ids resize_sel_ok resize_filled])

lemma equalize_ok [keeps]: "layout_ok l \<Longrightarrow> layout_ok (fst (equalize l))"
  by (erule same_ids_ok [OF _ equalize_ids equalize_sel_ok equalize_filled])

lemma layout_step_ok: "layout_step l l' \<Longrightarrow> layout_ok l \<Longrightarrow> layout_ok l'"
by (induction rule: layout_step.induct) (simp_all add: keeps)

lemma layout_step_dividers: "layout_step l l' \<Longrightarrow> dividers_ok l \<Longrightarrow> dividers_ok l'"
  by (induction rule: layout_step.induct)
    (auto simp: split_node_def add_panel_to_pane_def reorder_panel_in_pane_def equalize_dividers
      intro: keeps with_pane_dividers resize_dividers set_divider_dividers simp del: add_to_pane.simps reorder_pane.simps)

section \<open>Properties\<close>

text \<open>C16. Whatever sequence of splits, tab insertions, closes, selections, reorders, swaps and
  divider moves a layout goes through, no panel appears twice, every pane's selection is one of its
  tabs, no pane but a lone root is empty, and every divider lies between 0 and 1.\<close>

theorem layout_reachable_inv:
  assumes "layout_step\<^sup>*\<^sup>* (single_pane p) l"
  shows "layout_inv l"
  using assms
proof (induction rule: rtranclp_induct)
  case base
  then show ?case by (simp add: layout_inv_def single_pane_def layout_ok_def)
next
  case (step l l')
  then show ?case by (auto simp: layout_inv_def dest: layout_step_ok layout_step_dividers)
qed

lemma layout_step_two:
  "layout_step l1 l2 \<Longrightarrow> layout_step l2 l3 \<Longrightarrow> layout_step\<^sup>*\<^sup>* l1 l3"
  by (rule rtranclp.rtrancl_into_rtrancl [OF r_into_rtranclp])

lemma layout_reachable_inv_witness:
  "layout_inv (fst (resize_panel 1 (Fin False 4) (fst (split_pane_with_panel 1 2 Vertical DUp (single_pane 1)))))"
  by (rule layout_reachable_inv [of 1], rule layout_step_two
        [OF step_split_pane [where p = 2 and t = 1 and ori = Vertical and dir = DUp] step_resize])
    simp_all

text \<open>Closing a panel removes it and nothing else: the other panels keep their order, the
  result tells whether the panel was there, and an emptied pane is folded into its sibling, so that
  no empty pane is left while any panel is.\<close>

theorem remove_panel_effect:
  assumes "layout_ok l"
  shows "(snd (remove_panel p l) \<longleftrightarrow> p \<in> set (all_panel_ids l)) \<and>
    all_panel_ids (fst (remove_panel p l)) = filter (\<lambda>i. i \<noteq> p) (all_panel_ids l) \<and>
    ((\<exists>q \<in> set (all_panel_ids l). q \<noteq> p) \<longrightarrow> panes_filled (fst (remove_panel p l))) \<and>
    sel_ok (fst (remove_panel p l))"
proof -
  have f: "all_panel_ids (fst (remove_panel p l)) = filter (\<lambda>i. i \<noteq> p) (all_panel_ids l)"
    using assms distinct_remove1_removeAll [of "all_panel_ids l" p]
    by (simp add: layout_ok_def remove_panel_ids removeAll_filter_not_eq eq_commute)
  with remove_panel_ok [OF assms, of p] show ?thesis
    by (auto simp: layout_ok_def remove_panel_found filter_empty_conv)
qed

lemma remove_panel_effect_witness:
  "fst (remove_panel 2 (Split Horizontal half (Pane [1] (Some 1)) (Pane [2] (Some 2)))) = Pane [1] (Some 1) \<and>
   panes_filled (fst (remove_panel 2 (Split Horizontal half (Pane [1] (Some 1)) (Pane [2] (Some 2)))))"
  using remove_panel_effect [of "Split Horizontal half (Pane [1] (Some 1)) (Pane [2] (Some 2))" 2]
  by (simp add: layout_ok_def remove_panel_eqs)

text \<open>Splitting a pane for a panel puts the panel into a pane of its own right before the
  target's pane (left, up) or right after it (right, down), and leaves every other pane where it was.\<close>

theorem split_pane_position:
  assumes "layout_ok l" and "find_pane_readonly t l = Some ps" and "p \<notin> set (all_panel_ids l)"
  shows "find_pane_readonly p (fst (split_pane_with_panel t p ori dir l)) = Some [p] \<and>
    (\<exists>xs ys. all_panel_ids l = xs @ ps @ ys \<and>
     all_panel_ids (fst (split_pane_with_panel t p ori dir l)) =
       (if dir = DLeft \<or> dir = DUp then xs @ p # ps @ ys else xs @ ps @ p # ys))"
proof (rule conjI)
  from assms(2,3) show "find_pane_readonly p (fst (split_pane_with_panel t p ori dir l)) = Some [p]"
  proof (induction l)
    case (Split o2 d a b)
    then show ?case
      using find_pane_readonly_None [of t a] find_pane_readonly_None [of p a]
      by (cases "t \<in> set (all_panel_ids a)")
        (auto simp: split_beta Let_def or_else_split split_pane_found split_pane_miss find_pane_readonly_None)
  qed (auto simp: Let_def or_else_def split: if_splits)
qed (rule split_pane_place [OF assms(2)])

lemma split_pane_position_witness:
  "find_pane_readonly 7 (fst (split_pane_with_panel 2 7 Vertical DUp (Pane [1, 2] (Some 1)))) = Some [7]"
  by (rule split_pane_position [THEN conjunct1]) (simp_all add: layout_ok_def)

text \<open>"Next tab" and "previous tab" inside a pane undo each other, stay inside the tree, and find
  something exactly for the panels of the tree.\<close>

theorem tab_cycle:
  assumes "layout_ok l"
  shows "(next_panel_in_pane l c = Some q \<longrightarrow> prev_panel_in_pane l q = Some c \<and> q \<in> set (all_panel_ids l)) \<and>
    (c \<in> set (all_panel_ids l) \<longleftrightarrow> (\<exists>q. next_panel_in_pane l c = Some q))"
proof -
  from assms have d: "distinct (all_panel_ids l)" by (rule layout_okD)
  have "next_panel_in_pane l c = Some q \<longrightarrow> prev_panel_in_pane l q = Some c \<and> q \<in> set (all_panel_ids l)"
    using next_panel_in_pane_back [OF d] next_panel_in_pane_mem by blast
  moreover have "next_panel_in_pane l c = None \<longleftrightarrow> c \<notin> set (all_panel_ids l)"
    by (induction l) (auto simp: next_in_None or_else_def split: option.splits)
  ultimately show ?thesis by auto
qed

lemma tab_cycle_witness: "prev_panel_in_pane (Pane [4, 5, 6] (Some 4)) 4 = Some 6"
  using tab_cycle [of "Pane [4, 5, 6] (Some 4)" 6 4] by (simp add: layout_ok_def next_in_def)

text \<open>Directional focus goes to another panel of the tree, and from there the opposite direction
  leads somewhere again: a neighbour is never a dead end.\<close>

theorem neighbor_sound:
  assumes "layout_ok l" and "neighbor p dir l = Some q"
  shows "q \<in> set (all_panel_ids l) \<and> q \<noteq> p \<and> (\<exists>r. neighbor q (opposite dir) l = Some r)"
  using assms neighbor_mem neighbor_other neighbor_return layout_okD(2) by blast+

lemma neighbor_sound_witness:
  "neighbor 1 DRight (Split Horizontal half (Pane [1] (Some 1)) (Pane [2] (Some 2))) = Some 2 \<and> (2::nat) \<noteq> 1"
  using neighbor_sound [of "Split Horizontal half (Pane [1] (Some 1)) (Pane [2] (Some 2))" 1 DRight 2]
  by (simp add: layout_ok_def matches_axis_def)

text \<open>Dragging a tab inside its pane moves it to the requested index, or to the end when the index
  is past it, and keeps the order of the pane's other tabs.\<close>

theorem reorder_position:
  assumes "layout_ok l" and "find_pane_readonly p l = Some ps"
  shows "find_pane_readonly p (fst (reorder_panel_in_pane p n l)) =
      Some (take n (remove1 p ps) @ p # drop n (remove1 p ps)) \<and> snd (reorder_panel_in_pane p n l)"
proof -
  from assms(2) have p: "p \<in> set (all_panel_ids l)" "p \<in> set ps"
    using find_pane_readonly_mem by blast+
  then obtain l' where l': "update_pane (reorder_pane p n) p l = Some l'"
    using update_pane_None [of "reorder_pane p n" p l] by auto
  from p(2) have "length ps - 1 = length (remove1 p ps)" by (simp add: length_remove1)
  then have "insert_at (min n (length ps - 1)) p (remove1 p ps) = take n (remove1 p ps) @ p # drop n (remove1 p ps)"
    by (simp add: insert_at_def min_def)
  with reorder_pane_found [OF l' assms(2)] l' show ?thesis
    by (simp_all add: reorder_panel_in_pane_def with_pane_def)
qed

lemma reorder_position_witness:
  "find_pane_readonly 1 (fst (reorder_panel_in_pane 1 9 (Pane [1, 2, 3] (Some 2)))) = Some [2, 3, 1]"
  using reorder_position [of "Pane [1, 2, 3] (Some 2)" 1 "[1, 2, 3]" 9] by (simp add: layout_ok_def)

end
