(* ===== verification/Workspace_Props.thy ===== *)
theory Workspace_Props imports Workspace_Facts Layout_Props begin

text \<open>
  What a workspace promises over its life: the invariant over every sequence of its operations,
  where the focus goes, what reopening restores, and what the bounded metadata lists keep.
\<close>

section \<open>Keyed lists with eviction\<close>

lemma evict_one_cases:
  "evict_one lt cap es = es \<and> (length es < cap \<or> es = []) \<or>
   (\<exists>i < length es. min_index lt es = Some i \<and> cap \<le> length es \<and> evict_one lt cap es = remove_at i es)"
  using min_index_less [of lt es] min_index_None [of lt es]
  by (cases "min_index lt es") (auto simp: evict_one_def remove_at_def split: option.split)

lemma evict_one_set: "set (evict_one lt cap es) \<subseteq> set es"
  using evict_one_cases [of lt cap es] by (auto dest: set_remove_at_subset [THEN subsetD])

lemma evict_one_distinct: "distinct (map key es) \<Longrightarrow> distinct (map key (evict_one lt cap es))"
  using evict_one_cases [of lt cap es] by (auto simp: map_remove_at distinct_remove_at)

lemma upsert_length:
  assumes "length es \<le> cap" and "0 < cap"
  shows "length (upsert key lt cap k rewrite fresh es) \<le> cap"
  using evict_one_cases [of lt cap es] assms by (auto simp: upsert_def)

lemma upsert_distinct:
  assumes "distinct (map key es)" and "key fresh = k" and "\<And>e. key (rewrite e) = key e"
  shows "distinct (map key (upsert key lt cap k rewrite fresh es))"
proof (cases "\<exists>e \<in> set es. key e = k")
  case True
  with assms show ?thesis by (simp add: upsert_def map_update_first)
next
  case False
  with assms evict_one_set [of lt cap es] evict_one_distinct [OF assms(1), of lt cap]
  show ?thesis by (auto simp: upsert_def)
qed

lemma find_append_none: "(\<forall>e \<in> set es. \<not> P e) \<Longrightarrow> find P (es @ [x]) = (if P x then Some x else None)"
  by (induction es) auto

lemma upsert_find:
  assumes "key fresh = k" and "\<And>e. key (rewrite e) = key e" and "\<And>e. key e = k \<Longrightarrow> rewrite e = fresh"
  shows "find (\<lambda>e. key e = k) (upsert key lt cap k rewrite fresh es) = Some fresh"
proof (cases "\<exists>e \<in> set es. key e = k")
  case True
  then obtain e where e: "find (\<lambda>e. key e = k) es = Some e"
    by (cases "find (\<lambda>e. key e = k) es") (auto simp: find_None_all)
  with True assms find_Some_in [OF e] show ?thesis by (simp add: upsert_def find_update_first)
next
  case False
  with evict_one_set [of lt cap es] have "\<forall>e \<in> set (evict_one lt cap es). key e \<noteq> k" by blast
  with False assms(1) show ?thesis by (simp add: upsert_def find_append_none)
qed

text \<open>Below the cap, or when the key is already there, every entry with another key stays.\<close>

lemma upsert_others:
  assumes "length es < cap \<or> k \<in> key ` set es" and "e \<in> set es" and "key e \<noteq> k"
  shows "e \<in> set (upsert key lt cap k rewrite fresh es)"
proof -
  have "e \<in> set es \<Longrightarrow> key e \<noteq> k \<Longrightarrow> e \<in> set (update_first (\<lambda>e. key e = k) rewrite es)"
    by (induction es) auto
  with assms show ?thesis by (auto simp: upsert_def evict_one_def)
qed

section \<open>Eviction picks a minimum\<close>

lemma min_index_from_min:
  assumes "\<And>x y z. x \<in> set ys \<Longrightarrow> y \<in> set ys \<Longrightarrow> z \<in> set ys \<Longrightarrow> \<not> lt y x \<Longrightarrow> \<not> lt z y \<Longrightarrow> \<not> lt z x"
    and "\<And>x y. lt x y \<Longrightarrow> \<not> lt y x"
    and "best < i" and "ys ! best = b" and "drop i ys = xs" and "i \<le> length ys"
    and "\<And>j. j < i \<Longrightarrow> \<not> lt (ys ! j) b" and "j < length ys"
  shows "\<not> lt (ys ! j) (ys ! min_index_from lt best b i xs)"
  using assms(3-8)
proof (induction xs arbitrary: best b i j)
  case Nil
  then show ?case by simp
next
  case (Cons x xs)
  from Cons.prems(3,4) have i: "i < length ys" "ys ! i = x" "drop (Suc i) ys = xs"
    by (metis drop_eq_Nil list.discI not_le, metis nth_via_drop, metis drop_Suc list.sel(3) tl_drop)
  have mem: "x \<in> set ys" "b \<in> set ys"
    using nth_mem [OF i(1)] nth_mem [of best ys] i Cons.prems(1,2) by simp_all
  show ?case
  proof (cases "lt x b")
    case True
    have "\<not> lt (ys ! m) x" if "m < Suc i" for m
    proof (cases "m = i")
      case True
      then show ?thesis using i(2) assms(2) [of x x] by blast
    next
      case False
      with that i(1) have "ys ! m \<in> set ys" by simp
      moreover have "\<not> lt (ys ! m) b" using False that Cons.prems(5) by simp
      moreover have "\<not> lt b x" using assms(2) True by blast
      ultimately show ?thesis using assms(1) mem by blast
    qed
    then have "\<not> lt (ys ! j) (ys ! min_index_from lt i x (Suc i) xs)"
      using i Cons.prems(6) by (intro Cons.IH) auto
    with True show ?thesis by simp
  next
    case False
    then have "\<not> lt (ys ! m) b" if "m < Suc i" for m
      using that i(2) Cons.prems(5) [of m] by (cases "m = i") auto
    then have "\<not> lt (ys ! j) (ys ! min_index_from lt best b (Suc i) xs)"
      using i Cons.prems(1,2,6) by (intro Cons.IH) auto
    with False show ?thesis by simp
  qed
qed

lemma min_index_min:
  assumes "\<And>x y z. x \<in> set xs \<Longrightarrow> y \<in> set xs \<Longrightarrow> z \<in> set xs \<Longrightarrow> \<not> lt y x \<Longrightarrow> \<not> lt z y \<Longrightarrow> \<not> lt z x"
    and "\<And>x y. lt x y \<Longrightarrow> \<not> lt y x"
    and "min_index lt xs = Some i" and "e \<in> set xs"
  shows "\<not> lt e (xs ! i)"
proof -
  obtain x ys where xs: "xs = x # ys" using assms(3) by (cases xs) (auto simp: min_index_def)
  obtain j where j: "j < length xs" "xs ! j = e" using assms(4) by (auto simp: in_set_conv_nth)
  have irr: "\<not> lt x x" using assms(2) [of x x] by blast
  have "\<not> lt (xs ! j) (xs ! min_index_from lt 0 x 1 ys)"
  proof (rule min_index_from_min [where lt = lt and i = 1 and b = x and j = j, OF assms(1,2)])
    show "\<not> lt (xs ! j') x" if "j' < 1" for j' using that irr xs by simp
  qed (use j xs in simp_all)
  with xs assms(3) j show ?thesis by (simp add: min_index_def)
qed

text \<open>So a full list without the key loses only an entry that nothing in the list precedes.\<close>

lemma upsert_loses_minimum:
  assumes "\<And>x y z. x \<in> set es \<Longrightarrow> y \<in> set es \<Longrightarrow> z \<in> set es \<Longrightarrow> \<not> lt y x \<Longrightarrow> \<not> lt z y \<Longrightarrow> \<not> lt z x"
    and "\<And>x y. lt x y \<Longrightarrow> \<not> lt y x"
    and "e \<in> set es" and "key e \<noteq> k" and "e \<notin> set (upsert key lt cap k rewrite fresh es)"
  shows "cap \<le> length es \<and> k \<notin> key ` set es \<and> (\<forall>e' \<in> set es. \<not> lt e' e)"
proof -
  from assms(3-5) upsert_others [of es cap k key e lt rewrite fresh]
  have c: "cap \<le> length es" "k \<notin> key ` set es" by (meson not_le)+
  then have "\<not> (\<exists>e \<in> set es. key e = k)" by blast
  with assms(5) have "e \<notin> set (evict_one lt cap es)" by (simp add: upsert_def)
  with assms(3) obtain i where i: "i < length es" "min_index lt es = Some i" "e \<notin> set (remove_at i es)"
    using evict_one_cases [of lt cap es] by auto
  have "e = es ! i"
    using assms(3) i(1,3) mset_remove_at [OF i(1)] by (metis insert_iff set_mset_add_mset_insert set_mset_mset)
  moreover have "\<not> lt e' (es ! i)" if "e' \<in> set es" for e'
    by (rule min_index_min [where xs = es, OF _ _ i(2) that]) (use assms(1,2) in blast)+
  ultimately show ?thesis using c by blast
qed

lemma older_status_trans:
  "\<not> is_nan (se_timestamp x) \<Longrightarrow> \<not> is_nan (se_timestamp y) \<Longrightarrow> \<not> is_nan (se_timestamp z) \<Longrightarrow>
   \<not> older_status y x \<Longrightarrow> \<not> older_status z y \<Longrightarrow> \<not> older_status z x"
  using f64_le_trans [of "se_timestamp x" "se_timestamp y" "se_timestamp z"]
  by (simp add: older_status_def f64_le_def)

section \<open>Sequences of workspace operations\<close>

text \<open>
  One step of a workspace. An identifier that enters is fresh, as \<open>Uuid::new_v4()\<close> gives it; a split
  is offered only while the workspace shows a panel.
\<close>

inductive ws_step :: "workspace \<Rightarrow> workspace \<Rightarrow> bool" where
  st_insert: "\<not> has_key (p_id p) (ws_panels ws) \<Longrightarrow> \<not> ws_is_empty ws \<Longrightarrow> ws_step ws (fst (insert_panel p ori ws))"
| st_split: "\<not> has_key fresh (ws_panels ws) \<Longrightarrow> \<not> ws_is_empty ws \<Longrightarrow> ws_step ws (fst (ws_split ori ty fresh ws))"
| st_remove: "ws_step ws (fst (ws_remove_panel p ws))"
| st_reopen: "\<not> has_key fresh (ws_panels ws) \<Longrightarrow> ws_step ws (fst (reopen_last_closed_panel fresh ws))"
| st_detach: "ws_step ws (fst (detach_panel p ws))"
| st_move: "ws_step ws (fst (move_panel_to_pane s t ws))"
| st_split_into: "ws_step ws (fst (split_panel_into_pane s t ori dir ws))"
| st_drag: "ws_step ws (fst (drag_to_split p dir ws))"
| st_focus: "ws_step ws (fst (focus_panel p ws))"
| st_status: "ws_step ws (set_status_with_url now key value icon color url ws)"
| st_metadata: "ws_step ws (set_metadata now key value icon color url priority format ws)"
| st_clear_metadata: "ws_step ws (clear_metadata key ws)"
| st_block: "ws_step ws (set_metadata_block now key content priority ws)"
| st_clear_block: "ws_step ws (clear_metadata_block key ws)"
| st_log: "ws_step ws (append_log now message level source ws)"
| st_notify: "ws_step ws (record_notification now title body pid ws)"
| st_read: "ws_step ws (mark_notifications_read ws)"
| st_attention: "ws_step ws (clear_attention ws)"

lemmas meta_defs = set_status_with_url_def set_metadata_def clear_metadata_def set_metadata_block_def
  clear_metadata_block_def append_log_def record_notification_def mark_notifications_read_def clear_attention_def

lemma filter_map_distinct: "distinct (map f xs) \<Longrightarrow> distinct (map f (filter P xs))"
  by (induction xs) auto

lemma meta_step_ok [keeps]:
  "meta_ok ws \<Longrightarrow> meta_ok (set_status_with_url now key value icon color url ws)"
  "meta_ok ws \<Longrightarrow> meta_ok (set_metadata now key value icon color url priority format ws)"
  "meta_ok ws \<Longrightarrow> meta_ok (set_metadata_block now key content priority ws)"
  "meta_ok ws \<Longrightarrow> meta_ok (clear_metadata key ws)"
  "meta_ok ws \<Longrightarrow> meta_ok (clear_metadata_block key ws)"
  "meta_ok ws \<Longrightarrow> meta_ok (append_log now message level source ws)"
  "meta_ok ws \<Longrightarrow> meta_ok (record_notification now title body pid ws)"
  "meta_ok ws \<Longrightarrow> meta_ok (mark_notifications_read ws)"
  "meta_ok ws \<Longrightarrow> meta_ok (clear_attention ws)"
  by (simp_all add: meta_ok_def meta_defs Let_def upsert_length upsert_distinct
      filter_map_distinct le_trans [OF length_filter_le] log_entries_log.push_cap
      MAX_STATUS_ENTRIES_def MAX_METADATA_ENTRIES_def MAX_METADATA_BLOCKS_def)

text \<open>They leave everything else alone that soundness is about.\<close>

lemma ws_ok_meta:
  assumes "ws_ok ws" and "meta_ok ws'" and "ws_layout ws' = ws_layout ws" and "ws_panels ws' = ws_panels ws"
    and "ws_focused_panel_id ws' = ws_focused_panel_id ws" and "ws_closed_panels ws' = ws_closed_panels ws"
  shows "ws_ok ws'"
  using assms by (simp add: ws_ok_def)

lemma meta_ops_ok [keeps]:
  assumes "ws_ok ws"
  shows "ws_ok (set_status_with_url now key value icon color url ws)"
    "ws_ok (set_metadata now key value icon color url priority format ws)"
    "ws_ok (clear_metadata key ws)" "ws_ok (set_metadata_block now key content priority ws)"
    "ws_ok (clear_metadata_block key ws)" "ws_ok (append_log now message level source ws)"
    "ws_ok (record_notification now title body pid ws)" "ws_ok (mark_notifications_read ws)" "ws_ok (clear_attention ws)"
  by ((rule ws_ok_meta [OF assms], rule meta_step_ok, rule ws_okD(6) [OF assms]); simp add: meta_defs Let_def)+

lemma ws_step_ok: "ws_step ws ws' \<Longrightarrow> ws_ok ws \<Longrightarrow> ws_ok ws'"
  by (induction rule: ws_step.induct) (simp_all add: keeps)

section \<open>Properties\<close>

text \<open>C15. However a workspace is used through its own operations after it was opened in a directory - a panel enters
  under a fresh identifier and while it still shows one - its panel map and its layout hold exactly the same
  panels, every panel is filed under its own identifier, the focused panel is alive (and there is one unless
  the workspace is empty), at most ten closed panels are remembered, and the lists that agents feed stay
  within their caps without duplicate keys. Handlers that edit a workspace's fields themselves are not
  operations of it; one of them, for a link opened in a new tab, can leave a panel without a pane.\<close>

theorem ws_reachable_ok:
  assumes "ws_step\<^sup>*\<^sup>* (with_directory home wid pid dir) ws"
  shows "ws_ok ws \<and> meta_ok ws"
  using assms
proof (induction rule: rtranclp_induct)
  case base
  show ?case
    by (simp add: ws_ok_def meta_ok_def with_directory_def ws_new_def consistent_def panels_keyed_def
        focus_ok_def new_terminal_def blank_panel_def modify_panel_def)
next
  case (step ws ws')
  then show ?case using ws_step_ok ws_okD(6) by blast
qed

lemma ws_reachable_ok_witness:
  "ws_ok (fst (ws_remove_panel 1 (fst (ws_split Horizontal Browser 2 (with_directory None 0 1 ''/'')))))"
proof -
  let ?ws = "with_directory None 0 1 ''/''"
  have "ws_panels ?ws = [(1, (new_terminal 1)\<lparr> p_directory := Some ''/'' \<rparr>)]"
    by (simp add: with_directory_def ws_new_def modify_panel_def)
  then have "ws_step ?ws (fst (ws_split Horizontal Browser 2 ?ws))"
    by (intro st_split) (simp_all add: ws_is_empty_def)
  from rtranclp.rtrancl_into_rtrancl [OF r_into_rtranclp [of ws_step, OF this] st_remove]
  show ?thesis by (rule ws_reachable_ok [THEN conjunct1])
qed

lemma or_else_filter_Some: "P x \<Longrightarrow> or_else (opt_filter P (Some x)) b = Some x"
  by (simp add: opt_filter_def)

lemma find_pane_readonly_distinct:
  "find_pane_readonly p l = Some ps \<Longrightarrow> distinct (all_panel_ids l) \<Longrightarrow> distinct ps"
  by (induction l) (auto simp: or_else_split split: if_splits)

text \<open>Closing the focused tab focuses the tab to its left in the same pane, the one to its right
  when it was the leftmost, and the first panel of what is left when it was alone in its pane;
  closing any other tab leaves the focus alone.\<close>

theorem close_moves_focus:
  assumes "ws_ok ws" and "find_pane_readonly p (ws_layout ws) = Some tabs" and "position (\<lambda>i. i = p) tabs = Some i"
  shows "ws_focused_panel_id (fst (ws_remove_panel p ws)) =
    (if ws_focused_panel_id ws \<noteq> Some p then ws_focused_panel_id ws
     else if 0 < i then Some (tabs ! (i - 1))
     else if i + 1 < length tabs then Some (tabs ! (i + 1))
     else head_opt (remove1 p (all_panel_ids (ws_layout ws))))"
proof -
  from assms(2) have p: "p \<in> set (all_panel_ids (ws_layout ws))" and
    tabs: "set tabs \<subseteq> set (all_panel_ids (ws_layout ws))" using find_pane_readonly_mem by blast+
  from assms(3) have i: "i < length tabs" "tabs ! i = p" using position_Some by fast+
  have "distinct tabs"
    using assms(1,2) find_pane_readonly_distinct ws_okD(1) layout_okD(2) by blast
  then have live: "has_key (tabs ! j) (AList.delete p (ws_panels ws))" if "j < length tabs" "j \<noteq> i" for j
    using that i tabs ws_ok_has_key [OF assms(1), of "tabs ! j"]
    by (auto simp: AList.delete_conv' nth_eq_iff_index_eq)
  have adj: "adjacent_tab p (ws_layout ws) = (if 0 < i then Some (tabs ! (i - 1)) else get_at (i + 1) tabs)"
    using assms(2,3) by (simp add: adjacent_tab_def)
  obtain panel where "map_of (ws_panels ws) p = Some panel"
    using p ws_ok_has_key [OF assms(1)] by blast
  then show ?thesis
    using live [of "i - 1"] live [of "i + 1"] i(1)
    by (auto simp: ws_remove_panel_def Let_def adj get_at_def or_else_filter_Some remove_panel_ids
        opt_filter_def)
qed

lemma close_moves_focus_witness:
  "ws_focused_panel_id (fst (ws_remove_panel 1
     ((ws_new None 0 1)\<lparr> ws_panels := [(1, new_terminal 1), (2, new_terminal 2)], ws_layout := Pane [1, 2] (Some 1) \<rparr>))) = Some 2"
  by (subst close_moves_focus [where tabs = "[1, 2]" and i = 0])
    (simp_all add: ws_new_def ws_ok_def meta_ok_def layout_ok_def consistent_def panels_keyed_def focus_ok_def
      new_terminal_def blank_panel_def)

text \<open>C24. Closing a panel and reopening the last closed panel brings its content back under the fresh
  identifier, focused, with its stale scrollback and terminal name dropped; the other panels are
  untouched and only the ten newest closed panels count.\<close>

theorem close_reopen:
  assumes "ws_ok ws" and "map_of (ws_panels ws) p = Some panel" and "\<not> has_key fresh (ws_panels ws)"
  defines "ws' \<equiv> fst (reopen_last_closed_panel fresh (fst (ws_remove_panel p ws)))"
  shows "snd (reopen_last_closed_panel fresh (fst (ws_remove_panel p ws))) = Some fresh \<and>
    ws_focused_panel_id ws' = Some fresh \<and>
    map_of (ws_panels ws') = (map_of (ws_panels ws))(p := None,
      fresh \<mapsto> panel\<lparr> p_id := fresh, p_pending_scrollback := None, p_tty_name := None \<rparr>) \<and>
    set (all_panel_ids (ws_layout ws')) = insert fresh (set (all_panel_ids (ws_layout ws)) - {p}) \<and>
    ws_closed_panels ws' = keep_last (CLOSED_PANELS_CAP - 1) (ws_closed_panels ws) \<and>
    ws_ok ws'"
proof -
  let ?ws1 = "fst (ws_remove_panel p ws)"
  have closed: "ws_closed_panels ?ws1 = push_capped CLOSED_PANELS_CAP panel (ws_closed_panels ws)"
    and panels: "ws_panels ?ws1 = AList.delete p (ws_panels ws)"
    using assms(2) by (simp_all add: ws_remove_panel_def Let_def)
  have ok1: "ws_ok ?ws1" by (rule ws_remove_panel_ok [OF assms(1)])
  have fresh: "\<not> has_key fresh (ws_panels ?ws1)"
    using assms(3) by (simp add: panels AList.delete_conv')
  have ok2: "ws_ok ws'" unfolding ws'_def by (rule reopen_ok [OF ok1 fresh])
  have last: "last (push_capped CLOSED_PANELS_CAP panel (ws_closed_panels ws)) = panel"
    "push_capped CLOSED_PANELS_CAP panel (ws_closed_panels ws) \<noteq> []"
    by (rule closed_panels_log.push_last)+
  have butlast: "butlast (push_capped CLOSED_PANELS_CAP panel (ws_closed_panels ws)) =
      keep_last (CLOSED_PANELS_CAP - 1) (ws_closed_panels ws)"
    by (simp add: push_capped_def keep_last_def CLOSED_PANELS_CAP_def butlast_drop)
  have m: "map_of (ws_panels ws') = (map_of (ws_panels ws))(p := None,
      fresh \<mapsto> panel\<lparr> p_id := fresh, p_pending_scrollback := None, p_tty_name := None \<rparr>)"
    using closed last panels
    by (simp add: ws'_def reopen_last_closed_panel_def Let_def AList.update_conv' AList.delete_conv')
  have "set (all_panel_ids (ws_layout ws')) = {k. has_key k (ws_panels ws')}"
    using ws_ok_has_key [OF ok2] by blast
  also have "\<dots> = insert fresh ({k. has_key k (ws_panels ws)} - {p})"
    using assms(2,3) by (auto simp: m split: if_splits)
  also have "{k. has_key k (ws_panels ws)} = set (all_panel_ids (ws_layout ws))"
    using ws_ok_has_key [OF assms(1)] by blast
  finally show ?thesis
    using closed last butlast m ok2 by (simp add: ws'_def reopen_last_closed_panel_def Let_def)
qed

lemma close_reopen_witness:
  "ws_focused_panel_id (fst (reopen_last_closed_panel 9 (fst (ws_remove_panel 1 (ws_new None 0 1))))) = Some 9"
  using close_reopen [of "ws_new None 0 1" 1 "new_terminal 1" 9, OF ws_new_ok] by (simp add: ws_new_def)

text \<open>Reporting a status stores the truncated value, icon, colour and link under the truncated key
  and drops at most one other entry: none while the list is below its cap or already holds the key,
  and otherwise one that no remaining entry is older than.\<close>

theorem set_status_effect:
  assumes "meta_ok ws" and "\<forall>e \<in> set (ws_status_entries ws). \<not> is_nan (se_timestamp e)"
    and "k = truncate_str key MAX_STATUS_KEY_LEN"
    and "new = ws_status_entries (set_status_with_url now key value icon color url ws)"
  shows "find (\<lambda>e. se_key e = k) new = Some \<lparr> se_key = k, se_value = truncate_str value MAX_STATUS_VALUE_LEN,
        se_icon = map_option (\<lambda>s. truncate_str s 256) icon, se_color = map_option (\<lambda>s. truncate_str s 64) color,
        se_url = map_option (\<lambda>s. truncate_str s 2048) url, se_timestamp = now \<rparr> \<and>
    (\<forall>e \<in> set (ws_status_entries ws). se_key e \<noteq> k \<longrightarrow> e \<notin> set new \<longrightarrow>
       length (ws_status_entries ws) = MAX_STATUS_ENTRIES \<and> k \<notin> se_key ` set (ws_status_entries ws) \<and>
       (\<forall>e' \<in> set (ws_status_entries ws). \<not> f64_lt (se_timestamp e') (se_timestamp e)))"
proof (intro conjI ballI impI)
  show "find (\<lambda>e. se_key e = k) new = Some \<lparr> se_key = k, se_value = truncate_str value MAX_STATUS_VALUE_LEN,
        se_icon = map_option (\<lambda>s. truncate_str s 256) icon, se_color = map_option (\<lambda>s. truncate_str s 64) color,
        se_url = map_option (\<lambda>s. truncate_str s 2048) url, se_timestamp = now \<rparr>"
    unfolding assms(4) set_status_with_url_def Let_def assms(3)
    by (simp add: upsert_find)
next
  fix e assume e: "e \<in> set (ws_status_entries ws)" "se_key e \<noteq> k" "e \<notin> set new"
  have cap: "length (ws_status_entries ws) \<le> MAX_STATUS_ENTRIES" using assms(1) by (simp add: meta_ok_def)
  from e(3) have "e \<notin> set (upsert se_key older_status MAX_STATUS_ENTRIES k
     (\<lambda>e. e\<lparr> se_value := truncate_str value MAX_STATUS_VALUE_LEN,
        se_icon := map_option (\<lambda>s. truncate_str s 256) icon, se_color := map_option (\<lambda>s. truncate_str s 64) color,
        se_url := map_option (\<lambda>s. truncate_str s 2048) url, se_timestamp := now \<rparr>)
     \<lparr> se_key = k, se_value = truncate_str value MAX_STATUS_VALUE_LEN,
        se_icon = map_option (\<lambda>s. truncate_str s 256) icon, se_color = map_option (\<lambda>s. truncate_str s 64) color,
        se_url = map_option (\<lambda>s. truncate_str s 2048) url, se_timestamp = now \<rparr> (ws_status_entries ws))"
    unfolding assms(3,4) set_status_with_url_def Let_def by simp
  from upsert_loses_minimum [OF _ _ e(1,2) this] assms(2) older_status_trans f64_lt_asym cap
  show "length (ws_status_entries ws) = MAX_STATUS_ENTRIES" "k \<notin> se_key ` set (ws_status_entries ws)"
    and "\<And>e'. e' \<in> set (ws_status_entries ws) \<Longrightarrow> \<not> f64_lt (se_timestamp e') (se_timestamp e)"
    unfolding older_status_def by (meson le_antisym)+
qed

lemma set_status_effect_witness:
  "find (\<lambda>e. se_key e = ''agent'') (ws_status_entries (set_status (Fin False 5) ''agent'' ''Working'' None None
     (set_status (Fin False 4) ''agent'' ''Idle'' None None (ws_new None 0 1)))) =
   Some \<lparr> se_key = ''agent'', se_value = ''Working'', se_icon = None, se_color = None, se_url = None,
     se_timestamp = Fin False 5 \<rparr>"
  using set_status_effect [of "set_status (Fin False 4) ''agent'' ''Idle'' None None (ws_new None 0 1)" "''agent''"
      "''agent''" _ "Fin False 5" "''Working''" None None None]
  by (simp add: set_status_def set_status_with_url_def ws_new_def meta_ok_def upsert_def evict_one_def
      truncate_str_def MAX_STATUS_KEY_LEN_def MAX_STATUS_VALUE_LEN_def MAX_STATUS_ENTRIES_def
      MAX_METADATA_ENTRIES_def MAX_METADATA_BLOCKS_def MAX_LOG_ENTRIES_def)

lemma char_count_take_chars [simp]: "char_count (take_chars n s) = min n (char_count s)"
  by (induction n s rule: take_chars.induct) (auto simp: char_count_def split: nat.splits)

lemma char_count_append [simp]: "char_count (s @ t) = char_count s + char_count t"
  by (simp add: char_count_def)

lemma summary_length: "char_count (notification_summary title body) \<le> 123"
  unfolding notification_summary_def truncate_for_sidebar_def Let_def
  by (simp add: min_def) (simp add: char_count_def is_cont_def)

lemma unat_saturating_inc: "unat (saturating_inc n) = min (unat n + 1) (2 ^ 32 - 1)"
proof (cases "n = - 1")
  case True
  then show ?thesis by (simp add: saturating_inc_def unsigned_minus_1_eq_mask mask_eq_exp_minus_1)
next
  case False
  then have "unat (n + 1) = unat n + 1" using unat_word_ariths(1) [of n 1] unsigned_less [of n, where ?'a = nat]
    by (cases "unat n + 1 = 2 ^ 32") (auto simp: word_unat_eq_iff unsigned_minus_1_eq_mask mask_eq_exp_minus_1)
  moreover have "unat (n + 1) < 2 ^ 32" using unsigned_less [of "n + 1", where ?'a = nat] by simp
  ultimately show ?thesis using False by (simp add: saturating_inc_def)
qed

text \<open>A notification raises the unread count by one and saturates instead of wrapping, keeps a
  summary of at most 120 characters and an ellipsis, asks for attention only for a panel of the
  workspace, and reading the notifications resets the count without losing the summary.\<close>

theorem record_notification_effect:
  fixes ws :: workspace and now :: f64 and title body :: rstr and pid :: "uuid option"
  defines "ws' \<equiv> record_notification now title body pid ws"
  shows "unat (ws_unread_count ws') = min (unat (ws_unread_count ws) + 1) (2 ^ 32 - 1) \<and>
    (\<exists>s. ws_latest_notification ws' = Some s \<and> char_count s \<le> 123) \<and>
    (ws_attention_panel_id ws' = pid \<and> (\<exists>i. pid = Some i \<and> has_key i (ws_panels ws')) \<or>
     ws_attention_panel_id ws' = None) \<and>
    mark_notifications_read ws' = ws'\<lparr> ws_unread_count := 0 \<rparr>"
  by (simp add: ws'_def record_notification_def unat_saturating_inc summary_length mark_notifications_read_def
      opt_filter_def split: option.splits)

end
