(* ===== verification/Tab_Manager_Facts.thy ===== *)
theory Tab_Manager_Facts imports Tab_Manager Workspace_Props begin

text \<open>
  The invariant of the workspace list and how every method keeps it: the live and the remembered
  workspaces are sound, share no identifier and no panel, the selection and the position in the
  focus history are in range, and both bounded lists stay within their caps.
\<close>

interpretation closed_entries_log: bounded_log
    "push_capped CLOSED_STACK_CAP :: closed_entry \<Rightarrow> closed_entry list \<Rightarrow> closed_entry list" CLOSED_STACK_CAP
  by (rule push_capped_log) (simp add: CLOSED_STACK_CAP_def)

interpretation focus_log: bounded_log
    "push_capped FOCUS_HISTORY_CAP :: uuid \<Rightarrow> uuid list \<Rightarrow> uuid list" FOCUS_HISTORY_CAP
  by (rule push_capped_log) (simp add: FOCUS_HISTORY_CAP_def)

section \<open>Collections of workspaces\<close>

abbreviation panel_keys :: "workspace \<Rightarrow> uuid list" where
  "panel_keys w \<equiv> keys_of (ws_panels w)"

text \<open>The set \<open>E\<close> holds the workspaces that were edited behind their methods' back: nothing is promised of
  them but that every panel is filed under its own identifier.\<close>

definition space_sound :: "uuid set \<Rightarrow> workspace \<Rightarrow> bool" where
  "space_sound E w \<longleftrightarrow> (if ws_id w \<in> E then panels_keyed (ws_panels w) else ws_ok w \<and> ws_panels w \<noteq> [])"

definition spaces_sound :: "uuid set \<Rightarrow> workspace list \<Rightarrow> bool" where
  "spaces_sound E l \<longleftrightarrow>
     distinct (map ws_id l) \<and> distinct (concat (map panel_keys l)) \<and> (\<forall>w \<in> set l. space_sound E w)"

abbreviation spaces_ok :: "workspace list \<Rightarrow> bool" where
  "spaces_ok \<equiv> spaces_sound {}"

lemma space_soundD:
  assumes "space_sound E w"
  shows "panels_keyed (ws_panels w)" "ws_id w \<notin> E \<Longrightarrow> ws_ok w \<and> ws_panels w \<noteq> []"
  using assms ws_okD(3) by (auto simp: space_sound_def split: if_splits)

lemma space_sound_empty [simp]: "space_sound {} w \<longleftrightarrow> ws_ok w \<and> ws_panels w \<noteq> []"
  by (simp add: space_sound_def)

lemma mset_concat_map: "mset (concat (map f xs)) = sum_mset (image_mset (\<lambda>x. mset (f x)) (mset xs))"
  by (induction xs) auto

lemma distinct_sub: "mset xs \<subseteq># mset ys \<Longrightarrow> distinct ys \<Longrightarrow> distinct xs"
  unfolding distinct_count_atmost_1
  by (metis count_mset_0_iff le_antisym le_zero_eq mset_subset_eq_count not_less_eq_eq One_nat_def
      in_multiset_in_set mset_subset_eqD less_Suc_eq_le less_one neq0_conv)

lemma spaces_ok_sub:
  assumes "spaces_sound E l" and "mset l' \<subseteq># mset l" shows "spaces_sound E l'"
proof -
  have "mset (map ws_id l') \<subseteq># mset (map ws_id l)"
    using image_mset_subseteq_mono [OF assms(2)] by simp
  moreover have "mset (concat (map panel_keys l')) \<subseteq># mset (concat (map panel_keys l))"
  proof -
    obtain D where "mset l = mset l' + D" using assms(2) by (metis mset_subset_eq_exists_conv)
    then show ?thesis unfolding mset_concat_map by simp
  qed
  moreover have "set l' \<subseteq> set l" using set_mset_mono [OF assms(2)] by simp
  ultimately show ?thesis
    using assms(1) unfolding spaces_sound_def by (meson distinct_sub subsetD)
qed

lemma spaces_ok_perm: "spaces_sound E l \<Longrightarrow> mset l' = mset l \<Longrightarrow> spaces_sound E l'"
  by (rule spaces_ok_sub) auto

lemma spaces_ok_map:
  assumes "spaces_sound E l" and "\<And>w. ws_id (f w) = ws_id w" and "\<And>w. ws_panels (f w) = ws_panels w"
    and "\<And>w. ws_ok w \<Longrightarrow> ws_ok (f w)"
  shows "spaces_sound E (map f l)"
proof -
  have "space_sound E (f w)" if "space_sound E w" for w
    using that assms(2,3,4) by (auto simp: space_sound_def)
  then show ?thesis using assms(1-3) by (simp add: spaces_sound_def comp_def)
qed

lemma spaces_ok_replace:
  assumes "spaces_sound E (xs @ w # ys)" and "ws_id w' = ws_id w" and "space_sound E w'" and "distinct (panel_keys w')"
    and "\<And>k. k \<in> set (panel_keys w') \<Longrightarrow> k \<in> set (panel_keys w) \<or> k \<notin> set (concat (map panel_keys (xs @ w # ys)))"
  shows "spaces_sound E (xs @ w' # ys)"
proof -
  let ?A = "concat (map panel_keys xs)" and ?B = "concat (map panel_keys ys)"
  have d: "distinct (?A @ panel_keys w @ ?B)" using assms(1) by (simp add: spaces_sound_def)
  have "k \<notin> set ?A \<and> k \<notin> set ?B" if "k \<in> set (panel_keys w')" for k
  proof -
    from assms(5) [OF that] have "k \<in> set (panel_keys w) \<or> k \<notin> set (?A @ panel_keys w @ ?B)" by simp
    with d show ?thesis unfolding distinct_append set_append by blast
  qed
  then have "distinct (?A @ panel_keys w' @ ?B)"
    using d assms(4) unfolding distinct_append set_append by blast
  then have "distinct (concat (map panel_keys (xs @ w' # ys)))" by simp
  moreover have "distinct (map ws_id (xs @ w' # ys))" "\<forall>v \<in> set (xs @ w' # ys). space_sound E v"
    using assms(1-4) by (simp_all add: spaces_sound_def)
  ultimately show ?thesis unfolding spaces_sound_def by blast
qed

lemma find_split:
  "find P l = Some w \<Longrightarrow>
   \<exists>xs ys. l = xs @ w # ys \<and> (\<forall>x \<in> set xs. \<not> P x) \<and> P w \<and> (\<forall>f. update_first P f l = xs @ f w # ys)"
proof (induction l)
  case (Cons x l)
  show ?case
  proof (cases "P x")
    case True
    with Cons.prems show ?thesis by (intro exI [of _ "[]"] exI [of _ l]) auto
  next
    case False
    with Cons obtain xs ys where "l = xs @ w # ys" "\<forall>x \<in> set xs. \<not> P x" "P w"
      "\<forall>f. update_first P f l = xs @ f w # ys" by auto
    with False show ?thesis by (intro exI [of _ "x # xs"] exI [of _ ys]) auto
  qed
qed simp

lemma position_find: "position P l = Some i \<Longrightarrow> find P l = Some (l ! i)"
  by (induction l arbitrary: i) (auto split: if_splits)

section \<open>The invariant\<close>

definition tm_spaces :: "tab_manager \<Rightarrow> workspace list" where
  "tm_spaces tm = tm_workspaces tm @ map ce_workspace (tm_closed_stack tm)"

definition selection_ok :: "tab_manager \<Rightarrow> bool" where
  "selection_ok tm \<longleftrightarrow> (case tm_selected_index tm of None \<Rightarrow> True | Some i \<Rightarrow> i < length (tm_workspaces tm))"

definition history_ok :: "tab_manager \<Rightarrow> bool" where
  "history_ok tm \<longleftrightarrow>
     length (tm_focus_history tm) \<le> FOCUS_HISTORY_CAP \<and>
     (if tm_focus_history tm = [] then tm_focus_pos tm = 0 else tm_focus_pos tm < length (tm_focus_history tm))"

definition tm_sound :: "uuid set \<Rightarrow> tab_manager \<Rightarrow> bool" where
  "tm_sound E tm \<longleftrightarrow>
     spaces_sound E (tm_spaces tm) \<and> selection_ok tm \<and> history_ok tm \<and>
     length (tm_closed_stack tm) \<le> CLOSED_STACK_CAP \<and> distinct (map wg_id (tm_groups tm))"

abbreviation tm_ok :: "tab_manager \<Rightarrow> bool" where
  "tm_ok \<equiv> tm_sound {}"

lemma tm_okD:
  assumes "tm_sound E tm"
  shows "spaces_sound E (tm_spaces tm)" "selection_ok tm" "history_ok tm"
    "length (tm_closed_stack tm) \<le> CLOSED_STACK_CAP" "distinct (map wg_id (tm_groups tm))"
  using assms by (simp_all add: tm_sound_def)

text \<open>What it takes for an operation that leaves history and groups alone.\<close>

lemma tm_okI:
  assumes "tm_sound E tm" and "mset (tm_spaces tm') \<subseteq># mset (tm_spaces tm)" and "selection_ok tm'"
    and "tm_focus_history tm' = tm_focus_history tm" and "tm_focus_pos tm' = tm_focus_pos tm"
    and "tm_groups tm' = tm_groups tm" and "length (tm_closed_stack tm') \<le> CLOSED_STACK_CAP"
  shows "tm_sound E tm'"
  using assms spaces_ok_sub [of E "tm_spaces tm" "tm_spaces tm'"] by (simp add: tm_sound_def history_ok_def)

lemma select_ops_ok [keeps]:
  assumes "tm_sound E tm"
  shows "tm_sound E (fst (tm_select i tm))" "tm_sound E (fst (select_by_id j tm))" "tm_sound E (select_next wrap tm)"
    "tm_sound E (select_previous wrap tm)" "tm_sound E (select_last tm)"
  using tm_okD [OF assms] position_Some [of "\<lambda>w. ws_id w = j" "tm_workspaces tm"]
  by (auto intro!: tm_okI [OF assms] split: option.splits
      simp: tm_select_def select_by_id_def select_next_def select_previous_def select_last_def
        selection_ok_def tm_spaces_def)

lemma indices_where_in: "i \<in> set (indices_where P xs) \<longleftrightarrow> i < length xs \<and> P i (xs ! i)"
  by (force simp: indices_where_def in_set_enumerate_eq)

lemma last_max_unread_less: "latest_unread_index tm = Some i \<Longrightarrow> i < length (tm_workspaces tm)"
  by (auto simp: latest_unread_index_def in_set_enumerate_eq dest!: last_max_in)

lemma select_latest_unread_ok [keeps]: "tm_sound E tm \<Longrightarrow> tm_sound E (fst (select_latest_unread tm))"
  using last_max_unread_less [of tm] tm_okD [of E tm]
  by (auto intro!: tm_okI [of E tm] simp: select_latest_unread_def selection_ok_def tm_spaces_def split: option.splits)

section \<open>Adding, moving and removing\<close>

definition fresh_in :: "uuid set \<Rightarrow> workspace \<Rightarrow> tab_manager \<Rightarrow> bool" where
  "fresh_in E ws tm \<longleftrightarrow> spaces_sound E (ws # tm_spaces tm)"

abbreviation fresh_space :: "workspace \<Rightarrow> tab_manager \<Rightarrow> bool" where
  "fresh_space \<equiv> fresh_in {}"

lemma tm_ok_addI:
  assumes "tm_sound E tm" and "fresh_in E ws tm" and "mset (tm_workspaces tm') = add_mset ws (mset (tm_workspaces tm))"
    and "tm_closed_stack tm' = tm_closed_stack tm" and "selection_ok tm'"
    and "tm_focus_history tm' = tm_focus_history tm" and "tm_focus_pos tm' = tm_focus_pos tm"
    and "tm_groups tm' = tm_groups tm"
  shows "tm_sound E tm'"
proof -
  have "spaces_sound E (tm_spaces tm')"
    using assms(2,3,4) unfolding fresh_in_def by (elim spaces_ok_perm) (simp add: tm_spaces_def)
  with assms show ?thesis by (simp add: tm_sound_def history_ok_def)
qed

lemma add_ops_ok [keeps]:
  assumes "tm_sound E tm" and "fresh_in E ws tm"
  shows "tm_sound E (fst (add_workspace ws tm))" "tm_sound E (fst (add_workspace_at_top ws tm))"
    "tm_sound E (fst (add_workspace_after_current ws tm))" "tm_sound E (fst (add_workspace_with_placement ws pl tm))"
    "tm_sound E (fst (add_workspace_keep_selection ws pl tm))"
proof -
  note s = tm_okD(2) [OF assms(1)]
  show a: "tm_sound E (fst (add_workspace ws tm))"
    by (rule tm_ok_addI [OF assms]) (simp_all add: add_workspace_def selection_ok_def)
  show b: "tm_sound E (fst (add_workspace_at_top ws tm))"
    by (rule tm_ok_addI [OF assms]) (simp_all add: add_workspace_at_top_def selection_ok_def)
  show c: "tm_sound E (fst (add_workspace_after_current ws tm))"
    using s by (intro tm_ok_addI [OF assms])
      (simp_all add: add_workspace_after_current_def selection_ok_def Let_def split: option.splits)
  show "tm_sound E (fst (add_workspace_with_placement ws pl tm))"
    using a b c by (cases pl) (simp_all add: add_workspace_with_placement_def)
  show "tm_sound E (fst (add_workspace_keep_selection ws pl tm))"
    using s by (intro tm_ok_addI [OF assms])
      (auto simp: add_workspace_keep_selection_def selection_ok_def Let_def split: option.splits)
qed

lemma remove_at_mset_sub: "mset (remove_at i xs) \<subseteq># mset xs"
proof (cases "i < length xs")
  case True
  have "mset (remove_at i xs) \<subseteq># add_mset (xs ! i) (mset (remove_at i xs))" by simp
  then show ?thesis unfolding mset_remove_at [OF True] .
next
  case False
  then show ?thesis by (simp add: remove_at_def)
qed

lemma keep_last_mset_sub: "mset (keep_last n xs) \<subseteq># mset xs"
proof -
  have "mset xs = mset (take (length xs - n) xs) + mset (keep_last n xs)"
    by (simp add: keep_last_def flip: mset_append)
  then show ?thesis by simp
qed

lemma push_capped_mset_sub: "mset (push_capped n x xs) \<subseteq># add_mset x (mset xs)"
  using keep_last_mset_sub [of n "xs @ [x]"] by (simp add: push_capped_def)

lemma tm_remove_ok [keeps]:
  assumes "tm_sound E tm" shows "tm_sound E (fst (tm_remove now i tm))"
proof (cases "i < length (tm_workspaces tm)")
  case False
  with assms show ?thesis by (simp add: tm_remove_def)
next
  case True
  let ?ws = "tm_workspaces tm ! i"
  let ?e = "\<lparr> ce_workspace = ?ws, ce_closed_at = now, ce_title = ws_display_title ?ws \<rparr>"
  let ?closed = "if ws_panels ?ws \<noteq> [] then push_capped CLOSED_STACK_CAP ?e (tm_closed_stack tm) else tm_closed_stack tm"
  have "mset (map ce_workspace ?closed) \<subseteq># add_mset ?ws (mset (map ce_workspace (tm_closed_stack tm)))"
    using image_mset_subseteq_mono [OF push_capped_mset_sub [of CLOSED_STACK_CAP ?e "tm_closed_stack tm"], of ce_workspace]
    by simp
  then have "mset (remove_at i (tm_workspaces tm)) + mset (map ce_workspace ?closed) \<subseteq>#
      mset (remove_at i (tm_workspaces tm)) + add_mset ?ws (mset (map ce_workspace (tm_closed_stack tm)))"
    by (rule mset_subset_eq_mono_add_left_cancel [THEN iffD2])
  also have "\<dots> = mset (tm_spaces tm)"
    unfolding tm_spaces_def mset_append mset_remove_at [OF True, symmetric] by simp
  finally have sub: "mset (remove_at i (tm_workspaces tm) @ map ce_workspace ?closed) \<subseteq># mset (tm_spaces tm)"
    by simp
  have cap: "length ?closed \<le> CLOSED_STACK_CAP"
    using tm_okD(4) [OF assms] closed_entries_log.push_cap by simp
  have len: "0 < length (remove_at i (tm_workspaces tm))" if "remove_at i (tm_workspaces tm) \<noteq> []"
    using that by simp
  have sel: "selection_ok (fst (tm_remove now i tm))"
    using True len tm_okD(2) [OF assms]
    by (auto simp: tm_remove_def Let_def selection_ok_def split: option.splits)
  have closed: "tm_closed_stack (fst (tm_remove now i tm)) = ?closed"
    "tm_workspaces (fst (tm_remove now i tm)) = remove_at i (tm_workspaces tm)"
    using True by (simp_all add: tm_remove_def Let_def)
  show ?thesis
    by (rule tm_okI [OF assms _ sel]) (use True sub cap closed in \<open>simp_all add: tm_spaces_def del: map_map\<close>,
      simp_all add: tm_remove_def Let_def)
qed

lemma remove_by_id_ok [keeps]: "tm_sound E tm \<Longrightarrow> tm_sound E (fst (remove_by_id now i tm))"
  by (simp add: remove_by_id_def tm_remove_ok split: option.split)

lemma move_workspace_ok [keeps]:
  assumes "tm_sound E tm" shows "tm_sound E (fst (move_workspace i j tm))"
  using tm_okD [OF assms] mset_remove_at [of i "tm_workspaces tm"]
  by (intro tm_okI [OF assms])
    (auto simp: move_workspace_def Let_def tm_spaces_def selection_ok_def split: option.splits)

section \<open>Closing several workspaces\<close>

lemma remove_indices_snoc: "remove_indices (ks @ [k]) xs = remove_indices ks (remove_at k xs)"
  by (simp add: remove_indices_def)

lemma remove_indices_append:
  "sorted_wrt (<) ks \<Longrightarrow> \<forall>k \<in> set ks. k < length xs \<Longrightarrow>
   remove_indices ks (xs @ ys) = remove_indices ks xs @ ys"
proof (induction ks arbitrary: xs rule: rev_induct)
  case Nil
  then show ?case by (simp add: remove_indices_def)
next
  case (snoc k ks)
  from snoc.prems have "\<forall>j \<in> set ks. j < k" "k < length xs" by (auto simp: sorted_wrt_append)
  then have "\<forall>j \<in> set ks. j < length (remove_at k xs)" by fastforce
  with snoc have "remove_indices ks (remove_at k xs @ ys) = remove_indices ks (remove_at k xs) @ ys"
    by (simp add: sorted_wrt_append)
  then show ?case using \<open>k < length xs\<close> by (simp add: remove_indices_snoc remove_at_def)
qed

lemma remove_indices_shift:
  "remove_indices (map ((+) (length xs)) ks) (xs @ ys) = xs @ remove_indices ks ys"
  by (induction ks arbitrary: ys rule: rev_induct) (simp_all add: remove_indices_def remove_at_def)

lemma indices_where_snoc:
  "indices_where P (xs @ [x]) = indices_where P xs @ (if P (length xs) x then [length xs] else [])"
  by (simp add: indices_where_def enumerate_append_eq)

lemma indices_where_sorted: "sorted_wrt (<) (indices_where P xs)"
  by (induction xs rule: rev_induct) (auto simp: indices_where_snoc sorted_wrt_append indices_where_in,
    simp add: indices_where_def)

text \<open>The descending removal loop computes a \<open>filter\<close>.\<close>

lemma remove_indices_where:
  "remove_indices (indices_where (\<lambda>_. P) xs) xs = filter (\<lambda>x. \<not> P x) xs"
proof (induction xs rule: rev_induct)
  case Nil
  then show ?case by (simp add: remove_indices_def indices_where_def)
next
  case (snoc x xs)
  have "remove_indices (indices_where (\<lambda>_. P) xs) (xs @ [x]) = filter (\<lambda>x. \<not> P x) xs @ [x]"
    using snoc by (subst remove_indices_append) (auto simp: indices_where_sorted indices_where_in)
  with snoc show ?case
    by (auto simp: indices_where_snoc remove_indices_snoc) (simp add: remove_at_def)
qed

lemma indices_where_length: "length (indices_where (\<lambda>_. P) xs) = length (filter P xs)"
  by (induction xs rule: rev_induct) (auto simp: indices_where_snoc, simp add: indices_where_def)

lemma filter_mset_sub: "mset (filter P xs) \<subseteq># mset xs"
  by simp

lemma close_others_spaces:
  "tm_workspaces (fst (close_others i tm)) = filter (\<lambda>w. ws_id w = i \<or> ws_is_pinned w) (tm_workspaces tm)"
  "snd (close_others i tm) = length (filter (\<lambda>w. ws_id w \<noteq> i \<and> \<not> ws_is_pinned w) (tm_workspaces tm))"
  by (simp_all add: close_others_def Let_def remove_indices_where indices_where_length)

lemma close_above_spaces:
  assumes "workspace_index i tm = Some t"
  shows "tm_workspaces (fst (close_above i tm)) =
      filter ws_is_pinned (take t (tm_workspaces tm)) @ drop t (tm_workspaces tm)"
    and "snd (close_above i tm) = length (filter (\<lambda>w. \<not> ws_is_pinned w) (take t (tm_workspaces tm)))"
proof -
  let ?ks = "indices_where (\<lambda>_ w. \<not> ws_is_pinned w) (take t (tm_workspaces tm))"
  have "remove_indices ?ks (take t (tm_workspaces tm) @ drop t (tm_workspaces tm)) =
      filter ws_is_pinned (take t (tm_workspaces tm)) @ drop t (tm_workspaces tm)"
    by (subst remove_indices_append) (simp_all add: indices_where_sorted indices_where_in remove_indices_where)
  then show "tm_workspaces (fst (close_above i tm)) =
      filter ws_is_pinned (take t (tm_workspaces tm)) @ drop t (tm_workspaces tm)"
    using assms by (simp add: close_above_def Let_def)
qed (use assms in \<open>simp add: close_above_def Let_def indices_where_length\<close>)

lemma close_below_spaces:
  assumes "workspace_index i tm = Some t"
  shows "tm_workspaces (fst (close_below i tm)) =
      take (t + 1) (tm_workspaces tm) @ filter ws_is_pinned (drop (t + 1) (tm_workspaces tm))"
    and "snd (close_below i tm) = length (filter (\<lambda>w. \<not> ws_is_pinned w) (drop (t + 1) (tm_workspaces tm)))"
proof -
  let ?ks = "indices_where (\<lambda>_ w. \<not> ws_is_pinned w) (drop (t + 1) (tm_workspaces tm))"
  have t: "length (take (t + 1) (tm_workspaces tm)) = t + 1"
    using assms position_Some by (fastforce simp: workspace_index_def)
  have "remove_indices (map ((+) (t + 1)) ?ks) (take (t + 1) (tm_workspaces tm) @ drop (t + 1) (tm_workspaces tm)) =
      take (t + 1) (tm_workspaces tm) @ filter ws_is_pinned (drop (t + 1) (tm_workspaces tm))"
    using remove_indices_shift [of "take (t + 1) (tm_workspaces tm)" ?ks "drop (t + 1) (tm_workspaces tm)"]
    unfolding t by (simp add: remove_indices_where)
  then show "tm_workspaces (fst (close_below i tm)) =
      take (t + 1) (tm_workspaces tm) @ filter ws_is_pinned (drop (t + 1) (tm_workspaces tm))"
    using assms unfolding close_below_def Let_def by simp
qed (use assms in \<open>simp add: close_below_def Let_def indices_where_length\<close>)

lemma close_frame:
  "tm_closed_stack (fst (close_others i tm)) = tm_closed_stack tm"
  "tm_focus_history (fst (close_others i tm)) = tm_focus_history tm"
  "tm_focus_pos (fst (close_others i tm)) = tm_focus_pos tm" "tm_groups (fst (close_others i tm)) = tm_groups tm"
  "tm_closed_stack (fst (close_above i tm)) = tm_closed_stack tm"
  "tm_focus_history (fst (close_above i tm)) = tm_focus_history tm"
  "tm_focus_pos (fst (close_above i tm)) = tm_focus_pos tm" "tm_groups (fst (close_above i tm)) = tm_groups tm"
  "tm_closed_stack (fst (close_below i tm)) = tm_closed_stack tm"
  "tm_focus_history (fst (close_below i tm)) = tm_focus_history tm"
  "tm_focus_pos (fst (close_below i tm)) = tm_focus_pos tm" "tm_groups (fst (close_below i tm)) = tm_groups tm"
  by (simp_all add: close_others_def close_above_def close_below_def Let_def split: option.split)

lemma close_others_ok [keeps]:
  assumes "tm_sound E tm" shows "tm_sound E (fst (close_others i tm))"
proof (rule tm_okI [OF assms])
  show "mset (tm_spaces (fst (close_others i tm))) \<subseteq># mset (tm_spaces tm)"
    by (simp add: tm_spaces_def close_others_spaces close_frame)
  show "selection_ok (fst (close_others i tm))"
    by (auto simp: close_others_def Let_def selection_ok_def split: option.splits dest: position_Some)
qed (simp_all add: close_frame tm_okD [OF assms])

lemma close_above_ok [keeps]:
  assumes "tm_sound E tm" shows "tm_sound E (fst (close_above i tm))"
proof (cases "workspace_index i tm")
  case None
  with assms show ?thesis by (simp add: close_above_def)
next
  case (Some t)
  let ?l = "tm_workspaces (fst (close_above i tm))"
  have t: "t < length (tm_workspaces tm)" "ws_id (tm_workspaces tm ! t) = i"
    using Some position_Some by (fastforce simp: workspace_index_def)+
  have "tm_workspaces tm ! t \<in> set ?l"
    using t(1) by (simp add: close_above_spaces [OF Some] flip: Cons_nth_drop_Suc)
  then obtain k where k: "position (\<lambda>w. ws_id w = i) ?l = Some k"
    using position_exists [of _ ?l "\<lambda>w. ws_id w = i"] t(2) by blast
  show ?thesis
  proof (rule tm_okI [OF assms])
    have "mset (take t (tm_workspaces tm)) + mset (drop t (tm_workspaces tm)) = mset (tm_workspaces tm)"
      by (simp flip: mset_append)
    then show "mset (tm_spaces (fst (close_above i tm))) \<subseteq># mset (tm_spaces tm)"
      by (simp add: tm_spaces_def close_above_spaces [OF Some] close_frame)
        (metis mset_subset_eq_mono_add_right_cancel multiset_filter_subset)
    have "tm_selected_index (fst (close_above i tm)) = Some k"
      using k Some by (simp add: close_above_def Let_def)
    then show "selection_ok (fst (close_above i tm))"
      using position_Some [OF k] by (simp add: selection_ok_def)
  qed (simp_all add: close_frame tm_okD [OF assms])
qed

lemma close_below_ok [keeps]:
  assumes "tm_sound E tm" shows "tm_sound E (fst (close_below i tm))"
proof (cases "workspace_index i tm")
  case None
  with assms show ?thesis by (simp add: close_below_def)
next
  case (Some t)
  have t: "t < length (tm_workspaces tm)"
    using Some position_Some by (fastforce simp: workspace_index_def)
  then have ne: "0 < length (tm_workspaces (fst (close_below i tm)))"
    by (auto simp: close_below_spaces [OF Some])
  show ?thesis
  proof (rule tm_okI [OF assms])
    have "mset (take (t + 1) (tm_workspaces tm)) + mset (drop (t + 1) (tm_workspaces tm)) = mset (tm_workspaces tm)"
      by (simp flip: mset_append)
    then show "mset (tm_spaces (fst (close_below i tm))) \<subseteq># mset (tm_spaces tm)"
      by (simp add: tm_spaces_def close_below_spaces [OF Some] close_frame)
        (metis mset_subset_eq_mono_add_left_cancel multiset_filter_subset)
    show "selection_ok (fst (close_below i tm))"
      using ne Some by (auto simp: close_below_def Let_def selection_ok_def split: option.split)
  qed (simp_all add: close_frame tm_okD [OF assms])
qed

section \<open>Panels that move between workspaces\<close>

lemma find_unique_id:
  "distinct (map ws_id l) \<Longrightarrow> w \<in> set l \<Longrightarrow> find (\<lambda>v. ws_id v = ws_id w) l = Some w"
  by (induction l) auto

lemma tm_sound_live:
  assumes "tm_sound E tm" and "w \<in> set (tm_workspaces tm)"
  shows "space_sound E w" "tm_workspace (ws_id w) tm = Some w" "distinct (panel_keys w)"
  using tm_okD(1) [OF assms(1)] assms(2)
  by (auto simp: spaces_sound_def tm_spaces_def tm_workspace_def distinct_concat_iff intro: find_unique_id)

lemma tm_ok_live:
  assumes "tm_ok tm" and "w \<in> set (tm_workspaces tm)"
  shows "ws_ok w" "ws_panels w \<noteq> []" "tm_workspace (ws_id w) tm = Some w"
  using tm_okD(1) [OF assms(1)] assms(2)
  by (auto simp: spaces_sound_def tm_spaces_def tm_workspace_def intro: find_unique_id)

text \<open>Replacing one live workspace by an edited one.\<close>

lemma spaces_sound_edit:
  assumes "spaces_sound E (tm_spaces tm)" and "tm_workspaces tm = xs @ w # ys" and "ws_id w' = ws_id w"
    and "space_sound E w'" and "distinct (panel_keys w')"
    and "\<And>k. k \<in> set (panel_keys w') \<Longrightarrow>
      k \<in> set (panel_keys w) \<or> k \<notin> set (concat (map panel_keys (tm_spaces tm)))"
    and "tm_workspaces tm' = xs @ w' # ys" and "tm_closed_stack tm' = tm_closed_stack tm"
  shows "spaces_sound E (tm_spaces tm')"
proof -
  have "spaces_sound E (xs @ w' # (ys @ map ce_workspace (tm_closed_stack tm)))"
    by (rule spaces_ok_replace [where w = w]) (use assms in \<open>simp_all add: tm_spaces_def\<close>)
  with assms(7,8) show ?thesis by (simp add: tm_spaces_def)
qed

lemma spaces_ok_edit:
  assumes "spaces_ok (tm_spaces tm)" and "tm_workspaces tm = xs @ w # ys" and "ws_id w' = ws_id w" and "ws_ok w'"
    and "ws_panels w' \<noteq> []"
    and "\<And>k. k \<in> set (panel_keys w') \<Longrightarrow>
      k \<in> set (panel_keys w) \<or> k \<notin> set (concat (map panel_keys (tm_spaces tm)))"
    and "tm_workspaces tm' = xs @ w' # ys" and "tm_closed_stack tm' = tm_closed_stack tm"
  shows "spaces_ok (tm_spaces tm')"
  using ws_okD(2) [OF assms(4)] assms(4,5)
  by (intro spaces_sound_edit [OF assms(1-3) _ _ assms(6-8)]) (simp_all add: consistent_def)

text \<open>Taking a panel out and putting one in.\<close>

lemma space_sound_less:
  assumes "space_sound E w" and "ws_id w' = ws_id w" and "ws_panels w' = AList.delete p (ws_panels w)"
    and "ws_ok w \<Longrightarrow> ws_ok w'" and "ws_panels w' \<noteq> []"
  shows "space_sound E w'"
  using assms by (auto simp: space_sound_def panels_keyed_delete split: if_splits)

lemma space_sound_more:
  assumes "space_sound E w" and "\<not> has_key (p_id panel) (ws_panels w)"
  shows "space_sound E (fst (insert_panel panel ori w))"
proof (cases "ws_id w \<in> E")
  case True
  then show ?thesis
    using space_soundD(1) [OF assms(1)] by (simp add: space_sound_def insert_panel_def panels_keyed_update)
next
  case False
  then show ?thesis
    using space_soundD(2) [OF assms(1)] assms(2) insert_panel_ok [of w panel ori]
    by (simp add: space_sound_def ws_is_empty_def insert_panel_def update_nonempty)
qed

lemma tm_ok_editI:
  assumes "tm_sound E tm" and "spaces_sound E (tm_spaces tm')" and "length (tm_workspaces tm') = length (tm_workspaces tm)"
    and "tm_selected_index tm' = tm_selected_index tm" and "tm_closed_stack tm' = tm_closed_stack tm"
    and "tm_focus_history tm' = tm_focus_history tm" and "tm_focus_pos tm' = tm_focus_pos tm"
    and "tm_groups tm' = tm_groups tm"
  shows "tm_sound E tm'"
  using assms by (simp add: tm_sound_def history_ok_def selection_ok_def cong: option.case_cong)

lemma ws_id_ops [simp]:
  "ws_id (fst (ws_remove_panel p w)) = ws_id w" "ws_id (fst (detach_panel p w)) = ws_id w"
  "ws_id (fst (insert_panel q ori w)) = ws_id w"
  by (simp_all add: ws_remove_panel_def detach_panel_def insert_panel_def Let_def split: option.split)

text \<open>Removing the workspace an operation has just emptied does not remember it.\<close>

lemma remove_by_id_empty:
  assumes "tm_workspaces tm = xs @ w # ys" and "ws_id w = i" and "i \<notin> ws_id ` set xs" and "ws_panels w = []"
  shows "tm_workspaces (fst (remove_by_id now i tm)) = xs @ ys"
    and "tm_closed_stack (fst (remove_by_id now i tm)) = tm_closed_stack tm"
    and "selection_ok tm \<Longrightarrow> selection_ok (fst (remove_by_id now i tm))"
    and "tm_focus_history (fst (remove_by_id now i tm)) = tm_focus_history tm"
    and "tm_focus_pos (fst (remove_by_id now i tm)) = tm_focus_pos tm"
    and "tm_groups (fst (remove_by_id now i tm)) = tm_groups tm"
proof -
  have "position (\<lambda>v. ws_id v = i) (xs @ w # ys) = Some (length xs)"
    using assms(2,3) by (induction xs) auto
  then have r: "remove_by_id now i tm = tm_remove now (length xs) tm"
    using assms(1) by (simp add: remove_by_id_def)
  have w: "(xs @ w # ys) ! length xs = w" "remove_at (length xs) (xs @ w # ys) = xs @ ys"
    by (simp_all add: remove_at_def)
  show "tm_workspaces (fst (remove_by_id now i tm)) = xs @ ys"
    and "tm_closed_stack (fst (remove_by_id now i tm)) = tm_closed_stack tm"
    and "tm_focus_history (fst (remove_by_id now i tm)) = tm_focus_history tm"
    and "tm_focus_pos (fst (remove_by_id now i tm)) = tm_focus_pos tm"
    and "tm_groups (fst (remove_by_id now i tm)) = tm_groups tm"
    unfolding r using assms(1,4) w by (simp_all add: tm_remove_def Let_def)
  show "selection_ok tm \<Longrightarrow> selection_ok (fst (remove_by_id now i tm))"
    unfolding r using assms(1,4) w
    by (cases "xs @ ys = []") (auto simp: tm_remove_def Let_def selection_ok_def split: option.splits)
qed

lemma live_split:
  assumes "tm_sound E tm" and "find P (tm_workspaces tm) = Some w"
  shows "\<exists>xs ys. tm_workspaces tm = xs @ w # ys \<and> P w \<and> ws_id w \<notin> ws_id ` set xs \<and>
    ws_id w \<notin> ws_id ` set ys \<and> (\<forall>f. update_first P f (tm_workspaces tm) = xs @ f w # ys) \<and>
    w \<in> set (tm_workspaces tm)"
proof -
  obtain xs ys where l: "tm_workspaces tm = xs @ w # ys" "P w" "\<forall>f. update_first P f (tm_workspaces tm) = xs @ f w # ys"
    using find_split [OF assms(2)] by blast
  moreover have "distinct (map ws_id (tm_workspaces tm))"
    using tm_okD(1) [OF assms(1)] by (simp add: spaces_sound_def tm_spaces_def)
  then have "ws_id w \<notin> ws_id ` set xs" "ws_id w \<notin> ws_id ` set ys" unfolding l(1) by auto
  ultimately show ?thesis by (intro exI [of _ xs] exI [of _ ys]) simp
qed

lemma dropped_space_ok:
  assumes "tm_sound E tm" and "tm_workspaces tm = xs @ w # ys" and "tm_workspaces tm' = xs @ ys"
    and "tm_closed_stack tm' = tm_closed_stack tm"
  shows "spaces_sound E (tm_spaces tm')"
  by (rule spaces_ok_sub [OF tm_okD(1) [OF assms(1)]]) (simp add: tm_spaces_def assms)

lemma close_panel_ok [keeps]:
  assumes "tm_sound E tm" shows "tm_sound E (fst (close_panel now p tm))"
proof (cases "find_workspace_with_panel p tm")
  case None
  with assms show ?thesis by (simp add: close_panel_def)
next
  case (Some w)
  then have "find (\<lambda>w. has_key p (ws_panels w)) (tm_workspaces tm) = Some w"
    by (simp add: find_workspace_with_panel_def)
  from live_split [OF assms this] obtain xs ys where l: "tm_workspaces tm = xs @ w # ys"
    "has_key p (ws_panels w)" "ws_id w \<notin> ws_id ` set xs" "w \<in> set (tm_workspaces tm)"
    "\<forall>f. update_first (\<lambda>w. has_key p (ws_panels w)) f (tm_workspaces tm) = xs @ f w # ys" by blast
  let ?w = "fst (ws_remove_panel p w)" and ?tm = "tm\<lparr> tm_workspaces := xs @ fst (ws_remove_panel p w) # ys \<rparr>"
  have r: "snd (ws_remove_panel p w)" "ws_panels ?w = AList.delete p (ws_panels w)"
    using l(2) by (auto simp: ws_remove_panel_def Let_def)
  have e: "fst (close_panel now p tm) = (if ws_panels ?w = [] then fst (remove_by_id now (ws_id w) ?tm) else ?tm)"
    using Some r(1) l(5) by (simp add: close_panel_def split_beta Let_def ws_is_empty_def)
  note live = tm_sound_live [OF assms l(4)]
  show ?thesis
  proof (cases "ws_panels ?w = []")
    case True
    note rm = remove_by_id_empty [of ?tm xs ?w ys "ws_id w" now, OF _ _ l(3) True, simplified]
    have "selection_ok ?tm" using tm_okD(2) [OF assms] l(1) by (simp add: selection_ok_def cong: option.case_cong)
    then show ?thesis
      using tm_okD [OF assms] dropped_space_ok [OF assms l(1) rm(1)] rm True
      by (simp add: e tm_sound_def history_ok_def)
  next
    case False
    have "spaces_sound E (tm_spaces ?tm)"
    proof (rule spaces_sound_edit [OF tm_okD(1) [OF assms] l(1)])
      show "space_sound E ?w"
        by (rule space_sound_less [OF live(1) _ r(2) ws_remove_panel_ok False]) simp_all
      show "distinct (panel_keys ?w)" unfolding r(2) using live(3) by (rule distinct_delete)
      fix k assume "k \<in> set (panel_keys ?w)"
      then show "k \<in> set (panel_keys w) \<or> k \<notin> set (concat (map panel_keys (tm_spaces tm)))"
        unfolding r(2) keys_delete by blast
    qed simp_all
    then show ?thesis
      using False l(1) by (simp add: e tm_ok_editI [OF assms])
  qed
qed

lemma key_elsewhere:
  "spaces_sound E (xs @ w # ys) \<Longrightarrow> p \<in> set (panel_keys w) \<Longrightarrow> p \<notin> set (concat (map panel_keys (xs @ ys)))"
  by (auto simp: spaces_sound_def simp del: set_map)

definition detach_and_drop :: "nat \<Rightarrow> uuid \<Rightarrow> workspace \<Rightarrow> tab_manager \<Rightarrow> tab_manager" where
  "detach_and_drop now p w tm =
     (let tm1 = edit_workspace (ws_id w) (\<lambda>_. fst (detach_panel p w)) tm
      in if ws_is_empty (fst (detach_panel p w)) then fst (remove_by_id now (ws_id w) tm1) else tm1)"

lemma detach_and_drop_ok:
  assumes "tm_sound E tm" and "find_workspace_with_panel p tm = Some w"
  shows "tm_sound E (detach_and_drop now p w tm)"
    and "p \<notin> set (concat (map panel_keys (tm_spaces (detach_and_drop now p w tm))))"
    and "ws_id v \<noteq> ws_id w \<Longrightarrow> v \<in> set (tm_workspaces tm) \<Longrightarrow>
      v \<in> set (tm_workspaces (detach_and_drop now p w tm))"
proof -
  have "find (\<lambda>w. has_key p (ws_panels w)) (tm_workspaces tm) = Some w"
    using assms(2) by (simp add: find_workspace_with_panel_def)
  from find_Some_in [OF this] have w: "w \<in> set (tm_workspaces tm)" "has_key p (ws_panels w)" by auto
  note live = tm_sound_live [OF assms(1) w(1)]
  from live(2) have "find (\<lambda>v. ws_id v = ws_id w) (tm_workspaces tm) = Some w"
    by (simp add: tm_workspace_def)
  from live_split [OF assms(1) this] obtain xs ys where l: "tm_workspaces tm = xs @ w # ys"
    "ws_id w \<notin> ws_id ` set xs"
    "\<forall>f. update_first (\<lambda>v. ws_id v = ws_id w) f (tm_workspaces tm) = xs @ f w # ys" by blast
  let ?w = "fst (detach_panel p w)" and ?tm = "tm\<lparr> tm_workspaces := xs @ fst (detach_panel p w) # ys \<rparr>"
  let ?d = "detach_and_drop now p w tm"
  have k: "ws_panels ?w = AList.delete p (ws_panels w)"
    using w(2) by (auto simp: detach_panel_def Let_def)
  have e: "?d = (if ws_panels ?w = [] then fst (remove_by_id now (ws_id w) ?tm) else ?tm)"
    using l(3) by (simp add: detach_and_drop_def edit_workspace_def Let_def ws_is_empty_def)
  have sp: "spaces_sound E (xs @ w # ys @ map ce_workspace (tm_closed_stack tm))"
    using tm_okD(1) [OF assms(1)] l(1) by (simp add: tm_spaces_def)
  have "p \<in> set (panel_keys w)" using w(2) unfolding has_key_iff .
  from key_elsewhere [OF sp this]
  have p: "p \<notin> set (concat (map panel_keys (xs @ ys @ map ce_workspace (tm_closed_stack tm))))" by simp
  have "tm_sound E ?d \<and> p \<notin> set (concat (map panel_keys (tm_spaces ?d))) \<and>
    (ws_id v \<noteq> ws_id w \<longrightarrow> v \<in> set (tm_workspaces tm) \<longrightarrow> v \<in> set (tm_workspaces ?d))"
  proof (cases "ws_panels ?w = []")
    case True
    note rm = remove_by_id_empty [of ?tm xs ?w ys "ws_id w" now, OF _ _ l(2) True, simplified]
    have "selection_ok ?tm" using tm_okD(2) [OF assms(1)] l(1) by (simp add: selection_ok_def cong: option.case_cong)
    with True p tm_okD [OF assms(1)] dropped_space_ok [OF assms(1) l(1) rm(1)] rm l(1) show ?thesis
      by (auto simp: e tm_sound_def history_ok_def tm_spaces_def simp del: set_map)
  next
    case False
    have "spaces_sound E (tm_spaces ?tm)"
    proof (rule spaces_sound_edit [OF tm_okD(1) [OF assms(1)] l(1)])
      show "space_sound E ?w"
        by (rule space_sound_less [OF live(1) _ k detach_panel_ok False]) simp_all
      show "distinct (panel_keys ?w)" unfolding k using live(3) by (rule distinct_delete)
      fix k' assume "k' \<in> set (panel_keys ?w)"
      then show "k' \<in> set (panel_keys w) \<or> k' \<notin> set (concat (map panel_keys (tm_spaces tm)))"
        unfolding k keys_delete by blast
    qed simp_all
    then have "tm_sound E ?d" using False l(1) by (simp add: e tm_ok_editI [OF assms(1)])
    moreover have "p \<notin> set (panel_keys ?w)" unfolding k keys_delete by blast
    ultimately show ?thesis
      using False p l(1) by (auto simp: e tm_spaces_def simp del: set_map)
  qed
  then show "tm_sound E ?d" and "p \<notin> set (concat (map panel_keys (tm_spaces ?d)))"
    and "ws_id v \<noteq> ws_id w \<Longrightarrow> v \<in> set (tm_workspaces tm) \<Longrightarrow> v \<in> set (tm_workspaces ?d)" by blast+
qed

text \<open>A move that is not refused: the panel leaves its workspace, and the target takes it in.\<close>

lemma move_panel_eq:
  assumes "tm_sound E tm" and "find_workspace_with_panel p tm = Some w" and "tm_workspace target tm = Some t"
    and "ws_id w \<noteq> target"
  obtains panel where "map_of (ws_panels w) p = Some panel" and
    "move_panel_to_workspace now p target tm =
      (edit_workspace target (\<lambda>v. fst (insert_panel panel Horizontal v)) (detach_and_drop now p w tm), Some target)"
    and "tm_workspace target (detach_and_drop now p w tm) = Some t"
proof -
  have "find (\<lambda>w. has_key p (ws_panels w)) (tm_workspaces tm) = Some w"
    using assms(2) by (simp add: find_workspace_with_panel_def)
  from find_Some_in [OF this] have w: "w \<in> set (tm_workspaces tm)" "has_key p (ws_panels w)" by auto
  then obtain panel where panel: "map_of (ws_panels w) p = Some panel" by auto
  have t: "t \<in> set (tm_workspaces tm)" "ws_id t = target"
    using assms(3) by (auto simp: tm_workspace_def dest: find_Some_in)
  have t2: "tm_workspace target (detach_and_drop now p w tm) = Some t"
    using tm_sound_live(2) [OF detach_and_drop_ok(1) [OF assms(1,2)] detach_and_drop_ok(3) [OF assms(1,2) _ t(1)]]
      t(2) assms(4) by auto
  obtain w' where d: "detach_panel p w = (w', Some panel)" using panel by (simp add: detach_panel_def Let_def)
  have src: "tm_workspace (ws_id w) tm = Some w" by (rule tm_sound_live(2) [OF assms(1) w(1)])
  moreover have "ws_id w' = ws_id w" using ws_id_ops(2) [of p w] d by simp
  ultimately have "tm_workspace (ws_id w) (edit_workspace (ws_id w) (\<lambda>_. w') tm) = Some w'"
    by (simp add: tm_workspace_def edit_workspace_def find_update_first)
  then have "move_panel_to_workspace now p target tm =
      (edit_workspace target (\<lambda>v. fst (insert_panel panel Horizontal v)) (detach_and_drop now p w tm), Some target)"
    using assms(2-4) src t2 d
    by (simp add: move_panel_to_workspace_def detach_and_drop_def Let_def)
  with panel t2 that show ?thesis by blast
qed

lemma move_panel_ok [keeps]:
  assumes "tm_sound E tm" shows "tm_sound E (fst (move_panel_to_workspace now p target tm))"
proof (cases "\<exists>w t. find_workspace_with_panel p tm = Some w \<and> tm_workspace target tm = Some t \<and> ws_id w \<noteq> target")
  case False
  then have "move_panel_to_workspace now p target tm = (tm, None)"
    by (auto simp: move_panel_to_workspace_def Let_def split: option.splits)
  with assms show ?thesis by simp
next
  case True
  then obtain w t where a: "find_workspace_with_panel p tm = Some w" "tm_workspace target tm = Some t"
    "ws_id w \<noteq> target" by blast
  from move_panel_eq [OF assms a] obtain panel where m: "map_of (ws_panels w) p = Some panel"
    "move_panel_to_workspace now p target tm =
      (edit_workspace target (\<lambda>v. fst (insert_panel panel Horizontal v)) (detach_and_drop now p w tm), Some target)"
    "tm_workspace target (detach_and_drop now p w tm) = Some t" by blast
  let ?d = "detach_and_drop now p w tm" and ?t = "fst (insert_panel panel Horizontal t)"
  note ok = detach_and_drop_ok [OF assms a(1), where now = now]
  have w: "w \<in> set (tm_workspaces tm)"
    using a(1) by (auto simp: find_workspace_with_panel_def dest: find_Some_in)
  have id: "p_id panel = p"
    using space_soundD(1) [OF tm_sound_live(1) [OF assms w]] m(1) by (simp add: panels_keyed_def)
  from live_split [OF ok(1) m(3) [unfolded tm_workspace_def]] obtain xs ys where
    l: "tm_workspaces ?d = xs @ t # ys" "ws_id t = target" "t \<in> set (tm_workspaces ?d)"
    "\<forall>f. update_first (\<lambda>v. ws_id v = target) f (tm_workspaces ?d) = xs @ f t # ys" by blast
  have "p \<notin> set (panel_keys t)" using ok(2) l(3) unfolding tm_spaces_def by auto
  then have nk: "\<not> has_key (p_id panel) (ws_panels t)" unfolding id has_key_iff .
  note lt = tm_sound_live [OF ok(1) l(3)]
  have d: "distinct (panel_keys ?t)" using lt(3) by (simp add: insert_panel_def distinct_update)
  have "spaces_sound E (tm_spaces (edit_workspace target (\<lambda>v. fst (insert_panel panel Horizontal v)) ?d))"
  proof (rule spaces_sound_edit [OF tm_okD(1) [OF ok(1)] l(1) _ space_sound_more [OF lt(1) nk] d])
    fix k assume "k \<in> set (panel_keys ?t)"
    then have "k = p \<or> k \<in> set (panel_keys t)"
      unfolding insert_panel_def by (simp add: id keys_update del: set_map)
    with ok(2) show "k \<in> set (panel_keys t) \<or> k \<notin> set (concat (map panel_keys (tm_spaces ?d)))" by blast
  qed (use l(4) in \<open>simp_all add: edit_workspace_def\<close>)
  then show ?thesis
    unfolding m(2) fst_conv by (rule tm_ok_editI [OF ok(1)]) (simp_all add: edit_workspace_def)
qed

section \<open>Groups, focus history and reopening\<close>

lemma set_group_id_ok [simp]: "ws_ok w \<Longrightarrow> ws_ok (w\<lparr> ws_group_id := g \<rparr>)"
  by (simp add: ws_ok_def)

lemma edit_group_ok [keeps]:
  "tm_sound E tm \<Longrightarrow> (\<And>g. wg_id (f g) = wg_id g) \<Longrightarrow> tm_sound E (fst (edit_group i f tm))"
  by (auto simp: edit_group_def tm_sound_def tm_spaces_def selection_ok_def history_ok_def map_update_first
      cong: option.case_cong split: option.split)

lemma group_ops_ok [keeps]:
  assumes "tm_sound E tm"
  shows "tm_sound E (fst (rename_group i name tm))" "tm_sound E (fst (set_group_color i color tm))"
    "tm_sound E (fst (set_group_collapsed i c tm))"
  using assms
  by (auto simp: rename_group_def set_group_color_def set_group_collapsed_def Let_def edit_group_ok
      split: option.split)

lemma create_group_ok [keeps]:
  "tm_sound E tm \<Longrightarrow> fresh \<notin> wg_id ` set (tm_groups tm) \<Longrightarrow> tm_sound E (fst (create_group fresh name win tm))"
  by (simp add: create_group_def new_group_def tm_sound_def tm_spaces_def selection_ok_def history_ok_def
      Let_def cong: option.case_cong)

lemma same_group [simp]: "\<exists>g. w = w\<lparr> ws_group_id := g \<rparr>" for w :: workspace
  by (rule exI [of _ "ws_group_id w"]) simp

lemma regroup_ok:
  assumes "tm_sound E tm" and "tm_workspaces tm' = map f (tm_workspaces tm)"
    and "\<And>w. \<exists>g. f w = w\<lparr> ws_group_id := g \<rparr>" and "tm_closed_stack tm' = tm_closed_stack tm"
    and "tm_selected_index tm' = tm_selected_index tm" and "tm_focus_history tm' = tm_focus_history tm"
    and "tm_focus_pos tm' = tm_focus_pos tm" and "distinct (map wg_id (tm_groups tm'))"
  shows "tm_sound E tm'"
proof -
  have f: "ws_id (f w) = ws_id w" "ws_panels (f w) = ws_panels w" "ws_ok w \<Longrightarrow> ws_ok (f w)" for w
    using assms(3) [of w] by auto
  have sound: "space_sound E w \<Longrightarrow> space_sound E (f w)" for w
    using f [of w] by (simp add: space_sound_def split: if_splits)
  have "spaces_sound E (tm_spaces tm')"
    using tm_okD(1) [OF assms(1)] by (auto simp: spaces_sound_def tm_spaces_def assms(2,4) f(1,2) sound comp_def)
  then show ?thesis
    using assms by (simp add: tm_sound_def selection_ok_def history_ok_def cong: option.case_cong)
qed

lemma remove_group_ok [keeps]: "tm_sound E tm \<Longrightarrow> tm_sound E (fst (remove_group i tm))"
proof -
  assume ok: "tm_sound E tm"
  have d: "distinct (map wg_id (filter (\<lambda>g. wg_id g \<noteq> i) (tm_groups tm)))"
    using tm_okD(5) [OF ok] by (rule filter_map_distinct)
  show ?thesis
  proof (cases "length (filter (\<lambda>g. wg_id g \<noteq> i) (tm_groups tm)) = length (tm_groups tm)")
    case True
    with d show ?thesis
      by (intro regroup_ok [OF ok, where f = id]) (simp_all add: remove_group_def Let_def)
  next
    case False
    with d show ?thesis
      by (intro regroup_ok [OF ok, where f = "\<lambda>w. if ws_group_id w = Some i then w\<lparr> ws_group_id := None \<rparr> else w"])
        (auto simp: remove_group_def Let_def)
  qed
qed

lemma assign_to_group_ok [keeps]:
  assumes "tm_sound E tm" shows "tm_sound E (fst (assign_to_group wid gid tm))"
proof (cases "workspace_index wid tm")
  case None
  with assms show ?thesis by (simp add: assign_to_group_def)
next
  case (Some idx)
  let ?tm1 = "tm\<lparr> tm_workspaces := (tm_workspaces tm)[idx := (tm_workspaces tm ! idx)\<lparr> ws_group_id := gid \<rparr>] \<rparr>"
  have i: "idx < length (tm_workspaces tm)"
    using Some position_Some by (fastforce simp: workspace_index_def)
  note l = id_take_nth_drop [OF i]
  have "spaces_sound E (tm_spaces ?tm1)"
    by (rule spaces_sound_edit [OF tm_okD(1) [OF assms] l, where w' = "(tm_workspaces tm ! idx)\<lparr> ws_group_id := gid \<rparr>"])
      (use i tm_sound_live [OF assms nth_mem [OF i]] in \<open>simp_all add: upd_conv_take_nth_drop space_sound_def split: if_splits\<close>)
  then have ok: "tm_sound E ?tm1" by (rule tm_ok_editI [OF assms]) simp_all
  have m: "tm_sound E (fst (move_workspace a b ?tm1))" for a b by (rule move_workspace_ok [OF ok])
  show ?thesis
    using assms Some ok m by (cases gid) (auto simp: assign_to_group_def Let_def split: option.split)
qed

lemma mset_partition: "mset (filter P xs) + mset (filter (\<lambda>x. \<not> P x) xs) = mset xs"
  by (simp flip: multiset_partition)

lemma mset_splice: "mset (take n xs @ ys @ drop n xs) = mset ys + mset xs"
proof -
  have "mset (take n xs) + mset (drop n xs) = mset xs" by (simp flip: mset_append)
  then show ?thesis by simp
qed

lemma move_group_before_cases:
  "tm_group g tm \<noteq> None \<and> filter (\<lambda>w. ws_group_id w = Some g) (tm_workspaces tm) \<noteq> [] \<and>
     (\<exists>n. tm_workspaces (fst (move_group_before g t tm)) =
        take n (filter (\<lambda>w. ws_group_id w \<noteq> Some g) (tm_workspaces tm)) @
        filter (\<lambda>w. ws_group_id w = Some g) (tm_workspaces tm) @
        drop n (filter (\<lambda>w. ws_group_id w \<noteq> Some g) (tm_workspaces tm))) \<or>
   move_group_before g t tm = (tm, False)"
proof (cases "filter (\<lambda>w. ws_group_id w = Some g) (tm_workspaces tm) = []")
  case True
  then have "filter (\<lambda>w. ws_group_id w \<noteq> Some g) (tm_workspaces tm) = tm_workspaces tm"
    by (auto simp: filter_empty_conv intro: filter_True)
  with True show ?thesis by (simp add: move_group_before_def)
next
  case False
  then show ?thesis by (cases "tm_group g tm = None") (auto simp: move_group_before_def Let_def)
qed

lemma move_group_before_perm:
  "mset (tm_workspaces (fst (move_group_before g t tm))) = mset (tm_workspaces tm)"
  using move_group_before_cases [of g tm t]
proof (elim disjE conjE exE)
  fix n
  assume "tm_workspaces (fst (move_group_before g t tm)) =
        take n (filter (\<lambda>w. ws_group_id w \<noteq> Some g) (tm_workspaces tm)) @
        filter (\<lambda>w. ws_group_id w = Some g) (tm_workspaces tm) @
        drop n (filter (\<lambda>w. ws_group_id w \<noteq> Some g) (tm_workspaces tm))"
  then show ?thesis by (simp only: mset_splice mset_partition [of "\<lambda>w. ws_group_id w = Some g"])
qed simp

lemma move_group_before_ok [keeps]:
  assumes "tm_sound E tm" shows "tm_sound E (fst (move_group_before g t tm))"
proof (rule tm_okI [OF assms])
  let ?tm = "fst (move_group_before g t tm)"
  have len: "length (tm_workspaces ?tm) = length (tm_workspaces tm)"
    using arg_cong [OF move_group_before_perm, of size] by simp
  have "tm_selected_index ?tm = tm_selected_index tm \<or>
      (\<exists>s. tm_selected_index ?tm = position (\<lambda>w. ws_id w = s) (tm_workspaces ?tm))"
    by (auto simp: move_group_before_def Let_def split: option.splits)
  then have "i < length (tm_workspaces ?tm)" if "tm_selected_index ?tm = Some i" for i
    using that tm_okD(2) [OF assms] len position_Some by (fastforce simp: selection_ok_def)
  then show "selection_ok ?tm" by (simp add: selection_ok_def split: option.split)
  show "mset (tm_spaces ?tm) \<subseteq># mset (tm_spaces tm)"
    using move_group_before_perm [of g t tm]
    by (auto simp: tm_spaces_def) (auto simp: move_group_before_def Let_def split: option.splits)
  show "length (tm_closed_stack ?tm) \<le> CLOSED_STACK_CAP"
    using tm_okD(4) [OF assms] by (auto simp: move_group_before_def Let_def)
qed (auto simp: move_group_before_def Let_def)

lemma record_focus_ok [keeps]:
  assumes "tm_sound E tm" shows "tm_sound E (record_focus_if_changed tm)"
proof -
  have "length (push_capped FOCUS_HISTORY_CAP i (take n (tm_focus_history tm))) \<le> FOCUS_HISTORY_CAP"
    "push_capped FOCUS_HISTORY_CAP i (take n (tm_focus_history tm)) \<noteq> []" for i n
    using tm_okD(3) [OF assms] by (auto simp: history_ok_def intro!: focus_log.push_cap focus_log.push_last)
  then show ?thesis
    using tm_okD [OF assms]
    by (auto simp: record_focus_if_changed_def Let_def tm_sound_def tm_spaces_def selection_ok_def history_ok_def
        cong: option.case_cong split: option.split)
qed

end
