(* ===== verification/Tab_Manager_Props.thy ===== *)
theory Tab_Manager_Props imports Tab_Manager_Facts begin

text \<open>
  What the workspace list promises: its invariant over every sequence of operations, that the
  selection stays with its workspace, what closing and reopening do, that moving a panel between
  workspaces keeps every panel, and how the focus history is walked.
\<close>

section \<open>Walking the focus history\<close>

abbreviation live :: "uuid \<Rightarrow> tab_manager \<Rightarrow> bool" where
  "live i tm \<equiv> position (\<lambda>w. ws_id w = i) (tm_workspaces tm) \<noteq> None"

definition arrived :: "tab_manager \<Rightarrow> nat \<Rightarrow> tab_manager" where
  "arrived tm k = tm\<lparr> tm_focus_pos := k,
     tm_selected_index := position (\<lambda>w. ws_id w = tm_focus_history tm ! k) (tm_workspaces tm) \<rparr>"

lemma select_by_id_live: "snd (select_by_id i tm) \<longleftrightarrow> live i tm"
  by (simp add: select_by_id_def split: option.split)

lemma select_by_id_dead: "\<not> live i tm \<Longrightarrow> fst (select_by_id i tm) = tm"
  by (simp add: select_by_id_def)

lemma focus_back_cases:
  assumes "tm_focus_pos tm < length (tm_focus_history tm)"
  shows "(\<exists>k < tm_focus_pos tm. focus_back tm = (arrived tm k, Some (tm_focus_history tm ! k)) \<and>
        live (tm_focus_history tm ! k) tm \<and>
        (\<forall>j. k < j \<longrightarrow> j < tm_focus_pos tm \<longrightarrow> \<not> live (tm_focus_history tm ! j) tm)) \<or>
     (focus_back tm = (tm\<lparr> tm_focus_pos := 0 \<rparr>, None) \<and>
        (\<forall>j < tm_focus_pos tm. \<not> live (tm_focus_history tm ! j) tm))"
  using assms
proof (induction "tm_focus_pos tm" arbitrary: tm)
  case 0
  then show ?case by (subst focus_back.simps) auto
next
  case (Suc n)
  let ?tm = "tm\<lparr> tm_focus_pos := n \<rparr>" and ?i = "tm_focus_history tm ! n"
  have g: "get_at n (tm_focus_history tm) = Some ?i"
    using Suc.hyps(2) Suc.prems by (simp add: get_at_def)
  show ?case
  proof (cases "live ?i tm")
    case True
    then have "focus_back tm = (arrived tm n, Some ?i)"
      using g Suc.hyps(2) [symmetric]
      by (subst focus_back.simps) (auto simp: select_by_id_def arrived_def)
    with True Suc.hyps(2) [symmetric] show ?thesis by (intro disjI1 exI [of _ n]) simp
  next
    case False
    then have e: "focus_back tm = focus_back ?tm"
      using g Suc.hyps(2) [symmetric] select_by_id_live [of ?i ?tm] select_by_id_dead [of ?i ?tm]
      by (subst focus_back.simps) simp
    have "arrived ?tm k = arrived tm k" for k by (simp add: arrived_def)
    moreover have "j = n \<or> j < n" if "j < tm_focus_pos tm" for j using that Suc.hyps(2) by linarith
    ultimately show ?thesis
      using Suc.hyps(1) [of ?tm] Suc.prems Suc.hyps(2) [symmetric] False unfolding e
      by simp (metis less_antisym less_Suc_eq)
  qed
qed

lemma focus_forward_cases:
  assumes "tm_focus_pos tm < length (tm_focus_history tm)"
  shows "(\<exists>k. tm_focus_pos tm < k \<and> k < length (tm_focus_history tm) \<and>
        focus_forward tm = (arrived tm k, Some (tm_focus_history tm ! k)) \<and>
        live (tm_focus_history tm ! k) tm \<and>
        (\<forall>j. tm_focus_pos tm < j \<longrightarrow> j < k \<longrightarrow> \<not> live (tm_focus_history tm ! j) tm)) \<or>
     (focus_forward tm = (tm\<lparr> tm_focus_pos := length (tm_focus_history tm) - 1 \<rparr>, None) \<and>
        (\<forall>j. tm_focus_pos tm < j \<longrightarrow> j < length (tm_focus_history tm) \<longrightarrow> \<not> live (tm_focus_history tm ! j) tm))"
  using assms
proof (induction "length (tm_focus_history tm) - tm_focus_pos tm" arbitrary: tm rule: less_induct)
  case less
  let ?n = "Suc (tm_focus_pos tm)"
  let ?tm = "tm\<lparr> tm_focus_pos := ?n \<rparr>" and ?i = "tm_focus_history tm ! ?n"
  show ?case
  proof (cases "?n < length (tm_focus_history tm)")
    case False
    then have "tm_focus_pos tm = length (tm_focus_history tm) - 1" using less.prems by simp
    then have "tm\<lparr> tm_focus_pos := length (tm_focus_history tm) - 1 \<rparr> = tm" by simp
    with False show ?thesis by (subst (2) focus_forward.simps) auto
  next
    case True
    then have g: "get_at ?n (tm_focus_history tm) = Some ?i" by (simp add: get_at_def)
    show ?thesis
    proof (cases "live ?i tm")
      case live: True
      then have "focus_forward tm = (arrived tm ?n, Some ?i)"
        using g True by (subst focus_forward.simps) (auto simp: select_by_id_def arrived_def)
      with True live show ?thesis by (intro disjI1 exI [of _ ?n]) auto
    next
      case False
      then have e: "focus_forward tm = focus_forward ?tm"
        using g True select_by_id_live [of ?i ?tm] select_by_id_dead [of ?i ?tm]
        by (subst focus_forward.simps) simp
      have "arrived ?tm k = arrived tm k" for k by (simp add: arrived_def)
      moreover have "j = ?n \<or> ?n < j" if "tm_focus_pos tm < j" for j using that by auto
      moreover have "length (tm_focus_history ?tm) - tm_focus_pos ?tm < length (tm_focus_history tm) - tm_focus_pos tm"
        using True by simp
      ultimately show ?thesis
        using less.hyps [of ?tm] True False unfolding e
        by simp (metis Suc_lessD)
    qed
  qed
qed

lemma arrived_ok: "tm_sound E tm \<Longrightarrow> k < length (tm_focus_history tm) \<Longrightarrow> tm_sound E (arrived tm k)"
  using position_Some [of "\<lambda>w. ws_id w = tm_focus_history tm ! k" "tm_workspaces tm"]
  by (auto simp: tm_sound_def arrived_def tm_spaces_def selection_ok_def history_ok_def split: option.split)

lemma set_pos_ok: "tm_sound E tm \<Longrightarrow> k < length (tm_focus_history tm) \<Longrightarrow> tm_sound E (tm\<lparr> tm_focus_pos := k \<rparr>)"
  by (auto simp: tm_sound_def tm_spaces_def selection_ok_def history_ok_def split: option.split)

lemma history_pos:
  "tm_sound E tm \<Longrightarrow> tm_focus_history tm \<noteq> [] \<Longrightarrow> tm_focus_pos tm < length (tm_focus_history tm)"
  by (simp add: tm_sound_def history_ok_def)

lemma focus_walk_ok [keeps]:
  assumes "tm_sound E tm" shows "tm_sound E (fst (focus_back tm))" "tm_sound E (fst (focus_forward tm))"
proof -
  have "tm_sound E (fst (focus_back tm)) \<and> tm_sound E (fst (focus_forward tm))"
  proof (cases "tm_focus_history tm = []")
    case True
    then have "tm_focus_pos tm = 0" using tm_okD(3) [OF assms] by (simp add: history_ok_def)
    with True assms show ?thesis by (subst focus_back.simps, subst focus_forward.simps) simp
  next
    case False
    note p = history_pos [OF assms False]
    have "tm_sound E (fst (focus_back tm))"
      using focus_back_cases [OF p] p arrived_ok [OF assms] set_pos_ok [OF assms, of 0] False by auto
    moreover have "tm_sound E (fst (focus_forward tm))"
      using focus_forward_cases [OF p] p arrived_ok [OF assms] set_pos_ok [OF assms] by auto
    ultimately show ?thesis by blast
  qed
  then show "tm_sound E (fst (focus_back tm))" "tm_sound E (fst (focus_forward tm))" by blast+
qed

section \<open>Reopening\<close>

lemma reopen_ops_ok [keeps]:
  assumes "tm_sound E tm"
  shows "tm_sound E (fst (reopen_last_closed tm))" "tm_sound E (fst (reopen_closed i tm))" "tm_sound E (clear_closed tm)"
proof -
  have drop: "tm_sound E (tm\<lparr> tm_closed_stack := remove_at k (tm_closed_stack tm) \<rparr>)" for k
  proof (rule tm_okI [OF assms])
    show "mset (tm_spaces (tm\<lparr> tm_closed_stack := remove_at k (tm_closed_stack tm) \<rparr>)) \<subseteq># mset (tm_spaces tm)"
      using image_mset_subseteq_mono [OF remove_at_mset_sub, of ce_workspace k "tm_closed_stack tm"]
      by (simp add: tm_spaces_def)
    show "length (tm_closed_stack (tm\<lparr> tm_closed_stack := remove_at k (tm_closed_stack tm) \<rparr>)) \<le> CLOSED_STACK_CAP"
      using tm_okD(4) [OF assms] by (auto simp: remove_at_def)
  qed (use tm_okD(2) [OF assms] in \<open>auto simp: selection_ok_def split: option.split\<close>)
  have fresh: "fresh_in E (ce_workspace (tm_closed_stack tm ! k)) (tm\<lparr> tm_closed_stack := remove_at k (tm_closed_stack tm) \<rparr>)"
    if "k < length (tm_closed_stack tm)" for k
    unfolding fresh_in_def
    by (rule spaces_ok_perm [OF tm_okD(1) [OF assms]])
      (use arg_cong [OF mset_remove_at [OF that], of "image_mset ce_workspace"] in \<open>simp add: tm_spaces_def\<close>)
  have at: "tm_sound E (fst (if tm_workspace (ws_id w) tm1 \<noteq> None then (tm1, Some (ws_id w))
      else (fst (add_workspace w tm1), Some (ws_id w))))"
    if "k < length (tm_closed_stack tm)" "w = ce_workspace (tm_closed_stack tm ! k)"
      "tm1 = tm\<lparr> tm_closed_stack := remove_at k (tm_closed_stack tm) \<rparr>" for k w tm1
    using drop fresh add_ops_ok(1) that by simp
  have "remove_at (length (tm_closed_stack tm) - 1) (tm_closed_stack tm) = butlast (tm_closed_stack tm)"
    by (simp add: remove_at_def butlast_conv_take)
  then show "tm_sound E (fst (reopen_last_closed tm))"
    using assms at [of "length (tm_closed_stack tm) - 1"]
    by (simp add: reopen_last_closed_def last_conv_nth Let_def)
  show "tm_sound E (fst (reopen_closed i tm))"
  proof (cases "position (\<lambda>e. ws_id (ce_workspace e) = i) (tm_closed_stack tm)")
    case None
    with assms show ?thesis by (simp add: reopen_closed_def)
  next
    case (Some k)
    with at [of k] position_Some [OF Some] show ?thesis by (simp add: reopen_closed_def Let_def)
  qed
  show "tm_sound E (clear_closed tm)"
    using tm_okD [OF assms]
    by (intro tm_okI [OF assms]) (auto simp: clear_closed_def tm_spaces_def selection_ok_def split: option.split)
qed

lemma set_closed_entries_ok [keeps]:
  assumes "tm_sound E tm" and "spaces_sound E (tm_workspaces tm @ map ce_workspace es)"
  shows "tm_sound E (set_closed_entries es tm)"
proof -
  have "spaces_sound E (tm_workspaces tm @ map ce_workspace (keep_last CLOSED_STACK_CAP es))"
    by (rule spaces_ok_sub [OF assms(2)])
      (simp add: image_mset_subseteq_mono [OF keep_last_mset_sub, of ce_workspace, simplified])
  with tm_okD [OF assms(1)] show ?thesis
    by (auto simp: tm_sound_def set_closed_entries_def tm_spaces_def selection_ok_def history_ok_def length_keep_last
        split: option.split)
qed

section \<open>Sequences of operations\<close>

text \<open>
  One step of the workspace list. A workspace that enters shares nothing with what is there. A workspace
  is edited in place by its own operations, which bring in only fresh panels. An edit that goes past
  them, or takes the last panel and leaves the workspace standing (the notes panel's toggle in
  \<open>ui/command_palette.rs\<close> does), is a step too: it puts the workspace into the set \<open>E\<close>, of whose members
  nothing more is promised than disjoint panels filed under their identifiers.
\<close>

definition apart :: "workspace list \<Rightarrow> workspace list \<Rightarrow> bool" where
  "apart new old \<longleftrightarrow>
     set (map ws_id new) \<inter> set (map ws_id old) = {} \<and>
     set (concat (map panel_keys new)) \<inter> set (concat (map panel_keys old)) = {}"

abbreviation brings_fresh :: "workspace \<Rightarrow> workspace \<Rightarrow> tab_manager \<Rightarrow> bool" where
  "brings_fresh w w' tm \<equiv>
     \<forall>k \<in> set (panel_keys w'). k \<in> set (panel_keys w) \<or> k \<notin> set (concat (map panel_keys (tm_spaces tm)))"

inductive tm_step :: "uuid set \<times> tab_manager \<Rightarrow> uuid set \<times> tab_manager \<Rightarrow> bool" where
  ts_select: "tm_step (E, tm) (E, fst (tm_select i tm))"
| ts_select_id: "tm_step (E, tm) (E, (fst (select_by_id i tm)))"
| ts_next: "tm_step (E, tm) (E, (select_next wrap tm))"
| ts_previous: "tm_step (E, tm) (E, (select_previous wrap tm))"
| ts_last: "tm_step (E, tm) (E, (select_last tm))"
| ts_unread: "tm_step (E, tm) (E, (fst (select_latest_unread tm)))"
| ts_add: "spaces_ok [ws] \<Longrightarrow> apart [ws] (tm_spaces tm) \<Longrightarrow> tm_step (E, tm) (E, (fst (add_workspace_with_placement ws pl tm)))"
| ts_add_keep: "spaces_ok [ws] \<Longrightarrow> apart [ws] (tm_spaces tm) \<Longrightarrow> tm_step (E, tm) (E, (fst (add_workspace_keep_selection ws pl tm)))"
| ts_remove: "tm_step (E, tm) (E, (fst (tm_remove now i tm)))"
| ts_remove_id: "tm_step (E, tm) (E, (fst (remove_by_id now i tm)))"
| ts_close_panel: "tm_step (E, tm) (E, (fst (close_panel now p tm)))"
| ts_close_others: "tm_step (E, tm) (E, (fst (close_others i tm)))"
| ts_close_above: "tm_step (E, tm) (E, (fst (close_above i tm)))"
| ts_close_below: "tm_step (E, tm) (E, (fst (close_below i tm)))"
| ts_move: "tm_step (E, tm) (E, (fst (move_workspace i j tm)))"
| ts_move_panel: "tm_step (E, tm) (E, (fst (move_panel_to_workspace now p target tm)))"
| ts_edit: "tm_workspaces tm = xs @ w # ys \<Longrightarrow> ws_id w \<notin> E \<Longrightarrow> ws_step w w' \<Longrightarrow> ws_panels w' \<noteq> [] \<Longrightarrow>
    brings_fresh w w' tm \<Longrightarrow> tm_step (E, tm) (E, tm\<lparr> tm_workspaces := xs @ w' # ys \<rparr>)"
| ts_direct: "tm_workspaces tm = xs @ w # ys \<Longrightarrow> ws_id w' = ws_id w \<Longrightarrow> panels_keyed (ws_panels w') \<Longrightarrow>
    distinct (panel_keys w') \<Longrightarrow> brings_fresh w w' tm \<Longrightarrow>
    tm_step (E, tm) (insert (ws_id w) E, tm\<lparr> tm_workspaces := xs @ w' # ys \<rparr>)"
| ts_create_group: "fresh \<notin> wg_id ` set (tm_groups tm) \<Longrightarrow> tm_step (E, tm) (E, (fst (create_group fresh name win tm)))"
| ts_remove_group: "tm_step (E, tm) (E, (fst (remove_group g tm)))"
| ts_rename_group: "tm_step (E, tm) (E, (fst (rename_group g name tm)))"
| ts_group_color: "tm_step (E, tm) (E, (fst (set_group_color g color tm)))"
| ts_collapse: "tm_step (E, tm) (E, (fst (set_group_collapsed g c tm)))"
| ts_assign: "tm_step (E, tm) (E, (fst (assign_to_group wid gid tm)))"
| ts_move_group: "tm_step (E, tm) (E, (fst (move_group_before g t tm)))"
| ts_record: "tm_step (E, tm) (E, (record_focus_if_changed tm))"
| ts_back: "tm_step (E, tm) (E, (fst (focus_back tm)))"
| ts_forward: "tm_step (E, tm) (E, (fst (focus_forward tm)))"
| ts_reopen: "tm_step (E, tm) (E, (fst (reopen_last_closed tm)))"
| ts_reopen_id: "tm_step (E, tm) (E, (fst (reopen_closed i tm)))"
| ts_clear: "tm_step (E, tm) (E, (clear_closed tm))"
| ts_restore: "spaces_ok (map ce_workspace es) \<Longrightarrow> apart (map ce_workspace es) (tm_workspaces tm) \<Longrightarrow>
    tm_step (E, tm) (E, (set_closed_entries es tm))"

lemma spaces_sound_append:
  assumes "spaces_sound E old" and "spaces_ok new" and "apart new old"
  shows "spaces_sound E (old @ new)"
proof -
  have new: "\<forall>w \<in> set new. space_sound E w"
    using assms(2) by (auto simp: spaces_sound_def space_sound_def ws_okD(3))
  have i: "set (map ws_id old) \<inter> set (map ws_id new) = {}"
    "set (concat (map panel_keys old)) \<inter> set (concat (map panel_keys new)) = {}"
    using assms(3) [unfolded apart_def] by (simp_all only: Int_commute)
  note old = assms(1) [unfolded spaces_sound_def] and d = assms(2) [unfolded spaces_sound_def]
  show ?thesis
    unfolding spaces_sound_def map_append concat_append distinct_append set_append ball_Un
    by (intro conjI i new conjunct1 [OF old] conjunct1 [OF d] conjunct1 [OF conjunct2 [OF old]]
        conjunct1 [OF conjunct2 [OF d]] conjunct2 [OF conjunct2 [OF old]])
qed

lemma fresh_apart:
  assumes "tm_sound E tm" and "spaces_ok [ws]" and "apart [ws] (tm_spaces tm)"
  shows "fresh_in E ws tm"
  unfolding fresh_in_def by (rule spaces_ok_perm [OF spaces_sound_append [OF tm_okD(1) [OF assms(1)] assms(2, 3)]]) simp

lemma spaces_sound_wider: "spaces_sound E l \<Longrightarrow> spaces_sound (insert i E) l"
  using space_soundD(1) by (auto simp: spaces_sound_def space_sound_def)

lemma ws_step_id: "ws_step w w' \<Longrightarrow> ws_id w' = ws_id w"
  by (induction rule: ws_step.induct)
    (auto simp: ws_split_insert insert_panel_def ws_remove_panel_def reopen_last_closed_panel_def detach_panel_def
      focus_moved_def move_panel_to_pane_def split_panel_into_pane_def drag_to_split_def focus_panel_def
      meta_defs Let_def split_beta split: option.splits)

lemma tm_edit_ok:
  assumes "tm_sound E tm" and "tm_workspaces tm = xs @ w # ys" and "ws_id w' = ws_id w" and "space_sound E w'"
    and "distinct (panel_keys w')" and "brings_fresh w w' tm"
  shows "tm_sound E (tm\<lparr> tm_workspaces := xs @ w' # ys \<rparr>)"
proof (rule tm_ok_editI [OF assms(1)])
  show "spaces_sound E (tm_spaces (tm\<lparr> tm_workspaces := xs @ w' # ys \<rparr>))"
    by (rule spaces_sound_edit [OF tm_okD(1) [OF assms(1)] assms(2-5) bspec [OF assms(6)]]) simp_all
qed (simp_all add: assms(2))

lemma tm_step_ok: "tm_step s s' \<Longrightarrow> tm_sound (fst s) (snd s) \<Longrightarrow> tm_sound (fst s') (snd s')"
proof (induction rule: tm_step.induct)
  case (ts_edit tm xs w ys E w')
  then have sound: "tm_sound E tm" by simp
  have "ws_ok w" using space_soundD(2) [OF tm_sound_live(1) [OF sound]] ts_edit.hyps(1, 2) by simp
  then have w: "ws_ok w'" using ts_edit.hyps(3) ws_step_ok by blast
  note i = ws_step_id [OF ts_edit.hyps(3)]
  have "space_sound E w'" using w ts_edit.hyps(4) i by (simp add: space_sound_def ws_okD(3))
  moreover have "distinct (panel_keys w')" using ws_okD(2) [OF w] by (simp add: consistent_def)
  ultimately show ?case using tm_edit_ok [OF sound ts_edit.hyps(1) i _ _ ts_edit.hyps(5)] by simp
next
  case (ts_direct tm xs w ys w' E)
  then have "tm_sound (insert (ws_id w) E) tm" using spaces_sound_wider by (simp add: tm_sound_def)
  moreover have "space_sound (insert (ws_id w) E) w'" using ts_direct.hyps(2, 3) by (simp add: space_sound_def)
  ultimately show ?case using tm_edit_ok ts_direct.hyps(1, 2, 4, 5) by simp
next
  case (ts_restore es tm E)
  then have sound: "tm_sound E tm" by simp
  have "spaces_sound E (tm_workspaces tm)" by (rule spaces_ok_sub [OF tm_okD(1) [OF sound]]) (simp add: tm_spaces_def)
  then show ?case using set_closed_entries_ok [OF sound spaces_sound_append] ts_restore.hyps by simp
qed (simp_all add: keeps fresh_apart)

section \<open>The selection stays with its workspace\<close>

lemma selected_id_Some:
  "tm_selected_id tm = Some s \<longleftrightarrow>
   (\<exists>k. tm_selected_index tm = Some k \<and> k < length (tm_workspaces tm) \<and> ws_id (tm_workspaces tm ! k) = s)"
  by (auto simp: tm_selected_id_def tm_selected_def get_at_def bind_eq_Some_conv split: if_splits)

lemma move_keeps_selected:
  assumes "tm_selected_id tm = Some s" shows "tm_selected_id (fst (move_workspace i j tm)) = Some s"
proof -
  from assms obtain k where k: "tm_selected_index tm = Some k" "k < length (tm_workspaces tm)"
    "ws_id (tm_workspaces tm ! k) = s" unfolding selected_id_Some by blast
  show ?thesis
  proof (cases "length (tm_workspaces tm) \<le> i \<or> length (tm_workspaces tm) \<le> j \<or> i = j")
    case True
    then show ?thesis using assms by (auto simp: move_workspace_def Let_def)
  next
    case False
    then show ?thesis
      unfolding selected_id_Some
      using k by (auto simp: move_workspace_def Let_def nth_insert_at nth_remove_at)
  qed
qed

lemma add_keep_keeps_selected:
  assumes "tm_selected_id tm = Some s"
  shows "tm_selected_id (fst (add_workspace_keep_selection ws pl tm)) = Some s"
  using assms unfolding selected_id_Some
  by (cases pl) (auto simp: add_workspace_keep_selection_def Let_def nth_insert_at)

lemma remove_keeps_selected:
  assumes "tm_selected_id tm = Some s" and "i < length (tm_workspaces tm)" and "ws_id (tm_workspaces tm ! i) \<noteq> s"
  shows "tm_selected_id (fst (tm_remove now i tm)) = Some s"
proof -
  from assms(1) obtain k where k: "tm_selected_index tm = Some k" "k < length (tm_workspaces tm)"
    "ws_id (tm_workspaces tm ! k) = s" unfolding selected_id_Some by blast
  with assms(3) have "k \<noteq> i" by blast
  then have two: "Suc (Suc 0) \<le> length (tm_workspaces tm)" using k(2) assms(2) by linarith
  then have ne: "remove_at i (tm_workspaces tm) \<noteq> []"
    using length_remove_at [OF assms(2)] by auto
  show ?thesis
  proof (cases "k = length (tm_workspaces tm) - 1")
    case True
    with two have "Suc (length (tm_workspaces tm) - Suc (Suc 0)) = k" by simp
    with k assms(2) \<open>k \<noteq> i\<close> ne True show ?thesis
      unfolding selected_id_Some by (auto simp: tm_remove_def Let_def nth_remove_at)
  next
    case False
    with k assms(2) \<open>k \<noteq> i\<close> ne show ?thesis
      unfolding selected_id_Some by (auto simp: tm_remove_def Let_def nth_remove_at)
  qed
qed

lemma position_ids:
  assumes "mset (map ws_id l') = mset (map ws_id l)" and "k < length l"
  shows "\<exists>n. position (\<lambda>w. ws_id w = ws_id (l ! k)) l' = Some n \<and> n < length l' \<and> ws_id (l' ! n) = ws_id (l ! k)"
proof -
  have "ws_id (l ! k) \<in> set (map ws_id l')" using mset_eq_setD [OF assms(1)] assms(2) by simp
  then obtain w where "w \<in> set l'" "ws_id w = ws_id (l ! k)" by auto
  then show ?thesis using position_exists [of w l' "\<lambda>w. ws_id w = ws_id (l ! k)"] position_Some by blast
qed

lemma move_group_keeps_selected:
  assumes "tm_selected_id tm = Some s" shows "tm_selected_id (fst (move_group_before g t tm)) = Some s"
proof -
  let ?tm = "fst (move_group_before g t tm)"
  from assms obtain k where k: "tm_selected_index tm = Some k" "k < length (tm_workspaces tm)"
    "ws_id (tm_workspaces tm ! k) = s" unfolding selected_id_Some by blast
  from position_ids [OF _ k(2), of "tm_workspaces ?tm"] move_group_before_perm [of g t tm] k(3)
  obtain n where n: "position (\<lambda>w. ws_id w = s) (tm_workspaces ?tm) = Some n" "n < length (tm_workspaces ?tm)"
    "ws_id (tm_workspaces ?tm ! n) = s" by auto
  have "tm_selected_index ?tm = position (\<lambda>w. ws_id w = s) (tm_workspaces ?tm) \<or> ?tm = tm"
    using assms move_group_before_cases [of g tm t] by (auto simp: move_group_before_def Let_def)
  then show ?thesis using n assms unfolding selected_id_Some by auto
qed

lemma assign_keeps_selected:
  assumes "tm_selected_id tm = Some s" shows "tm_selected_id (fst (assign_to_group wid gid tm)) = Some s"
proof (cases "workspace_index wid tm")
  case None
  with assms show ?thesis by (simp add: assign_to_group_def)
next
  case (Some idx)
  let ?tm1 = "tm\<lparr> tm_workspaces := (tm_workspaces tm)[idx := (tm_workspaces tm ! idx)\<lparr> ws_group_id := gid \<rparr>] \<rparr>"
  have s: "tm_selected_id ?tm1 = Some s"
    using assms position_Some [OF Some [unfolded workspace_index_def]]
    unfolding selected_id_Some by (auto simp: nth_list_update)
  have m: "tm_selected_id (fst (move_workspace a b ?tm1)) = Some s" for a b by (rule move_keeps_selected [OF s])
  show ?thesis
    using assms Some s m by (cases gid) (auto simp: assign_to_group_def Let_def split: option.split)
qed

section \<open>Properties\<close>

text \<open>C5. From a fresh window on, whatever sequence of the list's operations and of edits of single workspaces
  comes: workspaces, live or remembered for reopening, have distinct identifiers and share no panel, the
  selected index and the position in the focus history are in range, at most ten closed workspaces and
  fifty focus entries are kept, and group identifiers are distinct. Every workspace that was edited only
  by its own operations, and not left standing without panels, is well formed and non-empty; of the others
  (the set \<open>E\<close>) only the disjointness above is claimed.\<close>

theorem tm_reachable_ok:
  assumes "tm_step\<^sup>*\<^sup>* ({}, tm_new (ws_new home wid pid)) (E, tm)"
  shows "tm_sound E tm"
proof -
  have "tm_sound (fst s) (snd s)" if "tm_step\<^sup>*\<^sup>* ({}, tm_new (ws_new home wid pid)) s" for s
    using that
  proof (induction rule: rtranclp_induct)
    case base
    have "ws_panels (ws_new home wid pid) \<noteq> []" "ws_id (ws_new home wid pid) = wid" by (simp_all add: ws_new_def)
    moreover have "distinct (panel_keys (ws_new home wid pid))" by (simp add: ws_new_def)
    ultimately show ?case
      by (simp add: tm_sound_def tm_new_def tm_spaces_def spaces_sound_def ws_new_ok selection_ok_def history_ok_def)
  next
    case (step s s')
    then show ?case by (simp add: tm_step_ok)
  qed
  from this [OF assms] show ?thesis by simp
qed

lemma tm_reachable_ok_witness:
  "tm_sound {0} (fst (close_panel 7 1 ((tm_new (ws_new None 0 1))\<lparr> tm_workspaces := [(ws_new None 0 1)\<lparr> ws_panels := [] \<rparr>] \<rparr>)))"
proof (rule tm_reachable_ok [of None 0 1])
  let ?tm = "tm_new (ws_new None 0 1)" and ?w = "(ws_new None 0 1)\<lparr> ws_panels := [] \<rparr>"
  let ?tm1 = "?tm\<lparr> tm_workspaces := [?w] \<rparr>"
  have "tm_step ({}, ?tm) (insert (ws_id (ws_new None 0 1)) {}, ?tm\<lparr> tm_workspaces := [] @ ?w # [] \<rparr>)"
    by (rule ts_direct) (simp_all add: tm_new_def panels_keyed_def)
  then have "tm_step ({}, ?tm) ({0}, ?tm1)" by (simp add: ws_new_def)
  moreover have "tm_step ({0}, ?tm1) ({0}, fst (close_panel 7 1 ?tm1))" by (rule ts_close_panel)
  ultimately show "tm_step\<^sup>*\<^sup>* ({}, ?tm) ({0}, fst (close_panel 7 1 ?tm1))"
    by (rule rtranclp.rtrancl_into_rtrancl [OF r_into_rtranclp])
qed

text \<open>C25. The selection follows the workspace and not the slot: moving workspaces or groups, assigning a
  workspace to a group, adding one without selecting it, and removing another workspace all leave the
  same workspace selected.\<close>

theorem selection_follows:
  assumes "tm_selected_id tm = Some s"
  shows "tm_selected_id (fst (move_workspace i j tm)) = Some s \<and>
    tm_selected_id (fst (move_group_before g t tm)) = Some s \<and>
    tm_selected_id (fst (assign_to_group wid gid tm)) = Some s \<and>
    tm_selected_id (fst (add_workspace_keep_selection ws pl tm)) = Some s \<and>
    (i < length (tm_workspaces tm) \<and> ws_id (tm_workspaces tm ! i) \<noteq> s \<longrightarrow>
       tm_selected_id (fst (tm_remove now i tm)) = Some s)"
  using assms by (simp add: move_keeps_selected move_group_keeps_selected assign_keeps_selected
      add_keep_keeps_selected remove_keeps_selected)

lemma selection_follows_witness:
  "tm_selected_id (fst (add_workspace_keep_selection (ws_new None 5 6) PTop (tm_new (ws_new None 0 1)))) = Some 0"
  using selection_follows [of "tm_new (ws_new None 0 1)" 0]
  by (simp add: tm_new_def tm_selected_id_def tm_selected_def get_at_def ws_new_def)

end
