(* ===== verification/Tab_Manager_More.thy ===== *)
theory Tab_Manager_More imports Tab_Manager_Props begin

text \<open>
  What single operations of the workspace list do to a sound list: closing in bulk, closing and
  reopening, moving panels across workspaces, unread notifications, groups and the focus history.
\<close>

text \<open>C26. "Close others", "close above" and "close below" keep exactly the pinned workspaces on the
  side they clear, in order, report how many they closed, and the first two select the workspace
  they were called on.\<close>

theorem close_family:
  assumes "workspace_index i tm = Some t"
  shows "tm_workspaces (fst (close_others i tm)) = filter (\<lambda>w. ws_id w = i \<or> ws_is_pinned w) (tm_workspaces tm) \<and>
    tm_selected_id (fst (close_others i tm)) = Some i \<and>
    tm_workspaces (fst (close_above i tm)) = filter ws_is_pinned (take t (tm_workspaces tm)) @ drop t (tm_workspaces tm) \<and>
    tm_selected_id (fst (close_above i tm)) = Some i \<and>
    tm_workspaces (fst (close_below i tm)) =
      take (t + 1) (tm_workspaces tm) @ filter ws_is_pinned (drop (t + 1) (tm_workspaces tm)) \<and>
    (\<forall>close \<in> {close_others, close_above, close_below}.
       snd (close i tm) + length (tm_workspaces (fst (close i tm))) = length (tm_workspaces tm))"
proof -
  from assms have t: "t < length (tm_workspaces tm)" "ws_id (tm_workspaces tm ! t) = i"
    using position_Some by (fastforce simp: workspace_index_def)+
  have sel: "tm_selected_id tm' = Some i"
    if "tm_selected_index tm' = position (\<lambda>w. ws_id w = i) (tm_workspaces tm')"
      "tm_workspaces tm ! t \<in> set (tm_workspaces tm')" for tm' :: tab_manager
    using position_exists [OF that(2), of "\<lambda>w. ws_id w = i"] t(2) that(1) position_Some
    unfolding selected_id_Some by fastforce
  have o: "tm_workspaces tm ! t \<in> set (tm_workspaces (fst (close_others i tm)))"
    using t by (simp add: close_others_spaces)
  then have "tm_selected_index (fst (close_others i tm)) =
      position (\<lambda>w. ws_id w = i) (tm_workspaces (fst (close_others i tm)))"
    using t(2) position_None [of "\<lambda>w. ws_id w = i" "tm_workspaces (fst (close_others i tm))"]
    by (auto simp: close_others_def Let_def split: option.splits)
  from sel [OF this o] have others: "tm_selected_id (fst (close_others i tm)) = Some i" .
  have a: "tm_workspaces tm ! t \<in> set (tm_workspaces (fst (close_above i tm)))"
    using t(1) by (simp add: close_above_spaces [OF assms] flip: Cons_nth_drop_Suc)
  then have "tm_selected_index (fst (close_above i tm)) =
      position (\<lambda>w. ws_id w = i) (tm_workspaces (fst (close_above i tm)))"
    using t(2) assms position_None [of "\<lambda>w. ws_id w = i" "tm_workspaces (fst (close_above i tm))"]
    by (auto simp: close_above_def Let_def split: option.splits)
  from sel [OF this a] have above: "tm_selected_id (fst (close_above i tm)) = Some i" .
  have count: "length (filter (\<lambda>w. \<not> P w) l) + length (filter P l) = length l" for P and l :: "workspace list"
    by (induction l) auto
  have "snd (close_others i tm) + length (tm_workspaces (fst (close_others i tm))) = length (tm_workspaces tm)"
    using count [of "\<lambda>w. ws_id w = i \<or> ws_is_pinned w"] by (simp add: close_others_spaces)
  moreover have "snd (close_above i tm) + length (tm_workspaces (fst (close_above i tm))) = length (tm_workspaces tm)"
    using count [of ws_is_pinned "take t (tm_workspaces tm)"] t(1) by (simp add: close_above_spaces [OF assms])
  moreover have "snd (close_below i tm) + length (tm_workspaces (fst (close_below i tm))) = length (tm_workspaces tm)"
    using count [of ws_is_pinned "drop (t + 1) (tm_workspaces tm)"] t(1)
    by (simp add: close_below_spaces [OF assms])
  ultimately show ?thesis
    using others above close_others_spaces(1) close_above_spaces(1) [OF assms] close_below_spaces(1) [OF assms]
    by simp
qed

definition four_spaces :: tab_manager where
  "four_spaces = tm_empty\<lparr>
     tm_workspaces := [ws_new None 0 10, ws_new None 1 11, (ws_new None 2 12)\<lparr> ws_is_pinned := True \<rparr>,
       (ws_new None 3 13)\<lparr> ws_is_pinned := True \<rparr>],
     tm_selected_index := Some 2 \<rparr>"

lemma ws_new_fields [simp]:
  "ws_id (ws_new h w p) = w" "ws_panels (ws_new h w p) = [(p, new_terminal p)]" "\<not> ws_is_pinned (ws_new h w p)"
  "ws_group_id (ws_new h w p) = None"
  by (simp_all add: ws_new_def)

lemma close_family_witness: "map ws_id (tm_workspaces (fst (close_others 1 four_spaces))) = [1, 2, 3]"
  using close_family [of 1 four_spaces 1, THEN conjunct1] by (simp add: four_spaces_def workspace_index_def)

text \<open>"Close below" is the exception: a selected pinned workspace that survives below the target can
  lose the selection, because the selected index is not shifted by the workspaces closed before it.\<close>

theorem close_below_loses_selection:
  "tm_ok four_spaces \<and> tm_selected_id four_spaces = Some 2 \<and>
   map ws_id (tm_workspaces (fst (close_below 0 four_spaces))) = [0, 2, 3] \<and>
   tm_selected_id (fst (close_below 0 four_spaces)) = Some 3"
proof -
  have i: "workspace_index 0 four_spaces = Some 0" by (simp add: four_spaces_def workspace_index_def)
  have ids: "map ws_id (tm_workspaces (fst (close_below 0 four_spaces))) = [0, 2, 3]"
    by (simp add: close_below_spaces [OF i]) (simp add: four_spaces_def)
  then have len: "length (tm_workspaces (fst (close_below 0 four_spaces))) = 3"
    by (metis length_map length_Cons list.size(3) numeral_3_eq_3)
  have idx: "tm_selected_index (fst (close_below 0 four_spaces)) = Some 2"
    using len i by (simp add: close_below_def Let_def four_spaces_def)
  have "ws_id (tm_workspaces (fst (close_below 0 four_spaces)) ! 2) = 3"
    using arg_cong [OF ids, of "\<lambda>l. l ! 2"] len by simp
  with idx len have "tm_selected_id (fst (close_below 0 four_spaces)) = Some 3" by (simp add: selected_id_Some)
  moreover have "ws_ok ((ws_new None a b)\<lparr> ws_is_pinned := c \<rparr>)" for a b c
    using ws_new_ok [of None a b] by (simp add: ws_ok_def)
  then have "tm_ok four_spaces"
    by (simp add: tm_sound_def four_spaces_def tm_empty_def tm_spaces_def spaces_sound_def selection_ok_def
        history_ok_def ws_new_ok)
  ultimately show ?thesis
    using ids by (simp add: four_spaces_def tm_selected_id_def tm_selected_def get_at_def)
qed

text \<open>C27. Closing a workspace and reopening the last closed one brings back the same workspace, panels,
  layout and metadata included, at the end of the list and selected; the others keep their order, and
  the nine newest earlier entries stay reopenable.\<close>

theorem remove_reopen:
  assumes "tm_ok tm" and "i < length (tm_workspaces tm)"
  shows "snd (reopen_last_closed (fst (tm_remove now i tm))) = Some (ws_id (tm_workspaces tm ! i)) \<and>
    tm_workspaces (fst (reopen_last_closed (fst (tm_remove now i tm)))) =
      take i (tm_workspaces tm) @ drop (i + 1) (tm_workspaces tm) @ [tm_workspaces tm ! i] \<and>
    tm_selected_id (fst (reopen_last_closed (fst (tm_remove now i tm)))) = Some (ws_id (tm_workspaces tm ! i)) \<and>
    tm_closed_stack (fst (reopen_last_closed (fst (tm_remove now i tm)))) =
      keep_last (CLOSED_STACK_CAP - 1) (tm_closed_stack tm)"
proof -
  let ?w = "tm_workspaces tm ! i" and ?tm = "fst (tm_remove now i tm)"
  let ?e = "\<lparr> ce_workspace = ?w, ce_closed_at = now, ce_title = ws_display_title ?w \<rparr>"
  note w = tm_ok_live [OF assms(1) nth_mem [OF assms(2)]]
  have tm: "tm_workspaces ?tm = remove_at i (tm_workspaces tm)"
    "tm_closed_stack ?tm = push_capped CLOSED_STACK_CAP ?e (tm_closed_stack tm)"
    using assms(2) w(2) by (simp_all add: tm_remove_def Let_def)
  have last: "last (tm_closed_stack ?tm) = ?e" "tm_closed_stack ?tm \<noteq> []"
    unfolding tm(2) by (rule closed_entries_log.push_last)+
  have butlast: "butlast (tm_closed_stack ?tm) = keep_last (CLOSED_STACK_CAP - 1) (tm_closed_stack tm)"
    unfolding tm(2) by (simp add: push_capped_def keep_last_def CLOSED_STACK_CAP_def butlast_drop)
  have "distinct (map ws_id (tm_workspaces tm))"
    using tm_okD(1) [OF assms(1)] by (simp add: spaces_sound_def tm_spaces_def)
  then have "distinct (ws_id ?w # map ws_id (remove_at i (tm_workspaces tm)))"
    using mset_eq_imp_distinct_iff [of "map ws_id (?w # remove_at i (tm_workspaces tm))" "map ws_id (tm_workspaces tm)"]
      arg_cong [OF mset_remove_at [OF assms(2)], of "image_mset ws_id"] by simp
  then have "find (\<lambda>v. ws_id v = ws_id ?w) (remove_at i (tm_workspaces tm)) = None"
    by (auto simp: find_None_all) (metis imageI)
  then show ?thesis
    using last butlast tm(1) assms(2)
    by (auto simp: reopen_last_closed_def Let_def tm_workspace_def add_workspace_def selected_id_Some
        remove_at_def nth_append min_def)
qed

lemma remove_reopen_witness:
  "tm_workspaces (fst (reopen_last_closed (fst (tm_remove 5 0 (tm_new (ws_new None 0 1)))))) = [ws_new None 0 1]"
proof -
  have "tm_ok (tm_new (ws_new None 0 1))"
    by (simp add: tm_sound_def tm_new_def tm_spaces_def spaces_sound_def ws_new_ok selection_ok_def history_ok_def)
  from remove_reopen [OF this, of 0 5] show ?thesis by (simp add: tm_new_def)
qed

text \<open>After a step back in the focus history, a step forward returns to the workspace one came from
  and restores the whole state, however many closed workspaces lie in between.\<close>

theorem focus_back_forward:
  assumes "tm_ok tm" and "tm_selected_id tm = Some s"
    and "get_at (tm_focus_pos tm) (tm_focus_history tm) = Some s"
    and "focus_back tm = (tm', Some i)"
  shows "focus_forward tm' = (tm, Some s) \<and> tm_selected_id tm' = Some i"
proof -
  let ?h = "tm_focus_history tm" and ?p = "tm_focus_pos tm"
  from assms(3) have p: "?p < length ?h" "?h ! ?p = s" by (auto simp: get_at_def split: if_splits)
  from assms(2) obtain n where n: "tm_selected_index tm = Some n" "n < length (tm_workspaces tm)"
    "ws_id (tm_workspaces tm ! n) = s" unfolding selected_id_Some by blast
  have "distinct (map ws_id (tm_workspaces tm))"
    using tm_okD(1) [OF assms(1)] by (simp add: spaces_sound_def tm_spaces_def)
  from position_eq_index [OF this, of n] n(2,3)
  have pos: "position (\<lambda>w. ws_id w = s) (tm_workspaces tm) = Some n" by (simp add: position_map)
  from focus_back_cases [OF p(1)] assms(4) obtain k where k: "k < ?p" "tm' = arrived tm k" "i = ?h ! k"
    "live (?h ! k) tm" "\<forall>j. k < j \<longrightarrow> j < ?p \<longrightarrow> \<not> live (?h ! j) tm" by auto
  have restored: "arrived (arrived tm k) ?p = tm" using p(2) pos n(1) by (simp add: arrived_def)
  have t': "tm_focus_pos tm' = k" "tm_focus_history tm' = ?h" "tm_workspaces tm' = tm_workspaces tm"
    by (simp_all add: k(2) arrived_def)
  have lp: "live (?h ! ?p) tm" using pos p(2) by simp
  from focus_forward_cases [of tm'] k(1) p(1) obtain m where m: "k < m" "m < length ?h"
    "focus_forward tm' = (arrived tm' m, Some (?h ! m))" "live (?h ! m) tm"
    "\<forall>j. k < j \<longrightarrow> j < m \<longrightarrow> \<not> live (?h ! j) tm"
    unfolding t' using lp by (meson less_trans)
  have "m = ?p"
    using m(1,4,5) k(1,5) lp by (meson linorder_neqE_nat)
  then have "focus_forward tm' = (tm, Some s)" using m(3) restored k(2) p(2) by simp
  moreover have "tm_selected_id tm' = Some i"
    using k(2-4) position_Some [of "\<lambda>w. ws_id w = i" "tm_workspaces tm"]
    by (auto simp: selected_id_Some arrived_def)
  ultimately show ?thesis by blast
qed

definition two_spaces :: tab_manager where
  "two_spaces = \<lparr> tm_workspaces = [ws_new None 0 10, ws_new None 1 11], tm_selected_index = Some 1,
     tm_groups = [new_group 7 ''g''], tm_focus_history = [0, 5, 1], tm_focus_pos = 2, tm_closed_stack = [] \<rparr>"

lemma two_spaces_ok: "tm_ok two_spaces"
  by (simp add: tm_sound_def two_spaces_def tm_spaces_def spaces_sound_def ws_new_ok selection_ok_def history_ok_def
      FOCUS_HISTORY_CAP_def new_group_def)

lemma focus_back_forward_witness:
  "focus_forward (arrived two_spaces 0) = (two_spaces, Some 1)"
proof -
  have "focus_back two_spaces = (arrived two_spaces 0, Some 0)"
    by (subst focus_back.simps, subst focus_back.simps)
      (simp add: two_spaces_def get_at_def select_by_id_def arrived_def)
  from focus_back_forward [OF two_spaces_ok _ _ this, of 1] show ?thesis
    by (simp add: two_spaces_def tm_selected_id_def tm_selected_def get_at_def)
qed

section \<open>Unread notifications\<close>

lemma last_max_key:
  fixes key :: "'a \<Rightarrow> 'b::linorder"
  assumes "last_max (\<lambda>a b. key a < key b) xs = Some x"
  shows "\<exists>us vs. xs = us @ x # vs \<and> (\<forall>u \<in> set us. key u \<le> key x) \<and> (\<forall>v \<in> set vs. key v < key x)"
  using assms
proof (induction xs arbitrary: x)
  case (Cons a xs)
  show ?case
  proof (cases "last_max (\<lambda>a b. key a < key b) xs")
    case None
    with Cons.prems show ?thesis by (intro exI [of _ "[]"]) simp
  next
    case (Some y)
    from Cons.IH [OF this] obtain us vs where s: "xs = us @ y # vs" "\<forall>u \<in> set us. key u \<le> key y"
      "\<forall>v \<in> set vs. key v < key y" by blast
    show ?thesis
    proof (cases "key y < key a")
      case True
      then have "x = a" using Cons.prems Some by simp
      with True s show ?thesis by (intro exI [of _ "[]"] exI [of _ xs]) auto
    next
      case False
      then have "x = y" using Cons.prems Some by simp
      with False s show ?thesis by (intro exI [of _ "a # us"] exI [of _ vs]) auto
    qed
  qed
qed simp

lemma enumerate_filter_sorted: "sorted_wrt (\<lambda>a b. fst a < fst b) (filter P (enumerate n xs))"
  by (induction xs arbitrary: n) (auto simp: in_set_enumerate_eq)

abbreviation notified_at :: "workspace \<Rightarrow> f64" where
  "notified_at w \<equiv> or_zero (ws_latest_notification_at w)"

text \<open>"Jump to the latest unread" selects a workspace with unread notifications whose latest
  notification no other unread workspace's is newer than, the last such in the list; it does nothing
  exactly when there is nothing unread.\<close>

theorem select_latest_unread_newest:
  "(case select_latest_unread tm of
      (tm', None) \<Rightarrow> tm' = tm \<and> (\<forall>w \<in> set (tm_workspaces tm). ws_unread_count w = 0)
    | (tm', Some s) \<Rightarrow> (\<exists>i < length (tm_workspaces tm). tm' = tm\<lparr> tm_selected_index := Some i \<rparr> \<and>
        ws_id (tm_workspaces tm ! i) = s \<and> 0 < ws_unread_count (tm_workspaces tm ! i) \<and>
        (\<forall>j < length (tm_workspaces tm). 0 < ws_unread_count (tm_workspaces tm ! j) \<longrightarrow>
           notified_at (tm_workspaces tm ! j) \<le> notified_at (tm_workspaces tm ! i) \<and>
           (i < j \<longrightarrow> notified_at (tm_workspaces tm ! j) < notified_at (tm_workspaces tm ! i)))))"
proof -
  let ?l = "filter (\<lambda>(_, w). 0 < ws_unread_count w) (enumerate 0 (tm_workspaces tm))"
  have lt: "(\<lambda>(_, a) (_, b). notified_at a < notified_at b) =
      (\<lambda>a b :: nat \<times> workspace. notified_at (snd a) < notified_at (snd b))" by (simp add: fun_eq_iff split_beta)
  show ?thesis
  proof (cases "last_max (\<lambda>a b. notified_at (snd a) < notified_at (snd b)) ?l")
    case None
    then have "?l = []" by simp
    then have "\<not> 0 < ws_unread_count (tm_workspaces tm ! j)" if "j < length (tm_workspaces tm)" for j
      using that by (auto simp: filter_empty_conv in_set_enumerate_eq)
    then have "\<forall>w \<in> set (tm_workspaces tm). ws_unread_count w = 0"
      by (auto simp: in_set_conv_nth word_gt_0)
    with None show ?thesis by (simp add: select_latest_unread_def latest_unread_index_def lt)
  next
    case (Some x)
    obtain i w where x: "x = (i, w)" by fastforce
    from last_max_key [OF Some] obtain us vs where s: "?l = us @ x # vs"
      "\<forall>u \<in> set us. notified_at (snd u) \<le> notified_at (snd x)"
      "\<forall>v \<in> set vs. notified_at (snd v) < notified_at (snd x)" by blast
    have "(i, w) \<in> set ?l" using last_max_in [OF Some] x by simp
    then have w: "i < length (tm_workspaces tm)" "w = tm_workspaces tm ! i" "0 < ws_unread_count w"
      by (auto simp: in_set_enumerate_eq)
    have "sorted_wrt (\<lambda>a b. fst a < fst b) (us @ x # vs)"
      using enumerate_filter_sorted [of _ 0 "tm_workspaces tm"] unfolding s(1) [symmetric] .
    then have us: "\<forall>u \<in> set us. fst u < i" using x by (auto simp: sorted_wrt_append)
    have j: "notified_at (tm_workspaces tm ! j) \<le> notified_at w \<and>
        (i < j \<longrightarrow> notified_at (tm_workspaces tm ! j) < notified_at w)"
      if "j < length (tm_workspaces tm)" "0 < ws_unread_count (tm_workspaces tm ! j)" for j
    proof -
      have "(j, tm_workspaces tm ! j) \<in> set ?l" using that by (simp add: in_set_enumerate_eq)
      then have "(j, tm_workspaces tm ! j) \<in> set us \<or> j = i \<or> (j, tm_workspaces tm ! j) \<in> set vs"
        unfolding s(1) x by auto
      then show ?thesis using s(2,3) us x w(2) by fastforce
    qed
    have "latest_unread_index tm = Some i" using Some x by (simp add: latest_unread_index_def lt)
    with w j show ?thesis by (auto simp: select_latest_unread_def get_at_def)
  qed
qed

lemma select_latest_unread_newest_witness:
  "tm_selected_id (fst (select_latest_unread (two_spaces\<lparr> tm_workspaces := [(ws_new None 0 10)\<lparr> ws_unread_count := 1 \<rparr>,
     ws_new None 1 11] \<rparr>))) = Some 0"
proof -
  let ?tm = "two_spaces\<lparr> tm_workspaces := [(ws_new None 0 10)\<lparr> ws_unread_count := 1 \<rparr>, ws_new None 1 11] \<rparr>"
  from select_latest_unread_newest [of ?tm] show ?thesis
    by (auto simp: two_spaces_def selected_id_Some less_Suc_eq ws_new_def split: prod.splits option.splits)
qed

section \<open>Panels across workspaces\<close>

definition panel_of :: "uuid \<Rightarrow> tab_manager \<Rightarrow> panel option" where
  "panel_of q tm = Option.bind (find_workspace_with_panel q tm) (\<lambda>w. map_of (ws_panels w) q)"

lemma panel_of_iff:
  assumes "tm_ok tm"
  shows "panel_of q tm = Some x \<longleftrightarrow> (\<exists>w \<in> set (tm_workspaces tm). map_of (ws_panels w) q = Some x)"
proof
  assume "panel_of q tm = Some x"
  then show "\<exists>w \<in> set (tm_workspaces tm). map_of (ws_panels w) q = Some x"
    by (auto simp: panel_of_def find_workspace_with_panel_def bind_eq_Some_conv dest: find_Some_in)
next
  assume "\<exists>w \<in> set (tm_workspaces tm). map_of (ws_panels w) q = Some x"
  then obtain w where w: "w \<in> set (tm_workspaces tm)" "map_of (ws_panels w) q = Some x" by blast
  then obtain v where v: "find (\<lambda>w. has_key q (ws_panels w)) (tm_workspaces tm) = Some v"
    by (cases "find (\<lambda>w. has_key q (ws_panels w)) (tm_workspaces tm)") (auto simp: find_None_all)
  from live_split [OF assms v] obtain xs ys where l: "tm_workspaces tm = xs @ v # ys" "has_key q (ws_panels v)"
    by blast
  have "spaces_ok (xs @ v # ys @ map ce_workspace (tm_closed_stack tm))"
    using tm_okD(1) [OF assms] l(1) by (simp add: tm_spaces_def)
  from key_elsewhere [OF this l(2) [unfolded has_key_iff]]
  have "\<not> has_key q (ws_panels u)" if "u \<in> set xs \<union> set ys" for u
    using that unfolding has_key_iff by auto
  then have "w = v" using w l(1) by auto
  with w v show "panel_of q tm = Some x" by (simp add: panel_of_def find_workspace_with_panel_def)
qed

lemma panel_of_None: "tm_ok tm \<Longrightarrow> panel_of q tm = None \<longleftrightarrow> (\<forall>w \<in> set (tm_workspaces tm). map_of (ws_panels w) q = None)"
  using panel_of_iff [of tm q] by (metis not_None_eq)

text \<open>The live panels after a panel has been detached, and its workspace dropped when that emptied it.\<close>

lemma detach_and_drop_lookup:
  assumes "tm_ok tm" and "find_workspace_with_panel p tm = Some w"
  shows "(\<exists>v \<in> set (tm_workspaces (detach_and_drop now p w tm)). map_of (ws_panels v) q = Some x) \<longleftrightarrow>
    q \<noteq> p \<and> (\<exists>v \<in> set (tm_workspaces tm). map_of (ws_panels v) q = Some x)"
proof -
  have "find (\<lambda>w. has_key p (ws_panels w)) (tm_workspaces tm) = Some w"
    using assms(2) by (simp add: find_workspace_with_panel_def)
  from find_Some_in [OF this] have w: "w \<in> set (tm_workspaces tm)" "has_key p (ws_panels w)" by auto
  from tm_ok_live(3) [OF assms(1) w(1)] have "find (\<lambda>v. ws_id v = ws_id w) (tm_workspaces tm) = Some w"
    by (simp add: tm_workspace_def)
  from live_split [OF assms(1) this] obtain xs ys where l: "tm_workspaces tm = xs @ w # ys"
    "ws_id w \<notin> ws_id ` set xs"
    "\<forall>f. update_first (\<lambda>v. ws_id v = ws_id w) f (tm_workspaces tm) = xs @ f w # ys" by blast
  let ?w = "fst (detach_panel p w)" and ?tm = "tm\<lparr> tm_workspaces := xs @ fst (detach_panel p w) # ys \<rparr>"
  have k: "ws_panels ?w = AList.delete p (ws_panels w)"
    using w(2) by (auto simp: detach_panel_def Let_def)
  have "tm_workspaces (detach_and_drop now p w tm) = (if ws_panels ?w = [] then xs @ ys else xs @ ?w # ys)"
    using l(3) remove_by_id_empty(1) [of ?tm xs ?w ys "ws_id w" now, OF _ _ l(2)]
    by (simp add: detach_and_drop_def edit_workspace_def Let_def ws_is_empty_def)
  moreover have "map_of (ws_panels ?w) q = (if q = p then None else map_of (ws_panels w) q)"
    by (simp add: k AList.delete_conv')
  moreover have "\<not> has_key p (ws_panels u)" if "u \<in> set (xs @ ys)" for u
  proof -
    have "spaces_ok (xs @ w # ys @ map ce_workspace (tm_closed_stack tm))"
      using tm_okD(1) [OF assms(1)] l(1) by (simp add: tm_spaces_def)
    from key_elsewhere [OF this w(2) [unfolded has_key_iff]] that show ?thesis
      unfolding has_key_iff by auto
  qed
  ultimately show ?thesis unfolding l(1) by (auto split: if_splits)
qed

text \<open>C28. Moving a panel to another workspace succeeds exactly when the panel exists, the target exists
  and does not already hold it. Then the target holds the panel, focused, every panel of the window
  keeps its content and none is lost or duplicated; a refused move changes nothing.\<close>

theorem move_panel_conserves:
  assumes "tm_ok tm"
  shows "(case move_panel_to_workspace now p target tm of
      (tm', None) \<Rightarrow> tm' = tm \<and> \<not> (\<exists>w. find_workspace_with_panel p tm = Some w \<and> ws_id w \<noteq> target \<and> tm_workspace target tm \<noteq> None)
    | (tm', Some i) \<Rightarrow> i = target \<and> tm_ok tm' \<and> (\<forall>q. panel_of q tm' = panel_of q tm) \<and>
        (\<exists>w. find_workspace_with_panel p tm' = Some w \<and> ws_id w = target \<and> ws_focused_panel_id w = Some p))"
proof (cases "\<exists>w t. find_workspace_with_panel p tm = Some w \<and> tm_workspace target tm = Some t \<and> ws_id w \<noteq> target")
  case False
  then have "move_panel_to_workspace now p target tm = (tm, None)"
    by (auto simp: move_panel_to_workspace_def Let_def split: option.splits)
  with False show ?thesis by auto
next
  case True
  then obtain w t where a: "find_workspace_with_panel p tm = Some w" "tm_workspace target tm = Some t"
    "ws_id w \<noteq> target" by blast
  from move_panel_eq [OF assms a] obtain panel where m: "map_of (ws_panels w) p = Some panel"
    "move_panel_to_workspace now p target tm =
      (edit_workspace target (\<lambda>v. fst (insert_panel panel Horizontal v)) (detach_and_drop now p w tm), Some target)"
    "tm_workspace target (detach_and_drop now p w tm) = Some t" by blast
  let ?d = "detach_and_drop now p w tm" and ?t = "fst (insert_panel panel Horizontal t)"
  let ?tm = "edit_workspace target (\<lambda>v. fst (insert_panel panel Horizontal v)) ?d"
  have ok: "tm_ok ?tm" using move_panel_ok [OF assms, of now p target] m(2) by simp
  have w: "w \<in> set (tm_workspaces tm)"
    using a(1) by (auto simp: find_workspace_with_panel_def dest: find_Some_in)
  have id: "p_id panel = p"
    using ws_okD(3) [OF tm_ok_live(1) [OF assms w]] m(1) by (simp add: panels_keyed_def)
  note ok_d = detach_and_drop_ok(1) [OF assms a(1), where now = now]
  from live_split [OF ok_d m(3) [unfolded tm_workspace_def]] obtain xs ys where
    l: "tm_workspaces ?d = xs @ t # ys" "ws_id t = target"
    "\<forall>f. update_first (\<lambda>v. ws_id v = target) f (tm_workspaces ?d) = xs @ f t # ys" by blast
  have tm': "tm_workspaces ?tm = xs @ ?t # ys" using l(3) by (simp add: edit_workspace_def)
  have t': "map_of (ws_panels ?t) q = (if q = p then Some panel else map_of (ws_panels t) q)" for q
    by (simp add: insert_panel_def id AList.update_conv')
  note look = detach_and_drop_lookup [OF assms a(1), where now = now, unfolded l(1)]
  have "panel_of q ?tm = Some x \<longleftrightarrow> panel_of q tm = Some x" for q x
  proof (cases "q = p")
    case True
    have "\<not> (\<exists>v \<in> set (xs @ t # ys). map_of (ws_panels v) p = Some x)" for x using look by blast
    with True have "panel_of q ?tm = Some x \<longleftrightarrow> x = panel"
      unfolding panel_of_iff [OF ok] tm' by (auto simp: t')
    moreover have "panel_of q tm = Some panel" unfolding panel_of_iff [OF assms] using True w m(1) by blast
    ultimately show ?thesis by auto
  next
    case False
    then show ?thesis
      unfolding panel_of_iff [OF ok] panel_of_iff [OF assms] tm' using look [of q x] by (auto simp: t')
  qed
  then have same: "panel_of q ?tm = panel_of q tm" for q by (metis not_None_eq)
  have "find (\<lambda>w. has_key p (ws_panels w)) (xs @ ?t # ys) = Some ?t"
  proof -
    have "\<forall>v \<in> set xs. \<not> has_key p (ws_panels v)" using look by fastforce
    then show ?thesis by (induction xs) (auto simp: t')
  qed
  then have "find_workspace_with_panel p ?tm = Some ?t" unfolding find_workspace_with_panel_def tm' .
  moreover have "ws_id ?t = target" "ws_focused_panel_id ?t = Some p"
    using l(2) id by (simp_all add: insert_panel_def)
  ultimately show ?thesis using m(2) ok same by simp
qed

lemma move_panel_conserves_witness:
  "panel_of 10 (fst (move_panel_to_workspace 3 10 1 two_spaces)) = Some (new_terminal 10)"
proof -
  have "snd (move_panel_to_workspace 3 10 1 two_spaces) = Some 1"
    by (simp add: two_spaces_def move_panel_to_workspace_def find_workspace_with_panel_def tm_workspace_def
        edit_workspace_def detach_panel_def remove_by_id_def tm_remove_def remove_at_def Let_def ws_is_empty_def
        new_terminal_def blank_panel_def)
  with move_panel_conserves [OF two_spaces_ok, of 10 1 3]
  have "panel_of 10 (fst (move_panel_to_workspace 3 10 1 two_spaces)) = panel_of 10 two_spaces"
    by (auto split: prod.splits option.splits)
  then show ?thesis by (simp add: panel_of_def find_workspace_with_panel_def two_spaces_def)
qed

section \<open>Groups\<close>

lemma list_update_remove_at: "i < length xs \<Longrightarrow> remove_at i (xs[i := x]) = remove_at i xs"
  by (simp add: remove_at_def)

lemma insert_at_remove_at [simp]: "i < length xs \<Longrightarrow> insert_at i (xs ! i) (remove_at i xs) = xs"
  by (simp add: insert_at_def remove_at_def min_def id_take_nth_drop [symmetric])

lemma move_spaces:
  "i < length (tm_workspaces tm) \<Longrightarrow> j < length (tm_workspaces tm) \<Longrightarrow>
   tm_workspaces (fst (move_workspace i j tm)) = insert_at j (tm_workspaces tm ! i) (remove_at i (tm_workspaces tm))"
  by (simp add: move_workspace_def Let_def)

lemma last_indices_where:
  assumes "last_opt (indices_where P xs) = Some k"
  shows "k < length xs \<and> P k (xs ! k) \<and> (\<forall>j. k < j \<longrightarrow> j < length xs \<longrightarrow> \<not> P j (xs ! j))"
proof -
  let ?ks = "indices_where P xs"
  from assms have ne: "?ks \<noteq> []" and k: "last ?ks = k" by (auto simp: last_opt_def split: if_splits)
  have "\<not> P j (xs ! j)" if "k < j" "j < length xs" for j
  proof
    assume "P j (xs ! j)"
    with that have "j \<in> set ?ks" by (simp add: indices_where_in)
    then obtain n where n: "n < length ?ks" "?ks ! n = j" by (auto simp: in_set_conv_nth)
    have "j \<le> k"
    proof (cases "n = length ?ks - 1")
      case True
      with n k ne show ?thesis by (simp add: last_conv_nth)
    next
      case False
      with n have "n < length ?ks - 1" by linarith
      with n sorted_wrt_nth_less [OF indices_where_sorted, of n "length ?ks - 1" P xs] ne k
      show ?thesis by (simp add: last_conv_nth)
    qed
    with that show False by simp
  qed
  moreover have "k \<in> set ?ks" using ne k by auto
  ultimately show ?thesis by (simp add: indices_where_in)
qed

text \<open>Assigning a workspace to an existing group puts it right behind the last other member, leaving
  all other workspaces in order; with no other member it stays where it is. Assigning to a group that
  does not exist, or a workspace that does not, is refused and changes nothing.\<close>

theorem assign_places_after_members:
  assumes "tm_group g tm \<noteq> None" and "workspace_index wid tm = Some idx"
    and "others = take idx (tm_workspaces tm) @ drop (idx + 1) (tm_workspaces tm)"
    and "w = (tm_workspaces tm ! idx)\<lparr> ws_group_id := Some g \<rparr>"
  shows "snd (assign_to_group wid (Some g) tm) \<and>
    (if \<exists>v \<in> set others. ws_group_id v = Some g
     then \<exists>xs m ys. others = xs @ m # ys \<and> ws_group_id m = Some g \<and> (\<forall>v \<in> set ys. ws_group_id v \<noteq> Some g) \<and>
       tm_workspaces (fst (assign_to_group wid (Some g) tm)) = xs @ m # w # ys
     else tm_workspaces (fst (assign_to_group wid (Some g) tm)) = (tm_workspaces tm)[idx := w])"
proof -
  let ?l = "tm_workspaces tm" and ?l1 = "(tm_workspaces tm)[idx := w]"
  let ?P = "\<lambda>i v. i \<noteq> idx \<and> ws_group_id v = Some g"
  have idx: "idx < length ?l" using assms(2) position_Some by (fastforce simp: workspace_index_def)
  have others: "others = remove_at idx ?l" "remove_at idx ?l1 = others"
    using assms(3) idx by (simp_all add: remove_at_def)
  have l1: "?l1 = insert_at idx w others"
    using idx assms(3) by (simp add: insert_at_def upd_conv_take_nth_drop)
  have e: "assign_to_group wid (Some g) tm =
      (case last_opt (indices_where ?P ?l1) of
         None \<Rightarrow> tm\<lparr> tm_workspaces := ?l1 \<rparr>
       | Some k \<Rightarrow> fst (move_workspace idx (if idx < k then k else k + 1) (tm\<lparr> tm_workspaces := ?l1 \<rparr>)), True)"
    using assms(1,2,4) by (auto simp: assign_to_group_def Let_def)
  show ?thesis
  proof (cases "last_opt (indices_where ?P ?l1)")
    case None
    then have none: "i \<notin> set (indices_where ?P ?l1)" for i by (auto simp: last_opt_def split: if_splits)
    have "ws_group_id v \<noteq> Some g" if "v \<in> set others" for v
    proof -
      obtain n where n: "n < length ?l - 1" "v = remove_at idx ?l ! n"
        using \<open>v \<in> set others\<close> idx unfolding others(1) by (auto simp: in_set_conv_nth)
      with none [of n] none [of "Suc n"] idx show ?thesis
        by (auto simp: indices_where_in nth_remove_at nth_list_update split: if_splits)
    qed
    then show ?thesis using e None by auto
  next
    case (Some k)
    note k = last_indices_where [OF Some]
    let ?n = "if idx < k then k else k + 1"
    have kl: "k < length ?l" "k \<noteq> idx" "ws_group_id (?l ! k) = Some g" using k by auto
    have n: "0 < ?n" "?n \<le> length others" "others ! (?n - 1) = ?l ! k"
      using kl idx by (auto simp: others(1) nth_remove_at)
    have "tm_workspaces (fst (move_workspace idx ?n (tm\<lparr> tm_workspaces := ?l1 \<rparr>))) = insert_at ?n w others"
      using move_spaces [of idx "tm\<lparr> tm_workspaces := ?l1 \<rparr>" ?n] kl idx others(2) by simp
    then have "tm_workspaces (fst (assign_to_group wid (Some g) tm)) = insert_at ?n w others"
      using e Some by simp
    moreover have "take ?n others = take (?n - 1) others @ [?l ! k]"
      using n take_Suc_conv_app_nth [of "?n - 1" others] by (cases ?n) auto
    moreover have "ws_group_id v \<noteq> Some g" if v: "v \<in> set (drop ?n others)" for v
    proof -
      obtain j where j: "j < length others - ?n" "v = others ! (?n + j)"
        using v by (auto simp: in_set_conv_nth)
      let ?j = "if ?n + j < idx then ?n + j else ?n + j + 1"
      have "k < ?j" "?j < length ?l" "?j \<noteq> idx" "v = ?l ! ?j"
        using j kl idx by (auto simp: others(1) nth_remove_at)
      with k show ?thesis by auto
    qed
    moreover have "others = take (?n - 1) others @ ?l ! k # drop ?n others"
      using n id_take_nth_drop [of "?n - 1" others] by (cases ?n) auto
    ultimately have "\<exists>xs m ys. others = xs @ m # ys \<and> ws_group_id m = Some g \<and> (\<forall>v \<in> set ys. ws_group_id v \<noteq> Some g) \<and>
       tm_workspaces (fst (assign_to_group wid (Some g) tm)) = xs @ m # w # ys"
      using kl(3) by (intro exI [of _ "take (?n - 1) others"] exI [of _ "?l ! k"] exI [of _ "drop ?n others"])
        (auto simp: insert_at_def)
    then show ?thesis using e by auto
  qed
qed

lemma assign_places_after_members_witness:
  "map ws_id (tm_workspaces (fst (assign_to_group 0 (Some 7)
     (two_spaces\<lparr> tm_workspaces := [ws_new None 0 10, (ws_new None 1 11)\<lparr> ws_group_id := Some 7 \<rparr>, ws_new None 2 12] \<rparr>)))) = [1, 0, 2]"
proof -
  let ?tm = "two_spaces\<lparr> tm_workspaces := [ws_new None 0 10, (ws_new None 1 11)\<lparr> ws_group_id := Some 7 \<rparr>, ws_new None 2 12] \<rparr>"
  have g: "ws_group_id ((ws_new None 1 11)\<lparr> ws_group_id := Some 7 \<rparr>) = Some 7" by simp
  from assign_places_after_members [of 7 ?tm 0 0 "[(ws_new None 1 11)\<lparr> ws_group_id := Some 7 \<rparr>, ws_new None 2 12]"
      "(ws_new None 0 10)\<lparr> ws_group_id := Some 7 \<rparr>"]
  show ?thesis
    by (auto simp: two_spaces_def workspace_index_def tm_group_def new_group_def Cons_eq_append_conv)
qed

end
