(* ===== verification/Notifications.thy ===== *)
theory Notifications imports Rust_Str F64 Bounded_Log begin

text \<open>
  The notification store (\<open>jmux/src/notifications.rs\<close>). Adding returns the store, the new
  identifier and the desktop message it sends, if it is asked to send one; the identifier and the
  clock are arguments. Showing the message and playing a sound are not modelled.
\<close>

record notification =
  nt_id :: uuid
  nt_title :: rstr
  nt_body :: rstr
  nt_source_workspace_id :: "uuid option"
  nt_source_panel_id :: "uuid option"
  nt_timestamp :: f64
  nt_is_read :: bool
  nt_retain_on_interrupt :: bool

type_synonym notification_store = "notification list"

definition MAX_NOTIFICATIONS :: nat where "MAX_NOTIFICATIONS = 500"

definition add_with_retain ::
  "uuid \<Rightarrow> f64 \<Rightarrow> rstr \<Rightarrow> rstr \<Rightarrow> uuid option \<Rightarrow> uuid option \<Rightarrow> bool \<Rightarrow> bool \<Rightarrow> notification_store \<Rightarrow>
   notification_store \<times> uuid \<times> (rstr \<times> rstr) option" where
  "add_with_retain fresh now title body wid pid send_desktop retain ns =
     (let title' = truncate_str title 1024;
          body' = truncate_str body 8192;
          n = \<lparr> nt_id = fresh, nt_title = title', nt_body = body', nt_source_workspace_id = wid,
                nt_source_panel_id = pid, nt_timestamp = now, nt_is_read = False,
                nt_retain_on_interrupt = retain \<rparr>
      in (push_quarter MAX_NOTIFICATIONS n ns, nt_id n, if send_desktop then Some (title', body') else None))"

definition notify_add ::
  "uuid \<Rightarrow> f64 \<Rightarrow> rstr \<Rightarrow> rstr \<Rightarrow> uuid option \<Rightarrow> uuid option \<Rightarrow> bool \<Rightarrow> notification_store \<Rightarrow>
   notification_store \<times> uuid \<times> (rstr \<times> rstr) option" where
  "notify_add fresh now title body wid pid send_desktop ns =
     add_with_retain fresh now title body wid pid send_desktop False ns"

definition unread_count :: "notification_store \<Rightarrow> nat" where
  "unread_count ns = length (filter (\<lambda>n. \<not> nt_is_read n) ns)"

definition unread_for_workspace :: "uuid \<Rightarrow> notification_store \<Rightarrow> notification list" where
  "unread_for_workspace w ns = filter (\<lambda>n. \<not> nt_is_read n \<and> nt_source_workspace_id n = Some w) ns"

definition unread_count_for_workspace :: "uuid \<Rightarrow> notification_store \<Rightarrow> nat" where
  "unread_count_for_workspace w ns =
     length (filter (\<lambda>n. \<not> nt_is_read n \<and> nt_source_workspace_id n = Some w) ns)"

definition mark_read :: "uuid \<Rightarrow> notification_store \<Rightarrow> notification_store" where
  "mark_read i ns = update_first (\<lambda>n. nt_id n = i) (\<lambda>n. n\<lparr> nt_is_read := True \<rparr>) ns"

definition mark_workspace_read :: "uuid \<Rightarrow> notification_store \<Rightarrow> notification_store" where
  "mark_workspace_read w ns =
     map (\<lambda>n. if nt_source_workspace_id n = Some w then n\<lparr> nt_is_read := True \<rparr> else n) ns"

definition mark_all_read :: "notification_store \<Rightarrow> notification_store" where
  "mark_all_read ns = map (\<lambda>n. n\<lparr> nt_is_read := True \<rparr>) ns"

definition mark_unread :: "uuid \<Rightarrow> notification_store \<Rightarrow> notification_store" where
  "mark_unread i ns = update_first (\<lambda>n. nt_id n = i) (\<lambda>n. n\<lparr> nt_is_read := False \<rparr>) ns"

definition dismiss :: "uuid \<Rightarrow> bool \<Rightarrow> notification_store \<Rightarrow> notification_store \<times> bool" where
  "dismiss i force ns =
     (let ns' = filter (\<lambda>n. if nt_id n \<noteq> i then True else nt_retain_on_interrupt n \<and> \<not> force) ns
      in (ns', length ns' < length ns))"

definition mark_latest_unread_for_workspace :: "uuid \<Rightarrow> notification_store \<Rightarrow> notification_store \<times> uuid option" where
  "mark_latest_unread_for_workspace w ns =
     (case map_option nt_id (find (\<lambda>n. nt_source_workspace_id n = Some w) (rev ns)) of
        None \<Rightarrow> (ns, None)
      | Some i \<Rightarrow> (mark_unread i ns, Some i))"

definition clear_notifications :: "notification_store \<Rightarrow> notification_store" where
  "clear_notifications ns = []"

section \<open>Bounds\<close>

interpretation notification_log: bounded_log
    "push_quarter MAX_NOTIFICATIONS :: notification \<Rightarrow> notification list \<Rightarrow> notification list" MAX_NOTIFICATIONS
  by (rule push_quarter_log) (simp add: MAX_NOTIFICATIONS_def)

text \<open>The store never holds more than that, and nothing else makes it longer.\<close>

definition notes_ok :: "notification_store \<Rightarrow> bool" where
  "notes_ok ns \<longleftrightarrow> length ns \<le> MAX_NOTIFICATIONS"

lemma notes_ops_ok:
  assumes "notes_ok ns"
  shows "notes_ok (fst (add_with_retain i now title body w p desktop retain ns))"
    "notes_ok (fst (notify_add i now title body w p desktop ns))" "notes_ok (mark_read i ns)"
    "notes_ok (mark_workspace_read j ns)" "notes_ok (mark_all_read ns)" "notes_ok (mark_unread i ns)"
    "notes_ok (fst (dismiss i force ns))" "notes_ok (fst (mark_latest_unread_for_workspace j ns))"
    "notes_ok (clear_notifications ns)"
  using assms
  by (simp_all add: notes_ok_def add_with_retain_def notify_add_def mark_read_def mark_workspace_read_def mark_all_read_def
      mark_unread_def dismiss_def mark_latest_unread_for_workspace_def clear_notifications_def Let_def
      notification_log.push_cap le_trans [OF length_filter_le] split: option.split)

text \<open>A run of additions, each given by the arguments of the call.\<close>

type_synonym add_call = "uuid \<times> f64 \<times> rstr \<times> rstr \<times> uuid option \<times> uuid option \<times> bool"

fun note_of :: "add_call \<Rightarrow> notification" where
  "note_of (i, now, title, body, w, p, retain) =
     \<lparr> nt_id = i, nt_title = truncate_str title 1024, nt_body = truncate_str body 8192,
       nt_source_workspace_id = w, nt_source_panel_id = p, nt_timestamp = now, nt_is_read = False,
       nt_retain_on_interrupt = retain \<rparr>"

definition sample_note :: "nat \<Rightarrow> notification" where
  "sample_note i = note_of (i, Fin False 0, ''t'', ''b'', Some 9, None, False)"

fun run_adds :: "add_call list \<Rightarrow> notification_store \<Rightarrow> notification_store" where
  "run_adds [] ns = ns"
| "run_adds ((i, now, title, body, w, p, retain) # cs) ns =
     run_adds cs (fst (add_with_retain i now title body w p False retain ns))"

lemma run_adds_fold: "run_adds cs ns = fold (push_quarter MAX_NOTIFICATIONS) (map note_of cs) ns"
  by (induction cs ns rule: run_adds.induct) (simp_all add: add_with_retain_def Let_def)

text \<open>However many notifications arrive, the store never holds more than 500, what it holds is the
  newest part of everything that arrived in arrival order, and once the store is not empty the newest
  notification is in it, unread, with title and body truncated at character boundaries.\<close>

theorem notifications_bounded:
  assumes "length ns \<le> MAX_NOTIFICATIONS"
  shows "length (run_adds cs ns) \<le> MAX_NOTIFICATIONS \<and>
    (\<exists>k. run_adds cs ns = drop k (ns @ map note_of cs)) \<and>
    (cs \<noteq> [] \<longrightarrow> run_adds cs ns \<noteq> [] \<and> last (run_adds cs ns) = note_of (last cs))"
proof (intro conjI impI)
  show "length (run_adds cs ns) \<le> MAX_NOTIFICATIONS"
    unfolding run_adds_fold by (rule notification_log.run_cap [OF assms])
  show "\<exists>k. run_adds cs ns = drop k (ns @ map note_of cs)"
    unfolding run_adds_fold by (rule notification_log.run_suffix)
next
  assume "cs \<noteq> []"
  then obtain cs' c where cs: "cs = cs' @ [c]" by (metis rev_exhaust)
  show "run_adds cs ns \<noteq> []" "last (run_adds cs ns) = note_of (last cs)"
    unfolding run_adds_fold cs by (simp_all add: notification_log.push_last)
qed

lemma notifications_bounded_witness:
  "length (run_adds (replicate 501 (1, Fin False 0, ''t'', ''b'', None, None, False)) []) \<le> MAX_NOTIFICATIONS"
  by (rule notifications_bounded [THEN conjunct1]) simp

text \<open>Dismissing removes exactly the notifications with the identifier, except those that are to
  survive an interruption when the user did not ask; the result says whether one was removed, and
  every other notification stays as it was.\<close>

theorem dismiss_effect:
  "fst (dismiss i force ns) = filter (\<lambda>n. nt_id n \<noteq> i \<or> (nt_retain_on_interrupt n \<and> \<not> force)) ns \<and>
   (snd (dismiss i force ns) \<longleftrightarrow> (\<exists>n. n \<in> set ns \<and> nt_id n = i \<and> (force \<or> \<not> nt_retain_on_interrupt n)))"
proof -
  have "fst (dismiss i force ns) = filter (\<lambda>n. nt_id n \<noteq> i \<or> (nt_retain_on_interrupt n \<and> \<not> force)) ns"
    by (auto simp: dismiss_def Let_def intro: filter_cong)
  moreover have "length (filter P ns) < length ns \<longleftrightarrow> (\<exists>n. n \<in> set ns \<and> \<not> P n)" for P
    by (metis filter_True length_filter_le length_filter_less less_irrefl)
  ultimately show ?thesis by (auto simp: dismiss_def Let_def)
qed

lemma unread_find: "distinct (map nt_id ns) \<Longrightarrow> n \<in> set ns \<Longrightarrow>
  mark_unread (nt_id n) ns = map (\<lambda>m. if m = n then m\<lparr> nt_is_read := False \<rparr> else m) ns"
proof (induction ns)
  case (Cons a ns)
  show ?case
  proof (cases "nt_id a = nt_id n")
    case True
    with Cons.prems have "a = n" "n \<notin> set ns" by auto
    then show ?thesis by (auto simp: mark_unread_def intro!: map_idI [symmetric])
  next
    case False
    with Cons show ?thesis by (auto simp: mark_unread_def)
  qed
qed simp

text \<open>"Mark as unread" of a workspace turns exactly its newest notification unread and reports its
  identifier, and reports nothing exactly when the workspace has no notification.\<close>

theorem mark_latest_unread_newest:
  assumes "distinct (map nt_id ns)"
  shows "(case mark_latest_unread_for_workspace w ns of
      (ns', None) \<Rightarrow> ns' = ns \<and> (\<forall>n \<in> set ns. nt_source_workspace_id n \<noteq> Some w)
    | (ns', Some i) \<Rightarrow> (\<exists>xs n ys. ns = xs @ n # ys \<and> nt_id n = i \<and> nt_source_workspace_id n = Some w \<and>
        (\<forall>m \<in> set ys. nt_source_workspace_id m \<noteq> Some w) \<and> ns' = xs @ n\<lparr> nt_is_read := False \<rparr> # ys))"
proof (cases "find (\<lambda>n. nt_source_workspace_id n = Some w) (rev ns)")
  case None
  then have "mark_latest_unread_for_workspace w ns = (ns, None)" by (simp add: mark_latest_unread_for_workspace_def)
  then show ?thesis using None by (simp add: find_None_all)
next
  case (Some n)
  then obtain i where i: "i < length ns" "n = rev ns ! i" "nt_source_workspace_id n = Some w"
    "\<forall>j < i. nt_source_workspace_id (rev ns ! j) \<noteq> Some w" by (auto simp: find_Some_iff)
  let ?k = "length ns - Suc i"
  have k: "?k < length ns" "n = ns ! ?k" using i by (simp_all add: rev_nth)
  have ns: "ns = take ?k ns @ n # drop (Suc ?k) ns" using id_take_nth_drop [OF k(1)] k(2) by simp
  have later: "\<forall>m \<in> set (drop (Suc ?k) ns). nt_source_workspace_id m \<noteq> Some w"
  proof
    fix m assume "m \<in> set (drop (Suc ?k) ns)"
    then obtain j where j: "j < length ns - Suc ?k" "m = ns ! (Suc ?k + j)" by (auto simp: in_set_conv_nth)
    have "length ns - Suc (i - Suc j) = Suc ?k + j" "i - Suc j < i" using i(1) j(1) by linarith+
    then have "rev ns ! (i - Suc j) = m" using i(1) j(2) by (simp add: rev_nth)
    with i(4) \<open>i - Suc j < i\<close> show "nt_source_workspace_id m \<noteq> Some w" by blast
  qed
  have "n \<notin> set (take ?k ns)" "n \<notin> set (drop (Suc ?k) ns)"
    using assms by (subst (asm) ns, force)+
  then have "map (\<lambda>m. if m = n then m\<lparr> nt_is_read := False \<rparr> else m) (take ?k ns @ n # drop (Suc ?k) ns) =
      take ?k ns @ n\<lparr> nt_is_read := False \<rparr> # drop (Suc ?k) ns"
    by (auto intro!: map_idI)
  moreover have "n \<in> set ns" using k by simp
  ultimately have "mark_unread (nt_id n) ns = take ?k ns @ n\<lparr> nt_is_read := False \<rparr> # drop (Suc ?k) ns"
    using unread_find [OF assms, of n] ns by simp
  then have e: "mark_latest_unread_for_workspace w ns =
      (take ?k ns @ n\<lparr> nt_is_read := False \<rparr> # drop (Suc ?k) ns, Some (nt_id n))"
    using Some by (simp add: mark_latest_unread_for_workspace_def)
  show ?thesis unfolding e prod.case option.case using ns later i(3) by blast
qed

lemma dismiss_effect_witness:
  "map nt_id (fst (dismiss 1 False [sample_note 1, sample_note 2])) = [2]"
  using dismiss_effect [of 1 False "[sample_note 1, sample_note 2]"] by (simp add: sample_note_def)

lemma mark_latest_unread_newest_witness:
  "snd (mark_latest_unread_for_workspace 9 [sample_note 1, sample_note 2]) = Some 2"
  using mark_latest_unread_newest [of "[sample_note 1, sample_note 2]" 9]
  by (auto simp: sample_note_def Cons_eq_append_conv split: prod.splits option.splits)

end
