(* ===== verification/Graph_Data.thy ===== *)
theory Graph_Data imports Rust_Str F64 begin

text \<open>
  The data of a goal graph (\<open>GraphState\<close>, \<open>NodeState\<close>, \<open>GraphNode\<close>, \<open>GraphSpec\<close> in
  \<open>jmux/src/goal/graph.rs\<close>), its defaults, its display labels and the paths derived from it.
\<close>

datatype GraphState = GProposing | GProposed | GRunning | GComplete | GPaused | GStopped

datatype NodeState = NPending | NRunning | NReview | NDone | NBlocked | NInterrupted

record graph_node =
  gn_id :: rstr
  gn_title :: rstr
  gn_goal :: rstr
  gn_deps :: "rstr list"
  gn_runner :: "rstr option"
  gn_status :: NodeState
  gn_workspace :: "uuid option"
  gn_iteration :: u32
  gn_branch :: "rstr option"
  gn_worktree :: "rstr option"
  gn_detail :: "rstr option"
  gn_pos :: "(f64 \<times> f64) option"

definition default_node :: graph_node where
  "default_node =
     \<lparr> gn_id = [], gn_title = [], gn_goal = [], gn_deps = [], gn_runner = None, gn_status = NPending,
       gn_workspace = None, gn_iteration = 0, gn_branch = None, gn_worktree = None, gn_detail = None,
       gn_pos = None \<rparr>"

record graph_spec =
  gs_name :: rstr
  gs_base_cwd :: rstr
  gs_goal_path :: rstr
  gs_status :: GraphState
  gs_max_concurrency :: u32
  gs_max_iterations :: u32
  gs_review :: bool
  gs_review_iterations :: bool
  gs_use_worktrees :: bool
  gs_output_dir :: rstr
  gs_permission_mode :: rstr
  gs_runner :: "rstr option"
  gs_orchestrator_workspace :: "uuid option"
  gs_group_id :: "uuid option"
  gs_min_proposal_mtime :: "u64 option"
  gs_proposal_wait_ticks :: u32
  gs_nodes :: "graph_node list"

definition DEFAULT_GOAL_OUTPUT_DIR :: rstr where
  "DEFAULT_GOAL_OUTPUT_DIR = ''docs/roadmap''"

definition default_spec :: graph_spec where
  "default_spec =
     \<lparr> gs_name = [], gs_base_cwd = [], gs_goal_path = [], gs_status = GProposing, gs_max_concurrency = 1,
       gs_max_iterations = 4, gs_review = True, gs_review_iterations = False, gs_use_worktrees = True,
       gs_output_dir = DEFAULT_GOAL_OUTPUT_DIR, gs_permission_mode = [], gs_runner = None,
       gs_orchestrator_workspace = None, gs_group_id = None, gs_min_proposal_mtime = None,
       gs_proposal_wait_ticks = 0, gs_nodes = [] \<rparr>"

text \<open>The UTF-8 bytes of the two non-ASCII characters the messages use.\<close>

definition ellipsis :: rstr where "ellipsis = [CHR 0xE2, CHR 0x80, CHR 0xA6]"
definition em_dash :: rstr where "em_dash = [CHR 0xE2, CHR 0x80, CHR 0x94]"

definition graph_state_label :: "GraphState \<Rightarrow> rstr" where
  "graph_state_label s =
     (case s of
        GProposing \<Rightarrow> ''planning'' @ ellipsis
      | GProposed \<Rightarrow> ''plan review''
      | GRunning \<Rightarrow> ''working''
      | GComplete \<Rightarrow> ''finished''
      | GPaused \<Rightarrow> ''paused''
      | GStopped \<Rightarrow> ''stopped'')"

definition node_state_label :: "NodeState \<Rightarrow> rstr" where
  "node_state_label s =
     (case s of
        NPending \<Rightarrow> ''waiting its turn''
      | NRunning \<Rightarrow> ''working''
      | NReview \<Rightarrow> ''waiting for your review''
      | NDone \<Rightarrow> ''finished''
      | NBlocked \<Rightarrow> ''needs you''
      | NInterrupted \<Rightarrow> ''interrupted by a restart'')"

definition gs_node :: "rstr \<Rightarrow> graph_spec \<Rightarrow> graph_node option" where
  "gs_node i spec = find (\<lambda>n. gn_id n = i) (gs_nodes spec)"

text \<open>\<open>node_mut(id)\<close> followed by a mutation.\<close>

definition edit_node :: "rstr \<Rightarrow> (graph_node \<Rightarrow> graph_node) \<Rightarrow> graph_spec \<Rightarrow> graph_spec" where
  "edit_node i f spec = spec\<lparr> gs_nodes := update_first (\<lambda>n. gn_id n = i) f (gs_nodes spec) \<rparr>"

definition nl :: rstr where "nl = [CHR 0x0A]"

definition markdown_row :: "graph_node \<Rightarrow> rstr" where
  "markdown_row n =
     ''| '' @ gn_id n @ '' | '' @ node_state_label (gn_status n) @
     (case gn_detail n of Some d \<Rightarrow> '' ('' @ d @ '')'' | None \<Rightarrow> []) @ '' | '' @
     join '', '' (gn_deps n) @ '' | '' @
     (case gn_runner n of Some r \<Rightarrow> r | None \<Rightarrow> ''default'') @ '' | '' @
     show_nat (unat (gn_iteration n)) @ '' |'' @ nl"

definition markdown_section :: "graph_node \<Rightarrow> rstr" where
  "markdown_section n =
     nl @ ''## '' @ gn_id n @ '' '' @ em_dash @ '' '' @ gn_title n @ nl @ nl @ gn_goal n @ nl"

definition render_markdown :: "graph_spec \<Rightarrow> rstr" where
  "render_markdown spec =
     ''# graph: '' @ gs_name spec @ nl @ nl @
     ''_Generated by jmux '' @ em_dash @ '' edit `proposal.json`, not this file._'' @ nl @ nl @
     ''Status: **'' @ graph_state_label (gs_status spec) @ ''** '' @ [CHR 0xC2, CHR 0xB7] @ '' concurrency '' @
     show_nat (unat (gs_max_concurrency spec)) @ '' '' @ [CHR 0xC2, CHR 0xB7] @ '' iterations/node '' @
     show_nat (unat (gs_max_iterations spec)) @ nl @ nl @
     ''| node | status | deps | runner | iter |'' @ nl @ ''|---|---|---|---|---|'' @ nl @
     concat (map markdown_row (gs_nodes spec)) @ concat (map markdown_section (gs_nodes spec))"

end
