(* ===== verification/Graph_Proposal.thy ===== *)
theory Graph_Proposal imports Graph_Data begin

text \<open>
  Parsing and validating a plan (\<open>parse_proposal\<close> in \<open>jmux/src/goal/graph.rs\<close>). The file and the
  JSON reader are the argument: either the message of the failure or the deserialised nodes. The
  order in which \<open>HashMap::iter\<close> yields the initial queue is the argument \<open>ord\<close>, of which only
  \<open>mset (ord xs) = mset xs\<close> is ever assumed. The subtraction \<open>*e -= 1\<close> panics on underflow: then
  the result is \<open>None\<close>.
\<close>

record proposal_node =
  pn_id :: rstr
  pn_title :: rstr
  pn_goal :: rstr
  pn_deps :: "rstr list"
  pn_runner :: "rstr option"
  pn_pos :: "(f64 \<times> f64) option"

datatype proposal_error =
    CannotRead rstr
  | InvalidJson rstr
  | NoNodes
  | TooManyNodes
  | DuplicateIds
  | InvalidId rstr
  | EmptyGoal rstr
  | UnknownDep rstr rstr
  | SelfDep rstr
  | DuplicateDep rstr rstr
  | DependencyCycle

definition quoted :: "rstr \<Rightarrow> rstr" where
  "quoted s = [CHR 0x27] @ s @ [CHR 0x27]"

fun proposal_error_text :: "proposal_error \<Rightarrow> rstr" where
  "proposal_error_text (CannotRead e) = ''cannot read proposal: '' @ e"
| "proposal_error_text (InvalidJson e) = ''proposal.json is invalid: '' @ e"
| "proposal_error_text NoNodes = ''proposal has no nodes''"
| "proposal_error_text TooManyNodes = ''proposal has too many nodes (max 50)''"
| "proposal_error_text DuplicateIds = ''duplicate node ids''"
| "proposal_error_text (InvalidId i) = ''node id '' @ quoted i @ '' is invalid (lowercase letters, digits, hyphens)''"
| "proposal_error_text (EmptyGoal i) = ''node '' @ quoted i @ '' has an empty goal''"
| "proposal_error_text (UnknownDep i d) = ''node '' @ quoted i @ '' depends on unknown node '' @ quoted d"
| "proposal_error_text (SelfDep i) = ''node '' @ quoted i @ '' depends on itself''"
| "proposal_error_text (DuplicateDep i d) = ''node '' @ quoted i @ '' lists dep '' @ quoted d @ '' twice''"
| "proposal_error_text DependencyCycle = ''dependency cycle detected''"

definition valid_node_id :: "rstr \<Rightarrow> bool" where
  "valid_node_id i \<longleftrightarrow>
     i \<noteq> [] \<and> length i \<le> 64 \<and>
     list_all (\<lambda>c. is_ascii_lower c \<or> is_ascii_digit c \<or> c = CHR ''-'' \<or> c = CHR ''_'') i"

fun check_deps :: "rstr list \<Rightarrow> rstr \<Rightarrow> rstr list \<Rightarrow> rstr list \<Rightarrow> proposal_error option" where
  "check_deps ids i seen [] = None"
| "check_deps ids i seen (d # ds) =
     (if d \<notin> set ids then Some (UnknownDep i d)
      else if d = i then Some (SelfDep i)
      else if d \<in> set seen then Some (DuplicateDep i d)
      else check_deps ids i (d # seen) ds)"

fun check_nodes :: "rstr list \<Rightarrow> proposal_node list \<Rightarrow> proposal_error option" where
  "check_nodes ids [] = None"
| "check_nodes ids (n # ns) =
     (if \<not> valid_node_id (pn_id n) then Some (InvalidId (pn_id n))
      else if trim (pn_goal n) = [] then Some (EmptyGoal (pn_id n))
      else case check_deps ids (pn_id n) [] (pn_deps n) of
             Some e \<Rightarrow> Some e
           | None \<Rightarrow> check_nodes ids ns)"

section \<open>The cycle check\<close>

type_synonym indegrees = "rstr \<Rightarrow> nat"

fun initial_indegree :: "proposal_node list \<Rightarrow> indegrees" where
  "initial_indegree [] = (\<lambda>_. 0)"
| "initial_indegree (n # ns) =
     (initial_indegree ns)(pn_id n := initial_indegree ns (pn_id n) + length (pn_deps n))"

text \<open>The inner \<open>for\<close> loop after popping \<open>i\<close>.\<close>

fun relax :: "rstr \<Rightarrow> proposal_node list \<Rightarrow> indegrees \<Rightarrow> rstr list \<Rightarrow> (indegrees \<times> rstr list) option" where
  "relax i [] ind q = Some (ind, q)"
| "relax i (n # ns) ind q =
     (if i \<in> set (pn_deps n) then
        (if ind (pn_id n) = 0 then None
         else let ind' = ind(pn_id n := ind (pn_id n) - 1)
              in relax i ns ind' (if ind' (pn_id n) = 0 then q @ [pn_id n] else q))
      else relax i ns ind q)"

definition ind_total :: "proposal_node list \<Rightarrow> indegrees \<Rightarrow> nat" where
  "ind_total ns ind = (\<Sum>i \<in> pn_id ` set ns. ind i)"

lemma relax_total:
  "relax i ms ind q = Some (ind', q') \<Longrightarrow> set ms \<subseteq> set ns \<Longrightarrow>
   ind_total ns ind' + length q' \<le> ind_total ns ind + length q"
proof (induction ms arbitrary: ind q)
  case (Cons m ms)
  show ?case
  proof (cases "i \<in> set (pn_deps m)")
    case False
    with Cons show ?thesis by simp
  next
    case True
    let ?ind = "ind(pn_id m := ind (pn_id m) - 1)"
    from True Cons.prems(1) have pos: "ind (pn_id m) \<noteq> 0" by (auto split: if_splits)
    have m: "pn_id m \<in> pn_id ` set ns" using Cons.prems(2) by simp
    have "ind_total ns ind = ind (pn_id m) + (\<Sum>i \<in> pn_id ` set ns - {pn_id m}. ind i)"
      unfolding ind_total_def using m by (simp add: sum.remove)
    moreover have "ind_total ns ?ind = ind (pn_id m) - 1 + (\<Sum>i \<in> pn_id ` set ns - {pn_id m}. ind i)"
      unfolding ind_total_def using m by (simp add: sum.remove)
    ultimately have "ind_total ns ?ind + 1 = ind_total ns ind" using pos by simp
    moreover have "relax i ms ?ind (if ?ind (pn_id m) = 0 then q @ [pn_id m] else q) = Some (ind', q')"
      using True pos Cons.prems(1) by (simp add: Let_def)
    then have "ind_total ns ind' + length q' \<le>
        ind_total ns ?ind + length (if ?ind (pn_id m) = 0 then q @ [pn_id m] else q)"
      by (rule Cons.IH) (use Cons.prems(2) in simp)
    ultimately show ?thesis by (auto split: if_splits)
  qed
qed simp

function kahn :: "proposal_node list \<Rightarrow> indegrees \<Rightarrow> rstr list \<Rightarrow> nat \<Rightarrow> nat option" where
  "kahn ns ind q seen =
     (if q = [] then Some seen
      else case relax (last q) ns ind (butlast q) of
             None \<Rightarrow> None
           | Some (ind', q') \<Rightarrow> kahn ns ind' q' (seen + 1))"
  by pat_completeness auto
termination
proof (relation "measure (\<lambda>(ns, ind, q, seen). ind_total ns ind + length q)")
  fix ns ind q seen x ind' q'
  assume "q \<noteq> []" "relax (last q) ns ind (butlast q) = Some x" "(ind', q') = x"
  then show "((ns, ind', q', seen + 1), (ns, ind, q, seen)) \<in>
      measure (\<lambda>(ns, ind, q, seen). ind_total ns ind + length q)"
    using relax_total [of "last q" ns ind "butlast q" ind' q' ns] by (cases "length q") auto
qed simp

declare kahn.simps [simp del]

definition to_graph_node :: "proposal_node \<Rightarrow> graph_node" where
  "to_graph_node n =
     default_node\<lparr> gn_title := (if pn_title n = [] then pn_id n else pn_title n), gn_id := pn_id n,
       gn_goal := pn_goal n, gn_deps := pn_deps n, gn_runner := pn_runner n, gn_pos := pn_pos n \<rparr>"

definition parse_proposal ::
  "(rstr list \<Rightarrow> rstr list) \<Rightarrow> proposal_error + proposal_node list \<Rightarrow> (proposal_error + graph_node list) option" where
  "parse_proposal ord file =
     (case file of
        Inl e \<Rightarrow> Some (Inl e)
      | Inr ns \<Rightarrow>
          if ns = [] then Some (Inl NoNodes)
          else if 50 < length ns then Some (Inl TooManyNodes)
          else let ids = map pn_id ns in
               if card (set ids) \<noteq> length ns then Some (Inl DuplicateIds)
               else case check_nodes ids ns of
                      Some e \<Rightarrow> Some (Inl e)
                    | None \<Rightarrow>
                        (let ind = initial_indegree ns;
                             queue = ord (filter (\<lambda>i. ind i = 0) ids)
                         in case kahn ns ind queue 0 of
                              None \<Rightarrow> None
                            | Some seen \<Rightarrow>
                                if seen \<noteq> length ns then Some (Inl DependencyCycle)
                                else Some (Inr (map to_graph_node ns))))"

section \<open>What a plan must satisfy\<close>

definition depends :: "proposal_node list \<Rightarrow> (rstr \<times> rstr) set" where
  "depends ns = {(d, pn_id n) |d n. n \<in> set ns \<and> d \<in> set (pn_deps n)}"

definition plan_shape :: "proposal_node list \<Rightarrow> bool" where
  "plan_shape ns \<longleftrightarrow>
     distinct (map pn_id ns) \<and>
     (\<forall>n \<in> set ns. valid_node_id (pn_id n) \<and> trim (pn_goal n) \<noteq> [] \<and>
        set (pn_deps n) \<subseteq> pn_id ` set ns - {pn_id n} \<and> distinct (pn_deps n))"

definition plan_ok :: "proposal_node list \<Rightarrow> bool" where
  "plan_ok ns \<longleftrightarrow> ns \<noteq> [] \<and> length ns \<le> 50 \<and> plan_shape ns \<and> acyclic (depends ns)"

lemma check_deps_None:
  "check_deps ids i seen ds = None \<longleftrightarrow>
   set ds \<subseteq> set ids - {i} \<and> distinct ds \<and> set ds \<inter> set seen = {}"
  by (induction ds arbitrary: seen) auto

lemma check_nodes_None:
  "check_nodes ids ns = None \<longleftrightarrow>
   (\<forall>n \<in> set ns. valid_node_id (pn_id n) \<and> trim (pn_goal n) \<noteq> [] \<and>
      set (pn_deps n) \<subseteq> set ids - {pn_id n} \<and> distinct (pn_deps n))"
proof (induction ns)
  case (Cons n ns)
  then show ?case
    using check_deps_None [of ids "pn_id n" "[]" "pn_deps n"]
    by (cases "check_deps ids (pn_id n) [] (pn_deps n)") auto
qed simp

lemma initial_indegree_eq:
  "distinct (map pn_id ns) \<Longrightarrow> n \<in> set ns \<Longrightarrow> initial_indegree ns (pn_id n) = length (pn_deps n)"
proof (induction ns)
  case (Cons m ns)
  have "i \<notin> pn_id ` set ns \<Longrightarrow> initial_indegree ns i = 0" for i
    by (induction ns) auto
  with Cons show ?case by (cases "n = m") (auto, metis imageI)
qed simp

end
