(* ===== verification/Goal_Config.thy ===== *)
theory Goal_Config imports Graph_Data Graph_Proposal "HOL-Library.Char_ord" "HOL-Library.List_Lexorder" begin

text \<open>
  The configuration side of goal runs: runners, settings, permission modes, the output directory,
  the launch command and the seed prompt (\<open>jmux/src/goal/mod.rs\<close>, \<open>jmux/src/settings/mod.rs\<close>).
  Log messages are left out; the guidance template is an argument of \<open>compose_seed\<close>.
\<close>

record goal_runner =
  gr_agent :: rstr
  gr_model :: rstr
  gr_effort :: rstr
  gr_extra_args :: "rstr list"
  gr_permission_mode :: rstr
  gr_allowed_tools :: "rstr list"
  gr_command_template :: rstr
  gr_state_detection :: rstr

definition default_runner :: goal_runner where
  "default_runner = \<lparr> gr_agent = [], gr_model = [], gr_effort = [], gr_extra_args = [],
     gr_permission_mode = [], gr_allowed_tools = [], gr_command_template = [], gr_state_detection = [] \<rparr>"

record goal_settings =
  st_default_runner :: rstr
  st_runners :: "(rstr, goal_runner) hashmap"
  st_idle_ticks_before_nudge :: u32
  st_nudge_budget :: u32
  st_wall_clock_minutes :: u32
  st_max_iterations :: u32
  st_output_dir :: rstr
  st_permission_mode :: rstr
  st_confirm_before_run :: bool

definition DEFAULT_GOAL_PERMISSION_MODE :: rstr where
  "DEFAULT_GOAL_PERMISSION_MODE = ''acceptEdits''"

definition default_settings :: goal_settings where
  "default_settings = \<lparr> st_default_runner = [], st_runners = [], st_idle_ticks_before_nudge = 5,
     st_nudge_budget = 3, st_wall_clock_minutes = 120, st_max_iterations = 3,
     st_output_dir = DEFAULT_GOAL_OUTPUT_DIR, st_permission_mode = DEFAULT_GOAL_PERMISSION_MODE,
     st_confirm_before_run = False \<rparr>"

section \<open>Paths\<close>

definition iteration_rel :: "rstr \<Rightarrow> u32 \<Rightarrow> rstr" where
  "iteration_rel dir_rel n = dir_rel @ ''/iteration-'' @ show_nat (unat n) @ ''.md''"

text \<open>\<open>Path::join\<close>: an absolute second part replaces the first.\<close>

definition path_join :: "rstr \<Rightarrow> rstr \<Rightarrow> rstr" where
  "path_join a b =
     (if starts_with ''/'' b then b
      else if a = [] \<or> ends_with ''/'' a then a @ b
      else a @ ''/'' @ b)"

fun normal_parts :: "component list \<Rightarrow> rstr list option" where
  "normal_parts [] = Some []"
| "normal_parts (Normal s # cs) = map_option ((#) s) (normal_parts cs)"
| "normal_parts (CurDir # cs) = normal_parts cs"
| "normal_parts (_ # cs) = None"

definition validate_output_dir :: "rstr \<Rightarrow> rstr + rstr" where
  "validate_output_dir dir =
     (let d = trim dir in
      if d = [] then Inl ''output_dir is empty''
      else case normal_parts (components d) of
             None \<Rightarrow> Inl (''output_dir '' @ quoted d @ '' must be a repo-relative path without '' @ quoted ''..'')
           | Some parts \<Rightarrow>
               if parts = [] then Inl (''output_dir '' @ quoted d @ '' names no directory'')
               else Inr (join ''/'' parts))"

definition settings_output_dir :: "goal_settings \<Rightarrow> rstr" where
  "settings_output_dir s =
     (case validate_output_dir (st_output_dir s) of Inr d \<Rightarrow> d | Inl _ \<Rightarrow> DEFAULT_GOAL_OUTPUT_DIR)"

definition spec_output_dir :: "graph_spec \<Rightarrow> rstr" where
  "spec_output_dir spec =
     (case validate_output_dir (gs_output_dir spec) of Inr d \<Rightarrow> d | Inl _ \<Rightarrow> DEFAULT_GOAL_OUTPUT_DIR)"

definition spec_dir :: "graph_spec \<Rightarrow> rstr" where
  "spec_dir spec = path_join (path_join (gs_base_cwd spec) (spec_output_dir spec)) (gs_name spec)"

definition proposal_json :: "graph_spec \<Rightarrow> rstr" where
  "proposal_json spec = path_join (spec_dir spec) ''proposal.json''"

definition node_output_dir :: "graph_spec \<Rightarrow> rstr \<Rightarrow> rstr" where
  "node_output_dir spec node = spec_output_dir spec @ ''/'' @ gs_name spec @ ''/'' @ node"

section \<open>Permission modes\<close>

definition PERMISSION_MODES :: "rstr list" where
  "PERMISSION_MODES =
     [''supervised'', ''acceptEdits'', ''plan'', ''auto'', ''manual'', ''dontAsk'', ''bypassPermissions'']"

definition validate_permission_mode :: "rstr \<Rightarrow> bool \<Rightarrow> rstr + rstr" where
  "validate_permission_mode mode allow_bypass =
     (let m = trim mode in
      if m \<notin> set PERMISSION_MODES then
        Inl (''unknown permission mode '' @ quoted m @ '' (expected one of '' @ join '', '' PERMISSION_MODES @ '')'')
      else if m = ''bypassPermissions'' \<and> \<not> allow_bypass then
        Inl ''bypassPermissions is a per-invocation opt-in (`--full-auto`), never a configured default''
      else Inr m)"

fun first_valid_mode :: "(rstr \<times> bool) list \<Rightarrow> rstr" where
  "first_valid_mode [] = DEFAULT_GOAL_PERMISSION_MODE"
| "first_valid_mode ((v, allow) # vs) =
     (if trim v = [] then first_valid_mode vs
      else case validate_permission_mode v allow of
             Inr m \<Rightarrow> m
           | Inl _ \<Rightarrow> first_valid_mode vs)"

definition resolve_permission_mode :: "rstr option \<Rightarrow> goal_runner \<Rightarrow> goal_settings \<Rightarrow> rstr" where
  "resolve_permission_mode requested runner s =
     first_valid_mode
       [(case requested of Some r \<Rightarrow> r | None \<Rightarrow> [], True),
        (gr_permission_mode runner, False),
        (st_permission_mode s, False)]"

section \<open>The command line and the seed\<close>

definition shell_quote :: "rstr \<Rightarrow> rstr" where
  "shell_quote s =
     [CHR 0x27] @ replace_all [CHR 0x27] [CHR 0x27, CHR 0x5C, CHR 0x27, CHR 0x27] s @ [CHR 0x27]"

definition launch_command :: "goal_runner \<Rightarrow> rstr \<Rightarrow> rstr \<Rightarrow> rstr \<Rightarrow> rstr" where
  "launch_command runner session_id seed_file permission_mode =
     (let seed_arg = [CHR 0x22] @ ''$(cat '' @ shell_quote seed_file @ '')'' @ [CHR 0x22] in
      if gr_agent runner = ''custom'' \<and> gr_command_template runner \<noteq> [] then
        replace_all ''{seed}'' seed_arg
          (replace_all ''{seed_file}'' (shell_quote seed_file)
            (replace_all ''{effort}'' (gr_effort runner)
              (replace_all ''{model}'' (gr_model runner)
                (replace_all ''{sid}'' session_id (gr_command_template runner)))))
      else
        let allowed = filter (\<lambda>t. trim t \<noteq> []) (gr_allowed_tools runner) in
        join '' ''
          ([''claude''] @
           (if allowed \<noteq> [] then ''--allowedTools'' # map (\<lambda>t. shell_quote (trim t)) allowed else []) @
           [''--session-id'', session_id] @
           (if gr_model runner \<noteq> [] then [''--model'', shell_quote (gr_model runner)] else []) @
           (if gr_effort runner \<noteq> [] then [''--effort'', shell_quote (gr_effort runner)] else []) @
           (if permission_mode \<noteq> [] \<and> permission_mode \<noteq> ''supervised''
            then [''--permission-mode'', shell_quote permission_mode] else []) @
           map shell_quote (gr_extra_args runner) @ [seed_arg]))"

definition compose_seed :: "rstr \<Rightarrow> rstr \<Rightarrow> rstr \<Rightarrow> u32 \<Rightarrow> rstr \<Rightarrow> rstr option \<Rightarrow> rstr list \<Rightarrow> rstr" where
  "compose_seed template goal_name goal_text iteration dir_rel feedback_ref upstream_refs =
     (let feedback =
            (case feedback_ref of
               Some rel \<Rightarrow> nl @ ''A previous iteration exists: read `'' @ rel @
                 ''` (especially section 4, Feedback) and address it before anything else.'' @ nl
             | None \<Rightarrow> []);
          upstream =
            (if upstream_refs = [] then []
             else nl @ ''This goal depends on completed upstream work. Read these iteration '' @
               ''reports first (sections 3 and 4 carry the hand-off):'' @ nl @
               join nl (map (\<lambda>r. ''- `'' @ r @ ''`'') upstream_refs) @ nl)
      in replace_all ''{goal_text}'' goal_text
           (replace_all ''{upstream}'' upstream
             (replace_all ''{feedback}'' feedback
               (replace_all ''{output_path}'' (iteration_rel dir_rel iteration)
                 (replace_all ''{iteration}'' (show_nat (unat iteration))
                   (replace_all ''{goal_name}'' goal_name template))))))"

definition resolve_runner_by_name :: "rstr \<Rightarrow> goal_settings \<Rightarrow> rstr + (rstr \<times> goal_runner)" where
  "resolve_runner_by_name name s =
     (let n = (if name = [] then st_default_runner s else name) in
      if n = [] then Inr (''claude'', default_runner)
      else case map_of (st_runners s) n of
             Some r \<Rightarrow> Inr (n, r)
           | None \<Rightarrow> Inl (''unknown runner '' @ quoted n @ '' (configure it in settings goal.runners)''))"

definition state_detection_is_claude :: "goal_runner \<Rightarrow> bool" where
  "state_detection_is_claude r =
     (if gr_state_detection r = ''claude'' then True
      else if gr_state_detection r = ''none'' then False
      else gr_agent r \<noteq> ''custom'')"

section \<open>Names\<close>

definition slug_word :: "rstr \<Rightarrow> rstr" where
  "slug_word raw = map to_ascii_lower (filter is_ascii_alnum raw)"

definition trim_hyphens :: "rstr \<Rightarrow> rstr" where
  "trim_hyphens s = rev (dropWhile (\<lambda>c. c = CHR ''-'') (rev (dropWhile (\<lambda>c. c = CHR ''-'') s)))"

definition slugify_goal :: "rstr \<Rightarrow> rstr" where
  "slugify_goal text =
     (let words = take 6 (filter (\<lambda>w. w \<noteq> []) (map slug_word (split_whitespace text)));
          slug = join ''-'' words;
          slug = (if 48 < length slug then take 48 slug else slug);
          slug = trim_hyphens slug
      in if slug = [] then ''goal'' else slug)"

end
