(* ===== verification/Goal_Config_Facts.thy ===== *)
theory Goal_Config_Facts imports Goal_Config begin

text \<open>
  What keeps a goal run inside its repository and its permissions: output directories never escape,
  bypass is only ever what the invocation asked for, quoting survives the shell, and derived names
  are valid identifiers.
\<close>

section \<open>Output directories\<close>

lemma split_on_join:
  "xs \<noteq> [] \<Longrightarrow> \<forall>x \<in> set xs. d \<notin> set x \<Longrightarrow> split_on d acc (join [d] xs) = (rev acc @ hd xs) # tl xs"
proof (induction xs arbitrary: acc)
  case (Cons x xs)
  have one: "d \<notin> set x \<Longrightarrow> split_on d acc x = [rev acc @ x]" for x acc
    by (induction x arbitrary: acc) auto
  have sep: "d \<notin> set x \<Longrightarrow> split_on d acc (x @ d # r) = (rev acc @ x) # split_on d [] r" for x r acc
    by (induction x arbitrary: acc) auto
  show ?case
    using Cons one sep by (cases xs) auto
qed simp

lemma split_on_parts: "p \<in> set (split_on d acc s) \<Longrightarrow> d \<notin> set acc \<Longrightarrow> d \<notin> set p"
proof (induction s arbitrary: acc)
  case (Cons c s)
  show ?case
  proof (cases "c = d")
    case True
    with Cons.prems consider "p = rev acc" | "p \<in> set (split_on d [] s)" by auto
    then show ?thesis using Cons.IH [of "[]"] Cons.prems(2) by cases auto
  next
    case False
    with Cons show ?thesis by simp
  qed
qed simp

definition plain_part :: "rstr \<Rightarrow> bool" where
  "plain_part s \<longleftrightarrow> s \<noteq> [] \<and> s \<noteq> ''.'' \<and> s \<noteq> ''..'' \<and> CHR ''/'' \<notin> set s"

lemma components_normal: "Normal s \<in> set (components p) \<Longrightarrow> plain_part s"
proof -
  assume "Normal s \<in> set (components p)"
  then have "Normal s \<in> set (List.map_filter component_of (split_on (CHR ''/'') [] p))"
    by (auto simp: components_def Let_def split: if_splits)
  then obtain q where "q \<in> set (split_on (CHR ''/'') [] p)" "component_of q = Some (Normal s)"
    by (auto simp: List.map_filter_def)
  then show ?thesis
    using split_on_parts [of q "CHR ''/''" "[]" p] by (auto simp: plain_part_def split: if_splits)
qed

lemma normal_parts_set: "normal_parts cs = Some ps \<Longrightarrow> p \<in> set ps \<Longrightarrow> Normal p \<in> set cs"
  by (induction cs arbitrary: ps rule: normal_parts.induct) auto

lemma map_filter_plain: "\<forall>p \<in> set ps. plain_part p \<Longrightarrow> List.map_filter component_of ps = map Normal ps"
  by (induction ps) (auto simp: plain_part_def List.map_filter_simps)

lemma components_join:
  assumes "ps \<noteq> []" and "\<forall>p \<in> set ps. plain_part p"
  shows "components (join ''/'' ps) = map Normal ps"
proof -
  have "split_on (CHR ''/'') [] (join ''/'' ps) = ps"
    using split_on_join [OF assms(1), of "CHR ''/''" "[]"] assms by (auto simp: plain_part_def)
  moreover obtain p ps' where p: "ps = p # ps'" using assms(1) by (cases ps) auto
  then obtain r where "join ''/'' ps = p @ r" by (cases ps') auto
  then have "\<not> starts_with ''/'' (join ''/'' ps)"
    using assms(2) p by (cases p) (auto simp: starts_with_iff plain_part_def)
  moreover have "head_opt ps \<noteq> Some ''.''" using assms(2) p by (auto simp: plain_part_def)
  ultimately show ?thesis using map_filter_plain [OF assms(2)] by (simp add: components_def Let_def)
qed

text \<open>An accepted output directory is a relative path made of ordinary names only - no root, no
  \<open>.\<close> and no \<open>..\<close> - so everything written below it stays inside the repository; a directory that
  is empty, absolute or climbs out is refused, and the setting then falls back to the default, which
  is acceptable itself.\<close>

theorem output_dir_inside_repo:
  "(\<forall>r. validate_output_dir d = Inr r \<longrightarrow>
      (\<exists>ps. ps \<noteq> [] \<and> r = join ''/'' ps \<and> components r = map Normal ps)) \<and>
   (RootDir \<in> set (components (trim d)) \<or> ParentDir \<in> set (components (trim d)) \<longrightarrow>
      (\<exists>e. validate_output_dir d = Inl e)) \<and>
   (\<exists>ps. ps \<noteq> [] \<and> components (settings_output_dir (s\<lparr> st_output_dir := d \<rparr>)) = map Normal ps)"
proof -
  have ok: "\<exists>ps. ps \<noteq> [] \<and> r = join ''/'' ps \<and> components r = map Normal ps" if "validate_output_dir d = Inr r" for r
  proof -
    from that obtain ps where ps: "normal_parts (components (trim d)) = Some ps" "ps \<noteq> []" "r = join ''/'' ps"
      by (auto simp: validate_output_dir_def Let_def split: if_splits option.splits)
    then have "\<forall>p \<in> set ps. plain_part p" using normal_parts_set components_normal by blast
    with ps components_join show ?thesis by blast
  qed
  have "normal_parts cs = None" if "RootDir \<in> set cs \<or> ParentDir \<in> set cs" for cs
    using that by (induction cs rule: normal_parts.induct) auto
  then have bad: "\<exists>e. validate_output_dir d = Inl e"
    if "RootDir \<in> set (components (trim d)) \<or> ParentDir \<in> set (components (trim d))"
    using that by (simp add: validate_output_dir_def Let_def)
  have "components DEFAULT_GOAL_OUTPUT_DIR = map Normal [''docs'', ''roadmap'']" by code_simp
  then have dflt: "\<exists>ps. ps \<noteq> [] \<and> components DEFAULT_GOAL_OUTPUT_DIR = map Normal ps"
    by (intro exI [of _ "[''docs'', ''roadmap'']"]) simp
  have "\<exists>ps. ps \<noteq> [] \<and> components (settings_output_dir (s\<lparr> st_output_dir := d \<rparr>)) = map Normal ps"
    using ok dflt by (cases "validate_output_dir d") (fastforce simp: settings_output_dir_def)+
  with ok bad show ?thesis by blast
qed

lemma output_dir_inside_repo_witness: "\<exists>e. validate_output_dir ''../../etc'' = Inl e"
proof -
  have "ParentDir \<in> set (components (trim ''../../etc''))" by code_simp
  then show ?thesis using output_dir_inside_repo [of "''../../etc''" default_settings] by blast
qed

section \<open>Permission modes\<close>

lemma validate_mode_Inr:
  "validate_permission_mode v allow = Inr m \<longleftrightarrow>
   m = trim v \<and> m \<in> set PERMISSION_MODES \<and> (m = ''bypassPermissions'' \<longrightarrow> allow)"
  by (auto simp: validate_permission_mode_def Let_def)

lemma bypass_is_a_mode: "''bypassPermissions'' \<in> set PERMISSION_MODES" "''bypassPermissions'' \<noteq> []"
  by (simp_all add: PERMISSION_MODES_def)

lemma default_mode: "DEFAULT_GOAL_PERMISSION_MODE \<in> set PERMISSION_MODES"
  "DEFAULT_GOAL_PERMISSION_MODE \<noteq> ''bypassPermissions''"
  by (simp_all add: PERMISSION_MODES_def DEFAULT_GOAL_PERMISSION_MODE_def)

lemma first_valid_mode_in: "first_valid_mode vs \<in> set PERMISSION_MODES"
  by (induction vs rule: first_valid_mode.induct)
    (auto simp: default_mode validate_mode_Inr split: sum.splits)

lemma first_valid_no_bypass:
  "\<forall>(v, allow) \<in> set vs. \<not> allow \<Longrightarrow> first_valid_mode vs \<noteq> ''bypassPermissions''"
  by (induction vs rule: first_valid_mode.induct)
    (auto simp: default_mode validate_mode_Inr split: sum.splits)

text \<open>C29. Every launch runs under one of the known permission modes, and it bypasses permissions exactly
  when this invocation asked for it: no runner or settings value, however it is spelled, can.\<close>

theorem bypass_only_on_request:
  "resolve_permission_mode requested runner s \<in> set PERMISSION_MODES \<and>
   (resolve_permission_mode requested runner s = ''bypassPermissions'' \<longleftrightarrow>
      (\<exists>r. requested = Some r \<and> trim r = ''bypassPermissions''))"
proof -
  let ?rest = "[(gr_permission_mode runner, False), (st_permission_mode s, False)]"
  let ?r = "case requested of Some r \<Rightarrow> r | None \<Rightarrow> []"
  have rest: "first_valid_mode ?rest \<noteq> ''bypassPermissions''" by (rule first_valid_no_bypass) simp
  have t: "trim [] = []" by code_simp
  have "resolve_permission_mode requested runner s = ''bypassPermissions'' \<longleftrightarrow> trim ?r = ''bypassPermissions''"
  proof (cases "validate_permission_mode ?r True")
    case (Inl e)
    then have "trim ?r \<noteq> ''bypassPermissions''"
      using bypass_is_a_mode(1) by (auto simp: validate_permission_mode_def Let_def split: if_splits)
    with Inl rest show ?thesis by (simp add: resolve_permission_mode_def)
  next
    case (Inr m)
    then have "m = trim ?r" "trim ?r \<noteq> []" unfolding validate_mode_Inr by (auto simp: PERMISSION_MODES_def)
    with Inr show ?thesis by (simp add: resolve_permission_mode_def)
  qed
  moreover have "resolve_permission_mode requested runner s \<in> set PERMISSION_MODES"
    unfolding resolve_permission_mode_def by (rule first_valid_mode_in)
  moreover have "trim ?r = ''bypassPermissions'' \<longleftrightarrow> (\<exists>r. requested = Some r \<and> trim r = ''bypassPermissions'')"
    using t by (cases requested) auto
  ultimately show ?thesis by blast
qed

section \<open>Shell quoting\<close>

text \<open>
  How a POSIX shell reads a word made of single-quoted parts, backslash escapes and ordinary
  characters; \<open>None\<close> when a quote is left open or a character is special.
\<close>

definition special_chars :: "char list" where
  "special_chars = '' $`|&;<>()*?[]#~=%!{}'' @ [CHR 0x22, CHR 0x09, CHR 0x0A]"

fun sh_word :: "bool \<Rightarrow> rstr \<Rightarrow> rstr option" where
  "sh_word inside [] = (if inside then None else Some [])"
| "sh_word True (c # cs) = (if c = CHR 0x27 then sh_word False cs else map_option ((#) c) (sh_word True cs))"
| "sh_word False (c # cs) =
     (if c = CHR 0x27 then sh_word True cs
      else if c = CHR 0x5C then (case cs of [] \<Rightarrow> None | d # ds \<Rightarrow> map_option ((#) d) (sh_word False ds))
      else if c \<in> set special_chars then None
      else map_option ((#) c) (sh_word False cs))"

lemma replace_all_char:
  "replace_all [q] to (c # cs) = (if c = q then to @ replace_all [q] to cs else c # replace_all [q] to cs)"
  "replace_all [q] to [] = []"
  by (subst replace_all.simps, simp add: starts_with_def) (subst replace_all.simps, simp)

lemma sh_word_quoted:
  "sh_word True (replace_all [CHR 0x27] [CHR 0x27, CHR 0x5C, CHR 0x27, CHR 0x27] s @ [CHR 0x27]) = Some s"
  by (induction s) (auto simp: replace_all_char)

text \<open>C30. Whatever a path, model name or tool pattern contains, the shell reads its quoted form back as
  exactly that one word: quotes inside it cannot end the quoting.\<close>

theorem shell_quote_roundtrip: "sh_word False (shell_quote s) = Some s"
  by (simp add: shell_quote_def sh_word_quoted)

section \<open>Names\<close>

definition slug_char :: "char \<Rightarrow> bool" where
  "slug_char c \<longleftrightarrow> is_ascii_lower c \<or> is_ascii_digit c \<or> c = CHR ''-''"

lemma lower_alnum: "is_ascii_alnum c \<Longrightarrow> slug_char (to_ascii_lower c)"
  by (auto simp: is_ascii_alnum_def to_ascii_lower_def slug_char_def is_ascii_lower_def is_ascii_digit_def)

lemma join_chars: "c \<in> set (join sep xs) \<Longrightarrow> c \<in> set sep \<or> (\<exists>x \<in> set xs. c \<in> set x)"
  by (induction sep xs rule: join.induct) auto

lemma trim_hyphens_sub: "set (trim_hyphens s) \<subseteq> set s" "length (trim_hyphens s) \<le> length s"
proof -
  have "set (dropWhile P xs) \<subseteq> set xs" "length (dropWhile P xs) \<le> length xs" for P and xs :: rstr
    by (auto dest: set_dropWhileD simp: length_dropWhile_le)
  then show "set (trim_hyphens s) \<subseteq> set s" "length (trim_hyphens s) \<le> length s"
    unfolding trim_hyphens_def by (metis set_rev subset_trans, metis length_rev le_trans)
qed

lemma slug_valid: "s \<noteq> [] \<Longrightarrow> \<forall>c \<in> set s. slug_char c \<Longrightarrow> length s \<le> 48 \<Longrightarrow> valid_node_id s"
  by (auto simp: valid_node_id_def list_all_iff slug_char_def)

text \<open>A name derived from any goal text is a valid graph and node identifier of at most 48
  characters, so it is safe as a file name.\<close>

theorem slugify_valid: "valid_node_id (slugify_goal text) \<and> length (slugify_goal text) \<le> 48"
proof -
  let ?words = "take 6 (filter (\<lambda>w. w \<noteq> []) (map slug_word (split_whitespace text)))"
  let ?slug = "if 48 < length (join ''-'' ?words) then take 48 (join ''-'' ?words) else join ''-'' ?words"
  have "slug_char c" if "c \<in> set (join ''-'' ?words)" for c
  proof -
    from join_chars [OF that] consider "c = CHR ''-''" | w where "w \<in> set ?words" "c \<in> set w" by auto
    then show ?thesis
    proof cases
      case 1
      then show ?thesis by (simp add: slug_char_def)
    next
      case 2
      then have "w \<in> set (filter (\<lambda>w. w \<noteq> []) (map slug_word (split_whitespace text)))"
        by (blast dest: in_set_takeD)
      then obtain raw where "w = slug_word raw" by auto
      with 2 show ?thesis by (auto simp: slug_word_def lower_alnum)
    qed
  qed
  then have "slug_char c" if "c \<in> set ?slug" for c using that by (auto split: if_splits dest: in_set_takeD)
  then have c: "slug_char c" if "c \<in> set (trim_hyphens ?slug)" for c using that trim_hyphens_sub(1) by blast
  have len: "length (trim_hyphens ?slug) \<le> 48" using trim_hyphens_sub(2) [of ?slug] by (auto split: if_splits)
  show ?thesis
  proof (cases "trim_hyphens ?slug = []")
    case True
    then have "slugify_goal text = ''goal''" by (simp add: slugify_goal_def Let_def)
    then show ?thesis by (simp add: valid_node_id_def is_ascii_lower_def)
  next
    case False
    then have "slugify_goal text = trim_hyphens ?slug" unfolding slugify_goal_def Let_def by simp
    then show ?thesis using slug_valid [OF False _ len] c len by (metis (no_types, lifting))
  qed
qed

end
