(* ===== verification/Text_Lines.thy ===== *)
theory Text_Lines imports Rust_Str begin

text \<open>
  The text-scanning part of the standard library the sources use on terminal screens and files:
  characters of a UTF-8 string, \<open>lines()\<close>, \<open>match_indices()\<close>, and parsing of unsigned numbers.
  A character is the list of its bytes. Which characters beyond ASCII are letters or digits is the
  Unicode tables' business: \<open>is_alphanumeric()\<close> takes that set as its first argument.
\<close>

function chars :: "rstr \<Rightarrow> rstr list" where
  "chars [] = []"
| "chars (c # cs) = (c # takeWhile is_cont cs) # chars (dropWhile is_cont cs)"
  by pat_completeness auto
termination
  by (relation "measure length") (auto simp: le_imp_less_Suc length_dropWhile_le)

definition is_alphanumeric :: "rstr set \<Rightarrow> rstr \<Rightarrow> bool" where
  "is_alphanumeric letters c \<longleftrightarrow> (case c of [b] \<Rightarrow> is_ascii_alnum b | _ \<Rightarrow> c \<in> letters)"

definition is_whitespace :: "rstr \<Rightarrow> bool" where
  "is_whitespace c \<longleftrightarrow> c \<in> set white_space"

definition is_digit_char :: "rstr \<Rightarrow> bool" where
  "is_digit_char c \<longleftrightarrow> (case c of [b] \<Rightarrow> is_ascii_digit b | _ \<Rightarrow> False)"

definition ascii_lowercase :: "rstr \<Rightarrow> rstr" where
  "ascii_lowercase s = map to_ascii_lower s"

text \<open>\<open>lines()\<close>: a line ends at a line feed, with the carriage return before it.\<close>

definition strip_cr :: "rstr \<Rightarrow> rstr" where
  "strip_cr s = (if s \<noteq> [] \<and> last s = CHR 0x0D then butlast s else s)"

fun lines_from :: "rstr \<Rightarrow> rstr \<Rightarrow> rstr list" where
  "lines_from acc [] = (if acc = [] then [] else [rev acc])"
| "lines_from acc (c # cs) =
     (if c = CHR 0x0A then strip_cr (rev acc) # lines_from [] cs else lines_from (c # acc) cs)"

definition lines_of :: "rstr \<Rightarrow> rstr list" where
  "lines_of s = lines_from [] s"

text \<open>\<open>match_indices(pat)\<close>: for every match from the left, what is before it and what is after it.\<close>

function match_from :: "rstr \<Rightarrow> rstr \<Rightarrow> rstr \<Rightarrow> (rstr \<times> rstr) list" where
  "match_from pat before s =
     (if s = [] \<or> pat = [] then []
      else if starts_with pat s
      then (before, drop (length pat) s) # match_from pat (before @ pat) (drop (length pat) s)
      else match_from pat (before @ [hd s]) (tl s))"
  by pat_completeness auto
termination
  by (relation "measure (\<lambda>(_, _, s). length s)") (auto simp: starts_with_def)

declare match_from.simps [simp del]

definition match_indices :: "rstr \<Rightarrow> rstr \<Rightarrow> (rstr \<times> rstr) list" where
  "match_indices pat s = match_from pat [] s"

text \<open>\<open>parse::<u32>()\<close> and \<open>parse::<u64>()\<close>: an optional plus sign and digits whose value fits.\<close>

definition digits_val :: "rstr \<Rightarrow> nat" where
  "digits_val s = foldl (\<lambda>v c. 10 * v + (of_char c - 48)) 0 s"

definition parse_unsigned :: "nat \<Rightarrow> rstr \<Rightarrow> nat option" where
  "parse_unsigned bound s =
     (let d = (case s of c # cs \<Rightarrow> if c = CHR ''+'' then cs else s | [] \<Rightarrow> [])
      in if d \<noteq> [] \<and> list_all is_ascii_digit d \<and> digits_val d < bound then Some (digits_val d) else None)"

section \<open>Facts\<close>

lemma concat_chars: "concat (chars s) = s"
  by (induction s rule: chars.induct) simp_all

lemma chars_nonempty: "c \<in> set (chars s) \<Longrightarrow> c \<noteq> []"
  by (induction s rule: chars.induct) auto

lemma lines_from_append:
  "lines_from acc (s @ CHR 0x0A # t) = lines_from acc (s @ [CHR 0x0A]) @ lines_from [] t"
  by (induction s arbitrary: acc) auto

lemma lines_append_nl: "lines_of (s @ CHR 0x0A # t) = lines_of (s @ [CHR 0x0A]) @ lines_of t"
  unfolding lines_of_def by (rule lines_from_append)

lemma of_char_digit: "n < 10 \<Longrightarrow> of_char (char_of (48 + n) :: char) = (48 + n :: nat)"
  by (simp add: of_char_of take_bit_eq_mod)

lemma show_nat_digits: "list_all is_ascii_digit (show_nat n)"
proof (induction n rule: show_nat.induct)
  case (1 n)
  have "is_ascii_digit (char_of (48 + n mod 10))" "n < 10 \<Longrightarrow> is_ascii_digit (char_of (48 + n))"
    using of_char_digit [of "n mod 10"] of_char_digit [of n] by (simp_all add: is_ascii_digit_def)
  with 1 show ?case by (subst show_nat.simps) auto
qed

lemma digits_val_show: "digits_val (show_nat n) = n"
proof (induction n rule: show_nat.induct)
  case (1 n)
  then show ?case
    using of_char_digit [of "n mod 10"] of_char_digit [of n]
    by (subst show_nat.simps) (auto simp: digits_val_def)
qed

lemma parse_show: "n < b \<Longrightarrow> parse_unsigned b (show_nat n) = Some n"
proof -
  assume "n < b"
  have "show_nat n = c # cs \<Longrightarrow> c \<noteq> CHR ''+''" for c cs
    using show_nat_digits [of n] by (auto simp: is_ascii_digit_def)
  then have "(case show_nat n of c # cs \<Rightarrow> if c = CHR ''+'' then cs else show_nat n | [] \<Rightarrow> []) = show_nat n"
    by (auto split: list.splits)
  with \<open>n < b\<close> show ?thesis
    unfolding parse_unsigned_def Let_def by (simp add: show_nat_digits digits_val_show)
qed

end
