(* ===== verification/Claude_State.thy ===== *)
theory Claude_State imports Text_Lines begin

text \<open>
  The classifier of an agent pane's screen (\<open>jmux/src/model/claude_state.rs\<close>): menus, running turns,
  background work and trailing questions, from the visible text and the title. The scans are the
  source's loops over lines and characters; \<open>letters\<close> is the set of non-ASCII letters and digits.
\<close>

datatype ClaudeState = CWaiting | CWorking | CNeedsInput

section \<open>Glyphs\<close>

definition pointer_glyph :: rstr where "pointer_glyph = [CHR 0xE2, CHR 0x9D, CHR 0xAF]"
definition circle_glyph :: rstr where "circle_glyph = [CHR 0xE2, CHR 0x97, CHR 0xAF]"
definition down_arrow :: rstr where "down_arrow = [CHR 0xE2, CHR 0x86, CHR 0x93]"
definition up_down_arrows :: rstr where "up_down_arrows = [CHR 0xE2, CHR 0x86, CHR 0x91, CHR 0x2F, CHR 0xE2, CHR 0x86, CHR 0x93]"

definition quarter_circles :: "rstr list" where
  "quarter_circles = [[CHR 0xE2, CHR 0x97, CHR 0x90], [CHR 0xE2, CHR 0x97, CHR 0x93], [CHR 0xE2, CHR 0x97, CHR 0x91], [CHR 0xE2, CHR 0x97, CHR 0x92]]"

text \<open>U+2800 to U+28FF.\<close>

definition is_braille :: "rstr \<Rightarrow> bool" where
  "is_braille c \<longleftrightarrow>
     (case c of
        [a, b, d] \<Rightarrow> a = CHR 0xE2 \<and> 0xA0 \<le> (of_char b :: nat) \<and> (of_char b :: nat) \<le> 0xA3 \<and> is_cont d
      | _ \<Rightarrow> False)"

definition is_spinner_glyph :: "rstr \<Rightarrow> bool" where
  "is_spinner_glyph c \<longleftrightarrow> is_braille c \<or> c \<in> set quarter_circles"

definition CHROME_GLYPHS :: "rstr list" where
  "CHROME_GLYPHS =
     [[CHR 0xE2, CHR 0x9C, CHR 0xBB], [CHR 0xE2, CHR 0x9C, CHR 0xB6], [CHR 0xE2, CHR 0x9C, CHR 0xB3],
      [CHR 0xE2, CHR 0x9C, CHR 0xA2], [CHR 0xE2, CHR 0x9C, CHR 0xA3], [CHR 0xE2, CHR 0x80, CHR 0xBB],
      [CHR 0xE2, CHR 0x8F, CHR 0xB5], [CHR 0xE2, CHR 0x97, CHR 0xAF], [CHR 0xE2, CHR 0x97, CHR 0x8F],
      [CHR 0xE2, CHR 0x97, CHR 0xBB], [CHR 0xE2, CHR 0x97, CHR 0xBC], [CHR 0xE2, CHR 0x9C, CHR 0x94],
      [CHR 0xE2, CHR 0x8E, CHR 0xBF], [CHR 0xE2, CHR 0x94, CHR 0x82], [CHR 0xE2, CHR 0x9A, CHR 0x99]]"

definition CHROME_TEXT :: "rstr list" where
  "CHROME_TEXT =
     [''for shortcuts'', ''esc to interrupt'', ''esc to cancel'', ''thought process'', ''generating...'',
      ''auto mode on'', ''ctrl+t'', ''for agents'', ''tokens'', ''completed'']"

definition prompt_glyphs :: "rstr list" where
  "prompt_glyphs = [[CHR 0xE2, CHR 0x9D, CHR 0xAF], [CHR 0xE2, CHR 0x80, CHR 0xBA], [CHR 0xE2, CHR 0x96, CHR 0xB6]]"

definition rule_chars :: "rstr list" where
  "rule_chars =
     [[CHR 0xE2, CHR 0x94, CHR 0x80], [CHR 0xE2, CHR 0x80, CHR 0x94], ''-'', ''='', ''_'', '' '', [CHR 0xE2, CHR 0x94, CHR 0x82]]"

definition contains_any :: "rstr list \<Rightarrow> rstr \<Rightarrow> bool" where
  "contains_any needles s \<longleftrightarrow> list_ex (\<lambda>n. contains_str n s) needles"

section \<open>Titles and shells\<close>

definition strip_spinner :: "rstr \<Rightarrow> rstr" where
  "strip_spinner title =
     (let rest = concat (dropWhile is_spinner_glyph (chars title))
      in if length rest = length title then title else trim_start rest)"

definition is_word_char_byte :: "char \<Rightarrow> bool" where
  "is_word_char_byte b \<longleftrightarrow> is_ascii_alnum b \<or> b = CHR ''_''"

definition is_word_match :: "rstr \<Rightarrow> rstr \<Rightarrow> bool" where
  "is_word_match haystack word \<longleftrightarrow>
     list_ex (\<lambda>(before, after). (before = [] \<or> \<not> is_word_char_byte (last before)) \<and>
                               (after = [] \<or> \<not> is_word_char_byte (hd after)))
       (match_indices word haystack)"

definition is_agent_screen :: "rstr \<Rightarrow> bool" where
  "is_agent_screen text \<longleftrightarrow>
     (let lower = ascii_lowercase text in
      contains_any [''antigravity'', ''thought process'', ''generating...'', ''esc to cancel'',
        ''enter/esc to cancel'', ''activated bash mode'', ''? for shortcuts'', ''> you:'', ''claude code'',
        ''esc to interrupt''] lower \<or> is_word_match lower ''agy'')"

text \<open>\<open>user@host:\<close>, with at least one character on either side of the sign.\<close>

fun shell_prompt :: "rstr set \<Rightarrow> bool \<Rightarrow> nat \<Rightarrow> nat \<Rightarrow> rstr list \<Rightarrow> bool" where
  "shell_prompt letters seen_at before after [] = False"
| "shell_prompt letters seen_at before after (c # cs) =
     (if c = '':'' then seen_at \<and> 0 < after
      else if c = ''@'' then (if seen_at \<or> before = 0 then False else shell_prompt letters True before after cs)
      else if is_alphanumeric letters c \<or> c = ''_'' \<or> c = ''.'' \<or> c = ''-''
      then (if seen_at then shell_prompt letters seen_at before (Suc after) cs
            else shell_prompt letters seen_at (Suc before) after cs)
      else False)"

definition is_shell_title :: "rstr set \<Rightarrow> rstr \<Rightarrow> bool" where
  "is_shell_title letters title \<longleftrightarrow>
     (let t = trim title; lower = ascii_lowercase t in
      if contains_any [''claude'', ''codex'', ''antigravity'', ''gemini''] lower \<or> is_word_match lower ''agy''
      then False
      else if lower \<in> {''bash'', ''zsh'', ''fish'', ''sh'', ''-bash'', ''-zsh''} then True
      else shell_prompt letters False 0 0 (chars t))"

section \<open>Running turns\<close>

definition tail_lines :: "rstr \<Rightarrow> nat \<Rightarrow> rstr" where
  "tail_lines text n = (let ls = lines_of text in join [CHR 0x0A] (drop (length ls - n) ls))"

definition spinner_line :: "rstr \<Rightarrow> bool" where
  "spinner_line line \<longleftrightarrow>
     (let s = trim line; lower = ascii_lowercase s in
      list_ex is_spinner_glyph (chars s) \<and>
      contains_any [''thinking'', ''thought'', ''generating'', ''tool:'', ''to cancel'', ''signing in'',
        ''working'', ''running''] lower \<and>
      \<not> contains_str ''crunched for'' lower)"

definition has_live_spinner :: "rstr \<Rightarrow> bool" where
  "has_live_spinner live \<longleftrightarrow> list_ex spinner_line (lines_of live)"

text \<open>What may follow \<open>(\<close> and digits: \<open>m \<close>, digits and \<open>s\<close>, or \<open>s\<close> at a word boundary.\<close>

fun timer_rest :: "rstr set \<Rightarrow> rstr list \<Rightarrow> bool" where
  "timer_rest letters [] = False"
| "timer_rest letters (c # cs) =
     (if c = ''m'' then
        (case cs of
           d # ds \<Rightarrow> d = '' '' \<and> takeWhile is_digit_char ds \<noteq> [] \<and>
                     head_opt (dropWhile is_digit_char ds) = Some ''s''
         | [] \<Rightarrow> False)
      else if c = ''s'' then
        (case cs of [] \<Rightarrow> True | d # _ \<Rightarrow> \<not> is_alphanumeric letters d \<and> d \<noteq> ''_'')
      else False)"

function live_timer :: "rstr set \<Rightarrow> rstr list \<Rightarrow> bool" where
  "live_timer letters [] = False"
| "live_timer letters (c # cs) =
     (if c \<noteq> ''('' then live_timer letters cs
      else if takeWhile is_digit_char cs \<noteq> [] \<and> timer_rest letters (dropWhile is_digit_char cs) then True
      else live_timer letters (dropWhile is_digit_char cs))"
  by pat_completeness auto
termination
  by (relation "measure (\<lambda>(_, cs). length cs)") (auto simp: le_imp_less_Suc length_dropWhile_le)

definition has_live_timer :: "rstr set \<Rightarrow> rstr \<Rightarrow> bool" where
  "has_live_timer letters s \<longleftrightarrow> live_timer letters (chars s)"

definition is_active_turn :: "rstr set \<Rightarrow> rstr \<Rightarrow> rstr \<Rightarrow> bool" where
  "is_active_turn letters live raw_title \<longleftrightarrow>
     (if (case chars (trim_start raw_title) of c # _ \<Rightarrow> is_spinner_glyph c | [] \<Rightarrow> False) then True
      else if contains_any [''esc to interrupt'', ''esc to cancel'', ''enter/esc to cancel'', ''generating...'']
                (ascii_lowercase live) then True
      else if has_live_spinner live then True
      else has_live_timer letters live)"

section \<open>Background work\<close>

definition shell_count_at :: "rstr set \<Rightarrow> rstr \<Rightarrow> rstr \<Rightarrow> bool" where
  "shell_count_at letters before rest \<longleftrightarrow>
     (case strip_suffix '' '' before of
        None \<Rightarrow> False
      | Some b \<Rightarrow>
          (let back = rev (chars b); digits = length (takeWhile is_digit_char back) in
           if digits = 0 then False
           else if (case get_at digits back of Some c \<Rightarrow> is_alphanumeric letters c \<or> c = ''_'' | None \<Rightarrow> False)
           then False
           else let r = (case strip_prefix ''s'' rest of Some r \<Rightarrow> r | None \<Rightarrow> rest)
                in case chars r of [] \<Rightarrow> True | c # _ \<Rightarrow> \<not> is_alphanumeric letters c \<and> c \<noteq> ''_''))"

definition has_shell_count :: "rstr set \<Rightarrow> rstr \<Rightarrow> bool" where
  "has_shell_count letters lower \<longleftrightarrow> list_ex (\<lambda>(b, r). shell_count_at letters b r) (match_indices ''shell'' lower)"

definition waiting_for_background_agents :: "rstr \<Rightarrow> bool" where
  "waiting_for_background_agents lower \<longleftrightarrow>
     list_ex (\<lambda>(_, rest).
        let digits = length (takeWhile is_ascii_digit rest); tl = drop digits rest
        in 0 < digits \<and> (starts_with '' background agent'' tl \<or> starts_with '' background task'' tl))
       (match_indices ''waiting for '' lower)"

definition has_subagent_row :: "rstr \<Rightarrow> bool" where
  "has_subagent_row live \<longleftrightarrow>
     list_ex (\<lambda>(_, rest).
        let trimmed = trim_start rest
        in length trimmed < length rest \<and> trimmed \<noteq> [] \<and> \<not> starts_with [CHR 0x0A] trimmed)
       (match_indices circle_glyph live)"

definition is_background_running :: "rstr set \<Rightarrow> rstr \<Rightarrow> bool" where
  "is_background_running letters live \<longleftrightarrow>
     (let lower = ascii_lowercase live in
      if contains_any [''shell still running'', ''shells still running'', ''task still running'',
           ''tasks still running''] lower then True
      else if contains_str (down_arrow @ '' to manage'') live then True
      else if has_shell_count letters lower \<or> waiting_for_background_agents lower then True
      else has_subagent_row live)"

section \<open>Selection menus\<close>

definition parse_option :: "rstr \<Rightarrow> (bool \<times> nat) option" where
  "parse_option line =
     (let s = trim_start line;
          pointed = (starts_with pointer_glyph s \<or> starts_with ''>'' s);
          s = (if pointed
               then trim_start (drop (if starts_with pointer_glyph s then length pointer_glyph else 1) s)
               else s);
          ds = takeWhile is_ascii_digit s; rest = drop (length ds) s
      in if ds = [] then None
         else case rest of
           [] \<Rightarrow> None
         | c # after \<Rightarrow>
             if c \<noteq> CHR ''.'' \<and> c \<noteq> CHR '')'' then None
             else if ws_len white_space after = None \<or> trim after = [] then None
             else map_option (\<lambda>n. (pointed, n)) (parse_unsigned (2 ^ 32) ds))"

text \<open>The run of options numbered from \<open>expected\<close> on: its length, and whether one is pointed at.\<close>

fun option_run :: "nat \<Rightarrow> rstr list \<Rightarrow> nat \<times> bool" where
  "option_run expected [] = (0, False)"
| "option_run expected (l # ls) =
     (case parse_option l of
        Some (p, n) \<Rightarrow>
          if n = expected then (case option_run (Suc expected) ls of (k, q) \<Rightarrow> (Suc k, p \<or> q)) else (0, False)
      | None \<Rightarrow> (0, False))"

function pointer_menu :: "rstr list \<Rightarrow> bool" where
  "pointer_menu [] = False"
| "pointer_menu (l # ls) =
     (case option_run 1 (l # ls) of
        (k, pointed) \<Rightarrow>
          if 2 \<le> k \<and> pointed then True else pointer_menu (drop (max 1 k) (l # ls)))"
  by pat_completeness auto
termination
  by (relation "measure length") auto

definition has_pointer_menu :: "rstr \<Rightarrow> bool" where
  "has_pointer_menu text \<longleftrightarrow> pointer_menu (lines_of text)"

definition has_menu_footer :: "rstr \<Rightarrow> bool" where
  "has_menu_footer text \<longleftrightarrow>
     (let lower = ascii_lowercase (tail_lines text 8) in
      contains_any [''enter to select'', ''enter to submit'', ''enter to confirm'',
        up_down_arrows @ '' to navigate''] lower \<or>
      (contains_str up_down_arrows lower \<and> (contains_str ''navigate'' lower \<or> contains_str ''select'' lower)))"

definition has_selection_menu :: "rstr \<Rightarrow> bool" where
  "has_selection_menu text \<longleftrightarrow> has_pointer_menu text \<or> has_menu_footer text"

section \<open>Questions\<close>

definition response_line :: "rstr \<Rightarrow> rstr option" where
  "response_line raw =
     (let s = trim (replace_all [CHR 0xC2, CHR 0xA0] '' '' raw) in
      if s = [] \<or> s \<in> set prompt_glyphs then None
      else if list_all (\<lambda>c. c \<in> set rule_chars) (chars s) then None
      else if (case chars s of c # _ \<Rightarrow> c \<in> set CHROME_GLYPHS | [] \<Rightarrow> False) \<or>
              contains_any CHROME_TEXT (ascii_lowercase s) then None
      else Some s)"

text \<open>The ring buffer of the last four response lines.\<close>

fun recent_lines :: "rstr list \<Rightarrow> rstr option list \<times> nat \<Rightarrow> rstr option list \<times> nat" where
  "recent_lines [] (recent, idx) = (recent, idx)"
| "recent_lines (raw # ls) (recent, idx) =
     (case response_line raw of
        None \<Rightarrow> recent_lines ls (recent, idx)
      | Some s \<Rightarrow> recent_lines ls (recent[idx mod 4 := Some s], Suc idx))"

fun question_in :: "rstr list \<Rightarrow> bool" where
  "question_in [] = False"
| "question_in (c # cs) =
     (c = ''?'' \<and> (case cs of [] \<Rightarrow> True | n # _ \<Rightarrow> is_whitespace n) \<or> question_in cs)"

definition is_question :: "rstr \<Rightarrow> bool" where
  "is_question line \<longleftrightarrow> question_in (chars line)"

definition last_response_is_question :: "rstr \<Rightarrow> bool" where
  "last_response_is_question text \<longleftrightarrow>
     (case recent_lines (lines_of text) (replicate 4 None, 0) of
        (recent, _) \<Rightarrow> list_ex (\<lambda>r. case r of Some line \<Rightarrow> is_question line | None \<Rightarrow> False) recent)"

section \<open>The classifier\<close>

definition classify :: "rstr set \<Rightarrow> rstr \<Rightarrow> rstr \<Rightarrow> ClaudeState option" where
  "classify letters text raw_title =
     (if has_pointer_menu text \<or> has_menu_footer text then Some CNeedsInput
      else let live = tail_lines text 12 in
           if is_active_turn letters live raw_title then Some CWorking
           else if is_background_running letters live then Some CWaiting
           else if last_response_is_question text then Some CNeedsInput
           else None)"

end
