(* ===== verification/Claude_State_Props.thy ===== *)
theory Claude_State_Props imports Claude_State begin

text \<open>
  What the screen classifier recognises: the greedy scans of the source find exactly the menus,
  timers and questions their comments describe, and old scrollback does not count as activity.
\<close>

section \<open>Menus\<close>

text \<open>A menu: lines from \<open>i\<close> on numbered 1 to \<open>k\<close>, at least two, one of them pointed at.\<close>

definition numbered :: "rstr list \<Rightarrow> nat \<Rightarrow> nat \<Rightarrow> nat \<Rightarrow> bool" where
  "numbered ls i e k \<longleftrightarrow> i + k \<le> length ls \<and> (\<forall>m < k. \<exists>p. parse_option (ls ! (i + m)) = Some (p, e + m))"

definition pointed_at :: "rstr list \<Rightarrow> nat \<Rightarrow> nat \<Rightarrow> bool" where
  "pointed_at ls i k \<longleftrightarrow> (\<exists>m < k. \<exists>n. parse_option (ls ! (i + m)) = Some (True, n))"

definition menu_at :: "rstr list \<Rightarrow> nat \<Rightarrow> nat \<Rightarrow> bool" where
  "menu_at ls i k \<longleftrightarrow> 2 \<le> k \<and> numbered ls i 1 k \<and> pointed_at ls i k"

lemma numbered_Suc: "numbered (l # ls) 0 e (Suc k) \<longleftrightarrow> (\<exists>p. parse_option l = Some (p, e)) \<and> numbered ls 0 (Suc e) k"
  unfolding numbered_def by (auto simp: All_less_Suc2)

lemma pointed_Suc: "pointed_at (l # ls) 0 (Suc k) \<longleftrightarrow> (\<exists>n. parse_option l = Some (True, n)) \<or> pointed_at ls 0 k"
  unfolding pointed_at_def by (auto simp: Ex_less_Suc2)

lemma pointed_mono: "j \<le> k \<Longrightarrow> pointed_at ls i j \<Longrightarrow> pointed_at ls i k"
  unfolding pointed_at_def by (meson less_le_trans)

lemma option_run_spec:
  "option_run e ls = (k, q) \<Longrightarrow>
     numbered ls 0 e k \<and> (q \<longleftrightarrow> pointed_at ls 0 k) \<and> (\<forall>j. numbered ls 0 e j \<longrightarrow> j \<le> k)"
proof (induction ls arbitrary: e k q)
  case Nil
  then show ?case by (auto simp: numbered_def pointed_at_def)
next
  case (Cons l ls)
  show ?case
  proof (cases "\<exists>p. parse_option l = Some (p, e)")
    case True
    then obtain p where p: "parse_option l = Some (p, e)" by blast
    obtain k' q' where r: "option_run (Suc e) ls = (k', q')" by force
    have kq: "k = Suc k'" "q = (p \<or> q')" using Cons.prems p r by auto
    have "j \<le> k" if "numbered (l # ls) 0 e j" for j
      using that Cons.IH [OF r] by (cases j) (auto simp: numbered_Suc kq(1))
    moreover have "numbered (l # ls) 0 e k" "q \<longleftrightarrow> pointed_at (l # ls) 0 k"
      using Cons.IH [OF r] p unfolding kq numbered_Suc pointed_Suc by simp_all
    ultimately show ?thesis by blast
  next
    case False
    have "option_run e (l # ls) = (0, False)"
    proof (cases "parse_option l")
      case (Some pn)
      then show ?thesis using False by (cases pn) simp
    qed simp
    then have kq: "k = 0" "\<not> q" using Cons.prems by simp_all
    moreover have "j = 0" if "numbered (l # ls) 0 e j" for j
      using that False by (cases j) (simp_all add: numbered_Suc)
    ultimately show ?thesis by (simp add: numbered_def pointed_at_def)
  qed
qed

lemma numbered_drop: "numbered (drop d ls) i e k \<and> d \<le> length ls \<longleftrightarrow> numbered ls (d + i) e k \<and> d \<le> length ls"
  by (auto simp: numbered_def add.assoc)

lemma pointed_drop: "d \<le> length ls \<Longrightarrow> pointed_at (drop d ls) i k \<longleftrightarrow> pointed_at ls (d + i) k"
  by (auto simp: pointed_at_def add.assoc)

lemma menu_drop: "d \<le> length ls \<Longrightarrow> menu_at (drop d ls) i k \<longleftrightarrow> menu_at ls (d + i) k"
  using numbered_drop [of d ls i 1 k] by (auto simp: menu_at_def pointed_drop)

lemma option_run_head: "option_run e ls = (k, q) \<Longrightarrow> k \<le> length ls"
  using option_run_spec [of e ls k q] by (simp add: numbered_def)

text \<open>Inside a run numbered from one, no other run numbered from one starts.\<close>

lemma no_menu_inside:
  assumes run: "numbered ls 0 1 k" and i: "0 < i" "i < k"
  shows "\<not> menu_at ls i j"
proof
  assume m: "menu_at ls i j"
  then have "numbered ls i 1 j" "2 \<le> j" by (auto simp: menu_at_def)
  then obtain p where "parse_option (ls ! i) = Some (p, 1)" 
    unfolding numbered_def by (metis add.right_neutral less_le_trans pos2)
  moreover obtain p' where "parse_option (ls ! i) = Some (p', 1 + i)" using run i by (auto simp: numbered_def)
  ultimately show False using i by simp
qed

lemma pointer_menu_iff: "pointer_menu ls \<longleftrightarrow> (\<exists>i k. menu_at ls i k)"
proof (induction ls rule: pointer_menu.induct)
  case 1
  then show ?case by (auto simp: menu_at_def numbered_def)
next
  case (2 l ls)
  obtain k q where r: "option_run 1 (l # ls) = (k, q)" by force
  note spec = option_run_spec [OF r]
  show ?case
  proof (cases "2 \<le> k \<and> q")
    case True
    then have "menu_at (l # ls) 0 k" using spec by (auto simp: menu_at_def)
    then show ?thesis using True r by auto
  next
    case False
    let ?d = "max 1 k"
    have d: "?d \<le> length (l # ls)" using option_run_head [OF r] by auto
    have "i \<ge> ?d" if m: "menu_at (l # ls) i j" for i j
    proof (rule ccontr)
      assume "\<not> i \<ge> ?d"
      then consider "i = 0" | "0 < i" "i < k" by fastforce
      then show False
      proof cases
        case 1
        then have j: "2 \<le> j" "numbered (l # ls) 0 1 j" "pointed_at (l # ls) 0 j"
          using m by (auto simp: menu_at_def)
        then have jk: "j \<le> k" using spec by blast
        with jk have "2 \<le> k" "pointed_at (l # ls) 0 k" using j(1, 3) pointed_mono [OF jk] by auto
        then show False using False spec by blast
      next
        case 2
        then show False using no_menu_inside spec m by blast
      qed
    qed
    then have "(\<exists>i j. menu_at (l # ls) i j) \<longleftrightarrow> (\<exists>i j. menu_at (drop ?d (l # ls)) i j)"
      using menu_drop [OF d] by (metis le_Suc_ex)
    moreover have "pointer_menu (l # ls) \<longleftrightarrow> pointer_menu (drop ?d (l # ls))"
      using False r by auto
    ultimately show ?thesis using "2.IH" [OF r [symmetric] False] by simp
  qed
qed

text \<open>C22. A pointer menu is recognised exactly when somewhere on the screen two or more consecutive
  lines are options numbered 1, 2, 3, and so on, and at least one of them carries the pointer: the
  single greedy pass of the source misses no menu and invents none.\<close>

theorem pointer_menu_correct:
  "has_pointer_menu text \<longleftrightarrow>
     (\<exists>i k. 2 \<le> k \<and> i + k \<le> length (lines_of text) \<and>
       (\<forall>m < k. \<exists>p. parse_option (lines_of text ! (i + m)) = Some (p, 1 + m)) \<and>
       (\<exists>m < k. parse_option (lines_of text ! (i + m)) = Some (True, 1 + m)))"
  unfolding has_pointer_menu_def pointer_menu_iff menu_at_def numbered_def pointed_at_def
  by (intro iff_exI) fastforce

lemma pointer_menu_correct_witness: "\<not> has_pointer_menu ''1. yes''"
proof -
  have "length (lines_of ''1. yes'') = 1" by code_simp
  then show ?thesis using pointer_menu_correct [of "''1. yes''"] by auto
qed

section \<open>Timers\<close>

definition timer_at :: "rstr set \<Rightarrow> rstr list \<Rightarrow> bool" where
  "timer_at letters cs \<longleftrightarrow>
     (\<exists>ds rest. cs = ''('' # ds @ rest \<and> ds \<noteq> [] \<and> list_all is_digit_char ds \<and>
        ((\<exists>es tl. rest = ''m'' # '' '' # es @ ''s'' # tl \<and> es \<noteq> [] \<and> list_all is_digit_char es) \<or>
         (\<exists>tl. rest = ''s'' # tl \<and>
            (\<forall>d. head_opt tl = Some d \<longrightarrow> \<not> is_alphanumeric letters d \<and> d \<noteq> ''_''))))"

lemma not_digit [simp]: "\<not> is_digit_char ''m''" "\<not> is_digit_char ''s''" "\<not> is_digit_char ''(''" "\<not> is_digit_char '' ''"
  by (simp_all add: is_digit_char_def is_ascii_digit_def)

lemma digit_run_unique:
  "list_all is_digit_char ds \<Longrightarrow> \<not> is_digit_char c \<Longrightarrow>
   takeWhile is_digit_char (ds @ c # r) = ds \<and> dropWhile is_digit_char (ds @ c # r) = c # r"
  by (induction ds) auto

lemma digit_split: "xs = takeWhile P xs @ dropWhile P xs \<and> list_all P (takeWhile P xs)"
  by (auto simp: list_all_iff dest: set_takeWhileD)

lemma timer_rest_iff:
  "timer_rest letters rest \<longleftrightarrow>
     (\<exists>es tl. rest = ''m'' # '' '' # es @ ''s'' # tl \<and> es \<noteq> [] \<and> list_all is_digit_char es) \<or>
     (\<exists>tl. rest = ''s'' # tl \<and> (\<forall>d. head_opt tl = Some d \<longrightarrow> \<not> is_alphanumeric letters d \<and> d \<noteq> ''_''))"
proof (cases rest)
  case (Cons c cs)
  consider (m) "c = ''m''" | (s) "c = ''s''" | (other) "c \<noteq> ''m''" "c \<noteq> ''s''" by blast
  then show ?thesis
  proof cases
    case m
    have "takeWhile is_digit_char ds \<noteq> [] \<and> head_opt (dropWhile is_digit_char ds) = Some ''s'' \<longleftrightarrow>
        (\<exists>es tl. ds = es @ ''s'' # tl \<and> es \<noteq> [] \<and> list_all is_digit_char es)" for ds
    proof
      assume a: "takeWhile is_digit_char ds \<noteq> [] \<and> head_opt (dropWhile is_digit_char ds) = Some ''s''"
      then obtain tl where "dropWhile is_digit_char ds = ''s'' # tl"
        by (auto simp: head_opt_def split: list.splits)
      with a digit_split [of ds is_digit_char]
      show "\<exists>es tl. ds = es @ ''s'' # tl \<and> es \<noteq> [] \<and> list_all is_digit_char es" by metis
    qed (auto simp: digit_run_unique head_opt_def)
    then show ?thesis using Cons m by (auto split: list.splits)
  next
    case s
    then show ?thesis using Cons by (cases cs) (auto simp: head_opt_def)
  qed (use Cons in auto)
qed simp

lemma timer_at_Cons:
  "timer_at letters (c # cs) \<longleftrightarrow> c = ''('' \<and> takeWhile is_digit_char cs \<noteq> [] \<and> timer_rest letters (dropWhile is_digit_char cs)"
proof
  assume "timer_at letters (c # cs)"
  then obtain ds rest where h: "c = ''(''" "cs = ds @ rest" "ds \<noteq> []" "list_all is_digit_char ds" "timer_rest letters rest"
    unfolding timer_at_def timer_rest_iff [symmetric] by auto
  then obtain d r where "rest = d # r" "\<not> is_digit_char d"
    by (cases rest) (auto split: if_splits)
  with h digit_run_unique [of ds d r] show "c = ''('' \<and> takeWhile is_digit_char cs \<noteq> [] \<and> timer_rest letters (dropWhile is_digit_char cs)"
    by simp
next
  assume "c = ''('' \<and> takeWhile is_digit_char cs \<noteq> [] \<and> timer_rest letters (dropWhile is_digit_char cs)"
  then show "timer_at letters (c # cs)"
    unfolding timer_at_def timer_rest_iff [symmetric] using digit_split [of cs is_digit_char] by blast
qed

lemma timer_skip_digits:
  "(\<exists>k. timer_at letters (drop k (dropWhile is_digit_char cs))) \<longleftrightarrow> (\<exists>k. timer_at letters (drop k cs))"
proof (induction cs)
  case (Cons c cs)
  show ?case
  proof (cases "is_digit_char c")
    case True
    then have "\<not> timer_at letters (c # cs)" by (auto simp: timer_at_Cons)
    then have "(\<exists>k. timer_at letters (drop k (c # cs))) \<longleftrightarrow> (\<exists>k. timer_at letters (drop k cs))"
      by (metis drop0 drop_Suc_Cons not0_implies_Suc)
    then show ?thesis using Cons True by simp
  qed simp
qed simp

lemma timer_drop_Cons:
  "(\<exists>k. timer_at letters (drop k (c # cs))) \<longleftrightarrow> timer_at letters (c # cs) \<or> (\<exists>k. timer_at letters (drop k cs))"
  by (metis drop0 drop_Suc_Cons not0_implies_Suc)

lemma live_timer_iff: "live_timer letters cs \<longleftrightarrow> (\<exists>k. timer_at letters (drop k cs))"
proof (induction letters cs rule: live_timer.induct)
  case (1 letters)
  then show ?case by (simp add: timer_at_def)
next
  case (2 letters c cs)
  then show ?case
    unfolding timer_drop_Cons timer_at_Cons using timer_skip_digits [of letters cs] by auto
qed

text \<open>The running-turn timer is recognised exactly when the text contains an opening parenthesis
  followed by digits and either "m", a space, digits and "s", or "s" that ends a word: skipping over
  the digits already looked at loses no occurrence.\<close>

theorem live_timer_correct:
  "has_live_timer letters text \<longleftrightarrow>
     (\<exists>before ds rest. chars text = before @ ''('' # ds @ rest \<and> ds \<noteq> [] \<and> list_all is_digit_char ds \<and>
        ((\<exists>es tl. rest = ''m'' # '' '' # es @ ''s'' # tl \<and> es \<noteq> [] \<and> list_all is_digit_char es) \<or>
         (\<exists>tl. rest = ''s'' # tl \<and>
            (\<forall>d. head_opt tl = Some d \<longrightarrow> \<not> is_alphanumeric letters d \<and> d \<noteq> ''_''))))"
proof -
  have "(\<exists>k. timer_at letters (drop k cs)) \<longleftrightarrow> (\<exists>before r. cs = before @ r \<and> timer_at letters r)" for cs
    by (metis append_eq_conv_conj append_take_drop_id)
  moreover have "(\<exists>b r. cs = b @ r \<and> (\<exists>ds rest. r = ''('' # ds @ rest \<and> Q ds rest)) \<longleftrightarrow>
      (\<exists>b ds rest. cs = b @ ''('' # ds @ rest \<and> Q ds rest)" for cs :: "rstr list" and Q
    by blast
  ultimately show ?thesis unfolding has_live_timer_def live_timer_iff by (simp only: timer_at_def)
qed

lemma live_timer_correct_witness: "has_live_timer {} ''ab (12s)''"
proof -
  have c: "chars ''ab (12s)'' = [''a'', ''b'', '' ''] @ ''('' # [''1'', ''2''] @ [''s'', '')'']" by code_simp
  have d: "list_all is_digit_char [''1'', ''2'']" "\<not> is_alphanumeric {} '')''" by code_simp+
  show ?thesis
    unfolding live_timer_correct
    by (rule exI [of _ "[''a'', ''b'', '' '']"], rule exI [of _ "[''1'', ''2'']"], rule exI [of _ "[''s'', '')'']"])
      (use c d in simp)
qed

section \<open>Questions\<close>

text \<open>The ring buffer holds the last four kept lines, each at its index modulo four.\<close>

definition ring :: "rstr list \<Rightarrow> rstr option list \<Rightarrow> bool" where
  "ring kept recent \<longleftrightarrow> length recent = 4 \<and>
     (\<forall>j < length kept. length kept \<le> j + 4 \<longrightarrow> recent ! (j mod 4) = Some (kept ! j)) \<and>
     (\<forall>i < 4. length kept \<le> i \<longrightarrow> recent ! i = None)"

lemma ring_push:
  assumes "ring kept recent"
  shows "ring (kept @ [x]) (recent[length kept mod 4 := Some x])"
proof -
  let ?n = "length kept"
  have ne: "j mod 4 \<noteq> ?n mod 4" if "j < ?n" "?n < j + 4" for j
  proof
    assume "j mod 4 = ?n mod 4"
    then have "4 dvd ?n - j" using mod_eq_dvd_iff_nat [of j ?n 4] \<open>j < ?n\<close> by simp
    then show False using dvd_imp_le [of 4 "?n - j"] that by simp
  qed
  then have ne': "?n mod 4 \<noteq> j mod 4" if "j < ?n" "?n \<le> 3 + j" for j
    using that by fastforce
  show ?thesis
    using assms ne' unfolding ring_def by (auto simp: nth_append nth_list_update less_Suc_eq)
qed

lemma recent_lines_ring:
  "ring kept recent \<Longrightarrow> recent_lines ls (recent, length kept) = (r, n) \<Longrightarrow>
     ring (kept @ List.map_filter response_line ls) r"
proof (induction ls arbitrary: kept recent)
  case (Cons l ls)
  show ?case
  proof (cases "response_line l")
    case None
    then show ?thesis using Cons by (simp add: map_filter_simps)
  next
    case (Some s)
    have "ring ((kept @ [s]) @ List.map_filter response_line ls) r"
      using Cons.IH [OF ring_push [OF Cons.prems(1)]] Cons.prems(2) Some by simp
    then show ?thesis using Some by (simp add: map_filter_simps)
  qed
qed (simp add: map_filter_simps)

lemma ring_set:
  assumes "ring kept recent"
  shows "Some l \<in> set recent \<longleftrightarrow> l \<in> set (keep_last 4 kept)"
proof -
  let ?n = "length kept"
  have window: "l \<in> set (keep_last 4 kept) \<longleftrightarrow> (\<exists>j < ?n. ?n \<le> j + 4 \<and> kept ! j = l)"
  proof
    assume "l \<in> set (keep_last 4 kept)"
    then obtain i where "i < ?n - (?n - 4)" "kept ! (?n - 4 + i) = l"
      unfolding keep_last_def in_set_conv_nth by auto
    then show "\<exists>j < ?n. ?n \<le> j + 4 \<and> kept ! j = l" by (intro exI [of _ "?n - 4 + i"]) auto
  next
    assume "\<exists>j < ?n. ?n \<le> j + 4 \<and> kept ! j = l"
    then obtain j where "j < ?n" "?n \<le> j + 4" "kept ! j = l" by blast
    then show "l \<in> set (keep_last 4 kept)"
      unfolding keep_last_def in_set_conv_nth by (intro exI [of _ "j - (?n - 4)"]) auto
  qed
  show ?thesis
  proof
    assume "Some l \<in> set recent"
    then obtain i where i: "i < 4" "recent ! i = Some l"
      using assms unfolding in_set_conv_nth ring_def by auto
    then have "i < ?n" using assms unfolding ring_def by (metis not_less option.distinct(1))
    define j where "j = i + 4 * ((?n - 1 - i) div 4)"
    have "j \<le> ?n - 1" "?n \<le> j + 4"
      using div_times_less_eq_dividend [of "?n - 1 - i" 4] dividend_less_times_div [of 4 "?n - 1 - i"] \<open>i < ?n\<close>
      unfolding j_def by (simp_all add: mult.commute)
    moreover have "j mod 4 = i" using i(1) by (simp add: j_def)
    ultimately have "kept ! j = l" "j < ?n"
      using assms i(2) \<open>i < ?n\<close> unfolding ring_def by fastforce+
    with \<open>?n \<le> j + 4\<close> have "\<exists>j < ?n. ?n \<le> j + 4 \<and> kept ! j = l" by blast
    then show "l \<in> set (keep_last 4 kept)" by (simp only: window)
  next
    assume "l \<in> set (keep_last 4 kept)"
    then obtain j where "j < ?n" "?n \<le> j + 4" "kept ! j = l" using window by blast
    then have "recent ! (j mod 4) = Some l" "j mod 4 < length recent" using assms by (auto simp: ring_def)
    then show "Some l \<in> set recent" using nth_mem by fastforce
  qed
qed

text \<open>The last response counts as a question exactly when one of its last four lines, chrome and
  blank lines not counted, holds a question mark at its end or before white space; the four-slot ring
  buffer forgets none of them and keeps no older line.\<close>

theorem question_in_last_four:
  "last_response_is_question text \<longleftrightarrow>
     (\<exists>line \<in> set (keep_last 4 (List.map_filter response_line (lines_of text))). is_question line)"
proof -
  obtain r n where r: "recent_lines (lines_of text) (replicate 4 None, 0) = (r, n)" by force
  have "ring [] (replicate 4 None)" by (simp add: ring_def)
  then have "ring (List.map_filter response_line (lines_of text)) r"
    using recent_lines_ring [of "[]"] r by simp
  then show ?thesis
    unfolding last_response_is_question_def r prod.case
    by (auto simp: list_ex_iff ring_set [symmetric] split: option.splits)
qed

section \<open>Scrollback\<close>

lemma tail_scrollback:
  "n \<le> length (lines_of t) \<Longrightarrow> tail_lines (s @ CHR 0x0A # t) n = tail_lines t n"
  unfolding tail_lines_def Let_def by (subst (1 2) lines_append_nl) simp

lemma menu_in_suffix:
  assumes "has_pointer_menu t"
  shows "has_pointer_menu (s @ CHR 0x0A # t)"
proof -
  have "menu_at (xs @ ys) (length xs + i) k" if "menu_at ys i k" for xs ys i k
    using menu_drop [of "length xs" "xs @ ys" i k] that by simp
  then show ?thesis
    using assms unfolding has_pointer_menu_def pointer_menu_iff by (subst lines_append_nl) blast
qed

text \<open>Old output does not count as activity: unless a pointer menu is on the screen, whatever
  scrolled off above the last twelve lines changes nothing in whether the agent is classified as
  working or as waiting for background work.\<close>

theorem scrollback_is_not_activity:
  assumes "12 \<le> length (lines_of t)" and "\<not> has_pointer_menu (s @ CHR 0x0A # t)"
  shows "(classify letters (s @ CHR 0x0A # t) title = Some CWorking \<longleftrightarrow> classify letters t title = Some CWorking) \<and>
    (classify letters (s @ CHR 0x0A # t) title = Some CWaiting \<longleftrightarrow> classify letters t title = Some CWaiting)"
proof -
  have "\<not> has_pointer_menu t" using assms(2) menu_in_suffix by blast
  moreover have "has_menu_footer (s @ CHR 0x0A # t) = has_menu_footer t"
    using tail_scrollback [of 8 t s] assms(1) by (simp only: has_menu_footer_def)
  moreover have "classify letters x title =
      (if has_pointer_menu x \<or> has_menu_footer x then Some CNeedsInput
       else if is_active_turn letters (tail_lines t 12) title then Some CWorking
       else if is_background_running letters (tail_lines t 12) then Some CWaiting
       else if last_response_is_question x then Some CNeedsInput else None)"
    if "tail_lines x 12 = tail_lines t 12" for x
    by (simp only: classify_def Let_def that)
  ultimately show ?thesis using assms(2) tail_scrollback [OF assms(1)] by simp
qed

definition quiet_screen :: rstr where
  "quiet_screen = concat (replicate 12 [CHR ''x'', CHR 0x0A])"

lemma scrollback_is_not_activity_witness:
  "classify {} (''esc to interrupt'' @ CHR 0x0A # quiet_screen) [] \<noteq> Some CWorking"
proof -
  have h: "12 \<le> length (lines_of quiet_screen)"
    "\<not> has_pointer_menu (''esc to interrupt'' @ CHR 0x0A # quiet_screen)"
    "classify {} quiet_screen [] = None"
    by code_simp+
  show ?thesis using scrollback_is_not_activity [OF h(1, 2), of "{}" "[]"] h(3) by simp
qed

end
