(* ===== verification/Goal_World.thy ===== *)
theory Goal_World imports Goal_Config Tab_Manager Notifications Text_Lines begin

text \<open>
  The state goal runs and graphs share (\<open>SharedState\<close>: workspaces, runs, graphs, notifications) and
  the outside world they act on. Every action on the outside (a file written, a git command, text
  typed into a terminal, a notification) is appended to \<open>sh_log\<close>; every answer from the outside is a
  function of the environment that may depend on the actions so far, so nothing is assumed about it.
  Fresh identifiers are drawn from a counter. Each operation runs under its locks without
  interleaving; the clock stands still during it.
\<close>

section \<open>Runs\<close>

datatype GoalStatus = GsRunning | GsNeedsAttention rstr | GsDone | GsBlocked rstr

fun status_str :: "GoalStatus \<Rightarrow> rstr" where
  "status_str GsRunning = ''running''"
| "status_str (GsNeedsAttention _) = ''needs-attention''"
| "status_str GsDone = ''done''"
| "status_str (GsBlocked _) = ''blocked''"

fun status_detail :: "GoalStatus \<Rightarrow> rstr option" where
  "status_detail (GsNeedsAttention d) = Some d"
| "status_detail (GsBlocked d) = Some d"
| "status_detail _ = None"

fun is_terminal :: "GoalStatus \<Rightarrow> bool" where
  "is_terminal GsDone = True"
| "is_terminal (GsBlocked _) = True"
| "is_terminal _ = False"

fun needs_attention :: "GoalStatus \<Rightarrow> bool" where
  "needs_attention (GsNeedsAttention _) = True"
| "needs_attention _ = False"

record graph_link =
  gl_graph :: rstr
  gl_node :: rstr

record goal_run =
  rn_workspace_id :: uuid
  rn_panel_id :: uuid
  rn_session_id :: rstr
  rn_goal_name :: rstr
  rn_goal_path :: rstr
  rn_cwd :: rstr
  rn_output_dir_rel :: rstr
  rn_iteration :: u32
  rn_max_iterations :: u32
  rn_runner_name :: rstr
  rn_runner :: goal_runner
  rn_status :: GoalStatus
  rn_nudges_sent :: u32
  rn_idle_ticks :: u32
  rn_no_text_ticks :: u32
  rn_started_epoch :: u64
  rn_wall_clock_minutes :: u32
  rn_last_escalation_epoch :: u64
  rn_graph :: "graph_link option"

type_synonym goal_registry = "(uuid, goal_run) hashmap"
type_synonym graph_registry = "(rstr, graph_spec) hashmap"

definition output_rel :: "goal_run \<Rightarrow> u32 \<Rightarrow> rstr" where
  "output_rel run n = iteration_rel (rn_output_dir_rel run) n"

definition output_abs :: "goal_run \<Rightarrow> u32 \<Rightarrow> rstr" where
  "output_abs run n = path_join (rn_cwd run) (output_rel run n)"

section \<open>The shared state and the environment\<close>

datatype effect =
    SendInput uuid rstr
  | Desktop rstr rstr
  | Refresh
  | Spawn uuid
  | MakeDir rstr
  | WriteFile rstr rstr
  | RemoveDir rstr
  | ReadPlan rstr
  | Git rstr "rstr list"
  | SavePointers "(rstr, rstr) hashmap"
  | SaveGraph graph_spec
  | WriteJson rstr json

record shared =
  sh_tabs :: tab_manager
  sh_goals :: goal_registry
  sh_graphs :: graph_registry
  sh_notes :: notification_store
  sh_pointers :: "(rstr, rstr) hashmap"
  sh_loaded :: bool
  sh_next :: uuid
  sh_log :: "effect list"

type_synonym history = "effect list"

record env =
  en_epoch :: u64
  en_time :: f64
  en_home :: "rstr option"
  en_data_dir :: rstr
  en_letters :: "rstr set"
  en_guidance :: rstr
  en_decompose :: rstr
  en_settings :: goal_settings
  en_placement :: NewWorkspacePlacement
  en_file :: "history \<Rightarrow> rstr \<Rightarrow> rstr option"
  en_plan :: "history \<Rightarrow> rstr \<Rightarrow> proposal_error + proposal_node list"
  en_graph :: "history \<Rightarrow> rstr \<Rightarrow> graph_spec option"
  en_json :: "history \<Rightarrow> rstr \<Rightarrow> proposal_error + json"
  en_order :: "rstr list \<Rightarrow> rstr list"
  en_entries :: "history \<Rightarrow> rstr \<Rightarrow> rstr list"
  en_exists :: "history \<Rightarrow> rstr \<Rightarrow> bool"
  en_mtime :: "history \<Rightarrow> rstr \<Rightarrow> u64 option"
  en_io :: "history \<Rightarrow> effect \<Rightarrow> rstr option"
  en_git :: "history \<Rightarrow> rstr \<Rightarrow> rstr list \<Rightarrow> rstr + rstr"
  en_debug :: "rstr \<Rightarrow> rstr"
  en_spawned :: "uuid \<Rightarrow> bool"
  en_screen :: "uuid \<Rightarrow> rstr option"
  en_hibernated :: "uuid \<Rightarrow> bool"
  en_live_agent :: "uuid \<Rightarrow> bool"
  en_input_ok :: "uuid \<Rightarrow> bool"
  en_ui_open :: bool

definition act :: "effect \<Rightarrow> shared \<Rightarrow> shared" where
  "act e sh = sh\<lparr> sh_log := sh_log sh @ [e] \<rparr>"

text \<open>A file-system action that may fail with a message.\<close>

definition try_io :: "env \<Rightarrow> effect \<Rightarrow> shared \<Rightarrow> shared \<times> rstr option" where
  "try_io env e sh = (act e sh, en_io env (sh_log sh) e)"

text \<open>\<open>git(dir, args)\<close>: its error output or its output.\<close>

definition git :: "env \<Rightarrow> rstr \<Rightarrow> rstr list \<Rightarrow> shared \<Rightarrow> shared \<times> (rstr + rstr)" where
  "git env dir args sh = (act (Git dir args) sh, en_git env (sh_log sh) dir args)"

definition hm_modify :: "'k \<Rightarrow> ('v \<Rightarrow> 'v) \<Rightarrow> ('k, 'v) hashmap \<Rightarrow> ('k, 'v) hashmap" where
  "hm_modify k f m = map (\<lambda>(k', v). if k' = k then (k', f v) else (k', v)) m"

definition hm_insert :: "'k \<Rightarrow> 'v \<Rightarrow> ('k, 'v) hashmap \<Rightarrow> ('k, 'v) hashmap" where
  "hm_insert k v m = AList.update k v m"

definition goal_of :: "uuid \<Rightarrow> shared \<Rightarrow> goal_run option" where
  "goal_of i sh = map_of (sh_goals sh) i"

text \<open>\<open>add(title, body, ws, None, desktop)\<close> on the notification store.\<close>

definition post_note :: "env \<Rightarrow> rstr \<Rightarrow> rstr \<Rightarrow> uuid option \<Rightarrow> bool \<Rightarrow> shared \<Rightarrow> shared" where
  "post_note env title body w desktop sh =
     (case notify_add (sh_next sh) (en_time env) title body w None desktop (sh_notes sh) of
        (ns, _, message) \<Rightarrow>
          sh\<lparr> sh_notes := ns, sh_next := Suc (sh_next sh),
              sh_log := sh_log sh @ (case message of Some (t, b) \<Rightarrow> [Desktop t b] | None \<Rightarrow> []) \<rparr>)"

definition notify :: "env \<Rightarrow> uuid \<Rightarrow> rstr \<Rightarrow> rstr \<Rightarrow> bool \<Rightarrow> shared \<Rightarrow> shared" where
  "notify env i title body desktop sh = act Refresh (post_note env title body (Some i) desktop sh)"

definition set_run :: "uuid \<Rightarrow> (goal_run \<Rightarrow> goal_run) \<Rightarrow> shared \<Rightarrow> shared" where
  "set_run i f sh = sh\<lparr> sh_goals := hm_modify i f (sh_goals sh) \<rparr>"

definition register :: "goal_run \<Rightarrow> shared \<Rightarrow> shared" where
  "register run sh = sh\<lparr> sh_goals := hm_insert (rn_workspace_id run) run (sh_goals sh) \<rparr>"

section \<open>Facts\<close>

lemma map_of_hm_modify [simp]:
  "map_of (hm_modify k f m) k' = (if k' = k then map_option f (map_of m k) else map_of m k')"
  by (induction m) (auto simp: hm_modify_def)

lemma keys_hm_modify [simp]: "map fst (hm_modify k f m) = map fst m"
  by (induction m) (auto simp: hm_modify_def)

lemma map_of_hm_insert [simp]: "map_of (hm_insert k v m) = (map_of m)(k \<mapsto> v)"
  by (simp add: hm_insert_def update_conv')

lemma goal_of_set_run [simp]: "goal_of j (set_run i f sh) = (if j = i then map_option f (goal_of i sh) else goal_of j sh)"
  by (simp add: goal_of_def set_run_def)

lemma goal_of_act [simp]: "goal_of j (act e sh) = goal_of j sh"
  by (simp add: goal_of_def act_def)

lemma log_act [simp]: "sh_log (act e sh) = sh_log sh @ [e]"
  by (simp add: act_def)

lemma act_fields [simp]:
  "sh_tabs (act e sh) = sh_tabs sh" "sh_goals (act e sh) = sh_goals sh" "sh_graphs (act e sh) = sh_graphs sh"
  "sh_notes (act e sh) = sh_notes sh" "sh_next (act e sh) = sh_next sh" "sh_pointers (act e sh) = sh_pointers sh"
  "sh_loaded (act e sh) = sh_loaded sh"
  by (simp_all add: act_def)

lemma post_note_fields [simp]:
  "sh_tabs (post_note env t b w d sh) = sh_tabs sh" "sh_goals (post_note env t b w d sh) = sh_goals sh"
  "sh_graphs (post_note env t b w d sh) = sh_graphs sh" "sh_pointers (post_note env t b w d sh) = sh_pointers sh"
  "sh_next (post_note env t b w d sh) = Suc (sh_next sh)" "sh_loaded (post_note env t b w d sh) = sh_loaded sh"
  by (simp_all add: post_note_def notify_add_def add_with_retain_def Let_def)

lemma log_post_note:
  "sh_log (post_note env t b w d sh) =
     sh_log sh @ (if d then [Desktop (truncate_str t 1024) (truncate_str b 8192)] else [])"
  by (simp add: post_note_def notify_add_def add_with_retain_def Let_def)

lemma notify_fields [simp]:
  "sh_tabs (notify env i t b d sh) = sh_tabs sh" "sh_goals (notify env i t b d sh) = sh_goals sh"
  "sh_graphs (notify env i t b d sh) = sh_graphs sh" "sh_pointers (notify env i t b d sh) = sh_pointers sh"
  by (simp_all add: notify_def)

lemma goal_of_notify [simp]: "goal_of j (notify env i t b d sh) = goal_of j sh"
  by (simp add: goal_of_def)

lemma log_notify:
  "sh_log (notify env i t b d sh) =
     sh_log sh @ (if d then [Desktop (truncate_str t 1024) (truncate_str b 8192)] else []) @ [Refresh]"
  by (simp add: notify_def log_post_note)

lemma set_run_fields [simp]:
  "sh_tabs (set_run i f sh) = sh_tabs sh" "sh_log (set_run i f sh) = sh_log sh"
  "sh_graphs (set_run i f sh) = sh_graphs sh" "sh_notes (set_run i f sh) = sh_notes sh"
  "sh_next (set_run i f sh) = sh_next sh" "sh_pointers (set_run i f sh) = sh_pointers sh"
  by (simp_all add: set_run_def)

end
