(* ===== verification/Goal_Runs.thy ===== *)
theory Goal_Runs imports Goal_World Claude_State begin

text \<open>
  Goal runs (\<open>jmux/src/goal/mod.rs\<close>): launching, resolving a run by name, stopping, and the driver
  that every two seconds reads the iteration file, watches the screen, reminds an idle agent and
  escalates to the human. Log messages are left out. Counters are 32 bits wide and wrap.
\<close>

definition ESCALATION_MIN_SECS :: u64 where "ESCALATION_MIN_SECS = 60"

definition NUDGE_TEXT :: rstr where
  "NUDGE_TEXT = ''Continue working toward the goal. When it is complete (or you cannot proceed), '' @
     ''write the iteration file exactly as instructed, then run: jmux goal report''"

definition carriage_return :: rstr where "carriage_return = [CHR 0x0D]"

section \<open>Iteration files\<close>

text \<open>The status line of the front matter, up to the closing \<open>---\<close>.\<close>

fun front_matter_status :: "rstr list \<Rightarrow> rstr option" where
  "front_matter_status [] = None"
| "front_matter_status (l # ls) =
     (let t = trim l in
      if t = ''---'' then None
      else case strip_prefix ''status:'' t of
             Some v \<Rightarrow> Some (ascii_lowercase (trim v))
           | None \<Rightarrow> front_matter_status ls)"

definition iteration_outcome :: "rstr \<Rightarrow> rstr option" where
  "iteration_outcome text =
     (case lines_of text of
        [] \<Rightarrow> None
      | l # ls \<Rightarrow> if trim l = ''---'' then front_matter_status ls else None)"

definition parse_iteration_file :: "env \<Rightarrow> shared \<Rightarrow> rstr \<Rightarrow> rstr option option" where
  "parse_iteration_file env sh path = map_option iteration_outcome (en_file env (sh_log sh) path)"

definition iteration_number :: "rstr \<Rightarrow> u32 option" where
  "iteration_number name =
     Option.bind (Option.bind (strip_prefix ''iteration-'' name) (strip_suffix ''.md''))
       (\<lambda>s. map_option of_nat (parse_unsigned (2 ^ 32) s))"

definition next_iteration_number :: "env \<Rightarrow> shared \<Rightarrow> rstr \<Rightarrow> rstr \<Rightarrow> u32" where
  "next_iteration_number env sh cwd dir_rel =
     foldl max 0 (List.map_filter iteration_number (en_entries env (sh_log sh) (path_join cwd dir_rel))) + 1"

section \<open>Choosing a run\<close>

definition candidate_line :: "goal_run \<Rightarrow> rstr" where
  "candidate_line r = nl @ ''  - '' @ rn_goal_name r @ '' ('' @ status_str (rn_status r) @ '')''"

definition candidate_list :: "goal_run list \<Rightarrow> rstr" where
  "candidate_list runs = concat (sort (map candidate_line runs))"

definition last_segment :: "rstr \<Rightarrow> rstr" where
  "last_segment name = last (split_on (CHR ''/'') [] name)"

definition live_runs :: "(uuid \<times> goal_run) list \<Rightarrow> (uuid \<times> goal_run) list" where
  "live_runs rs = filter (\<lambda>(_, r). \<not> is_terminal (rn_status r)) rs"

definition named_hits :: "goal_registry \<Rightarrow> rstr \<Rightarrow> (uuid \<times> goal_run) list" where
  "named_hits goals t =
     (let hits = filter (\<lambda>(_, r). rn_goal_name r = t) goals;
          hits = (if hits = [] then filter (\<lambda>(_, r). last_segment (rn_goal_name r) = t) goals else hits)
      in if 1 < length hits then (let live = live_runs hits in if length live = 1 then live else hits) else hits)"

text \<open>\<open>parse_uuid\<close> is \<open>Uuid::parse_str\<close>.\<close>

definition resolve_run :: "(rstr \<Rightarrow> uuid option) \<Rightarrow> goal_registry \<Rightarrow> rstr option \<Rightarrow> uuid option \<Rightarrow> rstr + uuid" where
  "resolve_run parse_uuid goals target hint =
     (case opt_filter (\<lambda>s. s \<noteq> []) (map_option trim target) of
        Some t \<Rightarrow>
          (case parse_uuid t of
             Some i \<Rightarrow> if has_key i goals then Inr i else Inl (''no goal run for workspace '' @ uuid_str i)
           | None \<Rightarrow>
               (case named_hits goals t of
                  [] \<Rightarrow> Inl (''no goal run named '' @ quoted t @ candidate_list (map snd goals))
                | [(i, _)] \<Rightarrow> Inr i
                | hits \<Rightarrow> Inl (quoted t @ '' matches several runs '' @ em_dash @ '' name one exactly:'' @
                                candidate_list (map snd hits))))
      | None \<Rightarrow>
          (case opt_filter (\<lambda>h. has_key h goals) hint of
             Some h \<Rightarrow> Inr h
           | None \<Rightarrow>
               (case live_runs goals of
                  [] \<Rightarrow> Inl ''no active goal runs (jmux goal status lists everything)''
                | [(i, _)] \<Rightarrow> Inr i
                | live \<Rightarrow> Inl (''several goal runs are active '' @ em_dash @ '' name one:'' @
                                candidate_list (map snd live)))))"

definition stop_run :: "uuid \<Rightarrow> shared \<Rightarrow> shared \<times> (rstr + goal_run)" where
  "stop_run i sh =
     (case goal_of i sh of
        None \<Rightarrow> (sh, Inl ''no goal registered for that workspace'')
      | Some run \<Rightarrow>
          (let run' = run\<lparr> rn_status := GsBlocked ''stopped by user'' \<rparr>
           in (set_run i (\<lambda>_. run') sh, Inr run')))"

section \<open>Escalation\<close>

definition saturating_sub :: "u64 \<Rightarrow> u64 \<Rightarrow> u64" where
  "saturating_sub a b = (if b \<le> a then a - b else 0)"

definition escalate :: "env \<Rightarrow> uuid \<Rightarrow> GoalStatus \<Rightarrow> rstr \<Rightarrow> shared \<Rightarrow> shared" where
  "escalate env i status message sh =
     (let now = en_epoch env in
      case goal_of i sh of
        None \<Rightarrow> sh
      | Some run \<Rightarrow>
          (let rate_ok = (ESCALATION_MIN_SECS \<le> saturating_sub now (rn_last_escalation_epoch run));
               entering_terminal = (is_terminal status \<and> \<not> is_terminal (rn_status run)) in
           if rn_status run \<noteq> status \<or> rate_ok
           then let should_notify = (rate_ok \<or> entering_terminal);
                    sh1 = set_run i (\<lambda>r. let r' = r\<lparr> rn_status := status \<rparr> in
                              if should_notify then r'\<lparr> rn_last_escalation_epoch := now \<rparr> else r') sh
                in if should_notify then notify env i ''Goal needs you'' message True sh1 else sh1
           else sh))"

definition started_iteration_cap :: "goal_run \<Rightarrow> u32" where
  "started_iteration_cap run = max (rn_max_iterations run) 1"

section \<open>Iterations\<close>

definition send_ui_input :: "env \<Rightarrow> uuid \<Rightarrow> rstr \<Rightarrow> shared \<Rightarrow> shared \<times> bool" where
  "send_ui_input env p text sh = (if en_ui_open env then (act (SendInput p text) sh, True) else (sh, False))"

definition iteration_prompt :: "goal_run \<Rightarrow> rstr \<Rightarrow> rstr" where
  "iteration_prompt run reason =
     (let next = rn_iteration run + 1 in
      reason @ '' Begin iteration '' @ show_nat (unat next) @ '': re-read `'' @ output_rel run (rn_iteration run) @
      ''` (especially section 4), address the feedback with reasonable assumptions, continue '' @
      ''working the goal, and when finished write `'' @ output_rel run next @
      ''` in the same four-section format with front-matter status done or blocked. Then '' @
      ''run: jmux goal complete'')"

definition advance_iteration :: "env \<Rightarrow> uuid \<Rightarrow> rstr \<Rightarrow> shared \<Rightarrow> shared \<times> (rstr + u32)" where
  "advance_iteration env i reason sh =
     (case goal_of i sh of
        None \<Rightarrow> (sh, Inl ''no goal registered for that workspace'')
      | Some run \<Rightarrow>
          if Option.bind (parse_iteration_file env sh (output_abs run (rn_iteration run))) id = None
          then (sh, Inl (''iteration '' @ show_nat (unat (rn_iteration run)) @ '' has no finished iteration file yet''))
          else if state_detection_is_claude (rn_runner run) \<and> \<not> en_live_agent env (rn_panel_id run)
          then (sh, Inl (''the agent process is not running in that pane '' @ em_dash @ '' resume it first''))
          else
            (let next = rn_iteration run + 1;
                 (sh1, sent) = send_ui_input env (rn_panel_id run) (iteration_prompt run reason @ carriage_return) sh
             in if \<not> sent then (sh1, Inl ''no UI event channel'')
                else (set_run i (\<lambda>r. r\<lparr> rn_iteration := next, rn_idle_ticks := 0, rn_nudges_sent := 0,
                                        rn_no_text_ticks := 0, rn_status := GsRunning \<rparr>) sh1, Inr next)))"

definition on_iteration_file :: "env \<Rightarrow> goal_run \<Rightarrow> rstr \<Rightarrow> shared \<Rightarrow> shared" where
  "on_iteration_file env run status sh =
     (let i = rn_workspace_id run; name = quoted (rn_goal_name run); it = rn_iteration run in
      if status = ''done'' then
        notify env i ''Goal finished''
          (name @ '' is done '' @ em_dash @ '' read '' @ output_rel run it) True
          (set_run i (\<lambda>r. r\<lparr> rn_status := GsDone \<rparr>) sh)
      else if status = ''blocked'' \<and> it < started_iteration_cap run then
        (case advance_iteration env i
                (''Iteration '' @ show_nat (unat it) @ '' reported status: blocked.'') sh of
           (sh1, Inr next) \<Rightarrow>
             notify env i ''Goal working''
               (name @ '' could not finish yet '' @ em_dash @ '' starting iteration '' @ show_nat (unat next) @
                '' of '' @ show_nat (unat (started_iteration_cap run))) False sh1
         | (sh1, Inl _) \<Rightarrow> sh1)
      else if status = ''blocked'' then
        escalate env i (GsBlocked ''the agent could not finish'')
          (name @ '' stopped '' @ em_dash @ '' the agent could not finish; its reasons are in section 4 of '' @
           output_rel run it) sh
      else
        escalate env i (GsNeedsAttention (''unrecognised status '' @ quoted status))
          (name @ '' wrote an unrecognised status '' @ quoted status @ '' in '' @ output_rel run it @
           '' '' @ em_dash @ '' expected done or blocked'') sh)"

section \<open>The driver\<close>

definition set_running :: "goal_run \<Rightarrow> goal_run" where
  "set_running r = (if needs_attention (rn_status r) then r\<lparr> rn_status := GsRunning \<rparr> else r)"

definition out_of_time :: "env \<Rightarrow> goal_run \<Rightarrow> bool" where
  "out_of_time env run \<longleftrightarrow>
     0 < rn_wall_clock_minutes run \<and>
     ucast (rn_wall_clock_minutes run) * 60 < saturating_sub (en_epoch env) (rn_started_epoch run)"

text \<open>No terminal to read: count the ticks and complain once, after thirty.\<close>

definition drive_unreadable :: "env \<Rightarrow> goal_run \<Rightarrow> uuid \<Rightarrow> shared \<Rightarrow> shared" where
  "drive_unreadable env run i sh =
     (let ticks = rn_no_text_ticks run + 1;
          sh1 = set_run i (\<lambda>r. r\<lparr> rn_no_text_ticks := ticks \<rparr>) sh
      in if ticks = 30
         then let detail = (if en_live_agent env (rn_panel_id run) then ''running but its terminal cannot be read''
                            else ''failed to start'')
              in escalate env i (GsNeedsAttention detail)
                   (quoted (rn_goal_name run) @ '' '' @ detail @ '' '' @ em_dash @
                    '' jmux could not start or read its terminal, '' @
                    ''which should not happen; open its workspace and check the '' @
                    ''jmux log for the spawn error'') sh1
         else sh1)"

definition panel_title :: "uuid \<Rightarrow> uuid \<Rightarrow> shared \<Rightarrow> rstr" where
  "panel_title i p sh =
     (case Option.bind (tm_workspace i (sh_tabs sh)) (\<lambda>ws. Option.bind (map_of (ws_panels ws) p) p_title) of
        Some t \<Rightarrow> t
      | None \<Rightarrow> [])"

text \<open>An idle agent: debounce, then check it is alive, then remind it or escalate.\<close>

definition drive_idle :: "env \<Rightarrow> goal_settings \<Rightarrow> goal_run \<Rightarrow> uuid \<Rightarrow> shared \<Rightarrow> shared" where
  "drive_idle env settings run i sh =
     (let idle = rn_idle_ticks run + 1 in
      if idle < st_idle_ticks_before_nudge settings then set_run i (\<lambda>r. r\<lparr> rn_idle_ticks := idle \<rparr>) sh
      else if \<not> en_live_agent env (rn_panel_id run) then
        escalate env i (GsBlocked ''the agent exited'')
          (''the agent for '' @ quoted (rn_goal_name run) @ '' exited before writing its iteration report ('' @
           output_rel run (rn_iteration run) @ '')'') sh
      else if st_nudge_budget settings \<le> rn_nudges_sent run then
        escalate env i (GsNeedsAttention (''stalled after '' @ show_nat (unat (rn_nudges_sent run)) @ '' reminders''))
          (''the agent for '' @ quoted (rn_goal_name run) @ '' stalled '' @ show_nat (unat (rn_nudges_sent run)) @
           '' times '' @ em_dash @ '' it may be stuck; open its workspace'') sh
      else if en_input_ok env (rn_panel_id run) then
        set_run i (\<lambda>r. r\<lparr> rn_nudges_sent := rn_nudges_sent r + 1, rn_idle_ticks := 0 \<rparr>)
          (act (SendInput (rn_panel_id run) (NUDGE_TEXT @ carriage_return)) sh)
      else sh)"

definition drive_screen :: "env \<Rightarrow> goal_settings \<Rightarrow> goal_run \<Rightarrow> uuid \<Rightarrow> rstr \<Rightarrow> shared \<Rightarrow> shared" where
  "drive_screen env settings run i text sh =
     (let sh1 = (if rn_no_text_ticks run \<noteq> 0
                 then set_run i (\<lambda>r. set_running (r\<lparr> rn_no_text_ticks := 0 \<rparr>)) sh else sh);
          title = panel_title i (rn_panel_id run) sh1 in
      if has_selection_menu text then
        escalate env i (GsNeedsAttention ''waiting on a prompt'')
          (''the agent for '' @ quoted (rn_goal_name run) @
           '' is waiting for you to answer a prompt '' @ em_dash @ '' open its workspace'') sh1
      else case classify (en_letters env) text title of
             Some CWorking \<Rightarrow> set_run i (\<lambda>r. set_running (r\<lparr> rn_idle_ticks := 0 \<rparr>)) sh1
           | Some CWaiting \<Rightarrow> set_run i (\<lambda>r. set_running (r\<lparr> rn_idle_ticks := 0 \<rparr>)) sh1
           | Some CNeedsInput \<Rightarrow> drive_idle env settings run i sh1
           | None \<Rightarrow> drive_idle env settings run i sh1)"

definition drop_run :: "uuid \<Rightarrow> shared \<Rightarrow> shared" where
  "drop_run i sh = sh\<lparr> sh_goals := AList.delete i (sh_goals sh) \<rparr>"

definition drive_one :: "env \<Rightarrow> goal_settings \<Rightarrow> uuid \<Rightarrow> shared \<Rightarrow> shared" where
  "drive_one env settings i sh =
     (case goal_of i sh of
        None \<Rightarrow> sh
      | Some run \<Rightarrow>
          if tm_workspace i (sh_tabs sh) = None then drop_run i sh
          else case parse_iteration_file env sh (output_abs run (rn_iteration run)) of
            Some (Some status) \<Rightarrow> on_iteration_file env run status sh
          | Some None \<Rightarrow>
              escalate env i (GsNeedsAttention ''iteration report has no status line'')
                (''the agent for '' @ quoted (rn_goal_name run) @ '' wrote '' @ output_rel run (rn_iteration run) @
                 '' without the `status: done|blocked` line jmux waits for '' @ em_dash @ '' open its workspace'') sh
          | None \<Rightarrow>
              if en_hibernated env (rn_panel_id run) then sh
              else if out_of_time env run then
                escalate env i (GsBlocked ''ran out of time'')
                  (quoted (rn_goal_name run) @ '' ran for '' @ show_nat (unat (rn_wall_clock_minutes run)) @
                   '' minutes without finishing '' @ em_dash @
                   '' jmux stopped driving it; open its workspace to take over'') sh
              else if \<not> state_detection_is_claude (rn_runner run) then sh
              else case en_screen env (rn_panel_id run) of
                     None \<Rightarrow> drive_unreadable env run i sh
                   | Some text \<Rightarrow> drive_screen env settings run i text sh)"

definition ensure_agent_spawned :: "env \<Rightarrow> uuid \<Rightarrow> shared \<Rightarrow> shared" where
  "ensure_agent_spawned env i sh =
     (case map_option rn_panel_id (goal_of i sh) of
        None \<Rightarrow> sh
      | Some p \<Rightarrow> if en_hibernated env p \<or> en_spawned env p then sh else act (Spawn p) sh)"

text \<open>Terminal runs whose workspace is gone are forgotten.\<close>

definition purge_runs :: "shared \<Rightarrow> shared" where
  "purge_runs sh =
     (let live = map ws_id (tm_workspaces (sh_tabs sh)) in
      sh\<lparr> sh_goals := filter (\<lambda>(i, run). \<not> is_terminal (rn_status run) \<or> i \<in> set live) (sh_goals sh) \<rparr>)"

definition drive_runs :: "env \<Rightarrow> shared \<Rightarrow> shared" where
  "drive_runs env sh0 =
     (let sh = purge_runs sh0; ids = map fst (live_runs (sh_goals sh)) in
      if ids = [] then sh
      else fold (\<lambda>i s. drive_one env (en_settings env) i (ensure_agent_spawned env i s)) ids sh)"

section \<open>Launching\<close>

record launch_spec =
  la_goal_name :: rstr
  la_goal_path :: rstr
  la_goal_text :: rstr
  la_cwd :: rstr
  la_output_dir_rel :: rstr
  la_upstream_refs :: "rstr list"
  la_runner_name :: rstr
  la_runner :: goal_runner
  la_max_iterations :: u32
  la_permission_mode :: rstr
  la_wall_clock_minutes :: u32
  la_title :: "rstr option"
  la_graph :: "graph_link option"
  la_group_id :: "uuid option"
  la_select :: bool

definition seed_dir :: "env \<Rightarrow> uuid \<Rightarrow> rstr" where
  "seed_dir env i = path_join (path_join (en_data_dir env) ''goal-seeds'') (uuid_str i)"

definition draw_uuid :: "shared \<Rightarrow> shared \<times> uuid" where
  "draw_uuid sh = (sh\<lparr> sh_next := Suc (sh_next sh) \<rparr>, sh_next sh)"

definition launch_workspace :: "env \<Rightarrow> launch_spec \<Rightarrow> uuid \<Rightarrow> uuid \<Rightarrow> rstr \<Rightarrow> rstr \<Rightarrow> workspace" where
  "launch_workspace env spec wid pid session command =
     (let ws = (with_directory (en_home env) wid pid (la_cwd spec))\<lparr> ws_custom_title :=
                  Some (case la_title spec of Some t \<Rightarrow> t | None \<Rightarrow> ''goal: '' @ la_goal_name spec) \<rparr>;
          is_claude = (gr_agent (la_runner spec) \<noteq> ''custom'');
          ws = ws\<lparr> ws_panels := modify_panel pid (\<lambda>p. let p = p\<lparr> p_command := Some command \<rparr> in
                     if is_claude then p\<lparr> p_agent_session_id := Some session \<rparr> else p) (ws_panels ws),
                   ws_subagent_monitor := is_claude \<rparr>
      in case la_group_id spec of Some g \<Rightarrow> ws\<lparr> ws_group_id := Some g \<rparr> | None \<Rightarrow> ws)"

definition place_workspace :: "env \<Rightarrow> bool \<Rightarrow> workspace \<Rightarrow> shared \<Rightarrow> shared" where
  "place_workspace env select ws sh =
     sh\<lparr> sh_tabs := fst (if select then add_workspace_with_placement ws (en_placement env) (sh_tabs sh)
                         else add_workspace_keep_selection ws (en_placement env) (sh_tabs sh)) \<rparr>"

definition launched_run :: "env \<Rightarrow> launch_spec \<Rightarrow> uuid \<Rightarrow> uuid \<Rightarrow> rstr \<Rightarrow> u32 \<Rightarrow> goal_run" where
  "launched_run env spec wid pid session iteration =
     \<lparr> rn_workspace_id = wid, rn_panel_id = pid, rn_session_id = session, rn_goal_name = la_goal_name spec,
       rn_goal_path = la_goal_path spec, rn_cwd = la_cwd spec, rn_output_dir_rel = la_output_dir_rel spec,
       rn_iteration = iteration, rn_max_iterations = la_max_iterations spec,
       rn_runner_name = la_runner_name spec, rn_runner = la_runner spec, rn_status = GsRunning,
       rn_nudges_sent = 0, rn_idle_ticks = 0, rn_no_text_ticks = 0, rn_started_epoch = en_epoch env,
       rn_wall_clock_minutes = la_wall_clock_minutes spec, rn_last_escalation_epoch = 0,
       rn_graph = la_graph spec \<rparr>"

definition launch_goal :: "env \<Rightarrow> launch_spec \<Rightarrow> shared \<Rightarrow> shared \<times> (rstr + goal_run)" where
  "launch_goal env spec sh0 =
     (let out_dir = path_join (la_cwd spec) (la_output_dir_rel spec) in
      case try_io env (MakeDir out_dir) sh0 of
        (sh, Some e) \<Rightarrow> (sh, Inl (''cannot create '' @ en_debug env out_dir @ '': '' @ e))
      | (sh, None) \<Rightarrow>
         (let iteration = next_iteration_number env sh (la_cwd spec) (la_output_dir_rel spec);
              feedback_rel = (if 1 < iteration then Some (iteration_rel (la_output_dir_rel spec) (iteration - 1)) else None);
              feedback_ref = opt_filter (\<lambda>rel. en_exists env (sh_log sh) (path_join (la_cwd spec) rel)) feedback_rel;
              (sh, session_id) = draw_uuid sh; session = uuid_str session_id;
              seed = compose_seed (en_guidance env) (la_goal_name spec) (la_goal_text spec) iteration
                       (la_output_dir_rel spec) feedback_ref (la_upstream_refs spec);
              (sh, wid) = draw_uuid sh; (sh, pid) = draw_uuid sh;
              sd = seed_dir env wid
          in case try_io env (MakeDir sd) sh of
               (sh, Some e) \<Rightarrow> (sh, Inl (''cannot create seed dir: '' @ e))
             | (sh, None) \<Rightarrow>
                (let seed_file = path_join sd (''iteration-'' @ show_nat (unat iteration) @ ''.md'') in
                 case try_io env (WriteFile seed_file seed) sh of
                   (sh, Some e) \<Rightarrow> (sh, Inl (''cannot write seed file: '' @ e))
                 | (sh, None) \<Rightarrow>
                    (let command = launch_command (la_runner spec) session seed_file (la_permission_mode spec);
                         ws = launch_workspace env spec wid pid session command;
                         run = launched_run env spec wid pid session iteration
                     in (register run (act Refresh (place_workspace env (la_select spec) ws sh)), Inr run)))))"

end
