(* ===== verification/Graph_Scheduler.thy ===== *)
theory Graph_Scheduler imports Goal_Runs begin

text \<open>
  Goal graphs (\<open>jmux/src/goal/graph.rs\<close>): creating, approving, revising, pausing, resuming and
  stopping a graph, the edits of the panel, and the scheduler that launches nodes, follows their runs
  and merges their work. An operation under the registry lock is a function from the shared state and
  the graph to both; \<open>git\<close>, files and clock are the environment. Log messages are left out. A panic of
  the plan parser, which cannot happen, would count as an unusable plan.
\<close>

definition PROPOSAL_WARN_TICKS :: u32 where "PROPOSAL_WARN_TICKS = 450"

section \<open>Plumbing\<close>

definition graph_of :: "rstr \<Rightarrow> shared \<Rightarrow> graph_spec option" where
  "graph_of name sh = map_of (sh_graphs sh) name"

definition put_graph :: "rstr \<Rightarrow> graph_spec \<Rightarrow> shared \<Rightarrow> shared" where
  "put_graph name spec sh = sh\<lparr> sh_graphs := hm_insert name spec (sh_graphs sh) \<rparr>"

definition save_graph :: "graph_spec \<Rightarrow> shared \<Rightarrow> shared" where
  "save_graph spec sh = act (SaveGraph spec) sh"

text \<open>What \<open>graph.json\<close> holds: everything but the wait counter.\<close>

definition persisted :: "graph_spec \<Rightarrow> graph_spec" where
  "persisted spec = spec\<lparr> gs_proposal_wait_ticks := 0 \<rparr>"

definition notify_graph_name :: "env \<Rightarrow> uuid option \<Rightarrow> rstr \<Rightarrow> rstr \<Rightarrow> shared \<Rightarrow> shared" where
  "notify_graph_name env w title body sh = act Refresh (post_note env title body w True sh)"

definition notify_graph :: "env \<Rightarrow> graph_spec \<Rightarrow> rstr \<Rightarrow> rstr \<Rightarrow> shared \<Rightarrow> shared" where
  "notify_graph env spec title body sh = notify_graph_name env (gs_orchestrator_workspace spec) title body sh"

definition read_plan :: "env \<Rightarrow> graph_spec \<Rightarrow> shared \<Rightarrow> shared \<times> (proposal_error + graph_node list)" where
  "read_plan env spec sh =
     (act (ReadPlan (proposal_json spec)) sh,
      case parse_proposal (en_order env) (en_plan env (sh_log sh) (proposal_json spec)) of
        Some r \<Rightarrow> r
      | None \<Rightarrow> Inl DependencyCycle)"

section \<open>Restart\<close>

definition restart_node :: "graph_node \<Rightarrow> graph_node" where
  "restart_node n =
     (if gn_status n = NRunning \<or> gn_status n = NReview
      then n\<lparr> gn_status := NInterrupted, gn_detail := Some ''interrupted by a restart'', gn_workspace := None \<rparr>
      else n)"

definition restart_graph :: "graph_spec \<Rightarrow> graph_spec" where
  "restart_graph spec =
     (let interrupted = list_ex (\<lambda>n. gn_status n = NRunning \<or> gn_status n = NReview) (gs_nodes spec)
      in spec\<lparr> gs_nodes := map restart_node (gs_nodes spec),
               gs_status := (if gs_status spec = GRunning \<and> interrupted then GPaused else gs_status spec),
               gs_orchestrator_workspace := None \<rparr>)"

definition load_graph :: "env \<Rightarrow> rstr \<times> rstr \<Rightarrow> shared \<Rightarrow> shared" where
  "load_graph env entry sh =
     (case entry of (name, dir) \<Rightarrow>
        case en_graph env (sh_log sh) (path_join dir ''graph.json'') of
          None \<Rightarrow> sh
        | Some spec \<Rightarrow>
            if gs_name spec \<noteq> name then sh
            else let spec' = restart_graph (persisted spec) in put_graph name spec' (save_graph spec' sh))"

definition ensure_loaded :: "env \<Rightarrow> shared \<Rightarrow> shared" where
  "ensure_loaded env sh =
     (if sh_loaded sh then sh else fold (load_graph env) (sh_pointers sh) (sh\<lparr> sh_loaded := True \<rparr>))"

section \<open>Merging a finished node\<close>

text \<open>What follows the last occurrence of a separator.\<close>

fun after_last :: "rstr \<Rightarrow> rstr \<Rightarrow> rstr option" where
  "after_last sep [] = None"
| "after_last sep (c # cs) =
     (case after_last sep cs of
        Some r \<Rightarrow> Some r
      | None \<Rightarrow> if starts_with sep (c # cs) then Some (drop (length sep) (c # cs)) else None)"

definition trim_quotes :: "rstr \<Rightarrow> rstr" where
  "trim_quotes s = rev (dropWhile (\<lambda>c. c = CHR 0x22) (rev (dropWhile (\<lambda>c. c = CHR 0x22) s)))"

definition clean_line :: "rstr \<Rightarrow> rstr \<Rightarrow> bool" where
  "clean_line own_dir line \<longleftrightarrow>
     (let p = trim (if 3 \<le> length line \<and> is_char_boundary line 3 then drop 3 line else []);
          p = (case after_last '' -> '' p of Some r \<Rightarrow> r | None \<Rightarrow> p);
          p = trim_quotes p
      in p = [] \<or> starts_with own_dir p \<or> p @ ''/'' = own_dir)"

definition base_is_clean :: "rstr \<Rightarrow> rstr \<Rightarrow> bool" where
  "base_is_clean porcelain own_dir \<longleftrightarrow> list_all (clean_line own_dir) (lines_of porcelain)"

datatype merge_result = Merged | Conflict rstr | BaseDirty

definition merge_worktree :: "env \<Rightarrow> graph_spec \<Rightarrow> graph_node \<Rightarrow> rstr \<Rightarrow> rstr \<Rightarrow> shared \<Rightarrow> shared \<times> merge_result" where
  "merge_worktree env spec node worktree branch sh =
     (let tag = ''graph('' @ gs_name spec @ ''): '';
          own_dir = spec_output_dir spec @ ''/'' @ gs_name spec @ ''/'';
          (sh, _) = git env worktree [''add'', ''-A''] sh;
          (sh, _) = git env worktree [''commit'', ''-m'',
             tag @ ''node '' @ gn_id node @ '' iteration '' @ show_nat (unat (gn_iteration node))] sh
      in case git env (gs_base_cwd spec) [''status'', ''--porcelain'', ''--untracked-files=all''] sh of
           (sh, Inl _) \<Rightarrow> (sh, BaseDirty)
         | (sh, Inr out) \<Rightarrow>
             if \<not> base_is_clean out own_dir then (sh, BaseDirty)
             else case git env (gs_base_cwd spec) [''merge'', ''--no-ff'', ''-m'', tag @ ''merge '' @ gn_id node, branch] sh of
                    (sh, Inr _) \<Rightarrow> (sh, Merged)
                  | (sh, Inl e) \<Rightarrow> (fst (git env (gs_base_cwd spec) [''merge'', ''--abort''] sh), Conflict e))"

definition with_run_iteration :: "shared \<Rightarrow> graph_node \<Rightarrow> graph_node" where
  "with_run_iteration sh node =
     (case Option.bind (gn_workspace node) (\<lambda>w. goal_of w sh) of
        Some run \<Rightarrow> node\<lparr> gn_iteration := max (rn_iteration run) (gn_iteration node) \<rparr>
      | None \<Rightarrow> node)"

definition merge_waiting_text :: rstr where
  "merge_waiting_text =
     ''your checkout has uncommitted changes '' @ em_dash @ '' commit or stash them, ''"

definition finish_node :: "env \<Rightarrow> rstr \<Rightarrow> shared \<times> graph_spec \<Rightarrow> shared \<times> graph_spec" where
  "finish_node env i st =
     (case st of (sh, spec) \<Rightarrow>
        case gs_node i spec of
          None \<Rightarrow> (sh, spec)
        | Some node0 \<Rightarrow>
            if gn_status node0 = NDone then (sh, spec)
            else
             (let name = gs_name spec; who = quoted name @ '' node '' @ quoted i;
                  node = with_run_iteration sh node0;
                  (sh, result) =
                    (case (gn_worktree node, gn_branch node) of
                       (Some wt, Some br) \<Rightarrow> merge_worktree env spec node wt br sh
                     | _ \<Rightarrow> (sh, Merged))
              in case result of
                   Merged \<Rightarrow>
                     (notify_graph_name env (gn_workspace node) ''Node finished'' (who @ '' is done'') sh,
                      edit_node i (\<lambda>_. node\<lparr> gn_status := NDone, gn_detail := None \<rparr>) spec)
                 | Conflict e \<Rightarrow>
                     (notify_graph_name env (gn_workspace node) ''Node needs you''
                        (who @ '' is finished, but its branch '' @ the (gn_branch node) @
                         '' conflicts with your checkout '' @ em_dash @ '' resolve it yourself, then: jmux graph resume '' @ name) sh,
                      edit_node i (\<lambda>_. node\<lparr> gn_status := NBlocked, gn_detail := Some (''merge conflict: '' @ e) \<rparr>) spec)
                 | BaseDirty \<Rightarrow>
                     (notify_graph_name env (gn_workspace node) ''Node waiting on you''
                        (who @ '' is finished but cannot merge: '' @ merge_waiting_text @ ''then: jmux graph resume '' @ name) sh,
                      edit_node i (\<lambda>_. node\<lparr> gn_status := NBlocked,
                        gn_detail := Some (''merge waiting: '' @ merge_waiting_text @ ''then: jmux graph resume '' @ name) \<rparr>) spec)))"

section \<open>Launching a node\<close>

definition trim_slashes :: "rstr \<Rightarrow> rstr" where
  "trim_slashes s = rev (dropWhile (\<lambda>c. c = CHR ''/'') (rev s))"

text \<open>\<open>Path::parent()\<close> of a path whose last component is an ordinary name.\<close>

definition parent_dir :: "rstr \<Rightarrow> rstr" where
  "parent_dir p =
     (let up = rev (dropWhile (\<lambda>c. c \<noteq> CHR ''/'') (rev (trim_slashes p)))
      in if up = [] then [] else if trim_slashes up = [] then ''/'' else trim_slashes up)"

definition worktree_dir :: "graph_spec \<Rightarrow> rstr \<Rightarrow> rstr" where
  "worktree_dir spec i = trim_slashes (gs_base_cwd spec) @ ''-worktrees/'' @ i"

definition node_branch :: "graph_spec \<Rightarrow> rstr \<Rightarrow> rstr" where
  "node_branch spec i = ''graph/'' @ gs_name spec @ ''/'' @ i"

definition add_worktree :: "env \<Rightarrow> graph_spec \<Rightarrow> rstr \<Rightarrow> shared \<Rightarrow> shared \<times> rstr option" where
  "add_worktree env spec i sh =
     (let wt = worktree_dir spec i;
          sh = (if en_exists env (sh_log sh) wt
                then act (RemoveDir wt) (fst (git env (gs_base_cwd spec) [''worktree'', ''remove'', ''--force'', wt] sh))
                else sh)
      in case try_io env (MakeDir (parent_dir wt)) sh of
           (sh, Some e) \<Rightarrow> (sh, Some (''cannot create worktrees dir: '' @ e))
         | (sh, None) \<Rightarrow>
             (case git env (gs_base_cwd spec) [''worktree'', ''add'', ''-B'', node_branch spec i, wt, ''HEAD''] sh of
                (sh, Inl e) \<Rightarrow> (sh, Some (''git worktree add failed: '' @ e))
              | (sh, Inr _) \<Rightarrow> (sh, None)))"

definition upstream_refs :: "graph_spec \<Rightarrow> graph_node \<Rightarrow> rstr list" where
  "upstream_refs spec node =
     List.map_filter (\<lambda>d. Option.bind (gs_node d spec) (\<lambda>dep.
        if 0 < gn_iteration dep then Some (iteration_rel (node_output_dir spec d) (gn_iteration dep)) else None))
       (gn_deps node)"

definition node_launch_spec :: "env \<Rightarrow> graph_spec \<Rightarrow> graph_node \<Rightarrow> rstr \<Rightarrow> rstr \<Rightarrow> rstr \<Rightarrow> goal_runner \<Rightarrow> launch_spec" where
  "node_launch_spec env spec node i cwd runner_display runner =
     \<lparr> la_goal_name = gs_name spec @ ''/'' @ i, la_goal_path = ''graph:'' @ gs_name spec @ '':'' @ i,
       la_goal_text = gn_goal node, la_cwd = cwd, la_output_dir_rel = node_output_dir spec i,
       la_upstream_refs = upstream_refs spec node, la_runner_name = runner_display, la_runner = runner,
       la_max_iterations = gs_max_iterations spec,
       la_permission_mode = resolve_permission_mode (Some (gs_permission_mode spec)) runner (en_settings env),
       la_wall_clock_minutes = st_wall_clock_minutes (en_settings env), la_title = Some i,
       la_graph = Some \<lparr> gl_graph = gs_name spec, gl_node = i \<rparr>, la_group_id = gs_group_id spec, la_select = False \<rparr>"

definition node_runner_name :: "graph_spec \<Rightarrow> graph_node \<Rightarrow> rstr" where
  "node_runner_name spec node = (case or_else (gn_runner node) (gs_runner spec) of Some r \<Rightarrow> r | None \<Rightarrow> [])"

definition launch_node :: "env \<Rightarrow> rstr \<Rightarrow> shared \<times> graph_spec \<Rightarrow> (shared \<times> graph_spec) \<times> rstr option" where
  "launch_node env i st =
     (case st of (sh, spec) \<Rightarrow>
        case gs_node i spec of
          None \<Rightarrow> ((sh, spec), Some (''unknown node '' @ quoted i))
        | Some node \<Rightarrow>
            case (if gs_use_worktrees spec then add_worktree env spec i sh else (sh, None)) of
              (sh, Some e) \<Rightarrow> ((sh, spec), Some e)
            | (sh, None) \<Rightarrow>
                (let cwd = (if gs_use_worktrees spec then worktree_dir spec i else gs_base_cwd spec);
                     branch = (if gs_use_worktrees spec then Some (node_branch spec i) else None);
                     worktree = (if gs_use_worktrees spec then Some (worktree_dir spec i) else None) in
                 case resolve_runner_by_name (node_runner_name spec node) (en_settings env) of
                   Inl e \<Rightarrow> ((sh, spec), Some e)
                 | Inr (runner_display, runner) \<Rightarrow>
                     (case launch_goal env (node_launch_spec env spec node i cwd runner_display runner) sh of
                        (sh, Inl e) \<Rightarrow> ((sh, spec), Some e)
                      | (sh, Inr run) \<Rightarrow>
                          ((sh, edit_node i (\<lambda>n. n\<lparr> gn_status := NRunning, gn_workspace := Some (rn_workspace_id run),
                               gn_branch := branch, gn_worktree := worktree, gn_detail := None \<rparr>) spec), None))))"

section \<open>Following the runs\<close>

definition sync_node :: "env \<Rightarrow> rstr \<Rightarrow> bool \<Rightarrow> graph_node \<Rightarrow> shared \<Rightarrow> shared \<times> graph_node \<times> bool" where
  "sync_node env name review node sh =
     (let who = quoted name @ '' node '' @ quoted (gn_id node) in
      if gn_status node \<noteq> NRunning then (sh, node, False)
      else case gn_workspace node of
        None \<Rightarrow> (sh, node\<lparr> gn_status := NInterrupted, gn_detail := Some ''no workspace to watch'' \<rparr>, False)
      | Some w \<Rightarrow>
          (case goal_of w sh of
             None \<Rightarrow> (sh, node\<lparr> gn_status := NInterrupted,
                               gn_detail := Some ''its workspace was closed, or jmux restarted'' \<rparr>, False)
           | Some run \<Rightarrow>
               (let node = node\<lparr> gn_iteration := rn_iteration run \<rparr> in
                case rn_status run of
                  GsDone \<Rightarrow>
                    if review
                    then (notify_graph_name env (Some w) ''Node waiting for your review''
                            (who @ '' finished iteration '' @ show_nat (unat (rn_iteration run)) @ '' '' @ em_dash @
                             '' accept it or ask for another: jmux goal accept|continue '' @ name @ ''/'' @ gn_id node) sh,
                          node\<lparr> gn_status := NReview \<rparr>, False)
                    else (sh, node, True)
                | GsBlocked d \<Rightarrow>
                    (notify_graph_name env (Some w) ''Node needs you'' (who @ '' stopped: '' @ d) sh,
                     node\<lparr> gn_status := NBlocked, gn_detail := Some d \<rparr>, False)
                | _ \<Rightarrow> (sh, node, False))))"

fun sync_nodes :: "env \<Rightarrow> rstr \<Rightarrow> bool \<Rightarrow> graph_node list \<Rightarrow> shared \<Rightarrow> shared \<times> graph_node list \<times> rstr list" where
  "sync_nodes env name review [] sh = (sh, [], [])"
| "sync_nodes env name review (n # ns) sh =
     (let (sh, n', fin) = sync_node env name review n sh;
          (sh, ns', ids) = sync_nodes env name review ns sh
      in (sh, n' # ns', if fin then gn_id n # ids else ids))"

definition sync_node_states :: "env \<Rightarrow> shared \<times> graph_spec \<Rightarrow> shared \<times> graph_spec" where
  "sync_node_states env st =
     (case st of (sh, spec) \<Rightarrow>
        let (sh, nodes, to_finish) = sync_nodes env (gs_name spec) (gs_review_iterations spec) (gs_nodes spec) sh
        in fold (finish_node env) to_finish (sh, spec\<lparr> gs_nodes := nodes \<rparr>))"

section \<open>Scheduling\<close>

definition active_node :: "graph_node \<Rightarrow> bool" where
  "active_node n \<longleftrightarrow> gn_status n = NRunning \<or> gn_status n = NReview"

definition done_ids :: "graph_spec \<Rightarrow> rstr list" where
  "done_ids spec = map gn_id (filter (\<lambda>n. gn_status n = NDone) (gs_nodes spec))"

definition ready_node :: "rstr list \<Rightarrow> graph_node \<Rightarrow> bool" where
  "ready_node finished n \<longleftrightarrow> gn_status n = NPending \<and> list_all (\<lambda>d. d \<in> set finished) (gn_deps n)"

definition free_slots :: "graph_spec \<Rightarrow> u32" where
  "free_slots spec =
     (let running = of_nat (length (filter active_node (gs_nodes spec)))
      in if running \<le> gs_max_concurrency spec then gs_max_concurrency spec - running else 0)"

fun launch_ready :: "env \<Rightarrow> u32 \<Rightarrow> rstr list \<Rightarrow> shared \<times> graph_spec \<Rightarrow> shared \<times> graph_spec" where
  "launch_ready env slots [] st = st"
| "launch_ready env slots (i # ids) st =
     (if slots = 0 then st
      else case launch_node env i st of
             (st', None) \<Rightarrow> launch_ready env (slots - 1) ids st'
           | ((sh, spec), Some e) \<Rightarrow>
               (let spec' = edit_node i (\<lambda>n. n\<lparr> gn_status := NBlocked, gn_detail := Some e \<rparr>) spec
                in launch_ready env slots ids
                     (notify_graph env spec' ''Graph needs you''
                        (quoted (gs_name spec) @ '' could not start node '' @ quoted i @ '': '' @ e) sh, spec')))"

definition stalled :: "rstr list \<Rightarrow> graph_spec \<Rightarrow> bool" where
  "stalled finished spec \<longleftrightarrow>
     list_ex (\<lambda>n. active_node n \<or> gn_status n = NPending) (gs_nodes spec) \<and>
     \<not> (list_ex (ready_node finished) (gs_nodes spec) \<or> list_ex active_node (gs_nodes spec))"

definition tick_running :: "env \<Rightarrow> shared \<times> graph_spec \<Rightarrow> shared \<times> graph_spec" where
  "tick_running env st =
     (if gs_nodes (snd st) = [] then (fst st, (snd st)\<lparr> gs_status := GProposing \<rparr>)
      else
       (let (sh, spec) = sync_node_states env st; name = gs_name spec in
        if list_all (\<lambda>n. gn_status n = NDone) (gs_nodes spec)
        then (let spec' = spec\<lparr> gs_status := GComplete \<rparr> in
              (notify_graph env spec' ''Graph finished''
                 (quoted name @ '' is done '' @ em_dash @ '' all '' @ show_nat (length (gs_nodes spec)) @ '' nodes finished'') sh, spec'))
        else
         (let finished = done_ids spec;
              ready = map gn_id (filter (ready_node finished) (gs_nodes spec));
              (sh, spec) = launch_ready env (free_slots spec) ready (sh, spec)
          in if stalled finished spec
             then (let spec' = spec\<lparr> gs_status := GPaused \<rparr> in
                   (notify_graph env spec' ''Graph needs you''
                      (quoted name @ '' cannot continue '' @ em_dash @ '' the nodes that are left are waiting on '' @
                       ''stopped ones; fix those, then: jmux graph resume '' @ name) sh, spec'))
             else (sh, spec))))"

definition tick_proposing :: "env \<Rightarrow> shared \<times> graph_spec \<Rightarrow> shared \<times> graph_spec" where
  "tick_proposing env st =
     (case st of (sh, spec) \<Rightarrow>
        let waited = spec\<lparr> gs_proposal_wait_ticks := gs_proposal_wait_ticks spec + 1 \<rparr> in
        case en_mtime env (sh_log sh) (proposal_json spec) of
          None \<Rightarrow>
            (if gs_proposal_wait_ticks waited = PROPOSAL_WARN_TICKS
             then notify_graph env waited ''Plan is taking a while''
                    (quoted (gs_name spec) @ '' has no plan after 15 minutes '' @ em_dash @
                     '' open its workspace to see what the agent is doing'') sh
             else sh, waited)
        | Some mtime \<Rightarrow>
            if (case gs_min_proposal_mtime spec of Some least \<Rightarrow> mtime < least | None \<Rightarrow> False) then (sh, spec)
            else case read_plan env spec sh of
              (sh, Inr _) \<Rightarrow>
                if gs_review spec
                then (let spec' = spec\<lparr> gs_status := GProposed \<rparr> in
                      (notify_graph env spec' ''Plan ready for your review''
                         (quoted (gs_name spec) @ '' has a plan '' @ em_dash @ '' review it in the graph panel (or edit '' @
                          proposal_json spec @ ''), then: jmux graph approve '' @ gs_name spec) sh, spec'))
                else (case read_plan env spec sh of
                        (sh, Inr nodes) \<Rightarrow>
                          (let spec' = spec\<lparr> gs_nodes := nodes, gs_status := GRunning \<rparr> in
                           (notify_graph env spec' ''Graph working''
                              (quoted (gs_name spec) @ '' started on its plan of '' @ show_nat (length nodes) @
                               '' nodes (plan review skipped)'') sh, spec'))
                      | (sh, Inl _) \<Rightarrow> (sh, spec))
            | (sh, Inl e) \<Rightarrow>
                (if gs_proposal_wait_ticks waited mod PROPOSAL_WARN_TICKS = 0
                 then notify_graph env waited ''Plan needs a fix''
                        (''the plan for '' @ quoted (gs_name spec) @ '' cannot be used: '' @ proposal_error_text e) sh
                 else sh, waited))"

definition process_graph :: "env \<Rightarrow> rstr \<Rightarrow> shared \<Rightarrow> shared" where
  "process_graph env name sh0 =
     (case graph_of name sh0 of
        None \<Rightarrow> sh0
      | Some spec \<Rightarrow>
          if gs_status spec \<noteq> GProposing \<and> gs_status spec \<noteq> GRunning then sh0
          else let (sh, spec') = (if gs_status spec = GProposing then tick_proposing env (sh0, spec)
                                  else tick_running env (sh0, spec));
                   sh = put_graph name spec' sh
               in if persisted spec \<noteq> persisted spec' then save_graph spec' sh else sh)"

definition orchestrator_panel :: "shared \<Rightarrow> graph_spec \<Rightarrow> uuid option" where
  "orchestrator_panel sh spec =
     (if gs_status spec \<in> {GProposing, GProposed, GRunning}
      then Option.bind (Option.bind (gs_orchestrator_workspace spec) (\<lambda>w. tm_workspace w (sh_tabs sh)))
             (\<lambda>ws. map_option p_id (find (\<lambda>p. p_panel_type p = Terminal \<and> p_command p \<noteq> None) (map snd (ws_panels ws))))
      else None)"

definition ensure_orchestrators_spawned :: "env \<Rightarrow> shared \<Rightarrow> shared" where
  "ensure_orchestrators_spawned env sh =
     fold (\<lambda>p s. if en_spawned env p then s else act (Spawn p) s)
       (List.map_filter (orchestrator_panel sh) (map snd (sh_graphs sh))) sh"

definition scheduler_tick :: "env \<Rightarrow> shared \<Rightarrow> shared" where
  "scheduler_tick env sh0 =
     (let sh = ensure_loaded env sh0
      in ensure_orchestrators_spawned env (fold (process_graph env) (keys_of (sh_graphs sh)) sh))"

text \<open>One tick of the whole driver: graphs first, then runs.\<close>

definition driver_tick :: "env \<Rightarrow> shared \<Rightarrow> shared" where
  "driver_tick env sh = drive_runs env (scheduler_tick env sh)"

end
