(* ===== verification/Graph_Ops.thy ===== *)
theory Graph_Ops imports Graph_Scheduler begin

text \<open>
  The graph operations a client can call (\<open>create_graph\<close> to \<open>continue_node\<close> in
  \<open>jmux/src/goal/graph.rs\<close>). Each returns the new state and an error message or its result.
\<close>

section \<open>Creating\<close>

text \<open>The parameters of \<open>graph.create\<close>, as far as they have the expected JSON type.\<close>

record graph_params =
  gp_max_concurrency :: "u64 option"
  gp_max_iterations :: "u64 option"
  gp_use_worktrees :: "bool option"
  gp_review :: "bool option"
  gp_review_iterations :: "bool option"
  gp_permission_mode :: "rstr option"
  gp_runner :: "rstr option"

record goal_source =
  src_path :: rstr
  src_text :: rstr
  src_cwd :: rstr
  src_name :: rstr
  src_repo_name :: rstr
  src_inline :: bool

definition opt_or :: "'a option \<Rightarrow> 'a \<Rightarrow> 'a" where
  "opt_or x d = (case x of Some v \<Rightarrow> v | None \<Rightarrow> d)"

definition clamp_u32 :: "u32 \<Rightarrow> u32 \<Rightarrow> u32 \<Rightarrow> u32" where
  "clamp_u32 lo hi n = (if n < lo then lo else if hi < n then hi else n)"

definition resolve_use_worktrees :: "graph_params \<Rightarrow> bool \<Rightarrow> bool" where
  "resolve_use_worktrees params base_is_git \<longleftrightarrow> opt_or (gp_use_worktrees params) True \<and> base_is_git"

definition new_spec :: "env \<Rightarrow> rstr \<Rightarrow> goal_source \<Rightarrow> graph_params \<Rightarrow> bool \<Rightarrow> graph_spec" where
  "new_spec env name source params base_is_git = default_spec\<lparr>
     gs_name := name, gs_base_cwd := src_cwd source, gs_goal_path := src_path source, gs_status := GProposing,
     gs_max_concurrency := (case gp_max_concurrency params of Some n \<Rightarrow> clamp_u32 1 8 (ucast n) | None \<Rightarrow> 1),
     gs_max_iterations := (case gp_max_iterations params of Some n \<Rightarrow> clamp_u32 1 20 (ucast n) | None \<Rightarrow> 4),
     gs_review := opt_or (gp_review params) True,
     gs_review_iterations := opt_or (gp_review_iterations params) False,
     gs_use_worktrees := resolve_use_worktrees params base_is_git,
     gs_output_dir := settings_output_dir (en_settings env),
     gs_permission_mode := opt_or (gp_permission_mode params) [],
     gs_runner := gp_runner params, gs_min_proposal_mtime := Some (en_epoch env) \<rparr>"

definition orchestrator_seed :: "env \<Rightarrow> graph_spec \<Rightarrow> rstr \<Rightarrow> rstr" where
  "orchestrator_seed env spec goal_text =
     (let runners = map fst (st_runners (en_settings env)) in
      replace_all ''{goal_text}'' goal_text
        (replace_all ''{runners}'' (if runners = [] then ''(none configured)'' else join '', '' runners)
          (replace_all ''{max_concurrency}'' (show_nat (unat (gs_max_concurrency spec)))
            (replace_all ''{proposal_md_path}'' (path_join (spec_dir spec) ''proposal.md'')
              (replace_all ''{proposal_path}'' (proposal_json spec)
                (replace_all ''{graph_name}'' (gs_name spec) (en_decompose env)))))))"

definition graph_group :: "rstr \<Rightarrow> shared \<Rightarrow> shared \<times> uuid" where
  "graph_group name sh =
     (case find (\<lambda>g. wg_name g = name) (tm_groups (sh_tabs sh)) of
        Some g \<Rightarrow> (sh, wg_id g)
      | None \<Rightarrow>
          (let (sh, i) = draw_uuid sh in (sh\<lparr> sh_tabs := fst (create_group i name None (sh_tabs sh)) \<rparr>, i)))"

definition orchestrator_workspace ::
  "env \<Rightarrow> graph_spec \<Rightarrow> uuid \<Rightarrow> uuid \<Rightarrow> uuid \<Rightarrow> rstr \<Rightarrow> rstr \<Rightarrow> bool \<Rightarrow> workspace" where
  "orchestrator_workspace env spec wid pid gid session command is_claude =
     (let ws = (with_directory (en_home env) wid pid (gs_base_cwd spec))\<lparr>
                 ws_custom_title := Some (''graph: '' @ gs_name spec), ws_group_id := gs_group_id spec,
                 ws_subagent_monitor := is_claude \<rparr>;
          ws = ws\<lparr> ws_panels := modify_panel pid (\<lambda>p. let p = p\<lparr> p_command := Some command \<rparr> in
                     if is_claude then p\<lparr> p_agent_session_id := Some session \<rparr> else p) (ws_panels ws) \<rparr>
      in fst (insert_panel (new_graph gid (gs_name spec)) Horizontal ws))"

definition create_graph ::
  "env \<Rightarrow> rstr \<Rightarrow> goal_source \<Rightarrow> graph_params \<Rightarrow> shared \<Rightarrow> shared \<times> (rstr + graph_spec \<times> rstr)" where
  "create_graph env name source params sh0 =
     (if \<not> valid_node_id name then (sh0, Inl ''graph name must be lowercase letters, digits, hyphens'')
      else
       (let sh = ensure_loaded env sh0 in
        case opt_filter (\<lambda>g. gs_status g \<noteq> GStopped \<and> gs_status g \<noteq> GComplete) (graph_of name sh) of
          Some existing \<Rightarrow>
            (sh, Inl (''graph '' @ quoted name @ '' is already '' @ graph_state_label (gs_status existing) @ '' '' @ em_dash @
                      '' jmux graph status '' @ name @ '' to inspect it, jmux graph stop '' @ name @ '' to replace it''))
        | None \<Rightarrow>
           (let sh = sh\<lparr> sh_graphs := AList.delete name (sh_graphs sh) \<rparr>;
                (sh, is_git) = git env (src_cwd source) [''rev-parse'', ''--is-inside-work-tree''] sh;
                spec = new_spec env name source params (case is_git of Inr _ \<Rightarrow> True | Inl _ \<Rightarrow> False)
            in case try_io env (MakeDir (spec_dir spec)) sh of
                 (sh, Some e) \<Rightarrow> (sh, Inl (''cannot create graph dir: '' @ e))
               | (sh, None) \<Rightarrow>
                  (let (sh, group) = graph_group name sh;
                       spec = spec\<lparr> gs_group_id := Some group \<rparr>;
                       seed = orchestrator_seed env spec (src_text source)
                   in case resolve_runner_by_name (opt_or (gs_runner spec) []) (en_settings env) of
                        Inl e \<Rightarrow> (sh, Inl e)
                      | Inr (runner_name, runner) \<Rightarrow>
                         (let (sh, session_id) = draw_uuid sh; (sh, seed_id) = draw_uuid sh;
                              session = uuid_str session_id; sd = seed_dir env seed_id
                          in case try_io env (MakeDir sd) sh of
                               (sh, Some e) \<Rightarrow> (sh, Inl (''cannot create seed dir: '' @ e))
                             | (sh, None) \<Rightarrow>
                                (let seed_file = path_join sd ''decompose.md'' in
                                 case try_io env (WriteFile seed_file seed) sh of
                                   (sh, Some e) \<Rightarrow> (sh, Inl (''cannot write seed: '' @ e))
                                 | (sh, None) \<Rightarrow>
                                    (let command = launch_command runner session seed_file
                                           (resolve_permission_mode (Some (gs_permission_mode spec)) runner (en_settings env));
                                         (sh, wid) = draw_uuid sh; (sh, pid) = draw_uuid sh; (sh, gid) = draw_uuid sh;
                                         ws = orchestrator_workspace env spec wid pid gid session command (gr_agent runner \<noteq> ''custom'');
                                         sh = act Refresh (place_workspace env True ws sh);
                                         spec = spec\<lparr> gs_orchestrator_workspace := Some wid \<rparr>;
                                         pointers = hm_insert name (spec_dir spec) (sh_pointers sh);
                                         sh = save_graph spec (act (SavePointers pointers) (sh\<lparr> sh_pointers := pointers \<rparr>))
                                     in (put_graph name spec sh, Inr (spec, runner_name)))))))))"

section \<open>Steering\<close>

definition unknown_graph :: "rstr \<Rightarrow> rstr" where
  "unknown_graph name = ''unknown graph '' @ quoted name"

definition approve_graph :: "env \<Rightarrow> rstr \<Rightarrow> shared \<Rightarrow> shared \<times> (rstr + graph_spec)" where
  "approve_graph env name sh0 =
     (let sh = ensure_loaded env sh0 in
      case graph_of name sh of
        None \<Rightarrow> (sh, Inl (unknown_graph name))
      | Some spec \<Rightarrow>
          if gs_status spec \<noteq> GProposing \<and> gs_status spec \<noteq> GProposed then
            (sh, Inl (''graph '' @ quoted name @ '' is '' @ graph_state_label (gs_status spec) @ '' '' @ em_dash @
                      '' there is no plan waiting for approval''))
          else case read_plan env spec sh of
                 (sh, Inl e) \<Rightarrow> (sh, Inl (proposal_error_text e))
               | (sh, Inr nodes) \<Rightarrow>
                   (let spec' = spec\<lparr> gs_nodes := nodes, gs_status := GRunning \<rparr>
                    in (save_graph spec' (put_graph name spec' sh), Inr spec')))"

definition revision_prompt :: "graph_spec \<Rightarrow> rstr \<Rightarrow> rstr" where
  "revision_prompt spec remark =
     ''Revision requested: '' @ remark @ nl @ ''Update '' @ proposal_json spec @ '' (and the .md rendering) accordingly '' @
     em_dash @ '' same JSON schema '' @ em_dash @ '' then reply with a short summary and stop.''"

definition revise_graph :: "env \<Rightarrow> rstr \<Rightarrow> rstr \<Rightarrow> shared \<Rightarrow> shared \<times> (rstr + graph_spec)" where
  "revise_graph env name remark sh0 =
     (let sh = ensure_loaded env sh0 in
      case graph_of name sh of
        None \<Rightarrow> (sh, Inl (unknown_graph name))
      | Some spec \<Rightarrow>
          if gs_status spec \<noteq> GProposing \<and> gs_status spec \<noteq> GProposed then
            (sh, Inl (''graph '' @ quoted name @ '' is '' @ graph_state_label (gs_status spec) @ '' '' @ em_dash @
                      '' its plan is not under review''))
          else case gs_orchestrator_workspace spec of
            None \<Rightarrow> (sh, Inl (''the workspace that wrote the plan is gone (jmux restarted?) '' @ em_dash @
                               '' edit proposal.json yourself, then approve''))
          | Some w \<Rightarrow>
              (case Option.bind (tm_workspace w (sh_tabs sh)) (\<lambda>ws. head_opt (map fst (ws_panels ws))) of
                 None \<Rightarrow> (sh, Inl (''that workspace is gone '' @ em_dash @ '' edit proposal.json yourself instead''))
               | Some p \<Rightarrow>
                   if \<not> en_live_agent env p then
                     (sh, Inl (''the agent that wrote the plan is not running '' @ em_dash @
                               '' edit proposal.json yourself, then approve''))
                   else
                    (let spec' = spec\<lparr> gs_min_proposal_mtime := Some (en_epoch env), gs_status := GProposing,
                                       gs_proposal_wait_ticks := 0 \<rparr>;
                         sh = save_graph spec' (put_graph name spec' sh);
                         (sh, sent) = send_ui_input env p (revision_prompt spec remark @ carriage_return) sh
                     in if sent then (sh, Inr spec') else (sh, Inl ''no UI event channel''))))"

definition set_graph_state :: "env \<Rightarrow> rstr \<Rightarrow> GraphState \<Rightarrow> shared \<Rightarrow> shared \<times> (rstr + graph_spec)" where
  "set_graph_state env name state sh0 =
     (let sh = ensure_loaded env sh0 in
      case graph_of name sh of
        None \<Rightarrow> (sh, Inl (unknown_graph name))
      | Some spec \<Rightarrow>
          (let spec' = spec\<lparr> gs_status := state \<rparr> in (save_graph spec' (put_graph name spec' sh), Inr spec')))"

definition pause_graph :: "env \<Rightarrow> rstr \<Rightarrow> shared \<Rightarrow> shared \<times> (rstr + graph_spec)" where
  "pause_graph env name sh = set_graph_state env name GPaused sh"

definition resume_node :: "graph_node \<Rightarrow> graph_node" where
  "resume_node n = (if gn_status n = NInterrupted then n\<lparr> gn_status := NPending, gn_detail := None \<rparr> else n)"

definition merge_blocked :: "graph_node \<Rightarrow> bool" where
  "merge_blocked n \<longleftrightarrow> gn_status n = NBlocked \<and>
     (case gn_detail n of Some d \<Rightarrow> starts_with ''merge'' d | None \<Rightarrow> False)"

definition resume_graph :: "env \<Rightarrow> rstr \<Rightarrow> shared \<Rightarrow> shared \<times> (rstr + graph_spec)" where
  "resume_graph env name sh0 =
     (let sh = ensure_loaded env sh0 in
      case graph_of name sh of
        None \<Rightarrow> (sh, Inl (unknown_graph name))
      | Some spec \<Rightarrow>
          if gs_nodes spec = [] then
            (sh, Inl (''graph '' @ quoted name @ '' has no approved plan yet '' @ em_dash @
                      '' review the plan, then run: jmux graph approve '' @ name))
          else
           (let spec1 = spec\<lparr> gs_nodes := map resume_node (gs_nodes spec) \<rparr>;
                retries = map gn_id (filter merge_blocked (gs_nodes spec1));
                (sh, spec2) = fold (finish_node env) retries (sh, spec1);
                spec3 = spec2\<lparr> gs_status := GRunning \<rparr>
            in (save_graph spec3 (put_graph name spec3 sh), Inr spec3)))"

definition stop_graph_run :: "rstr \<Rightarrow> goal_run \<Rightarrow> goal_run" where
  "stop_graph_run name run =
     (if (case rn_graph run of Some l \<Rightarrow> gl_graph l = name | None \<Rightarrow> False) \<and> \<not> is_terminal (rn_status run)
      then run\<lparr> rn_status := GsBlocked ''graph stopped'' \<rparr> else run)"

definition stop_graph :: "env \<Rightarrow> rstr \<Rightarrow> shared \<Rightarrow> shared \<times> (rstr + graph_spec)" where
  "stop_graph env name sh0 =
     (case set_graph_state env name GStopped sh0 of
        (sh, Inl e) \<Rightarrow> (sh, Inl e)
      | (sh, Inr result) \<Rightarrow>
          (let sh = sh\<lparr> sh_goals := map (\<lambda>(i, run). (i, stop_graph_run name run)) (sh_goals sh) \<rparr> in
           case Option.bind (graph_of name sh) gs_group_id of
             None \<Rightarrow> (sh, Inr result)
           | Some g \<Rightarrow>
               if list_ex (\<lambda>ws. ws_group_id ws = Some g) (tm_workspaces (sh_tabs sh)) then (sh, Inr result)
               else (act Refresh (sh\<lparr> sh_tabs := fst (remove_group g (sh_tabs sh)) \<rparr>), Inr result)))"

definition graph_status :: "env \<Rightarrow> rstr option \<Rightarrow> shared \<Rightarrow> shared \<times> (rstr + graph_spec list)" where
  "graph_status env name sh0 =
     (let sh = ensure_loaded env sh0 in
      (sh, case name of
             Some n \<Rightarrow> (case graph_of n sh of Some spec \<Rightarrow> Inr [spec] | None \<Rightarrow> Inl (unknown_graph n))
           | None \<Rightarrow> Inr (map snd (sh_graphs sh))))"

section \<open>Nodes\<close>

definition update_node_goal :: "rstr \<Rightarrow> rstr \<Rightarrow> rstr \<Rightarrow> shared \<Rightarrow> shared \<times> rstr option" where
  "update_node_goal name i goal_text sh =
     (if trim goal_text = [] then (sh, Some ''goal text cannot be empty'')
      else case graph_of name sh of
        None \<Rightarrow> (sh, Some (unknown_graph name))
      | Some spec \<Rightarrow>
          (case gs_node i spec of
             None \<Rightarrow> (sh, Some (''unknown node '' @ quoted i))
           | Some _ \<Rightarrow>
               (let spec' = edit_node i (\<lambda>n. n\<lparr> gn_goal := goal_text \<rparr>) spec
                in (save_graph spec' (put_graph name spec' sh), None))))"

text \<open>Editing one node of \<open>proposal.json\<close> in place, as a JSON value.\<close>

definition json_field :: "rstr \<Rightarrow> json \<Rightarrow> json option" where
  "json_field k v = (case v of JObj fs \<Rightarrow> map_of fs k | _ \<Rightarrow> None)"

definition json_set :: "rstr \<Rightarrow> json \<Rightarrow> json \<Rightarrow> json" where
  "json_set k x v = (case v of JObj fs \<Rightarrow> JObj (AList.update k x fs) | _ \<Rightarrow> v)"

definition node_with_id :: "rstr \<Rightarrow> json \<Rightarrow> bool" where
  "node_with_id i v \<longleftrightarrow> json_field ''id'' v = Some (JStr i)"

definition edit_json_node :: "rstr \<Rightarrow> rstr \<Rightarrow> json \<Rightarrow> json \<Rightarrow> json option" where
  "edit_json_node i k x v =
     (case json_field ''nodes'' v of
        Some (JArr ns) \<Rightarrow>
          if list_ex (node_with_id i) ns
          then Some (json_set ''nodes'' (JArr (update_first (node_with_id i) (json_set k x) ns)) v)
          else None
      | _ \<Rightarrow> None)"

definition edit_proposal :: "env \<Rightarrow> rstr \<Rightarrow> rstr \<Rightarrow> rstr \<Rightarrow> json \<Rightarrow> rstr \<Rightarrow> shared \<Rightarrow> shared \<times> rstr option" where
  "edit_proposal env p i k x missing sh =
     (case en_json env (sh_log sh) p of
        Inl e \<Rightarrow> (sh, Some (proposal_error_text e))
      | Inr v \<Rightarrow>
          (case edit_json_node i k x v of
             None \<Rightarrow> (sh, Some missing)
           | Some v' \<Rightarrow>
               (case try_io env (WriteJson p v') sh of
                  (sh, Some e) \<Rightarrow> (sh, Some (''cannot write '' @ en_debug env p @ '': '' @ e))
                | (sh, None) \<Rightarrow> (sh, None))))"

definition update_node_position :: "env \<Rightarrow> rstr \<Rightarrow> rstr \<Rightarrow> f64 \<Rightarrow> f64 \<Rightarrow> shared \<Rightarrow> shared \<times> rstr option" where
  "update_node_position env name i x y sh =
     (case graph_of name sh of
        None \<Rightarrow> (sh, Some (unknown_graph name))
      | Some spec \<Rightarrow>
          (case gs_node i spec of
             Some _ \<Rightarrow>
               (let spec' = edit_node i (\<lambda>n. n\<lparr> gn_pos := Some (x, y) \<rparr>) spec
                in (save_graph spec' (put_graph name spec' sh), None))
           | None \<Rightarrow>
               edit_proposal env (proposal_json spec) i ''pos'' (JArr [JNum x, JNum y])
                 (''node '' @ quoted i @ '' not found'') sh))"

definition update_proposal_node :: "env \<Rightarrow> rstr \<Rightarrow> rstr \<Rightarrow> rstr \<Rightarrow> shared \<Rightarrow> shared \<times> rstr option" where
  "update_proposal_node env name i goal_text sh =
     (if trim goal_text = [] then (sh, Some ''goal text cannot be empty'')
      else case graph_of name sh of
        None \<Rightarrow> (sh, Some (unknown_graph name))
      | Some spec \<Rightarrow>
          edit_proposal env (proposal_json spec) i ''goal'' (JStr goal_text)
            (''node '' @ quoted i @ '' not found in proposal'') sh)"

definition run_link :: "uuid \<Rightarrow> shared \<Rightarrow> graph_link option" where
  "run_link w sh = Option.bind (goal_of w sh) rn_graph"

definition accept_node :: "env \<Rightarrow> uuid \<Rightarrow> shared \<Rightarrow> shared" where
  "accept_node env w sh0 =
     (case run_link w sh0 of
        None \<Rightarrow> sh0
      | Some link \<Rightarrow>
          (case graph_of (gl_graph link) sh0 of
             None \<Rightarrow> sh0
           | Some spec \<Rightarrow>
               (let (sh, spec') = finish_node env (gl_node link) (sh0, spec)
                in save_graph spec' (put_graph (gl_graph link) spec' sh))))"

definition continue_node :: "uuid \<Rightarrow> shared \<Rightarrow> shared" where
  "continue_node w sh =
     (case run_link w sh of
        None \<Rightarrow> sh
      | Some link \<Rightarrow>
          (case graph_of (gl_graph link) sh of
             None \<Rightarrow> sh
           | Some spec \<Rightarrow>
               (case gs_node (gl_node link) spec of
                  None \<Rightarrow> sh
                | Some node \<Rightarrow>
                    if gn_status node \<noteq> NReview then sh
                    else let spec' = edit_node (gl_node link) (\<lambda>n. n\<lparr> gn_status := NRunning, gn_detail := None \<rparr>) spec
                         in save_graph spec' (put_graph (gl_graph link) spec' sh))))"

end
