(* ===== verification/Graph_Facts.thy ===== *)
theory Graph_Facts imports Graph_Ops begin

text \<open>
  Facts about graphs under the scheduler. The plan (identifiers and dependencies) never changes while a
  graph runs, a finished node stays finished, and a node leaves "pending" only when all its
  dependencies are finished.
\<close>

section \<open>Looking at and editing nodes\<close>

definition plan :: "graph_spec \<Rightarrow> (rstr \<times> rstr list) list" where
  "plan spec = map (\<lambda>n. (gn_id n, gn_deps n)) (gs_nodes spec)"

definition state_of :: "rstr \<Rightarrow> graph_spec \<Rightarrow> NodeState option" where
  "state_of i spec = map_option gn_status (gs_node i spec)"

definition ids_ok :: "graph_spec \<Rightarrow> bool" where
  "ids_ok spec \<longleftrightarrow> distinct (map gn_id (gs_nodes spec))"

lemma map_fst_plan: "map fst (plan spec) = map gn_id (gs_nodes spec)"
  by (simp add: plan_def comp_def)

lemma ids_ok_plan: "plan spec' = plan spec \<Longrightarrow> ids_ok spec' = ids_ok spec"
  unfolding ids_ok_def map_fst_plan [symmetric] by simp

lemma gs_node_in: "gs_node i spec = Some n \<Longrightarrow> n \<in> set (gs_nodes spec) \<and> gn_id n = i"
  by (auto simp: gs_node_def find_Some_iff)

lemma gs_node_Some: "ids_ok spec \<Longrightarrow> n \<in> set (gs_nodes spec) \<Longrightarrow> gs_node (gn_id n) spec = Some n"
proof -
  have "distinct (map gn_id ns) \<Longrightarrow> n \<in> set ns \<Longrightarrow> find (\<lambda>m. gn_id m = gn_id n) ns = Some n" for ns
    by (induction ns) auto
  then show "ids_ok spec \<Longrightarrow> n \<in> set (gs_nodes spec) \<Longrightarrow> gs_node (gn_id n) spec = Some n"
    by (simp add: gs_node_def ids_ok_def)
qed

lemma find_node_update:
  assumes "\<And>n. find (\<lambda>n. gn_id n = i) ns = Some n \<Longrightarrow> gn_id (f n) = i"
  shows "find (\<lambda>n. gn_id n = j) (update_first (\<lambda>n. gn_id n = i) f ns) =
    (if j = i then map_option f (find (\<lambda>n. gn_id n = i) ns) else find (\<lambda>n. gn_id n = j) ns)"
  using assms by (induction ns) auto

lemma gs_node_edit:
  "(\<And>n. gs_node i spec = Some n \<Longrightarrow> gn_id (f n) = i) \<Longrightarrow>
   gs_node j (edit_node i f spec) = (if j = i then map_option f (gs_node i spec) else gs_node j spec)"
  unfolding gs_node_def edit_node_def by (simp add: find_node_update)

lemma plan_edit:
  assumes "\<And>n. gs_node i spec = Some n \<Longrightarrow> gn_id (f n) = gn_id n \<and> gn_deps (f n) = gn_deps n"
  shows "plan (edit_node i f spec) = plan spec"
proof -
  have "map (\<lambda>n. (gn_id n, gn_deps n)) (update_first (\<lambda>n. gn_id n = i) f ns) = map (\<lambda>n. (gn_id n, gn_deps n)) ns"
    if "\<And>n. find (\<lambda>n. gn_id n = i) ns = Some n \<Longrightarrow> gn_id (f n) = gn_id n \<and> gn_deps (f n) = gn_deps n" for ns
    using that by (induction ns) auto
  then show ?thesis using assms by (simp add: plan_def edit_node_def gs_node_def)
qed

lemma edit_node_fields [simp]:
  "gs_name (edit_node i f spec) = gs_name spec" "gs_status (edit_node i f spec) = gs_status spec"
  "gs_max_concurrency (edit_node i f spec) = gs_max_concurrency spec"
  "gs_use_worktrees (edit_node i f spec) = gs_use_worktrees spec" "gs_base_cwd (edit_node i f spec) = gs_base_cwd spec"
  "gs_output_dir (edit_node i f spec) = gs_output_dir spec" "gs_runner (edit_node i f spec) = gs_runner spec"
  "gs_review_iterations (edit_node i f spec) = gs_review_iterations spec"
  "gs_nodes (edit_node i f spec) = [] \<longleftrightarrow> gs_nodes spec = []"
  by (simp_all add: edit_node_def) (cases "gs_nodes spec"; simp)

definition count_nodes :: "(graph_node \<Rightarrow> bool) \<Rightarrow> graph_spec \<Rightarrow> nat" where
  "count_nodes P spec = length (filter P (gs_nodes spec))"

lemma count_edit:
  "gs_node i spec = Some n \<Longrightarrow>
   count_nodes P (edit_node i f spec) + (if P n then 1 else 0) = count_nodes P spec + (if P (f n) then 1 else 0)"
proof -
  have "find (\<lambda>n. gn_id n = i) ns = Some n \<Longrightarrow>
     length (filter P (update_first (\<lambda>n. gn_id n = i) f ns)) + (if P n then 1 else 0) =
     length (filter P ns) + (if P (f n) then 1 else 0)" for ns
    by (induction ns) (auto split: if_splits)
  then show "gs_node i spec = Some n \<Longrightarrow> ?thesis" by (simp add: gs_node_def count_nodes_def edit_node_def)
qed

section \<open>What never goes back\<close>

text \<open>One graph follows another: same plan, same settings, finished nodes stay finished, and a node
  that leaves "pending" has all its dependencies finished.\<close>

definition deps_finished :: "graph_spec \<Rightarrow> rstr list \<Rightarrow> bool" where
  "deps_finished spec ds \<longleftrightarrow> (\<forall>d \<in> set ds. state_of d spec = Some NDone)"

definition follows :: "graph_spec \<Rightarrow> graph_spec \<Rightarrow> bool" where
  "follows spec spec' \<longleftrightarrow>
     plan spec' = plan spec \<and> gs_max_concurrency spec' = gs_max_concurrency spec \<and> gs_name spec' = gs_name spec \<and>
     (\<forall>i. state_of i spec = Some NDone \<longrightarrow> state_of i spec' = Some NDone) \<and>
     (\<forall>(i, ds) \<in> set (plan spec). state_of i spec = Some NPending \<longrightarrow> state_of i spec' \<noteq> Some NPending \<longrightarrow>
        deps_finished spec' ds)"

lemma followsD:
  assumes "follows spec spec'"
  shows "plan spec' = plan spec" "gs_max_concurrency spec' = gs_max_concurrency spec" "gs_name spec' = gs_name spec"
    "state_of i spec = Some NDone \<Longrightarrow> state_of i spec' = Some NDone"
    "(i, ds) \<in> set (plan spec) \<Longrightarrow> state_of i spec = Some NPending \<Longrightarrow> state_of i spec' \<noteq> Some NPending \<Longrightarrow> deps_finished spec' ds"
  using assms unfolding follows_def by auto

lemma follows_refl [simp]: "follows spec spec"
  by (auto simp: follows_def)

lemma deps_finished_mono: "follows spec spec' \<Longrightarrow> deps_finished spec ds \<Longrightarrow> deps_finished spec' ds"
  unfolding deps_finished_def using followsD(4) by blast

lemma follows_trans [trans]:
  assumes "follows a b" and "follows b c"
  shows "follows a c"
proof -
  have "deps_finished c ds" if "(i, ds) \<in> set (plan a)" "state_of i a = Some NPending" "state_of i c \<noteq> Some NPending" for i ds
    using that followsD(5) [OF assms(1)] followsD(5) [OF assms(2)] deps_finished_mono [OF assms(2)]
      followsD(1) [OF assms(1)] by metis
  then show ?thesis
    using followsD(1-4) [OF assms(1)] followsD(1-4) [OF assms(2)] unfolding follows_def by auto
qed

text \<open>The set \<open>A\<close> holds the nodes a user accepted while they were still pending: accepting finishes them at
  once, whatever they depend on.\<close>

definition deps_ok :: "rstr set \<Rightarrow> graph_spec \<Rightarrow> bool" where
  "deps_ok A spec \<longleftrightarrow>
     (\<forall>(i, ds) \<in> set (plan spec). i \<notin> A \<longrightarrow> state_of i spec \<noteq> Some NPending \<longrightarrow> deps_finished spec ds)"

lemma deps_ok_follows: "deps_ok A spec \<Longrightarrow> follows spec spec' \<Longrightarrow> deps_ok A spec'"
  unfolding deps_ok_def using followsD(1, 5) deps_finished_mono by (fastforce split: prod.splits)

text \<open>An edit that keeps a node's identity and either leaves it pending, or finds its dependencies
  finished, or finds it already launched.\<close>

lemma follows_edit:
  assumes "ids_ok spec" and "gs_node i spec = Some n" and "gn_id (f n) = i" and "gn_deps (f n) = gn_deps n"
    and "gn_status n = NDone \<longrightarrow> gn_status (f n) = NDone"
    and "gn_status n = NPending \<longrightarrow> deps_finished spec (gn_deps n)"
  shows "follows spec (edit_node i f spec)"
proof -
  have id: "gn_id n = i" using gs_node_in [OF assms(2)] by simp
  have nodes: "gs_node j (edit_node i f spec) = (if j = i then Some (f n) else gs_node j spec)" for j
    using gs_node_edit [of i spec f j] assms(2, 3) by auto
  have "plan (edit_node i f spec) = plan spec"
    using assms(2, 3, 4) id by (intro plan_edit) auto
  moreover have "deps_finished spec ds" if p: "(i, ds) \<in> set (plan spec)" and "gn_status n = NPending" for ds
  proof -
    obtain m where "m \<in> set (gs_nodes spec)" "gn_id m = i" "gn_deps m = ds" using p by (fastforce simp: plan_def)
    then have "m = n" using gs_node_Some [OF assms(1), of m] assms(2) by simp
    then show ?thesis using assms(6) that(2) \<open>gn_deps m = ds\<close> by simp
  qed
  moreover have done_: "state_of j spec = Some NDone \<longrightarrow> state_of j (edit_node i f spec) = Some NDone" for j
    using assms(2, 5) by (auto simp: state_of_def nodes)
  moreover have "deps_finished (edit_node i f spec) ds" if "deps_finished spec ds" for ds
    using that done_ unfolding deps_finished_def by blast
  moreover have "j = i" if "state_of j spec = Some NPending" "state_of j (edit_node i f spec) \<noteq> Some NPending" for j
    using that by (auto simp: state_of_def nodes split: if_splits)
  moreover have "gn_status n = NPending" if "state_of i spec = Some NPending"
    using that assms(2) by (simp add: state_of_def)
  ultimately show ?thesis unfolding follows_def by (auto split: prod.splits)
qed

section \<open>Finishing a node\<close>

definition settled :: "shared \<Rightarrow> graph_node \<Rightarrow> NodeState \<Rightarrow> rstr option \<Rightarrow> graph_node" where
  "settled sh n st d = (with_run_iteration sh n)\<lparr> gn_status := st, gn_detail := d \<rparr>"

lemma with_run_iteration_fields [simp]:
  "gn_id (with_run_iteration sh n) = gn_id n" "gn_deps (with_run_iteration sh n) = gn_deps n"
  "gn_status (with_run_iteration sh n) = gn_status n" "gn_worktree (with_run_iteration sh n) = gn_worktree n"
  "gn_branch (with_run_iteration sh n) = gn_branch n" "gn_workspace (with_run_iteration sh n) = gn_workspace n"
  "gn_detail (with_run_iteration sh n) = gn_detail n"
  by (auto simp: with_run_iteration_def split: option.splits)

lemma settled_fields [simp]:
  "gn_id (settled sh n st d) = gn_id n" "gn_deps (settled sh n st d) = gn_deps n"
  "gn_status (settled sh n st d) = st" "gn_detail (settled sh n st d) = d"
  by (simp_all add: settled_def)

lemma finish_node_cases:
  assumes "gs_node i spec = Some n" and "gn_status n \<noteq> NDone"
  shows "\<exists>st d. (st = NDone \<or> st = NBlocked) \<and> snd (finish_node env i (sh, spec)) = edit_node i (\<lambda>_. settled sh n st d) spec"
  using assms
  by (auto simp: finish_node_def Let_def settled_def split: prod.splits option.splits merge_result.splits)

lemma finish_node_skip:
  "gs_node i spec = None \<or> (\<exists>n. gs_node i spec = Some n \<and> gn_status n = NDone) \<Longrightarrow> finish_node env i (sh, spec) = (sh, spec)"
  by (auto simp: finish_node_def)

lemma follows_finish:
  assumes "ids_ok spec" and "state_of i spec \<noteq> Some NPending"
  shows "follows spec (snd (finish_node env i (sh, spec)))"
proof (cases "gs_node i spec = None \<or> (\<exists>n. gs_node i spec = Some n \<and> gn_status n = NDone)")
  case True
  then show ?thesis using finish_node_skip by simp
next
  case False
  then obtain n where n: "gs_node i spec = Some n" "gn_status n \<noteq> NDone" by auto
  then obtain st d where e: "snd (finish_node env i (sh, spec)) = edit_node i (\<lambda>_. settled sh n st d) spec"
    using finish_node_cases by blast
  show ?thesis
    unfolding e using n assms gs_node_in [OF n(1)] by (intro follows_edit [OF assms(1) n(1)]) (auto simp: state_of_def)
qed

lemma gs_node_settled:
  "gs_node i spec = Some n \<Longrightarrow>
   gs_node j (edit_node i (\<lambda>_. settled sh n st d) spec) = (if j = i then Some (settled sh n st d) else gs_node j spec)"
  using gs_node_edit [of i spec "\<lambda>_. settled sh n st d" j] gs_node_in [of i spec n] by simp

lemma finish_node_state:
  assumes n: "gs_node i spec = Some n" and "j \<noteq> i"
  shows "gs_node j (snd (finish_node env i (sh, spec))) = gs_node j spec"
proof (cases "gn_status n = NDone")
  case False
  obtain st d where e: "snd (finish_node env i (sh, spec)) = edit_node i (\<lambda>_. settled sh n st d) spec"
    using finish_node_cases [OF n False] by blast
  show ?thesis
    unfolding e using gs_node_settled [OF n] assms(2) by simp
qed (use n in \<open>simp add: finish_node_skip\<close>)

lemma finish_node_not_pending:
  assumes a: "state_of j spec \<noteq> Some NPending"
  shows "state_of j (snd (finish_node env i (sh, spec))) \<noteq> Some NPending"
proof (cases "gs_node i spec = None \<or> (\<exists>n. gs_node i spec = Some n \<and> gn_status n = NDone)")
  case False
  then obtain n where n: "gs_node i spec = Some n" "gn_status n \<noteq> NDone" by auto
  then obtain st d where st: "st = NDone \<or> st = NBlocked"
    and e: "snd (finish_node env i (sh, spec)) = edit_node i (\<lambda>_. settled sh n st d) spec"
    using finish_node_cases [OF n] by metis
  have "gs_node j (snd (finish_node env i (sh, spec))) = (if j = i then Some (settled sh n st d) else gs_node j spec)"
    unfolding e by (rule gs_node_settled [OF n(1)])
  then show ?thesis using a st by (cases "j = i") (auto simp: state_of_def)
next
  case True
  then show ?thesis using a by (simp add: finish_node_skip)
qed

lemma follows_finish_all:
  assumes "ids_ok (snd st)" and "\<forall>i \<in> set js. state_of i (snd st) \<noteq> Some NPending"
  shows "follows (snd st) (snd (fold (finish_node env) js st))"
  using assms
proof (induction js arbitrary: st)
  case (Cons i js)
  let ?st = "finish_node env i st"
  have f: "follows (snd st) (snd ?st)"
    using follows_finish [of "snd st" i env "fst st"] Cons.prems by simp
  have "follows (snd ?st) (snd (fold (finish_node env) js ?st))"
  proof (rule Cons.IH)
    show "ids_ok (snd ?st)" using Cons.prems(1) ids_ok_plan [OF followsD(1) [OF f]] by simp
    show "\<forall>j \<in> set js. state_of j (snd ?st) \<noteq> Some NPending"
      using Cons.prems(2) finish_node_not_pending [of _ "snd st" env i "fst st"] by simp
  qed
  then show ?case using follows_trans [OF f] by simp
qed simp

text \<open>Finishing a node that is still pending.\<close>

lemma finish_plan: "plan (snd (finish_node env i (sh, spec))) = plan spec"
proof (cases "gs_node i spec = None \<or> (\<exists>n. gs_node i spec = Some n \<and> gn_status n = NDone)")
  case False
  then obtain n where n: "gs_node i spec = Some n" "gn_status n \<noteq> NDone" by auto
  then obtain st d where e: "snd (finish_node env i (sh, spec)) = edit_node i (\<lambda>_. settled sh n st d) spec"
    using finish_node_cases by blast
  show ?thesis unfolding e using n(1) by (intro plan_edit) auto
qed (use finish_node_skip in simp)

lemma deps_ok_accept:
  assumes "deps_ok A spec" and "state_of i spec = Some NPending"
  shows "deps_ok (insert i A) (snd (finish_node env i (sh, spec)))"
proof -
  obtain n where n: "gs_node i spec = Some n" "gn_status n = NPending" using assms(2) by (auto simp: state_of_def)
  have same: "state_of j (snd (finish_node env i (sh, spec))) = state_of j spec" if "j \<noteq> i" for j
    using finish_node_state [OF n(1) that] by (simp add: state_of_def)
  have "deps_finished (snd (finish_node env i (sh, spec))) ds" if "deps_finished spec ds" for ds
    unfolding deps_finished_def
  proof
    fix d
    assume "d \<in> set ds"
    then have d: "state_of d spec = Some NDone" using that by (simp add: deps_finished_def)
    then have "d \<noteq> i" using assms(2) by auto
    then show "state_of d (snd (finish_node env i (sh, spec))) = Some NDone" using same d by simp
  qed
  then show ?thesis using assms(1) same by (auto simp: deps_ok_def finish_plan split: prod.splits)
qed

section \<open>Following runs\<close>

lemma sync_node_facts:
  assumes "sync_node env name review n sh = (sh', n', fin)"
  shows "gn_id n' = gn_id n \<and> gn_deps n' = gn_deps n \<and> (gn_status n \<noteq> NRunning \<longrightarrow> n' = n \<and> \<not> fin) \<and>
    (gn_status n = NRunning \<longrightarrow> gn_status n' \<noteq> NPending \<and> gn_status n' \<noteq> NDone) \<and> (fin \<longrightarrow> gn_status n' = NRunning)"
  using assms
  by (auto simp: sync_node_def Let_def split: option.splits GoalStatus.splits if_splits)

lemma sync_nodes_facts:
  assumes "sync_nodes env name review ns sh = (sh', ns', ids)"
  shows "list_all2 (\<lambda>n n'. gn_id n' = gn_id n \<and> gn_deps n' = gn_deps n \<and> (gn_status n \<noteq> NRunning \<longrightarrow> n' = n) \<and>
      (gn_status n = NRunning \<longrightarrow> gn_status n' \<noteq> NPending \<and> gn_status n' \<noteq> NDone)) ns ns' \<and>
    set ids \<subseteq> gn_id ` {n' \<in> set ns'. gn_status n' = NRunning}"
  using assms
proof (induction ns arbitrary: sh sh' ns' ids)
  case (Cons n ns)
  obtain s1 n' fin where a: "sync_node env name review n sh = (s1, n', fin)" by (metis prod_cases3)
  obtain s2 ms js where b: "sync_nodes env name review ns s1 = (s2, ms, js)" by (metis prod_cases3)
  have "ns' = n' # ms" "ids = (if fin then gn_id n # js else js)" using Cons.prems a b by auto
  then show ?case using Cons.IH [OF b] sync_node_facts [OF a] by (auto intro: rev_image_eqI)
qed simp

lemma follows_pointwise:
  assumes "list_all2 (\<lambda>n n'. gn_id n' = gn_id n \<and> gn_deps n' = gn_deps n \<and> (gn_status n \<noteq> NRunning \<longrightarrow> n' = n) \<and>
      (gn_status n = NRunning \<longrightarrow> gn_status n' \<noteq> NPending \<and> gn_status n' \<noteq> NDone)) (gs_nodes spec) ns'"
    and "ids_ok spec"
  shows "follows spec (spec\<lparr> gs_nodes := ns' \<rparr>)"
    "state_of i spec = Some NPending \<longleftrightarrow> state_of i (spec\<lparr> gs_nodes := ns' \<rparr>) = Some NPending"
    "state_of i spec = Some NDone \<longleftrightarrow> state_of i (spec\<lparr> gs_nodes := ns' \<rparr>) = Some NDone"
proof -
  let ?R = "\<lambda>n n'. gn_id n' = gn_id n \<and> gn_deps n' = gn_deps n \<and> (gn_status n \<noteq> NRunning \<longrightarrow> n' = n) \<and>
      (gn_status n = NRunning \<longrightarrow> gn_status n' \<noteq> NPending \<and> gn_status n' \<noteq> NDone)"
  have p: "plan (spec\<lparr> gs_nodes := ns' \<rparr>) = plan spec"
    using assms(1) by (simp add: plan_def list_all2_conv_all_nth list_eq_iff_nth_eq)
  have "rel_option ?R (find (\<lambda>n. gn_id n = j) ns) (find (\<lambda>n. gn_id n = j) ms)" if "list_all2 ?R ns ms" for j ns ms
    using that by (induction rule: list_all2_induct) auto
  then have r: "rel_option ?R (gs_node j spec) (gs_node j (spec\<lparr> gs_nodes := ns' \<rparr>))" for j
    using assms(1) by (simp add: gs_node_def)
  have s: "state_of j spec = Some x \<longleftrightarrow> state_of j (spec\<lparr> gs_nodes := ns' \<rparr>) = Some x" if "x = NPending \<or> x = NDone" for j x
  proof (cases "gs_node j spec")
    case None
    then have "gs_node j (spec\<lparr> gs_nodes := ns' \<rparr>) = None" using r [of j] by simp
    then show ?thesis using None by (simp add: state_of_def)
  next
    case (Some n)
    then obtain m where m: "gs_node j (spec\<lparr> gs_nodes := ns' \<rparr>) = Some m" "?R n m"
      using r [of j] by (auto simp: option_rel_Some1)
    then show ?thesis using Some that by (cases "gn_status n = NRunning") (auto simp: state_of_def)
  qed
  show "state_of i spec = Some NPending \<longleftrightarrow> state_of i (spec\<lparr> gs_nodes := ns' \<rparr>) = Some NPending"
    "state_of i spec = Some NDone \<longleftrightarrow> state_of i (spec\<lparr> gs_nodes := ns' \<rparr>) = Some NDone"
    using s by blast+
  show "follows spec (spec\<lparr> gs_nodes := ns' \<rparr>)"
    using p s by (auto simp: follows_def)
qed

lemma follows_sync:
  assumes "ids_ok (snd st)"
  shows "follows (snd st) (snd (sync_node_states env st))"
proof -
  obtain sh spec where st: "st = (sh, spec)" by force
  obtain sh' ns ids where y: "sync_nodes env (gs_name spec) (gs_review_iterations spec) (gs_nodes spec) sh = (sh', ns, ids)"
    by (metis prod_cases3)
  note facts = sync_nodes_facts [OF y]
  have ok: "ids_ok spec" using assms st by simp
  note pw = follows_pointwise [OF facts [THEN conjunct1] ok]
  let ?mid = "spec\<lparr> gs_nodes := ns \<rparr>"
  have mid: "ids_ok ?mid" using ok ids_ok_plan [OF followsD(1) [OF pw(1)]] by simp
  have "state_of i ?mid \<noteq> Some NPending" if i: "i \<in> set ids" for i
  proof -
    obtain n where "n \<in> set ns" "gn_id n = i" "gn_status n = NRunning" using facts i by auto
    then show ?thesis using gs_node_Some [OF mid, of n] by (simp add: state_of_def)
  qed
  then have "follows ?mid (snd (fold (finish_node env) ids (sh', ?mid)))"
    using follows_finish_all [of "(sh', ?mid)" ids env] mid by simp
  then show ?thesis using follows_trans [OF pw(1)] by (simp add: st sync_node_states_def y)
qed

section \<open>Launching\<close>

lemma launch_node_fails: "launch_node env i st = (st', Some e) \<Longrightarrow> snd st' = snd st"
  by (auto simp: launch_node_def Let_def split: prod.splits option.splits sum.splits)

lemma launch_node_starts:
  assumes "launch_node env i st = (st', None)"
  shows "\<exists>n w br wt. gs_node i (snd st) = Some n \<and>
    snd st' = edit_node i (\<lambda>n. n\<lparr> gn_status := NRunning, gn_workspace := Some w, gn_branch := br, gn_worktree := wt,
      gn_detail := None \<rparr>) (snd st)"
proof (cases "gs_node i (snd st)")
  case None
  then show ?thesis using assms by (simp add: launch_node_def split: prod.splits)
next
  case (Some n)
  then show ?thesis using assms
    by (clarsimp simp: launch_node_def Let_def split: prod.splits option.splits sum.splits) force
qed

text \<open>Both outcomes of one launch, as one edit of the node.\<close>

lemma launch_ready_step:
  assumes "slots \<noteq> 0"
  obtains (started) st1 n f where "launch_ready env slots (i # ids) st = launch_ready env (slots - 1) ids st1"
      "gs_node i (snd st) = Some n" "snd st1 = edit_node i f (snd st)"
      "gn_status (f n) = NRunning" "gn_id (f n) = gn_id n" "gn_deps (f n) = gn_deps n"
  | (refused) st1 f where "launch_ready env slots (i # ids) st = launch_ready env slots ids st1"
      "snd st1 = edit_node i f (snd st)"
      "\<And>n. gn_status (f n) = NBlocked" "\<And>n. gn_id (f n) = gn_id n" "\<And>n. gn_deps (f n) = gn_deps n"
proof (cases "snd (launch_node env i st)")
  case None
  then obtain st1 where l: "launch_node env i st = (st1, None)" by (metis prod.collapse)
  from launch_node_starts [OF l] obtain n w br wt where "gs_node i (snd st) = Some n" and
    "snd st1 = edit_node i (\<lambda>n. n\<lparr> gn_status := NRunning, gn_workspace := Some w, gn_branch := br, gn_worktree := wt,
      gn_detail := None \<rparr>) (snd st)" by blast
  then show ?thesis using assms l by (intro started [of st1 n "\<lambda>n. n\<lparr> gn_status := NRunning, gn_workspace := Some w,
      gn_branch := br, gn_worktree := wt, gn_detail := None \<rparr>"]) auto
next
  case (Some e)
  then obtain sh spec where l: "launch_node env i st = ((sh, spec), Some e)" by (metis prod.collapse)
  then have "spec = snd st" using launch_node_fails by fastforce
  then show ?thesis using assms l
    by (intro refused [of "(notify_graph env (edit_node i (\<lambda>n. n\<lparr> gn_status := NBlocked, gn_detail := Some e \<rparr>) spec)
        ''Graph needs you'' (quoted (gs_name spec) @ '' could not start node '' @ quoted i @ '': '' @ e) sh,
        edit_node i (\<lambda>n. n\<lparr> gn_status := NBlocked, gn_detail := Some e \<rparr>) spec)"
        "\<lambda>n. n\<lparr> gn_status := NBlocked, gn_detail := Some e \<rparr>"])
      (auto simp: Let_def)
qed

lemma edit_node_missing: "gs_node i spec = None \<Longrightarrow> edit_node i f spec = spec"
proof -
  have "find (\<lambda>n. gn_id n = i) ns = None \<Longrightarrow> update_first (\<lambda>n. gn_id n = i) f ns = ns" for ns
    by (induction ns) (auto split: if_splits)
  then show "gs_node i spec = None \<Longrightarrow> ?thesis" by (simp add: edit_node_def gs_node_def)
qed

lemma follows_edit_ready:
  assumes "ids_ok spec" and "\<And>n. gs_node i spec = Some n \<Longrightarrow> gn_status n \<noteq> NDone \<and> deps_finished spec (gn_deps n)"
    and "\<And>n. gs_node i spec = Some n \<Longrightarrow> gn_id (f n) = gn_id n \<and> gn_deps (f n) = gn_deps n"
  shows "follows spec (edit_node i f spec)"
proof (cases "gs_node i spec")
  case None
  then show ?thesis by (simp add: edit_node_missing)
next
  case (Some n)
  then show ?thesis using assms gs_node_in [OF Some] by (intro follows_edit [OF assms(1) Some]) auto
qed

definition launchable :: "graph_spec \<Rightarrow> rstr \<Rightarrow> bool" where
  "launchable spec i \<longleftrightarrow> (\<forall>n. gs_node i spec = Some n \<longrightarrow> gn_status n \<noteq> NDone \<and> deps_finished spec (gn_deps n))"

lemma launchable_edit:
  assumes "follows spec (edit_node i f spec)" and "launchable spec j" and "j \<noteq> i"
    and "\<And>n. gs_node i spec = Some n \<Longrightarrow> gn_id (f n) = gn_id n"
  shows "launchable (edit_node i f spec) j"
proof -
  have "gs_node j (edit_node i f spec) = gs_node j spec"
    using gs_node_edit [of i spec f j] assms(3, 4) gs_node_in by fastforce
  then show ?thesis using assms(2) deps_finished_mono [OF assms(1)] by (simp add: launchable_def)
qed

lemma follows_launch_ready:
  assumes "ids_ok (snd st)" and "distinct ids" and "\<forall>i \<in> set ids. launchable (snd st) i"
  shows "follows (snd st) (snd (launch_ready env slots ids st))"
  using assms
proof (induction ids arbitrary: slots st)
  case (Cons i ids)
  have go: "follows (snd st) (snd (launch_ready env slots' ids st1))"
    if e: "snd st1 = edit_node i f (snd st)"
      and f: "\<And>n. gs_node i (snd st) = Some n \<Longrightarrow> gn_id (f n) = gn_id n \<and> gn_deps (f n) = gn_deps n" for slots' st1 f
  proof -
    have a: "follows (snd st) (snd st1)"
      unfolding e using Cons.prems f by (intro follows_edit_ready) (auto simp: launchable_def)
    have "follows (snd st1) (snd (launch_ready env slots' ids st1))"
    proof (rule Cons.IH)
      show "ids_ok (snd st1)" using Cons.prems(1) ids_ok_plan [OF followsD(1) [OF a]] by simp
      show "\<forall>j \<in> set ids. launchable (snd st1) j"
        using launchable_edit [of "snd st" i f] a Cons.prems f unfolding e by auto
      show "distinct ids" using Cons.prems(2) by simp
    qed
    then show ?thesis using follows_trans [OF a] by blast
  qed
  show ?case
  proof (cases "slots = 0")
    case False
    then show ?thesis
    proof (cases rule: launch_ready_step [of slots env i ids st])
      case (started st1 n f)
      then show ?thesis using go [of st1 f] by simp
    next
      case (refused st1 f)
      then show ?thesis using go [of st1 f] by simp
    qed
  qed simp
qed simp

section \<open>How many nodes are active\<close>

abbreviation active_count :: "graph_spec \<Rightarrow> nat" where
  "active_count spec \<equiv> count_nodes active_node spec"

lemma count_edit_le:
  assumes "\<And>n. gs_node i spec = Some n \<Longrightarrow> P (f n) \<Longrightarrow> P n"
  shows "count_nodes P (edit_node i f spec) \<le> count_nodes P spec"
proof (cases "gs_node i spec")
  case (Some n)
  then show ?thesis using assms [OF Some] count_edit [OF Some, of P f] by (auto split: if_splits)
qed (simp add: edit_node_missing)

lemma count_edit_Suc: "count_nodes P (edit_node i f spec) \<le> Suc (count_nodes P spec)"
proof (cases "gs_node i spec")
  case (Some n)
  then show ?thesis using count_edit [OF Some, of P f] by (auto split: if_splits)
qed (simp add: edit_node_missing)

lemma active_launch_ready:
  "active_count (snd (launch_ready env slots ids st)) \<le> active_count (snd st) + unat slots"
proof (induction ids arbitrary: slots st)
  case (Cons i ids)
  show ?case
  proof (cases "slots = 0")
    case False
    then have u: "unat slots = Suc (unat (slots - 1))" by (simp add: unat_minus_one unat_gt_0)
    show ?thesis
      using False
    proof (cases rule: launch_ready_step [of slots env i ids st])
      case (started st1 n f)
      then show ?thesis
        using Cons.IH [of "slots - 1" st1] count_edit_Suc [of active_node i f "snd st"] u by simp
    next
      case (refused st1 f)
      moreover have "active_count (edit_node i f (snd st)) \<le> active_count (snd st)"
        using refused(3) by (intro count_edit_le) (simp add: active_node_def)
      ultimately show ?thesis
        using Cons.IH [of slots st1] by simp
    qed
  qed simp
qed simp

lemma active_finish: "active_count (snd (finish_node env i st)) \<le> active_count (snd st)"
proof -
  obtain sh spec where st: "st = (sh, spec)" by force
  show ?thesis
  proof (cases "gs_node i spec = None \<or> (\<exists>n. gs_node i spec = Some n \<and> gn_status n = NDone)")
    case False
    then obtain n where n: "gs_node i spec = Some n" "gn_status n \<noteq> NDone" by auto
    then obtain s d where s: "s = NDone \<or> s = NBlocked"
      and e: "snd (finish_node env i (sh, spec)) = edit_node i (\<lambda>_. settled sh n s d) spec"
      using finish_node_cases [OF n] by metis
    have "active_count (edit_node i (\<lambda>_. settled sh n s d) spec) \<le> active_count spec"
      using s by (intro count_edit_le) (auto simp: active_node_def)
    then show ?thesis by (simp add: st e)
  qed (simp add: st finish_node_skip)
qed

lemma active_finish_all: "active_count (snd (fold (finish_node env) js st)) \<le> active_count (snd st)"
proof (induction js arbitrary: st)
  case (Cons i js)
  have "active_count (snd (fold (finish_node env) js (finish_node env i st))) \<le> active_count (snd (finish_node env i st))"
    by (rule Cons.IH)
  also have "\<dots> \<le> active_count (snd st)" by (rule active_finish)
  finally show ?case by simp
qed simp

lemma active_sync: "active_count (snd (sync_node_states env st)) \<le> active_count (snd st)"
proof -
  obtain sh spec where st: "st = (sh, spec)" by force
  obtain sh' ns ids where y: "sync_nodes env (gs_name spec) (gs_review_iterations spec) (gs_nodes spec) sh = (sh', ns, ids)"
    by (metis prod_cases3)
  have "length (filter active_node ms') \<le> length (filter active_node ms)"
    if "list_all2 (\<lambda>n n'. gn_id n' = gn_id n \<and> gn_deps n' = gn_deps n \<and> (gn_status n \<noteq> NRunning \<longrightarrow> n' = n) \<and>
      (gn_status n = NRunning \<longrightarrow> gn_status n' \<noteq> NPending \<and> gn_status n' \<noteq> NDone)) ms ms'" for ms ms'
    using that by (induction rule: list_all2_induct) (auto simp: active_node_def)
  then have "active_count (spec\<lparr> gs_nodes := ns \<rparr>) \<le> active_count spec"
    using sync_nodes_facts [OF y] by (simp add: count_nodes_def)
  then show ?thesis
    using active_finish_all [of env ids "(sh', spec\<lparr> gs_nodes := ns \<rparr>)"] by (simp add: st sync_node_states_def y)
qed

lemma free_slots_bound:
  assumes "active_count spec \<le> unat (gs_max_concurrency spec)"
  shows "active_count spec + unat (free_slots spec) = unat (gs_max_concurrency spec)"
proof -
  have c: "unat (of_nat (active_count spec) :: u32) = active_count spec"
    using le_less_trans [OF assms unsigned_less [of "gs_max_concurrency spec"]] by (simp add: unat_of_nat take_bit_nat_eq_self)
  have "of_nat (active_count spec) \<le> gs_max_concurrency spec" using assms c by (simp add: word_le_nat_alt)
  then show ?thesis using c by (simp add: free_slots_def Let_def count_nodes_def [symmetric] unat_sub assms)
qed

end
