(* ===== verification/Graph_Proposal_Facts.thy ===== *)
theory Graph_Proposal_Facts imports Graph_Proposal begin

text \<open>
  Correctness of the plan check: Kahn's loop pops every node of an acyclic plan and stops short on
  a cyclic one, whatever order the hash map yields, and its counters never underflow.
\<close>

section \<open>The loop invariant\<close>

text \<open>
  \<open>ps\<close> are the identifiers popped so far and \<open>q\<close> the queue. Every counter is the number of
  dependencies not popped yet, the nodes at zero are exactly those popped or queued, and \<open>rank\<close>
  orders the popped nodes after their dependencies.
\<close>

definition pending :: "rstr set \<Rightarrow> proposal_node \<Rightarrow> nat" where
  "pending ps n = card (set (pn_deps n) - ps)"

definition kahn_inv :: "proposal_node list \<Rightarrow> rstr set \<Rightarrow> indegrees \<Rightarrow> rstr list \<Rightarrow> bool" where
  "kahn_inv ns ps ind q \<longleftrightarrow>
     ps \<subseteq> pn_id ` set ns \<and> distinct q \<and> set q \<inter> ps = {} \<and>
     (\<forall>n \<in> set ns. ind (pn_id n) = pending ps n) \<and>
     set q = pn_id ` {n \<in> set ns. pending ps n = 0} - ps \<and>
     (\<exists>rank :: rstr \<Rightarrow> nat. (\<forall>p \<in> ps. rank p < card ps) \<and>
        (\<forall>n \<in> set ns. pn_id n \<in> ps \<longrightarrow> (\<forall>d \<in> set (pn_deps n). d \<in> ps \<and> rank d < rank (pn_id n))))"

lemma plan_shapeD:
  assumes "plan_shape ns"
  shows "distinct (map pn_id ns)"
    and "n \<in> set ns \<Longrightarrow> set (pn_deps n) \<subseteq> pn_id ` set ns"
    and "n \<in> set ns \<Longrightarrow> pn_id n \<notin> set (pn_deps n)"
    and "n \<in> set ns \<Longrightarrow> distinct (pn_deps n)"
  using assms by (auto simp: plan_shape_def)

lemma pending_pop:
  "i \<notin> ps \<Longrightarrow> pending (insert i ps) n = (if i \<in> set (pn_deps n) then pending ps n - 1 else pending ps n)"
proof -
  assume "i \<notin> ps"
  have "set (pn_deps n) - insert i ps = (set (pn_deps n) - ps) - {i}" by blast
  with \<open>i \<notin> ps\<close> show ?thesis by (simp add: pending_def card_Diff_singleton_if)
qed

lemma pending_pos: "i \<in> set (pn_deps n) \<Longrightarrow> i \<notin> ps \<Longrightarrow> 0 < pending ps n"
  by (auto simp: pending_def card_gt_0_iff)

text \<open>
  The inner loop: popping \<open>i\<close> lowers exactly the counters of the nodes depending on it and queues
  those that reach zero, in the order of the plan.
\<close>

lemma relax_spec:
  assumes "distinct (map pn_id ms)" and "i \<notin> ps"
    and "\<forall>m \<in> set ms. ind (pn_id m) = pending ps m"
  shows "\<exists>ind'. relax i ms ind q =
      Some (ind', q @ map pn_id (filter (\<lambda>m. i \<in> set (pn_deps m) \<and> pending (insert i ps) m = 0) ms)) \<and>
    (\<forall>m \<in> set ms. ind' (pn_id m) = pending (insert i ps) m) \<and>
    (\<forall>k. k \<notin> pn_id ` set ms \<longrightarrow> ind' k = ind k)"
  using assms(1,3)
proof (induction ms arbitrary: ind q)
  case Nil
  then show ?case by simp
next
  case (Cons m ms)
  show ?case
  proof (cases "i \<in> set (pn_deps m)")
    case False
    have "\<forall>m' \<in> set ms. ind (pn_id m') = pending ps m'" "distinct (map pn_id ms)"
      using Cons.prems by simp_all
    then obtain ind' where r: "relax i ms ind q =
        Some (ind', q @ map pn_id (filter (\<lambda>m. i \<in> set (pn_deps m) \<and> pending (insert i ps) m = 0) ms))"
      "\<forall>m \<in> set ms. ind' (pn_id m) = pending (insert i ps) m" "\<forall>k. k \<notin> pn_id ` set ms \<longrightarrow> ind' k = ind k"
      using Cons.IH by blast
    have "ind' (pn_id m) = pending (insert i ps) m"
      using r(3) Cons.prems False pending_pop [OF assms(2)] by simp
    with r False show ?thesis by simp
  next
    case True
    let ?ind = "ind(pn_id m := ind (pn_id m) - 1)"
    let ?q = "if ?ind (pn_id m) = 0 then q @ [pn_id m] else q"
    have pos: "ind (pn_id m) \<noteq> 0" using Cons.prems(2) pending_pos [OF True assms(2)] by simp
    have new: "?ind (pn_id m) = pending (insert i ps) m"
      using Cons.prems(2) True pending_pop [OF assms(2)] by simp
    have "pn_id m' \<noteq> pn_id m" if "m' \<in> set ms" for m' using Cons.prems(1) imageI [OF that, of pn_id] by auto
    then have "\<forall>m' \<in> set ms. ?ind (pn_id m') = pending ps m'" using Cons.prems(2) by simp
    moreover have "distinct (map pn_id ms)" using Cons.prems(1) by simp
    ultimately obtain ind' where r: "relax i ms ?ind ?q =
        Some (ind', ?q @ map pn_id (filter (\<lambda>m. i \<in> set (pn_deps m) \<and> pending (insert i ps) m = 0) ms))"
      "\<forall>m \<in> set ms. ind' (pn_id m) = pending (insert i ps) m" "\<forall>k. k \<notin> pn_id ` set ms \<longrightarrow> ind' k = ?ind k"
      using Cons.IH by blast
    have "relax i (m # ms) ind q = relax i ms ?ind ?q" using True pos by (simp add: Let_def)
    moreover have "ind' (pn_id m) = pending (insert i ps) m"
      using r(3) Cons.prems(1) new by simp
    ultimately show ?thesis using r True new by auto
  qed
qed

lemma kahn_step:
  assumes "plan_shape ns" and "kahn_inv ns ps ind q" and "q \<noteq> []"
  shows "\<exists>ind' q'. relax (last q) ns ind (butlast q) = Some (ind', q') \<and>
    kahn_inv ns (insert (last q) ps) ind' q' \<and> last q \<notin> ps \<and> last q \<in> pn_id ` set ns"
proof -
  let ?i = "last q" and ?ps = "insert (last q) ps"
  from assms(2) have inv: "ps \<subseteq> pn_id ` set ns" "distinct q" "set q \<inter> ps = {}"
    "\<forall>n \<in> set ns. ind (pn_id n) = pending ps n"
    "set q = pn_id ` {n \<in> set ns. pending ps n = 0} - ps" by (auto simp: kahn_inv_def)
  have q: "q = butlast q @ [?i]" using assms(3) by simp
  then have iq: "?i \<in> set q" "?i \<notin> set (butlast q)" "set q = insert ?i (set (butlast q))" "distinct (butlast q)"
    using inv(2) by (metis in_set_conv_decomp, metis distinct_append disjoint_iff list.set_intros(1),
        metis Un_insert_right list.simps(15) set_append sup_bot.right_neutral empty_set, metis distinct_butlast)
  with inv(3,5) have i: "?i \<notin> ps" "?i \<in> pn_id ` set ns" by blast+
  from iq(1) inv(5) obtain m where m: "m \<in> set ns" "pn_id m = ?i" "pending ps m = 0" by auto
  have deps_m: "set (pn_deps m) \<subseteq> ps" using m(3) by (auto simp: pending_def)
  let ?new = "map pn_id (filter (\<lambda>m. ?i \<in> set (pn_deps m) \<and> pending ?ps m = 0) ns)"
  from relax_spec [OF plan_shapeD(1) [OF assms(1)] i(1) inv(4)] obtain ind' where
    r: "relax ?i ns ind (butlast q) = Some (ind', butlast q @ ?new)"
    "\<forall>n \<in> set ns. ind' (pn_id n) = pending ?ps n" by blast
  have fin: "finite ps" using inv(1) finite_subset by blast
  have zero: "pending ps n = 0 \<Longrightarrow> ?i \<notin> set (pn_deps n)" for n
    using pending_pos [OF _ i(1), of n] by auto
  have uniq: "n = n'" if "n \<in> set ns" "n' \<in> set ns" "pn_id n = pn_id n'" for n n'
    using plan_shapeD(1) [OF assms(1)] that by (simp add: distinct_map inj_on_def)
  have q': "set (butlast q @ ?new) = pn_id ` {n \<in> set ns. pending ?ps n = 0} - ?ps"
  proof (rule set_eqI, rule iffI)
    fix k assume "k \<in> set (butlast q @ ?new)"
    then consider "k \<in> set (butlast q)" | n where "n \<in> set ns" "k = pn_id n" "?i \<in> set (pn_deps n)" "pending ?ps n = 0"
      by auto
    then show "k \<in> pn_id ` {n \<in> set ns. pending ?ps n = 0} - ?ps"
    proof cases
      case 1
      then have k: "k \<in> set q" "k \<noteq> ?i" using iq by auto
      then obtain n where n: "n \<in> set ns" "k = pn_id n" "pending ps n = 0" "k \<notin> ps" using inv(5) by auto
      then have "pending ?ps n = 0" using zero pending_pop [OF i(1), of n] by simp
      with n k show ?thesis by auto
    next
      case 2
      have "pn_id n \<notin> ps"
      proof
        assume "pn_id n \<in> ps"
        with assms(2) 2 have "?i \<in> ps" unfolding kahn_inv_def by blast
        with i(1) show False by simp
      qed
      moreover have "pn_id n \<noteq> ?i" using plan_shapeD(3) [OF assms(1) 2(1)] 2(3) by auto
      ultimately show ?thesis using 2 by auto
    qed
  next
    fix k assume "k \<in> pn_id ` {n \<in> set ns. pending ?ps n = 0} - ?ps"
    then obtain n where n: "n \<in> set ns" "k = pn_id n" "pending ?ps n = 0" "k \<noteq> ?i" "k \<notin> ps" by auto
    show "k \<in> set (butlast q @ ?new)"
    proof (cases "?i \<in> set (pn_deps n)")
      case True
      with n show ?thesis by auto
    next
      case False
      then have "pending ps n = 0" using n(3) pending_pop [OF i(1), of n] by simp
      then have "k \<in> set q" using n inv(5) by auto
      with n(4) iq(3) show ?thesis by auto
    qed
  qed
  have disj: "set (butlast q) \<inter> set ?new = {}"
  proof -
    have "k \<notin> set (butlast q)" if k: "k \<in> set ?new" for k
    proof
      assume "k \<in> set (butlast q)"
      then have "k \<in> set q" using iq by auto
      then obtain n where n: "n \<in> set ns" "k = pn_id n" "pending ps n = 0" using inv(5) by auto
      from k obtain n' where "n' \<in> set ns" "k = pn_id n'" "?i \<in> set (pn_deps n')" by auto
      with n uniq zero show False by metis
    qed
    then show ?thesis by blast
  qed
  have "distinct ?new"
    using plan_shapeD(1) [OF assms(1)] by (simp add: distinct_map_filter)
  with disj iq(4) have d: "distinct (butlast q @ ?new)" by simp
  obtain rank :: "rstr \<Rightarrow> nat" where rank: "\<forall>p \<in> ps. rank p < card ps"
    "\<forall>n \<in> set ns. pn_id n \<in> ps \<longrightarrow> (\<forall>d \<in> set (pn_deps n). d \<in> ps \<and> rank d < rank (pn_id n))"
    using assms(2) unfolding kahn_inv_def by blast
  let ?rank = "rank(?i := card ps)"
  have "\<forall>p \<in> ?ps. ?rank p < card ?ps" using rank(1) i(1) fin by auto
  moreover have "\<forall>n \<in> set ns. pn_id n \<in> ?ps \<longrightarrow> (\<forall>d \<in> set (pn_deps n). d \<in> ?ps \<and> ?rank d < ?rank (pn_id n))"
  proof (intro ballI impI)
    fix n d assume n: "n \<in> set ns" "pn_id n \<in> ?ps" "d \<in> set (pn_deps n)"
    show "d \<in> ?ps \<and> ?rank d < ?rank (pn_id n)"
    proof (cases "pn_id n = ?i")
      case True
      then have "n = m" using uniq n(1) m by simp
      with n(3) deps_m i(1) rank(1) True show ?thesis by auto
    next
      case False
      with n rank(2) i(1) show ?thesis by auto
    qed
  qed
  ultimately have "kahn_inv ns ?ps ind' (butlast q @ ?new)"
    unfolding kahn_inv_def using inv(1) i(2) d q' r(2) by (intro conjI exI [of _ ?rank]) blast+
  with r(1) i show ?thesis by blast
qed

lemma kahn_run:
  assumes "plan_shape ns"
  shows "kahn_inv ns ps ind q \<Longrightarrow> seen = card ps \<Longrightarrow>
    \<exists>ps' ind'. kahn ns ind q seen = Some (card ps') \<and> kahn_inv ns ps' ind' []"
  using assms
proof (induction ns ind q seen arbitrary: ps rule: kahn.induct)
  case (1 ns ind q seen)
  show ?case
  proof (cases "q = []")
    case True
    with 1(2,3) show ?thesis by (subst kahn.simps) auto
  next
    case False
    from kahn_step [OF 1(4) 1(2) False] obtain ind' q' where s:
      "relax (last q) ns ind (butlast q) = Some (ind', q')" "kahn_inv ns (insert (last q) ps) ind' q'"
      "last q \<notin> ps" by blast
    have "ps \<subseteq> pn_id ` set ns" using 1(2) unfolding kahn_inv_def by blast
    then have "finite ps" by (rule finite_subset) simp
    then have "seen + 1 = card (insert (last q) ps)" using 1(3) s(3) by simp
    from 1(1) [OF False s(1) refl s(2) this 1(4)] show ?thesis
      using False s(1) by (subst kahn.simps) simp
  qed
qed

lemma kahn_start:
  assumes "plan_shape ns" and "mset q = mset (filter (\<lambda>i. initial_indegree ns i = 0) (map pn_id ns))"
  shows "kahn_inv ns {} (initial_indegree ns) q"
proof -
  have ind: "initial_indegree ns (pn_id n) = pending {} n" if "n \<in> set ns" for n
    using initial_indegree_eq [OF plan_shapeD(1) [OF assms(1)] that] distinct_card [OF plan_shapeD(4) [OF assms(1) that]]
    by (simp add: pending_def)
  have "distinct q"
    using mset_eq_imp_distinct_iff [OF assms(2)] plan_shapeD(1) [OF assms(1)] by simp
  moreover have "set q = pn_id ` {n \<in> set ns. pending {} n = 0}"
    using mset_eq_setD [OF assms(2)] ind by auto
  ultimately show ?thesis using ind by (simp add: kahn_inv_def)
qed

section \<open>What the count means\<close>

lemma depends_finite: "finite (depends ns)"
proof -
  have "depends ns = (\<Union>n \<in> set ns. (\<lambda>d. (d, pn_id n)) ` set (pn_deps n))"
    by (auto simp: depends_def)
  then show ?thesis by simp
qed

lemma card_popped_eq: "distinct (map pn_id ns) \<Longrightarrow> card (pn_id ` set ns) = length ns"
  using distinct_card [of "map pn_id ns"] by simp

lemma kahn_full_acyclic:
  assumes "kahn_inv ns (pn_id ` set ns) ind []"
  shows "acyclic (depends ns)"
proof -
  from assms have "\<exists>rank :: rstr \<Rightarrow> nat. (\<forall>p \<in> pn_id ` set ns. rank p < card (pn_id ` set ns)) \<and>
      (\<forall>n \<in> set ns. pn_id n \<in> pn_id ` set ns \<longrightarrow>
        (\<forall>d \<in> set (pn_deps n). d \<in> pn_id ` set ns \<and> rank d < rank (pn_id n)))"
    unfolding kahn_inv_def by (elim conjE)
  then obtain rank :: "rstr \<Rightarrow> nat" where r: "\<forall>n \<in> set ns. pn_id n \<in> pn_id ` set ns \<longrightarrow>
      (\<forall>d \<in> set (pn_deps n). d \<in> pn_id ` set ns \<and> rank d < rank (pn_id n))" by (elim exE conjE)
  have "rank d < rank (pn_id n)" if "n \<in> set ns" "d \<in> set (pn_deps n)" for n d
    using r that(1) imageI [OF that(1), of pn_id] that(2) by simp
  then have "depends ns \<subseteq> measure rank" by (auto simp: depends_def)
  then show ?thesis by (rule wf_acyclic [OF wf_subset [OF wf_measure]])
qed

lemma kahn_short_cyclic:
  assumes "plan_shape ns" and "kahn_inv ns ps ind []" and "ps \<noteq> pn_id ` set ns"
  shows "\<not> acyclic (depends ns)"
proof
  assume "acyclic (depends ns)"
  then have wf: "wf (depends ns)" by (rule finite_acyclic_wf [OF depends_finite])
  from assms(2,3) obtain x where "x \<in> pn_id ` set ns - ps" unfolding kahn_inv_def by blast
  from wfE_min [OF wf this] obtain z where z: "z \<in> pn_id ` set ns - ps"
    "\<And>y. (y, z) \<in> depends ns \<Longrightarrow> y \<notin> pn_id ` set ns - ps" by blast
  then obtain n where n: "n \<in> set ns" "z = pn_id n" "z \<notin> ps" by blast
  have "pending ps n \<noteq> 0" using assms(2) n unfolding kahn_inv_def by auto
  then obtain d where d: "d \<in> set (pn_deps n)" "d \<notin> ps" by (auto simp: pending_def card_eq_0_iff)
  then have "(d, z) \<in> depends ns" using n by (auto simp: depends_def)
  with z(2) d(2) plan_shapeD(2) [OF assms(1) n(1)] d(1) show False by blast
qed

text \<open>So the loop pops as many nodes as there are exactly when the plan has no cycle.\<close>

lemma kahn_count:
  assumes "plan_shape ns" and "mset q = mset (filter (\<lambda>i. initial_indegree ns i = 0) (map pn_id ns))"
  shows "\<exists>seen. kahn ns (initial_indegree ns) q 0 = Some seen \<and> (seen = length ns \<longleftrightarrow> acyclic (depends ns))"
proof -
  from kahn_run [OF assms(1) kahn_start [OF assms], of 0] obtain ps ind where
    k: "kahn ns (initial_indegree ns) q 0 = Some (card ps)" "kahn_inv ns ps ind []" by auto
  have sub: "ps \<subseteq> pn_id ` set ns" using k(2) unfolding kahn_inv_def by blast
  have len: "card (pn_id ` set ns) = length ns" by (rule card_popped_eq [OF plan_shapeD(1) [OF assms(1)]])
  have "card ps = length ns \<longleftrightarrow> acyclic (depends ns)"
  proof
    assume "card ps = length ns"
    then have "ps = pn_id ` set ns" using card_subset_eq [OF _ sub] len by simp
    with k(2) show "acyclic (depends ns)" using kahn_full_acyclic by blast
  next
    assume "acyclic (depends ns)"
    then have "ps = pn_id ` set ns" using kahn_short_cyclic [OF assms(1) k(2)] by blast
    then show "card ps = length ns" using len by simp
  qed
  with k(1) show ?thesis by blast
qed

section \<open>Properties\<close>

lemma parse_shape:
  assumes "ns \<noteq> []" and "length ns \<le> 50" and "plan_shape ns" and "mset (ord xs) = mset xs"
    and "xs = filter (\<lambda>i. initial_indegree ns i = 0) (map pn_id ns)"
  shows "parse_proposal ord (Inr ns) =
    Some (if acyclic (depends ns) then Inr (map to_graph_node ns) else Inl DependencyCycle)"
proof -
  have "check_nodes (map pn_id ns) ns = None"
    using assms(3) by (simp add: check_nodes_None plan_shape_def)
  moreover have "card (set (map pn_id ns)) = length ns"
    using card_popped_eq [OF plan_shapeD(1) [OF assms(3)]] by simp
  moreover from kahn_count [OF assms(3), of "ord xs"] assms(4,5) obtain seen where
    "kahn ns (initial_indegree ns) (ord xs) 0 = Some seen" "seen = length ns \<longleftrightarrow> acyclic (depends ns)" by auto
  ultimately show ?thesis
    using assms(1,2,5) by (simp add: parse_proposal_def Let_def)
qed

lemma parse_no_shape:
  assumes "\<not> (ns \<noteq> [] \<and> length ns \<le> 50 \<and> plan_shape ns)"
  shows "\<exists>e. parse_proposal ord (Inr ns) = Some (Inl e) \<and> e \<noteq> DependencyCycle"
proof -
  have "card (set (map pn_id ns)) = length ns \<longleftrightarrow> distinct (map pn_id ns)"
    by (metis card_distinct distinct_card length_map)
  moreover have "check_deps ids i seen ds \<noteq> Some DependencyCycle" for ids i seen ds
    by (induction ds arbitrary: seen) auto
  then have "check_nodes ids ns \<noteq> Some DependencyCycle" for ids
    by (induction ns) (auto split: option.split)
  ultimately show ?thesis
    using assms check_nodes_None [of "map pn_id ns" ns]
    by (auto simp: parse_proposal_def Let_def plan_shape_def split: option.split)
qed

text \<open>C1. A plan is accepted exactly when it has 1 to 50 nodes with distinct valid identifiers and
  non-blank goals, every dependency names another node of the plan once, and the dependencies have
  no cycle. The answer does not depend on the hash map's order, the counters never underflow, and
  "dependency cycle detected" is reported exactly when the cycle is the only thing wrong.\<close>

theorem parse_proposal_correct:
  assumes "\<forall>xs. mset (ord xs) = mset xs"
  shows "parse_proposal ord (Inr ns) \<noteq> None \<and>
    (plan_ok ns \<longleftrightarrow> parse_proposal ord (Inr ns) = Some (Inr (map to_graph_node ns))) \<and>
    (\<not> plan_ok ns \<longleftrightarrow> (\<exists>e. parse_proposal ord (Inr ns) = Some (Inl e))) \<and>
    (parse_proposal ord (Inr ns) = Some (Inl DependencyCycle) \<longleftrightarrow>
       ns \<noteq> [] \<and> length ns \<le> 50 \<and> plan_shape ns \<and> \<not> acyclic (depends ns))"
proof (cases "ns \<noteq> [] \<and> length ns \<le> 50 \<and> plan_shape ns")
  case True
  then have "parse_proposal ord (Inr ns) =
      Some (if acyclic (depends ns) then Inr (map to_graph_node ns) else Inl DependencyCycle)"
    using assms by (intro parse_shape) simp_all
  with True show ?thesis by (auto simp: plan_ok_def)
next
  case False
  then obtain e where "parse_proposal ord (Inr ns) = Some (Inl e)" "e \<noteq> DependencyCycle"
    using parse_no_shape by blast
  with False show ?thesis by (auto simp: plan_ok_def)
qed

definition plan_entry :: "rstr \<Rightarrow> rstr list \<Rightarrow> proposal_node" where
  "plan_entry i ds = \<lparr> pn_id = i, pn_title = [], pn_goal = ''x'', pn_deps = ds, pn_runner = None, pn_pos = None \<rparr>"

lemma depends_simps [simp]:
  "depends [] = {}" "depends (n # ns) = (\<lambda>d. (d, pn_id n)) ` set (pn_deps n) \<union> depends ns"
  by (auto simp: depends_def)

lemma parse_proposal_correct_witness:
  "parse_proposal rev (Inr [plan_entry ''a'' [''b''], plan_entry ''b'' [''a'']]) = Some (Inl DependencyCycle)"
proof -
  let ?ns = "[plan_entry ''a'' [''b''], plan_entry ''b'' [''a'']]"
  have "(''a'', ''b'') \<in> depends ?ns" "(''b'', ''a'') \<in> depends ?ns"
    by (simp_all add: plan_entry_def)
  then have "(''a'', ''a'') \<in> (depends ?ns)\<^sup>+" by (meson r_into_trancl trancl_trans)
  then have "\<not> acyclic (depends ?ns)" unfolding acyclic_def by blast
  moreover have "trim ''x'' \<noteq> []" by code_simp
  moreover have "plan_shape ?ns"
    using \<open>trim ''x'' \<noteq> []\<close>
    by (auto simp: plan_shape_def plan_entry_def valid_node_id_def is_ascii_lower_def)
  ultimately show ?thesis using parse_proposal_correct [of rev ?ns] by simp
qed

end
