(* ===== verification/Graph_Props.thy ===== *)
theory Graph_Props imports Graph_Facts Graph_Proposal_Facts begin

text \<open>
  The invariant of a goal graph - well-formed plan, bounded concurrency, dependencies before dependents,
  phases that mean what they say - and that every tick and every operation keeps it.
\<close>

section \<open>Plans\<close>

definition order_ok :: "env \<Rightarrow> bool" where
  "order_ok env \<longleftrightarrow> (\<forall>xs. mset (en_order env xs) = mset xs)"

definition plan_edges :: "(rstr \<times> rstr list) list \<Rightarrow> (rstr \<times> rstr) set" where
  "plan_edges p = {(d, i). \<exists>ds. (i, ds) \<in> set p \<and> d \<in> set ds}"

definition well_planned :: "(rstr \<times> rstr list) list \<Rightarrow> bool" where
  "well_planned p \<longleftrightarrow> length p \<le> 50 \<and> distinct (map fst p) \<and> acyclic (plan_edges p) \<and>
     (\<forall>(i, ds) \<in> set p. set ds \<subseteq> fst ` set p)"

lemma well_planned_ids: "well_planned (plan spec) \<Longrightarrow> ids_ok spec"
  by (simp add: well_planned_def ids_ok_def map_fst_plan)

lemma well_planned_Nil [simp]: "well_planned []"
  by (simp add: well_planned_def plan_edges_def acyclic_def)

lemma plan_edges_proposal: "plan_edges (map (\<lambda>n. (pn_id n, pn_deps n)) ns) = depends ns"
  by (auto simp: plan_edges_def depends_def)

lemma to_graph_node_fields [simp]:
  "gn_id (to_graph_node n) = pn_id n" "gn_deps (to_graph_node n) = pn_deps n" "gn_status (to_graph_node n) = NPending"
  by (simp_all add: to_graph_node_def default_node_def)

lemma read_plan_ok:
  assumes "order_ok env" and "read_plan env spec sh = (sh', Inr ns)"
  shows "well_planned (map (\<lambda>n. (gn_id n, gn_deps n)) ns)" "ns \<noteq> []" "n \<in> set ns \<Longrightarrow> gn_status n = NPending"
proof -
  from assms(2) obtain ps where f: "en_plan env (sh_log sh) (proposal_json spec) = Inr ps"
    and p: "parse_proposal (en_order env) (Inr ps) = Some (Inr ns)"
    by (cases "en_plan env (sh_log sh) (proposal_json spec)")
      (auto simp: read_plan_def parse_proposal_def split: option.splits)
  have shape: "ps \<noteq> [] \<and> length ps \<le> 50 \<and> plan_shape ps"
    using parse_no_shape [of ps "en_order env"] p by auto
  then have "acyclic (depends ps) \<and> ns = map to_graph_node ps"
    using parse_shape [of ps "en_order env" "filter (\<lambda>i. initial_indegree ps i = 0) (map pn_id ps)"] assms(1) p
    by (simp add: order_ok_def split: if_splits)
  then have "plan_ok ps" and ns: "ns = map to_graph_node ps" using shape by (simp_all add: plan_ok_def)
  then show "well_planned (map (\<lambda>n. (gn_id n, gn_deps n)) ns)" "ns \<noteq> []" "n \<in> set ns \<Longrightarrow> gn_status n = NPending"
    by (auto simp: plan_ok_def plan_shape_def well_planned_def comp_def plan_edges_proposal image_image)
qed

section \<open>The invariant\<close>

definition all_done :: "graph_spec \<Rightarrow> bool" where
  "all_done spec \<longleftrightarrow> (\<forall>n \<in> set (gs_nodes spec). gn_status n = NDone)"

definition phase_ok :: "graph_spec \<Rightarrow> bool" where
  "phase_ok spec \<longleftrightarrow>
     (gs_status spec \<in> {GProposing, GProposed} \<longrightarrow> gs_nodes spec = []) \<and>
     (gs_status spec \<in> {GRunning, GComplete} \<longrightarrow> gs_nodes spec \<noteq> []) \<and>
     (gs_status spec = GComplete \<longrightarrow> all_done spec)"

definition graph_ok :: "rstr set \<Rightarrow> graph_spec \<Rightarrow> bool" where
  "graph_ok A spec \<longleftrightarrow> well_planned (plan spec) \<and> deps_ok A spec \<and>
     gs_max_concurrency spec \<in> {1..8} \<and> active_count spec \<le> unat (gs_max_concurrency spec) \<and> phase_ok spec"

lemma graph_okD:
  assumes "graph_ok A spec"
  shows "well_planned (plan spec)" "deps_ok A spec" "active_count spec \<le> unat (gs_max_concurrency spec)" "phase_ok spec"
    "ids_ok spec" "gs_max_concurrency spec \<in> {1..8}"
  using assms well_planned_ids unfolding graph_ok_def by auto

lemma graph_ok_follows:
  assumes "graph_ok A spec" and "follows spec spec'" and "active_count spec' \<le> active_count spec" and "phase_ok spec'"
  shows "graph_ok A spec'"
  using assms deps_ok_follows [OF graph_okD(2) [OF assms(1)] assms(2)] followsD(1, 2) [OF assms(2)]
  unfolding graph_ok_def by auto

text \<open>Changes that touch neither nodes, limit nor name.\<close>

lemma same_nodes:
  assumes "gs_nodes spec' = gs_nodes spec" and "gs_max_concurrency spec' = gs_max_concurrency spec"
    and "gs_name spec' = gs_name spec"
  shows "follows spec spec'" "active_count spec' = active_count spec" "follows x spec = follows x spec'"
proof -
  have "plan spec' = plan spec" "state_of i spec' = state_of i spec" for i
    using assms by (simp_all add: plan_def state_of_def gs_node_def)
  then show "follows spec spec'" "active_count spec' = active_count spec" "follows x spec = follows x spec'"
    using assms by (auto simp: follows_def count_nodes_def deps_finished_def)
qed

lemma find_map_id: "(\<And>n. gn_id (f n) = gn_id n) \<Longrightarrow> find (\<lambda>n. gn_id n = i) (map f ns) = map_option f (find (\<lambda>n. gn_id n = i) ns)"
  by (induction ns) auto

lemma follows_map:
  assumes "\<And>n. gn_id (f n) = gn_id n" and "\<And>n. gn_deps (f n) = gn_deps n"
    and "\<And>n. gn_status n \<in> {NDone, NPending} \<Longrightarrow> gn_status (f n) = gn_status n"
  shows "follows spec (spec\<lparr> gs_nodes := map f (gs_nodes spec) \<rparr>)"
proof -
  have s: "gs_node i (spec\<lparr> gs_nodes := map f (gs_nodes spec) \<rparr>) = map_option f (gs_node i spec)" for i
    using assms(1) by (simp add: gs_node_def find_map_id)
  have "state_of i (spec\<lparr> gs_nodes := map f (gs_nodes spec) \<rparr>) = state_of i spec"
    if "state_of i spec = Some NDone \<or> state_of i spec = Some NPending" for i
    using that assms(3) by (auto simp: state_of_def s)
  then show ?thesis
    using assms(1, 2) by (auto simp: follows_def plan_def comp_def)
qed

lemma phase_finish: "all_done spec \<Longrightarrow> snd (finish_node env i (sh, spec)) = spec"
  using gs_node_in [of i spec] by (cases "gs_node i spec") (auto simp: finish_node_def all_done_def)

lemma edit_node_status [simp]: "phase_ok (edit_node i f spec) \<longleftrightarrow>
    (gs_status spec \<in> {GProposing, GProposed} \<longrightarrow> gs_nodes spec = []) \<and>
    (gs_status spec \<in> {GRunning, GComplete} \<longrightarrow> gs_nodes spec \<noteq> []) \<and>
    (gs_status spec = GComplete \<longrightarrow> all_done (edit_node i f spec))"
  by (simp add: phase_ok_def)

lemma finish_node_keeps:
  "gs_status (snd (finish_node env i st)) = gs_status (snd st)"
  "gs_nodes (snd (finish_node env i st)) = [] \<longleftrightarrow> gs_nodes (snd st) = []"
proof -
  obtain sh spec where st: "st = (sh, spec)" by force
  have "\<exists>f. snd (finish_node env i (sh, spec)) = edit_node i f spec \<or> snd (finish_node env i (sh, spec)) = spec"
    using finish_node_skip [of i spec env sh] finish_node_cases [of i spec _ env sh]
    by (cases "gs_node i spec") (simp, metis snd_conv)
  then show "gs_status (snd (finish_node env i st)) = gs_status (snd st)"
    "gs_nodes (snd (finish_node env i st)) = [] \<longleftrightarrow> gs_nodes (snd st) = []"
    by (auto simp: st)
qed

lemma finish_keeps_ok:
  assumes "graph_ok A spec" and "state_of i spec \<noteq> Some NPending"
  shows "graph_ok A (snd (finish_node env i (sh, spec)))"
proof (rule graph_ok_follows [OF assms(1)])
  show "follows spec (snd (finish_node env i (sh, spec)))"
    using follows_finish [OF graph_okD(5) [OF assms(1)] assms(2)] .
  show "active_count (snd (finish_node env i (sh, spec))) \<le> active_count spec"
    using active_finish [of env i "(sh, spec)"] by simp
  have "gs_status spec = GComplete \<Longrightarrow> all_done spec" using graph_okD(4) [OF assms(1)] by (simp add: phase_ok_def)
  then show "phase_ok (snd (finish_node env i (sh, spec)))"
    using graph_okD(4) [OF assms(1)] finish_node_keeps [of env i "(sh, spec)"] phase_finish [of spec env i sh]
    by (auto simp: phase_ok_def)
qed

lemma accept_keeps_ok:
  assumes "graph_ok A spec" and "state_of i spec = Some NPending"
  shows "graph_ok (insert i A) (snd (finish_node env i (sh, spec)))"
proof -
  have "\<not> all_done spec" using assms(2) gs_node_in [of i spec] by (fastforce simp: state_of_def all_done_def)
  then have "phase_ok (snd (finish_node env i (sh, spec)))"
    using graph_okD(4) [OF assms(1)] finish_node_keeps [of env i "(sh, spec)"] by (auto simp: phase_ok_def)
  moreover have "gs_max_concurrency (snd (finish_node env i (sh, spec))) = gs_max_concurrency spec"
    using assms(2) finish_node_cases [of i spec _ env sh] by (fastforce simp: state_of_def)
  moreover have "active_count (snd (finish_node env i (sh, spec))) \<le> active_count spec"
    using active_finish [of env i "(sh, spec)"] by simp
  ultimately show ?thesis
    using assms(1) deps_ok_accept [OF graph_okD(2) [OF assms(1)] assms(2)] by (simp add: graph_ok_def finish_plan)
qed

lemma finish_all_keeps_ok:
  assumes "graph_ok A (snd st)" and "\<forall>i \<in> set js. state_of i (snd st) \<noteq> Some NPending"
  shows "graph_ok A (snd (fold (finish_node env) js st))"
  using assms
proof (induction js arbitrary: st)
  case (Cons i js)
  obtain sh spec where st: "st = (sh, spec)" by force
  have "graph_ok A (snd (finish_node env i st))" using Cons.prems finish_keeps_ok by (simp add: st)
  moreover have "\<forall>j \<in> set js. state_of j (snd (finish_node env i st)) \<noteq> Some NPending"
    using Cons.prems(2) finish_node_not_pending by (simp add: st)
  ultimately show ?case using Cons.IH by simp
qed simp

section \<open>The scheduler keeps it\<close>

lemma finish_all_phase:
  "gs_status (snd (fold (finish_node env) js x)) = gs_status (snd x)"
  "gs_nodes (snd (fold (finish_node env) js x)) = [] \<longleftrightarrow> gs_nodes (snd x) = []"
  by (induction js arbitrary: x) (simp_all add: finish_node_keeps)

lemma sync_keeps_phase:
  "gs_status (snd (sync_node_states env st)) = gs_status (snd st)"
  "gs_nodes (snd (sync_node_states env st)) = [] \<longleftrightarrow> gs_nodes (snd st) = []"
proof -
  obtain sh spec where st: "st = (sh, spec)" by force
  obtain sh' ns ids where y: "sync_nodes env (gs_name spec) (gs_review_iterations spec) (gs_nodes spec) sh = (sh', ns, ids)"
    by (metis prod_cases3)
  have len: "length ns = length (gs_nodes spec)"
    using sync_nodes_facts [OF y] by (auto dest: list_all2_lengthD)
  show "gs_status (snd (sync_node_states env st)) = gs_status (snd st)"
    "gs_nodes (snd (sync_node_states env st)) = [] \<longleftrightarrow> gs_nodes (snd st) = []"
    using len by (auto simp: st sync_node_states_def y finish_all_phase)
qed

lemma launch_keeps_phase:
  "gs_status (snd (launch_ready env slots ids st)) = gs_status (snd st)"
  "gs_nodes (snd (launch_ready env slots ids st)) = [] \<longleftrightarrow> gs_nodes (snd st) = []"
proof -
  have "gs_status (snd (launch_ready env slots ids st)) = gs_status (snd st) \<and>
      (gs_nodes (snd (launch_ready env slots ids st)) = [] \<longleftrightarrow> gs_nodes (snd st) = [])"
  proof (induction ids arbitrary: slots st)
    case (Cons i ids)
    show ?case
    proof (cases "slots = 0")
      case False
      then show ?thesis
        by (cases rule: launch_ready_step [of slots env i ids st]) (simp_all add: Cons.IH)
    qed simp
  qed simp
  then show "gs_status (snd (launch_ready env slots ids st)) = gs_status (snd st)"
    "gs_nodes (snd (launch_ready env slots ids st)) = [] \<longleftrightarrow> gs_nodes (snd st) = []" by auto
qed

abbreviation ready_ids :: "graph_spec \<Rightarrow> rstr list" where
  "ready_ids spec \<equiv> map gn_id (filter (ready_node (done_ids spec)) (gs_nodes spec))"

lemma done_ids_state: "ids_ok spec \<Longrightarrow> d \<in> set (done_ids spec) \<longleftrightarrow> state_of d spec = Some NDone"
  using gs_node_Some [of spec] gs_node_in [of d spec] by (fastforce simp: done_ids_def state_of_def)

lemma ready_launchable:
  assumes "ids_ok spec" and "i \<in> set (ready_ids spec)"
  shows "launchable spec i"
proof -
  from assms(2) obtain n where n: "n \<in> set (gs_nodes spec)" "ready_node (done_ids spec) n" "gn_id n = i" by auto
  then show ?thesis
    using gs_node_Some [OF assms(1) n(1)] done_ids_state [OF assms(1)]
    by (auto simp: launchable_def ready_node_def deps_finished_def list_all_iff)
qed

lemma ready_distinct: "ids_ok spec \<Longrightarrow> distinct (ready_ids spec)"
  by (simp add: ids_ok_def distinct_map_filter)

text \<open>The graph before the final status change of a tick.\<close>

definition after_launch :: "env \<Rightarrow> shared \<times> graph_spec \<Rightarrow> shared \<times> graph_spec" where
  "after_launch env st =
     (let st' = sync_node_states env st in launch_ready env (free_slots (snd st')) (ready_ids (snd st')) st')"

lemma tick_running_cases:
  assumes "gs_nodes (snd st) \<noteq> []"
  shows "snd (tick_running env st) =
    (let synced = snd (sync_node_states env st); launched = snd (after_launch env st) in
     if all_done synced then synced\<lparr> gs_status := GComplete \<rparr>
     else if stalled (done_ids synced) launched then launched\<lparr> gs_status := GPaused \<rparr> else launched)"
  using assms
  by (simp add: tick_running_def after_launch_def Let_def all_done_def list_all_iff split: prod.splits)

lemma after_launch_facts:
  assumes "graph_ok A (snd st)"
  shows "follows (snd (sync_node_states env st)) (snd (after_launch env st))"
    "active_count (snd (after_launch env st)) \<le> unat (gs_max_concurrency (snd st))"
    "ids_ok (snd (sync_node_states env st))"
proof -
  let ?s = "snd (sync_node_states env st)"
  note f = follows_sync [OF graph_okD(5) [OF assms], of env]
  show ids: "ids_ok ?s" using ids_ok_plan [OF followsD(1) [OF f]] graph_okD(5) [OF assms] by simp
  show "follows ?s (snd (after_launch env st))"
    unfolding after_launch_def Let_def using ids ready_distinct [OF ids] ready_launchable [OF ids]
    by (intro follows_launch_ready) auto
  have "active_count ?s \<le> unat (gs_max_concurrency ?s)"
    using active_sync [of env st] graph_okD(3) [OF assms] followsD(2) [OF f] by simp
  then show "active_count (snd (after_launch env st)) \<le> unat (gs_max_concurrency (snd st))"
    using active_launch_ready [of env "free_slots ?s" "ready_ids ?s" "sync_node_states env st"]
      free_slots_bound [of ?s] followsD(2) [OF f] by (simp add: after_launch_def Let_def)
qed

lemma tick_running_keeps:
  assumes "graph_ok A spec" and "gs_status spec = GRunning"
  shows "graph_ok A (snd (tick_running env (sh, spec)))"
proof -
  let ?st = "(sh, spec)"
  let ?s = "snd (sync_node_states env ?st)" and ?l = "snd (after_launch env ?st)"
  have ne: "gs_nodes spec \<noteq> []" using graph_okD(4) [OF assms(1)] assms(2) by (simp add: phase_ok_def)
  note f = follows_sync [of ?st env, simplified, OF graph_okD(5) [OF assms(1)]]
  note l = after_launch_facts [of A ?st env, simplified, OF assms(1)]
  have s: "graph_ok A ?s"
    using active_sync [of env ?st] sync_keeps_phase [of env ?st] assms(2) ne
    by (intro graph_ok_follows [OF assms(1) f]) (simp_all add: phase_ok_def)
  have k: "gs_status ?l = GRunning" "gs_nodes ?l \<noteq> []"
    using launch_keeps_phase [of env] sync_keeps_phase [of env ?st] assms(2) ne by (simp_all add: after_launch_def Let_def)
  have gl: "graph_ok A (?l\<lparr> gs_status := x \<rparr>)" if "x = GRunning \<or> x = GPaused" for x
    unfolding graph_ok_def
    using graph_okD(6) [OF assms(1)] deps_ok_follows [OF graph_okD(2) [OF s], of "?l\<lparr> gs_status := x \<rparr>"] l(1) l(2) followsD(1, 2) [OF l(1)]
      followsD(1, 2) [OF f] graph_okD(1) [OF assms(1)] same_nodes [of "?l\<lparr> gs_status := x \<rparr>" ?l] that k
    by (auto simp: phase_ok_def plan_def)
  have "graph_ok A (?s\<lparr> gs_status := GComplete \<rparr>)" if "all_done ?s"
    using that sync_keeps_phase [of env ?st] ne same_nodes [of "?s\<lparr> gs_status := GComplete \<rparr>" ?s]
    by (intro graph_ok_follows [OF s]) (auto simp: phase_ok_def all_done_def)
  moreover have "graph_ok A ?l" using gl [of GRunning] k(1) by (metis graph_spec.surjective graph_spec.update_convs(4))
  ultimately show ?thesis
    using gl [of GPaused] ne by (simp add: tick_running_cases Let_def)
qed

lemma started_ok:
  assumes "order_ok env" and "read_plan env x y = (z, Inr ns)" and "gs_max_concurrency spec \<in> {1..8}"
  shows "graph_ok A (spec\<lparr> gs_nodes := ns, gs_status := GRunning \<rparr>)"
proof -
  note r = read_plan_ok [OF assms(1, 2)]
  have "\<not> active_node n" "gn_status n = NPending" if "n \<in> set ns" for n
    using r(3) [OF that] by (simp_all add: active_node_def)
  then have "filter active_node ns = []" by (simp add: filter_empty_conv)
  moreover have "deps_ok A (spec\<lparr> gs_nodes := ns, gs_status := GRunning \<rparr>)"
  proof -
    have "state_of i (spec\<lparr> gs_nodes := ns, gs_status := GRunning \<rparr>) = Some NPending"
      if i: "i \<in> gn_id ` set ns" for i
    proof -
      obtain n where n: "find (\<lambda>n. gn_id n = i) ns = Some n"
        using i by (cases "find (\<lambda>n. gn_id n = i) ns") (auto simp: find_None_iff image_iff)
      then have "n \<in> set ns" by (auto simp: find_Some_iff)
      then show ?thesis using n r(3) by (simp add: state_of_def gs_node_def)
    qed
    then show ?thesis by (auto simp: deps_ok_def plan_def)
  qed
  ultimately show ?thesis using r assms(3) by (simp add: graph_ok_def plan_def count_nodes_def phase_ok_def)
qed

lemma tick_proposing_keeps:
  assumes "graph_ok A spec" and "gs_status spec = GProposing" and "order_ok env"
  shows "graph_ok A (snd (tick_proposing env (sh, spec)))"
proof -
  have e: "gs_nodes spec = []" using graph_okD(4) [OF assms(1)] assms(2) by (simp add: phase_ok_def)
  have planned: "graph_ok A (spec\<lparr> gs_nodes := ns, gs_status := GRunning \<rparr>)"
    if "read_plan env x y = (z, Inr ns)" for x y z ns
    using started_ok [OF assms(3) that graph_okD(6) [OF assms(1)]] .
  let ?w = "spec\<lparr> gs_proposal_wait_ticks := gs_proposal_wait_ticks spec + 1 \<rparr>"
  let ?R = "{spec, ?w, spec\<lparr> gs_status := GProposed \<rparr>} \<union>
      {spec\<lparr> gs_nodes := ns, gs_status := GRunning \<rparr> |x y z ns. read_plan env x y = (z, Inr ns)}"
  have "snd (tick_proposing env (sh, spec)) \<in> ?R"
  proof (cases "en_mtime env (sh_log sh) (proposal_json spec)")
    case None
    then show ?thesis by (simp add: tick_proposing_def Let_def)
  next
    case (Some m)
    obtain s1 r1 where r1: "read_plan env spec sh = (s1, r1)" by force
    obtain s2 r2 where r2: "read_plan env spec s1 = (s2, r2)" by force
    show ?thesis
    proof (cases r1)
      case (Inl err)
      then show ?thesis using Some r1 by (simp add: tick_proposing_def Let_def)
    next
      case (Inr ns1)
      then show ?thesis using Some r1 r2
        by (cases r2) (simp add: tick_proposing_def Let_def, fastforce simp add: tick_proposing_def Let_def)
    qed
  qed
  then show ?thesis using planned assms(1) e
    by (auto simp: graph_ok_def plan_def deps_ok_def phase_ok_def count_nodes_def assms(2))
qed

section \<open>The operations keep it\<close>

lemma resume_keeps:
  assumes "graph_ok A spec" and "graph_of name (ensure_loaded env sh) = Some spec"
    and "resume_graph env name sh = (sh', Inr spec')"
  shows "graph_ok A spec'"
proof -
  let ?r = "spec\<lparr> gs_nodes := map resume_node (gs_nodes spec) \<rparr>"
  let ?js = "map gn_id (filter merge_blocked (gs_nodes ?r))"
  have ne: "gs_nodes spec \<noteq> []" and spec': "spec' = (snd (fold (finish_node env) ?js (ensure_loaded env sh, ?r)))\<lparr> gs_status := GRunning \<rparr>"
    using assms(2, 3) by (auto simp: resume_graph_def Let_def split: if_splits prod.splits)
  have f: "follows spec ?r" by (rule follows_map) (auto simp: resume_node_def)
  have "active_count ?r = active_count spec"
    by (auto simp: count_nodes_def filter_map comp_def resume_node_def active_node_def intro!: arg_cong [of _ _ length] filter_cong)
  moreover have "all_done spec \<Longrightarrow> all_done ?r" by (auto simp: all_done_def resume_node_def)
  ultimately have ok: "graph_ok A ?r"
    using f graph_okD(4) [OF assms(1)] ne by (intro graph_ok_follows [OF assms(1)]) (auto simp: phase_ok_def)
  have "state_of i ?r \<noteq> Some NPending" if i: "i \<in> set ?js" for i
  proof -
    from i obtain n where n: "n \<in> set (gs_nodes ?r)" "merge_blocked n" "gn_id n = i" by auto
    then show ?thesis using gs_node_Some [OF graph_okD(5) [OF ok] n(1)] by (simp add: state_of_def merge_blocked_def)
  qed
  then have g: "graph_ok A (snd (fold (finish_node env) ?js (ensure_loaded env sh, ?r)))"
    using ok by (intro finish_all_keeps_ok) auto
  let ?g = "snd (fold (finish_node env) ?js (ensure_loaded env sh, ?r))"
  have "gs_nodes ?g \<noteq> []" using finish_all_phase(2) [of env ?js "(ensure_loaded env sh, ?r)"] ne by simp
  then show ?thesis
    unfolding spec' using same_nodes [of "?g\<lparr> gs_status := GRunning \<rparr>" ?g]
    by (intro graph_ok_follows [OF g]) (simp_all add: phase_ok_def)
qed

lemma restart_keeps:
  assumes "graph_ok A spec"
  shows "graph_ok A (restart_graph (persisted spec))"
proof (rule graph_ok_follows [OF assms])
  let ?m = "spec\<lparr> gs_nodes := map restart_node (gs_nodes spec) \<rparr>"
  let ?r = "restart_graph (persisted spec)"
  have same: "gs_nodes ?r = gs_nodes ?m" "gs_max_concurrency ?r = gs_max_concurrency ?m" "gs_name ?r = gs_name ?m"
    by (simp_all add: restart_graph_def persisted_def Let_def)
  have "follows spec ?m" by (rule follows_map) (auto simp: restart_node_def)
  then show "follows spec ?r" using same_nodes(3) [OF same, of spec] by simp
  have "filter active_node (map restart_node ns) = []" for ns
    by (auto simp: filter_empty_conv active_node_def restart_node_def)
  then show "active_count ?r \<le> active_count spec" using same(1) by (simp add: count_nodes_def)
  have "all_done spec \<Longrightarrow> all_done ?r"
    using same(1) by (auto simp: all_done_def restart_node_def)
  then show "phase_ok ?r"
    using graph_okD(4) [OF assms] same(1)
    by (auto simp: phase_ok_def restart_graph_def persisted_def Let_def)
qed

lemma set_state_keeps:
  assumes "graph_ok A spec" and "graph_of name (ensure_loaded env sh) = Some spec"
    and "set_graph_state env name state sh = (sh', Inr spec')" and "state = GPaused \<or> state = GStopped"
  shows "graph_ok A spec'"
proof -
  have "spec' = spec\<lparr> gs_status := state \<rparr>" using assms(2, 3) by (simp add: set_graph_state_def Let_def)
  then show ?thesis using assms(4) same_nodes [of spec' spec]
    by (intro graph_ok_follows [OF assms(1)]) (auto simp: phase_ok_def)
qed

lemma edit_keeps:
  assumes "graph_ok A spec"
    and "\<And>n. gn_id (f n) = gn_id n \<and> gn_deps (f n) = gn_deps n"
    and "\<And>n. gs_node i spec = Some n \<Longrightarrow> gn_status (f n) = gn_status n \<or> gn_status n = NReview \<and> gn_status (f n) = NRunning"
  shows "graph_ok A (edit_node i f spec)"
proof (cases "gs_node i spec")
  case None
  then show ?thesis using assms(1) by (simp add: edit_node_missing)
next
  case (Some n)
  show ?thesis
  proof (rule graph_ok_follows [OF assms(1)])
    have p: "plan (edit_node i f spec) = plan spec" using assms(2) by (intro plan_edit) auto
    have nd: "gs_node j (edit_node i f spec) = (if j = i then Some (f n) else gs_node j spec)" for j
      using gs_node_edit [of i spec f j] assms(2) gs_node_in Some by fastforce
    have s: "state_of j (edit_node i f spec) = state_of j spec" if "state_of j spec = Some x" "x = NPending \<or> x = NDone" for j x
      using that assms(3) [OF Some] Some by (auto simp: state_of_def nd)
    show "follows spec (edit_node i f spec)"
      using p s by (auto simp: follows_def)
    show "active_count (edit_node i f spec) \<le> active_count spec"
      using assms(3) by (intro count_edit_le) (auto simp: active_node_def)
    have "all_done (edit_node i f spec)" if "all_done spec"
    proof -
      have "gn_status n = NDone" using that gs_node_in [OF Some] by (auto simp: all_done_def)
      then have "gn_status (f n) = NDone" using assms(3) [OF Some] by auto
      have "\<forall>m \<in> set (update_first (\<lambda>n. gn_id n = i) f ns). gn_status m = NDone"
        if "find (\<lambda>n. gn_id n = i) ns = Some n" "\<forall>m \<in> set ns. gn_status m = NDone" for ns
        using that \<open>gn_status (f n) = NDone\<close> by (induction ns) (auto split: if_splits)
      then show ?thesis using that Some by (simp add: all_done_def edit_node_def gs_node_def)
    qed
    then show "phase_ok (edit_node i f spec)" using graph_okD(4) [OF assms(1)] by (auto simp: phase_ok_def)
  qed
qed

end
