(* ===== verification/Graph_Machine.thy ===== *)
theory Graph_Machine imports Graph_Props begin

text \<open>
  A goal graph as a state machine. One step is anything that can happen to a graph: a scheduler tick in
  any environment, an operation of a client, a restart of the program. Reachability and the
  properties of every reachable graph.
\<close>

section \<open>Steps\<close>

text \<open>Every step names the nodes it finishes before their turn. Only \<open>accept_node\<close> can: a workspace keeps its
  link to a node after the node was queued again, and accepting it then finishes a pending node.\<close>

inductive graph_step :: "graph_spec \<Rightarrow> rstr set \<Rightarrow> graph_spec \<Rightarrow> bool" where
  waiting: "gs_status spec = GProposing \<Longrightarrow> order_ok env \<Longrightarrow> graph_step spec {} (snd (tick_proposing env (sh, spec)))"
| running: "gs_status spec = GRunning \<Longrightarrow> graph_step spec {} (snd (tick_running env (sh, spec)))"
| approve: "graph_of name (ensure_loaded env sh) = Some spec \<Longrightarrow> order_ok env \<Longrightarrow>
    approve_graph env name sh = (sh', Inr spec') \<Longrightarrow> graph_step spec {} spec'"
| revise: "graph_of name (ensure_loaded env sh) = Some spec \<Longrightarrow>
    graph_of name (fst (revise_graph env name remark sh)) = Some spec' \<Longrightarrow> graph_step spec {} spec'"
| pause: "graph_of name (ensure_loaded env sh) = Some spec \<Longrightarrow>
    pause_graph env name sh = (sh', Inr spec') \<Longrightarrow> graph_step spec {} spec'"
| resume: "graph_of name (ensure_loaded env sh) = Some spec \<Longrightarrow>
    resume_graph env name sh = (sh', Inr spec') \<Longrightarrow> graph_step spec {} spec'"
| stop: "graph_of name (ensure_loaded env sh) = Some spec \<Longrightarrow>
    stop_graph env name sh = (sh', Inr spec') \<Longrightarrow> graph_step spec {} spec'"
| restart: "graph_step spec {} (restart_graph (persisted spec))"
| accept: "run_link w sh = Some link \<Longrightarrow> graph_of (gl_graph link) sh = Some spec \<Longrightarrow>
    graph_of (gl_graph link) (accept_node env w sh) = Some spec' \<Longrightarrow>
    graph_step spec (if state_of (gl_node link) spec = Some NPending then {gl_node link} else {}) spec'"
| continue_: "run_link w sh = Some link \<Longrightarrow> graph_of (gl_graph link) sh = Some spec \<Longrightarrow>
    graph_of (gl_graph link) (continue_node w sh) = Some spec' \<Longrightarrow> graph_step spec {} spec'"
| edit_goal: "graph_of name sh = Some spec \<Longrightarrow>
    graph_of name (fst (update_node_goal name i goal_text sh)) = Some spec' \<Longrightarrow> graph_step spec {} spec'"
| move: "graph_of name sh = Some spec \<Longrightarrow>
    graph_of name (fst (update_node_position env name i x y sh)) = Some spec' \<Longrightarrow> graph_step spec {} spec'"

inductive graph_reachable :: "rstr set \<Rightarrow> graph_spec \<Rightarrow> bool" where
  created: "create_graph env name source params sh = (sh', Inr (spec, runner)) \<Longrightarrow> graph_reachable {} spec"
| stepped: "graph_reachable A spec \<Longrightarrow> graph_step spec B spec' \<Longrightarrow> graph_reachable (A \<union> B) spec'"

section \<open>Every step keeps the invariant\<close>

lemma clamp_u32_bounds: "lo \<le> hi \<Longrightarrow> lo \<le> clamp_u32 lo hi n \<and> clamp_u32 lo hi n \<le> hi"
  by (auto simp: clamp_u32_def not_less)

lemma graph_of_put [simp]: "graph_of name (put_graph n spec sh) = (if n = name then Some spec else graph_of name sh)"
  by (simp add: graph_of_def put_graph_def)

lemma graph_of_save [simp]: "graph_of name (save_graph spec sh) = graph_of name sh"
  by (simp add: graph_of_def save_graph_def)

lemma graph_of_act [simp]: "graph_of name (act e sh) = graph_of name sh"
  by (simp add: graph_of_def)

lemma created_spec:
  assumes "create_graph env name source params sh = (sh', Inr (spec, runner))"
  shows "\<exists>g b w. spec = (new_spec env name source params b)\<lparr> gs_group_id := g, gs_orchestrator_workspace := w \<rparr>"
  using assms
  by (simp add: create_graph_def Let_def split: if_splits option.splits prod.splits sum.splits) (elim conjE, hypsubst, blast)+

lemma created_fields:
  assumes "create_graph env name source params sh = (sh', Inr (spec, runner))"
  shows "gs_nodes spec = [] \<and> gs_status spec = GProposing \<and> 1 \<le> gs_max_concurrency spec \<and> gs_max_concurrency spec \<le> 8"
proof -
  have "(1::u32) \<le> clamp_u32 1 8 n \<and> clamp_u32 1 8 n \<le> 8" for n by (rule clamp_u32_bounds) simp
  then show ?thesis using created_spec [OF assms] by (auto simp: new_spec_def default_spec_def split: option.splits)
qed

lemma graph_ok_fields:
  assumes "graph_ok A spec" and "gs_nodes spec' = gs_nodes spec" and "gs_max_concurrency spec' = gs_max_concurrency spec"
    and "gs_name spec' = gs_name spec" and "phase_ok spec'"
  shows "graph_ok A spec'"
  using same_nodes [OF assms(2-4)] assms(5) by (intro graph_ok_follows [OF assms(1)]) auto

lemma approve_result:
  assumes "graph_of name (ensure_loaded env sh) = Some spec" and "approve_graph env name sh = (sh', Inr spec')"
  shows "\<exists>x y z ns. read_plan env x y = (z, Inr ns) \<and> spec' = spec\<lparr> gs_nodes := ns, gs_status := GRunning \<rparr> \<and>
    gs_status spec \<in> {GProposing, GProposed}"
  using assms by (auto simp: approve_graph_def Let_def split: if_splits prod.splits sum.splits)

lemma revise_result:
  assumes "graph_of name (ensure_loaded env sh) = Some spec" and "graph_of name (fst (revise_graph env name remark sh)) = Some spec'"
  shows "spec' = spec \<or> gs_status spec \<in> {GProposing, GProposed} \<and>
    spec' = spec\<lparr> gs_min_proposal_mtime := Some (en_epoch env), gs_status := GProposing, gs_proposal_wait_ticks := 0 \<rparr>"
proof -
  have send: "graph_of name (fst (send_ui_input env p t s)) = graph_of name s" for p t s
    by (simp add: send_ui_input_def)
  let ?sh = "ensure_loaded env sh"
  let ?r = "spec\<lparr> gs_min_proposal_mtime := Some (en_epoch env), gs_status := GProposing, gs_proposal_wait_ticks := 0 \<rparr>"
  have "fst (revise_graph env name remark sh) = ?sh \<or>
      gs_status spec \<in> {GProposing, GProposed} \<and>
      (\<exists>p t. fst (revise_graph env name remark sh) = fst (send_ui_input env p t (save_graph ?r (put_graph name ?r ?sh))))"
  proof (cases "gs_status spec \<noteq> GProposing \<and> gs_status spec \<noteq> GProposed")
    case True
    then show ?thesis using assms(1) by (simp add: revise_graph_def Let_def)
  next
    case False
    show ?thesis
    proof (cases "gs_orchestrator_workspace spec")
      case None
      then show ?thesis using False assms(1) by (simp add: revise_graph_def Let_def)
    next
      case w: (Some w)
      show ?thesis
      proof (cases "Option.bind (tm_workspace w (sh_tabs ?sh)) (\<lambda>ws. head_opt (map fst (ws_panels ws)))")
        case None
        then show ?thesis using False assms(1) w by (simp add: revise_graph_def Let_def)
      next
        case (Some p)
        obtain s2 sent where u: "send_ui_input env p (revision_prompt spec remark @ carriage_return)
            (save_graph ?r (put_graph name ?r ?sh)) = (s2, sent)" by force
        show ?thesis
        proof (cases "en_live_agent env p")
          case True
          have "fst (revise_graph env name remark sh) = s2"
            using False assms(1) w Some True u by (auto simp: revise_graph_def Let_def)
          then show ?thesis using False u by (intro disjI2 conjI exI [of _ p]) (auto intro!: exI [of _ "revision_prompt spec remark @ carriage_return"])
        qed (use False assms(1) w Some in \<open>simp add: revise_graph_def Let_def\<close>)
      qed
    qed
  qed
  then show ?thesis using assms send by auto
qed

theorem graph_step_ok: "graph_step spec B spec' \<Longrightarrow> graph_ok A spec \<Longrightarrow> graph_ok (A \<union> B) spec'"
proof (induction rule: graph_step.induct)
  case (stop name env sh spec sh' spec')
  then have "\<exists>sh1. set_graph_state env name GStopped sh = (sh1, Inr spec')"
    by (auto simp: stop_graph_def Let_def split: prod.splits sum.splits option.splits if_splits)
  then show ?case unfolding Un_empty_right using set_state_keeps stop by blast
next
  case (approve name env sh spec sh' spec')
  then show ?case unfolding Un_empty_right using approve_result [of name env sh spec] started_ok [OF _ _ graph_okD(6)] by blast
next
  case (revise name env sh spec remark spec')
  then show ?case
    unfolding Un_empty_right using revise_result [OF revise(1, 2)] graph_okD(4) [OF revise(3)]
    by (auto intro!: graph_ok_fields [OF revise(3)] simp: phase_ok_def)
next
  case (accept w sh link spec env spec')
  then have e: "spec' = snd (finish_node env (gl_node link) (sh, spec))"
    by (simp add: accept_node_def Let_def case_prod_unfold)
  show ?case
    unfolding e using finish_keeps_ok accept_keeps_ok accept(4) by simp
next
  case (continue_ w sh link spec spec')
  show ?case
  proof (cases "\<exists>n. gs_node (gl_node link) spec = Some n \<and> gn_status n = NReview")
    case True
    then have "spec' = edit_node (gl_node link) (\<lambda>n. n\<lparr> gn_status := NRunning, gn_detail := None \<rparr>) spec"
      using continue_ by (auto simp: continue_node_def Let_def)
    then show ?thesis using True continue_ by (auto intro: edit_keeps)
  next
    case False
    then have "spec' = spec" using continue_ by (auto simp: continue_node_def Let_def split: option.splits)
    then show ?thesis using continue_ by simp
  qed
next
  case (edit_goal name sh spec i goal_text spec')
  then have "spec' = spec \<or> spec' = edit_node i (\<lambda>n. n\<lparr> gn_goal := goal_text \<rparr>) spec"
    by (auto simp: update_node_goal_def Let_def split: if_splits option.splits)
  then show ?case using edit_goal by (auto intro: edit_keeps)
next
  case (move name sh spec env i x y spec')
  then have "spec' = spec \<or> spec' = edit_node i (\<lambda>n. n\<lparr> gn_pos := Some (x, y) \<rparr>) spec"
    by (auto simp: update_node_position_def edit_proposal_def try_io_def Let_def split: if_splits option.splits sum.splits)
  then show ?case using move by (auto intro: edit_keeps)
qed (auto intro: tick_proposing_keeps tick_running_keeps resume_keeps restart_keeps set_state_keeps simp: pause_graph_def)

text \<open>C2. Whatever the world answers and in whatever order ticks, client operations and restarts come, a
  goal graph keeps a well-formed plan (distinct identifiers, known dependencies, no cycle, at most 50
  nodes), never works on more nodes at once than its limit, has nodes exactly when its plan was approved,
  and calls itself complete only when every node is finished. A node leaves "pending" only after all its
  dependencies are finished, except the nodes of the set \<open>A\<close>: those a user accepted, through the workspace of
  an earlier run, while they were queued again.\<close>

theorem graph_reachable_ok: "graph_reachable A spec \<Longrightarrow> graph_ok A spec"
proof (induction rule: graph_reachable.induct)
  case (created env name source params sh sh' spec runner)
  then show ?case
    using created_fields [OF created] by (simp add: graph_ok_def plan_def deps_ok_def count_nodes_def phase_ok_def)
next
  case (stepped A spec B spec')
  then show ?case using graph_step_ok by blast
qed

end
