(* ===== verification/Graph_Progress.thy ===== *)
theory Graph_Progress imports Graph_Machine begin

text \<open>
  Progress and safety of running graphs: a tick never leaves a graph with nothing to wait for, merging
  needs a clean checkout, what resuming does, and a graph all of whose runs finish is completed.
\<close>

section \<open>What launching changes\<close>

lemma launch_ready_same:
  "i \<notin> set ids \<Longrightarrow> gs_node i (snd (launch_ready env slots ids st)) = gs_node i (snd st)"
proof (induction ids arbitrary: slots st)
  case (Cons k ids)
  have same: "gs_node i (edit_node k f (snd st)) = gs_node i (snd st)"
    if "\<And>n. gs_node k (snd st) = Some n \<Longrightarrow> gn_id (f n) = gn_id n" for f
    using gs_node_edit [of k "snd st" f i] that gs_node_in [of k "snd st"] Cons.prems by auto
  show ?case
  proof (cases "slots = 0")
    case False
    then show ?thesis
    proof (cases rule: launch_ready_step [of slots env k ids st])
      case (started st1 n f)
      then show ?thesis using same [of f] Cons by simp
    next
      case (refused st1 f)
      then show ?thesis using same [of f] Cons by simp
    qed
  qed simp
qed simp

lemma launch_ready_first:
  assumes "slots \<noteq> 0" and "i \<notin> set ids" and "gs_node i (snd st) \<noteq> None"
  shows "state_of i (snd (launch_ready env slots (i # ids) st)) \<in> {Some NRunning, Some NBlocked}"
  using assms(1)
proof (cases rule: launch_ready_step [of slots env i ids st])
  case (started st1 n f)
  then have "gs_node i (snd st1) = Some (f n)"
    using gs_node_edit [of i "snd st" f i] gs_node_in [of i "snd st" n] by simp
  then show ?thesis using started launch_ready_same [OF assms(2), of env "slots - 1" st1] by (simp add: state_of_def)
next
  case (refused st1 f)
  obtain n where n: "gs_node i (snd st) = Some n" using assms(3) by auto
  then have "gs_node i (snd st1) = Some (f n)"
    using refused gs_node_edit [of i "snd st" f i] gs_node_in [OF n] by simp
  then show ?thesis using refused launch_ready_same [OF assms(2), of env slots st1] by (simp add: state_of_def)
qed

lemma launch_ready_states:
  assumes "distinct ids" and "\<forall>i \<in> set ids. gs_node i (snd st) \<noteq> None"
  shows "gs_node i (snd (launch_ready env slots ids st)) = gs_node i (snd st) \<or>
    state_of i (snd (launch_ready env slots ids st)) \<in> {Some NRunning, Some NBlocked}"
  using assms
proof (induction ids arbitrary: slots st)
  case (Cons k ids)
  show ?case
  proof (cases "slots = 0 \<or> i = k")
    case True
    then show ?thesis using launch_ready_first [of slots k ids st env] Cons.prems by auto
  next
    case False
    have go: "?thesis"
      if e: "launch_ready env slots (k # ids) st = launch_ready env s' ids st1" "snd st1 = edit_node k f (snd st)"
        and id: "\<And>n. gs_node k (snd st) = Some n \<Longrightarrow> gn_id (f n) = gn_id n" for s' st1 f
    proof -
      have nd: "gs_node j (snd st1) = (if j = k then map_option f (gs_node k (snd st)) else gs_node j (snd st))" for j
        unfolding e(2) using id gs_node_in [of k "snd st"] by (intro gs_node_edit) auto
      then have "\<forall>j \<in> set ids. gs_node j (snd st1) \<noteq> None" using Cons.prems by auto
      then show ?thesis using Cons.IH [of st1 s'] Cons.prems(1) False nd [of i] e(1) by simp
    qed
    from False have "slots \<noteq> 0" by simp
    then show ?thesis
    proof (cases rule: launch_ready_step [of slots env k ids st])
      case (started st1 n f)
      then show ?thesis by (intro go [of "slots - 1" st1 f]) auto
    next
      case (refused st1 f)
      then show ?thesis by (intro go [of slots st1 f]) auto
    qed
  qed
qed simp

lemma ready_known: "ids_ok spec \<Longrightarrow> i \<in> set (ready_ids spec) \<Longrightarrow> gs_node i spec \<noteq> None"
  using gs_node_Some [of spec] by fastforce

section \<open>A tick never idles\<close>

definition stuck_node :: "graph_node \<Rightarrow> bool" where
  "stuck_node n \<longleftrightarrow> gn_status n = NBlocked \<or> gn_status n = NInterrupted"

lemma status_kinds: "gn_status n = NDone \<or> gn_status n = NPending \<or> active_node n \<or> stuck_node n"
  by (cases "gn_status n") (auto simp: active_node_def stuck_node_def)

lemma first_unfinished:
  assumes "well_planned (plan spec)" and "\<not> all_done spec"
  obtains n where "n \<in> set (gs_nodes spec)" "gn_status n \<noteq> NDone" "deps_finished spec (gn_deps n)"
proof -
  let ?U = "gn_id ` {n \<in> set (gs_nodes spec). gn_status n \<noteq> NDone}"
  have ids: "ids_ok spec" using well_planned_ids [OF assms(1)] .
  have "finite (plan_edges (plan spec))"
  proof -
    have "plan_edges (plan spec) = (\<Union>(i, ds) \<in> set (plan spec). (\<lambda>d. (d, i)) ` set ds)" by (auto simp: plan_edges_def)
    then show ?thesis by auto
  qed
  then have wf: "wf (plan_edges (plan spec))"
    using assms(1) by (intro finite_acyclic_wf) (auto simp: well_planned_def)
  from assms(2) obtain x where "x \<in> ?U" by (auto simp: all_done_def)
  from wfE_min [OF wf this] obtain z where z: "z \<in> ?U" and least: "\<And>y. (y, z) \<in> plan_edges (plan spec) \<Longrightarrow> y \<notin> ?U" by blast
  from z obtain n where n: "n \<in> set (gs_nodes spec)" "gn_status n \<noteq> NDone" "gn_id n = z" by auto
  have "state_of d spec = Some NDone" if d: "d \<in> set (gn_deps n)" for d
  proof -
    have "(d, z) \<in> plan_edges (plan spec)" using n d by (force simp: plan_edges_def plan_def)
    moreover have "d \<in> gn_id ` set (gs_nodes spec)"
      using assms(1) n(1) d by (fastforce simp: well_planned_def plan_def)
    then obtain m where m: "m \<in> set (gs_nodes spec)" "gn_id m = d" by auto
    ultimately have "gn_status m = NDone" using least by auto
    then show ?thesis using gs_node_Some [OF ids m(1)] m(2) by (simp add: state_of_def)
  qed
  then show ?thesis using that n by (auto simp: deps_finished_def)
qed

lemma launch_makes_progress:
  fixes env and sh :: shared and spec :: graph_spec
  defines "l \<equiv> snd (launch_ready env (free_slots spec) (ready_ids spec) (sh, spec))"
  assumes "well_planned (plan spec)" and "\<not> all_done spec" and "gs_max_concurrency spec \<noteq> 0"
  shows "\<exists>n \<in> set (gs_nodes l). active_node n \<or> stuck_node n"
proof (rule ccontr)
  assume no: "\<not> (\<exists>n \<in> set (gs_nodes l). active_node n \<or> stuck_node n)"
  have ids: "ids_ok spec" using well_planned_ids [OF assms(2)] .
  note st = launch_ready_states [of "ready_ids spec" "(sh, spec)", simplified, OF ready_distinct [OF ids]]
  have known: "\<forall>i \<in> set (ready_ids spec). gs_node i spec \<noteq> None" using ready_known [OF ids] by blast
  have f: "follows spec l"
    unfolding l_def using follows_launch_ready [of "(sh, spec)" "ready_ids spec" env "free_slots spec"] ids ready_distinct [OF ids]
      ready_launchable [OF ids] by simp
  have idl: "ids_ok l" using ids_ok_plan [OF followsD(1) [OF f]] ids by simp
  have quiet: "state_of i l \<in> {None, Some NDone, Some NPending}" for i
    using no gs_node_in [of i l] status_kinds by (cases "gs_node i l") (auto simp: state_of_def)
  have same: "gs_node i l = gs_node i spec" for i
    using launch_ready_states [of "ready_ids spec" "(sh, spec)" i env "free_slots spec"] ready_distinct [OF ids] known
      quiet [of i] unfolding l_def by auto
  have "filter active_node (gs_nodes spec) = []"
    using quiet gs_node_Some [OF ids] same
    by (auto simp: filter_empty_conv active_node_def state_of_def) (metis (no_types, lifting) NodeState.distinct insertE option.inject option.simps(3) option.simps(9) singletonD)+
  then have slots: "free_slots spec = gs_max_concurrency spec" by (simp add: free_slots_def Let_def)
  obtain n where n: "n \<in> set (gs_nodes spec)" "gn_status n \<noteq> NDone" "deps_finished spec (gn_deps n)"
    using first_unfinished [OF assms(2, 3)] by blast
  have "gn_status n = NPending"
    using quiet [of "gn_id n"] same [of "gn_id n"] gs_node_Some [OF ids n(1)] n(2) by (auto simp: state_of_def)
  then have "gn_id n \<in> set (ready_ids spec)"
    using n done_ids_state [OF ids] by (auto simp: ready_node_def deps_finished_def list_all_iff)
  then obtain i js where r: "ready_ids spec = i # js" by (cases "ready_ids spec") auto
  have "state_of i l \<in> {Some NRunning, Some NBlocked}"
    using launch_ready_first [of "free_slots spec" i js "(sh, spec)" env] slots assms(4) ready_distinct [OF ids] known r
    unfolding l_def r by simp
  then show False using quiet [of i] by auto
qed

text \<open>C18. After a tick of a running graph there is always something to wait for: the graph is complete, or
  a node is being worked on, or a node needs the user. It pauses itself only in the last case.\<close>

theorem tick_never_idles:
  assumes "graph_reachable A spec" and "gs_status spec = GRunning"
  shows "(let spec' = snd (tick_running env (sh, spec)) in
    gs_status spec' = GComplete \<or>
    (\<exists>n \<in> set (gs_nodes spec'). stuck_node n) \<or> (gs_status spec' = GRunning \<and> (\<exists>n \<in> set (gs_nodes spec'). active_node n)))"
proof -
  have ok: "graph_ok A spec" using graph_reachable_ok [OF assms(1)] .
  let ?st = "(sh, spec)"
  let ?s = "snd (sync_node_states env ?st)" and ?l = "snd (after_launch env ?st)"
  have ne: "gs_nodes spec \<noteq> []" using graph_okD(4) [OF ok] assms(2) by (simp add: phase_ok_def)
  have z: "gs_max_concurrency spec \<noteq> 0" using graph_okD(6) [OF ok] by auto
  note f = follows_sync [of ?st env, simplified, OF graph_okD(5) [OF ok]]
  have p: "\<exists>n \<in> set (gs_nodes ?l). active_node n \<or> stuck_node n" if "\<not> all_done ?s"
    using launch_makes_progress [of ?s env "fst (sync_node_states env ?st)"] that followsD(1, 2) [OF f] graph_okD(1) [OF ok] z
    by (simp add: after_launch_def Let_def)
  have run: "gs_status ?l = GRunning"
    using launch_keeps_phase(1) [of env] sync_keeps_phase(1) [of env ?st] assms(2) by (simp add: after_launch_def Let_def)
  have "\<exists>n \<in> set (gs_nodes ?l). stuck_node n" if "\<not> all_done ?s" "stalled (done_ids ?s) ?l"
    using p [OF that(1)] that(2) by (auto simp: stalled_def list_ex_iff)
  then show ?thesis using p run ne by (auto simp: tick_running_cases Let_def)
qed

section \<open>Resuming\<close>

lemma finish_state:
  assumes "gs_node i spec = Some n" and "gn_status n \<noteq> NDone"
  shows "state_of i (snd (finish_node env i (sh, spec))) \<in> {Some NDone, Some NBlocked}"
proof -
  obtain st d where st: "st = NDone \<or> st = NBlocked" and e: "snd (finish_node env i (sh, spec)) = edit_node i (\<lambda>_. settled sh n st d) spec"
    using finish_node_cases [OF assms] by metis
  have "gs_node i (snd (finish_node env i (sh, spec))) = Some (settled sh n st d)"
    unfolding e using gs_node_settled [OF assms(1), of i] by simp
  then show ?thesis using st by (auto simp: state_of_def)
qed

lemma finish_other: "i \<noteq> j \<Longrightarrow> gs_node j (snd (finish_node env i st)) = gs_node j (snd st)"
proof -
  assume a: "i \<noteq> j"
  obtain sh spec where st: "st = (sh, spec)" by force
  show ?thesis
    using finish_node_state [of i spec _ j env sh] a by (cases "gs_node i spec") (auto simp: st finish_node_skip)
qed

lemma finish_all_states:
  assumes "distinct js" and "\<forall>i \<in> set js. state_of i (snd st) \<notin> {None, Some NDone}"
  shows "if j \<in> set js then state_of j (snd (fold (finish_node env) js st)) \<in> {Some NDone, Some NBlocked}
    else gs_node j (snd (fold (finish_node env) js st)) = gs_node j (snd st)"
  using assms
proof (induction js arbitrary: st)
  case (Cons i js)
  obtain sh spec where st: "st = (sh, spec)" by force
  obtain n where n: "gs_node i spec = Some n" "gn_status n \<noteq> NDone" using Cons.prems(2) by (auto simp: st state_of_def)
  let ?st = "finish_node env i st"
  have "state_of k (snd ?st) \<notin> {None, Some NDone}" if "k \<in> set js" for k
  proof -
    have "gs_node k (snd ?st) = gs_node k (snd st)" using that Cons.prems(1) by (intro finish_other) auto
    then show ?thesis using that Cons.prems(2) by (simp add: state_of_def)
  qed
  then have ih: "if j \<in> set js then state_of j (snd (fold (finish_node env) js ?st)) \<in> {Some NDone, Some NBlocked}
    else gs_node j (snd (fold (finish_node env) js ?st)) = gs_node j (snd ?st)"
    using Cons.IH [of ?st] Cons.prems(1) by auto
  show ?case
  proof (cases "j = i")
    case True
    then have "gs_node j (snd (fold (finish_node env) js ?st)) = gs_node i (snd ?st)" using ih Cons.prems(1) by simp
    then show ?thesis using True finish_state [OF n, of env sh] by (simp add: st state_of_def)
  next
    case False
    then show ?thesis using ih finish_other [of i j env st] by (cases "j \<in> set js") simp_all
  qed
qed simp

lemma finish_all_done:
  assumes "distinct js" and "\<forall>i \<in> set js. state_of i (snd st) \<notin> {None, Some NDone}"
  shows "j \<in> set js \<Longrightarrow> state_of j (snd (fold (finish_node env) js st)) \<in> {Some NDone, Some NBlocked}"
    "j \<notin> set js \<Longrightarrow> gs_node j (snd (fold (finish_node env) js st)) = gs_node j (snd st)"
  using finish_all_states [OF assms, of j env] by simp_all

text \<open>Resuming a graph starts it again, queues exactly the interrupted nodes anew and retries exactly the
  merges that were waiting; every other node keeps its state, in particular a node that is blocked
  because it could not be launched or because its run gave up.\<close>

theorem resume_effect:
  assumes "graph_reachable A spec" and "graph_of name (ensure_loaded env sh) = Some spec"
    and "resume_graph env name sh = (sh', Inr spec')" and "n \<in> set (gs_nodes spec)"
  shows "gs_status spec' = GRunning \<and> graph_of name sh' = Some spec' \<and>
    state_of (gn_id n) spec' \<in>
      (if gn_status n = NInterrupted then {Some NPending}
       else if merge_blocked n then {Some NDone, Some NBlocked} else {Some (gn_status n)})"
proof -
  let ?r = "spec\<lparr> gs_nodes := map resume_node (gs_nodes spec) \<rparr>"
  let ?js = "map gn_id (filter merge_blocked (gs_nodes ?r))"
  let ?g = "snd (fold (finish_node env) ?js (ensure_loaded env sh, ?r))"
  have spec': "spec' = ?g\<lparr> gs_status := GRunning \<rparr>" and sh': "graph_of name sh' = Some spec'"
    using assms(2, 3) by (auto simp: resume_graph_def Let_def split: if_splits prod.splits)
  have ids: "ids_ok spec" using graph_okD(5) [OF graph_reachable_ok [OF assms(1)]] .
  have idr: "ids_ok ?r" using ids by (simp add: ids_ok_def comp_def resume_node_def if_distrib cong: if_cong)
  have nr: "gs_node (gn_id m) ?r = Some (resume_node m)" if "m \<in> set (gs_nodes spec)" for m
  proof -
    have "gn_id (resume_node m) = gn_id m" by (simp add: resume_node_def)
    then show ?thesis using gs_node_Some [OF idr, of "resume_node m"] that by simp
  qed
  have live: "\<forall>i \<in> set ?js. state_of i ?r \<notin> {None, Some NDone}"
    using gs_node_Some [OF idr] by (auto simp: state_of_def merge_blocked_def)
  have "distinct ?js" using idr by (simp add: ids_ok_def distinct_map_filter)
  note g = finish_all_done [OF this, of "(ensure_loaded env sh, ?r)" "gn_id n" env, unfolded snd_conv, OF live]
  have in_js: "gn_id n \<in> set ?js \<longleftrightarrow> merge_blocked (resume_node n)"
  proof
    assume "gn_id n \<in> set ?js"
    then obtain m where m: "m \<in> set (gs_nodes spec)" "merge_blocked (resume_node m)" "gn_id n = gn_id m"
      by (auto simp: resume_node_def split: if_splits)
    then have "resume_node m = resume_node n" using nr [OF m(1)] nr [OF assms(4)] by simp
    then show "merge_blocked (resume_node n)" using m(2) by simp
  next
    assume "merge_blocked (resume_node n)"
    moreover have "gn_id (resume_node n) = gn_id n" by (simp add: resume_node_def)
    ultimately show "gn_id n \<in> set ?js" using assms(4) by (force intro!: image_eqI [of _ gn_id "resume_node n"])
  qed
  have keep: "merge_blocked (resume_node n) \<longleftrightarrow> merge_blocked n" by (auto simp: merge_blocked_def resume_node_def)
  have st: "state_of i spec' = state_of i ?g" for i by (simp add: spec' state_of_def gs_node_def)
  have "state_of (gn_id n) spec' \<in>
      (if gn_status n = NInterrupted then {Some NPending}
       else if merge_blocked n then {Some NDone, Some NBlocked} else {Some (gn_status n)})"
  proof (cases "merge_blocked n")
    case True
    then have "gn_id n \<in> set ?js" using in_js keep by blast
    then have "state_of (gn_id n) ?g \<in> {Some NDone, Some NBlocked}" by (rule g(1))
    moreover have "gn_status n \<noteq> NInterrupted" using True by (simp add: merge_blocked_def)
    ultimately show ?thesis using True st by simp
  next
    case False
    then have "gn_id n \<notin> set ?js" using in_js keep by blast
    then have "gs_node (gn_id n) ?g = Some (resume_node n)" using g(2) nr [OF assms(4)] by simp
    then have "state_of (gn_id n) spec' = Some (gn_status (resume_node n))" unfolding st by (simp add: state_of_def)
    then show ?thesis using False by (simp add: resume_node_def)
  qed
  then show ?thesis using spec' sh' by simp
qed

section \<open>A gap in the stall check\<close>

text \<open>A running graph in which no node is pending or active, but some are blocked or interrupted, is
  left exactly as it is by every tick: it stays "running" for good, without the notification a stalled
  graph gets.\<close>

theorem blocked_graph_stays_running:
  assumes "\<forall>n \<in> set (gs_nodes spec). gn_status n = NDone \<or> stuck_node n" and "\<not> all_done spec"
  shows "tick_running env (sh, spec) = (sh, spec)"
proof -
  have st: "gn_status n \<notin> {NRunning, NReview, NPending}" if "n \<in> set (gs_nodes spec)" for n
    using assms(1) that by (auto simp: stuck_node_def)
  have "sync_nodes env name review ns sh = (sh, ns, [])" if "\<forall>n \<in> set ns. gn_status n \<noteq> NRunning" for name review ns
    using that by (induction ns) (simp_all add: sync_node_def)
  then have sync: "sync_node_states env (sh, spec) = (sh, spec)"
    using st by (auto simp: sync_node_states_def)
  have "filter (ready_node ds) (gs_nodes spec) = []" for ds
    using st by (auto simp: filter_empty_conv ready_node_def)
  moreover have "\<not> stalled ds spec" for ds
    using st by (auto simp: stalled_def list_ex_iff active_node_def)
  moreover have "gs_nodes spec \<noteq> []" using assms(2) by (auto simp: all_done_def)
  moreover have "\<not> list_all (\<lambda>n. gn_status n = NDone) (gs_nodes spec)"
    using assms(2) by (simp add: all_done_def list_all_iff)
  ultimately show ?thesis using sync by (simp add: tick_running_def Let_def)
qed

end
