(* ===== verification/Graph_Merge.thy ===== *)
theory Graph_Merge imports Graph_Progress begin

text \<open>
  How a finished node's work reaches the user's checkout: the exact sequence of git commands, and what
  counts as a clean checkout.
\<close>

section \<open>The sequence of commands\<close>

definition graph_tag :: "graph_spec \<Rightarrow> rstr" where
  "graph_tag spec = ''graph('' @ gs_name spec @ ''): ''"

definition own_dir :: "graph_spec \<Rightarrow> rstr" where
  "own_dir spec = spec_output_dir spec @ ''/'' @ gs_name spec @ ''/''"

definition commit_args :: "graph_spec \<Rightarrow> graph_node \<Rightarrow> rstr list" where
  "commit_args spec n = [''commit'', ''-m'',
     graph_tag spec @ ''node '' @ gn_id n @ '' iteration '' @ show_nat (unat (gn_iteration n))]"

definition status_args :: "rstr list" where
  "status_args = [''status'', ''--porcelain'', ''--untracked-files=all'']"

definition merge_args :: "graph_spec \<Rightarrow> graph_node \<Rightarrow> rstr \<Rightarrow> rstr list" where
  "merge_args spec n branch = [''merge'', ''--no-ff'', ''-m'', graph_tag spec @ ''merge '' @ gn_id n, branch]"

lemma merge_worktree_alt:
  "merge_worktree env spec n wt br sh =
     (let sh = fst (git env wt (commit_args spec n) (fst (git env wt [''add'', ''-A''] sh)))
      in case git env (gs_base_cwd spec) status_args sh of
           (sh, Inl _) \<Rightarrow> (sh, BaseDirty)
         | (sh, Inr out) \<Rightarrow>
             if \<not> base_is_clean out (own_dir spec) then (sh, BaseDirty)
             else case git env (gs_base_cwd spec) (merge_args spec n br) sh of
                    (sh, Inr _) \<Rightarrow> (sh, Merged)
                  | (sh, Inl e) \<Rightarrow> (fst (git env (gs_base_cwd spec) [''merge'', ''--abort''] sh), Conflict e))"
  unfolding merge_worktree_def Let_def commit_args_def status_args_def merge_args_def graph_tag_def own_dir_def
  by (simp only: case_prod_unfold append_assoc)

text \<open>Whether the checkout is clean after the commit, and whether git then merges.\<close>

definition commit_log :: "graph_spec \<Rightarrow> graph_node \<Rightarrow> rstr \<Rightarrow> history \<Rightarrow> history" where
  "commit_log spec n wt h = h @ [Git wt [''add'', ''-A''], Git wt (commit_args spec n)]"

definition checkout_clean :: "env \<Rightarrow> graph_spec \<Rightarrow> graph_node \<Rightarrow> rstr \<Rightarrow> history \<Rightarrow> bool" where
  "checkout_clean env spec n wt h \<longleftrightarrow>
     (case en_git env (commit_log spec n wt h) (gs_base_cwd spec) status_args of
        Inr out \<Rightarrow> base_is_clean out (own_dir spec) | Inl _ \<Rightarrow> False)"

definition merge_succeeds :: "env \<Rightarrow> graph_spec \<Rightarrow> graph_node \<Rightarrow> rstr \<Rightarrow> rstr \<Rightarrow> history \<Rightarrow> bool" where
  "merge_succeeds env spec n wt br h \<longleftrightarrow>
     (case en_git env (commit_log spec n wt h @ [Git (gs_base_cwd spec) status_args]) (gs_base_cwd spec) (merge_args spec n br) of
        Inr _ \<Rightarrow> True | Inl _ \<Rightarrow> False)"

definition merge_log :: "env \<Rightarrow> graph_spec \<Rightarrow> graph_node \<Rightarrow> rstr \<Rightarrow> rstr \<Rightarrow> history \<Rightarrow> history" where
  "merge_log env spec n wt br h =
     commit_log spec n wt h @ [Git (gs_base_cwd spec) status_args] @
     (if \<not> checkout_clean env spec n wt h then []
      else [Git (gs_base_cwd spec) (merge_args spec n br)] @
        (if merge_succeeds env spec n wt br h then [] else [Git (gs_base_cwd spec) [''merge'', ''--abort'']]))"

lemma merge_worktree_result:
  assumes "merge_worktree env spec n wt br sh = (sh', r)"
  shows "sh_log sh' = merge_log env spec n wt br (sh_log sh)"
    "r = Merged \<longleftrightarrow> checkout_clean env spec n wt (sh_log sh) \<and> merge_succeeds env spec n wt br (sh_log sh)"
    "sh_goals sh' = sh_goals sh"
proof -
  let ?h = "commit_log spec n wt (sh_log sh)" and ?b = "gs_base_cwd spec"
  have l: "sh_log (fst (git env wt (commit_args spec n) (fst (git env wt [''add'', ''-A''] sh)))) = ?h"
    by (simp add: git_def commit_log_def)
  have gl: "sh_goals (fst (git env wt (commit_args spec n) (fst (git env wt [''add'', ''-A''] sh)))) = sh_goals sh"
    by (simp add: git_def)
  obtain s where s: "fst (git env wt (commit_args spec n) (fst (git env wt [''add'', ''-A''] sh))) = s" by simp
  have "sh_log sh' = merge_log env spec n wt br (sh_log sh) \<and>
    (r = Merged \<longleftrightarrow> checkout_clean env spec n wt (sh_log sh) \<and> merge_succeeds env spec n wt br (sh_log sh)) \<and>
    sh_goals sh' = sh_goals sh"
  proof (cases "en_git env ?h ?b status_args")
    case (Inl e)
    then show ?thesis
      using assms l gl unfolding merge_worktree_alt Let_def s
      by (auto simp: git_def merge_log_def checkout_clean_def)
  next
    case (Inr out)
    show ?thesis
    proof (cases "base_is_clean out (own_dir spec)")
      case False
      then show ?thesis
        using assms l gl Inr unfolding merge_worktree_alt Let_def s
        by (auto simp: git_def merge_log_def checkout_clean_def)
    next
      case True
      then show ?thesis
        using assms l gl Inr unfolding merge_worktree_alt Let_def s
        by (cases "en_git env (?h @ [Git ?b status_args]) ?b (merge_args spec n br)")
          (auto simp: git_def merge_log_def checkout_clean_def merge_succeeds_def)
    qed
  qed
  then show "sh_log sh' = merge_log env spec n wt br (sh_log sh)"
    "r = Merged \<longleftrightarrow> checkout_clean env spec n wt (sh_log sh) \<and> merge_succeeds env spec n wt br (sh_log sh)"
    "sh_goals sh' = sh_goals sh" by auto
qed

section \<open>Finishing\<close>

text \<open>Every way out of \<open>finish_node\<close> posts one notification and settles the node.\<close>

lemma finish_node_worktree:
  fixes sh :: shared
  assumes "gs_node i spec = Some n0" and "gn_status n0 \<noteq> NDone"
    and "gn_worktree n0 = Some wt" and "gn_branch n0 = Some br"
  defines "n \<equiv> with_run_iteration sh n0"
  shows "\<exists>t b d. finish_node env i (sh, spec) =
    (notify_graph_name env (gn_workspace n) t b (fst (merge_worktree env spec n wt br sh)),
     edit_node i (\<lambda>_. settled sh n0 (if snd (merge_worktree env spec n wt br sh) = Merged then NDone else NBlocked) d) spec)"
proof -
  obtain sh1 r where m: "merge_worktree env spec (with_run_iteration sh n0) wt br sh = (sh1, r)" by force
  show ?thesis
    using assms m
    by (cases r) (simp add: finish_node_def Let_def settled_def, blast)+
qed

text \<open>C17. Finishing a node with a worktree commits its work, asks git for the state of the user's checkout, and
  runs a merge there only when that answer is clean; a failed merge is aborted at once. The node
  becomes finished exactly when the checkout was clean and the merge succeeded, and needs the user
  otherwise; either way the user is told.\<close>

theorem merge_guarded:
  assumes "gs_node i spec = Some n0" and "gn_status n0 \<noteq> NDone"
    and "gn_worktree n0 = Some wt" and "gn_branch n0 = Some br"
    and "finish_node env i (sh, spec) = (sh', spec')"
  shows "let n = with_run_iteration sh n0 in
    state_of i spec' = Some (if checkout_clean env spec n wt (sh_log sh) \<and> merge_succeeds env spec n wt br (sh_log sh)
                             then NDone else NBlocked) \<and>
    (\<exists>t b. sh_log sh' = merge_log env spec n wt br (sh_log sh) @ [Desktop t b, Refresh])"
proof -
  let ?n = "with_run_iteration sh n0"
  obtain sh1 r where m: "merge_worktree env spec ?n wt br sh = (sh1, r)" by force
  obtain t b d where e: "finish_node env i (sh, spec) = (notify_graph_name env (gn_workspace ?n) t b sh1,
      edit_node i (\<lambda>_. settled sh n0 (if r = Merged then NDone else NBlocked) d) spec)"
    using finish_node_worktree [OF assms(1-4), of env sh] m by auto
  have "state_of i spec' = Some (if r = Merged then NDone else NBlocked)"
    using e assms(5) gs_node_settled [OF assms(1), of i] by (simp add: state_of_def)
  moreover have "\<exists>t b. sh_log sh' = sh_log sh1 @ [Desktop t b, Refresh]"
    using e assms(5) by (auto simp: notify_graph_name_def log_post_note)
  ultimately show ?thesis using merge_worktree_result(1, 2) [OF m] by (simp add: Let_def)
qed

end
