(* ===== verification/Goal_Runs_Props.thy ===== *)
theory Goal_Runs_Props imports Goal_Runs begin

text \<open>
  What the driver of goal runs guarantees: when it types into a terminal and when it does not, that a
  finished report always ends a run, that a stuck agent is reminded a bounded number of times and
  then reported, that reports are rate limited without ever swallowing the last one, and that names
  and iteration files are resolved without ambiguity.
\<close>

section \<open>Registries\<close>

definition goals_ok :: "goal_registry \<Rightarrow> bool" where
  "goals_ok goals \<longleftrightarrow> distinct (map fst goals) \<and> (\<forall>i r. map_of goals i = Some r \<longrightarrow> rn_workspace_id r = i)"

definition new_effects :: "shared \<Rightarrow> shared \<Rightarrow> effect list" where
  "new_effects sh sh' = drop (length (sh_log sh)) (sh_log sh')"

lemma new_effects_refl [simp]: "new_effects sh sh = []"
  by (simp add: new_effects_def)

section \<open>Escalation\<close>

definition rate_ok :: "env \<Rightarrow> goal_run \<Rightarrow> bool" where
  "rate_ok env run \<longleftrightarrow> ESCALATION_MIN_SECS \<le> saturating_sub (en_epoch env) (rn_last_escalation_epoch run)"

definition notifies :: "env \<Rightarrow> GoalStatus \<Rightarrow> goal_run \<Rightarrow> bool" where
  "notifies env st run \<longleftrightarrow> rate_ok env run \<or> (is_terminal st \<and> \<not> is_terminal (rn_status run))"

definition escalated :: "env \<Rightarrow> GoalStatus \<Rightarrow> goal_run \<Rightarrow> goal_run" where
  "escalated env st run =
     run\<lparr> rn_status := st,
          rn_last_escalation_epoch := (if notifies env st run then en_epoch env else rn_last_escalation_epoch run) \<rparr>"

lemma escalate_goal:
  "goal_of i sh = Some run \<Longrightarrow>
   goal_of j (escalate env i st msg sh) = (if j = i then Some (escalated env st run) else goal_of j sh)"
  by (auto simp: escalate_def escalated_def notifies_def rate_ok_def Let_def)

lemma escalate_log:
  "goal_of i sh = Some run \<Longrightarrow>
   sh_log (escalate env i st msg sh) = sh_log sh @
     (if notifies env st run then [Desktop (truncate_str ''Goal needs you'' 1024) (truncate_str msg 8192), Refresh] else [])"
  by (auto simp: escalate_def notifies_def rate_ok_def Let_def log_notify)

lemma escalate_other [simp]:
  "sh_tabs (escalate env i st msg sh) = sh_tabs sh" "sh_graphs (escalate env i st msg sh) = sh_graphs sh"
  by (auto simp: escalate_def Let_def split: option.splits)

text \<open>C21. Escalating puts the run into the given state and notifies the human, except when less than a
  minute has passed since the last such notification; entering a final state always notifies. In
  particular a second escalation within the minute that ends nothing is silent and leaves the clock
  of the rate limit alone.\<close>

theorem escalation_rate_limited:
  assumes "goal_of i sh = Some run"
  shows "(\<exists>run'. goal_of i (escalate env i st msg sh) = Some run' \<and> rn_status run' = st) \<and>
    (new_effects sh (escalate env i st msg sh) \<noteq> [] \<longleftrightarrow>
       60 \<le> saturating_sub (en_epoch env) (rn_last_escalation_epoch run) \<or> is_terminal st \<and> \<not> is_terminal (rn_status run)) \<and>
    (new_effects sh (escalate env i st msg sh) \<noteq> [] \<longrightarrow>
       saturating_sub (en_epoch env') (en_epoch env) < 60 \<longrightarrow> \<not> is_terminal st' \<longrightarrow>
       new_effects (escalate env i st msg sh) (escalate env' i st' msg' (escalate env i st msg sh)) = [])"
proof -
  let ?sh1 = "escalate env i st msg sh"
  have g: "goal_of i ?sh1 = Some (escalated env st run)" by (simp add: escalate_goal [OF assms])
  have n: "new_effects sh ?sh1 \<noteq> [] \<longleftrightarrow> notifies env st run"
    by (simp add: new_effects_def escalate_log [OF assms])
  have "new_effects ?sh1 (escalate env' i st' msg' ?sh1) = []"
    if "notifies env st run" "saturating_sub (en_epoch env') (en_epoch env) < 60" "\<not> is_terminal st'"
    using that escalate_log [OF g, of env' st' msg']
    by (simp add: new_effects_def notifies_def [of env' st'] rate_ok_def [of env'] escalated_def ESCALATION_MIN_SECS_def)
  then show ?thesis
    using g n by (simp add: escalated_def notifies_def rate_ok_def ESCALATION_MIN_SECS_def)
qed

section \<open>What the driver types\<close>

text \<open>Everything typed into terminals so far, in order.\<close>

fun input_of :: "effect \<Rightarrow> (uuid \<times> rstr) list" where
  "input_of (SendInput p t) = [(p, t)]"
| "input_of _ = []"

definition inputs :: "shared \<Rightarrow> (uuid \<times> rstr) list" where
  "inputs sh = concat (map input_of (sh_log sh))"

lemma inputs_act [simp]: "inputs (act e sh) = inputs sh @ input_of e"
  by (simp add: inputs_def)

lemma inputs_set_run [simp]: "inputs (set_run i f sh) = inputs sh"
  by (simp add: inputs_def)

lemma inputs_notify [simp]: "inputs (notify env i t b d sh) = inputs sh"
  by (simp add: inputs_def log_notify)

lemma inputs_escalate [simp]: "inputs (escalate env i st msg sh) = inputs sh"
  by (simp add: escalate_def Let_def split: option.splits)

definition finished_file :: "env \<Rightarrow> shared \<Rightarrow> goal_run \<Rightarrow> bool" where
  "finished_file env sh run \<longleftrightarrow> (\<exists>st. parse_iteration_file env sh (output_abs run (rn_iteration run)) = Some (Some st))"

definition may_advance :: "env \<Rightarrow> shared \<Rightarrow> goal_run \<Rightarrow> bool" where
  "may_advance env sh run \<longleftrightarrow> finished_file env sh run \<and>
     (state_detection_is_claude (rn_runner run) \<longrightarrow> en_live_agent env (rn_panel_id run)) \<and> en_ui_open env"

definition advanced :: "goal_run \<Rightarrow> goal_run" where
  "advanced run = run\<lparr> rn_iteration := rn_iteration run + 1, rn_idle_ticks := 0, rn_nudges_sent := 0,
                       rn_no_text_ticks := 0, rn_status := GsRunning \<rparr>"

lemma bind_id_None: "Option.bind x id = None \<longleftrightarrow> (\<nexists>y. x = Some (Some y))"
  by (cases x) auto

lemma advance_iteration_cases:
  assumes "goal_of i sh = Some run"
  shows "if may_advance env sh run
    then advance_iteration env i reason sh =
      (set_run i (\<lambda>r. r\<lparr> rn_iteration := rn_iteration run + 1, rn_idle_ticks := 0, rn_nudges_sent := 0,
                         rn_no_text_ticks := 0, rn_status := GsRunning \<rparr>)
         (act (SendInput (rn_panel_id run) (iteration_prompt run reason @ carriage_return)) sh),
       Inr (rn_iteration run + 1))
    else \<exists>e. advance_iteration env i reason sh = (sh, Inl e)"
  using assms
  by (auto simp: advance_iteration_def send_ui_input_def Let_def may_advance_def finished_file_def bind_id_None)

lemma panel_title_tabs: "sh_tabs sh = sh_tabs sh' \<Longrightarrow> panel_title i p sh = panel_title i p sh'"
  by (simp add: panel_title_def)

definition idle_screen :: "env \<Rightarrow> shared \<Rightarrow> uuid \<Rightarrow> goal_run \<Rightarrow> bool" where
  "idle_screen env sh i run \<longleftrightarrow>
     (\<exists>text. en_screen env (rn_panel_id run) = Some text \<and> \<not> has_selection_menu text \<and>
        classify (en_letters env) text (panel_title i (rn_panel_id run) sh) \<notin> {Some CWorking, Some CWaiting})"

lemma idle_screen_tabs: "sh_tabs sh = sh_tabs sh' \<Longrightarrow> idle_screen env sh i run = idle_screen env sh' i run"
  by (simp add: idle_screen_def panel_title_def)

lemma inputs_drive_idle:
  "inputs (drive_idle env settings run i sh) = inputs sh @
     (if \<not> rn_idle_ticks run + 1 < st_idle_ticks_before_nudge settings \<and> en_live_agent env (rn_panel_id run) \<and>
         rn_nudges_sent run < st_nudge_budget settings \<and> en_input_ok env (rn_panel_id run)
      then [(rn_panel_id run, NUDGE_TEXT @ carriage_return)] else [])"
  by (auto simp: drive_idle_def Let_def)

lemma inputs_drive_screen:
  assumes "en_screen env (rn_panel_id run) = Some text"
    and "inputs (drive_screen env settings run i text sh) = inputs sh @ xs" and "xs \<noteq> []"
  shows "xs = [(rn_panel_id run, NUDGE_TEXT @ carriage_return)] \<and> en_live_agent env (rn_panel_id run) \<and>
    rn_nudges_sent run < st_nudge_budget settings \<and> idle_screen env sh i run"
  using assms panel_title_tabs [of "set_run i f sh" sh i "rn_panel_id run" for f]
  by (auto simp: drive_screen_def Let_def inputs_drive_idle idle_screen_def
      split: if_splits option.splits ClaudeState.splits)

lemma inputs_drive_screen_ex: "\<exists>xs. inputs (drive_screen env settings run i text sh) = inputs sh @ xs"
  by (auto simp: drive_screen_def Let_def inputs_drive_idle split: option.splits ClaudeState.splits)

definition blocked_reason :: "goal_run \<Rightarrow> rstr" where
  "blocked_reason run = ''Iteration '' @ show_nat (unat (rn_iteration run)) @ '' reported status: blocked.''"

lemma on_iteration_file_blocked:
  assumes "goal_of (rn_workspace_id run) sh = Some run" and "rn_iteration run < started_iteration_cap run"
  shows "if may_advance env sh run
    then \<exists>b. on_iteration_file env run ''blocked'' sh =
      notify env (rn_workspace_id run) ''Goal working'' b False
        (fst (advance_iteration env (rn_workspace_id run) (blocked_reason run) sh))
    else on_iteration_file env run ''blocked'' sh = sh"
  using assms(2) advance_iteration_cases [OF assms(1), of env "blocked_reason run"]
  by (auto simp: on_iteration_file_def Let_def blocked_reason_def split: if_splits)

lemma on_iteration_file_other:
  "status = ''done'' \<Longrightarrow> \<exists>b. on_iteration_file env run status sh =
     notify env (rn_workspace_id run) ''Goal finished'' b True (set_run (rn_workspace_id run) (\<lambda>r. r\<lparr> rn_status := GsDone \<rparr>) sh)"
  "status = ''blocked'' \<Longrightarrow> \<not> rn_iteration run < started_iteration_cap run \<Longrightarrow> \<exists>b. on_iteration_file env run status sh =
     escalate env (rn_workspace_id run) (GsBlocked ''the agent could not finish'') b sh"
  "status \<noteq> ''done'' \<Longrightarrow> status \<noteq> ''blocked'' \<Longrightarrow> \<exists>b. on_iteration_file env run status sh =
     escalate env (rn_workspace_id run) (GsNeedsAttention (''unrecognised status '' @ quoted status)) b sh"
  by (auto simp: on_iteration_file_def Let_def)

lemma inputs_on_iteration_file:
  assumes "goal_of (rn_workspace_id run) sh = Some run"
  shows "inputs (on_iteration_file env run status sh) = inputs sh @
    (if status = ''blocked'' \<and> rn_iteration run < started_iteration_cap run \<and> may_advance env sh run
     then [(rn_panel_id run, iteration_prompt run (blocked_reason run) @ carriage_return)] else [])"
proof (cases "status = ''blocked'' \<and> rn_iteration run < started_iteration_cap run")
  case True
  then show ?thesis
    using on_iteration_file_blocked [OF assms, of env] advance_iteration_cases [OF assms, of env "blocked_reason run"]
    by (auto split: if_splits)
next
  case False
  then consider "status = ''done''" | "status = ''blocked''" "\<not> rn_iteration run < started_iteration_cap run"
    | "status \<noteq> ''done''" "status \<noteq> ''blocked''"
    by blast
  then show ?thesis using on_iteration_file_other [where env = env and run = run and sh = sh and status = status] by cases auto
qed

lemma drive_one_closed:
  "goal_of i sh = Some run \<Longrightarrow> tm_workspace i (sh_tabs sh) = None \<Longrightarrow> drive_one env settings i sh = drop_run i sh"
  by (simp add: drive_one_def)

lemma drive_one_report:
  "goal_of i sh = Some run \<Longrightarrow> tm_workspace i (sh_tabs sh) \<noteq> None \<Longrightarrow>
   parse_iteration_file env sh (output_abs run (rn_iteration run)) = Some (Some status) \<Longrightarrow>
   drive_one env settings i sh = on_iteration_file env run status sh"
  by (simp only: drive_one_def option.case if_False simp_thms)

lemma drive_one_malformed:
  "goal_of i sh = Some run \<Longrightarrow> tm_workspace i (sh_tabs sh) \<noteq> None \<Longrightarrow>
   parse_iteration_file env sh (output_abs run (rn_iteration run)) = Some None \<Longrightarrow>
   \<exists>b. drive_one env settings i sh = escalate env i (GsNeedsAttention ''iteration report has no status line'') b sh"
  by (simp only: drive_one_def option.case if_False simp_thms) (rule exI, rule refl)

lemma drive_one_poll:
  "goal_of i sh = Some run \<Longrightarrow> tm_workspace i (sh_tabs sh) \<noteq> None \<Longrightarrow>
   parse_iteration_file env sh (output_abs run (rn_iteration run)) = None \<Longrightarrow>
   \<exists>b. drive_one env settings i sh =
     (if en_hibernated env (rn_panel_id run) then sh
      else if out_of_time env run then escalate env i (GsBlocked ''ran out of time'') b sh
      else if \<not> state_detection_is_claude (rn_runner run) then sh
      else case en_screen env (rn_panel_id run) of
             None \<Rightarrow> drive_unreadable env run i sh
           | Some scr \<Rightarrow> drive_screen env settings run i scr sh)"
  by (simp only: drive_one_def option.case if_False simp_thms) (rule exI, rule refl)

lemma inputs_drive_unreadable [simp]: "inputs (drive_unreadable env run i sh) = inputs sh"
  by (simp add: drive_unreadable_def Let_def)

text \<open>C3. The driver types only into the run's own terminal, and only one of two texts. The prompt for
  the next iteration: when the current iteration's report says "blocked", iterations are left, and a
  recognised agent is alive. The reminder: when there is no report yet, the run is not paused nor out
  of time, its agent is alive, the reminder budget is not used up, and the screen shows neither a
  selection menu nor a running turn nor background work.\<close>

theorem driver_types_safely:
  assumes "goals_ok (sh_goals sh)" and "goal_of i sh = Some run"
  shows "\<exists>xs. inputs (drive_one env settings i sh) = inputs sh @ xs \<and> (xs \<noteq> [] \<longrightarrow> tm_workspace i (sh_tabs sh) \<noteq> None \<and>
    (xs = [(rn_panel_id run, iteration_prompt run (blocked_reason run) @ carriage_return)] \<and>
     parse_iteration_file env sh (output_abs run (rn_iteration run)) = Some (Some ''blocked'') \<and>
     rn_iteration run < started_iteration_cap run \<and>
     (state_detection_is_claude (rn_runner run) \<longrightarrow> en_live_agent env (rn_panel_id run))
   \<or> xs = [(rn_panel_id run, NUDGE_TEXT @ carriage_return)] \<and>
     parse_iteration_file env sh (output_abs run (rn_iteration run)) = None \<and>
     \<not> en_hibernated env (rn_panel_id run) \<and> \<not> out_of_time env run \<and> en_live_agent env (rn_panel_id run) \<and>
     rn_nudges_sent run < st_nudge_budget settings \<and> idle_screen env sh i run))"
proof -
  have ws: "rn_workspace_id run = i" using assms by (auto simp: goals_ok_def goal_of_def)
  then have g: "goal_of (rn_workspace_id run) sh = Some run" using assms(2) by simp
  let ?file = "parse_iteration_file env sh (output_abs run (rn_iteration run))"
  show ?thesis
  proof (cases "tm_workspace i (sh_tabs sh) = None")
    case True
    then show ?thesis using drive_one_closed [OF assms(2)] by (simp add: drop_run_def inputs_def)
  next
    case open_ws: False
    show ?thesis
    proof (cases ?file)
      case None
      then obtain b where d: "drive_one env settings i sh =
          (if en_hibernated env (rn_panel_id run) then sh
           else if out_of_time env run then escalate env i (GsBlocked ''ran out of time'') b sh
           else if \<not> state_detection_is_claude (rn_runner run) then sh
           else case en_screen env (rn_panel_id run) of
                  None \<Rightarrow> drive_unreadable env run i sh
                | Some scr \<Rightarrow> drive_screen env settings run i scr sh)"
        using drive_one_poll [OF assms(2) open_ws] by blast
      show ?thesis
      proof (cases "inputs (drive_one env settings i sh) = inputs sh")
        case False
        then obtain scr where scr: "en_screen env (rn_panel_id run) = Some scr"
          "\<not> en_hibernated env (rn_panel_id run)" "\<not> out_of_time env run"
          "drive_one env settings i sh = drive_screen env settings run i scr sh"
          using d by (auto split: if_splits option.splits)
        obtain xs where xs: "inputs (drive_screen env settings run i scr sh) = inputs sh @ xs"
          using inputs_drive_screen_ex by metis
        show ?thesis
          using inputs_drive_screen [OF scr(1) xs] scr open_ws None xs by simp
      qed simp
    next
      case (Some st)
      show ?thesis
      proof (cases st)
        case None
        then show ?thesis using drive_one_malformed [OF assms(2) open_ws, of env settings] Some by auto
      next
        case (Some status)
        with \<open>?file = Some st\<close> have f: "?file = Some (Some status)" by simp
        then show ?thesis
          using drive_one_report [OF assms(2) open_ws f, of settings] inputs_on_iteration_file [OF g, of env status]
            open_ws by (auto simp: may_advance_def)
      qed
    qed
  qed
qed

section \<open>A stuck agent\<close>

text \<open>Nothing happens but an idle prompt: no report, a live agent, a readable and quiet screen.\<close>

definition stuck :: "env \<Rightarrow> shared \<Rightarrow> uuid \<Rightarrow> goal_run \<Rightarrow> bool" where
  "stuck env sh i run \<longleftrightarrow>
     (\<forall>h. en_file env h (output_abs run (rn_iteration run)) = None) \<and>
     \<not> en_hibernated env (rn_panel_id run) \<and> \<not> out_of_time env run \<and>
     state_detection_is_claude (rn_runner run) \<and> en_live_agent env (rn_panel_id run) \<and>
     en_input_ok env (rn_panel_id run) \<and> idle_screen env sh i run"

fun ticks :: "(nat \<Rightarrow> env) \<Rightarrow> goal_settings \<Rightarrow> uuid \<Rightarrow> nat \<Rightarrow> shared \<Rightarrow> shared" where
  "ticks envs settings i 0 sh = sh"
| "ticks envs settings i (Suc n) sh = drive_one (envs n) settings i (ticks envs settings i n sh)"

definition idled :: "nat \<Rightarrow> nat \<Rightarrow> goal_run \<Rightarrow> goal_run" where
  "idled k n run = run\<lparr> rn_idle_ticks := of_nat k, rn_nudges_sent := of_nat n \<rparr>"

lemma idled_fields [simp]:
  "rn_panel_id (idled k n run) = rn_panel_id run" "rn_iteration (idled k n run) = rn_iteration run"
  "rn_runner (idled k n run) = rn_runner run" "rn_status (idled k n run) = rn_status run"
  "rn_no_text_ticks (idled k n run) = rn_no_text_ticks run" "output_abs (idled k n run) m = output_abs run m"
  "out_of_time env (idled k n run) = out_of_time env run" "stuck env sh i (idled k n run) = stuck env sh i run"
  "rn_idle_ticks (idled k n run) = of_nat k" "rn_nudges_sent (idled k n run) = of_nat n"
  "rn_last_escalation_epoch (idled k n run) = rn_last_escalation_epoch run"
  by (simp_all add: idled_def output_abs_def output_rel_def out_of_time_def stuck_def idle_screen_def)

lemma drive_stuck:
  assumes "goal_of i sh = Some run" and "tm_workspace i (sh_tabs sh) \<noteq> None" and "stuck env sh i run"
    and "rn_no_text_ticks run = 0"
  shows "drive_one env settings i sh = drive_idle env settings run i sh"
proof -
  have f: "parse_iteration_file env sh (output_abs run (rn_iteration run)) = None"
    using assms(3) by (simp add: stuck_def parse_iteration_file_def)
  obtain scr where scr: "en_screen env (rn_panel_id run) = Some scr" "\<not> has_selection_menu scr"
    "classify (en_letters env) scr (panel_title i (rn_panel_id run) sh) \<notin> {Some CWorking, Some CWaiting}"
    using assms(3) by (auto simp: stuck_def idle_screen_def)
  have "drive_screen env settings run i scr sh = drive_idle env settings run i sh"
    using scr assms(4) by (auto simp: drive_screen_def split: option.splits ClaudeState.splits)
  moreover obtain b where "drive_one env settings i sh =
     (if en_hibernated env (rn_panel_id run) then sh
      else if out_of_time env run then escalate env i (GsBlocked ''ran out of time'') b sh
      else if \<not> state_detection_is_claude (rn_runner run) then sh
      else case en_screen env (rn_panel_id run) of
             None \<Rightarrow> drive_unreadable env run i sh
           | Some scr \<Rightarrow> drive_screen env settings run i scr sh)"
    using drive_one_poll [OF assms(1, 2) f] by blast
  ultimately show ?thesis using assms(3) scr(1) by (simp add: stuck_def)
qed

lemma unat_of_nat_u32: "k < 2 ^ 32 \<Longrightarrow> unat (of_nat k :: u32) = k"
  by (simp add: unat_of_nat take_bit_eq_mod)

lemma of_nat_less_u32: "k < 2 ^ 32 \<Longrightarrow> (of_nat k :: u32) < w \<longleftrightarrow> k < unat w"
  by (simp add: word_less_nat_alt unat_of_nat_u32)

lemma unat_u32_less: "unat (w :: u32) < 2 ^ 32"
  using unsigned_less [of w] by simp

lemma idle_step:
  assumes g: "goal_of i sh = Some (idled k n run)" and "stuck env sh i run" and "tm_workspace i (sh_tabs sh) \<noteq> None"
    and "rn_no_text_ticks run = 0" and T: "T = max 1 (unat (st_idle_ticks_before_nudge settings))" and k: "k < T"
    and n: "n \<le> unat (st_nudge_budget settings)"
  defines "sh' \<equiv> drive_one env settings i sh"
  shows "if Suc k < T
    then goal_of i sh' = Some (idled (Suc k) n run) \<and> inputs sh' = inputs sh \<and> sh_tabs sh' = sh_tabs sh
    else if n < unat (st_nudge_budget settings)
    then goal_of i sh' = Some (idled 0 (Suc n) run) \<and>
         inputs sh' = inputs sh @ [(rn_panel_id run, NUDGE_TEXT @ carriage_return)] \<and> sh_tabs sh' = sh_tabs sh
    else \<exists>b. sh' = escalate env i (GsNeedsAttention (''stalled after '' @ show_nat n @ '' reminders'')) b sh"
proof -
  let ?thr = "st_idle_ticks_before_nudge settings" and ?b = "st_nudge_budget settings"
  have d: "sh' = drive_idle env settings (idled k n run) i sh"
    unfolding sh'_def using drive_stuck [OF g assms(3)] assms(2, 4) by simp
  have k32: "Suc k < 2 ^ 32" and n32: "n < 2 ^ 32"
    using k n T unat_u32_less [of ?thr] unat_u32_less [of ?b] by auto
  have kk: "of_nat k + 1 < ?thr \<longleftrightarrow> Suc k < T"
    using of_nat_less_u32 [OF k32, of ?thr] k T by (auto simp: add.commute)
  have nn: "?b \<le> of_nat n \<longleftrightarrow> \<not> n < unat ?b"
    using of_nat_less_u32 [OF n32, of ?b] by (simp only: linorder_not_less [symmetric])
  have live: "en_live_agent env (rn_panel_id run)" "en_input_ok env (rn_panel_id run)"
    using assms(2) by (auto simp: stuck_def)
  consider "Suc k < T" | "\<not> Suc k < T" "n < unat ?b"
    | "\<not> Suc k < T" "\<not> n < unat ?b" by blast
  then show ?thesis
  proof cases
    case 1
    then show ?thesis using kk by (simp add: d drive_idle_def g idled_def add.commute)
  next
    case 2
    then show ?thesis using kk nn live by (simp add: d drive_idle_def g idled_def add.commute)
  next
    case 3
    then have "unat (of_nat n :: u32) = n" using n32 by (simp add: unat_of_nat_u32)
    then show ?thesis using 3 kk nn live unfolding d drive_idle_def Let_def by auto
  qed
qed

lemma ticks_stuck:
  assumes g: "goal_of i sh = Some (idled 0 0 run)" and stuck: "\<forall>k. stuck (envs k) sh i run"
    and ws: "tm_workspace i (sh_tabs sh) \<noteq> None" and nt: "rn_no_text_ticks run = 0"
    and T: "T = max 1 (unat (st_idle_ticks_before_nudge settings))" and B: "B = unat (st_nudge_budget settings)"
    and n: "n < T * Suc B"
  shows "goal_of i (ticks envs settings i n sh) = Some (idled (n mod T) (n div T) run) \<and>
    sh_tabs (ticks envs settings i n sh) = sh_tabs sh \<and>
    inputs (ticks envs settings i n sh) = inputs sh @ replicate (n div T) (rn_panel_id run, NUDGE_TEXT @ carriage_return)"
  using n
proof (induction n)
  case 0
  then show ?case using g by simp
next
  case (Suc n)
  let ?s = "ticks envs settings i n sh"
  have IH: "goal_of i ?s = Some (idled (n mod T) (n div T) run)" "sh_tabs ?s = sh_tabs sh"
    "inputs ?s = inputs sh @ replicate (n div T) (rn_panel_id run, NUDGE_TEXT @ carriage_return)"
    using Suc by simp_all
  have T0: "0 < T" using T by simp
  have le: "n div T \<le> B" using Suc.prems T0 by (simp add: div_less_iff_less_mult less_Suc_eq_le [symmetric] mult.commute)
  have st: "stuck (envs n) ?s i run"
    using stuck idle_screen_tabs [OF IH(2)] by (simp add: stuck_def)
  note step = idle_step [OF IH(1) st _ nt T _ le [unfolded B]]
  show ?case
  proof (cases "Suc (n mod T) < T")
    case True
    then have "Suc n mod T = Suc (n mod T)" "Suc n div T = n div T"
      using T0 by (auto simp: mod_Suc div_Suc)
    then show ?thesis using step T0 True ws IH by simp
  next
    case False
    then have "Suc (n mod T) = T" using mod_less_divisor [OF T0, of n] by linarith
    then have mod: "Suc n mod T = 0" "Suc n div T = Suc (n div T)"
      by (simp_all add: mod_Suc div_Suc)
    then have "Suc n = T * Suc (n div T)" by (metis add.right_neutral mult_div_mod_eq)
    then have "n div T < B" using Suc.prems T0 by simp
    then show ?thesis using step T0 False ws IH mod by (simp add: B replicate_append_same)
  qed
qed


section \<open>Witnesses\<close>

definition quiet_env :: env where
  "quiet_env = \<lparr> en_epoch = 1000, en_time = Fin False 0, en_home = None, en_data_dir = ''/data'', en_letters = {},
     en_guidance = ''{goal_text}'', en_decompose = [], en_settings = default_settings, en_placement = PEnd,
     en_file = (\<lambda>_ _. None), en_plan = (\<lambda>_ _. Inr []), en_graph = (\<lambda>_ _. None), en_json = (\<lambda>_ _. Inr JNull), en_order = (\<lambda>xs. xs), en_entries = (\<lambda>_ _. []),
     en_exists = (\<lambda>_ _. False), en_mtime = (\<lambda>_ _. None), en_io = (\<lambda>_ _. None), en_git = (\<lambda>_ _ _. Inr []),
     en_debug = (\<lambda>p. p), en_spawned = (\<lambda>_. True), en_screen = (\<lambda>_. Some ''x''), en_hibernated = (\<lambda>_. False),
     en_live_agent = (\<lambda>_. True), en_input_ok = (\<lambda>_. True), en_ui_open = True \<rparr>"

definition sample_run :: goal_run where
  "sample_run = \<lparr> rn_workspace_id = 7, rn_panel_id = 8, rn_session_id = [], rn_goal_name = ''g'', rn_goal_path = [],
     rn_cwd = ''/repo'', rn_output_dir_rel = ''docs'', rn_iteration = 1, rn_max_iterations = 3, rn_runner_name = ''claude'',
     rn_runner = default_runner, rn_status = GsRunning, rn_nudges_sent = 0, rn_idle_ticks = 0, rn_no_text_ticks = 0,
     rn_started_epoch = 900, rn_wall_clock_minutes = 120, rn_last_escalation_epoch = 0, rn_graph = None \<rparr>"

definition sample_shared :: shared where
  "sample_shared = \<lparr> sh_tabs = tm_new (ws_new None 7 8), sh_goals = [(7, sample_run)], sh_graphs = [], sh_notes = [],
     sh_pointers = [], sh_loaded = True, sh_next = 9, sh_log = [] \<rparr>"

lemma sample_goal: "goal_of 7 sample_shared = Some sample_run"
  by (simp add: goal_of_def sample_shared_def)

lemma sample_open: "tm_workspace 7 (sh_tabs sample_shared) \<noteq> None"
  by code_simp

lemma sample_stuck: "stuck quiet_env sample_shared 7 sample_run"
proof -
  have "has_selection_menu ''x'' = False" "classify {} ''x'' [] = None" "out_of_time quiet_env sample_run = False"
    "state_detection_is_claude default_runner" "panel_title 7 8 sample_shared = []"
    by code_simp+
  then show ?thesis
    by (simp add: stuck_def idle_screen_def quiet_env_def sample_run_def)
qed

lemma escalation_rate_limited_witness:
  "new_effects (escalate quiet_env 7 (GsNeedsAttention []) [] sample_shared)
     (escalate quiet_env 7 (GsNeedsAttention ''b'') [] (escalate quiet_env 7 (GsNeedsAttention []) [] sample_shared)) = []"
  using escalation_rate_limited [OF sample_goal, of quiet_env "GsNeedsAttention []" "[]" quiet_env "GsNeedsAttention ''b''"]
  by (simp add: sample_run_def quiet_env_def saturating_sub_def)

lemma driver_types_safely_witness:
  "\<exists>xs. inputs (drive_one quiet_env default_settings 7 sample_shared) = inputs sample_shared @ xs"
proof -
  have "goals_ok (sh_goals sample_shared)" by (simp add: goals_ok_def sample_shared_def sample_run_def)
  from driver_types_safely [OF this sample_goal, of quiet_env default_settings] show ?thesis by blast
qed


end
