(* ===== verification/Goal_Runs_More.thy ===== *)
theory Goal_Runs_More imports Goal_Runs_Props Tab_Manager_Props begin

text \<open>
  How runs end, how they are named, and how they start: every end is announced and "done" comes from
  the report alone, a name resolves to one run or to none, a launch never reuses an iteration report,
  and a background launch leaves the user where they are.
\<close>

section \<open>How a run ends\<close>

definition announced :: "shared \<Rightarrow> shared \<Rightarrow> bool" where
  "announced sh sh' \<longleftrightarrow> (\<exists>title msg. sh_log sh' = sh_log sh @ [Desktop title msg, Refresh])"

definition calm :: "uuid \<Rightarrow> goal_run \<Rightarrow> shared \<Rightarrow> shared \<Rightarrow> bool" where
  "calm i run sh sh' \<longleftrightarrow>
     (\<exists>run'. goal_of i sh' = Some run' \<and> rn_iteration run' = rn_iteration run \<and> rn_status run' \<noteq> GsDone \<and>
        (is_terminal (rn_status run') \<longrightarrow> announced sh sh'))"

text \<open>The driver may have touched the run's counters before it decides.\<close>

definition touched :: "uuid \<Rightarrow> goal_run \<Rightarrow> shared \<Rightarrow> shared \<Rightarrow> bool" where
  "touched i run sh s \<longleftrightarrow> sh_log s = sh_log sh \<and>
     (\<exists>r. goal_of i s = Some r \<and> rn_iteration r = rn_iteration run \<and> \<not> is_terminal (rn_status r))"

lemma touched_calm: "touched i run sh s \<Longrightarrow> calm i run sh s"
  unfolding touched_def calm_def by force

lemma touched_set_run:
  "touched i run sh s \<Longrightarrow> (\<And>r. rn_iteration (f r) = rn_iteration r) \<Longrightarrow>
   (\<And>r. \<not> is_terminal (rn_status r) \<Longrightarrow> \<not> is_terminal (rn_status (f r))) \<Longrightarrow> touched i run sh (set_run i f s)"
  unfolding touched_def by fastforce

lemma calm_escalate:
  "touched i run sh s \<Longrightarrow> st \<noteq> GsDone \<Longrightarrow> calm i run sh (escalate env i st msg s)"
  unfolding touched_def calm_def announced_def
  by (auto simp: escalate_goal escalate_log escalated_def notifies_def)

lemma calm_act_set_run:
  "touched i run sh s \<Longrightarrow> (\<And>r. rn_iteration (f r) = rn_iteration r) \<Longrightarrow>
   (\<And>r. rn_status (f r) = rn_status r) \<Longrightarrow> calm i run sh (set_run i f (act e s))"
  unfolding touched_def calm_def by force

lemma set_running_facts [simp]:
  "rn_iteration (set_running r) = rn_iteration r" "\<not> is_terminal (rn_status r) \<Longrightarrow> \<not> is_terminal (rn_status (set_running r))"
  by (auto simp: set_running_def)

lemma calm_if: "(c \<Longrightarrow> calm i run sh a) \<Longrightarrow> (\<not> c \<Longrightarrow> calm i run sh b) \<Longrightarrow> calm i run sh (if c then a else b)"
  by simp

lemma calm_drive_idle:
  assumes "touched i run sh s"
  shows "calm i run sh (drive_idle env settings run' i s)"
  unfolding drive_idle_def Let_def
  by (intro calm_if; (rule calm_escalate calm_act_set_run | rule touched_calm); (rule touched_set_run)?; simp add: assms)

lemma calm_drive_screen:
  assumes "touched i run sh s"
  shows "calm i run sh (drive_screen env settings run' i scr s)"
proof -
  define s1 where "s1 = (if rn_no_text_ticks run' \<noteq> 0
      then set_run i (\<lambda>r. set_running (r\<lparr> rn_no_text_ticks := 0 \<rparr>)) s else s)"
  have s1: "touched i run sh s1"
    using assms by (auto simp: s1_def intro!: touched_set_run)
  then have w: "calm i run sh (set_run i (\<lambda>r. set_running (r\<lparr> rn_idle_ticks := 0 \<rparr>)) s1)"
    by (auto intro!: touched_calm touched_set_run)
  have c: "calm i run sh (case classify (en_letters env) scr (panel_title i (rn_panel_id run') s1) of
             Some CWorking \<Rightarrow> set_run i (\<lambda>r. set_running (r\<lparr> rn_idle_ticks := 0 \<rparr>)) s1
           | Some CWaiting \<Rightarrow> set_run i (\<lambda>r. set_running (r\<lparr> rn_idle_ticks := 0 \<rparr>)) s1
           | Some CNeedsInput \<Rightarrow> drive_idle env settings run' i s1
           | None \<Rightarrow> drive_idle env settings run' i s1)"
    using w calm_drive_idle [OF s1] by (simp split: option.split ClaudeState.split)
  show ?thesis
    unfolding drive_screen_def Let_def s1_def [symmetric]
    by (intro calm_if; (rule calm_escalate [OF s1], simp | rule c))
qed

lemma calm_drive_unreadable:
  assumes "touched i run sh s"
  shows "calm i run sh (drive_unreadable env run' i s)"
  unfolding drive_unreadable_def Let_def
  by (intro calm_if; (rule calm_escalate | rule touched_calm); (rule touched_set_run)?; simp add: assms)

lemma calm_poll:
  assumes "goal_of i sh = Some run" and "tm_workspace i (sh_tabs sh) \<noteq> None" and "\<not> is_terminal (rn_status run)"
    and "parse_iteration_file env sh (output_abs run (rn_iteration run)) = None"
  shows "calm i run sh (drive_one env settings i sh)"
proof -
  have t: "touched i run sh sh" using assms(1, 3) by (simp add: touched_def)
  obtain b where d: "drive_one env settings i sh =
     (if en_hibernated env (rn_panel_id run) then sh
      else if out_of_time env run then escalate env i (GsBlocked ''ran out of time'') b sh
      else if \<not> state_detection_is_claude (rn_runner run) then sh
      else case en_screen env (rn_panel_id run) of
             None \<Rightarrow> drive_unreadable env run i sh
           | Some scr \<Rightarrow> drive_screen env settings run i scr sh)"
    using drive_one_poll [OF assms(1, 2, 4)] by blast
  show ?thesis
    unfolding d
    by (intro calm_if; (rule calm_escalate [OF t], simp | simp add: touched_calm [OF t] calm_drive_unreadable [OF t]
          calm_drive_screen [OF t] split: option.split))
qed

text \<open>C20. A driver tick makes a run "done" exactly when its report says so, whatever the screen shows
  and even while the agent is paused; a tick that ends a run, in whichever way, notifies the human; and
  the iteration moves by at most one, only after the current iteration was reported as blocked.\<close>

theorem every_end_is_announced:
  assumes "goals_ok (sh_goals sh)" and "goal_of i sh = Some run" and "\<not> is_terminal (rn_status run)"
    and "tm_workspace i (sh_tabs sh) \<noteq> None"
  shows "\<exists>run'. goal_of i (drive_one env settings i sh) = Some run' \<and>
    (rn_status run' = GsDone \<longleftrightarrow> parse_iteration_file env sh (output_abs run (rn_iteration run)) = Some (Some ''done'')) \<and>
    (is_terminal (rn_status run') \<longrightarrow> announced sh (drive_one env settings i sh)) \<and>
    (rn_iteration run' = rn_iteration run \<or> rn_iteration run' = rn_iteration run + 1 \<and>
       parse_iteration_file env sh (output_abs run (rn_iteration run)) = Some (Some ''blocked''))"
proof -
  let ?file = "parse_iteration_file env sh (output_abs run (rn_iteration run))" and ?sh' = "drive_one env settings i sh"
  have ws: "rn_workspace_id run = i" using assms(1, 2) by (auto simp: goals_ok_def goal_of_def)
  have t: "touched i run sh sh" using assms(2, 3) by (simp add: touched_def)
  have calm_enough: ?thesis if "calm i run sh ?sh'" "?file \<noteq> Some (Some ''done'')"
    using that unfolding calm_def by blast
  show ?thesis
  proof (cases ?file)
    case None
    then show ?thesis using calm_enough calm_poll [OF assms(2, 4, 3)] by simp
  next
    case (Some st)
    show ?thesis
    proof (cases st)
      case None
      with \<open>?file = Some st\<close> have f: "?file = Some None" by simp
      then obtain b where "?sh' = escalate env i (GsNeedsAttention ''iteration report has no status line'') b sh"
        using drive_one_malformed [OF assms(2, 4)] by blast
      then show ?thesis using calm_enough calm_escalate [OF t] f by simp
    next
      case (Some status)
      with \<open>?file = Some st\<close> have f: "?file = Some (Some status)" by simp
      note d = drive_one_report [OF assms(2, 4) f, of settings]
      have g: "goal_of (rn_workspace_id run) sh = Some run" using assms(2) ws by simp
      consider (done_) "status = ''done''" | (blocked) "status = ''blocked''" "rn_iteration run < started_iteration_cap run"
        | (other) "status \<noteq> ''done''" "\<not> (status = ''blocked'' \<and> rn_iteration run < started_iteration_cap run)"
        by blast
      then show ?thesis
      proof cases
        case done_
        then obtain b where "?sh' = notify env i ''Goal finished'' b True (set_run i (\<lambda>r. r\<lparr> rn_status := GsDone \<rparr>) sh)"
          using on_iteration_file_other(1) ws d by metis
        then show ?thesis using assms(2) f done_ by (auto simp: announced_def log_notify)
      next
        case blocked
        show ?thesis
        proof (cases "may_advance env sh run")
          case True
          then obtain b where "?sh' = notify env i ''Goal working'' b False
              (fst (advance_iteration env i (blocked_reason run) sh))"
            using on_iteration_file_blocked [OF g blocked(2), of env] d blocked(1) ws by auto
          then show ?thesis
            using advance_iteration_cases [OF assms(2), of env "blocked_reason run"] True assms(2) f blocked by simp
        next
          case False
          then have "?sh' = sh" using on_iteration_file_blocked [OF g blocked(2), of env] d blocked(1) by simp
          then show ?thesis using calm_enough touched_calm [OF t] f blocked(1) by simp
        qed
      next
        case other
        then obtain s b where "?sh' = escalate env i s b sh" "s \<noteq> GsDone"
          using on_iteration_file_other(2, 3) [of status] ws d by (cases "status = ''blocked''") (metis GoalStatus.distinct)+
        then show ?thesis using calm_enough calm_escalate [OF t] f other(1) by simp
      qed
    qed
  qed
qed

lemma every_end_is_announced_witness:
  "\<exists>run. goal_of 7 (drive_one (quiet_env\<lparr> en_file := \<lambda>_ _. Some ([CHR ''-'', CHR ''-'', CHR ''-'', CHR 0x0A] @ ''status: Done'') \<rparr>)
     default_settings 7 sample_shared) = Some run \<and> rn_status run = GsDone"
proof -
  let ?e = "quiet_env\<lparr> en_file := \<lambda>_ _. Some ([CHR ''-'', CHR ''-'', CHR ''-'', CHR 0x0A] @ ''status: Done'') \<rparr>"
  have "goals_ok (sh_goals sample_shared)" by (simp add: goals_ok_def sample_shared_def sample_run_def)
  moreover have "parse_iteration_file ?e sample_shared (output_abs sample_run (rn_iteration sample_run)) = Some (Some ''done'')"
    by code_simp
  moreover have "\<not> is_terminal (rn_status sample_run)" by (simp add: sample_run_def)
  ultimately show ?thesis
    using every_end_is_announced [OF _ sample_goal _ sample_open, of ?e default_settings] by auto
qed

section \<open>Choosing a run by name\<close>

text \<open>A run matches a name when it is its full name or, if no run has that name, its last part.\<close>

definition matches_name :: "goal_registry \<Rightarrow> rstr \<Rightarrow> goal_run \<Rightarrow> bool" where
  "matches_name goals t r \<longleftrightarrow>
     (if \<exists>(j, r') \<in> set goals. rn_goal_name r' = t then rn_goal_name r = t else last_segment (rn_goal_name r) = t)"

definition live_hits :: "goal_registry \<Rightarrow> rstr \<Rightarrow> (uuid \<times> goal_run) list" where
  "live_hits goals t = live_runs (filter (\<lambda>(_, r). matches_name goals t r) goals)"

lemma named_hits_matches:
  "named_hits goals t =
     (let hits = filter (\<lambda>(_, r). matches_name goals t r) goals
      in if 1 < length hits \<and> length (live_runs hits) = 1 then live_runs hits else hits)"
proof -
  have "(if filter (\<lambda>(_, r). rn_goal_name r = t) goals = []
         then filter (\<lambda>(_, r). last_segment (rn_goal_name r) = t) goals else filter (\<lambda>(_, r). rn_goal_name r = t) goals) =
      filter (\<lambda>(_, r). matches_name goals t r) goals"
    unfolding matches_name_def by (auto simp: filter_empty_conv intro!: filter_cong)
  then show ?thesis by (simp add: named_hits_def Let_def)
qed

lemma live_runs_set: "set (live_runs rs) = {(i, r) \<in> set rs. \<not> is_terminal (rn_status r)}"
  by (auto simp: live_runs_def)

lemma singleton_in: "distinct (map fst xs) \<Longrightarrow> length xs = 1 \<Longrightarrow> (i, r) \<in> set xs \<Longrightarrow> xs = [(i, r)]"
  by (cases xs) auto

lemma named_hits_single:
  assumes "distinct (map fst goals)"
  shows "(\<exists>r. named_hits goals t = [(i, r)]) \<longleftrightarrow>
    (\<exists>r. (i, r) \<in> set goals \<and> matches_name goals t r \<and>
       (\<forall>(j, r') \<in> set goals. matches_name goals t r' \<and> j \<noteq> i \<longrightarrow> \<not> is_terminal (rn_status r) \<and> is_terminal (rn_status r')))"
    (is "?L \<longleftrightarrow> ?R")
proof -
  let ?hits = "filter (\<lambda>(_, r). matches_name goals t r) goals"
  have dh: "distinct (map fst ?hits)" using assms by (simp add: distinct_map_filter)
  have dl: "distinct (map fst (live_runs ?hits))" unfolding live_runs_def by (rule distinct_map_filter [OF dh])
  have hits: "(j, r) \<in> set ?hits \<longleftrightarrow> (j, r) \<in> set goals \<and> matches_name goals t r" for j r by auto
  show ?thesis
  proof
    assume ?L
    then obtain r where r: "named_hits goals t = [(i, r)]" by blast
    show ?R
    proof (cases "1 < length ?hits \<and> length (live_runs ?hits) = 1")
      case True
      then have l: "live_runs ?hits = [(i, r)]" using r by (simp add: named_hits_matches Let_def)
      then have mem: "(i, r) \<in> set ?hits" "\<not> is_terminal (rn_status r)" using live_runs_set [of ?hits] by auto
      have "is_terminal (rn_status r')" if "(j, r') \<in> set ?hits" "j \<noteq> i" for j r'
        using that live_runs_set [of ?hits] l by auto
      then show ?thesis using mem by (intro exI [of _ r]) auto
    next
      case False
      then have "?hits = [(i, r)]" using r unfolding named_hits_matches Let_def by (simp only: if_False split: if_splits)
      then have "\<And>j r'. (j, r') \<in> set ?hits \<longleftrightarrow> j = i \<and> r' = r" by simp
      then show ?thesis unfolding hits by blast
    qed
  next
    assume ?R
    then obtain r where r: "(i, r) \<in> set ?hits"
      and others: "\<And>j r'. (j, r') \<in> set ?hits \<Longrightarrow> j \<noteq> i \<Longrightarrow> \<not> is_terminal (rn_status r) \<and> is_terminal (rn_status r')"
      unfolding hits by blast
    show ?L
    proof (cases "length ?hits = 1")
      case True
      then have "?hits = [(i, r)]" using singleton_in [OF dh] r by blast
      then show ?thesis by (simp add: named_hits_matches)
    next
      case False
      then have len: "1 < length ?hits" using r by (cases ?hits) auto
      then obtain j r' where "(j, r') \<in> set ?hits" "j \<noteq> i"
        using dh r by (cases ?hits; cases "tl ?hits") (auto, (metis fst_conv list.set_intros)+)
      then have live: "\<not> is_terminal (rn_status r)" using others by blast
      have "set (live_runs ?hits) = {(i, r)}"
        using live r others eq_key_imp_eq_value [OF dh] unfolding live_runs_set by (auto, metis+)
      moreover have "distinct (live_runs ?hits)" using dl by (simp only: distinct_map)
      ultimately have "length (live_runs ?hits) = 1" by (simp add: distinct_card [symmetric])
      with \<open>set (live_runs ?hits) = {(i, r)}\<close> have "live_runs ?hits = [(i, r)]"
        using singleton_in [OF dl, of i r] by simp
      then show ?thesis using len by (simp add: named_hits_matches)
    qed
  qed
qed

text \<open>A name resolves to a run exactly when that run matches it and either no other run does or
  it is the only one of them still active; a full name is never shadowed by another run's last part.
  When a name does not resolve, an error is returned, never some other run; and a name typed with
  white space around it means the same.\<close>

theorem resolve_run_by_name:
  assumes "distinct (map fst goals)" and "trim name = t" and "t \<noteq> []" and "parse_uuid t = None"
  shows "resolve_run parse_uuid goals (Some name) hint = Inr i \<longleftrightarrow>
    (\<exists>r. (i, r) \<in> set goals \<and> matches_name goals t r \<and>
       (\<forall>(j, r') \<in> set goals. matches_name goals t r' \<and> j \<noteq> i \<longrightarrow> \<not> is_terminal (rn_status r) \<and> is_terminal (rn_status r')))"
proof -
  have "resolve_run parse_uuid goals (Some name) hint = Inr i \<longleftrightarrow> (\<exists>r. named_hits goals t = [(i, r)])"
    using assms(2-4) by (auto simp: resolve_run_def opt_filter_def split: list.splits)
  then show ?thesis by (simp only: named_hits_single [OF assms(1)])
qed

lemma resolve_run_by_name_witness:
  "resolve_run (\<lambda>_. None) [(1, sample_run\<lparr> rn_status := GsDone \<rparr>), (2, sample_run)] (Some ''g'') None = Inr 2"
proof -
  have "trim ''g'' = ''g''" by code_simp
  then show ?thesis
    using resolve_run_by_name [of "[(1, sample_run\<lparr> rn_status := GsDone \<rparr>), (2, sample_run)]" "''g''" "''g''" "\<lambda>_. None" None 2]
    by (simp add: matches_name_def sample_run_def)
qed

section \<open>Iteration numbers\<close>

lemma foldl_max: "foldl max a xs = Max (insert a (set xs))" for xs :: "u32 list"
proof -
  have "(\<lambda>x s :: u32. max s x) = max" by (intro ext max.commute)
  then show ?thesis using Max.set_eq_fold [of a xs] by (simp add: foldl_conv_fold)
qed

lemma iteration_number_file: "iteration_number (''iteration-'' @ show_nat (unat n) @ ''.md'') = Some n"
proof -
  have "strip_prefix ''iteration-'' (''iteration-'' @ s) = Some s" for s
    by (simp add: strip_prefix_def starts_with_def)
  moreover have "strip_suffix ''.md'' (s @ ''.md'') = Some s" for s
    by (simp add: strip_suffix_def strip_prefix_def starts_with_def)
  moreover have "parse_unsigned (2 ^ 32) (show_nat (unat n)) = Some (unat n)"
    by (rule parse_show) (rule unat_u32_less)
  ultimately show ?thesis by (simp add: iteration_number_def)
qed

text \<open>The iteration a launch starts is one past the highest report in its directory: its number is
  at least 1 and its report file does not exist yet, so no earlier report is taken for the new run's -
  unless the highest possible number is already used.\<close>

theorem next_iteration_unused:
  fixes env :: env and sh :: shared and cwd dir :: rstr
  defines "names \<equiv> en_entries env (sh_log sh) (path_join cwd dir)"
  defines "n \<equiv> next_iteration_number env sh cwd dir"
  assumes "\<forall>name \<in> set names. iteration_number name \<noteq> Some (- 1)"
  shows "0 < n \<and> ''iteration-'' @ show_nat (unat n) @ ''.md'' \<notin> set names \<and>
    (\<forall>name \<in> set names. \<forall>k. iteration_number name = Some k \<longrightarrow> k < n)"
proof -
  let ?ks = "List.map_filter iteration_number names"
  have ks: "set ?ks = {k. \<exists>name \<in> set names. iteration_number name = Some k}"
    by (force simp: List.map_filter_def)
  define m where "m = foldl max 0 ?ks"
  have n: "n = m + 1" by (simp add: n_def m_def next_iteration_number_def names_def)
  have "m \<noteq> - 1"
    using Max_in [of "insert 0 (set ?ks)"] assms(3) ks by (auto simp: m_def foldl_max)
  then have "1 + m \<noteq> 0" by (metis add.commute add_eq_0_iff)
  then have "m < n" unfolding n by (simp add: word_less_nat_alt add.commute unatSuc)
  moreover have "k \<le> m" if "k \<in> set ?ks" for k using that by (simp add: m_def foldl_max)
  ultimately have "\<forall>k \<in> set ?ks. k < n" by force
  then show ?thesis using ks iteration_number_file [of n] \<open>m < n\<close> by (auto simp: word_neq_0_conv [symmetric])
qed

lemma next_iteration_unused_witness:
  "''iteration-'' @ show_nat (unat (next_iteration_number
     (quiet_env\<lparr> en_entries := \<lambda>_ _. [''iteration-3.md'', ''notes.md''] \<rparr>) sample_shared [] [])) @ ''.md''
   \<notin> set [''iteration-3.md'', ''notes.md'']"
proof -
  have "show_nat 3 = ''3''" by code_simp
  then have "iteration_number ''iteration-3.md'' = Some 3" using iteration_number_file [of 3] by simp
  moreover have "iteration_number ''notes.md'' = None"
    by (simp add: iteration_number_def strip_prefix_def starts_with_def)
  ultimately have "iteration_number ''iteration-3.md'' = Some 3" "iteration_number ''notes.md'' = None" by simp_all
  then show ?thesis
    using next_iteration_unused [of "quiet_env\<lparr> en_entries := \<lambda>_ _. [''iteration-3.md'', ''notes.md''] \<rparr>" sample_shared "[]" "[]"]
    by simp
qed

section \<open>Launching\<close>

text \<open>Every identifier in use lies below the next one to be drawn.\<close>

definition ids_below :: "uuid \<Rightarrow> tab_manager \<Rightarrow> bool" where
  "ids_below n tm \<longleftrightarrow> (\<forall>w \<in> set (tm_spaces tm). ws_id w < n \<and> (\<forall>k \<in> set (panel_keys w). k < n))"

definition shared_ok :: "shared \<Rightarrow> bool" where
  "shared_ok sh \<longleftrightarrow> tm_ok (sh_tabs sh) \<and> ids_below (sh_next sh) (sh_tabs sh) \<and> goals_ok (sh_goals sh) \<and>
     (\<forall>i \<in> set (keys_of (sh_goals sh)). i < sh_next sh)"

lemma launch_goal_cases:
  assumes "launch_goal env spec sh = (sh', r)"
  shows "(case r of
      Inl e \<Rightarrow> sh_tabs sh' = sh_tabs sh \<and> sh_goals sh' = sh_goals sh
    | Inr run \<Rightarrow> \<exists>cmd n.
        run = launched_run env spec (Suc (sh_next sh)) (sh_next sh + 2) (uuid_str (sh_next sh)) n \<and>
        sh_tabs sh' = sh_tabs (place_workspace env (la_select spec)
          (launch_workspace env spec (Suc (sh_next sh)) (sh_next sh + 2) (uuid_str (sh_next sh)) cmd) sh) \<and>
        sh_goals sh' = hm_insert (Suc (sh_next sh)) run (sh_goals sh)) \<and>
    sh_graphs sh' = sh_graphs sh \<and> sh_notes sh' = sh_notes sh \<and> sh_next sh \<le> sh_next sh' \<and> (\<forall>run. r = Inr run \<longrightarrow> sh_next sh' = sh_next sh + 3)"
  using assms
  by (auto simp: launch_goal_def try_io_def draw_uuid_def place_workspace_def register_def Let_def launched_run_def
      split: option.splits prod.splits)

end
