(* ===== verification/Goal_Launch.thy ===== *)
theory Goal_Launch imports Goal_Runs_More begin

text \<open>
  Launching a run, end to end: the workspace it opens, the list it joins and the registry entry.
\<close>

definition launched_space :: "env \<Rightarrow> launch_spec \<Rightarrow> shared \<Rightarrow> rstr \<Rightarrow> workspace" where
  "launched_space env spec sh cmd =
     launch_workspace env spec (Suc (sh_next sh)) (sh_next sh + 2) (uuid_str (sh_next sh)) cmd"

lemma launched_space_facts [simp]:
  "ws_id (launched_space env spec sh cmd) = Suc (sh_next sh)"
  "panel_keys (launched_space env spec sh cmd) = [sh_next sh + 2]"
  "ws_ok (launched_space env spec sh cmd)"
  by (auto simp: launched_space_def launch_workspace_def with_directory_def ws_new_def modify_panel_def Let_def
      ws_ok_def meta_ok_def consistent_def panels_keyed_def focus_ok_def new_terminal_def blank_panel_def single_pane_def
      layout_ok_def split: option.splits)

lemma launched_space_command:
  "\<exists>p. map_of (ws_panels (launched_space env spec sh cmd)) (sh_next sh + 2) = Some p \<and> p_command p = Some cmd"
  by (auto simp: launched_space_def launch_workspace_def with_directory_def ws_new_def modify_panel_def Let_def
      split: option.splits)

lemma fresh_launched:
  assumes "ids_below (sh_next sh) (sh_tabs sh)" and "tm_ok (sh_tabs sh)"
  shows "fresh_space (launched_space env spec sh cmd) (sh_tabs sh)"
proof -
  have "ws_panels (launched_space env spec sh cmd) \<noteq> []"
    using launched_space_facts(2) [of env spec sh cmd] by force
  moreover have "Suc (sh_next sh) \<notin> ws_id ` set (tm_spaces (sh_tabs sh))"
    "\<forall>w \<in> set (tm_spaces (sh_tabs sh)). sh_next sh + 2 \<notin> set (panel_keys w)"
    using assms(1) unfolding ids_below_def by force+
  ultimately show ?thesis
    using tm_okD(1) [OF assms(2)] by (simp add: fresh_in_def spaces_sound_def)
qed

lemma placed_spaces:
  "mset (tm_workspaces (sh_tabs (place_workspace env select ws sh))) = add_mset ws (mset (tm_workspaces (sh_tabs sh)))"
  "tm_closed_stack (sh_tabs (place_workspace env select ws sh)) = tm_closed_stack (sh_tabs sh)"
  by (cases "en_placement env"; simp add: place_workspace_def add_workspace_with_placement_def add_workspace_def
      add_workspace_at_top_def add_workspace_after_current_def add_workspace_keep_selection_def Let_def split: option.split)+

lemma placed_ok:
  "tm_ok (sh_tabs sh) \<Longrightarrow> fresh_space ws (sh_tabs sh) \<Longrightarrow> tm_ok (sh_tabs (place_workspace env select ws sh))"
  by (simp add: place_workspace_def keeps)

lemma find_by_id: "distinct (map ws_id ws) \<Longrightarrow> w \<in> set ws \<Longrightarrow> find (\<lambda>v. ws_id v = ws_id w) ws = Some w"
  by (induction ws) auto

text \<open>A launch either fails, and then leaves workspaces and runs as they were, or it opens a new
  workspace whose single panel carries the launch command, and registers a running run for exactly that
  workspace and panel under an identifier no other run has; the window's list and the registry stay
  well formed, and a background launch leaves the user's selection alone.\<close>

theorem launch_starts_a_run:
  assumes "shared_ok sh" and "launch_goal env spec sh = (sh', r)"
  shows "(case r of
      Inl e \<Rightarrow> sh_tabs sh' = sh_tabs sh \<and> sh_goals sh' = sh_goals sh
    | Inr run \<Rightarrow> goal_of (rn_workspace_id run) sh = None \<and> goal_of (rn_workspace_id run) sh' = Some run \<and>
        rn_status run = GsRunning \<and>
        (\<exists>ws p cmd. tm_workspace (rn_workspace_id run) (sh_tabs sh') = Some ws \<and>
           map_of (ws_panels ws) (rn_panel_id run) = Some p \<and> p_command p = Some cmd) \<and>
        (\<not> la_select spec \<longrightarrow> (\<forall>s. tm_selected_id (sh_tabs sh) = Some s \<longrightarrow> tm_selected_id (sh_tabs sh') = Some s))) \<and>
    shared_ok sh'"
proof -
  note ok = assms(1) [unfolded shared_ok_def]
  note cs = launch_goal_cases [OF assms(2)]
  show ?thesis
  proof (cases r)
    case (Inl e)
    have "sh_next sh \<le> sh_next sh'" using cs by simp
    then have "shared_ok sh'"
      using ok cs Inl unfolding shared_ok_def ids_below_def by (auto intro: less_le_trans)
    then show ?thesis using cs Inl by simp
  next
    case (Inr run)
    then obtain cmd n where run: "run = launched_run env spec (Suc (sh_next sh)) (sh_next sh + 2) (uuid_str (sh_next sh)) n"
      and tabs: "sh_tabs sh' = sh_tabs (place_workspace env (la_select spec) (launched_space env spec sh cmd) sh)"
      and goals: "sh_goals sh' = hm_insert (Suc (sh_next sh)) run (sh_goals sh)" and nx: "sh_next sh' = sh_next sh + 3"
      using cs by (auto simp: launched_space_def)
    let ?w = "launched_space env spec sh cmd"
    have ids: "rn_workspace_id run = Suc (sh_next sh)" "rn_panel_id run = sh_next sh + 2" "rn_status run = GsRunning"
      by (simp_all add: run launched_run_def)
    have fresh: "fresh_space ?w (sh_tabs sh)" using fresh_launched ok by blast
    then have tm: "tm_ok (sh_tabs sh')" unfolding tabs using placed_ok ok by blast
    have none: "map_of (sh_goals sh) (Suc (sh_next sh)) = None"
      using ok unfolding map_of_eq_None_iff by force
    have spaces: "set (tm_spaces (sh_tabs sh')) = insert ?w (set (tm_spaces (sh_tabs sh)))"
      using arg_cong [OF placed_spaces(1) [of env "la_select spec" ?w sh], of set_mset]
        placed_spaces(2) [of env "la_select spec" ?w sh] by (auto simp: tm_spaces_def tabs)
    have "ids_below (sh_next sh') (sh_tabs sh')"
      using ok unfolding ids_below_def spaces nx by fastforce
    moreover have "goals_ok (sh_goals sh')"
      using ok ids none unfolding goals_ok_def goals hm_insert_def
      by (simp add: distinct_update update_conv')
    moreover have "\<forall>i \<in> set (keys_of (sh_goals sh')). i < sh_next sh'"
      using ok unfolding goals hm_insert_def nx by (auto simp: dom_update dest!: bspec)
    ultimately have "shared_ok sh'" using tm by (simp add: shared_ok_def)
    moreover have "tm_workspace (Suc (sh_next sh)) (sh_tabs sh') = Some ?w"
    proof -
      have "distinct (map ws_id (tm_workspaces (sh_tabs sh')))"
        using tm_okD(1) [OF tm] by (simp add: spaces_sound_def tm_spaces_def)
      moreover have "?w \<in> set (tm_workspaces (sh_tabs sh'))"
        using arg_cong [OF placed_spaces(1) [of env "la_select spec" ?w sh], of set_mset] by (simp add: tabs)
      ultimately show ?thesis using find_by_id [of _ ?w] by (simp add: tm_workspace_def)
    qed
    moreover have "tm_selected_id (sh_tabs sh') = Some s" if "\<not> la_select spec" "tm_selected_id (sh_tabs sh) = Some s" for s
      using that add_keep_keeps_selected by (simp add: tabs place_workspace_def)
    ultimately show ?thesis
      using none ids launched_space_command [of env spec sh cmd] Inr goals by (auto simp: goal_of_def)
  qed
qed

definition sample_launch :: launch_spec where
  "sample_launch = \<lparr> la_goal_name = ''g'', la_goal_path = [], la_goal_text = [], la_cwd = ''/repo'',
     la_output_dir_rel = ''docs'', la_upstream_refs = [], la_runner_name = ''claude'', la_runner = default_runner,
     la_max_iterations = 3, la_permission_mode = ''acceptEdits'', la_wall_clock_minutes = 120, la_title = None,
     la_graph = None, la_group_id = None, la_select = False \<rparr>"

lemma sample_shared_ok: "shared_ok sample_shared"
  by (simp add: shared_ok_def sample_shared_def ids_below_def tm_sound_def tm_new_def tm_spaces_def spaces_sound_def
      selection_ok_def history_ok_def goals_ok_def sample_run_def ws_new_def ws_ok_def meta_ok_def consistent_def panels_keyed_def
      focus_ok_def new_terminal_def blank_panel_def single_pane_def layout_ok_def)

lemma launch_starts_a_run_witness:
  "case launch_goal quiet_env sample_launch sample_shared of
     (sh', Inr run) \<Rightarrow> goal_of (rn_workspace_id run) sh' = Some run \<and> tm_selected_id (sh_tabs sh') = Some 7
   | (sh', Inl e) \<Rightarrow> False"
proof -
  obtain sh' r where l: "launch_goal quiet_env sample_launch sample_shared = (sh', r)" by force
  moreover have "\<exists>run. r = Inr run"
    using l by (auto simp: launch_goal_def try_io_def quiet_env_def Let_def draw_uuid_def)
  moreover have "tm_selected_id (sh_tabs sample_shared) = Some 7" by code_simp
  ultimately show ?thesis
    using launch_starts_a_run [OF sample_shared_ok l] by (auto simp: sample_launch_def)
qed

end
