(* ===== verification/Graph_Complete.thy ===== *)
theory Graph_Complete imports Graph_Merge Goal_Launch begin

text \<open>
  A graph gets done: when files and git cooperate and every launched run finishes, a started graph is
  complete after at most one tick per node and one more.
\<close>

section \<open>A cooperative world\<close>

definition cooperative :: "env \<Rightarrow> bool" where
  "cooperative env \<longleftrightarrow> (\<forall>h e. en_io env h e = None) \<and> (\<forall>h d a. en_git env h d a = Inr [])"

definition finish_run :: "goal_run \<Rightarrow> goal_run" where
  "finish_run run = run\<lparr> rn_status := GsDone \<rparr>"

text \<open>Between two ticks every run reports that it is done.\<close>

definition finish_runs :: "shared \<Rightarrow> shared" where
  "finish_runs sh = sh\<lparr> sh_goals := map (\<lambda>(i, run). (i, finish_run run)) (sh_goals sh) \<rparr>"

fun rounds :: "env \<Rightarrow> nat \<Rightarrow> shared \<times> graph_spec \<Rightarrow> shared \<times> graph_spec" where
  "rounds env 0 st = st"
| "rounds env (Suc k) st =
     (if gs_status (snd st) = GRunning then rounds env k (tick_running env (finish_runs (fst st), snd st)) else st)"

definition runnable :: "env \<Rightarrow> graph_spec \<Rightarrow> bool" where
  "runnable env spec \<longleftrightarrow>
     (\<forall>n \<in> set (gs_nodes spec). \<exists>r. resolve_runner_by_name (node_runner_name spec n) (en_settings env) = Inr r)"

lemma goal_of_finish_runs [simp]: "goal_of w (finish_runs sh) = map_option finish_run (goal_of w sh)"
  by (simp add: goal_of_def finish_runs_def map_of_map)

section \<open>What the runners are never changes\<close>

definition roles :: "graph_spec \<Rightarrow> rstr option list \<times> rstr option \<times> bool" where
  "roles spec = (map gn_runner (gs_nodes spec), gs_runner spec, gs_review_iterations spec)"

lemma runnable_roles: "roles spec' = roles spec \<Longrightarrow> runnable env spec' = runnable env spec"
proof -
  have "runnable env s = (\<forall>r \<in> set (fst (roles s)).
      \<exists>x. resolve_runner_by_name (case or_else r (fst (snd (roles s))) of Some r \<Rightarrow> r | None \<Rightarrow> []) (en_settings env) = Inr x)" for s
    by (simp add: runnable_def roles_def node_runner_name_def)
  then show "roles spec' = roles spec \<Longrightarrow> ?thesis" by simp
qed

lemma roles_edit: "(\<And>n. gs_node i spec = Some n \<Longrightarrow> gn_runner (f n) = gn_runner n) \<Longrightarrow> roles (edit_node i f spec) = roles spec"
proof -
  have "(\<And>n. find (\<lambda>n. gn_id n = i) ns = Some n \<Longrightarrow> gn_runner (f n) = gn_runner n) \<Longrightarrow>
      map gn_runner (update_first (\<lambda>n. gn_id n = i) f ns) = map gn_runner ns" for ns
    by (induction ns) auto
  then show "(\<And>n. gs_node i spec = Some n \<Longrightarrow> gn_runner (f n) = gn_runner n) \<Longrightarrow> ?thesis"
    by (simp add: roles_def edit_node_def gs_node_def)
qed

section \<open>Finishing in a cooperative world\<close>

lemma with_run_iteration_runner [simp]: "gn_runner (with_run_iteration sh n) = gn_runner n"
  by (simp add: with_run_iteration_def split: option.split)

lemma coop_clean: "cooperative env \<Longrightarrow> checkout_clean env spec n wt h \<and> merge_succeeds env spec n wt br h"
  by (simp add: cooperative_def checkout_clean_def merge_succeeds_def base_is_clean_def lines_of_def)

lemma coop_finish:
  assumes "cooperative env" and "gs_node i spec = Some n" and "gn_status n \<noteq> NDone"
  shows "\<exists>sh'. finish_node env i (sh, spec) = (sh', edit_node i (\<lambda>_. settled sh n NDone None) spec) \<and> sh_goals sh' = sh_goals sh"
proof (cases "gn_worktree n = None \<or> gn_branch n = None")
  case True
  have "\<exists>t b. finish_node env i (sh, spec) =
      (notify_graph_name env (gn_workspace n) t b sh, edit_node i (\<lambda>_. settled sh n NDone None) spec)"
  proof (cases "gn_worktree n")
    case None
    then show ?thesis using assms(2, 3) by (simp add: finish_node_def Let_def settled_def) blast
  next
    case (Some wt)
    then have "gn_branch n = None" using True by simp
    then show ?thesis using Some assms(2, 3) by (simp add: finish_node_def Let_def settled_def) blast
  qed
  then show ?thesis by (auto simp: notify_graph_name_def)
next
  case False
  then obtain wt br where w: "gn_worktree n = Some wt" "gn_branch n = Some br" by auto
  obtain sh1 r where m: "merge_worktree env spec (with_run_iteration sh n) wt br sh = (sh1, r)" by force
  then have r: "r = Merged" "sh_goals sh1 = sh_goals sh"
    using merge_worktree_result(2, 3) [OF m] coop_clean [OF assms(1)] by auto
  then have "\<exists>t b. finish_node env i (sh, spec) =
      (notify_graph_name env (gn_workspace n) t b sh1, edit_node i (\<lambda>_. settled sh n NDone None) spec)"
    using assms(2, 3) w m by (simp add: finish_node_def Let_def settled_def) blast
  then show ?thesis using r(2) by (auto simp: notify_graph_name_def)
qed

lemma coop_finish_all:
  assumes "cooperative env" and "distinct js" and "\<forall>i \<in> set js. state_of i spec \<notin> {None, Some NDone}"
  shows "\<exists>sh' spec'. fold (finish_node env) js (sh, spec) = (sh', spec') \<and> sh_goals sh' = sh_goals sh \<and>
    roles spec' = roles spec \<and> (\<forall>i. state_of i spec' = (if i \<in> set js then Some NDone else state_of i spec))"
  using assms(2, 3)
proof (induction js arbitrary: sh spec)
  case (Cons i js)
  obtain n where n: "gs_node i spec = Some n" "gn_status n \<noteq> NDone" using Cons.prems(2) by (auto simp: state_of_def)
  let ?e = "edit_node i (\<lambda>_. settled sh n NDone None) spec"
  obtain sh1 where f: "finish_node env i (sh, spec) = (sh1, ?e)" "sh_goals sh1 = sh_goals sh"
    using coop_finish [OF assms(1) n] by blast
  have st: "state_of j ?e = (if j = i then Some NDone else state_of j spec)" for j
    using gs_node_settled [OF n(1), of j] by (simp add: state_of_def)
  have su: "roles ?e = roles spec" using n(1) by (intro roles_edit) (simp add: settled_def)
  have "\<forall>j \<in> set js. state_of j ?e \<notin> {None, Some NDone}" using Cons.prems by (auto simp: st)
  then obtain sh' spec' where "fold (finish_node env) js (sh1, ?e) = (sh', spec')" "sh_goals sh' = sh_goals sh1"
    "roles spec' = roles ?e" "\<forall>j. state_of j spec' = (if j \<in> set js then Some NDone else state_of j ?e)"
    using Cons.IH [of ?e sh1] Cons.prems(1) by auto
  then show ?case using f su st by auto
qed simp

section \<open>One tick\<close>

text \<open>Nothing stuck, nothing under review, every running node has its run.\<close>

definition busy :: "shared \<Rightarrow> graph_spec \<Rightarrow> bool" where
  "busy sh spec \<longleftrightarrow> (\<forall>n \<in> set (gs_nodes spec). gn_status n = NPending \<or> gn_status n = NDone \<or>
     gn_status n = NRunning \<and> (\<exists>w. gn_workspace n = Some w \<and> goal_of w sh \<noteq> None))"

definition synced_node :: "shared \<Rightarrow> graph_node \<Rightarrow> graph_node" where
  "synced_node sh n =
     (if gn_status n = NRunning then n\<lparr> gn_iteration := rn_iteration (the (goal_of (the (gn_workspace n)) sh)) \<rparr> else n)"

lemma busy_sync_nodes:
  assumes "\<forall>n \<in> set ns. gn_status n = NRunning \<longrightarrow>
      (\<exists>w run. gn_workspace n = Some w \<and> goal_of w sh = Some run \<and> rn_status run = GsDone)"
  shows "sync_nodes env name False ns sh =
    (sh, map (synced_node sh) ns, map gn_id (filter (\<lambda>n. gn_status n = NRunning) ns))"
  using assms
proof (induction ns)
  case (Cons n ns)
  have "sync_node env name False n sh = (sh, synced_node sh n, gn_status n = NRunning)"
    using Cons.prems by (auto simp: sync_node_def synced_node_def Let_def)
  then show ?case using Cons by simp
qed simp

lemma coop_sync:
  assumes "cooperative env" and "ids_ok spec" and "busy sh spec" and "\<not> gs_review_iterations spec"
  shows "\<exists>sh' spec'. sync_node_states env (finish_runs sh, spec) = (sh', spec') \<and> sh_goals sh' = sh_goals (finish_runs sh) \<and>
    roles spec' = roles spec \<and>
    (\<forall>i. state_of i spec' = (if state_of i spec = Some NRunning then Some NDone else state_of i spec))"
proof -
  let ?sh = "finish_runs sh"
  let ?js = "map gn_id (filter (\<lambda>n. gn_status n = NRunning) (gs_nodes spec))"
  let ?m = "spec\<lparr> gs_nodes := map (synced_node ?sh) (gs_nodes spec) \<rparr>"
  have "sync_nodes env (gs_name spec) False (gs_nodes spec) ?sh = (?sh, map (synced_node ?sh) (gs_nodes spec), ?js)"
    using assms(3) by (intro busy_sync_nodes) (fastforce simp: busy_def finish_run_def)
  then have y: "sync_node_states env (?sh, spec) = fold (finish_node env) ?js (?sh, ?m)"
    using assms(4) by (simp add: sync_node_states_def)
  have id: "gn_id (synced_node s n) = gn_id n" "gn_status (synced_node s n) = gn_status n" "gn_runner (synced_node s n) = gn_runner n" for s n
    by (simp_all add: synced_node_def)
  have st: "state_of i ?m = state_of i spec" for i
    by (simp add: state_of_def gs_node_def find_map_id id option.map_comp comp_def)
  have mem: "i \<in> set ?js \<longleftrightarrow> state_of i spec = Some NRunning" for i
    using gs_node_Some [OF assms(2)] gs_node_in [of i spec] by (fastforce simp: state_of_def)
  have "distinct ?js" using assms(2) by (simp add: ids_ok_def distinct_map_filter)
  moreover have "\<forall>i \<in> set ?js. state_of i ?m \<notin> {None, Some NDone}" using mem st by auto
  ultimately obtain sh' spec' where "fold (finish_node env) ?js (?sh, ?m) = (sh', spec')" "sh_goals sh' = sh_goals ?sh"
    "roles spec' = roles ?m" "\<forall>i. state_of i spec' = (if i \<in> set ?js then Some NDone else state_of i ?m)"
    using coop_finish_all [OF assms(1)] by blast
  moreover have "roles ?m = roles spec" by (simp add: roles_def comp_def id)
  ultimately show ?thesis using y st mem by (metis (no_types, lifting))
qed

lemma coop_add_worktree:
  assumes "cooperative env"
  shows "\<exists>sh'. add_worktree env spec i sh = (sh', None) \<and> sh_goals sh' = sh_goals sh"
  using assms by (simp add: add_worktree_def cooperative_def git_def try_io_def Let_def)

lemma coop_launch_goal:
  assumes "cooperative env"
  shows "\<exists>sh' run. launch_goal env la sh = (sh', Inr run) \<and> goal_of (rn_workspace_id run) sh' \<noteq> None \<and>
    (\<forall>j. goal_of j sh \<noteq> None \<longrightarrow> goal_of j sh' \<noteq> None)"
proof -
  obtain sh' r where l: "launch_goal env la sh = (sh', r)" by force
  then have "\<exists>run. r = Inr run"
    using assms by (auto simp: launch_goal_def cooperative_def try_io_def Let_def split: prod.splits)
  then obtain run where r: "r = Inr run" by blast
  then have "sh_goals sh' = hm_insert (rn_workspace_id run) run (sh_goals sh)"
    using launch_goal_cases [OF l] by (auto simp: launched_run_def)
  then show ?thesis using l r by (auto simp: goal_of_def)
qed

definition started_node :: "uuid \<Rightarrow> rstr option \<Rightarrow> rstr option \<Rightarrow> graph_node \<Rightarrow> graph_node" where
  "started_node w br wt n = n\<lparr> gn_status := NRunning, gn_workspace := Some w, gn_branch := br, gn_worktree := wt, gn_detail := None \<rparr>"

lemma started_node_fields [simp]:
  "gn_id (started_node w br wt n) = gn_id n" "gn_deps (started_node w br wt n) = gn_deps n"
  "gn_runner (started_node w br wt n) = gn_runner n" "gn_status (started_node w br wt n) = NRunning"
  "gn_workspace (started_node w br wt n) = Some w"
  by (simp_all add: started_node_def)

lemma coop_launch_node:
  assumes "cooperative env" and "gs_node i spec = Some n" and "runnable env spec"
  shows "\<exists>sh' w br wt. launch_node env i (sh, spec) = ((sh', edit_node i (started_node w br wt) spec), None) \<and>
    goal_of w sh' \<noteq> None \<and> (\<forall>j. goal_of j sh \<noteq> None \<longrightarrow> goal_of j sh' \<noteq> None)"
proof -
  obtain rn r where r: "resolve_runner_by_name (node_runner_name spec n) (en_settings env) = Inr (rn, r)"
    using assms(3) gs_node_in [OF assms(2)] by (force simp: runnable_def)
  obtain sh1 where a: "(if gs_use_worktrees spec then add_worktree env spec i sh else (sh, None)) = (sh1, None)"
    "sh_goals sh1 = sh_goals sh"
    using coop_add_worktree [OF assms(1), of spec i sh] by (cases "gs_use_worktrees spec") auto
  let ?la = "node_launch_spec env spec n i (if gs_use_worktrees spec then worktree_dir spec i else gs_base_cwd spec) rn r"
  obtain sh2 run where l: "launch_goal env ?la sh1 = (sh2, Inr run)" "goal_of (rn_workspace_id run) sh2 \<noteq> None"
    "\<forall>j. goal_of j sh1 \<noteq> None \<longrightarrow> goal_of j sh2 \<noteq> None"
    using coop_launch_goal [OF assms(1)] by blast
  have "launch_node env i (sh, spec) = ((sh2, edit_node i (started_node (rn_workspace_id run)
      (if gs_use_worktrees spec then Some (node_branch spec i) else None)
      (if gs_use_worktrees spec then Some (worktree_dir spec i) else None)) spec), None)"
    using assms(2) r a(1) l(1) by (simp add: launch_node_def Let_def started_node_def [abs_def])
  then show ?thesis using l(2, 3) a(2) by (auto simp: goal_of_def)
qed

lemma edit_node_set:
  "gs_node i spec = Some n \<Longrightarrow> ids_ok spec \<Longrightarrow> gn_id (f n) = i \<Longrightarrow>
   m \<in> set (gs_nodes (edit_node i f spec)) \<Longrightarrow> m = f n \<or> m \<in> set (gs_nodes spec)"
proof -
  have "find (\<lambda>n. gn_id n = i) ns = Some n \<Longrightarrow> m \<in> set (update_first (\<lambda>n. gn_id n = i) f ns) \<Longrightarrow> m = f n \<or> m \<in> set ns" for ns
    by (induction ns) (auto split: if_splits)
  then show "gs_node i spec = Some n \<Longrightarrow> m \<in> set (gs_nodes (edit_node i f spec)) \<Longrightarrow> ?thesis"
    by (auto simp: gs_node_def edit_node_def)
qed

lemma coop_launch_ready:
  assumes "cooperative env" and "distinct ids"
    and "ids_ok spec" and "\<forall>i \<in> set ids. gs_node i spec \<noteq> None" and "runnable env spec" and "busy sh spec"
  shows "\<exists>sh' spec'. launch_ready env slots ids (sh, spec) = (sh', spec') \<and> busy sh' spec' \<and> roles spec' = roles spec \<and>
    plan spec' = plan spec"
  using assms(2-)
proof (induction ids arbitrary: slots sh spec)
  case (Cons i ids)
  show ?case
  proof (cases "slots = 0")
    case True
    then show ?thesis using Cons.prems by simp
  next
    case False
    obtain n where n: "gs_node i spec = Some n" using Cons.prems(3) by auto
    obtain sh1 w br wt where l: "launch_node env i (sh, spec) = ((sh1, edit_node i (started_node w br wt) spec), None)"
      "goal_of w sh1 \<noteq> None" "\<forall>j. goal_of j sh \<noteq> None \<longrightarrow> goal_of j sh1 \<noteq> None"
      using coop_launch_node [OF assms(1) n Cons.prems(4)] by blast
    let ?e = "edit_node i (started_node w br wt) spec"
    have ro: "roles ?e = roles spec" by (intro roles_edit) simp
    have pl: "plan ?e = plan spec" by (intro plan_edit) simp
    have "busy sh1 ?e"
      unfolding busy_def
    proof
      fix m
      assume "m \<in> set (gs_nodes ?e)"
      then have "m = started_node w br wt n \<or> m \<in> set (gs_nodes spec)"
        using edit_node_set [OF n Cons.prems(2)] gs_node_in [OF n] by simp
      then show "gn_status m = NPending \<or> gn_status m = NDone \<or>
          gn_status m = NRunning \<and> (\<exists>w. gn_workspace m = Some w \<and> goal_of w sh1 \<noteq> None)"
        using Cons.prems(5) l(2, 3) unfolding busy_def by fastforce
    qed
    moreover have "\<forall>j \<in> set ids. gs_node j ?e \<noteq> None"
    proof
      fix j
      assume "j \<in> set ids"
      then have "gs_node j spec \<noteq> None" "j \<noteq> i" using Cons.prems(1, 3) by auto
      moreover have "gs_node j ?e = (if j = i then map_option (started_node w br wt) (gs_node i spec) else gs_node j spec)"
        using gs_node_in [of i spec] by (intro gs_node_edit) simp
      ultimately show "gs_node j ?e \<noteq> None" by simp
    qed
    moreover have "distinct ids" using Cons.prems(1) by simp
    ultimately obtain sh' spec' where "launch_ready env (slots - 1) ids (sh1, ?e) = (sh', spec')" "busy sh' spec'"
      "roles spec' = roles ?e" "plan spec' = plan ?e"
      using Cons.IH [of ?e sh1 "slots - 1"] ids_ok_plan [OF pl] runnable_roles [OF ro] Cons.prems(2, 4) by blast
    then show ?thesis using False l(1) ro pl by simp
  qed
qed simp

lemma tick_running_goes:
  assumes "gs_nodes (snd st) \<noteq> []" and "\<not> all_done (snd (sync_node_states env st))"
    and "\<not> stalled (done_ids (snd (sync_node_states env st))) (snd (after_launch env st))"
  shows "tick_running env st = after_launch env st"
proof -
  obtain s1 s where y: "sync_node_states env st = (s1, s)" by force
  obtain l1 l where l: "launch_ready env (free_slots s) (ready_ids s) (s1, s) = (l1, l)" by force
  have d: "list_all (\<lambda>n. gn_status n = NDone) (gs_nodes s) = False"
    using assms(2) y by (simp add: all_done_def list_all_iff)
  have "after_launch env st = (l1, l)" using y l by (simp add: after_launch_def)
  moreover have "stalled (done_ids s) l = False" using assms(3) y calculation by simp
  ultimately show ?thesis using assms(1) y l d by (simp add: tick_running_def Let_def)
qed

definition finished :: "graph_spec \<Rightarrow> rstr set" where
  "finished spec = {i. state_of i spec = Some NDone}"

definition working :: "graph_spec \<Rightarrow> rstr set" where
  "working spec = {i. state_of i spec = Some NRunning}"

lemma finished_working: "finished spec \<inter> working spec = {}" "finished spec \<union> working spec \<subseteq> fst ` set (plan spec)"
proof -
  have "i \<in> fst ` set (plan spec)" if "state_of i spec = Some x" for i x
    using that gs_node_in [of i spec] by (force simp: state_of_def plan_def)
  then show "finished spec \<inter> working spec = {}" "finished spec \<union> working spec \<subseteq> fst ` set (plan spec)"
    by (auto simp: finished_def working_def)
qed

lemma coop_round:
  assumes "cooperative env" and "graph_ok A spec" and "gs_status spec = GRunning" and "busy sh spec"
    and "\<not> gs_review_iterations spec" and "runnable env spec"
    and "tick_running env (finish_runs sh, spec) = (sh', spec')"
  shows "gs_status spec' = GComplete \<or>
    (gs_status spec' = GRunning \<and> graph_ok A spec' \<and> busy sh' spec' \<and> roles spec' = roles spec \<and> plan spec' = plan spec \<and>
     finished spec' = finished spec \<union> working spec \<and> working spec' \<noteq> {})"
proof -
  let ?st = "(finish_runs sh, spec)"
  note ok = graph_okD [OF assms(2)]
  have ne: "gs_nodes spec \<noteq> []" using ok(4) assms(3) by (simp add: phase_ok_def)
  obtain s1 s where y: "sync_node_states env ?st = (s1, s)" and ro: "roles s = roles spec"
    and states: "\<And>i. state_of i s = (if state_of i spec = Some NRunning then Some NDone else state_of i spec)"
    using coop_sync [OF assms(1) ok(5) assms(4, 5)] by metis
  have f: "follows spec s" using follows_sync [of ?st env] ok(5) y by simp
  have ids: "ids_ok s" using ids_ok_plan [OF followsD(1) [OF f]] ok(5) by simp
  have bs: "busy s1 s"
    unfolding busy_def
  proof
    fix n
    assume "n \<in> set (gs_nodes s)"
    then have n: "state_of (gn_id n) s = Some (gn_status n)" using gs_node_Some [OF ids] by (simp add: state_of_def)
    have "state_of (gn_id n) spec \<noteq> None" using n states [of "gn_id n"] by (auto split: if_splits)
    then obtain m where m: "gs_node (gn_id n) spec = Some m" by (auto simp: state_of_def)
    then have "gn_status m \<in> {NPending, NDone, NRunning}" using gs_node_in [OF m] assms(4) by (auto simp: busy_def)
    then show "gn_status n = NPending \<or> gn_status n = NDone \<or>
        gn_status n = NRunning \<and> (\<exists>w. gn_workspace n = Some w \<and> goal_of w s1 \<noteq> None)"
      using n states [of "gn_id n"] m by (auto simp: state_of_def split: if_splits)
  qed
  show ?thesis
  proof (cases "all_done s")
    case True
    then have "gs_status spec' = GComplete" using tick_running_cases [of ?st env] ne y assms(7) by (simp add: Let_def)
    then show ?thesis by blast
  next
    case False
    have "runnable env s" using runnable_roles [OF ro] assms(6) by simp
    then obtain l1 l where l: "launch_ready env (free_slots s) (ready_ids s) (s1, s) = (l1, l)"
      and bl: "busy l1 l" and rl: "roles l = roles s" and pl: "plan l = plan s"
      using coop_launch_ready [OF assms(1) ready_distinct [OF ids] ids _ _ bs, of "free_slots s"] ready_known [OF ids] by blast
    have after: "after_launch env ?st = (l1, l)" using y l by (simp add: after_launch_def)
    have idl: "ids_ok l" using ids_ok_plan [OF pl] ids by simp
    have "gs_max_concurrency s \<noteq> 0" "well_planned (plan s)" using ok(1, 6) followsD(1, 2) [OF f] by auto
    then have "\<exists>n \<in> set (gs_nodes l). active_node n \<or> stuck_node n"
      using launch_makes_progress [of s env s1] False l by simp
    then obtain n where n: "n \<in> set (gs_nodes l)" "gn_status n = NRunning"
      using bl by (fastforce simp: busy_def active_node_def stuck_node_def)
    then have "\<not> stalled (done_ids s) l" by (auto simp: stalled_def list_ex_iff active_node_def)
    then have eq: "sh' = l1" "spec' = l" using tick_running_goes [of ?st env] ne y False after assms(7) by simp_all
    have "state_of i l = Some NDone \<longleftrightarrow> state_of i s = Some NDone" for i
    proof -
      have "follows s l" using after_launch_facts(1) [of A ?st env] assms(2) y after by simp
      note stay = followsD(4) [OF this, of i]
      have "gs_node i l = gs_node i s \<or> state_of i l \<in> {Some NRunning, Some NBlocked}"
        using launch_ready_states [of "ready_ids s" "(s1, s)" i env "free_slots s"] ready_distinct [OF ids] ready_known [OF ids] l by auto
      then show ?thesis
      proof
        assume "state_of i l \<in> {Some NRunning, Some NBlocked}"
        then show ?thesis using stay by auto
      qed (simp add: state_of_def)
    qed
    then have "finished l = finished spec \<union> working spec" using states by (auto simp: finished_def working_def)
    moreover have "gn_id n \<in> working l" using gs_node_Some [OF idl n(1)] n(2) by (simp add: working_def state_of_def)
    moreover have "gs_status l = GRunning"
      using launch_keeps_phase(1) [of env "free_slots s" "ready_ids s" "(s1, s)"] sync_keeps_phase(1) [of env ?st] y l assms(3) by simp
    moreover have "graph_ok A l"
      using tick_running_keeps [OF assms(2, 3), of env "finish_runs sh"] assms(7) eq by simp
    ultimately show ?thesis using bl rl ro pl followsD(1) [OF f] eq by auto
  qed
qed

section \<open>Until it is done\<close>

lemma rounds_stop: "gs_status (snd st) \<noteq> GRunning \<Longrightarrow> rounds env k st = st"
  by (cases k) simp_all

lemma coop_rounds:
  assumes "cooperative env"
  shows "graph_ok A spec \<Longrightarrow> gs_status spec = GRunning \<Longrightarrow> busy sh spec \<Longrightarrow> \<not> gs_review_iterations spec \<Longrightarrow>
    runnable env spec \<Longrightarrow> working spec \<noteq> {} \<Longrightarrow> length (plan spec) \<le> card (finished spec) + k \<Longrightarrow>
    gs_status (snd (rounds env k (sh, spec))) = GComplete"
proof (induction k arbitrary: sh spec)
  case 0
  have "card (finished spec \<union> working spec) \<le> length (plan spec)"
    using card_mono [OF _ finished_working(2) [of spec]] card_length [of "map fst (plan spec)"]
    by (metis List.finite_set finite_imageI le_trans length_map set_map)
  moreover have "finite (finished spec \<union> working spec)" using finite_subset [OF finished_working(2)] by simp
  then have "card (finished spec) < card (finished spec \<union> working spec)"
    using 0(6) finished_working(1) by (intro psubset_card_mono) auto
  ultimately show ?case using 0(7) by simp
next
  case (Suc k)
  obtain sh' spec' where t: "tick_running env (finish_runs sh, spec) = (sh', spec')" by force
  from coop_round [OF assms Suc.prems(1-5) t] show ?case
  proof (elim disjE conjE)
    assume "gs_status spec' = GComplete"
    then show ?thesis using t Suc.prems(2) rounds_stop [of "(sh', spec')" env k] by simp
  next
    assume a: "gs_status spec' = GRunning" "graph_ok A spec'" "busy sh' spec'" "roles spec' = roles spec" "plan spec' = plan spec"
      "finished spec' = finished spec \<union> working spec" "working spec' \<noteq> {}"
    have "finite (finished spec \<union> working spec)" using finite_subset [OF finished_working(2)] by simp
    then have "card (finished spec) < card (finished spec')"
      using Suc.prems(6) finished_working(1) unfolding a(6) by (intro psubset_card_mono) auto
    then have "gs_status (snd (rounds env k (sh', spec'))) = GComplete"
      using Suc.IH [OF a(2, 1, 3)] a Suc.prems(4, 5, 7) runnable_roles [OF a(4)] by (simp add: roles_def)
    then show ?thesis using t Suc.prems(2) by simp
  qed
qed

text \<open>C4. For a graph that has just been approved (it runs and all its nodes are pending) and does not ask the
  user to review iterations: when files and git cooperate, every node's runner exists and every run
  finishes between two ticks, it is complete after at most one tick per node and one more. With a review a
  finished run waits for the user, and without cooperation a node may be blocked; what holds then is that
  no tick idles.\<close>

theorem graph_completes:
  assumes "cooperative env" and "graph_reachable A spec" and "gs_status spec = GRunning"
    and "\<forall>n \<in> set (gs_nodes spec). gn_status n = NPending" and "\<not> gs_review_iterations spec" and "runnable env spec"
  shows "gs_status (snd (rounds env (Suc (length (gs_nodes spec))) (sh, spec))) = GComplete"
proof -
  have ok: "graph_ok A spec" using graph_reachable_ok [OF assms(2)] .
  have b: "busy sh spec" using assms(4) by (simp add: busy_def)
  obtain sh' spec' where t: "tick_running env (finish_runs sh, spec) = (sh', spec')" by force
  from coop_round [OF assms(1) ok assms(3) b assms(5, 6) t] show ?thesis
  proof (elim disjE conjE)
    assume "gs_status spec' = GComplete"
    then show ?thesis using t assms(3) rounds_stop [of "(sh', spec')" env "length (gs_nodes spec)"] by simp
  next
    assume a: "gs_status spec' = GRunning" "graph_ok A spec'" "busy sh' spec'" "roles spec' = roles spec" "plan spec' = plan spec"
      "finished spec' = finished spec \<union> working spec" "working spec' \<noteq> {}"
    have "length (plan spec') \<le> card (finished spec') + length (gs_nodes spec)" by (simp add: a(5)) (simp add: plan_def)
    then have "gs_status (snd (rounds env (length (gs_nodes spec)) (sh', spec'))) = GComplete"
      using coop_rounds [OF assms(1) a(2, 1, 3)] a assms(5, 6) runnable_roles [OF a(4)] by (simp add: roles_def)
    then show ?thesis using t assms(3) by simp
  qed
qed

end
