(* ===== verification/Graph_Samples.thy ===== *)
theory Graph_Samples imports Graph_Complete begin

text \<open>
  A concrete graph of two nodes, created and approved, to which the properties of graphs are applied.
\<close>

definition sample_plan :: "proposal_node list" where
  "sample_plan = [plan_entry ''aa'' [], plan_entry ''bb'' [''aa'']]"

definition team_env :: env where
  "team_env = quiet_env\<lparr> en_plan := \<lambda>_ _. Inr sample_plan \<rparr>"

definition sample_source :: goal_source where
  "sample_source = \<lparr> src_path = ''/repo/goal.md'', src_text = ''x'', src_cwd = ''/repo'', src_name = ''goal'',
     src_repo_name = ''repo'', src_inline = False \<rparr>"

definition sample_params :: graph_params where
  "sample_params = \<lparr> gp_max_concurrency = Some 2, gp_max_iterations = None, gp_use_worktrees = None, gp_review = None,
     gp_review_iterations = None, gp_permission_mode = None, gp_runner = None \<rparr>"

definition approved :: "graph_spec \<Rightarrow> graph_spec" where
  "approved spec = spec\<lparr> gs_nodes := map to_graph_node sample_plan, gs_status := GRunning \<rparr>"

lemma team_order: "order_ok team_env"
  by (simp add: order_ok_def team_env_def quiet_env_def)

lemma sample_read: "\<exists>sh'. read_plan team_env spec sh = (sh', Inr (map to_graph_node sample_plan))"
proof -
  have "parse_proposal (\<lambda>xs. xs) (Inr sample_plan) = Some (Inr (map to_graph_node sample_plan))" by code_simp
  then show ?thesis by (simp add: read_plan_def team_env_def quiet_env_def)
qed

lemma default_runner_known: "\<exists>r. resolve_runner_by_name [] (en_settings team_env) = Inr r"
proof -
  have "\<not> isl (resolve_runner_by_name [] default_settings)" by code_simp
  moreover have "en_settings team_env = default_settings" by (simp add: team_env_def quiet_env_def)
  ultimately show ?thesis by (cases "resolve_runner_by_name [] default_settings") simp_all
qed

lemma sample_created:
  "\<exists>sh' spec r. create_graph team_env ''gg'' sample_source sample_params sample_shared = (sh', Inr (spec, r))"
proof -
  have v: "valid_node_id ''gg''" by code_simp
  have g: "graph_of ''gg'' (ensure_loaded team_env sample_shared) = None"
    by (simp add: ensure_loaded_def sample_shared_def graph_of_def)
  obtain n r where r: "resolve_runner_by_name [] (en_settings team_env) = Inr (n, r)" using default_runner_known by auto
  have p: "gs_runner (new_spec team_env ''gg'' sample_source sample_params b) = None" for b
    by (simp add: new_spec_def sample_params_def)
  have io: "en_io team_env h e = None" for h e by (simp add: team_env_def quiet_env_def)
  show ?thesis
    using v g r p io by (simp add: create_graph_def Let_def try_io_def opt_filter_def opt_or_def split: prod.splits)
qed

lemma sample_approved:
  obtains spec where "graph_reachable {} (approved spec)" "gs_runner spec = None" "\<not> gs_review_iterations spec"
    "gs_name spec = ''gg''" "gs_max_concurrency spec = 2"
proof -
  obtain sh' spec r where c: "create_graph team_env ''gg'' sample_source sample_params sample_shared = (sh', Inr (spec, r))"
    using sample_created by blast
  obtain g b w where spec: "spec = (new_spec team_env ''gg'' sample_source sample_params b)\<lparr> gs_group_id := g, gs_orchestrator_workspace := w \<rparr>"
    using created_spec [OF c] by blast
  let ?sh = "put_graph ''gg'' spec sample_shared"
  have l: "ensure_loaded team_env ?sh = ?sh" by (simp add: ensure_loaded_def put_graph_def sample_shared_def)
  obtain sh1 where r: "read_plan team_env spec ?sh = (sh1, Inr (map to_graph_node sample_plan))"
    using sample_read by blast
  have "gs_status spec = GProposing" by (simp add: spec new_spec_def)
  then obtain sh2 where "approve_graph team_env ''gg'' ?sh = (sh2, Inr (approved spec))"
    using l r by (simp add: approve_graph_def Let_def approved_def)
  then have "graph_step spec {} (approved spec)"
    using graph_step.approve [of "''gg''" team_env ?sh spec sh2 "approved spec"] l team_order by simp
  then have "graph_reachable ({} \<union> {}) (approved spec)" using graph_reachable.stepped [OF graph_reachable.created [OF c]] by blast
  then have "graph_reachable {} (approved spec)" by simp
  moreover have "gs_max_concurrency spec = 2"
    unfolding spec new_spec_def sample_params_def by (simp add: clamp_u32_def)
  ultimately show ?thesis using that by (simp add: spec new_spec_def sample_params_def default_spec_def opt_or_def)
qed

lemma approved_fields [simp]:
  "gs_status (approved spec) = GRunning" "gs_nodes (approved spec) = map to_graph_node sample_plan"
  "gs_review_iterations (approved spec) = gs_review_iterations spec" "gs_runner (approved spec) = gs_runner spec"
  "gs_name (approved spec) = gs_name spec"
  by (simp_all add: approved_def)

lemma graph_reachable_ok_witness: "\<exists>spec. graph_reachable {} spec \<and> gs_nodes spec \<noteq> [] \<and> graph_ok {} spec"
proof -
  obtain spec where r: "graph_reachable {} (approved spec)" by (rule sample_approved)
  have "gs_nodes (approved spec) \<noteq> []" by (simp add: sample_plan_def)
  then show ?thesis using r graph_reachable_ok [OF r] by blast
qed

lemma tick_never_idles_witness:
  "\<exists>spec. gs_status spec = GRunning \<and> (let spec' = snd (tick_running team_env (sample_shared, spec)) in
    gs_status spec' = GComplete \<or> (\<exists>n \<in> set (gs_nodes spec'). stuck_node n) \<or>
    (gs_status spec' = GRunning \<and> (\<exists>n \<in> set (gs_nodes spec'). active_node n)))"
proof -
  obtain spec where r: "graph_reachable {} (approved spec)" by (rule sample_approved)
  show ?thesis using tick_never_idles [OF r, of team_env sample_shared] by (intro exI [of _ "approved spec"]) simp
qed

lemma team_runnable: "gs_runner spec = None \<Longrightarrow> runnable team_env (approved spec)"
  using default_runner_known
  by (auto simp: runnable_def node_runner_name_def sample_plan_def to_graph_node_def plan_entry_def or_else_def split: option.splits)

lemma graph_completes_witness:
  "\<exists>spec. gs_status spec = GRunning \<and> length (gs_nodes spec) = 2 \<and> gs_status (snd (rounds team_env 3 (sample_shared, spec))) = GComplete"
proof -
  obtain spec where r: "graph_reachable {} (approved spec)" "gs_runner spec = None" "\<not> gs_review_iterations spec" by (rule sample_approved)
  have c: "cooperative team_env" by (simp add: cooperative_def team_env_def quiet_env_def)
  have len: "length (gs_nodes (approved spec)) = 2" by (simp add: sample_plan_def)
  have "gs_status (snd (rounds team_env (Suc (length (gs_nodes (approved spec)))) (sample_shared, approved spec))) = GComplete"
    using r by (intro graph_completes [OF c r(1)] team_runnable) auto
  then show ?thesis using len by (intro exI [of _ "approved spec"]) (simp add: numeral_3_eq_3 numeral_2_eq_2)
qed

lemma resume_effect_witness:
  "\<exists>spec sh sh' spec'. resume_graph team_env ''gg'' sh = (sh', Inr spec') \<and> gs_status spec' = GRunning \<and>
    state_of ''bb'' spec' = Some NPending"
proof -
  obtain spec where r: "graph_reachable {} (approved spec)" by (rule sample_approved)
  let ?s = "approved spec"
  let ?sh = "put_graph ''gg'' ?s sample_shared" and ?n = "to_graph_node (plan_entry ''bb'' [''aa''])"
  have l: "graph_of ''gg'' (ensure_loaded team_env ?sh) = Some ?s"
    by (simp add: ensure_loaded_def put_graph_def sample_shared_def graph_of_def hm_insert_def)
  have ne: "gs_nodes ?s \<noteq> []" by (simp add: sample_plan_def)
  then have "\<exists>sh' spec'. resume_graph team_env ''gg'' ?sh = (sh', Inr spec')"
    using l by (simp add: resume_graph_def Let_def case_prod_unfold)
  then obtain sh' spec' where u: "resume_graph team_env ''gg'' ?sh = (sh', Inr spec')" by blast
  have "?n \<in> set (gs_nodes ?s)" by (simp add: sample_plan_def)
  from resume_effect [OF r l u this] have "gs_status spec' = GRunning" "state_of ''bb'' spec' = Some NPending"
    by (auto simp: merge_blocked_def plan_entry_def)
  then show ?thesis using u by blast
qed

definition stopped_node :: graph_node where
  "stopped_node = default_node\<lparr> gn_id := ''aa'', gn_status := NBlocked, gn_worktree := Some ''/wt'', gn_branch := Some ''br'' \<rparr>"

definition stopped_graph :: graph_spec where
  "stopped_graph = default_spec\<lparr> gs_name := ''gg'', gs_base_cwd := ''/repo'', gs_status := GRunning, gs_nodes := [stopped_node] \<rparr>"

lemma blocked_graph_stays_running_witness:
  "gs_status stopped_graph = GRunning \<and> tick_running team_env (sample_shared, stopped_graph) = (sample_shared, stopped_graph)"
proof -
  have "gs_nodes stopped_graph = [stopped_node]" "gs_status stopped_graph = GRunning" "gn_status stopped_node = NBlocked"
    by (simp_all add: stopped_graph_def stopped_node_def)
  then show ?thesis
    using blocked_graph_stays_running [of stopped_graph team_env sample_shared] by (simp add: stuck_node_def all_done_def)
qed

lemma merge_guarded_witness:
  "state_of ''aa'' (snd (finish_node team_env ''aa'' (sample_shared, stopped_graph))) = Some NDone \<and>
   state_of ''aa'' (snd (finish_node (team_env\<lparr> en_git := \<lambda>_ _ _. Inr ''?? src/main.rs'' \<rparr>) ''aa'' (sample_shared, stopped_graph))) = Some NBlocked"
proof -
  let ?dirty = "team_env\<lparr> en_git := \<lambda>_ _ _. Inr ''?? src/main.rs'' \<rparr>"
  have n: "gs_node ''aa'' stopped_graph = Some stopped_node" "gn_status stopped_node \<noteq> NDone"
    "gn_worktree stopped_node = Some ''/wt''" "gn_branch stopped_node = Some ''br''"
    by (simp_all add: stopped_graph_def stopped_node_def gs_node_def)
  obtain sh1 s1 where a: "finish_node team_env ''aa'' (sample_shared, stopped_graph) = (sh1, s1)" by force
  obtain sh2 s2 where b: "finish_node ?dirty ''aa'' (sample_shared, stopped_graph) = (sh2, s2)" by force
  have "cooperative team_env" by (simp add: cooperative_def team_env_def quiet_env_def)
  then have c: "checkout_clean team_env stopped_graph m ''/wt'' h \<and> merge_succeeds team_env stopped_graph m ''/wt'' ''br'' h" for m h
    by (rule coop_clean)
  have "\<not> base_is_clean ''?? src/main.rs'' (own_dir stopped_graph)" by code_simp
  then have d: "\<not> checkout_clean ?dirty stopped_graph m ''/wt'' h" for m h by (simp add: checkout_clean_def)
  show ?thesis using merge_guarded [OF n a] merge_guarded [OF n b] a b c d by (simp add: Let_def)
qed

end
