(* ===== verification/Session_Data.thy ===== *)
theory Session_Data imports Tab_Manager Text_Lines "HOL-Library.Option_ord" begin

text \<open>
  The saved form of a session (\<open>jmux/src/session/snapshot.rs\<close>): the snapshot types, the conversion of
  layouts and panels, and the recognition of agents that can be resumed. The JSON text around the
  snapshot (serde) is left out: a snapshot that is read back is the one that was written. Lower-casing
  is that of ASCII.
\<close>

section \<open>Types\<close>

datatype layout_snapshot =
    SnapPane "uuid list" "uuid option"
  | SnapSplit SplitOrientation f64 layout_snapshot layout_snapshot

record terminal_snapshot =
  tsn_working_directory :: "rstr option"
  tsn_scrollback :: "rstr option"

record browser_snapshot =
  bsn_url_string :: "rstr option"
  bsn_should_render_web_view :: bool
  bsn_page_zoom :: f64
  bsn_developer_tools_visible :: bool
  bsn_back_history :: "rstr list"
  bsn_forward_history :: "rstr list"

record panel_snapshot =
  psn_id :: uuid
  psn_panel_type :: rstr
  psn_title :: "rstr option"
  psn_custom_title :: "rstr option"
  psn_directory :: "rstr option"
  psn_is_pinned :: bool
  psn_is_manually_unread :: bool
  psn_git_branch :: "git_branch option"
  psn_listening_ports :: "16 word list"
  psn_tty_name :: "rstr option"
  psn_command :: "rstr option"
  psn_agent_resume_command :: "rstr option"
  psn_agent_session_id :: "rstr option"
  psn_terminal :: "terminal_snapshot option"
  psn_browser :: "browser_snapshot option"
  psn_markdown :: "rstr option"

record group_snapshot =
  gsn_id :: uuid
  gsn_name :: rstr
  gsn_color :: "rstr option"
  gsn_collapsed :: bool

record workspace_snapshot =
  wsn_process_title :: rstr
  wsn_custom_title :: "rstr option"
  wsn_custom_color :: "rstr option"
  wsn_is_pinned :: bool
  wsn_current_directory :: rstr
  wsn_focused_panel_id :: "uuid option"
  wsn_group_id :: "uuid option"
  wsn_layout :: layout_snapshot
  wsn_panels :: "panel_snapshot list"
  wsn_status_entries :: "status_entry list"
  wsn_log_entries :: "log_entry list"
  wsn_progress :: "progress option"
  wsn_git_branch :: "git_branch option"
  wsn_remote_config :: "remote_config option"

record closed_snapshot =
  csn_workspace :: workspace_snapshot
  csn_closed_at_unix :: nat
  csn_title :: rstr

text \<open>The frame is the window's width and height, its position being always zero.\<close>

record window_snapshot =
  nsn_frame :: "(int \<times> int) option"
  nsn_selected_workspace_index :: "nat option"
  nsn_workspaces :: "workspace_snapshot list"
  nsn_groups :: "group_snapshot list"
  nsn_sidebar_visible :: bool
  nsn_sidebar_selection :: rstr

record session_snapshot =
  ssn_version :: u32
  ssn_created_at :: f64
  ssn_windows :: "window_snapshot list"
  ssn_closed_workspaces :: "closed_snapshot list"

section \<open>Layouts\<close>

fun from_layout :: "LayoutNode \<Rightarrow> layout_snapshot" where
  "from_layout (Pane ps sel) = SnapPane ps sel"
| "from_layout (Split ori d a b) = SnapSplit ori d (from_layout a) (from_layout b)"

fun to_layout :: "layout_snapshot \<Rightarrow> LayoutNode" where
  "to_layout (SnapPane ps sel) = Pane ps sel"
| "to_layout (SnapSplit ori d a b) =
     Split ori (if is_finite d then f64_clamp d (Fin False 0) (Fin False 1) else half) (to_layout a) (to_layout b)"

fun normalize_divider_positions :: "layout_snapshot \<Rightarrow> layout_snapshot" where
  "normalize_divider_positions (SnapPane ps sel) = SnapPane ps sel"
| "normalize_divider_positions (SnapSplit ori d a b) =
     SnapSplit ori half (normalize_divider_positions a) (normalize_divider_positions b)"

section \<open>Agents\<close>

text \<open>The search for a word as the loop runs it: the next occurrence is looked for one byte after the
  start of the previous one. \<open>before\<close> is the byte in front of the rest.\<close>

definition word_byte :: "char \<Rightarrow> bool" where
  "word_byte b \<longleftrightarrow> is_ascii_alnum b \<or> b = CHR ''_''"

fun word_match_from :: "rstr \<Rightarrow> char option \<Rightarrow> rstr \<Rightarrow> bool" where
  "word_match_from word before [] = False"
| "word_match_from word before (c # cs) =
     (if starts_with word (c # cs) \<and> (case before of None \<Rightarrow> True | Some b \<Rightarrow> \<not> word_byte b) \<and>
         (case drop (length word) (c # cs) of [] \<Rightarrow> True | b # _ \<Rightarrow> \<not> word_byte b)
      then True else word_match_from word (Some c) cs)"

definition word_match :: "rstr \<Rightarrow> rstr \<Rightarrow> bool" where
  "word_match haystack word = word_match_from word None haystack"

definition agent_haystack :: "rstr option \<Rightarrow> rstr option \<Rightarrow> rstr" where
  "agent_haystack title cmd =
     (let s = (case title of Some t \<Rightarrow> ascii_lowercase t | None \<Rightarrow> []) in
      case cmd of
        Some c \<Rightarrow> s @ (if s = [] then [] else '' '') @ ascii_lowercase c
      | None \<Rightarrow> s)"

definition detect_agent_resume_command :: "rstr option \<Rightarrow> rstr option \<Rightarrow> rstr option" where
  "detect_agent_resume_command title cmd =
     (let h = agent_haystack title cmd; is_pi = (\<lambda>s. s \<noteq> None \<and> ascii_lowercase (the s) = ''pi'') in
      if h = [] then None
      else if contains_str ''claude'' h then Some ''claude --continue''
      else if contains_str ''opencode'' h then Some ''opencode --resume''
      else if contains_str ''codex'' h then Some ''codex''
      else if contains_str ''rovo'' h then Some ''rovo dev''
      else if contains_str ''cursor'' h then Some ''cursor''
      else if contains_str ''grok'' h then Some ''grok''
      else if contains_str ''antigravity'' h \<or> contains_str ''gemini'' h \<or> word_match h ''agy'' then Some ''agy''
      else if contains_str ''hermes'' h then Some ''hermes''
      else if contains_str ''pi vault'' h \<or> contains_str ''pi ai'' h \<or> is_pi title \<or> is_pi cmd then Some ''pi''
      else if word_match h ''amp'' then Some ''amp''
      else None)"

section \<open>Panels\<close>

definition saved_type :: "PanelType \<Rightarrow> rstr" where
  "saved_type ty =
     (case ty of
        Terminal \<Rightarrow> ''terminal'' | Browser \<Rightarrow> ''browser'' | Markdown \<Rightarrow> ''markdown'' | Diff \<Rightarrow> ''diff''
      | Project \<Rightarrow> ''project'' | FilePreview \<Rightarrow> ''file_preview'' | Notes \<Rightarrow> ''notes'' | History \<Rightarrow> ''history''
      | Vault \<Rightarrow> ''vault'' | AgentMonitor \<Rightarrow> ''agent_monitor'' | Graph \<Rightarrow> ''graph'')"

definition from_panel :: "panel \<Rightarrow> panel_snapshot" where
  "from_panel p =
     \<lparr> psn_id = p_id p, psn_panel_type = saved_type (p_panel_type p), psn_title = p_title p,
       psn_custom_title = p_custom_title p, psn_directory = p_directory p, psn_is_pinned = p_is_pinned p,
       psn_is_manually_unread = p_is_manually_unread p, psn_git_branch = p_git_branch p,
       psn_listening_ports = p_listening_ports p, psn_tty_name = p_tty_name p, psn_command = p_command p,
       psn_agent_resume_command =
         (if p_panel_type p = Terminal then detect_agent_resume_command (p_title p) (p_command p) else None),
       psn_agent_session_id = p_agent_session_id p,
       psn_terminal =
         (if p_panel_type p = Terminal
          then Some \<lparr> tsn_working_directory = p_directory p, tsn_scrollback = None \<rparr> else None),
       psn_browser =
         (if p_panel_type p = Browser
          then Some \<lparr> bsn_url_string = p_browser_url p, bsn_should_render_web_view = True,
                      bsn_page_zoom = Fin False 1, bsn_developer_tools_visible = False,
                      bsn_back_history = [], bsn_forward_history = [] \<rparr>
          else None),
       psn_markdown = (if p_panel_type p = Markdown then p_markdown_file p else None) \<rparr>"

end
