(* ===== verification/Session_Store.thy ===== *)
theory Session_Store imports Session_Data begin

text \<open>
  Taking and keeping snapshots (\<open>jmux/src/session/store.rs\<close>, \<open>jmux/src/session/claude_resume.rs\<close>): the
  snapshot of the running application, the truncation of scrollback, the overlay of what \<open>/proc\<close> says, and
  the files a session is saved to and loaded from. What the terminals, browsers and \<open>/proc\<close> report are
  arguments.
\<close>

section \<open>Scrollback\<close>

definition MAX_SCROLLBACK_LINES :: nat where "MAX_SCROLLBACK_LINES = 4000"
definition MAX_SCROLLBACK_CHARS :: nat where "MAX_SCROLLBACK_CHARS = 400000"

definition last_lines :: "rstr \<Rightarrow> rstr" where
  "last_lines text =
     (let ls = lines_of text in
      if MAX_SCROLLBACK_LINES < length ls then join [CHR 0x0A] (drop (length ls - MAX_SCROLLBACK_LINES) ls) else text)"

function up_to_boundary :: "rstr \<Rightarrow> nat \<Rightarrow> nat" where
  "up_to_boundary s i = (if i < length s \<and> \<not> is_char_boundary s i then up_to_boundary s (Suc i) else i)"
  by pat_completeness auto
termination by (relation "measure (\<lambda>(s, i). length s - i)") auto

declare up_to_boundary.simps [simp del]

text \<open>The forward scan for an escape sequence that is still open: the state is whether one is, and
  where the last one started.\<close>

definition scan_escape :: "rstr \<Rightarrow> nat \<Rightarrow> bool \<times> nat \<Rightarrow> bool \<times> nat" where
  "scan_escape bytes pos st =
     (case st of (in_escape, escape_start) \<Rightarrow>
        let b = bytes ! pos in
        if b = CHR 0x1B then (True, pos)
        else if in_escape then
          (if b = CHR ''['' then st
           else if 0x40 \<le> (of_char b :: nat) \<and> (of_char b :: nat) \<le> 0x7E then (False, escape_start)
           else st)
        else st)"

fun back_to_line :: "rstr \<Rightarrow> nat \<Rightarrow> nat \<Rightarrow> nat" where
  "back_to_line bytes least 0 = 0"
| "back_to_line bytes least (Suc k) =
     (if least < Suc k \<and> bytes ! Suc k \<noteq> CHR 0x0A then back_to_line bytes least k else Suc k)"

text \<open>Where the kept part starts, given a text that is too long.\<close>

definition safe_start :: "rstr \<Rightarrow> nat" where
  "safe_start t = up_to_boundary t (length t - MAX_SCROLLBACK_CHARS)"

definition cut_position :: "rstr \<Rightarrow> nat" where
  "cut_position t =
     (let start = safe_start t; lookback = start - 32;
          (in_escape, escape_start) = fold (scan_escape t) [lookback..<start] (False, 0)
      in if in_escape
         then (let pos = back_to_line t lookback escape_start
               in if get_at pos t = Some (CHR 0x0A) then pos + 1 else pos)
         else start)"

text \<open>\<open>None\<close> is the panic of slicing a string inside a character.\<close>

definition truncate_scrollback :: "rstr \<Rightarrow> rstr option" where
  "truncate_scrollback text =
     (let t = last_lines text in
      if length t \<le> MAX_SCROLLBACK_CHARS then Some t
      else if is_char_boundary t (cut_position t) then Some (drop (cut_position t) t) else None)"

section \<open>The snapshot\<close>

text \<open>What the user interface knows: texts of terminals, zoom, address and history of browsers, sizes of
  windows. A scrollback is already truncated.\<close>

record ui_state =
  ui_scrollback :: "(uuid, rstr) hashmap"
  ui_zoom :: "(uuid, f64) hashmap"
  ui_url :: "(uuid, rstr) hashmap"
  ui_history :: "(uuid, rstr list \<times> rstr list) hashmap"
  ui_window_sizes :: "(uuid, int \<times> int) hashmap"
  ui_persist_scrollback :: bool
  ui_split_ratio_persist :: bool

definition quick_window_id :: uuid where
  "quick_window_id = 0x0c3de9a15b2f4c6d8e10000000000001"

definition overlay_browser :: "ui_state \<Rightarrow> uuid \<Rightarrow> browser_snapshot \<Rightarrow> browser_snapshot" where
  "overlay_browser ui i b =
     (let b = (case map_of (ui_zoom ui) i of Some z \<Rightarrow> b\<lparr> bsn_page_zoom := z \<rparr> | None \<Rightarrow> b);
          b = (case map_of (ui_url ui) i of Some u \<Rightarrow> b\<lparr> bsn_url_string := Some u \<rparr> | None \<Rightarrow> b)
      in case map_of (ui_history ui) i of
           Some (back, forward) \<Rightarrow> b\<lparr> bsn_back_history := back, bsn_forward_history := forward \<rparr>
         | None \<Rightarrow> b)"

definition snapshot_panel :: "ui_state \<Rightarrow> panel \<Rightarrow> panel_snapshot" where
  "snapshot_panel ui p =
     (let s = from_panel p;
          s = s\<lparr> psn_terminal := map_option (\<lambda>t. t\<lparr> tsn_scrollback :=
                 (if ui_persist_scrollback ui then map_of (ui_scrollback ui) (p_id p) else None) \<rparr>) (psn_terminal s) \<rparr>;
          s = (case psn_agent_session_id s of
                 Some i \<Rightarrow> s\<lparr> psn_agent_resume_command := Some (''claude --resume '' @ i) \<rparr>
               | None \<Rightarrow> s)
      in s\<lparr> psn_browser := map_option (overlay_browser ui (p_id p)) (psn_browser s) \<rparr>)"

definition monitor_ids :: "workspace \<Rightarrow> uuid list" where
  "monitor_ids ws = map fst (filter (\<lambda>(_, p). p_panel_type p = AgentMonitor) (ws_panels ws))"

definition pruned_layout :: "workspace \<Rightarrow> LayoutNode" where
  "pruned_layout ws = fold (\<lambda>i l. fst (remove_panel i l)) (monitor_ids ws) (ws_layout ws)"

definition snapshot_workspace :: "ui_state \<Rightarrow> workspace \<Rightarrow> workspace_snapshot" where
  "snapshot_workspace ui ws =
     (let l = from_layout (pruned_layout ws) in
      \<lparr> wsn_process_title = ws_process_title ws, wsn_custom_title = ws_custom_title ws,
        wsn_custom_color = ws_custom_color ws, wsn_is_pinned = ws_is_pinned ws,
        wsn_current_directory = ws_current_directory ws,
        wsn_focused_panel_id =
          opt_filter (\<lambda>i. case map_of (ws_panels ws) i of Some p \<Rightarrow> p_panel_type p \<noteq> AgentMonitor | None \<Rightarrow> True)
            (ws_focused_panel_id ws),
        wsn_group_id = ws_group_id ws,
        wsn_layout = (if ui_split_ratio_persist ui then l else normalize_divider_positions l),
        wsn_panels = map (snapshot_panel ui) (filter (\<lambda>p. p_panel_type p \<noteq> AgentMonitor) (map snd (ws_panels ws))),
        wsn_status_entries = ws_status_entries ws, wsn_log_entries = ws_log_entries ws,
        wsn_progress = ws_progress ws, wsn_git_branch = ws_git_branch ws,
        wsn_remote_config = ws_remote_config ws \<rparr>)"

definition snapshot_group :: "workspace_group \<Rightarrow> group_snapshot" where
  "snapshot_group g =
     \<lparr> gsn_id = wg_id g, gsn_name = wg_name g, gsn_color = wg_color g, gsn_collapsed = wg_collapsed g \<rparr>"

definition primary_window :: "tab_manager \<Rightarrow> uuid option" where
  "primary_window tm =
     head_opt (List.map_filter ws_window_id (filter (\<lambda>ws. ws_window_id ws \<noteq> Some quick_window_id) (tm_workspaces tm)))"

text \<open>The bucket of a workspace, and the buckets in the order of the \<open>BTreeMap\<close>.\<close>

definition window_of :: "tab_manager \<Rightarrow> uuid option \<Rightarrow> uuid option" where
  "window_of tm w = or_else w (primary_window tm)"

definition kept_workspaces :: "tab_manager \<Rightarrow> workspace list" where
  "kept_workspaces tm = filter (\<lambda>ws. ws_window_id ws \<noteq> Some quick_window_id) (tm_workspaces tm)"

definition window_keys :: "tab_manager \<Rightarrow> uuid option list" where
  "window_keys tm = sort (remdups (map (\<lambda>ws. window_of tm (ws_window_id ws)) (kept_workspaces tm)))"

definition snapshot_window :: "ui_state \<Rightarrow> tab_manager \<Rightarrow> uuid option \<Rightarrow> window_snapshot" where
  "snapshot_window ui tm key =
     \<lparr> nsn_frame = Some (case Option.bind key (map_of (ui_window_sizes ui)) of Some s \<Rightarrow> s | None \<Rightarrow> (1280, 860)),
       nsn_selected_workspace_index = Some 0,
       nsn_workspaces = map (snapshot_workspace ui)
         (filter (\<lambda>ws. window_of tm (ws_window_id ws) = key) (kept_workspaces tm)),
       nsn_groups = map snapshot_group (filter (\<lambda>g. window_of tm (wg_window_id g) = key) (tm_groups tm)),
       nsn_sidebar_visible = True, nsn_sidebar_selection = ''tabs'' \<rparr>"

definition create_snapshot :: "ui_state \<Rightarrow> f64 \<Rightarrow> tab_manager \<Rightarrow> session_snapshot" where
  "create_snapshot ui now tm =
     \<lparr> ssn_version = 1, ssn_created_at = now, ssn_windows = map (snapshot_window ui tm) (window_keys tm),
       ssn_closed_workspaces = map (\<lambda>e. \<lparr> csn_workspace = snapshot_workspace ui (ce_workspace e),
         csn_closed_at_unix = ce_closed_at e, csn_title = ce_title e \<rparr>) (tm_closed_stack tm) \<rparr>"

section \<open>What /proc adds\<close>

definition encode_project_dir :: "rstr \<Rightarrow> rstr" where
  "encode_project_dir cwd = map (\<lambda>c. if c = CHR ''/'' \<or> c = CHR ''.'' then CHR ''-'' else c) cwd"

definition pick_transcript :: "nat \<Rightarrow> rstr list \<Rightarrow> rstr option" where
  "pick_transcript k ids = or_else (get_at k ids) (last_opt ids)"

text \<open>The panels in the order of their identifiers, each claiming the next transcript of its directory.\<close>

fun claim_sessions :: "(rstr \<Rightarrow> rstr list) \<Rightarrow> (rstr \<Rightarrow> nat) \<Rightarrow> (uuid \<times> rstr) list \<Rightarrow> (uuid, rstr) hashmap" where
  "claim_sessions ids_for next_idx [] = []"
| "claim_sessions ids_for next_idx ((panel, cwd) # es) =
     (if ids_for cwd = [] then claim_sessions ids_for next_idx es
      else case pick_transcript (next_idx cwd) (ids_for cwd) of
             Some i \<Rightarrow> (panel, i) # claim_sessions ids_for (next_idx(cwd := next_idx cwd + 1)) es
           | None \<Rightarrow> claim_sessions ids_for (next_idx(cwd := next_idx cwd + 1)) es)"

definition claude_session_ids :: "(rstr \<Rightarrow> rstr list) \<Rightarrow> (uuid, rstr) hashmap \<Rightarrow> (uuid, rstr) hashmap" where
  "claude_session_ids ids_for cwds = claim_sessions ids_for (\<lambda>_. 0) (sort_key fst cwds)"

definition enrich_panel :: "(uuid, rstr) hashmap \<Rightarrow> (uuid, rstr) hashmap \<Rightarrow> panel_snapshot \<Rightarrow> panel_snapshot" where
  "enrich_panel cwds sessions p =
     (let p = (case map_of cwds (psn_id p) of
                 Some d \<Rightarrow> p\<lparr> psn_directory := Some d,
                   psn_terminal := map_option (\<lambda>t. t\<lparr> tsn_working_directory := Some d \<rparr>) (psn_terminal p) \<rparr>
               | None \<Rightarrow> p)
      in if psn_agent_session_id p = None
         then (case map_of sessions (psn_id p) of
                 Some i \<Rightarrow> p\<lparr> psn_agent_session_id := Some i, psn_agent_resume_command := Some (''claude --resume '' @ i) \<rparr>
               | None \<Rightarrow> p)
         else p)"

definition enrich_workspace :: "(uuid, rstr) hashmap \<Rightarrow> (uuid, rstr) hashmap \<Rightarrow> workspace_snapshot \<Rightarrow> workspace_snapshot" where
  "enrich_workspace cwds sessions ws =
     (let ws = ws\<lparr> wsn_panels := map (enrich_panel cwds sessions) (wsn_panels ws) \<rparr>;
          live = or_else (Option.bind (wsn_focused_panel_id ws) (map_of cwds))
                   (head_opt (List.map_filter (\<lambda>p. map_of cwds (psn_id p)) (wsn_panels ws)))
      in case live of Some d \<Rightarrow> ws\<lparr> wsn_current_directory := d \<rparr> | None \<Rightarrow> ws)"

text \<open>\<open>panel_cwds\<close> and \<open>claude_cwds\<close> are the two walks over \<open>/proc\<close>, \<open>ids_for\<close> the transcripts of a
  directory, newest first. Closed workspaces are not enriched.\<close>

definition enrich_snapshot ::
  "(uuid, rstr) hashmap \<Rightarrow> (uuid, rstr) hashmap \<Rightarrow> (rstr \<Rightarrow> rstr list) \<Rightarrow> session_snapshot \<Rightarrow> session_snapshot" where
  "enrich_snapshot panel_cwds claude_cwds ids_for s =
     (let sessions = claude_session_ids ids_for claude_cwds in
      s\<lparr> ssn_windows := map (\<lambda>w. w\<lparr> nsn_workspaces := map (enrich_workspace panel_cwds sessions) (nsn_workspaces w) \<rparr>)
           (ssn_windows s) \<rparr>)"

section \<open>The files\<close>

datatype stored = Readable session_snapshot | Unreadable

text \<open>The session file, its rolling backup and the corrupt file put aside; and whether this process
  has ever saved a live workspace.\<close>

record session_files =
  sf_primary :: "stored option"
  sf_backup :: "stored option"
  sf_corrupt :: "stored option"
  sf_had_workspaces :: bool

definition live_workspace_count :: "session_snapshot \<Rightarrow> nat" where
  "live_workspace_count s = sum_list (map (\<lambda>w. length (nsn_workspaces w)) (ssn_windows s))"

definition read_snapshot_quiet :: "stored option \<Rightarrow> session_snapshot option" where
  "read_snapshot_quiet f = (case f of Some (Readable s) \<Rightarrow> Some s | _ \<Rightarrow> None)"

text \<open>Which of the file operations of a save succeed. The copy to the backup is not atomic: it can also
  fail after it has truncated the old backup.\<close>

datatype copy_outcome = Copied | NotCopied | Spoilt

record save_io =
  io_dir :: bool
  io_backup :: copy_outcome
  io_write :: bool

definition save_session :: "save_io \<Rightarrow> session_snapshot \<Rightarrow> session_files \<Rightarrow> session_files \<times> bool" where
  "save_session io s fs =
     (if \<not> io_dir io then (fs, False)
      else
       (let new_live = live_workspace_count s;
            refused = new_live = 0 \<and> \<not> sf_had_workspaces fs \<and>
              (case read_snapshot_quiet (sf_primary fs) of Some e \<Rightarrow> 0 < live_workspace_count e | None \<Rightarrow> False);
            fs = (if 0 < new_live then fs\<lparr> sf_had_workspaces := True \<rparr> else fs)
        in if refused then (fs, True)
           else
            (let fs = (if 0 < new_live \<and> sf_primary fs \<noteq> None
                       then (case io_backup io of
                               Copied \<Rightarrow> fs\<lparr> sf_backup := sf_primary fs \<rparr>
                             | NotCopied \<Rightarrow> fs
                             | Spoilt \<Rightarrow> fs\<lparr> sf_backup := Some Unreadable \<rparr>)
                       else fs)
             in if io_write io then (fs\<lparr> sf_primary := Some (Readable s) \<rparr>, True) else (fs, False))))"

definition load_backup :: "session_files \<Rightarrow> session_snapshot option" where
  "load_backup fs = opt_filter (\<lambda>s. 0 < live_workspace_count s) (read_snapshot_quiet (sf_backup fs))"

text \<open>\<open>readable\<close> says whether the file's bytes can be read as text at all, \<open>renamed\<close> whether the corrupt
  file could be put aside. \<open>Inl ()\<close> is the error.\<close>

definition load_session :: "bool \<Rightarrow> bool \<Rightarrow> session_files \<Rightarrow> session_files \<times> (unit + session_snapshot option)" where
  "load_session readable renamed fs =
     (case sf_primary fs of
        None \<Rightarrow> (fs, Inr (load_backup fs))
      | Some f \<Rightarrow>
          if \<not> readable then (fs, Inl ())
          else case f of
            Unreadable \<Rightarrow>
              (let fs = (if renamed then fs\<lparr> sf_corrupt := Some f, sf_primary := None \<rparr> else fs)
               in (fs, Inr (load_backup fs)))
          | Readable s \<Rightarrow>
              (if live_workspace_count s = 0
               then (case load_backup fs of
                       Some b \<Rightarrow> if 0 < live_workspace_count b then (fs, Inr (Some b)) else (fs, Inr (Some s))
                     | None \<Rightarrow> (fs, Inr (Some s)))
               else (fs, Inr (Some s))))"

end
