(* ===== verification/Session_Restore.thy ===== *)
theory Session_Restore imports Session_Store begin

text \<open>
  Restoring a session (\<open>build_workspace_from_snapshot\<close> and \<open>restore_session\<close> of \<open>jmux/src/app.rs\<close>, the
  agent toggles of \<open>jmux/src/settings/mod.rs\<close>). The quoting of shell words (crate \<open>shell_escape\<close>), the
  fresh identifiers, the build with or without WebKit and the home directory are the fields of
  \<open>restore_cfg\<close>.
\<close>

section \<open>Agent toggles\<close>

record agent_restore =
  ar_claude_code :: bool
  ar_codex :: bool
  ar_opencode :: bool
  ar_rovo_dev :: bool
  ar_cursor :: bool
  ar_grok :: bool
  ar_amp :: bool
  ar_pi :: bool
  ar_hermes :: bool
  ar_antigravity :: bool

text \<open>The read side: a missing key is \<open>None\<close>.\<close>

record agent_restore_wire =
  aw_claude_code :: "bool option"
  aw_codex :: "bool option"
  aw_opencode :: "bool option"
  aw_rovo_dev :: "bool option"
  aw_cursor :: "bool option"
  aw_grok :: "bool option"
  aw_amp :: "bool option"
  aw_pi :: "bool option"
  aw_hermes :: "bool option"
  aw_antigravity :: "bool option"
  aw_gemini :: "bool option"

definition unwrap_or :: "'a \<Rightarrow> 'a option \<Rightarrow> 'a" where
  "unwrap_or d x = (case x of Some v \<Rightarrow> v | None \<Rightarrow> d)"

definition from_wire :: "agent_restore_wire \<Rightarrow> agent_restore" where
  "from_wire w =
     \<lparr> ar_claude_code = unwrap_or True (aw_claude_code w), ar_codex = unwrap_or True (aw_codex w),
       ar_opencode = unwrap_or True (aw_opencode w), ar_rovo_dev = unwrap_or True (aw_rovo_dev w),
       ar_cursor = unwrap_or False (aw_cursor w), ar_grok = unwrap_or False (aw_grok w),
       ar_amp = unwrap_or False (aw_amp w), ar_pi = unwrap_or False (aw_pi w),
       ar_hermes = unwrap_or False (aw_hermes w),
       ar_antigravity = unwrap_or True (or_else (aw_antigravity w) (aw_gemini w)) \<rparr>"

definition agent_restore_default :: agent_restore where
  "agent_restore_default =
     \<lparr> ar_claude_code = True, ar_codex = True, ar_opencode = True, ar_rovo_dev = True, ar_cursor = True,
       ar_grok = True, ar_amp = True, ar_pi = True, ar_hermes = True, ar_antigravity = True \<rparr>"

definition is_enabled_for :: "agent_restore \<Rightarrow> rstr \<Rightarrow> bool" where
  "is_enabled_for s cmd =
     (if starts_with ''claude'' cmd then ar_claude_code s
      else if starts_with ''opencode'' cmd then ar_opencode s
      else if starts_with ''codex'' cmd then ar_codex s
      else if starts_with ''rovo'' cmd then ar_rovo_dev s
      else if starts_with ''cursor'' cmd then ar_cursor s
      else if starts_with ''grok'' cmd then ar_grok s
      else if starts_with ''amp'' cmd then ar_amp s
      else if starts_with ''pi'' cmd then ar_pi s
      else if starts_with ''hermes'' cmd then ar_hermes s
      else if starts_with ''agy'' cmd \<or> starts_with ''antigravity'' cmd \<or> starts_with ''gemini'' cmd
           then ar_antigravity s
      else False)"

record restore_cfg =
  rg_agents :: agent_restore
  rg_escape :: "rstr \<Rightarrow> rstr"
  rg_webkit :: bool
  rg_home :: "rstr option"
  rg_fresh :: "nat \<Rightarrow> uuid"

section \<open>One workspace\<close>

definition build_remote_claude_resume :: "(rstr \<Rightarrow> rstr) \<Rightarrow> remote_config \<Rightarrow> rstr option \<Rightarrow> rstr \<Rightarrow> rstr" where
  "build_remote_claude_resume escape rc dir session =
     (let cmd = ''ssh -t'' @ (if rc_agent_forward rc then '' -A'' else [])
            @ (case rc_port rc of Some p \<Rightarrow> '' -p '' @ show_nat (unat p) | None \<Rightarrow> [])
            @ (case rc_identity rc of Some i \<Rightarrow> '' -i '' @ escape i | None \<Rightarrow> [])
            @ '' '' @ escape (rc_destination rc);
          remote_cmd = (case dir of
              Some d \<Rightarrow> ''cd '' @ escape d @ '' 2>/dev/null; exec claude --resume '' @ escape session
            | None \<Rightarrow> ''exec claude --resume '' @ escape session)
      in cmd @ '' '' @ escape remote_cmd)"

text \<open>\<open>None\<close> is the \<open>continue\<close> of a build without WebKit.\<close>

definition restored_type :: "bool \<Rightarrow> rstr \<Rightarrow> PanelType option" where
  "restored_type webkit ty =
     (if ty = ''browser'' then (if webkit then Some Browser else None)
      else if ty = ''markdown'' then (if webkit then Some Markdown else None)
      else Some (if ty = ''diff'' then Diff else if ty = ''project'' then Project
                 else if ty = ''file_preview'' then FilePreview else if ty = ''notes'' then Notes
                 else if ty = ''history'' then History else if ty = ''vault'' then Vault
                 else if ty = ''graph'' then Graph else Terminal))"

definition restored_command :: "restore_cfg \<Rightarrow> remote_config option \<Rightarrow> panel_snapshot \<Rightarrow> rstr option" where
  "restored_command cfg remote p =
     (case remote of
        Some rc \<Rightarrow>
          (case opt_filter (\<lambda>_. is_enabled_for (rg_agents cfg) ''claude'') (psn_agent_session_id p) of
             Some i \<Rightarrow> Some (build_remote_claude_resume (rg_escape cfg) rc (psn_directory p) i)
           | None \<Rightarrow> psn_command p)
      | None \<Rightarrow>
          (case opt_filter (is_enabled_for (rg_agents cfg)) (psn_agent_resume_command p) of
             Some c \<Rightarrow> Some c
           | None \<Rightarrow> psn_command p))"

definition restore_panel :: "restore_cfg \<Rightarrow> remote_config option \<Rightarrow> panel_snapshot \<Rightarrow> PanelType \<Rightarrow> panel" where
  "restore_panel cfg remote p ty =
     \<lparr> p_id = psn_id p, p_panel_type = ty, p_title = psn_title p, p_custom_title = psn_custom_title p,
       p_directory = psn_directory p, p_is_pinned = psn_is_pinned p,
       p_is_manually_unread = psn_is_manually_unread p, p_git_branch = psn_git_branch p,
       p_listening_ports = psn_listening_ports p, p_tty_name = psn_tty_name p,
       p_browser_url = Option.bind (psn_browser p) bsn_url_string, p_markdown_file = psn_markdown p,
       p_command = restored_command cfg remote p,
       p_pending_scrollback = Option.bind (psn_terminal p) tsn_scrollback,
       p_pending_zoom = opt_filter (\<lambda>z. z \<noteq> Fin False 1) (map_option bsn_page_zoom (psn_browser p)),
       p_parent_panel_id = None, p_agent_session_id = psn_agent_session_id p \<rparr>"

definition restore_panels :: "restore_cfg \<Rightarrow> remote_config option \<Rightarrow> panel_snapshot list \<Rightarrow> (uuid, panel) hashmap" where
  "restore_panels cfg remote ps =
     fold (\<lambda>p m. case restored_type (rg_webkit cfg) (psn_panel_type p) of
                   Some ty \<Rightarrow> AList.update (psn_id p) (restore_panel cfg remote p ty) m
                 | None \<Rightarrow> m) ps []"

text \<open>\<open>n\<close> counts the identifiers drawn so far: the workspace and the panel \<open>with_directory\<close> makes take one
  each.\<close>

definition build_workspace_from_snapshot ::
  "restore_cfg \<Rightarrow> nat \<Rightarrow> uuid option \<Rightarrow> workspace_snapshot \<Rightarrow> workspace" where
  "build_workspace_from_snapshot cfg n window s =
     (with_directory (rg_home cfg) (rg_fresh cfg n) (rg_fresh cfg (n + 1)) (wsn_current_directory s))
       \<lparr> ws_window_id := window, ws_custom_title := wsn_custom_title s, ws_custom_color := wsn_custom_color s,
         ws_is_pinned := wsn_is_pinned s, ws_process_title := wsn_process_title s,
         ws_status_entries := wsn_status_entries s, ws_log_entries := wsn_log_entries s,
         ws_progress := wsn_progress s, ws_git_branch := wsn_git_branch s,
         ws_remote_config := wsn_remote_config s, ws_group_id := wsn_group_id s,
         ws_layout := to_layout (wsn_layout s),
         ws_panels := restore_panels cfg (wsn_remote_config s) (wsn_panels s),
         ws_focused_panel_id := wsn_focused_panel_id s \<rparr>"

section \<open>The session\<close>

record restoring =
  rs_tm :: tab_manager
  rs_draws :: nat
  rs_window_ids :: "uuid list"
  rs_groups :: "workspace_group list"
  rs_sizes :: "(uuid, int \<times> int) hashmap"

definition is_quick :: "workspace_snapshot \<Rightarrow> bool" where
  "is_quick s \<longleftrightarrow> wsn_custom_title s = Some ''Quick Terminal''"

definition restorable :: "workspace_snapshot \<Rightarrow> bool" where
  "restorable s \<longleftrightarrow> wsn_panels s \<noteq> [] \<and> \<not> is_quick s"

definition restore_workspace :: "restore_cfg \<Rightarrow> uuid \<Rightarrow> workspace_snapshot \<Rightarrow> restoring \<Rightarrow> restoring" where
  "restore_workspace cfg window s st =
     (if wsn_panels s = [] \<or> is_quick s then st
      else st\<lparr> rs_tm := fst (add_workspace (build_workspace_from_snapshot cfg (rs_draws st) (Some window) s) (rs_tm st)),
               rs_draws := rs_draws st + 2 \<rparr>)"

definition restore_group :: "uuid \<Rightarrow> group_snapshot \<Rightarrow> workspace_group" where
  "restore_group window g =
     \<lparr> wg_id = gsn_id g, wg_name = gsn_name g, wg_color = gsn_color g, wg_collapsed = gsn_collapsed g,
       wg_window_id = Some window \<rparr>"

definition restore_window :: "restore_cfg \<Rightarrow> window_snapshot \<Rightarrow> restoring \<Rightarrow> restoring" where
  "restore_window cfg w st =
     (let window = rg_fresh cfg (rs_draws st);
          st = st\<lparr> rs_draws := rs_draws st + 1,
                   rs_sizes := (case nsn_frame w of
                      Some (wd, ht) \<Rightarrow> if 0 < wd \<and> 0 < ht then AList.update window (wd, ht) (rs_sizes st) else rs_sizes st
                    | None \<Rightarrow> rs_sizes st),
                   rs_window_ids := rs_window_ids st @ [window],
                   rs_groups := rs_groups st @ map (restore_group window) (nsn_groups w) \<rparr>
      in fold (restore_workspace cfg window) (nsn_workspaces w) st)"

definition live_windows :: "session_snapshot \<Rightarrow> window_snapshot list" where
  "live_windows s = filter (\<lambda>w. list_ex restorable (nsn_workspaces w)) (ssn_windows s)"

fun restore_closed :: "restore_cfg \<Rightarrow> nat \<Rightarrow> closed_snapshot list \<Rightarrow> closed_entry list" where
  "restore_closed cfg n [] = []"
| "restore_closed cfg n (e # es) =
     (if wsn_panels (csn_workspace e) = [] then restore_closed cfg n es
      else \<lparr> ce_workspace = build_workspace_from_snapshot cfg n None (csn_workspace e),
             ce_closed_at = csn_closed_at_unix e, ce_title = csn_title e \<rparr> # restore_closed cfg (n + 2) es)"

definition set_groups :: "workspace_group list \<Rightarrow> tab_manager \<Rightarrow> tab_manager" where
  "set_groups gs tm = tm\<lparr> tm_groups := gs \<rparr>"

text \<open>The result of \<open>load_session\<close>, the tab manager and the window sizes of the running process go in;
  the identifiers of the restored windows come out. \<open>disabled\<close> is the environment variable.\<close>

definition restore_session ::
  "restore_cfg \<Rightarrow> bool \<Rightarrow> (unit + session_snapshot option) \<Rightarrow> tab_manager \<Rightarrow> (uuid, int \<times> int) hashmap
     \<Rightarrow> (tab_manager \<times> (uuid, int \<times> int) hashmap) \<times> uuid list" where
  "restore_session cfg disabled loaded tm sizes =
     (if disabled then ((tm, sizes), [])
      else case loaded of
        Inl _ \<Rightarrow> ((tm, sizes), [])
      | Inr None \<Rightarrow> ((tm, sizes), [])
      | Inr (Some s) \<Rightarrow>
          if ssn_windows s = [] then ((tm, sizes), [])
          else if sum_list (map (\<lambda>w. length (nsn_workspaces w)) (ssn_windows s)) = 0 then ((tm, sizes), [])
          else
           (let st = fold (restore_window cfg) (live_windows s)
                  \<lparr> rs_tm = tm_empty, rs_draws = 0, rs_window_ids = [], rs_groups = [], rs_sizes = sizes \<rparr>;
                closed = restore_closed cfg (rs_draws st) (ssn_closed_workspaces s);
                tm' = (if closed \<noteq> [] then set_closed_entries closed (rs_tm st) else rs_tm st)
            in ((set_groups (rs_groups st) tm', rs_sizes st), rs_window_ids st)))"

end
