(* ===== verification/Session_Facts.thy ===== *)
theory Session_Facts imports Session_Restore Tab_Manager_More begin

text \<open>
  What survives a restart: layouts and panels read back as they were saved, a restored workspace and a
  restored session are well formed, and the restored workspaces are the saved ones window by window.
\<close>

section \<open>Layouts\<close>

lemma layout_roundtrip: "dividers_ok l \<Longrightarrow> to_layout (from_layout l) = l"
proof (induction l)
  case (Split ori d a b)
  then have "is_finite d" by (auto intro: f64_le_finite)
  with Split show ?case by (simp add: f64_clamp_id)
qed simp

lemma to_layout_ids [ids]:
  "all_panel_ids (to_layout (from_layout l)) = all_panel_ids l"
  "all_panel_ids (to_layout (normalize_divider_positions (from_layout l))) = all_panel_ids l"
  by (induction l) simp_all

lemma to_layout_ok [keeps]:
  assumes "layout_ok l"
  shows "layout_ok (to_layout (from_layout l))"
    "layout_ok (to_layout (normalize_divider_positions (from_layout l)))"
proof -
  have "sel_ok (to_layout (from_layout l)) = sel_ok l" "panes_filled (to_layout (from_layout l)) = panes_filled l"
    "sel_ok (to_layout (normalize_divider_positions (from_layout l))) = sel_ok l"
    "panes_filled (to_layout (normalize_divider_positions (from_layout l))) = panes_filled l"
    by (induction l) simp_all
  with assms show "layout_ok (to_layout (from_layout l))"
    "layout_ok (to_layout (normalize_divider_positions (from_layout l)))"
    by (simp_all add: layout_ok_def ids)
qed

lemma fold_remove_ids: "all_panel_ids (fold (\<lambda>i l. fst (remove_panel i l)) is l) = fold remove1 is (all_panel_ids l)"
  by (induction "is" arbitrary: l) (simp_all add: ids)

lemma fold_remove_ok: "layout_ok l \<Longrightarrow> layout_ok (fold (\<lambda>i l. fst (remove_panel i l)) is l)"
  by (induction "is" arbitrary: l) (simp_all add: keeps)

lemma fold_remove1_set: "distinct xs \<Longrightarrow> set (fold remove1 is xs) = set xs - set is"
  by (induction "is" arbitrary: xs) auto

section \<open>Panels\<close>

lemma restored_saved_type: "ty \<noteq> AgentMonitor \<Longrightarrow> restored_type True (saved_type ty) = Some ty"
  by (cases ty) (simp_all add: restored_type_def saved_type_def)

lemma snapshot_panel_simps [simp]:
  "psn_id (snapshot_panel ui p) = p_id p"
  "psn_panel_type (snapshot_panel ui p) = saved_type (p_panel_type p)"
  "psn_title (snapshot_panel ui p) = p_title p"
  "psn_custom_title (snapshot_panel ui p) = p_custom_title p"
  "psn_directory (snapshot_panel ui p) = p_directory p"
  "psn_is_pinned (snapshot_panel ui p) = p_is_pinned p"
  "psn_is_manually_unread (snapshot_panel ui p) = p_is_manually_unread p"
  "psn_git_branch (snapshot_panel ui p) = p_git_branch p"
  "psn_listening_ports (snapshot_panel ui p) = p_listening_ports p"
  "psn_tty_name (snapshot_panel ui p) = p_tty_name p"
  "psn_command (snapshot_panel ui p) = p_command p"
  "psn_agent_session_id (snapshot_panel ui p) = p_agent_session_id p"
  "psn_markdown (snapshot_panel ui p) = (if p_panel_type p = Markdown then p_markdown_file p else None)"
  by (simp_all add: snapshot_panel_def from_panel_def Let_def split: option.splits)

lemma restore_panels_map:
  assumes "distinct (map psn_id ps)" and "\<forall>p \<in> set ps. restored_type (rg_webkit cfg) (psn_panel_type p) \<noteq> None"
  shows "restore_panels cfg remote ps =
    map (\<lambda>p. (psn_id p, restore_panel cfg remote p (the (restored_type (rg_webkit cfg) (psn_panel_type p))))) ps"
proof -
  let ?f = "\<lambda>p m. case restored_type (rg_webkit cfg) (psn_panel_type p) of
      Some ty \<Rightarrow> AList.update (psn_id p) (restore_panel cfg remote p ty) m | None \<Rightarrow> m"
  let ?g = "\<lambda>p. (psn_id p, restore_panel cfg remote p (the (restored_type (rg_webkit cfg) (psn_panel_type p))))"
  have "fold ?f ps m = m @ map ?g ps"
    if "distinct (map psn_id ps)" "\<forall>p \<in> set ps. restored_type (rg_webkit cfg) (psn_panel_type p) \<noteq> None"
      "\<forall>p \<in> set ps. psn_id p \<notin> set (keys_of m)" for m
    using that
  proof (induction ps arbitrary: m)
    case (Cons p ps)
    have up: "AList.update k v m = m @ [(k, v)]" if "k \<notin> set (keys_of m)" for k and v :: panel
      using that by (induction m) auto
    from Cons.prems obtain ty where ty: "restored_type (rg_webkit cfg) (psn_panel_type p) = Some ty" by auto
    have "fold ?f ps (m @ [?g p]) = (m @ [?g p]) @ map ?g ps" using Cons.prems by (intro Cons.IH) (auto simp: image_iff)
    with Cons.prems ty show ?case by (simp add: up)
  qed simp
  from this [of "[]"] assms show ?thesis by (simp add: restore_panels_def)
qed

section \<open>One workspace\<close>

abbreviation restored :: "restore_cfg \<Rightarrow> nat \<Rightarrow> uuid option \<Rightarrow> ui_state \<Rightarrow> workspace \<Rightarrow> workspace" where
  "restored cfg n window ui w \<equiv> build_workspace_from_snapshot cfg n window (snapshot_workspace ui w)"

definition saved_panels :: "workspace \<Rightarrow> panel list" where
  "saved_panels w = filter (\<lambda>p. p_panel_type p \<noteq> AgentMonitor) (map snd (ws_panels w))"

text \<open>The focus is not on an agent monitor.\<close>

definition focus_saved :: "workspace \<Rightarrow> bool" where
  "focus_saved w \<longleftrightarrow> (\<forall>i p. ws_focused_panel_id w = Some i \<longrightarrow> map_of (ws_panels w) i = Some p \<longrightarrow> p_panel_type p \<noteq> AgentMonitor)"

lemma saved_panel_ids:
  assumes "ws_ok w"
  shows "map p_id (saved_panels w) = keys_of (filter (\<lambda>(_, p). p_panel_type p \<noteq> AgentMonitor) (ws_panels w))"
proof -
  have m: "map p_id (map snd m) = keys_of m" if "\<forall>(k, p) \<in> set m. p_id p = k" for m :: "(uuid, panel) hashmap"
    using that by (induction m) auto
  have d: "distinct (keys_of (ws_panels w))" using ws_okD(2) [OF assms] by (simp add: consistent_def)
  have k: "map_of (ws_panels w) k = Some p \<Longrightarrow> p_id p = k" for k p
    using ws_okD(3) [OF assms] by (simp add: panels_keyed_def)
  have "p_id p = k" if "(k, p) \<in> set (ws_panels w)" for k p
    using d that by (intro k map_of_is_SomeI)
  then have f: "\<forall>(k, p) \<in> set (filter (\<lambda>(_, p). p_panel_type p \<noteq> AgentMonitor) (ws_panels w)). p_id p = k" by auto
  have "map p_id (map snd (filter (\<lambda>(_, p). p_panel_type p \<noteq> AgentMonitor) (ws_panels w)))
      = keys_of (filter (\<lambda>(_, p). p_panel_type p \<noteq> AgentMonitor) (ws_panels w))"
    using f by (rule m)
  then show ?thesis by (simp add: saved_panels_def filter_map comp_def case_prod_beta')
qed

lemma saved_panel_ids_sub:
  assumes "ws_ok w"
  shows "distinct (map p_id (saved_panels w))" "set (map p_id (saved_panels w)) = set (keys_of (ws_panels w)) - set (monitor_ids w)"
proof -
  have d: "distinct (keys_of (ws_panels w))" using ws_okD(2) [OF assms] by (simp add: consistent_def)
  then show "distinct (map p_id (saved_panels w))"
    unfolding saved_panel_ids [OF assms] by (simp add: distinct_map_filter)
  have "k \<in> set (keys_of (filter (\<lambda>(_, p). p_panel_type p \<noteq> AgentMonitor) (ws_panels w))) \<longleftrightarrow>
      k \<in> set (keys_of (ws_panels w)) \<and> k \<notin> set (monitor_ids w)" for k
  proof (cases "map_of (ws_panels w) k")
    case None
    then show ?thesis by (auto simp: map_of_eq_None_iff monitor_ids_def rev_image_eqI)
  next
    case (Some p)
    then have "(k, q) \<in> set (ws_panels w) \<longleftrightarrow> q = p" for q using map_of_is_SomeI [OF d] map_of_SomeD [of "ws_panels w" k p] by fastforce
    then show ?thesis by (force simp: monitor_ids_def)
  qed
  then show "set (map p_id (saved_panels w)) = set (keys_of (ws_panels w)) - set (monitor_ids w)"
    unfolding saved_panel_ids [OF assms] by auto
qed

lemma restored_panels:
  assumes "ws_ok w" and "rg_webkit cfg"
  shows "ws_panels (restored cfg n window ui w) =
    map (\<lambda>p. (p_id p, restore_panel cfg (ws_remote_config w) (snapshot_panel ui p) (p_panel_type p))) (saved_panels w)"
proof -
  let ?ps = "map (snapshot_panel ui) (saved_panels w)"
  have ty: "restored_type True (saved_type (p_panel_type p)) = Some (p_panel_type p)" if "p \<in> set (saved_panels w)" for p
    using that by (intro restored_saved_type) (auto simp: saved_panels_def)
  have "restore_panels cfg (ws_remote_config w) ?ps =
      map (\<lambda>p. (psn_id p, restore_panel cfg (ws_remote_config w) p (the (restored_type (rg_webkit cfg) (psn_panel_type p))))) ?ps"
    using saved_panel_ids_sub(1) [OF assms(1)] ty assms(2) by (intro restore_panels_map) (auto simp: comp_def)
  with ty assms(2) show ?thesis
    by (simp add: build_workspace_from_snapshot_def snapshot_workspace_def saved_panels_def Let_def)
qed

lemma restored_keys:
  assumes "ws_ok w" and "rg_webkit cfg"
  shows "keys_of (ws_panels (restored cfg n window ui w)) = map p_id (saved_panels w)"
  by (simp add: restored_panels [OF assms] comp_def)

lemma restored_keyed:
  assumes "ws_ok w" and "rg_webkit cfg"
  shows "panels_keyed (ws_panels (restored cfg n window ui w))"
  unfolding panels_keyed_def restored_panels [OF assms] by (auto simp: restore_panel_def dest!: map_of_SomeD)

lemma restored_fields [simp]:
  "ws_id (build_workspace_from_snapshot cfg n window s) = rg_fresh cfg n"
  "ws_window_id (build_workspace_from_snapshot cfg n window s) = window"
  "ws_layout (build_workspace_from_snapshot cfg n window s) = to_layout (wsn_layout s)"
  "ws_focused_panel_id (build_workspace_from_snapshot cfg n window s) = wsn_focused_panel_id s"
  "ws_closed_panels (build_workspace_from_snapshot cfg n window s) = []"
  "ws_custom_title (build_workspace_from_snapshot cfg n window s) = wsn_custom_title s"
  "ws_custom_color (build_workspace_from_snapshot cfg n window s) = wsn_custom_color s"
  "ws_process_title (build_workspace_from_snapshot cfg n window s) = wsn_process_title s"
  "ws_is_pinned (build_workspace_from_snapshot cfg n window s) = wsn_is_pinned s"
  "ws_current_directory (build_workspace_from_snapshot cfg n window s) = wsn_current_directory s"
  "ws_status_entries (build_workspace_from_snapshot cfg n window s) = wsn_status_entries s"
  "ws_log_entries (build_workspace_from_snapshot cfg n window s) = wsn_log_entries s"
  "ws_metadata_entries (build_workspace_from_snapshot cfg n window s) = []"
  "ws_metadata_blocks (build_workspace_from_snapshot cfg n window s) = []"
  "ws_progress (build_workspace_from_snapshot cfg n window s) = wsn_progress s"
  "ws_git_branch (build_workspace_from_snapshot cfg n window s) = wsn_git_branch s"
  "ws_remote_config (build_workspace_from_snapshot cfg n window s) = wsn_remote_config s"
  "ws_group_id (build_workspace_from_snapshot cfg n window s) = wsn_group_id s"
  by (simp_all add: build_workspace_from_snapshot_def with_directory_def ws_new_def Let_def)

lemma snapshot_workspace_fields [simp]:
  "wsn_custom_title (snapshot_workspace ui w) = ws_custom_title w"
  "wsn_panels (snapshot_workspace ui w) = map (snapshot_panel ui) (saved_panels w)"
  by (simp_all add: snapshot_workspace_def saved_panels_def Let_def)

lemma pruned_layout_ids:
  assumes "ws_ok w"
  shows "layout_ok (pruned_layout w)" "set (all_panel_ids (pruned_layout w)) = set (map p_id (saved_panels w))"
proof -
  have l: "layout_ok (ws_layout w)" "consistent (ws_panels w) (all_panel_ids (ws_layout w))"
    using ws_okD [OF assms] by blast+
  then show "layout_ok (pruned_layout w)" by (simp add: pruned_layout_def fold_remove_ok)
  have "distinct (all_panel_ids (ws_layout w))" using l(1) by (simp add: layout_ok_def)
  with l(2) show "set (all_panel_ids (pruned_layout w)) = set (map p_id (saved_panels w))"
    by (simp only: saved_panel_ids_sub [OF assms] pruned_layout_def fold_remove_ids fold_remove1_set consistent_def)
qed

lemma restored_focus:
  assumes "ws_ok w" and "focus_saved w" and "ws_panels w \<noteq> []"
  shows "\<exists>f. wsn_focused_panel_id (snapshot_workspace ui w) = Some f \<and> ws_focused_panel_id w = Some f \<and>
    f \<in> set (map p_id (saved_panels w))"
proof -
  from ws_okD(4) [OF assms(1)] assms(3) obtain f p where f: "ws_focused_panel_id w = Some f" "map_of (ws_panels w) f = Some p"
    by (auto simp: focus_ok_def split: option.splits)
  with assms(2) have ty: "p_panel_type p \<noteq> AgentMonitor" by (simp add: focus_saved_def)
  have id: "p_id p = f" using ws_okD(3) [OF assms(1)] f(2) by (simp add: panels_keyed_def)
  have "p \<in> set (saved_panels w)" using map_of_SomeD [OF f(2)] ty by (force simp: saved_panels_def)
  with f ty id show ?thesis by (auto simp: snapshot_workspace_def opt_filter_def Let_def)
qed

lemma restored_ok:
  assumes "ws_ok w" and "rg_webkit cfg" and "focus_saved w" and "ws_panels w \<noteq> []"
  shows "ws_ok (restored cfg n window ui w)" and "ws_panels (restored cfg n window ui w) \<noteq> []"
proof -
  let ?w = "restored cfg n window ui w"
  have ids: "all_panel_ids (ws_layout ?w) = all_panel_ids (pruned_layout w)"
    by (simp add: snapshot_workspace_def Let_def ids)
  have "consistent (ws_panels ?w) (all_panel_ids (ws_layout ?w))"
    unfolding consistent_def ids restored_keys [OF assms(1,2)] pruned_layout_ids(2) [OF assms(1)]
    using saved_panel_ids_sub(1) [OF assms(1)] by simp
  moreover have "layout_ok (ws_layout ?w)"
    using pruned_layout_ids(1) [OF assms(1)] by (simp add: snapshot_workspace_def Let_def keeps)
  moreover obtain f where "ws_focused_panel_id ?w = Some f" "f \<in> set (keys_of (ws_panels ?w))"
    using restored_focus [OF assms(1,3,4), of ui] unfolding restored_keys [OF assms(1,2)] by auto
  moreover have "panels_keyed (ws_panels ?w)" "ws_closed_panels ?w = []" using restored_keyed [OF assms(1,2)] by simp_all
  moreover have "meta_ok ?w" using ws_okD(6) [OF assms(1)] by (simp add: meta_ok_def snapshot_workspace_def Let_def)
  ultimately show "ws_ok ?w" "ws_panels ?w \<noteq> []"
    unfolding ws_ok_def focus_ok_def has_key_iff by (simp_all del: restored_fields set_map) (auto simp del: restored_fields)
qed

section \<open>The restored state\<close>

definition startup_tm :: "tab_manager \<Rightarrow> bool" where
  "startup_tm tm \<longleftrightarrow>
     tm_groups tm = [] \<and> tm_focus_history tm = [] \<and> tm_focus_pos tm = 0 \<and> tm_closed_stack tm = [] \<and>
     tm_selected_index tm = (if tm_workspaces tm = [] then None else Some (length (tm_workspaces tm) - 1))"

text \<open>The workspaces are appended, each under a fresh identifier of its own.\<close>

abbreviation draws_between :: "nat \<Rightarrow> nat \<Rightarrow> nat list \<Rightarrow> bool" where
  "draws_between lo hi ns \<equiv> sorted_wrt (<) ns \<and> (\<forall>n \<in> set ns. lo \<le> n \<and> n < hi) \<and> lo \<le> hi"

lemma draws_append: "draws_between lo mid xs \<Longrightarrow> draws_between mid hi ys \<Longrightarrow> draws_between lo hi (xs @ ys)"
  by (auto simp: sorted_wrt_append) force+

lemma fold_restore_workspace:
  fixes st :: restoring and cfg :: restore_cfg and window :: uuid and ss :: "workspace_snapshot list"
  defines "st' \<equiv> fold (restore_workspace cfg window) ss st"
  shows "\<exists>ns. length ns = length (filter restorable ss) \<and> draws_between (rs_draws st) (rs_draws st') ns \<and>
      tm_workspaces (rs_tm st') = tm_workspaces (rs_tm st) @
        map2 (\<lambda>n s. build_workspace_from_snapshot cfg n (Some window) s) ns (filter restorable ss)"
    and "startup_tm (rs_tm st) \<Longrightarrow> startup_tm (rs_tm st')"
    and "rs_groups st' = rs_groups st" "rs_window_ids st' = rs_window_ids st"
  unfolding st'_def
proof (induction ss arbitrary: st)
  case Nil
  { case 1 show ?case by simp next case 2 then show ?case by simp next case 3 show ?case by simp next case 4 show ?case by simp }
next
  case (Cons s ss)
  {
    case (1 st)
    let ?st = "restore_workspace cfg window s st"
    from Cons.IH(1) [of ?st] obtain ns where ns: "length ns = length (filter restorable ss)"
      "draws_between (rs_draws ?st) (rs_draws (fold (restore_workspace cfg window) ss ?st)) ns"
      "tm_workspaces (rs_tm (fold (restore_workspace cfg window) ss ?st)) = tm_workspaces (rs_tm ?st) @
        map2 (\<lambda>n s. build_workspace_from_snapshot cfg n (Some window) s) ns (filter restorable ss)" by blast
    show ?case
    proof (cases "restorable s")
      case True
      have next_draw: "rs_draws ?st = rs_draws st + 2" using True by (simp add: restore_workspace_def restorable_def)
      have "draws_between (rs_draws st) (rs_draws ?st) [rs_draws st]" unfolding next_draw by simp
      note d = draws_append [OF this ns(2)]
      have "tm_workspaces (rs_tm ?st) =
          tm_workspaces (rs_tm st) @ [build_workspace_from_snapshot cfg (rs_draws st) (Some window) s]"
        using True by (simp add: restore_workspace_def restorable_def add_workspace_def Let_def)
      with d ns True show ?thesis by (intro exI [of _ "rs_draws st # ns"]) (simp del: fold_simps add: fold_simps(2))
    next
      case False
      then have "?st = st" by (auto simp: restore_workspace_def restorable_def)
      with ns False show ?thesis by (intro exI [of _ ns]) simp
    qed
  next
    case (2 st)
    let ?st = "restore_workspace cfg window s st"
    from 2 have "startup_tm (rs_tm ?st)" by (simp add: restore_workspace_def add_workspace_def startup_tm_def Let_def)
    then show ?case using Cons.IH(2) [of ?st] by simp
  next
    case (3 st) show ?case using Cons.IH(3) [of "restore_workspace cfg window s st"] by (simp add: restore_workspace_def)
  next
    case (4 st) show ?case using Cons.IH(4) [of "restore_workspace cfg window s st"] by (simp add: restore_workspace_def)
  }
qed

abbreviation window_spaces :: "window_snapshot \<Rightarrow> workspace_snapshot list" where
  "window_spaces w \<equiv> filter restorable (nsn_workspaces w)"

lemma restore_window_effect:
  fixes st :: restoring and cfg :: restore_cfg
  defines "window \<equiv> rg_fresh cfg (rs_draws st)"
  shows "\<exists>ns. length ns = length (window_spaces w) \<and> draws_between (rs_draws st + 1) (rs_draws (restore_window cfg w st)) ns \<and>
      tm_workspaces (rs_tm (restore_window cfg w st)) = tm_workspaces (rs_tm st) @
        map2 (\<lambda>n s. build_workspace_from_snapshot cfg n (Some window) s) ns (window_spaces w)"
    and "startup_tm (rs_tm st) \<Longrightarrow> startup_tm (rs_tm (restore_window cfg w st))"
    and "rs_groups (restore_window cfg w st) = rs_groups st @ map (restore_group window) (nsn_groups w)"
proof -
  obtain st1 where r: "restore_window cfg w st = fold (restore_workspace cfg window) (nsn_workspaces w) st1"
    and st1: "rs_draws st1 = rs_draws st + 1" "rs_tm st1 = rs_tm st"
      "rs_groups st1 = rs_groups st @ map (restore_group window) (nsn_groups w)"
    unfolding restore_window_def Let_def window_def by simp
  note one = fold_restore_workspace [where st = st1 and cfg = cfg and window = window and ss = "nsn_workspaces w",
      folded r, unfolded st1]
  show "\<exists>ns. length ns = length (window_spaces w) \<and> draws_between (rs_draws st + 1) (rs_draws (restore_window cfg w st)) ns \<and>
      tm_workspaces (rs_tm (restore_window cfg w st)) = tm_workspaces (rs_tm st) @
        map2 (\<lambda>n s. build_workspace_from_snapshot cfg n (Some window) s) ns (window_spaces w)"
    by (rule one(1))
  show "startup_tm (rs_tm st) \<Longrightarrow> startup_tm (rs_tm (restore_window cfg w st))" by (rule one(2))
  show "rs_groups (restore_window cfg w st) = rs_groups st @ map (restore_group window) (nsn_groups w)" by (rule one(3))
qed

lemma fold_restore_window:
  fixes st :: restoring and cfg :: restore_cfg and ws :: "window_snapshot list"
  defines "st' \<equiv> fold (restore_window cfg) ws st"
  shows "\<exists>slots. length slots = length (concat (map window_spaces ws)) \<and>
      draws_between (rs_draws st) (rs_draws st') (map fst slots) \<and>
      tm_workspaces (rs_tm st') = tm_workspaces (rs_tm st) @
        map2 (\<lambda>(n, w) s. build_workspace_from_snapshot cfg n w s) slots (concat (map window_spaces ws))"
    and "startup_tm (rs_tm st) \<Longrightarrow> startup_tm (rs_tm st')"
    and "map wg_id (rs_groups st') = map wg_id (rs_groups st) @ concat (map (\<lambda>w. map gsn_id (nsn_groups w)) ws)"
  unfolding st'_def
proof (induction ws arbitrary: st)
  case Nil
  { case 1 show ?case by simp next case 2 then show ?case by simp next case 3 show ?case by simp }
next
  case (Cons w ws)
  {
    case (1 st)
    let ?st = "restore_window cfg w st"
    define window where "window = rg_fresh cfg (rs_draws st)"
    from restore_window_effect(1) [where w = w and cfg = cfg and st = st, folded window_def] obtain ns where ns: "length ns = length (window_spaces w)"
      "draws_between (rs_draws st + 1) (rs_draws ?st) ns"
      "tm_workspaces (rs_tm ?st) = tm_workspaces (rs_tm st) @
        map2 (\<lambda>n s. build_workspace_from_snapshot cfg n (Some window) s) ns (window_spaces w)" by blast
    from Cons.IH(1) [of ?st] obtain slots where slots: "length slots = length (concat (map window_spaces ws))"
      "draws_between (rs_draws ?st) (rs_draws (fold (restore_window cfg) ws ?st)) (map fst slots)"
      "tm_workspaces (rs_tm (fold (restore_window cfg) ws ?st)) = tm_workspaces (rs_tm ?st) @
        map2 (\<lambda>(n, w) s. build_workspace_from_snapshot cfg n w s) slots (concat (map window_spaces ws))" by blast
    have "draws_between (rs_draws st) (rs_draws ?st) (map fst (map (\<lambda>n. (n, Some window)) ns))"
      using ns(2) by (simp add: comp_def) fastforce
    note d = draws_append [OF this slots(2)]
    have m: "map2 (\<lambda>n s. build_workspace_from_snapshot cfg n (Some window) s) ns xs =
        map2 (\<lambda>(n, w) s. build_workspace_from_snapshot cfg n w s) (map (\<lambda>n. (n, Some window)) ns) xs" for xs
      by (simp add: zip_map1 comp_def case_prod_beta')
    have "length (map (\<lambda>n. (n, Some window)) ns @ slots) = length (concat (map window_spaces (w # ws)))"
      using ns(1) slots(1) by simp
    with d ns slots m show ?case
      by (intro exI [of _ "map (\<lambda>n. (n, Some window)) ns @ slots"]) simp
  next
    case (2 st)
    then show ?case using Cons.IH(2) [of "restore_window cfg w st"] restore_window_effect(2) [where w = w and cfg = cfg and st = st] by simp
  next
    case (3 st)
    show ?case using Cons.IH(3) [of "restore_window cfg w st"] restore_window_effect(3) [where w = w and cfg = cfg and st = st] by (simp add: restore_group_def comp_def)
  }
qed

lemma restore_closed_entries:
  "\<exists>ns. length ns = length (filter (\<lambda>e. wsn_panels (csn_workspace e) \<noteq> []) es) \<and> sorted_wrt (<) ns \<and> (\<forall>m \<in> set ns. n \<le> m \<and> m < n + 2 * length es) \<and>
    map ce_workspace (restore_closed cfg n es) =
      map2 (\<lambda>n s. build_workspace_from_snapshot cfg n None s) ns
        (map csn_workspace (filter (\<lambda>e. wsn_panels (csn_workspace e) \<noteq> []) es))"
proof (induction es arbitrary: n)
  case (Cons e es)
  show ?case
  proof (cases "wsn_panels (csn_workspace e) = []")
    case True
    with Cons.IH [of n] show ?thesis by (auto 4 4)
  next
    case False
    from Cons.IH [of "n + 2"] obtain ns where "length ns = length (filter (\<lambda>e. wsn_panels (csn_workspace e) \<noteq> []) es)"
      "sorted_wrt (<) ns" "\<forall>m \<in> set ns. n + 2 \<le> m \<and> m < n + 2 + 2 * length es" "map ce_workspace (restore_closed cfg (n + 2) es) =
      map2 (\<lambda>n s. build_workspace_from_snapshot cfg n None s) ns
        (map csn_workspace (filter (\<lambda>e. wsn_panels (csn_workspace e) \<noteq> []) es))" by blast
    with False show ?thesis by (intro exI [of _ "n # ns"]) auto
  qed
qed simp


text \<open>How many identifiers are drawn.\<close>

lemma fold_workspace_draws:
  "rs_draws (fold (restore_workspace cfg window) ss st) = rs_draws st + 2 * length (filter restorable ss)"
  by (induction ss arbitrary: st) (simp_all add: restore_workspace_def restorable_def)

lemma fold_window_draws:
  "rs_draws (fold (restore_window cfg) ws st) = rs_draws st + length ws + 2 * length (concat (map window_spaces ws))"
  by (induction ws arbitrary: st) (simp_all add: restore_window_def fold_workspace_draws Let_def)

lemma live_windows_length: "length (live_windows s) \<le> length (concat (map window_spaces (live_windows s)))"
proof -
  have "length ws \<le> length (concat (map window_spaces ws))" if "\<forall>w \<in> set ws. window_spaces w \<noteq> []" for ws
    using that
  proof (induction ws)
    case (Cons w ws)
    then obtain n where "length (window_spaces w) = Suc n" by (cases "window_spaces w") auto
    with Cons show ?case by simp
  qed simp
  then show ?thesis by (simp add: live_windows_def list_ex_iff filter_empty_conv)
qed

end
