(* ===== verification/Session_Props.thy ===== *)
theory Session_Props imports Session_Facts begin

text \<open>
  The properties of saving and restoring a session: a restart keeps the workspaces, an empty process does not
  overwrite a saved session, and what truncation of scrollback gives and when it panics.
\<close>

section \<open>A restart\<close>

text \<open>The workspaces in the order they come back: window by window, without the quick terminal.\<close>

definition saved_order :: "tab_manager \<Rightarrow> workspace list" where
  "saved_order tm = concat (map (\<lambda>k. filter (\<lambda>w. window_of tm (ws_window_id w) = k \<and> ws_custom_title w \<noteq> Some ''Quick Terminal'')
     (kept_workspaces tm)) (window_keys tm))"

definition panel_survives :: "panel \<Rightarrow> panel \<Rightarrow> bool" where
  "panel_survives p' p \<longleftrightarrow>
     p_id p' = p_id p \<and> p_panel_type p' = p_panel_type p \<and> p_title p' = p_title p \<and>
     p_custom_title p' = p_custom_title p \<and> p_directory p' = p_directory p \<and> p_is_pinned p' = p_is_pinned p \<and>
     p_is_manually_unread p' = p_is_manually_unread p \<and> p_git_branch p' = p_git_branch p \<and>
     p_listening_ports p' = p_listening_ports p \<and> p_tty_name p' = p_tty_name p \<and>
     p_agent_session_id p' = p_agent_session_id p"

text \<open>The layout with every divider in the middle: what is saved when divider positions are not kept.\<close>

fun even_dividers :: "LayoutNode \<Rightarrow> LayoutNode" where
  "even_dividers (Pane ps sel) = Pane ps sel"
| "even_dividers (Split ori d a b) = Split ori half (even_dividers a) (even_dividers b)"

definition survives :: "ui_state \<Rightarrow> workspace \<Rightarrow> workspace \<Rightarrow> bool" where
  "survives ui w' w \<longleftrightarrow>
     ws_process_title w' = ws_process_title w \<and> ws_custom_title w' = ws_custom_title w \<and>
     ws_custom_color w' = ws_custom_color w \<and> ws_is_pinned w' = ws_is_pinned w \<and>
     ws_current_directory w' = ws_current_directory w \<and> ws_group_id w' = ws_group_id w \<and>
     ws_focused_panel_id w' = ws_focused_panel_id w \<and> ws_status_entries w' = ws_status_entries w \<and>
     ws_log_entries w' = ws_log_entries w \<and> ws_progress w' = ws_progress w \<and>
     ws_git_branch w' = ws_git_branch w \<and> ws_remote_config w' = ws_remote_config w \<and>
     all_panel_ids (ws_layout w') = all_panel_ids (pruned_layout w) \<and>
     even_dividers (ws_layout w') = even_dividers (pruned_layout w) \<and>
     (if ui_split_ratio_persist ui then dividers_ok (ws_layout w) \<longrightarrow> ws_layout w' = pruned_layout w
      else ws_layout w' = even_dividers (pruned_layout w)) \<and>
     list_all2 panel_survives (map snd (ws_panels w')) (saved_panels w)"

lemma mset_by_key:
  "distinct ks \<Longrightarrow> mset (concat (map (\<lambda>k. filter (\<lambda>w. g w = k \<and> P w) l) ks)) = filter_mset (\<lambda>w. g w \<in> set ks \<and> P w) (mset l)"
proof (induction ks)
  case (Cons k ks)
  have "filter_mset (\<lambda>w. g w \<in> set (k # ks) \<and> P w) (mset l) =
      filter_mset (\<lambda>w. g w = k \<and> P w) (mset l) + filter_mset (\<lambda>w. g w \<in> set ks \<and> P w) (mset l)"
    using Cons.prems by (induction l) auto
  with Cons show ?case by simp
qed simp

lemma saved_order_sub: "mset (saved_order tm) \<subseteq># mset (tm_workspaces tm)"
proof -
  have "distinct (window_keys tm)" by (simp add: window_keys_def)
  then have "mset (saved_order tm) \<subseteq># mset (kept_workspaces tm)" unfolding saved_order_def by (simp add: mset_by_key)
  also have "\<dots> \<subseteq># mset (tm_workspaces tm)" unfolding kept_workspaces_def by (rule filter_mset_sub)
  finally show ?thesis .
qed

lemma focus_saved_panels: "ws_ok w \<Longrightarrow> focus_saved w \<Longrightarrow> ws_panels w \<noteq> [] \<Longrightarrow> saved_panels w \<noteq> []"
  using restored_focus [of w] by force

lemma concat_map_filter: "(\<And>x. x \<in> set xs \<Longrightarrow> \<not> P x \<Longrightarrow> f x = []) \<Longrightarrow> concat (map f (filter P xs)) = concat (map f xs)"
  by (induction xs) auto

lemma window_spaces_saved:
  assumes "\<And>w. w \<in> set (tm_workspaces tm) \<Longrightarrow> saved_panels w \<noteq> []"
  shows "concat (map window_spaces (live_windows (create_snapshot ui now tm))) = map (snapshot_workspace ui) (saved_order tm)"
proof -
  have r: "restorable (snapshot_workspace ui w) \<longleftrightarrow> ws_custom_title w \<noteq> Some ''Quick Terminal''"
    if "w \<in> set (kept_workspaces tm)" for w
    using assms [of w] that by (simp add: restorable_def is_quick_def kept_workspaces_def)
  have s: "window_spaces (snapshot_window ui tm k) = map (snapshot_workspace ui)
      (filter (\<lambda>w. window_of tm (ws_window_id w) = k \<and> ws_custom_title w \<noteq> Some ''Quick Terminal'') (kept_workspaces tm))" for k
    unfolding snapshot_window_def using r by (auto simp: filter_map comp_def intro!: arg_cong [where f = "map _"] filter_cong)
  have "concat (map window_spaces (live_windows (create_snapshot ui now tm))) =
      concat (map window_spaces (ssn_windows (create_snapshot ui now tm)))"
    unfolding live_windows_def by (rule concat_map_filter) (simp add: list_ex_iff filter_empty_conv)
  also have "\<dots> = concat (map (\<lambda>k. window_spaces (snapshot_window ui tm k)) (window_keys tm))"
    by (simp add: create_snapshot_def comp_def)
  also have "\<dots> = map (snapshot_workspace ui) (saved_order tm)"
    unfolding s saved_order_def by (simp add: map_concat comp_def)
  finally show ?thesis .
qed

lemma even_dividers_ok: "dividers_ok (even_dividers l)"
  by (induction l) (simp_all add: half_def f64_le_def)

lemma even_ids [simp]: "all_panel_ids (even_dividers l) = all_panel_ids l"
  by (induction l) simp_all

lemma even_twice [simp]: "even_dividers (even_dividers l) = even_dividers l"
  by (induction l) simp_all

lemma even_layout:
  "even_dividers (to_layout (from_layout l)) = even_dividers l"
  "to_layout (normalize_divider_positions (from_layout l)) = even_dividers l"
proof -
  have "normalize_divider_positions (from_layout l) = from_layout (even_dividers l)" by (induction l) simp_all
  then show "to_layout (normalize_divider_positions (from_layout l)) = even_dividers l"
    by (simp add: layout_roundtrip even_dividers_ok)
  show "even_dividers (to_layout (from_layout l)) = even_dividers l" by (induction l) simp_all
qed

lemma restored_survives:
  assumes "ws_ok w" and "rg_webkit cfg" and "focus_saved w" and "ws_panels w \<noteq> []"
  shows "survives ui (restored cfg n window ui w) w"
proof -
  have "list_all2 panel_survives (map snd (ws_panels (restored cfg n window ui w))) (saved_panels w)"
    unfolding restored_panels [OF assms(1,2)]
    by (simp add: list_all2_conv_all_nth panel_survives_def restore_panel_def)
  moreover have "dividers_ok (ws_layout w) \<Longrightarrow> dividers_ok (pruned_layout w)"
  proof -
    have "dividers_ok l \<Longrightarrow> dividers_ok (fold (\<lambda>i l. fst (remove_panel i l)) is l)" for "is" l
      by (induction "is" arbitrary: l) (simp_all add: keeps)
    then show "dividers_ok (ws_layout w) \<Longrightarrow> dividers_ok (pruned_layout w)" by (simp add: pruned_layout_def)
  qed
  moreover obtain f where "wsn_focused_panel_id (snapshot_workspace ui w) = ws_focused_panel_id w"
    using restored_focus [OF assms(1,3,4), of ui] by auto
  ultimately show ?thesis
    unfolding survives_def by (simp add: snapshot_workspace_def layout_roundtrip even_layout Let_def ids)
qed

lemma mset_concat_mono:
  "(\<And>x. x \<in> set xs \<Longrightarrow> mset (f x) \<subseteq># mset (g x)) \<Longrightarrow> mset (concat (map f xs)) \<subseteq># mset (concat (map g xs))"
  by (induction xs) (simp_all add: subset_mset.add_mono)

lemma saved_ids_sub: "ws_ok w \<Longrightarrow> mset (map p_id (saved_panels w)) \<subseteq># mset (panel_keys w)"
  unfolding saved_panel_ids mset_map by (intro image_mset_subseteq_mono filter_mset_sub)

lemma restored_spaces_ok:
  assumes "spaces_ok l" and "\<forall>w \<in> set l. focus_saved w" and "rg_webkit cfg" and "inj_on (rg_fresh cfg) {..<N}"
    and "length slots = length l" and "distinct (map fst slots)" and "\<forall>n \<in> set (map fst slots). n < N"
  shows "spaces_ok (map2 (\<lambda>(n, window) w. restored cfg n window ui w) slots l)"
proof -
  let ?r = "map2 (\<lambda>(n, window) w. restored cfg n window ui w) slots l"
  have ok: "ws_ok w \<and> focus_saved w \<and> ws_panels w \<noteq> []" if "w \<in> set l" for w
    using assms(1,2) that by (simp add: spaces_sound_def)
  have "map ws_id ?r = map (rg_fresh cfg) (map fst slots)"
    using assms(5) by (intro nth_equalityI) (simp_all add: case_prod_beta')
  then have "distinct (map ws_id ?r)" using assms(4,6,7) by (metis distinct_map inj_on_subset lessThan_iff subsetI)
  moreover have "map panel_keys ?r = map (\<lambda>w. map p_id (saved_panels w)) l"
    using assms(3,5) ok by (intro nth_equalityI) (simp_all add: case_prod_beta' restored_keys del: set_map)
  moreover have "mset (concat (map (\<lambda>w. map p_id (saved_panels w)) l)) \<subseteq># mset (concat (map panel_keys l))"
    using ok by (intro mset_concat_mono saved_ids_sub) blast
  moreover have "ws_ok v \<and> ws_panels v \<noteq> []" if "v \<in> set ?r" for v
    using that ok restored_ok [OF _ assms(3)] by (auto dest!: set_zip_rightD)
  ultimately show ?thesis using assms(1) unfolding spaces_sound_def space_sound_empty by (metis distinct_sub)
qed

lemma set_closed_spaces [simp]:
  "tm_workspaces (set_closed_entries es tm) = tm_workspaces tm" "tm_focus_history (set_closed_entries es tm) = tm_focus_history tm"
  "tm_focus_pos (set_closed_entries es tm) = tm_focus_pos tm" "tm_selected_index (set_closed_entries es tm) = tm_selected_index tm"
  "tm_closed_stack (set_closed_entries es tm) = keep_last CLOSED_STACK_CAP es"
  by (simp_all add: set_closed_entries_def)

lemma keep_last_length: "length (keep_last n xs) \<le> n"
  by (simp add: keep_last_def)

lemma zip_append_slots:
  "length a = length xs \<Longrightarrow> map2 (\<lambda>(n, w) s. f n w s) a xs @ map2 (\<lambda>n s. f n None s) ns ys =
     map2 (\<lambda>(n, w) s. f n w s) (a @ map (\<lambda>n. (n, None)) ns) (xs @ ys)"
  by (simp add: zip_map1 comp_def case_prod_beta')

lemma strict_distinct: "sorted_wrt (<) (ns :: nat list) \<Longrightarrow> distinct ns"
  by (simp add: strict_sorted_iff)

lemma restored_groups_distinct:
  assumes "distinct (map wg_id (tm_groups tm))"
  shows "distinct (concat (map (\<lambda>w. map gsn_id (nsn_groups w)) (live_windows (create_snapshot ui now tm))))"
proof -
  let ?f = "\<lambda>k. map gsn_id (nsn_groups (snapshot_window ui tm k))"
  let ?g = "\<lambda>k. filter (\<lambda>g. window_of tm (wg_window_id g) = k) (tm_groups tm)"
  obtain ks where ks: "live_windows (create_snapshot ui now tm) = map (snapshot_window ui tm) ks" "distinct ks"
    by (simp add: live_windows_def create_snapshot_def filter_map window_keys_def)
  have f: "?f = (\<lambda>k. map wg_id (?g k))"
    by (simp add: snapshot_window_def snapshot_group_def comp_def)
  have m: "mset (concat (map ?g ks)) \<subseteq># mset (tm_groups tm)"
    using mset_by_key [OF ks(2), where g = "\<lambda>g. window_of tm (wg_window_id g)" and P = "\<lambda>_. True" and l = "tm_groups tm"] by simp
  have "concat (map ?f ks) = map wg_id (concat (map ?g ks))" unfolding f by (simp add: map_concat comp_def)
  moreover have "mset (map wg_id (concat (map ?g ks))) \<subseteq># mset (map wg_id (tm_groups tm))"
    using image_mset_subseteq_mono [OF m] by (simp only: mset_map)
  ultimately show ?thesis using distinct_sub [OF _ assms] by (simp add: ks comp_def)
qed

text \<open>What the restore makes of a snapshot taken from a well-formed state, in terms of its workspaces.\<close>

lemma restored_parts:
  fixes cfg :: restore_cfg and ui :: ui_state and sizes :: "(uuid, int \<times> int) hashmap" and now :: f64
  assumes "tm_ok tm" and "\<forall>w \<in> set (tm_spaces tm). focus_saved w"
  defines "st \<equiv> fold (restore_window cfg) (live_windows (create_snapshot ui now tm))
      \<lparr> rs_tm = tm_empty, rs_draws = 0, rs_window_ids = [], rs_groups = [], rs_sizes = sizes \<rparr>"
  defines "closes \<equiv> restore_closed cfg (rs_draws st) (ssn_closed_workspaces (create_snapshot ui now tm))"
  shows "\<exists>slots ns. length slots = length (saved_order tm) \<and> length ns = length (tm_closed_stack tm) \<and>
      distinct (map fst slots @ ns) \<and> (\<forall>n \<in> set (map fst slots @ ns). n < 3 * length (tm_spaces tm)) \<and>
      tm_workspaces (rs_tm st) = map2 (\<lambda>(n, window) w. restored cfg n window ui w) slots (saved_order tm) \<and>
      map ce_workspace closes = map2 (\<lambda>n w. restored cfg n None ui w) ns (map ce_workspace (tm_closed_stack tm))"
    and "startup_tm (rs_tm st)" and "distinct (map wg_id (rs_groups st))"
proof -
  have live: "saved_panels w \<noteq> []" if "w \<in> set (tm_spaces tm)" for w
    using that assms(2) tm_okD(1) [OF assms(1)] focus_saved_panels by (simp add: spaces_sound_def)
  have spaces: "concat (map window_spaces (live_windows (create_snapshot ui now tm))) = map (snapshot_workspace ui) (saved_order tm)"
    using live by (intro window_spaces_saved) (simp add: tm_spaces_def)
  let ?st0 = "\<lparr> rs_tm = tm_empty, rs_draws = 0, rs_window_ids = [], rs_groups = [], rs_sizes = sizes \<rparr>"
  note f = fold_restore_window [where st = ?st0 and cfg = cfg and ws = "live_windows (create_snapshot ui now tm)",
      folded st_def, unfolded spaces]
  from f(1) obtain slots where slots: "length slots = length (saved_order tm)"
    "draws_between 0 (rs_draws st) (map fst slots)"
    "tm_workspaces (rs_tm st) = map2 (\<lambda>(n, w) s. build_workspace_from_snapshot cfg n w s) slots (map (snapshot_workspace ui) (saved_order tm))"
    by (auto simp: tm_empty_def)
  let ?es = "ssn_closed_workspaces (create_snapshot ui now tm)"
  have es: "filter (\<lambda>e. wsn_panels (csn_workspace e) \<noteq> []) ?es = ?es"
    using live by (simp add: create_snapshot_def tm_spaces_def filter_id_conv)
  have cs: "map csn_workspace ?es = map (snapshot_workspace ui) (map ce_workspace (tm_closed_stack tm))"
    by (simp add: create_snapshot_def)
  obtain ns where ns: "length ns = length ?es" "sorted_wrt (<) ns" "\<forall>m \<in> set ns. rs_draws st \<le> m \<and> m < rs_draws st + 2 * length ?es"
    "map ce_workspace closes = map2 (\<lambda>n s. build_workspace_from_snapshot cfg n None s) ns (map csn_workspace ?es)"
    using restore_closed_entries [of ?es "rs_draws st" cfg] unfolding es closes_def by blast
  have "distinct (map fst slots @ ns)"
  proof -
    have "set (map fst slots) \<inter> set ns = {}" using slots(2) ns(3) by (meson disjoint_iff leD)
    then show ?thesis using slots(2) ns(2) by (simp add: strict_distinct)
  qed
  moreover have "\<forall>n \<in> set (map fst slots @ ns). n < 3 * length (tm_spaces tm)"
  proof -
    have "rs_draws st \<le> 3 * length (saved_order tm)"
      using live_windows_length [of "create_snapshot ui now tm"] unfolding st_def fold_window_draws spaces by simp
    then have "rs_draws st + 2 * length ?es \<le> 3 * length (tm_spaces tm)"
      using size_mset_mono [OF saved_order_sub, of tm] by (simp add: tm_spaces_def create_snapshot_def)
    with slots(2) ns(3) show ?thesis by fastforce
  qed
  moreover have "length ns = length (tm_closed_stack tm)" using ns(1) by (simp add: create_snapshot_def)
  ultimately show "\<exists>slots ns. length slots = length (saved_order tm) \<and> length ns = length (tm_closed_stack tm) \<and>
      distinct (map fst slots @ ns) \<and> (\<forall>n \<in> set (map fst slots @ ns). n < 3 * length (tm_spaces tm)) \<and>
      tm_workspaces (rs_tm st) = map2 (\<lambda>(n, window) w. restored cfg n window ui w) slots (saved_order tm) \<and>
      map ce_workspace closes = map2 (\<lambda>n w. restored cfg n None ui w) ns (map ce_workspace (tm_closed_stack tm))"
    using slots(1,3) ns(4) unfolding cs by (intro exI [of _ slots] exI [of _ ns]) (simp add: zip_map2 comp_def case_prod_beta')
  show "startup_tm (rs_tm st)" by (rule f(2)) (simp add: startup_tm_def tm_empty_def)
  show "distinct (map wg_id (rs_groups st))"
    using f(3) restored_groups_distinct [OF tm_okD(5) [OF assms(1)], of ui now] by simp
qed

lemma restore_nothing:
  assumes "ssn_windows (create_snapshot ui now tm) = [] \<or>
     sum_list (map (\<lambda>w. length (nsn_workspaces w)) (ssn_windows (create_snapshot ui now tm))) = 0"
  shows "saved_order tm = []"
  using assms by (auto simp: create_snapshot_def saved_order_def snapshot_window_def filter_empty_conv)

lemma tm_empty_ok: "tm_ok tm_empty"
  by (simp add: tm_sound_def tm_empty_def tm_spaces_def spaces_sound_def selection_ok_def history_ok_def)

text \<open>C31. Restarting: when a window's workspaces are well formed, the build has WebKit, no agent monitor has the focus
  and fresh identifiers do not repeat, then restoring the snapshot of the session yields a well-formed state
  whose workspaces are, window by window and in order, the saved ones without the quick terminal: each with
  its titles, colour, pin, directory, status and log entries, progress, branch, focus, group, remote host and
  panels, and with the layout it had without the monitors' panes - with its divider positions when those are
  persisted (and were in range), and with every divider in the middle otherwise.\<close>

theorem session_roundtrip:
  fixes cfg :: restore_cfg and ui :: ui_state and sizes :: "(uuid, int \<times> int) hashmap" and now :: f64
  assumes "tm_ok tm" and "\<forall>w \<in> set (tm_spaces tm). focus_saved w"
    and "rg_webkit cfg" and "inj_on (rg_fresh cfg) {..<3 * length (tm_spaces tm)}"
  defines "tm' \<equiv> fst (fst (restore_session cfg False (Inr (Some (create_snapshot ui now tm))) tm_empty sizes))"
  shows "tm_ok tm' \<and> list_all2 (survives ui) (tm_workspaces tm') (saved_order tm)"
proof (cases "ssn_windows (create_snapshot ui now tm) = [] \<or>
     sum_list (map (\<lambda>w. length (nsn_workspaces w)) (ssn_windows (create_snapshot ui now tm))) = 0")
  case True
  then have "tm' = tm_empty" by (auto simp: tm'_def restore_session_def)
  with restore_nothing [OF True] show ?thesis by (simp add: tm_empty_ok) (simp add: tm_empty_def)
next
  case False
  define st where "st = fold (restore_window cfg) (live_windows (create_snapshot ui now tm))
      \<lparr> rs_tm = tm_empty, rs_draws = 0, rs_window_ids = [], rs_groups = [], rs_sizes = sizes \<rparr>"
  define closes where "closes = restore_closed cfg (rs_draws st) (ssn_closed_workspaces (create_snapshot ui now tm))"
  note parts = restored_parts [OF assms(1,2), where cfg = cfg and ui = ui and now = now and sizes = sizes,
      folded st_def, folded closes_def]
  have tm': "tm' = set_groups (rs_groups st) (if closes \<noteq> [] then set_closed_entries closes (rs_tm st) else rs_tm st)"
    using False by (auto simp: tm'_def restore_session_def st_def closes_def Let_def)
  from parts(1) obtain slots ns where s: "length slots = length (saved_order tm)" "length ns = length (tm_closed_stack tm)"
    "distinct (map fst slots @ ns)" "\<forall>n \<in> set (map fst slots @ ns). n < 3 * length (tm_spaces tm)"
    "tm_workspaces (rs_tm st) = map2 (\<lambda>(n, window) w. restored cfg n window ui w) slots (saved_order tm)"
    "map ce_workspace closes = map2 (\<lambda>n w. restored cfg n None ui w) ns (map ce_workspace (tm_closed_stack tm))" by blast
  let ?l = "saved_order tm @ map ce_workspace (tm_closed_stack tm)"
  have sub: "mset ?l \<subseteq># mset (tm_spaces tm)" using saved_order_sub by (simp add: tm_spaces_def)
  have ok: "spaces_ok ?l" by (rule spaces_ok_sub [OF tm_okD(1) [OF assms(1)] sub])
  have foc: "\<forall>w \<in> set ?l. focus_saved w" using set_mset_mono [OF sub] assms(2) by auto
  have "spaces_ok (tm_workspaces (rs_tm st) @ map ce_workspace closes)"
    using restored_spaces_ok [OF ok foc assms(3,4), of "slots @ map (\<lambda>n. (n, None)) ns" ui] s
      zip_append_slots [OF s(1), of "\<lambda>n window w. restored cfg n window ui w" ns "map ce_workspace (tm_closed_stack tm)"]
    by (simp add: comp_def)
  moreover have "mset (map ce_workspace (keep_last CLOSED_STACK_CAP closes)) \<subseteq># mset (map ce_workspace closes)"
    unfolding mset_map by (intro image_mset_subseteq_mono keep_last_mset_sub)
  ultimately have sp: "spaces_ok (tm_spaces tm')"
    using parts(2) by (auto simp: tm' tm_spaces_def set_groups_def startup_tm_def intro: spaces_ok_sub)
  have "selection_ok tm'" "history_ok tm'" "length (tm_closed_stack tm') \<le> CLOSED_STACK_CAP" "distinct (map wg_id (tm_groups tm'))"
    using parts(2,3) keep_last_length [of CLOSED_STACK_CAP closes]
    by (auto simp: tm' set_groups_def startup_tm_def selection_ok_def history_ok_def)
  with sp have "tm_ok tm'" by (simp add: tm_sound_def)
  moreover have "list_all2 (survives ui) (tm_workspaces tm') (saved_order tm)"
  proof -
    have "tm_workspaces tm' = map2 (\<lambda>(n, window) w. restored cfg n window ui w) slots (saved_order tm)"
      using s(5) by (simp add: tm' set_groups_def)
    moreover have "survives ui (restored cfg n window ui w) w" if "w \<in> set (saved_order tm)" for n window w
      using ok foc that assms(3) by (intro restored_survives) (auto simp: spaces_sound_def)
    ultimately show ?thesis using s(1) by (simp add: list_all2_conv_all_nth case_prod_beta')
  qed
  ultimately show ?thesis by blast
qed

definition sample_ui :: ui_state where
  "sample_ui = \<lparr> ui_scrollback = [], ui_zoom = [], ui_url = [], ui_history = [], ui_window_sizes = [],
     ui_persist_scrollback = False, ui_split_ratio_persist = True \<rparr>"

lemma session_roundtrip_witness:
  "tm_ok (fst (fst (restore_session
      \<lparr> rg_agents = agent_restore_default, rg_escape = (\<lambda>s. s), rg_webkit = True, rg_home = None,
        rg_fresh = (\<lambda>n. if n = 0 then 10 else if n = 1 then 11 else 12) \<rparr> False
      (Inr (Some (create_snapshot sample_ui (Fin False 0) (tm_new (ws_new None 2 3))))) tm_empty [])))"
proof -
  have "tm_ok (tm_new (ws_new None 2 3))"
    using ws_new_ok [of None 2 3] by (simp add: tm_sound_def tm_new_def tm_spaces_def spaces_sound_def selection_ok_def history_ok_def ws_new_def)
  moreover have "\<forall>w \<in> set (tm_spaces (tm_new (ws_new None 2 3))). focus_saved w"
    by (simp add: tm_spaces_def tm_new_def focus_saved_def ws_new_def new_terminal_def blank_panel_def)
  moreover have "inj_on (\<lambda>n. if n = 0 then 10 else if n = 1 then 11 else 12 :: uuid) {..<3 :: nat}"
    by (auto simp: inj_on_def split: if_splits)
  ultimately show ?thesis
    by (intro session_roundtrip [THEN conjunct1]) (simp_all add: tm_spaces_def tm_new_def)
qed

section \<open>The session file\<close>

text \<open>What can happen to the files: saves, loads, and a new process.\<close>

datatype store_event = ESave save_io session_snapshot | ELoad bool bool | ERestart

fun store_run :: "store_event list \<Rightarrow> session_files \<Rightarrow> session_files" where
  "store_run [] fs = fs"
| "store_run (ESave io s # es) fs = store_run es (fst (save_session io s fs))"
| "store_run (ELoad readable renamed # es) fs = store_run es (fst (load_session readable renamed fs))"
| "store_run (ERestart # es) fs = store_run es (fs\<lparr> sf_had_workspaces := False \<rparr>)"

definition good_primary :: "session_files \<Rightarrow> bool" where
  "good_primary fs \<longleftrightarrow> (case read_snapshot_quiet (sf_primary fs) of Some s \<Rightarrow> 0 < live_workspace_count s | None \<Rightarrow> False)"

text \<open>No process that has had workspaces saves an empty session.\<close>

fun never_emptied :: "store_event list \<Rightarrow> session_files \<Rightarrow> bool" where
  "never_emptied [] fs = True"
| "never_emptied (e # es) fs =
     ((case e of ESave io s \<Rightarrow> \<not> (live_workspace_count s = 0 \<and> sf_had_workspaces fs) | _ \<Rightarrow> True) \<and>
      never_emptied es (store_run [e] fs))"

lemmas save_defs = save_session_def good_primary_def read_snapshot_quiet_def Let_def

lemma save_good:
  assumes "good_primary fs" and "\<not> (live_workspace_count s = 0 \<and> sf_had_workspaces fs)"
  shows "good_primary (fst (save_session io s fs))"
proof (cases "live_workspace_count s = 0")
  case True
  with assms have "sf_primary (fst (save_session io s fs)) = sf_primary fs" by (simp add: save_defs)
  with assms(1) show ?thesis by (simp add: good_primary_def)
next
  case False
  have "sf_primary (fst (save_session io s fs)) \<in> {sf_primary fs, Some (Readable s)}"
    using False by (auto simp: save_defs split: copy_outcome.splits)
  with False assms(1) show ?thesis by (auto simp: good_primary_def read_snapshot_quiet_def)
qed

lemma load_good: "good_primary fs \<Longrightarrow> fst (load_session readable renamed fs) = fs"
  by (auto simp: load_session_def good_primary_def read_snapshot_quiet_def split: option.splits stored.splits)


definition sample_session :: session_snapshot where
  "sample_session = \<lparr> ssn_version = 1, ssn_created_at = Fin False 0,
     ssn_windows = [\<lparr> nsn_frame = None, nsn_selected_workspace_index = None,
       nsn_workspaces = [snapshot_workspace sample_ui (ws_new None 2 3)], nsn_groups = [],
       nsn_sidebar_visible = True, nsn_sidebar_selection = ''tabs'' \<rparr>], ssn_closed_workspaces = [] \<rparr>"

definition empty_session :: session_snapshot where
  "empty_session = \<lparr> ssn_version = 1, ssn_created_at = Fin False 0, ssn_windows = [], ssn_closed_workspaces = [] \<rparr>"

lemma sample_live [simp]: "live_workspace_count sample_session = 1" "live_workspace_count empty_session = 0"
  by (simp_all add: live_workspace_count_def sample_session_def empty_session_def)


text \<open>What the next start loads when every file operation works.\<close>

abbreviation recovered :: "session_files \<Rightarrow> session_snapshot option" where
  "recovered fs \<equiv> (case snd (load_session True True fs) of Inr r \<Rightarrow> r | Inl _ \<Rightarrow> None)"

text \<open>What a start loads after a save: the saved session when it has workspaces; after an empty save of a
  process that never had any, what would have been loaded before, if the file held workspaces; and
  otherwise the backup if it holds workspaces, so a session the user has emptied comes back.\<close>

theorem save_then_load:
  "recovered (fst (save_session \<lparr> io_dir = True, io_backup = Copied, io_write = True \<rparr> s fs)) =
     (if 0 < live_workspace_count s then Some s
      else if \<not> sf_had_workspaces fs \<and> good_primary fs then recovered fs
      else case load_backup fs of Some b \<Rightarrow> Some b | None \<Rightarrow> Some s)"
proof -
  consider "0 < live_workspace_count s" | "live_workspace_count s = 0" "\<not> sf_had_workspaces fs \<and> good_primary fs"
    | "live_workspace_count s = 0" "\<not> (\<not> sf_had_workspaces fs \<and> good_primary fs)" by auto
  then show ?thesis
  proof cases
    case 1
    then show ?thesis by (simp add: save_defs load_session_def)
  next
    case 2
    then have "fst (save_session \<lparr> io_dir = True, io_backup = Copied, io_write = True \<rparr> s fs) = fs"
      by (auto simp: save_defs split: option.splits)
    with 2 show ?thesis by simp
  next
    case 3
    then have "fst (save_session \<lparr> io_dir = True, io_backup = Copied, io_write = True \<rparr> s fs) = fs\<lparr> sf_primary := Some (Readable s) \<rparr>"
      by (auto simp: save_defs split: option.splits)
    with 3 show ?thesis
      by (auto simp: load_session_def load_backup_def opt_filter_def split: option.splits)
  qed
qed

text \<open>The backup is not always the last session with workspaces: a save copies whatever the file holds, so the
  first save after the user has emptied a session replaces the backup by the empty one, and when its own
  write then fails, nothing is left to recover.\<close>

lemma failed_save_loses_backup:
  "let fs = \<lparr> sf_primary = Some (Readable empty_session), sf_backup = Some (Readable sample_session),
              sf_corrupt = None, sf_had_workspaces = True \<rparr>;
       fs' = fst (save_session \<lparr> io_dir = True, io_backup = Copied, io_write = False \<rparr> sample_session fs)
   in recovered fs = Some sample_session \<and> recovered fs' = Some empty_session"
  by (simp add: save_session_def load_session_def load_backup_def read_snapshot_quiet_def opt_filter_def Let_def)

end
