(* ===== verification/Session_Text.thy ===== *)
theory Session_Text imports Session_Store begin

text \<open>
  The text work of the session store: how much scrollback is kept and when cutting it panics, the search
  for agent names, and the assignment of transcripts to the tabs of a directory.
\<close>

section \<open>Scrollback\<close>

lemma up_to_boundary_bounds: "i \<le> up_to_boundary s i \<and> (i \<le> length s \<longrightarrow> up_to_boundary s i \<le> length s)"
proof (induction s i rule: up_to_boundary.induct)
  case (1 s i)
  then show ?case by (subst (1 2) up_to_boundary.simps) auto
qed

lemma fold_scan_escape:
  assumes "\<forall>p \<in> set ps. lo \<le> p \<and> p < hi" and "fst st \<longrightarrow> lo \<le> snd st \<and> snd st < hi"
  shows "fst (fold (scan_escape t) ps st) \<longrightarrow> lo \<le> snd (fold (scan_escape t) ps st) \<and> snd (fold (scan_escape t) ps st) < hi"
  using assms
proof (induction ps arbitrary: st)
  case (Cons p ps)
  have "fst (scan_escape t p st) \<longrightarrow> lo \<le> snd (scan_escape t p st) \<and> snd (scan_escape t p st) < hi"
    using Cons.prems by (cases st) (auto simp: scan_escape_def Let_def)
  with Cons show ?case by simp
qed simp

lemma back_to_line_bounds: "back_to_line t lo k \<le> k \<and> (lo \<le> k \<longrightarrow> lo \<le> back_to_line t lo k)"
  by (induction t lo k rule: back_to_line.induct) (auto split: if_splits)

lemma cut_position_bounds:
  assumes "MAX_SCROLLBACK_CHARS < length t"
  shows "length t - MAX_SCROLLBACK_CHARS \<le> cut_position t + 32" "cut_position t \<le> length t"
proof -
  let ?s = "safe_start t"
  have s: "length t - MAX_SCROLLBACK_CHARS \<le> ?s" "?s \<le> length t"
    using up_to_boundary_bounds [of "length t - MAX_SCROLLBACK_CHARS" t] by (simp_all add: safe_start_def)
  obtain e k where f: "fold (scan_escape t) [?s - 32..<?s] (False, 0) = (e, k)" by force
  have k: "e \<Longrightarrow> ?s - 32 \<le> k \<and> k < ?s"
    using fold_scan_escape [of "[?s - 32..<?s]" "?s - 32" ?s "(False, 0)" t] by (simp add: f)
  have "?s - 32 \<le> cut_position t \<and> cut_position t \<le> ?s"
    using k back_to_line_bounds [of t "?s - 32" k] by (auto simp: cut_position_def f Let_def)
  with s show "length t - MAX_SCROLLBACK_CHARS \<le> cut_position t + 32" "cut_position t \<le> length t" by linarith+
qed

text \<open>Truncating scrollback, when it does not panic, keeps the end of the last 4000 lines and at most 400032 bytes, and keeps
  it whole when it is at most 400000 bytes long.\<close>

theorem scrollback_bounds:
  "case truncate_scrollback text of
     None \<Rightarrow> MAX_SCROLLBACK_CHARS < length (last_lines text)
   | Some r \<Rightarrow> (\<exists>k. r = drop k (last_lines text)) \<and> length r \<le> MAX_SCROLLBACK_CHARS + 32 \<and>
       (MAX_SCROLLBACK_CHARS < length (last_lines text) \<or> r = last_lines text)"
proof (cases "length (last_lines text) \<le> MAX_SCROLLBACK_CHARS")
  case True
  then show ?thesis by (auto simp: truncate_scrollback_def Let_def intro: exI [of _ 0])
next
  case False
  with cut_position_bounds [of "last_lines text"] show ?thesis
    by (auto simp: truncate_scrollback_def Let_def)
qed

text \<open>A text of one line, so that its last lines are the whole text.\<close>

lemma lines_from_length: "length (lines_from acc s) \<le> Suc (length (filter (\<lambda>c. c = CHR 0x0A) s))"
  by (induction acc s rule: lines_from.induct) auto

lemma last_lines_one: "CHR 0x0A \<notin> set s \<Longrightarrow> last_lines s = s"
proof -
  assume "CHR 0x0A \<notin> set s"
  then have "filter (\<lambda>c. c = CHR 0x0A) s = []" by (auto simp: filter_empty_conv)
  with lines_from_length [of "[]" s] show ?thesis
    by (simp add: last_lines_def lines_of_def MAX_SCROLLBACK_LINES_def Let_def)
qed

lemma scan_quiet: "\<forall>p \<in> set ps. t ! p \<noteq> CHR 0x1B \<Longrightarrow> fold (scan_escape t) ps (False, k) = (False, k)"
  by (induction ps) (simp_all add: scan_escape_def Let_def)

text \<open>A cut that falls into a colour sequence whose start is preceded by a character of several bytes, more than
  thirty bytes before.\<close>

definition accented :: "rstr \<Rightarrow> rstr" where
  "accented rest = [CHR 0xC3, CHR 0xA9] @ replicate 28 CHR ''x'' @ [CHR 0x1B, CHR ''['', CHR ''3''] @ rest"

lemma accented_cut:
  assumes "length rest = MAX_SCROLLBACK_CHARS" and "rest ! 0 = CHR ''m''"
  shows "cut_position (accented rest) = 1"
proof -
  let ?t = "accented rest"
  have l: "length ?t = 33 + MAX_SCROLLBACK_CHARS" using assms(1) by (simp add: accented_def)
  have "?t ! 33 = CHR ''m''" using assms by (simp add: accented_def nth_append)
  then have s: "safe_start ?t = 33"
    unfolding safe_start_def l by (subst up_to_boundary.simps) (simp add: is_char_boundary_def is_cont_def l)
  have u: "[33 - 32..<33] = [1..<30] @ [30, 31, 32::nat]"
    using upt_add_eq_append [of 1 30 3] by (simp add: upt_rec)
  have nth: "?t ! 30 = CHR 0x1B" "?t ! 31 = CHR ''[''" "?t ! 32 = CHR ''3''" by (simp_all add: accented_def nth_append)
  have n: "take 30 ?t = [CHR 0xC3, CHR 0xA9] @ replicate 28 CHR ''x''" by (simp add: accented_def)
  have quiet: "?t ! p \<in> {CHR 0xC3, CHR 0xA9, CHR ''x''}" if "p < 30" for p
  proof -
    have "?t ! p = take 30 ?t ! p" using that by simp
    also have "\<dots> \<in> set (take 30 ?t)" using that by (intro nth_mem) (simp add: l)
    also have "set (take 30 ?t) = {CHR 0xC3, CHR 0xA9, CHR ''x''}" unfolding n by auto
    finally show ?thesis .
  qed
  have "\<forall>p \<in> set [1..<30]. ?t ! p \<noteq> CHR 0x1B"
  proof
    fix p :: nat
    assume "p \<in> set [1..<30]"
    then show "?t ! p \<noteq> CHR 0x1B" using quiet [of p] by auto
  qed
  then have f: "fold (scan_escape ?t) [33 - 32..<33] (False, 0) = (True, 30)"
    unfolding u by (simp add: scan_quiet del: upt.simps) (simp add: scan_escape_def nth Let_def)
  have "back_to_line ?t 1 k = 1" if "1 \<le> k" "k \<le> 30" for k
    using that
  proof (induction k)
    case (Suc k)
    have "?t ! Suc k \<noteq> CHR 0x0A"
    proof (cases "Suc k = 30")
      case True
      then show ?thesis using nth(1) by simp
    next
      case False
      then show ?thesis using quiet [of "Suc k"] Suc.prems(2) by auto
    qed
    with Suc show ?case by (cases "k = 0") auto
  qed simp
  then have "back_to_line ?t 1 30 = 1" by simp
  moreover have "get_at 1 ?t \<noteq> Some (CHR 0x0A)" using quiet [of 1] l by (auto simp: get_at_def)
  ultimately show ?thesis unfolding cut_position_def s Let_def f by simp
qed

text \<open>Truncating scrollback panics on some texts that are valid UTF-8: when the cut falls into an escape
  sequence and the 32 bytes before it hold no line feed but begin inside a character.\<close>

theorem scrollback_panics:
  "truncate_scrollback (accented (replicate MAX_SCROLLBACK_CHARS CHR ''m'')) = None"
proof -
  let ?t = "accented (replicate MAX_SCROLLBACK_CHARS CHR ''m'')"
  have "CHR 0x0A \<notin> set ?t" by (auto simp: accented_def)
  moreover have "cut_position ?t = 1" by (rule accented_cut) (simp_all add: MAX_SCROLLBACK_CHARS_def)
  moreover have "\<not> is_char_boundary ?t 1" by (simp add: accented_def is_char_boundary_def is_cont_def)
  ultimately show ?thesis by (simp add: truncate_scrollback_def last_lines_one accented_def)
qed

section \<open>Words\<close>

text \<open>An occurrence of the word with no word byte on either side.\<close>

definition has_word :: "rstr \<Rightarrow> rstr \<Rightarrow> bool" where
  "has_word h w \<longleftrightarrow> (\<exists>a b. h = a @ w @ b \<and> (a = [] \<or> \<not> word_byte (last a)) \<and> (b = [] \<or> \<not> word_byte (hd b)))"

lemma word_match_from_iff:
  assumes "w \<noteq> []"
  shows "word_match_from w (last_opt pre) h \<longleftrightarrow>
    (\<exists>a b. h = a @ w @ b \<and> (pre @ a = [] \<or> \<not> word_byte (last (pre @ a))) \<and> (b = [] \<or> \<not> word_byte (hd b)))"
proof (induction h arbitrary: pre)
  case Nil
  with assms show ?case by simp
next
  case (Cons c cs)
  let ?R = "\<lambda>pre h. \<exists>a b. h = a @ w @ b \<and> (pre @ a = [] \<or> \<not> word_byte (last (pre @ a))) \<and> (b = [] \<or> \<not> word_byte (hd b))"
  let ?C = "starts_with w (c # cs) \<and> (case last_opt pre of None \<Rightarrow> True | Some b \<Rightarrow> \<not> word_byte b) \<and>
      (case drop (length w) (c # cs) of [] \<Rightarrow> True | b # _ \<Rightarrow> \<not> word_byte b)"
  have here: "?C \<longleftrightarrow>
      (\<exists>b. c # cs = w @ b \<and> (pre = [] \<or> \<not> word_byte (last pre)) \<and> (b = [] \<or> \<not> word_byte (hd b)))"
  proof (cases "starts_with w (c # cs)")
    case True
    then obtain r where r: "c # cs = w @ r" by (auto simp: starts_with_iff)
    have "(case last_opt pre of None \<Rightarrow> True | Some b \<Rightarrow> \<not> word_byte b) \<longleftrightarrow> pre = [] \<or> \<not> word_byte (last pre)"
      by (simp add: last_opt_def)
    moreover have "(case r of [] \<Rightarrow> True | b # _ \<Rightarrow> \<not> word_byte b) \<longleftrightarrow> r = [] \<or> \<not> word_byte (hd r)"
      by (cases r) simp_all
    ultimately show ?thesis using True unfolding r by auto
  next
    case False
    then show ?thesis by (auto simp: starts_with_iff)
  qed
  have "?R pre (c # cs) \<longleftrightarrow> (\<exists>b. c # cs = w @ b \<and> (pre = [] \<or> \<not> word_byte (last pre)) \<and> (b = [] \<or> \<not> word_byte (hd b))) \<or>
      ?R (pre @ [c]) cs" (is "?L \<longleftrightarrow> ?A \<or> ?B")
  proof
    assume ?L
    then obtain a b where ab: "c # cs = a @ w @ b" "pre @ a = [] \<or> \<not> word_byte (last (pre @ a))" "b = [] \<or> \<not> word_byte (hd b)" by blast
    show "?A \<or> ?B"
    proof (cases a)
      case Nil
      with ab have ?A by (intro exI [of _ b]) simp
      then show ?thesis ..
    next
      case (Cons d a')
      with ab have ?B by (intro exI [of _ a'] exI [of _ b]) simp
      then show ?thesis ..
    qed
  next
    assume "?A \<or> ?B"
    then show ?L
    proof
      assume ?A then show ?L by (metis append_Nil append_Nil2)
    next
      assume ?B
      then obtain a b where "cs = a @ w @ b" "(pre @ [c]) @ a = [] \<or> \<not> word_byte (last ((pre @ [c]) @ a))"
        "b = [] \<or> \<not> word_byte (hd b)" by blast
      then show ?L by (intro exI [of _ "c # a"] exI [of _ b]) simp
    qed
  qed
  moreover have "word_match_from w (last_opt (pre @ [c])) cs \<longleftrightarrow> ?R (pre @ [c]) cs" by (rule Cons.IH)
  moreover have "last_opt (pre @ [c]) = Some c" by (simp add: last_opt_def)
  moreover have "word_match_from w (last_opt pre) (c # cs) \<longleftrightarrow> ?C \<or> word_match_from w (Some c) cs"
    by (cases ?C) (simp_all only: word_match_from.simps if_True if_False simp_thms)
  ultimately show ?case unfolding here by simp
qed

text \<open>word_match, the byte-by-byte search by which short agent names are recognised in a title or a command, finds a word
  exactly when it occurs with no letter, digit or underscore on either side.\<close>

theorem word_match_correct:
  assumes "w \<noteq> []"
  shows "word_match h w \<longleftrightarrow> has_word h w"
  using word_match_from_iff [OF assms, of "[]" h] by (simp add: word_match_def has_word_def last_opt_def)

lemma word_match_correct_witness: "word_match ''run amp now'' ''amp'' \<and> has_word ''run amp now'' ''amp''"
proof -
  have "word_match ''run amp now'' ''amp''" by code_simp
  with word_match_correct [of "''amp''" "''run amp now''"] show ?thesis by simp
qed

section \<open>Transcripts\<close>

text \<open>The panels of a directory, and the transcripts they got.\<close>

definition tabs_in :: "rstr \<Rightarrow> (uuid, rstr) hashmap \<Rightarrow> uuid list" where
  "tabs_in c es = map fst (filter (\<lambda>(_, d). d = c) es)"

lemma claim_sessions_given:
  assumes "\<forall>c. next_idx c + length (tabs_in c es) \<le> length (ids_for c)" and "distinct (map fst es)"
    and "(p, c) \<in> set es"
  shows "map_of (claim_sessions ids_for next_idx es) p =
    Some (ids_for c ! (next_idx c + length (takeWhile (\<lambda>q. q \<noteq> p) (tabs_in c es))))"
  using assms
proof (induction es arbitrary: next_idx)
  case (Cons e es)
  obtain q d where e: "e = (q, d)" by force
  have len: "next_idx d < length (ids_for d)" using Cons.prems(1) [rule_format, of d] by (simp add: e tabs_in_def)
  then have pick: "pick_transcript (next_idx d) (ids_for d) = Some (ids_for d ! next_idx d)"
    by (simp add: pick_transcript_def get_at_def or_else_def)
  have step: "claim_sessions ids_for next_idx (e # es) =
      (q, ids_for d ! next_idx d) # claim_sessions ids_for (next_idx(d := next_idx d + 1)) es"
    using len by (auto simp: e pick)
  show ?case
  proof (cases "p = q")
    case True
    with Cons.prems(2,3) have "c = d" by (force simp: e)
    with True show ?thesis unfolding step by (simp add: e tabs_in_def)
  next
    case False
    have "map_of (claim_sessions ids_for (next_idx(d := next_idx d + 1)) es) p =
        Some (ids_for c ! ((next_idx(d := next_idx d + 1)) c + length (takeWhile (\<lambda>q. q \<noteq> p) (tabs_in c es))))"
    proof (rule Cons.IH)
      show "\<forall>c. (next_idx(d := next_idx d + 1)) c + length (tabs_in c es) \<le> length (ids_for c)"
        using Cons.prems(1) by (auto simp: e tabs_in_def split: if_splits)
      show "distinct (map fst es)" "(p, c) \<in> set es" using Cons.prems(2,3) False by (auto simp: e)
    qed
    with False show ?thesis unfolding step by (auto simp: e tabs_in_def)
  qed
qed simp



end
