(* ===== verification/Socket_Core.thy ===== *)
theory Socket_Core imports Graph_Ops Session_Data begin

text \<open>
  The control socket's second protocol: what its handlers share (\<open>jmux/src/socket/v2/mod.rs\<close> and
  \<open>helpers.rs\<close>, the parts of \<open>SharedState\<close> in \<open>jmux/src/app.rs\<close> they use). A handler takes the request's
  parameters and the server state and returns the new state and a reply; the request's identifier, which
  is only copied into the response, is left out. Handlers run one after the other. Reading a UUID (crate
  \<open>uuid\<close>), quoting a shell word (crate \<open>shell_escape\<close>), the settings and what the GTK thread answers are
  fields of \<open>sock_env\<close>.
\<close>

section \<open>Requests and replies\<close>

text \<open>A panic of the handler is a reply of its own: the connection is closed.\<close>

datatype reply = ROk json | RErr rstr rstr | RPanic

text \<open>What a browser panel can be told; the channels for the answers are left out.\<close>

datatype browser_action =
    BaNavigate rstr | BaEval rstr | BaGetUrl | BaGetText | BaGoBack | BaGoForward | BaReload
  | BaSetZoom f64 | BaZoomIn | BaZoomOut | BaSetMuted "bool option" | BaSetFocusMode "bool option" | BaReactGrab
  | BaWaitForSelector rstr u64 | BaWaitForNavigation u64 | BaWaitForLoadState u64 | BaWaitForFunction rstr u64
  | BaGetConsoleMessages | BaSetDialogHandler rstr "rstr option" | BaInjectScript rstr | BaInjectStyle rstr
  | BaRemoveInjected

datatype import_source = ImportFirefox | ImportChrome | ImportChromium

text \<open>The messages to the main thread. A terminal's surface is known by its address.\<close>

datatype ui_event =
    UiRefresh | UiMetadataRefresh | UiShowToast rstr
  | UiSendInput uuid rstr
  | UiSearchTotal | UiSearchSelected | UiStartSearch | UiEndSearch
  | UiOpenSettings | UiOpenGoalDialog "rstr option"
  | UiTriggerFlash uuid
  | UiSendKey uuid u32 u32 u32
  | UiReadText uuid bool "nat option"
  | UiRefreshSurface uuid | UiClearHistory uuid
  | UiToggleNotifications | UiToggleMinimalMode | UiRenameTab uuid
  | UiSetTitle nat rstr | UiSetPwd nat rstr
  | UiOpenFolderAsWorkspace | UiCopyMode uuid | UiReopenClosedBrowser
  | UiBrowserOpenInNewTab uuid rstr | UiOpenMarkdownFile | UiBrowserAction uuid browser_action
  | UiOpenUrlInBrowser rstr | UiDesktopNotification nat rstr rstr
  | UiCreateWindow | UiListDisplays | UiWindowToDisplay rstr
  | UiReloadConfig | UiReloadTheme
  | UiOpenSshDialog | UiOpenSshDeepLink rstr "nat option" | UiImportBrowserCookies import_source
  | UiRemoteConnect uuid | UiRemoteDisconnect uuid | UiRemoteStateChanged uuid remote_state
  | UiDeferUnread | UiToggleUnread | UiAgentResume
  | UiOpenTaskManager | UiOpenOverview | UiOpenCommandPalette | UiShowDock
  | UiRunCustomCommand rstr | UiQuickTerminal rstr
  | UiShowSidebar bool | UiToggleSidebar

text \<open>The windows are the registered event channels in the order of the hash map, with whether the window still
  listens.\<close>

record server =
  sv_sh :: shared
  sv_windows :: "(uuid, bool) hashmap"
  sv_hibernated :: "uuid list"
  sv_events :: "ui_event list"

type_synonym outcome = "server \<times> reply"

record sock_env =
  se_env :: env
  se_parse :: "rstr \<Rightarrow> uuid option"
  se_escape :: "rstr \<Rightarrow> rstr"
  se_remote_ssh :: bool
  se_reorder_on_notification :: bool
  se_confirm_goals :: bool
  se_notes_path :: rstr
  se_suspend :: "rstr \<Rightarrow> bool"
  se_resume :: "rstr \<Rightarrow> bool"
  se_read_text :: "uuid \<Rightarrow> bool \<Rightarrow> nat option \<Rightarrow> rstr option option"
  se_displays :: "rstr list option"
  se_to_display :: "rstr \<Rightarrow> (rstr + rstr) option"
  se_version :: rstr
  se_is_dir :: "rstr \<Rightarrow> bool"
  se_read_error :: "rstr \<Rightarrow> rstr"
  se_dir :: "rstr \<Rightarrow> (rstr \<times> rstr \<times> bool option) list option"

definition MAX_DIRECTORY_LEN :: nat where "MAX_DIRECTORY_LEN = 4096"
definition MAX_TITLE_LEN :: nat where "MAX_TITLE_LEN = 1024"
definition MAX_URL_LEN :: nat where "MAX_URL_LEN = 1024"
definition MAX_BRANCH_LEN :: nat where "MAX_BRANCH_LEN = 256"
definition MAX_METHOD_LEN :: nat where "MAX_METHOD_LEN = 200"
definition MAX_NAME_LEN :: nat where "MAX_NAME_LEN = 128"
definition MAX_STATUS_LEN :: nat where "MAX_STATUS_LEN = 64"
definition MAX_SURFACE_INPUT_LEN :: nat where "MAX_SURFACE_INPUT_LEN = 128 * 1024"

section \<open>Reading parameters\<close>

definition as_str :: "json \<Rightarrow> rstr option" where
  "as_str v = (case v of JStr s \<Rightarrow> Some s | _ \<Rightarrow> None)"

definition as_bool :: "json \<Rightarrow> bool option" where
  "as_bool v = (case v of JBool b \<Rightarrow> Some b | _ \<Rightarrow> None)"

definition as_u64 :: "json \<Rightarrow> nat option" where
  "as_u64 v = (case v of JInt i \<Rightarrow> if 0 \<le> i then Some (nat i) else None | _ \<Rightarrow> None)"

definition as_i64 :: "json \<Rightarrow> int option" where
  "as_i64 v = (case v of JInt i \<Rightarrow> if i < 2 ^ 63 then Some i else None | _ \<Rightarrow> None)"

definition as_f64 :: "json \<Rightarrow> f64 option" where
  "as_f64 v = (case v of JNum x \<Rightarrow> Some x | JInt i \<Rightarrow> Some (f64_of_rat (of_int i)) | _ \<Rightarrow> None)"

definition as_array :: "json \<Rightarrow> json list option" where
  "as_array v = (case v of JArr vs \<Rightarrow> Some vs | _ \<Rightarrow> None)"

text \<open>\<open>params.get(k)\<close>, the first of several keys, and the usual conversions.\<close>

definition first_key :: "rstr list \<Rightarrow> json \<Rightarrow> json option" where
  "first_key ks params = head_opt (List.map_filter (\<lambda>k. json_field k params) ks)"

definition param_str :: "rstr \<Rightarrow> json \<Rightarrow> rstr option" where
  "param_str k params = Option.bind (json_field k params) as_str"

definition param_bool :: "rstr \<Rightarrow> json \<Rightarrow> bool option" where
  "param_bool k params = Option.bind (json_field k params) as_bool"

definition first_str :: "rstr list \<Rightarrow> json \<Rightarrow> rstr option" where
  "first_str ks params = Option.bind (first_key ks params) as_str"

definition first_uuid :: "sock_env \<Rightarrow> rstr list \<Rightarrow> json \<Rightarrow> uuid option" where
  "first_uuid e ks params = Option.bind (first_str ks params) (se_parse e)"

definition or_default :: "'a \<Rightarrow> 'a option \<Rightarrow> 'a" where
  "or_default d x = (case x of Some v \<Rightarrow> v | None \<Rightarrow> d)"

text \<open>\<open>None\<close> is the error.\<close>

definition parse_workspace_param :: "sock_env \<Rightarrow> json \<Rightarrow> uuid option option" where
  "parse_workspace_param e params =
     (case first_key [''workspace'', ''workspace_id''] params of
        None \<Rightarrow> Some None
      | Some JNull \<Rightarrow> Some None
      | Some v \<Rightarrow> map_option Some (Option.bind (as_str v) (se_parse e)))"

definition parse_usize_param :: "json \<Rightarrow> rstr \<Rightarrow> reply + nat option" where
  "parse_usize_param params k =
     (case json_field k params of
        Some v \<Rightarrow>
          (case as_u64 v of
             Some n \<Rightarrow> Inr (Some n)
           | None \<Rightarrow> Inl (RErr ''invalid_params'' (quoted k @ '' must be a non-negative integer'')))
      | None \<Rightarrow> Inr None)"

definition optional_uuid :: "sock_env \<Rightarrow> json \<Rightarrow> rstr \<Rightarrow> reply + uuid option" where
  "optional_uuid e params k =
     (case json_field k params of
        None \<Rightarrow> Inr None
      | Some JNull \<Rightarrow> Inr None
      | Some v \<Rightarrow>
          (case as_str v of
             None \<Rightarrow> Inl (RErr ''invalid_params'' (quoted k @ '' must be a string UUID''))
           | Some s \<Rightarrow>
               (case se_parse e s of
                  Some u \<Rightarrow> Inr (Some u)
                | None \<Rightarrow> Inl (RErr ''invalid_params'' (''Invalid UUID for '' @ quoted k)))))"

section \<open>The state\<close>

definition tabs :: "server \<Rightarrow> tab_manager" where
  "tabs sv = sh_tabs (sv_sh sv)"

definition set_tabs :: "tab_manager \<Rightarrow> server \<Rightarrow> server" where
  "set_tabs tm sv = sv\<lparr> sv_sh := (sv_sh sv)\<lparr> sh_tabs := tm \<rparr> \<rparr>"

definition set_notes :: "notification_store \<Rightarrow> server \<Rightarrow> server" where
  "set_notes ns sv = sv\<lparr> sv_sh := (sv_sh sv)\<lparr> sh_notes := ns \<rparr> \<rparr>"

text \<open>\<open>n\<close> identifiers are drawn; the first is the old counter.\<close>

definition draw :: "nat \<Rightarrow> server \<Rightarrow> server" where
  "draw n sv = sv\<lparr> sv_sh := (sv_sh sv)\<lparr> sh_next := sh_next (sv_sh sv) + n \<rparr> \<rparr>"

abbreviation next_id :: "server \<Rightarrow> uuid" where
  "next_id sv \<equiv> sh_next (sv_sh sv)"

definition window_ids :: "server \<Rightarrow> uuid list" where
  "window_ids sv = map fst (sv_windows sv)"

definition send_ui_event :: "ui_event \<Rightarrow> server \<Rightarrow> server \<times> bool" where
  "send_ui_event ev sv =
     (case sv_windows sv of
        (_, True) # _ \<Rightarrow> (sv\<lparr> sv_events := sv_events sv @ [ev] \<rparr>, True)
      | _ \<Rightarrow> (sv, False))"

definition send_ui_event_to :: "uuid \<Rightarrow> ui_event \<Rightarrow> server \<Rightarrow> server \<times> bool" where
  "send_ui_event_to w ev sv =
     (if map_of (sv_windows sv) w = Some True then (sv\<lparr> sv_events := sv_events sv @ [ev] \<rparr>, True) else (sv, False))"

definition notify_ui_refresh :: "server \<Rightarrow> server" where
  "notify_ui_refresh sv = fst (send_ui_event UiRefresh sv)"

definition notify_metadata_refresh :: "server \<Rightarrow> server" where
  "notify_metadata_refresh sv = fst (send_ui_event UiMetadataRefresh sv)"

text \<open>\<open>workspace(id)\<close> or \<open>selected()\<close>, and the same for a mutation; \<open>find_workspace_with_panel_mut\<close>.\<close>

definition target :: "uuid option \<Rightarrow> tab_manager \<Rightarrow> workspace option" where
  "target w tm = (case w of Some i \<Rightarrow> tm_workspace i tm | None \<Rightarrow> tm_selected tm)"

definition edit_selected :: "(workspace \<Rightarrow> workspace) \<Rightarrow> tab_manager \<Rightarrow> tab_manager" where
  "edit_selected f tm =
     (case tm_selected_index tm of
        Some i \<Rightarrow> if i < length (tm_workspaces tm)
                  then tm\<lparr> tm_workspaces := (tm_workspaces tm)[i := f (tm_workspaces tm ! i)] \<rparr> else tm
      | None \<Rightarrow> tm)"

definition edit_target :: "uuid option \<Rightarrow> (workspace \<Rightarrow> workspace) \<Rightarrow> tab_manager \<Rightarrow> tab_manager" where
  "edit_target w f tm = (case w of Some i \<Rightarrow> edit_workspace i f tm | None \<Rightarrow> edit_selected f tm)"

definition edit_holder :: "uuid \<Rightarrow> (workspace \<Rightarrow> workspace) \<Rightarrow> tab_manager \<Rightarrow> tab_manager" where
  "edit_holder p f tm =
     tm\<lparr> tm_workspaces := update_first (\<lambda>w. has_key p (ws_panels w)) f (tm_workspaces tm) \<rparr>"

definition mark_workspace_read_everywhere :: "uuid \<Rightarrow> server \<Rightarrow> server" where
  "mark_workspace_read_everywhere w sv =
     (let sv = set_notes (mark_workspace_read w (sh_notes (sv_sh sv))) sv
      in set_tabs (edit_workspace w mark_notifications_read (tabs sv)) sv)"

definition resolve_panel_id :: "sock_env \<Rightarrow> json \<Rightarrow> server \<Rightarrow> reply + uuid" where
  "resolve_panel_id e params sv =
     (case first_str [''panel'', ''surface''] params of
        Some s \<Rightarrow>
          (case se_parse e s of
             Some p \<Rightarrow> Inr p
           | None \<Rightarrow> Inl (RErr ''invalid_params'' ''Invalid panel UUID''))
      | None \<Rightarrow>
          (case tm_selected (tabs sv) of
             None \<Rightarrow> Inl (RErr ''not_found'' ''No workspace selected'')
           | Some ws \<Rightarrow>
               (case ws_focused_panel_id ws of
                  Some p \<Rightarrow> Inr p
                | None \<Rightarrow> Inl (RErr ''not_found'' ''No focused panel''))))"

section \<open>Shapes the handlers share\<close>

definition ok_true :: reply where
  "ok_true = ROk (JObj [(''ok'', JBool True)])"

definition on_workspace_param :: "sock_env \<Rightarrow> json \<Rightarrow> server \<Rightarrow> (uuid option \<Rightarrow> outcome) \<Rightarrow> outcome" where
  "on_workspace_param e params sv k =
     (case parse_workspace_param e params of
        None \<Rightarrow> (sv, RErr ''invalid_params'' ''Invalid workspace UUID'')
      | Some w \<Rightarrow> k w)"

text \<open>The mutation of the named or the selected workspace followed by a metadata refresh.\<close>

definition edit_reply :: "uuid option \<Rightarrow> (workspace \<Rightarrow> workspace) \<Rightarrow> reply \<Rightarrow> rstr \<Rightarrow> server \<Rightarrow> outcome" where
  "edit_reply w f done missing sv =
     (case target w (tabs sv) of
        None \<Rightarrow> (sv, RErr ''not_found'' missing)
      | Some _ \<Rightarrow> (notify_metadata_refresh (set_tabs (edit_target w f (tabs sv)) sv), done))"

definition on_panel_id :: "sock_env \<Rightarrow> json \<Rightarrow> server \<Rightarrow> (uuid \<Rightarrow> outcome) \<Rightarrow> outcome" where
  "on_panel_id e params sv k =
     (case resolve_panel_id e params sv of Inl r \<Rightarrow> (sv, r) | Inr p \<Rightarrow> k p)"

definition juuid :: "uuid \<Rightarrow> json" where
  "juuid u = JStr (uuid_str u)"

definition jopt :: "('a \<Rightarrow> json) \<Rightarrow> 'a option \<Rightarrow> json" where
  "jopt f x = (case x of Some v \<Rightarrow> f v | None \<Rightarrow> JNull)"

end
