(* ===== verification/Socket_Meta.thy ===== *)
theory Socket_Meta imports Socket_Core begin

text \<open>
  The handlers by which agents and shells report to a workspace and its metadata is read and edited
  (\<open>jmux/src/socket/v2/workspace.rs\<close>): status, progress, log, metadata entries and blocks, git branch,
  directory, ports, terminal, agent session, pull request, title and description. Changing the case of
  letters is that of ASCII; the thread that names an untitled workspace after its agent has finished is
  left out.
\<close>

definition need :: "rstr list \<Rightarrow> reply" where
  "need ks = RErr ''invalid_params'' (''Provide '' @ join '' and '' (map quoted ks))"

section \<open>Status\<close>

definition handle_workspace_set_status :: "sock_env \<Rightarrow> json \<Rightarrow> server \<Rightarrow> outcome" where
  "handle_workspace_set_status e params sv =
     on_workspace_param e params sv (\<lambda>w.
       case (param_str ''key'' params, param_str ''value'' params) of
         (Some key, Some value) \<Rightarrow>
           edit_reply w (set_status_with_url (en_time (se_env e)) key value (param_str ''icon'' params)
             (param_str ''color'' params) (param_str ''url'' params)) ok_true ''Workspace not found'' sv
       | _ \<Rightarrow> (sv, need [''key'', ''value'']))"

definition handle_workspace_clear_status :: "sock_env \<Rightarrow> json \<Rightarrow> server \<Rightarrow> outcome" where
  "handle_workspace_clear_status e params sv =
     on_workspace_param e params sv (\<lambda>w.
       edit_reply w (\<lambda>ws. ws\<lparr> ws_status_entries := [] \<rparr>) ok_true ''Workspace not found'' sv)"

definition status_json :: "status_entry \<Rightarrow> json" where
  "status_json s =
     JObj [(''key'', JStr (se_key s)), (''value'', JStr (se_value s)), (''icon'', json_opt_str (se_icon s)),
           (''color'', json_opt_str (se_color s)), (''url'', json_opt_str (se_url s)),
           (''timestamp'', JNum (se_timestamp s))]"

text \<open>Listing: a field of the target as an array under a name.\<close>

definition list_reply :: "sock_env \<Rightarrow> json \<Rightarrow> server \<Rightarrow> rstr \<Rightarrow> (workspace \<Rightarrow> json list) \<Rightarrow> outcome" where
  "list_reply e params sv name f =
     on_workspace_param e params sv (\<lambda>w.
       case target w (tabs sv) of
         Some ws \<Rightarrow> (sv, ROk (JObj [(name, JArr (f ws))]))
       | None \<Rightarrow> (sv, RErr ''not_found'' ''Workspace not found''))"

definition handle_workspace_list_status :: "sock_env \<Rightarrow> json \<Rightarrow> server \<Rightarrow> outcome" where
  "handle_workspace_list_status e params sv =
     list_reply e params sv ''entries'' (\<lambda>ws. map status_json (ws_status_entries ws))"

section \<open>Git branch and progress\<close>

definition handle_workspace_report_git :: "sock_env \<Rightarrow> json \<Rightarrow> server \<Rightarrow> outcome" where
  "handle_workspace_report_git e params sv =
     on_workspace_param e params sv (\<lambda>w.
       case param_str ''branch'' params of
         None \<Rightarrow> (sv, need [''branch''])
       | Some branch \<Rightarrow>
           (let dirty = or_default False (param_bool ''is_dirty'' params);
                gb = (if branch = [] then None
                      else Some \<lparr> gb_branch = truncate_str branch MAX_BRANCH_LEN, gb_is_dirty = dirty \<rparr>)
            in edit_reply w (\<lambda>ws.
                 (let ws = ws\<lparr> ws_git_branch := gb \<rparr> in
                  case first_uuid e [''surface''] params of
                    Some p \<Rightarrow> ws\<lparr> ws_panels := modify_panel p (\<lambda>q. q\<lparr> p_git_branch := gb \<rparr>) (ws_panels ws) \<rparr>
                  | None \<Rightarrow> ws)) ok_true ''Workspace not found'' sv))"

definition handle_workspace_set_progress :: "sock_env \<Rightarrow> json \<Rightarrow> server \<Rightarrow> outcome" where
  "handle_workspace_set_progress e params sv =
     on_workspace_param e params sv (\<lambda>w.
       edit_reply w (\<lambda>ws. ws\<lparr> ws_progress :=
         (case Option.bind (json_field ''value'' params) as_f64 of
            Some v \<Rightarrow> Some \<lparr> pg_value = v, pg_label = param_str ''label'' params \<rparr>
          | None \<Rightarrow> None) \<rparr>) ok_true ''Workspace not found'' sv)"

definition handle_workspace_clear_progress :: "sock_env \<Rightarrow> json \<Rightarrow> server \<Rightarrow> outcome" where
  "handle_workspace_clear_progress e params sv =
     on_workspace_param e params sv (\<lambda>w.
       edit_reply w (\<lambda>ws. ws\<lparr> ws_progress := None \<rparr>) ok_true ''Workspace not found'' sv)"

section \<open>Log\<close>

definition handle_workspace_append_log :: "sock_env \<Rightarrow> json \<Rightarrow> server \<Rightarrow> outcome" where
  "handle_workspace_append_log e params sv =
     on_workspace_param e params sv (\<lambda>w.
       case param_str ''message'' params of
         None \<Rightarrow> (sv, need [''message''])
       | Some m \<Rightarrow>
           edit_reply w (append_log (en_time (se_env e)) m (or_default ''info'' (param_str ''level'' params))
             (param_str ''source'' params)) ok_true ''Workspace not found'' sv)"

definition handle_workspace_clear_log :: "sock_env \<Rightarrow> json \<Rightarrow> server \<Rightarrow> outcome" where
  "handle_workspace_clear_log e params sv =
     on_workspace_param e params sv (\<lambda>w.
       edit_reply w (\<lambda>ws. ws\<lparr> ws_log_entries := [] \<rparr>) ok_true ''Workspace not found'' sv)"

definition log_json :: "log_entry \<Rightarrow> json" where
  "log_json l =
     JObj [(''message'', JStr (le_message l)), (''level'', JStr (le_level l)),
           (''source'', json_opt_str (le_source l)), (''timestamp'', JNum (le_timestamp l))]"

definition handle_workspace_list_log :: "sock_env \<Rightarrow> json \<Rightarrow> server \<Rightarrow> outcome" where
  "handle_workspace_list_log e params sv =
     list_reply e params sv ''entries'' (\<lambda>ws. map log_json (ws_log_entries ws))"

section \<open>Metadata\<close>

definition param_priority :: "json \<Rightarrow> int" where
  "param_priority params =
     or_default 0 (opt_filter (\<lambda>n. - (2 ^ 31) \<le> n \<and> n < 2 ^ 31) (Option.bind (json_field ''priority'' params) as_i64))"

definition handle_workspace_report_meta :: "sock_env \<Rightarrow> json \<Rightarrow> server \<Rightarrow> outcome" where
  "handle_workspace_report_meta e params sv =
     on_workspace_param e params sv (\<lambda>w.
       case (param_str ''key'' params, param_str ''value'' params) of
         (Some key, Some value) \<Rightarrow>
           edit_reply w (set_metadata (en_time (se_env e)) key value (param_str ''icon'' params)
             (param_str ''color'' params) (param_str ''url'' params) (param_priority params)
             (if param_str ''format'' params = Some ''markdown'' then FMarkdown else FPlain))
             ok_true ''Workspace not found'' sv
       | _ \<Rightarrow> (sv, need [''key'', ''value'']))"

definition handle_workspace_clear_meta :: "sock_env \<Rightarrow> json \<Rightarrow> server \<Rightarrow> outcome" where
  "handle_workspace_clear_meta e params sv =
     on_workspace_param e params sv (\<lambda>w.
       edit_reply w (case param_str ''key'' params of
           Some k \<Rightarrow> clear_metadata k
         | None \<Rightarrow> (\<lambda>ws. ws\<lparr> ws_metadata_entries := [] \<rparr>)) ok_true ''Workspace not found'' sv)"

text \<open>\<open>sort_by\<close>: stable; the clock never reads NaN, so the comparison is a weak order.\<close>

fun insert_by :: "('a \<Rightarrow> 'a \<Rightarrow> bool) \<Rightarrow> 'a \<Rightarrow> 'a list \<Rightarrow> 'a list" where
  "insert_by lt x [] = [x]"
| "insert_by lt x (y # ys) = (if lt y x then y # insert_by lt x ys else x # y # ys)"

definition sort_by :: "('a \<Rightarrow> 'a \<Rightarrow> bool) \<Rightarrow> 'a list \<Rightarrow> 'a list" where
  "sort_by lt xs = foldr (insert_by lt) xs []"

definition meta_before :: "metadata_entry \<Rightarrow> metadata_entry \<Rightarrow> bool" where
  "meta_before a b \<longleftrightarrow>
     me_priority b < me_priority a \<or> me_priority a = me_priority b \<and> f64_lt (me_timestamp a) (me_timestamp b)"

definition meta_json :: "metadata_entry \<Rightarrow> json" where
  "meta_json m =
     JObj [(''key'', JStr (me_key m)), (''value'', JStr (me_value m)), (''icon'', json_opt_str (me_icon m)),
           (''color'', json_opt_str (me_color m)), (''url'', json_opt_str (me_url m)),
           (''priority'', JInt (me_priority m)),
           (''format'', JStr (case me_format m of FPlain \<Rightarrow> ''plain'' | FMarkdown \<Rightarrow> ''markdown'')),
           (''timestamp'', JNum (me_timestamp m))]"

definition handle_workspace_list_meta :: "sock_env \<Rightarrow> json \<Rightarrow> server \<Rightarrow> outcome" where
  "handle_workspace_list_meta e params sv =
     list_reply e params sv ''entries'' (\<lambda>ws. map meta_json (sort_by meta_before (ws_metadata_entries ws)))"

definition handle_workspace_report_meta_block :: "sock_env \<Rightarrow> json \<Rightarrow> server \<Rightarrow> outcome" where
  "handle_workspace_report_meta_block e params sv =
     on_workspace_param e params sv (\<lambda>w.
       case (param_str ''key'' params, param_str ''content'' params) of
         (Some key, Some c) \<Rightarrow>
           edit_reply w (set_metadata_block (en_time (se_env e)) key c (param_priority params))
             ok_true ''Workspace not found'' sv
       | _ \<Rightarrow> (sv, need [''key'', ''content'']))"

definition handle_workspace_clear_meta_block :: "sock_env \<Rightarrow> json \<Rightarrow> server \<Rightarrow> outcome" where
  "handle_workspace_clear_meta_block e params sv =
     on_workspace_param e params sv (\<lambda>w.
       edit_reply w (case param_str ''key'' params of
           Some k \<Rightarrow> clear_metadata_block k
         | None \<Rightarrow> (\<lambda>ws. ws\<lparr> ws_metadata_blocks := [] \<rparr>)) ok_true ''Workspace not found'' sv)"

definition block_before :: "metadata_block \<Rightarrow> metadata_block \<Rightarrow> bool" where
  "block_before a b \<longleftrightarrow>
     mb_priority b < mb_priority a \<or> mb_priority a = mb_priority b \<and> f64_lt (mb_timestamp a) (mb_timestamp b)"

definition block_json :: "metadata_block \<Rightarrow> json" where
  "block_json b =
     JObj [(''key'', JStr (mb_key b)), (''content'', JStr (mb_content b)), (''priority'', JInt (mb_priority b)),
           (''timestamp'', JNum (mb_timestamp b))]"

definition handle_workspace_list_meta_blocks :: "sock_env \<Rightarrow> json \<Rightarrow> server \<Rightarrow> outcome" where
  "handle_workspace_list_meta_blocks e params sv =
     list_reply e params sv ''blocks'' (\<lambda>ws. map block_json (sort_by block_before (ws_metadata_blocks ws)))"

section \<open>Title, description, window, pull request\<close>

definition handle_workspace_rename :: "sock_env \<Rightarrow> json \<Rightarrow> server \<Rightarrow> outcome" where
  "handle_workspace_rename e params sv =
     on_workspace_param e params sv (\<lambda>w.
       case param_str ''title'' params of
         None \<Rightarrow> (sv, need [''title''])
       | Some t \<Rightarrow> edit_reply w (\<lambda>ws. ws\<lparr> ws_custom_title := Some (truncate_str t MAX_TITLE_LEN) \<rparr>)
                     ok_true ''Workspace not found'' sv)"

definition handle_workspace_set_description :: "sock_env \<Rightarrow> json \<Rightarrow> server \<Rightarrow> outcome" where
  "handle_workspace_set_description e params sv =
     on_workspace_param e params sv (\<lambda>w.
       (let d = opt_filter (\<lambda>s. trim s \<noteq> []) (map_option (\<lambda>s. truncate_str s MAX_DIRECTORY_LEN) (param_str ''description'' params))
        in edit_reply w (\<lambda>ws. ws\<lparr> ws_description := d \<rparr>) ok_true ''Workspace not found'' sv))"

definition handle_workspace_report_pr :: "sock_env \<Rightarrow> json \<Rightarrow> server \<Rightarrow> outcome" where
  "handle_workspace_report_pr e params sv =
     on_workspace_param e params sv (\<lambda>w.
       edit_reply w (\<lambda>ws. ws\<lparr>
           ws_pr_status := map_option (\<lambda>s. truncate_str s MAX_STATUS_LEN) (param_str ''status'' params),
           ws_pr_url := map_option (\<lambda>s. truncate_str s MAX_URL_LEN) (param_str ''url'' params) \<rparr>)
         (ROk (JObj [(''updated'', JBool True)])) ''No workspace'' sv)"

definition to_ascii_upper :: "char \<Rightarrow> char" where
  "to_ascii_upper c = (if is_ascii_lower c then char_of ((of_char c :: nat) - 32) else c)"

definition parse_check :: "json \<Rightarrow> pr_check option" where
  "parse_check item =
     (case param_str ''name'' item of
        None \<Rightarrow> None
      | Some n \<Rightarrow> Some \<lparr> pc_name = truncate_str n MAX_NAME_LEN,
                         pc_conclusion = map to_ascii_upper (or_default ''PENDING'' (param_str ''conclusion'' item)) \<rparr>)"

definition handle_workspace_report_pr_checks :: "sock_env \<Rightarrow> json \<Rightarrow> server \<Rightarrow> outcome" where
  "handle_workspace_report_pr_checks e params sv =
     on_workspace_param e params sv (\<lambda>w.
       case Option.bind (json_field ''checks'' params) as_array of
         None \<Rightarrow> (sv, RErr ''invalid_params'' (''Provide '' @ quoted ''checks'' @ '' array''))
       | Some items \<Rightarrow>
           edit_reply w (\<lambda>ws. ws\<lparr> ws_pr_checks := take 20 (List.map_filter parse_check items) \<rparr>)
             (ROk (JObj [(''updated'', JBool True)])) ''No workspace'' sv)"

definition handle_workspace_set_imessage_mode :: "sock_env \<Rightarrow> json \<Rightarrow> server \<Rightarrow> outcome" where
  "handle_workspace_set_imessage_mode e params sv =
     on_workspace_param e params sv (\<lambda>w.
       case param_bool ''enabled'' params of
         None \<Rightarrow> (sv, RErr ''invalid_params'' (''Provide '' @ quoted ''enabled'' @ '' (bool)''))
       | Some b \<Rightarrow> edit_reply w (\<lambda>ws. ws\<lparr> ws_imessage_mode := b \<rparr>)
                     (ROk (JObj [(''ok'', JBool True), (''imessage_mode'', JBool b)])) ''Workspace not found'' sv)"

definition handle_workspace_move_to_window :: "sock_env \<Rightarrow> json \<Rightarrow> server \<Rightarrow> outcome" where
  "handle_workspace_move_to_window e params sv =
     on_workspace_param e params sv (\<lambda>w.
       case first_uuid e [''window''] params of
         None \<Rightarrow> (sv, RErr ''invalid_params'' (''Provide '' @ quoted ''window'' @ '' (UUID)''))
       | Some win \<Rightarrow>
           (case target w (tabs sv) of
              None \<Rightarrow> (sv, RErr ''not_found'' ''Workspace not found'')
            | Some _ \<Rightarrow> (notify_ui_refresh (set_tabs (edit_target w (\<lambda>ws. ws\<lparr> ws_window_id := Some win \<rparr>) (tabs sv)) sv),
                         ok_true)))"

section \<open>Reports of one panel\<close>

text \<open>A panel that is named but cannot be read counts as not named.\<close>

definition named_panel :: "sock_env \<Rightarrow> json \<Rightarrow> uuid option" where
  "named_panel e params = first_uuid e [''panel'', ''surface''] params"

definition handle_workspace_report_pwd :: "sock_env \<Rightarrow> json \<Rightarrow> server \<Rightarrow> outcome" where
  "handle_workspace_report_pwd e params sv =
     (case param_str ''directory'' params of
        None \<Rightarrow> (sv, need [''directory''])
      | Some d0 \<Rightarrow>
          (let d = truncate_str d0 MAX_DIRECTORY_LEN in
           on_workspace_param e params sv (\<lambda>w.
             case named_panel e params of
               Some p \<Rightarrow>
                 (case find_workspace_with_panel p (tabs sv) of
                    None \<Rightarrow> (sv, RErr ''not_found'' ''No workspace'')
                  | Some _ \<Rightarrow>
                      (notify_metadata_refresh (set_tabs (edit_holder p (\<lambda>ws.
                         (let ws' = ws\<lparr> ws_panels := modify_panel p (\<lambda>q. q\<lparr> p_directory := Some d \<rparr>) (ws_panels ws) \<rparr>
                          in if ws_focused_panel_id ws' = Some p then ws'\<lparr> ws_current_directory := d \<rparr> else ws'))
                         (tabs sv)) sv), ok_true))
             | None \<Rightarrow> edit_reply w (\<lambda>ws. ws\<lparr> ws_current_directory := d \<rparr>) ok_true ''No workspace'' sv)))"

text \<open>The panel that is named, in the workspace that holds it, or the focused one of the selected
  workspace.\<close>

definition edit_panel_or_focused :: "uuid option \<Rightarrow> (panel \<Rightarrow> panel) \<Rightarrow> server \<Rightarrow> server option" where
  "edit_panel_or_focused p f sv =
     (case p of
        Some i \<Rightarrow>
          (case find_workspace_with_panel i (tabs sv) of
             None \<Rightarrow> None
           | Some _ \<Rightarrow> Some (set_tabs (edit_holder i (\<lambda>ws. ws\<lparr> ws_panels := modify_panel i f (ws_panels ws) \<rparr>) (tabs sv)) sv))
      | None \<Rightarrow>
          (case tm_selected (tabs sv) of
             None \<Rightarrow> None
           | Some _ \<Rightarrow> Some (set_tabs (edit_selected (\<lambda>ws.
               case ws_focused_panel_id ws of
                 Some i \<Rightarrow> ws\<lparr> ws_panels := modify_panel i f (ws_panels ws) \<rparr>
               | None \<Rightarrow> ws) (tabs sv)) sv)))"

definition u16_of :: "json \<Rightarrow> 16 word option" where
  "u16_of v = (case as_u64 v of Some n \<Rightarrow> if n < 65536 then Some (word_of_nat n) else None | None \<Rightarrow> None)"

definition handle_workspace_report_ports :: "sock_env \<Rightarrow> json \<Rightarrow> server \<Rightarrow> outcome" where
  "handle_workspace_report_ports e params sv =
     (case Option.bind (json_field ''ports'' params) as_array of
        None \<Rightarrow> (sv, RErr ''invalid_params'' (''Provide '' @ quoted ''ports'' @ '' array''))
      | Some vs \<Rightarrow>
          (case edit_panel_or_focused (named_panel e params)
                  (\<lambda>q. q\<lparr> p_listening_ports := take 256 (List.map_filter u16_of vs) \<rparr>) sv of
             None \<Rightarrow> (sv, RErr ''not_found'' ''No workspace'')
           | Some sv' \<Rightarrow> (notify_metadata_refresh sv', ok_true)))"

definition handle_workspace_clear_ports :: "sock_env \<Rightarrow> json \<Rightarrow> server \<Rightarrow> outcome" where
  "handle_workspace_clear_ports e params sv =
     (case edit_panel_or_focused (named_panel e params) (\<lambda>q. q\<lparr> p_listening_ports := [] \<rparr>) sv of
        None \<Rightarrow> (sv, RErr ''not_found'' ''No workspace'')
      | Some sv' \<Rightarrow> (notify_metadata_refresh sv', ok_true))"

definition handle_workspace_report_tty :: "sock_env \<Rightarrow> json \<Rightarrow> server \<Rightarrow> outcome" where
  "handle_workspace_report_tty e params sv =
     (case param_str ''tty'' params of
        None \<Rightarrow> (sv, need [''tty''])
      | Some t \<Rightarrow>
          (case edit_panel_or_focused (named_panel e params) (\<lambda>q. q\<lparr> p_tty_name := Some (truncate_str t 256) \<rparr>) sv of
             None \<Rightarrow> (sv, RErr ''not_found'' ''No workspace'')
           | Some sv' \<Rightarrow> (sv', ok_true)))"

definition handle_workspace_report_agent_session :: "sock_env \<Rightarrow> json \<Rightarrow> server \<Rightarrow> outcome" where
  "handle_workspace_report_agent_session e params sv =
     (case Option.bind (param_str ''session_id'' params) (\<lambda>s. se_parse e (trim s)) of
        None \<Rightarrow> (sv, RErr ''invalid_params'' (''Provide a UUID '' @ quoted ''session_id''))
      | Some u \<Rightarrow>
          if \<not> contains_str ''claude'' (ascii_lowercase (or_default [] (param_str ''agent'' params)))
          then (sv, ROk (JObj [(''ok'', JBool True), (''ignored'', JBool True)]))
          else case edit_panel_or_focused (named_panel e params) (\<lambda>q. q\<lparr> p_agent_session_id := Some (uuid_str u) \<rparr>) sv of
                 None \<Rightarrow> (sv, RErr ''not_found'' ''No workspace'')
               | Some sv' \<Rightarrow> (sv', ok_true))"

definition handle_workspace_ports_kick :: "server \<Rightarrow> outcome" where
  "handle_workspace_ports_kick sv = (sv, ok_true)"

end
