(* ===== verification/Socket_Workspace.thy ===== *)
theory Socket_Workspace imports Socket_Meta begin

text \<open>
  The handlers that create, select, order and close workspaces (\<open>jmux/src/socket/v2/workspace.rs\<close>). The agent
  monitor and the naming of a workspace by a language model are left out.
\<close>

definition jset :: "rstr \<Rightarrow> json \<Rightarrow> json \<Rightarrow> json option" where
  "jset k x v =
     (case v of
        JObj fs \<Rightarrow> Some (JObj (AList.update k x fs))
      | JNull \<Rightarrow> Some (JObj [(k, x)])
      | _ \<Rightarrow> None)"

definition the_clock :: "sock_env \<Rightarrow> nat" where
  "the_clock e = unat (en_epoch (se_env e))"

section \<open>Listing\<close>

definition workspace_json :: "tab_manager \<Rightarrow> nat \<Rightarrow> workspace \<Rightarrow> json" where
  "workspace_json tm i ws =
     (let selected = tm_selected_index tm = Some i in
      JObj [(''index'', JInt (int i)), (''id'', juuid (ws_id ws)), (''title'', JStr (ws_display_title ws)),
            (''description'', json_opt_str (ws_description ws)), (''directory'', JStr (ws_current_directory ws)),
            (''panel_count'', JInt (int (length (ws_panels ws)))), (''unread_count'', JInt (uint (ws_unread_count ws))),
            (''latest_notification'', json_opt_str (ws_latest_notification ws)),
            (''attention_panel_id'', jopt juuid (ws_attention_panel_id ws)),
            (''selected'', JBool selected), (''is_selected'', JBool selected)])"

definition handle_workspace_list :: "server \<Rightarrow> outcome" where
  "handle_workspace_list sv =
     (sv, ROk (JObj [(''workspaces'',
        JArr (map (\<lambda>(i, ws). workspace_json (tabs sv) i ws) (enumerate 0 (tm_workspaces (tabs sv)))))]))"

definition handle_workspace_current :: "server \<Rightarrow> outcome" where
  "handle_workspace_current sv =
     (case tm_selected (tabs sv) of
        Some ws \<Rightarrow>
          (sv, ROk (JObj [(''index'', JInt (int (or_default 0 (tm_selected_index (tabs sv))))), (''id'', juuid (ws_id ws)),
             (''title'', JStr (ws_display_title ws)), (''directory'', JStr (ws_current_directory ws)),
             (''panel_count'', JInt (int (length (ws_panels ws)))),
             (''focused_panel_id'', jopt juuid (ws_focused_panel_id ws))]))
      | None \<Rightarrow> (sv, RErr ''not_found'' ''No workspace selected''))"

section \<open>Creating\<close>

definition first_panel :: "(panel \<Rightarrow> panel) \<Rightarrow> workspace \<Rightarrow> workspace" where
  "first_panel f ws = ws\<lparr> ws_panels := (case ws_panels ws of [] \<Rightarrow> [] | (k, p) # m \<Rightarrow> (k, f p) # m) \<rparr>"

definition initial_panel :: "(panel \<Rightarrow> panel) \<Rightarrow> workspace \<Rightarrow> workspace" where
  "initial_panel f ws =
     (case or_else (ws_focused_panel_id ws) (head_opt (keys_of (ws_panels ws))) of
        Some p \<Rightarrow> ws\<lparr> ws_panels := modify_panel p f (ws_panels ws) \<rparr>
      | None \<Rightarrow> ws)"

definition as_browser :: "json \<Rightarrow> workspace \<Rightarrow> workspace" where
  "as_browser params ws =
     (if or_default False (param_bool ''browser'' params) \<or> param_str ''kind'' params = Some ''browser''
      then initial_panel (\<lambda>p. p\<lparr> p_panel_type := Browser, p_command := None,
             p_browser_url := map_option (\<lambda>s. truncate_str s MAX_URL_LEN) (param_str ''url'' params) \<rparr>) ws
      else ws)"

definition as_diff :: "json \<Rightarrow> workspace \<Rightarrow> workspace" where
  "as_diff params ws =
     (if param_str ''kind'' params = Some ''diff''
      then initial_panel (\<lambda>p. p\<lparr> p_panel_type := Diff,
             p_command := opt_filter (\<lambda>s. s \<noteq> []) (param_str ''source'' params),
             p_directory := Some (ws_current_directory ws), p_title := Some ''Diff'' \<rparr>) ws
      else ws)"

definition as_project :: "json \<Rightarrow> workspace \<Rightarrow> workspace" where
  "as_project params ws =
     (if param_str ''kind'' params = Some ''project''
      then initial_panel (\<lambda>p. p\<lparr> p_panel_type := Project, p_command := None,
             p_directory := Some (ws_current_directory ws), p_title := Some ''Project'' \<rparr>) ws
      else ws)"

definition as_notes :: "sock_env \<Rightarrow> json \<Rightarrow> workspace \<Rightarrow> workspace" where
  "as_notes e params ws =
     (if param_str ''kind'' params = Some ''notes''
      then initial_panel (\<lambda>p. p\<lparr> p_panel_type := Notes, p_command := None,
             p_markdown_file := Some (or_default (se_notes_path e) (opt_filter (\<lambda>s. s \<noteq> []) (param_str ''file'' params))),
             p_title := Some ''Notes'' \<rparr>) ws
      else ws)"

text \<open>The workspace and its panel take the next two identifiers.\<close>

definition requested_workspace :: "sock_env \<Rightarrow> json \<Rightarrow> uuid \<Rightarrow> workspace" where
  "requested_workspace e params n =
     (let home = en_home (se_env e);
          ws = (case map_option (\<lambda>s. truncate_str s MAX_DIRECTORY_LEN) (first_str [''directory'', ''cwd''] params) of
                  Some d \<Rightarrow> with_directory home n (Suc n) d
                | None \<Rightarrow> ws_new home n (Suc n));
          ws = (case map_option (\<lambda>s. truncate_str s MAX_TITLE_LEN) (param_str ''title'' params) of
                  Some t \<Rightarrow> ws\<lparr> ws_custom_title := Some t \<rparr> | None \<Rightarrow> ws);
          ws = (case param_str ''command'' params of
                  Some c \<Rightarrow> first_panel (\<lambda>p. p\<lparr> p_command := Some c \<rparr>) ws | None \<Rightarrow> ws)
      in as_notes e params (as_project params (as_diff params (as_browser params ws))))"

definition created_reply :: "uuid \<Rightarrow> reply" where
  "created_reply w = ROk (JObj [(''workspace_id'', juuid w), (''workspace'', juuid w)])"

definition create_workspace :: "sock_env \<Rightarrow> json \<Rightarrow> bool \<Rightarrow> server \<Rightarrow> outcome" where
  "create_workspace e params preserve sv =
     (let ws = requested_workspace e params (next_id sv);
          previously = (if preserve then tm_selected_id (tabs sv) else None);
          tm = fst (add_workspace_with_placement ws (en_placement (se_env e)) (tabs sv));
          tm = (case previously of Some i \<Rightarrow> fst (select_by_id i tm) | None \<Rightarrow> tm)
      in (notify_ui_refresh (draw 2 (set_tabs tm sv)), created_reply (ws_id ws)))"

definition handle_workspace_new :: "sock_env \<Rightarrow> json \<Rightarrow> server \<Rightarrow> outcome" where
  "handle_workspace_new e params sv = create_workspace e params False sv"

definition create_with :: "sock_env \<Rightarrow> rstr \<Rightarrow> json \<Rightarrow> json \<Rightarrow> server \<Rightarrow> outcome" where
  "create_with e k x params sv =
     (case jset k x params of Some p \<Rightarrow> create_workspace e p False sv | None \<Rightarrow> (sv, RPanic))"

definition handle_workspace_new_browser :: "sock_env \<Rightarrow> json \<Rightarrow> server \<Rightarrow> outcome" where
  "handle_workspace_new_browser e params sv = create_with e ''browser'' (JBool True) params sv"

definition handle_workspace_new_diff :: "sock_env \<Rightarrow> json \<Rightarrow> server \<Rightarrow> outcome" where
  "handle_workspace_new_diff e params sv = create_with e ''kind'' (JStr ''diff'') params sv"

definition handle_workspace_new_project :: "sock_env \<Rightarrow> json \<Rightarrow> server \<Rightarrow> outcome" where
  "handle_workspace_new_project e params sv = create_with e ''kind'' (JStr ''project'') params sv"

definition handle_workspace_new_notes :: "sock_env \<Rightarrow> json \<Rightarrow> server \<Rightarrow> outcome" where
  "handle_workspace_new_notes e params sv = create_with e ''kind'' (JStr ''notes'') params sv"

definition split_terminal :: "uuid \<Rightarrow> SplitOrientation \<Rightarrow> uuid option \<Rightarrow> server \<Rightarrow> server" where
  "split_terminal w ori focus sv =
     (case tm_workspace w (tabs sv) of
        None \<Rightarrow> sv
      | Some _ \<Rightarrow> draw 1 (set_tabs (edit_workspace w (\<lambda>ws.
          (let ws = (case focus of Some p \<Rightarrow> fst (focus_panel p ws) | None \<Rightarrow> ws)
           in fst (ws_split ori Terminal (next_id sv) ws))) (tabs sv)) sv))"

definition apply_workspace_layout :: "uuid \<Rightarrow> rstr \<Rightarrow> server \<Rightarrow> server" where
  "apply_workspace_layout w layout sv =
     (if layout = ''horizontal-2'' then notify_ui_refresh (split_terminal w Horizontal None sv)
      else if layout = ''vertical-2'' then notify_ui_refresh (split_terminal w Vertical None sv)
      else if layout = ''grid-4''
      then (let sv = split_terminal w Horizontal None sv;
                ps = (case tm_workspace w (tabs sv) of Some ws \<Rightarrow> ws_panel_ids ws | None \<Rightarrow> [])
            in notify_ui_refresh (fold (\<lambda>p. split_terminal w Vertical (Some p)) ps sv))
      else sv)"

text \<open>The identifier a successful reply of \<open>create_workspace\<close> carries, read back.\<close>

definition created_id :: "sock_env \<Rightarrow> reply \<Rightarrow> uuid option" where
  "created_id e r =
     (case r of ROk v \<Rightarrow> Option.bind (param_str ''workspace_id'' v) (se_parse e) | _ \<Rightarrow> None)"

definition handle_workspace_create :: "sock_env \<Rightarrow> json \<Rightarrow> server \<Rightarrow> outcome" where
  "handle_workspace_create e params sv =
     (let layout = or_default ''single'' (param_str ''layout'' params);
          (sv, r) = create_workspace e params True sv
      in if layout \<noteq> ''single''
         then (case created_id e r of Some w \<Rightarrow> (apply_workspace_layout w layout sv, r) | None \<Rightarrow> (sv, r))
         else (sv, r))"

definition param_u16 :: "rstr \<Rightarrow> json \<Rightarrow> 16 word option" where
  "param_u16 k params = Option.bind (json_field k params) u16_of"

definition ssh_command :: "sock_env \<Rightarrow> bool \<Rightarrow> 16 word option \<Rightarrow> rstr option \<Rightarrow> rstr \<Rightarrow> rstr" where
  "ssh_command e forward port identity destination =
     ''ssh -o SendEnv=LC_JMUX_PANEL_ID -o SendEnv=LC_JMUX_WORKSPACE_ID'' @ (if forward then '' -A'' else [])
     @ (case port of Some p \<Rightarrow> '' -p '' @ show_nat (unat p) | None \<Rightarrow> [])
     @ (case identity of Some i \<Rightarrow> '' -i '' @ se_escape e i | None \<Rightarrow> [])
     @ '' '' @ se_escape e destination"

definition handle_workspace_create_ssh :: "sock_env \<Rightarrow> json \<Rightarrow> server \<Rightarrow> outcome" where
  "handle_workspace_create_ssh e params sv =
     (if \<not> se_remote_ssh e then (sv, RErr ''disabled'' ''Remote SSH is disabled in settings'')
      else case param_str ''destination'' params of
        None \<Rightarrow> (sv, RErr ''invalid_params'' ''destination is required'')
      | Some d \<Rightarrow>
          if d = [] \<or> starts_with ''-'' d then (sv, RErr ''invalid_params'' ''Invalid SSH destination'')
          else
           (let port = param_u16 ''port'' params; identity = param_str ''identity'' params;
                forward = or_default False (param_bool ''agent_forward'' params);
                config = \<lparr> rc_destination = d, rc_port = port, rc_identity = identity, rc_ssh_options = [],
                           rc_agent_forward = forward, rc_remote_daemon_path = None \<rparr>
            in case jset ''command'' (JStr (ssh_command e forward port identity d)) params of
                 None \<Rightarrow> (sv, RPanic)
               | Some p \<Rightarrow>
                   (case (if param_str ''title'' p = None then jset ''title'' (JStr d) p else Some p) of
                      None \<Rightarrow> (sv, RPanic)
                    | Some p \<Rightarrow>
                        (let (sv, r) = create_workspace e p (or_default False (param_bool ''no_focus'' params)) sv
                         in case created_id e r of
                              None \<Rightarrow> (sv, r)
                            | Some w \<Rightarrow>
                                (fst (send_ui_event (UiRemoteConnect w)
                                   (set_tabs (edit_workspace w (\<lambda>ws. ws\<lparr> ws_remote_config := Some config \<rparr>) (tabs sv)) sv)), r)))))"

definition remote_state_json :: "remote_state \<Rightarrow> json" where
  "remote_state_json s =
     (case s of
        Disconnected \<Rightarrow> JStr ''disconnected''
      | Connecting \<Rightarrow> JStr ''connecting''
      | Connected p v \<Rightarrow> JObj [(''state'', JStr ''connected''), (''proxy_port'', JInt (uint p)), (''daemon_version'', JStr v)]
      | RemoteError m \<Rightarrow> JObj [(''state'', JStr ''error''), (''message'', JStr m)])"

definition handle_workspace_remote_status :: "sock_env \<Rightarrow> json \<Rightarrow> server \<Rightarrow> outcome" where
  "handle_workspace_remote_status e params sv =
     (case target (or_default None (parse_workspace_param e params)) (tabs sv) of
        None \<Rightarrow> (sv, RErr ''not_found'' ''No workspace found'')
      | Some ws \<Rightarrow>
          (sv, ROk (JObj [(''is_remote'', JBool (ws_remote_config ws \<noteq> None)),
             (''config'', jopt (\<lambda>c. JObj [(''destination'', JStr (rc_destination c)),
                 (''port'', jopt (\<lambda>p. JInt (uint p)) (rc_port c)), (''identity'', json_opt_str (rc_identity c))])
               (ws_remote_config ws)),
             (''remote_state'', jopt remote_state_json (ws_remote_state ws))])))"

section \<open>Selecting\<close>

definition handle_workspace_select :: "sock_env \<Rightarrow> json \<Rightarrow> server \<Rightarrow> outcome" where
  "handle_workspace_select e params sv =
     (case parse_usize_param params ''index'' of
        Inl r \<Rightarrow> (sv, r)
      | Inr index \<Rightarrow>
          on_workspace_param e params sv (\<lambda>w.
            if index = None \<and> w = None
            then (sv, RErr ''invalid_params'' (''Provide '' @ quoted ''index'' @ '' or '' @ quoted ''workspace'' @ ''/'' @ quoted ''workspace_id''))
            else
             (let (tm, selected) = (case index of
                    Some i \<Rightarrow> tm_select i (tabs sv)
                  | None \<Rightarrow> select_by_id (the w) (tabs sv))
              in if selected
                 then (let sv = set_tabs tm sv;
                           sv = (case tm_selected_id tm of Some i \<Rightarrow> mark_workspace_read_everywhere i sv | None \<Rightarrow> sv)
                       in (notify_ui_refresh sv, ROk (JObj [(''selected'', JBool True)])))
                 else (sv, RErr ''not_found'' ''Workspace not found''))))"

text \<open>The selection after a step, read and refreshed.\<close>

definition step_selection :: "(tab_manager \<Rightarrow> tab_manager) \<Rightarrow> server \<Rightarrow> outcome" where
  "step_selection f sv =
     (let sv = set_tabs (f (tabs sv)) sv;
          sv = (case tm_selected_id (tabs sv) of Some i \<Rightarrow> mark_workspace_read_everywhere i sv | None \<Rightarrow> sv)
      in (notify_ui_refresh sv, ok_true))"

definition handle_workspace_next :: "json \<Rightarrow> server \<Rightarrow> outcome" where
  "handle_workspace_next params sv = step_selection (select_next (or_default True (param_bool ''wrap'' params))) sv"

definition handle_workspace_previous :: "json \<Rightarrow> server \<Rightarrow> outcome" where
  "handle_workspace_previous params sv = step_selection (select_previous (or_default True (param_bool ''wrap'' params))) sv"

definition handle_workspace_last :: "server \<Rightarrow> outcome" where
  "handle_workspace_last sv = step_selection select_last sv"

definition go_to :: "tab_manager \<times> uuid option \<Rightarrow> (uuid \<Rightarrow> reply) \<Rightarrow> reply \<Rightarrow> server \<Rightarrow> outcome" where
  "go_to r done missing sv =
     (let sv = set_tabs (fst r) sv in
      case snd r of
        Some w \<Rightarrow> (notify_ui_refresh (mark_workspace_read_everywhere w sv), done w)
      | None \<Rightarrow> (sv, missing))"

definition workspace_id_reply :: "uuid \<Rightarrow> reply" where
  "workspace_id_reply w = ROk (JObj [(''workspace_id'', juuid w)])"

definition handle_workspace_focus_back :: "server \<Rightarrow> outcome" where
  "handle_workspace_focus_back sv =
     go_to (focus_back (tabs sv)) workspace_id_reply (RErr ''no_history'' ''No earlier workspace in focus history'') sv"

definition handle_workspace_focus_forward :: "server \<Rightarrow> outcome" where
  "handle_workspace_focus_forward sv =
     go_to (focus_forward (tabs sv)) workspace_id_reply (RErr ''no_history'' ''No later workspace in focus history'') sv"

definition handle_workspace_latest_unread :: "server \<Rightarrow> outcome" where
  "handle_workspace_latest_unread sv =
     go_to (select_latest_unread (tabs sv))
       (\<lambda>w. ROk (JObj [(''workspace_id'', juuid w), (''workspace'', juuid w), (''selected'', JBool True)]))
       (RErr ''not_found'' ''No unread workspace'') sv"

section \<open>Side panels and what was closed\<close>

definition panel_id_reply :: "uuid \<Rightarrow> reply" where
  "panel_id_reply p = ROk (JObj [(''panel_id'', juuid p)])"

definition open_side_panel :: "(uuid \<Rightarrow> panel) \<Rightarrow> server \<Rightarrow> outcome" where
  "open_side_panel new sv =
     (let p = new (next_id sv) in
      case tm_selected (tabs sv) of
        Some _ \<Rightarrow>
          (notify_ui_refresh (draw 1 (set_tabs (edit_selected (\<lambda>ws.
             (fst (insert_panel p Horizontal ws))\<lparr> ws_focused_panel_id := Some (p_id p) \<rparr>) (tabs sv)) sv)), panel_id_reply (p_id p))
      | None \<Rightarrow> (draw 1 sv, RErr ''not_found'' ''No active workspace''))"

definition handle_workspace_open_history :: "server \<Rightarrow> outcome" where
  "handle_workspace_open_history sv = open_side_panel new_history sv"

definition handle_workspace_open_vault :: "server \<Rightarrow> outcome" where
  "handle_workspace_open_vault sv = open_side_panel new_vault sv"

definition handle_workspace_reopen_closed_tab :: "server \<Rightarrow> outcome" where
  "handle_workspace_reopen_closed_tab sv =
     (case Option.bind (tm_selected (tabs sv)) (\<lambda>ws. snd (reopen_last_closed_panel (next_id sv) ws)) of
        Some p \<Rightarrow>
          (notify_ui_refresh (draw 1 (set_tabs
             (edit_selected (\<lambda>ws. fst (reopen_last_closed_panel (next_id sv) ws)) (tabs sv)) sv)), panel_id_reply p)
      | None \<Rightarrow> (sv, RErr ''empty'' ''No recently closed tab to reopen''))"

definition handle_workspace_clear_closed :: "server \<Rightarrow> outcome" where
  "handle_workspace_clear_closed sv =
     (notify_ui_refresh (set_tabs (clear_closed (tabs sv)) sv), ROk (JObj [(''cleared'', JBool True)]))"

definition handle_workspace_reopen_closed :: "server \<Rightarrow> outcome" where
  "handle_workspace_reopen_closed sv =
     (let (tm, r) = reopen_last_closed (tabs sv) in
      case r of
        Some w \<Rightarrow> (notify_ui_refresh (set_tabs tm sv), workspace_id_reply w)
      | None \<Rightarrow> (set_tabs tm sv, RErr ''empty'' ''No recently closed workspace to reopen''))"

section \<open>Hibernation\<close>

definition resolve_focused_panel :: "sock_env \<Rightarrow> json \<Rightarrow> server \<Rightarrow> uuid option" where
  "resolve_focused_panel e params sv =
     Option.bind (target (or_default None (parse_workspace_param e params)) (tabs sv)) ws_focused_panel_id"

definition panel_tty :: "uuid \<Rightarrow> server \<Rightarrow> rstr option" where
  "panel_tty p sv =
     Option.bind (Option.bind (find_workspace_with_panel p (tabs sv)) (\<lambda>ws. map_of (ws_panels ws) p)) p_tty_name"

definition hibernate_panel :: "sock_env \<Rightarrow> uuid \<Rightarrow> server \<Rightarrow> server \<times> bool" where
  "hibernate_panel e p sv =
     (case panel_tty p sv of
        None \<Rightarrow> (sv, False)
      | Some tty \<Rightarrow>
          if se_suspend e tty then (sv\<lparr> sv_hibernated := List.insert p (sv_hibernated sv) \<rparr>, True) else (sv, False))"

definition wake_panel :: "sock_env \<Rightarrow> uuid \<Rightarrow> server \<Rightarrow> server \<times> bool" where
  "wake_panel e p sv =
     (let tty = panel_tty p sv; sv = sv\<lparr> sv_hibernated := removeAll p (sv_hibernated sv) \<rparr>
      in (sv, case tty of Some t \<Rightarrow> se_resume e t | None \<Rightarrow> False))"

definition handle_workspace_hibernate :: "sock_env \<Rightarrow> json \<Rightarrow> server \<Rightarrow> outcome" where
  "handle_workspace_hibernate e params sv =
     (let toggle = or_default False (param_bool ''toggle'' params) in
      case resolve_focused_panel e params sv of
        None \<Rightarrow> (sv, RErr ''not_found'' ''No focused panel to hibernate'')
      | Some p \<Rightarrow>
          (let (sv, now_hibernated) = (if toggle \<and> p \<in> set (sv_hibernated sv)
                 then (fst (wake_panel e p sv), False) else hibernate_panel e p sv);
               sv = notify_ui_refresh sv
           in if now_hibernated \<or> toggle then (sv, ROk (JObj [(''hibernated'', JBool now_hibernated)]))
              else (sv, RErr ''failed'' ''Could not locate the agent process to hibernate'')))"

definition handle_workspace_wake :: "sock_env \<Rightarrow> json \<Rightarrow> server \<Rightarrow> outcome" where
  "handle_workspace_wake e params sv =
     (case resolve_focused_panel e params sv of
        None \<Rightarrow> (sv, RErr ''not_found'' ''No focused panel to wake'')
      | Some p \<Rightarrow> (notify_ui_refresh (fst (wake_panel e p sv)), ROk (JObj [(''hibernated'', JBool False)])))"

section \<open>Closing and ordering\<close>

definition handle_workspace_close :: "sock_env \<Rightarrow> json \<Rightarrow> server \<Rightarrow> outcome" where
  "handle_workspace_close e params sv =
     (case parse_usize_param params ''index'' of
        Inl r \<Rightarrow> (sv, r)
      | Inr index \<Rightarrow>
          on_workspace_param e params sv (\<lambda>w.
            (let (tm, removed) = (case index of
                   Some i \<Rightarrow> tm_remove (the_clock e) i (tabs sv)
                 | None \<Rightarrow>
                     (case w of
                        Some i \<Rightarrow> remove_by_id (the_clock e) i (tabs sv)
                      | None \<Rightarrow>
                          (case tm_selected_index (tabs sv) of
                             Some i \<Rightarrow> tm_remove (the_clock e) i (tabs sv)
                           | None \<Rightarrow> (tabs sv, None))))
             in if removed \<noteq> None then (notify_ui_refresh (set_tabs tm sv), ROk (JObj [(''closed'', JBool True)]))
                else (set_tabs tm sv, RErr ''not_found'' ''Workspace not found''))))"

text \<open>Each name is an index when it reads as a number, otherwise a title.\<close>

fun resolve_names :: "tab_manager \<Rightarrow> rstr list \<Rightarrow> rstr + uuid list" where
  "resolve_names tm [] = Inr []"
| "resolve_names tm (n # ns) =
     (case (case parse_unsigned (2 ^ 64) n of
              Some i \<Rightarrow> (case get_at i (tm_workspaces tm) of
                          Some ws \<Rightarrow> Inr (ws_id ws) | None \<Rightarrow> Inl (''No workspace at index '' @ show_nat i))
            | None \<Rightarrow> (case find (\<lambda>ws. ws_display_title ws = n) (tm_workspaces tm) of
                          Some ws \<Rightarrow> Inr (ws_id ws) | None \<Rightarrow> Inl (''No workspace named '' @ quoted n))) of
        Inl m \<Rightarrow> Inl m
      | Inr i \<Rightarrow> (case resolve_names tm ns of Inl m \<Rightarrow> Inl m | Inr is \<Rightarrow> Inr (i # is)))"

definition push_new :: "'a \<Rightarrow> 'a list \<Rightarrow> 'a list" where
  "push_new x xs = (if x \<in> set xs then xs else xs @ [x])"

definition wanted_order :: "uuid list \<Rightarrow> tab_manager \<Rightarrow> uuid list" where
  "wanted_order ids tm = fold push_new (map ws_id (tm_workspaces tm)) (fold push_new ids [])"

definition place_at :: "nat \<times> uuid \<Rightarrow> tab_manager \<Rightarrow> tab_manager" where
  "place_at iw tm =
     (case workspace_index (snd iw) tm of
        Some cur \<Rightarrow> if cur \<noteq> fst iw then fst (move_workspace cur (fst iw) tm) else tm
      | None \<Rightarrow> tm)"

definition handle_workspace_reorder_workspaces :: "json \<Rightarrow> server \<Rightarrow> outcome" where
  "handle_workspace_reorder_workspaces params sv =
     (case Option.bind (json_field ''workspaces'' params) as_array of
        None \<Rightarrow> (sv, RErr ''invalid_params'' (''Provide '' @ quoted ''workspaces'' @ '' array of names''))
      | Some vs \<Rightarrow>
          (let names = List.map_filter as_str vs in
           if names = [] then (sv, RErr ''invalid_params'' (quoted ''workspaces'' @ '' array must not be empty''))
           else case resolve_names (tabs sv) names of
                  Inl m \<Rightarrow> (sv, RErr ''not_found'' m)
                | Inr ids \<Rightarrow>
                    (let order = wanted_order ids (tabs sv)
                     in (notify_ui_refresh (set_tabs (fold place_at (enumerate 0 order) (tabs sv)) sv),
                         ROk (JObj [(''reordered'', JArr (map juuid order))])))))"

definition handle_workspace_reorder :: "json \<Rightarrow> server \<Rightarrow> outcome" where
  "handle_workspace_reorder params sv =
     (case parse_usize_param params ''from'' of
        Inl r \<Rightarrow> (sv, r)
      | Inr fi \<Rightarrow>
          (case parse_usize_param params ''to'' of
             Inl r \<Rightarrow> (sv, r)
           | Inr ti \<Rightarrow>
               (case (fi, ti) of
                  (Some i, Some j) \<Rightarrow>
                    (let (tm, moved) = move_workspace i j (tabs sv)
                     in if moved then (notify_ui_refresh (set_tabs tm sv), ok_true)
                        else (sv, RErr ''invalid_params'' ''Invalid workspace indices''))
                | _ \<Rightarrow> (sv, need [''from'', ''to'']))))"

end
