(* ===== verification/Socket_Action.thy ===== *)
theory Socket_Action imports Socket_Workspace begin

text \<open>
  The remaining handlers of \<open>jmux/src/socket/v2/workspace.rs\<close>: actions on a workspace, forking a conversation,
  sub-agents, the file listing and the settings window. Directory entries come from \<open>se_dir\<close>: name, path
  and whether it is a directory, if that could be read.
\<close>

section \<open>Actions\<close>

definition json_index :: "nat \<Rightarrow> reply" where
  "json_index i = ROk (JObj [(''index'', JInt (int i))])"

definition moved_to :: "uuid \<Rightarrow> (nat \<Rightarrow> nat) \<Rightarrow> server \<Rightarrow> outcome" where
  "moved_to i f sv =
     (let idx = or_default 0 (workspace_index i (tabs sv))
      in (notify_ui_refresh (set_tabs (fst (move_workspace idx (f idx) (tabs sv))) sv), json_index (f idx)))"

definition closed_count :: "tab_manager \<times> nat \<Rightarrow> server \<Rightarrow> outcome" where
  "closed_count r sv = (notify_ui_refresh (set_tabs (fst r) sv), ROk (JObj [(''closed'', JInt (int (snd r)))]))"

definition edit_action :: "uuid option \<Rightarrow> (workspace \<Rightarrow> workspace) \<Rightarrow> reply \<Rightarrow> server \<Rightarrow> outcome" where
  "edit_action w f r sv = (notify_metadata_refresh (set_tabs (edit_target w f (tabs sv)) sv), r)"

definition unknown_action :: rstr where
  "unknown_action =
     ''Unknown action. Use: pin, unpin, toggle_pin, mark_read, mark_unread, clear_name, set_color, clear_color, rename, move_up, move_down, move_top, close_others, close_above, close_below''"

definition workspace_action :: "uuid option \<Rightarrow> workspace \<Rightarrow> rstr \<Rightarrow> json \<Rightarrow> server \<Rightarrow> outcome" where
  "workspace_action w ws action params sv =
     (let pinned = (\<lambda>b. edit_action w (\<lambda>ws. ws\<lparr> ws_is_pinned := b \<rparr>) (ROk (JObj [(''is_pinned'', JBool b)])) sv) in
      if action = ''pin'' then pinned True
      else if action = ''unpin'' then pinned False
      else if action = ''toggle_pin'' then pinned (\<not> ws_is_pinned ws)
      else if action = ''mark_read''
      then (notify_metadata_refresh (mark_workspace_read_everywhere (ws_id ws)
              (set_tabs (edit_target w mark_notifications_read (tabs sv)) sv)), ok_true)
      else if action = ''mark_unread''
      then edit_action w (\<lambda>ws. ws\<lparr> ws_unread_count := max (ws_unread_count ws) 1 \<rparr>) ok_true sv
      else if action = ''clear_name'' then edit_action w (\<lambda>ws. ws\<lparr> ws_custom_title := None \<rparr>) ok_true sv
      else if action = ''set_color''
      then (case param_str ''color'' params of
              None \<Rightarrow> (sv, RErr ''invalid_params'' (''set_color requires '' @ quoted ''color'' @ '' param''))
            | Some c \<Rightarrow> edit_action w (\<lambda>ws. ws\<lparr> ws_custom_color := Some (truncate_str c MAX_STATUS_LEN) \<rparr>) ok_true sv)
      else if action = ''clear_color'' then edit_action w (\<lambda>ws. ws\<lparr> ws_custom_color := None \<rparr>) ok_true sv
      else if action = ''rename''
      then (case param_str ''title'' params of
              None \<Rightarrow> (sv, RErr ''invalid_params'' (''rename requires '' @ quoted ''title'' @ '' param''))
            | Some t \<Rightarrow> edit_action w (\<lambda>ws. ws\<lparr> ws_custom_title := Some (truncate_str t MAX_METHOD_LEN) \<rparr>) ok_true sv)
      else if action = ''move_up'' then moved_to (ws_id ws) (\<lambda>i. i - 1) sv
      else if action = ''move_down''
      then moved_to (ws_id ws) (\<lambda>i. min (i + 1) (length (tm_workspaces (tabs sv)) - 1)) sv
      else if action = ''move_top'' then moved_to (ws_id ws) (\<lambda>_. 0) sv
      else if action = ''close_others'' then closed_count (close_others (ws_id ws) (tabs sv)) sv
      else if action = ''close_above'' then closed_count (close_above (ws_id ws) (tabs sv)) sv
      else if action = ''close_below'' then closed_count (close_below (ws_id ws) (tabs sv)) sv
      else (sv, RErr ''invalid_params'' unknown_action))"

definition handle_workspace_action :: "sock_env \<Rightarrow> json \<Rightarrow> server \<Rightarrow> outcome" where
  "handle_workspace_action e params sv =
     on_workspace_param e params sv (\<lambda>w.
       case param_str ''action'' params of
         None \<Rightarrow> (sv, need [''action''])
       | Some action \<Rightarrow>
           (case target w (tabs sv) of
              None \<Rightarrow> (sv, RErr ''not_found'' ''No workspace'')
            | Some ws \<Rightarrow> workspace_action w ws action params sv))"

section \<open>Agents\<close>

definition handle_agent_fork_conversation :: "sock_env \<Rightarrow> json \<Rightarrow> server \<Rightarrow> outcome" where
  "handle_agent_fork_conversation e params sv =
     (let message = map_option (\<lambda>s. truncate_str s MAX_SURFACE_INPUT_LEN) (param_str ''message'' params);
          name = map_option (\<lambda>s. truncate_str s MAX_TITLE_LEN) (first_str [''workspace_name'', ''name''] params);
          cwd = (case tm_selected (tabs sv) of Some ws \<Rightarrow> ws_current_directory ws | None \<Rightarrow> []);
          create = JObj ((if cwd \<noteq> [] then [(''directory'', JStr cwd)] else [])
                         @ (case name of Some n \<Rightarrow> [(''title'', JStr n)] | None \<Rightarrow> []));
          (sv, r) = create_workspace e create True sv
      in case r of
           ROk v \<Rightarrow>
             (case param_str ''workspace_id'' v of
                None \<Rightarrow> (sv, RErr ''internal'' ''workspace_id missing from create response'')
              | Some s \<Rightarrow>
                  (let sv = (case message of
                         None \<Rightarrow> sv
                       | Some m \<Rightarrow>
                           (case Option.bind (Option.bind (se_parse e s) (\<lambda>w. tm_workspace w (tabs sv)))
                                   (\<lambda>ws. or_else (ws_focused_panel_id ws) (head_opt (ws_panel_ids ws))) of
                              None \<Rightarrow> sv
                            | Some p \<Rightarrow> fst (send_ui_event (UiSendInput p m) sv)))
                   in (sv, ROk (JObj [(''workspace_id'', JStr s), (''workspace'', JStr s)]))))
         | _ \<Rightarrow> (sv, r))"

definition subagent_panel :: "uuid \<Rightarrow> uuid \<Rightarrow> rstr \<Rightarrow> rstr option \<Rightarrow> panel" where
  "subagent_panel i parent dir cli =
     (new_terminal i)\<lparr> p_parent_panel_id := Some parent, p_directory := Some dir,
       p_title := map_option (\<lambda>c. c @ '' (subagent)'') cli \<rparr>"

definition handle_agent_spawn_subagent :: "sock_env \<Rightarrow> json \<Rightarrow> server \<Rightarrow> outcome" where
  "handle_agent_spawn_subagent e params sv =
     (case first_uuid e [''parent_panel_id''] params of
        None \<Rightarrow> (sv, RErr ''invalid_params'' (''Provide '' @ quoted ''parent_panel_id'' @ '' (UUID of parent panel)''))
      | Some parent \<Rightarrow>
          (let cli = map_option (\<lambda>s. truncate_str s MAX_NAME_LEN) (param_str ''cli_name'' params);
               wd = map_option (\<lambda>s. truncate_str s MAX_DIRECTORY_LEN) (param_str ''working_directory'' params)
           in case find_workspace_with_panel parent (tabs sv) of
                None \<Rightarrow> (sv, RErr ''not_found'' ''Parent panel not found'')
              | Some ws \<Rightarrow>
                  (let dir = or_default (ws_current_directory ws)
                         (or_else wd (Option.bind (map_of (ws_panels ws) parent) p_directory));
                       p = subagent_panel (next_id sv) parent dir cli
                   in (notify_ui_refresh (draw 1 (set_tabs (edit_workspace (ws_id ws) (\<lambda>ws.
                          fst (insert_panel p Horizontal (ws\<lparr> ws_focused_panel_id := Some parent \<rparr>))) (tabs sv)) sv)),
                       ROk (JObj [(''panel_id'', juuid (p_id p)), (''workspace_id'', juuid (ws_id ws))])))))"

section \<open>The rest\<close>

definition handle_app_focus_override :: "server \<Rightarrow> outcome" where
  "handle_app_focus_override sv = (sv, ok_true)"

definition handle_app_simulate_active :: "server \<Rightarrow> outcome" where
  "handle_app_simulate_active sv = (sv, ok_true)"

definition handle_settings_open :: "server \<Rightarrow> outcome" where
  "handle_settings_open sv = (fst (send_ui_event UiOpenSettings sv), ROk (JObj [(''opened'', JBool True)]))"

definition handle_settings_reload :: "server \<Rightarrow> outcome" where
  "handle_settings_reload sv = (fst (send_ui_event UiReloadTheme sv), ROk (JObj [(''reloaded'', JBool True)]))"

text \<open>Strings are compared byte by byte.\<close>

fun str_less :: "rstr \<Rightarrow> rstr \<Rightarrow> bool" where
  "str_less s [] = False"
| "str_less [] (c # cs) = True"
| "str_less (b # bs) (c # cs) =
     ((of_char b :: nat) < of_char c \<or> b = c \<and> str_less bs cs)"

definition by_name :: "rstr \<times> rstr \<Rightarrow> rstr \<times> rstr \<Rightarrow> bool" where
  "by_name a b \<longleftrightarrow> str_less (ascii_lowercase (fst a)) (ascii_lowercase (fst b))"

text \<open>\<open>depth\<close> is what is left of the maximum.\<close>

fun files_tree :: "(rstr \<Rightarrow> (rstr \<times> rstr \<times> bool option) list option) \<Rightarrow> nat \<Rightarrow> rstr \<Rightarrow> json list" where
  "files_tree dir 0 path = []"
| "files_tree dir (Suc depth) path =
     (case dir path of
        None \<Rightarrow> []
      | Some entries \<Rightarrow>
          (let shown = filter (\<lambda>(n, _, _). \<not> starts_with ''.'' n) entries;
               pick = (\<lambda>d. sort_by by_name (map (\<lambda>(n, f, _). (n, f)) (filter (\<lambda>(_, _, k). k = Some d) shown)))
           in map (\<lambda>(n, f). JObj [(''name'', JStr n), (''path'', JStr f), (''type'', JStr ''directory''),
                     (''children'', JArr (files_tree dir depth f))]) (pick True)
              @ map (\<lambda>(n, f). JObj [(''name'', JStr n), (''path'', JStr f), (''type'', JStr ''file'')]) (pick False)))"

definition handle_workspace_files :: "sock_env \<Rightarrow> json \<Rightarrow> server \<Rightarrow> outcome" where
  "handle_workspace_files e params sv =
     on_workspace_param e params sv (\<lambda>w.
       case target w (tabs sv) of
         None \<Rightarrow> (sv, RErr ''not_found'' ''No workspace found'')
       | Some ws \<Rightarrow>
           (let path = or_default (ws_current_directory ws) (param_str ''path'' params) in
            if ws_remote_config ws \<noteq> None
            then (sv, RErr ''not_supported'' ''File browsing is not available for SSH workspaces'')
            else
             (let depth = or_default 2 (map_option (\<lambda>d. min d 5) (Option.bind (json_field ''depth'' params) as_u64))
              in (sv, ROk (JObj [(''path'', JStr path), (''entries'', JArr (files_tree (se_dir e) depth path))])))))"

end
