(* ===== verification/Socket_Pane.thy ===== *)
theory Socket_Pane imports Socket_Workspace begin

text \<open>
  The handlers for panes and panels (\<open>jmux/src/socket/v2/pane.rs\<close>): splitting, focusing, closing, swapping,
  resizing, and moving a panel between workspaces. \<open>expect\<close> on a workspace found a moment before, under
  the same lock, cannot fail.
\<close>

section \<open>Parameters\<close>

definition explicit_id :: "sock_env \<Rightarrow> rstr list \<Rightarrow> rstr \<Rightarrow> rstr \<Rightarrow> json \<Rightarrow> reply + uuid option" where
  "explicit_id e ks not_string not_uuid params =
     (case first_key ks params of
        None \<Rightarrow> Inr None
      | Some JNull \<Rightarrow> Inr None
      | Some v \<Rightarrow>
          (case as_str v of
             None \<Rightarrow> Inl (RErr ''invalid_params'' not_string)
           | Some s \<Rightarrow>
               (case se_parse e s of
                  Some p \<Rightarrow> Inr (Some p)
                | None \<Rightarrow> Inl (RErr ''invalid_params'' not_uuid))))"

definition pane_id :: "sock_env \<Rightarrow> json \<Rightarrow> reply + uuid option" where
  "pane_id e params =
     explicit_id e [''panel'', ''surface'', ''id''] ''panel/id must be a string'' ''Invalid panel UUID format'' params"

definition orientation_param :: "json \<Rightarrow> SplitOrientation" where
  "orientation_param params = (if param_str ''orientation'' params = Some ''vertical'' then Vertical else Horizontal)"

definition direction_of :: "rstr \<Rightarrow> Direction option" where
  "direction_of s =
     (if s = ''left'' then Some DLeft else if s = ''right'' then Some DRight
      else if s = ''up'' then Some DUp else if s = ''down'' then Some DDown else None)"

definition on_direction :: "json \<Rightarrow> server \<Rightarrow> (Direction \<Rightarrow> outcome) \<Rightarrow> outcome" where
  "on_direction params sv k =
     (case param_str ''direction'' params of
        None \<Rightarrow> (sv, RErr ''invalid_params'' (''Provide '' @ quoted ''direction'' @ '': left, right, up, down''))
      | Some s \<Rightarrow>
          (case direction_of s of
             None \<Rightarrow> (sv, RErr ''invalid_params'' ''direction must be: left, right, up, down'')
           | Some d \<Rightarrow> k d))"

text \<open>A mutation of the selected workspace that answers whether it did anything.\<close>

definition try_selected :: "(workspace \<Rightarrow> workspace \<times> bool) \<Rightarrow> reply \<Rightarrow> reply \<Rightarrow> workspace \<Rightarrow> server \<Rightarrow> outcome" where
  "try_selected f done failed ws sv =
     (let sv' = set_tabs (edit_selected (\<lambda>w. fst (f w)) (tabs sv)) sv
      in if snd (f ws) then (notify_ui_refresh sv', done) else (sv', failed))"

definition on_selected :: "server \<Rightarrow> (workspace \<Rightarrow> outcome) \<Rightarrow> outcome" where
  "on_selected sv k =
     (case tm_selected (tabs sv) of
        None \<Rightarrow> (sv, RErr ''not_found'' ''No workspace selected'')
      | Some ws \<Rightarrow> k ws)"

definition in_layout :: "(LayoutNode \<Rightarrow> LayoutNode \<times> bool) \<Rightarrow> workspace \<Rightarrow> workspace \<times> bool" where
  "in_layout f ws = (let (l, ok) = f (ws_layout ws) in (ws\<lparr> ws_layout := l \<rparr>, ok))"

section \<open>Splitting and listing\<close>

definition panel_reply :: "uuid \<Rightarrow> reply" where
  "panel_reply p = ROk (JObj [(''panel_id'', juuid p)])"

definition handle_pane_new :: "json \<Rightarrow> server \<Rightarrow> outcome" where
  "handle_pane_new params sv =
     (let ori = orientation_param params;
          browser = first_str [''panel_type'', ''type''] params = Some ''browser'';
          ty = (if browser then Browser else Terminal);
          url = param_str ''url'' params; p = next_id sv
      in on_selected sv (\<lambda>_.
           (notify_ui_refresh (draw 1 (set_tabs (edit_selected (\<lambda>ws.
              (let ws = fst (ws_split ori ty p ws)
               in if browser then ws\<lparr> ws_panels := modify_panel p (\<lambda>q. q\<lparr> p_browser_url := url \<rparr>) (ws_panels ws) \<rparr>
                  else ws)) (tabs sv)) sv)), panel_reply p)))"

definition handle_pane_split_off :: "json \<Rightarrow> server \<Rightarrow> outcome" where
  "handle_pane_split_off params sv =
     on_selected sv (\<lambda>_.
       (notify_ui_refresh (draw 1 (set_tabs (edit_selected (\<lambda>ws.
          (let before = ws_focused_panel_id ws;
               ws = fst (ws_split (orientation_param params) Terminal (next_id sv) ws)
           in case before of Some p \<Rightarrow> fst (focus_panel p ws) | None \<Rightarrow> ws)) (tabs sv)) sv)),
        panel_reply (next_id sv)))"

definition type_name :: "PanelType \<Rightarrow> rstr" where
  "type_name ty =
     (case ty of FilePreview \<Rightarrow> ''file_preview'' | AgentMonitor \<Rightarrow> ''agent_monitor'' | _ \<Rightarrow> panel_type_name ty)"

text \<open>The fields every listing of panels has, and the directory some have.\<close>

definition surface_fields :: "workspace \<Rightarrow> uuid \<Rightarrow> (rstr \<times> json) list" where
  "surface_fields ws p =
     (let q = map_of (ws_panels ws) p
      in [(''id'', juuid p), (''type'', JStr (or_default ''unknown'' (map_option (\<lambda>q. type_name (p_panel_type q)) q))),
          (''title'', JStr (or_default ''?'' (map_option display_title q)))])"

definition directory_field :: "workspace \<Rightarrow> uuid \<Rightarrow> rstr \<times> json" where
  "directory_field ws p = (''directory'', json_opt_str (Option.bind (map_of (ws_panels ws) p) p_directory))"

definition focused_field :: "workspace \<Rightarrow> uuid \<Rightarrow> rstr \<times> json" where
  "focused_field ws p = (''focused'', JBool (ws_focused_panel_id ws = Some p))"

definition handle_pane_list :: "sock_env \<Rightarrow> json \<Rightarrow> server \<Rightarrow> outcome" where
  "handle_pane_list e params sv =
     on_workspace_param e params sv (\<lambda>w.
       case target w (tabs sv) of
         None \<Rightarrow> (sv, RErr ''not_found'' ''Workspace not found'')
       | Some ws \<Rightarrow>
           (sv, ROk (JObj [(''panels'', JArr (map (\<lambda>p.
              JObj (surface_fields ws p @ [directory_field ws p, focused_field ws p])) (ws_panel_ids ws)))])))"

definition handle_pane_surfaces :: "sock_env \<Rightarrow> json \<Rightarrow> server \<Rightarrow> outcome" where
  "handle_pane_surfaces e params sv =
     on_panel_id e params sv (\<lambda>p.
       case find_workspace_with_panel p (tabs sv) of
         None \<Rightarrow> (sv, RErr ''not_found'' ''Panel not found in any workspace'')
       | Some ws \<Rightarrow>
           (let ps = (case find_pane_readonly p (ws_layout ws) of Some ps \<Rightarrow> ps | None \<Rightarrow> [p])
            in (sv, ROk (JObj [(''surfaces'',
                  JArr (map (\<lambda>i. JObj (surface_fields ws i @ [focused_field ws i])) ps))]))))"

section \<open>Focus\<close>

definition focused_reply :: reply where
  "focused_reply = ROk (JObj [(''focused'', JBool True)])"

definition focused_on :: "uuid \<Rightarrow> reply" where
  "focused_on p = ROk (JObj [(''panel_id'', juuid p), (''focused'', JBool True)])"

definition handle_pane_focus :: "sock_env \<Rightarrow> json \<Rightarrow> server \<Rightarrow> outcome" where
  "handle_pane_focus e params sv =
     (case pane_id e params of
        Inl r \<Rightarrow> (sv, r)
      | Inr None \<Rightarrow> (sv, RErr ''invalid_params'' (''Provide '' @ quoted ''panel'' @ '' or '' @ quoted ''id''))
      | Inr (Some p) \<Rightarrow>
          (let focused = (case find_workspace_with_panel p (tabs sv) of
                            Some ws \<Rightarrow> snd (focus_panel p ws) | None \<Rightarrow> False);
               sv' = set_tabs (edit_holder p (\<lambda>ws. fst (focus_panel p ws)) (tabs sv)) sv
           in if focused then (notify_ui_refresh sv', focused_reply)
              else (sv', RErr ''not_found'' ''Panel not found'')))"

definition handle_pane_last :: "sock_env \<Rightarrow> json \<Rightarrow> server \<Rightarrow> outcome" where
  "handle_pane_last e params sv =
     on_workspace_param e params sv (\<lambda>w.
       case target w (tabs sv) of
         None \<Rightarrow> (sv, RErr ''not_found'' ''No workspace'')
       | Some ws \<Rightarrow>
           (case ws_previous_focused_panel_id ws of
              None \<Rightarrow> (sv, RErr ''not_found'' ''No previous panel'')
            | Some p \<Rightarrow>
                (if \<not> has_key p (ws_panels ws)
                 then (sv, RErr ''not_found'' ''Previous panel no longer exists'')
                 else (notify_ui_refresh (set_tabs (edit_target w (\<lambda>ws. fst (focus_panel p ws)) (tabs sv)) sv),
                       focused_on p))))"

definition handle_pane_focus_direction :: "json \<Rightarrow> server \<Rightarrow> outcome" where
  "handle_pane_focus_direction params sv =
     on_direction params sv (\<lambda>d. on_selected sv (\<lambda>ws.
       case ws_focused_panel_id ws of
         None \<Rightarrow> (sv, RErr ''not_found'' ''No focused panel'')
       | Some cur \<Rightarrow>
           (case neighbor cur d (ws_layout ws) of
              None \<Rightarrow> (sv, RErr ''not_found'' ''No neighbor in that direction'')
            | Some p \<Rightarrow>
                (notify_ui_refresh (set_tabs (edit_selected (\<lambda>ws. fst (focus_panel p ws)) (tabs sv)) sv),
                 focused_on p))))"

definition handle_panel_toggle_zoom :: "sock_env \<Rightarrow> json \<Rightarrow> server \<Rightarrow> outcome" where
  "handle_panel_toggle_zoom e params sv =
     on_panel_id e params sv (\<lambda>p.
       case find_workspace_with_panel p (tabs sv) of
         None \<Rightarrow> (sv, RErr ''not_found'' ''Panel not found in any workspace'')
       | Some ws \<Rightarrow>
           (let z = (if ws_zoomed_panel_id ws = Some p then None else Some p)
            in (notify_ui_refresh (set_tabs (edit_holder p (\<lambda>ws. ws\<lparr> ws_zoomed_panel_id := z \<rparr>) (tabs sv)) sv),
                ROk (JObj [(''zoomed'', JBool (z \<noteq> None)), (''panel_id'', juuid p)]))))"

section \<open>Closing and rearranging\<close>

definition handle_pane_close :: "sock_env \<Rightarrow> json \<Rightarrow> server \<Rightarrow> outcome" where
  "handle_pane_close e params sv =
     (case pane_id e params of
        Inl r \<Rightarrow> (sv, r)
      | Inr given \<Rightarrow>
          (case (case given of
                   Some p \<Rightarrow> Inr p
                 | None \<Rightarrow>
                     (case tm_selected (tabs sv) of
                        None \<Rightarrow> Inl ''No workspace selected''
                      | Some ws \<Rightarrow> (case ws_focused_panel_id ws of Some p \<Rightarrow> Inr p | None \<Rightarrow> Inl ''No focused panel''))) of
             Inl m \<Rightarrow> (sv, RErr ''not_found'' m)
           | Inr p \<Rightarrow>
               (let (tm, closed) = close_panel (the_clock e) p (tabs sv)
                in if closed then (notify_ui_refresh (set_tabs tm sv), ROk (JObj [(''closed'', JBool True)]))
                   else (set_tabs tm sv, RErr ''not_found'' ''Panel not found''))))"

definition handle_pane_swap :: "sock_env \<Rightarrow> json \<Rightarrow> server \<Rightarrow> outcome" where
  "handle_pane_swap e params sv =
     (case (first_str [''a'', ''panel_a''] params, first_str [''b'', ''panel_b''] params) of
        (Some sa, Some sb) \<Rightarrow>
          (case se_parse e sa of
             None \<Rightarrow> (sv, RErr ''invalid_params'' (''Invalid panel UUID for '' @ quoted ''a''))
           | Some a \<Rightarrow>
               (case se_parse e sb of
                  None \<Rightarrow> (sv, RErr ''invalid_params'' (''Invalid panel UUID for '' @ quoted ''b''))
                | Some b \<Rightarrow>
                    on_selected sv (\<lambda>ws.
                      if \<not> has_key a (ws_panels ws) \<or> \<not> has_key b (ws_panels ws)
                      then (sv, RErr ''not_found'' ''One or both panels not found'')
                      else try_selected (in_layout (swap_panels a b)) (ROk (JObj [(''swapped'', JBool True)]))
                             (RErr ''not_found'' ''Panels not found in layout'') ws sv)))
      | _ \<Rightarrow> (sv, RErr ''invalid_params'' (''Provide '' @ quoted ''a'' @ '' and '' @ quoted ''b'' @ '' panel UUIDs'')))"

definition handle_pane_resize :: "sock_env \<Rightarrow> json \<Rightarrow> server \<Rightarrow> outcome" where
  "handle_pane_resize e params sv =
     (case Option.bind (json_field ''amount'' params) as_f64 of
        None \<Rightarrow> (sv, RErr ''invalid_params'' (''Provide '' @ quoted ''amount'' @ '' (e.g. 0.05 or -0.05)''))
      | Some amount \<Rightarrow>
          on_selected sv (\<lambda>ws.
            case (case param_str ''panel'' params of
                    Some s \<Rightarrow> (case se_parse e s of
                                Some p \<Rightarrow> Inr p | None \<Rightarrow> Inl (RErr ''invalid_params'' ''Invalid panel UUID''))
                  | None \<Rightarrow> (case ws_focused_panel_id ws of
                               Some p \<Rightarrow> Inr p | None \<Rightarrow> Inl (RErr ''not_found'' ''No focused panel''))) of
              Inl r \<Rightarrow> (sv, r)
            | Inr p \<Rightarrow>
                try_selected (in_layout (resize_panel p amount)) (ROk (JObj [(''resized'', JBool True)]))
                  (RErr ''not_found'' ''Panel not in any split'') ws sv))"

definition handle_pane_equalize :: "sock_env \<Rightarrow> json \<Rightarrow> server \<Rightarrow> outcome" where
  "handle_pane_equalize e params sv =
     on_workspace_param e params sv (\<lambda>w.
       case target w (tabs sv) of
         None \<Rightarrow> (sv, RErr ''not_found'' ''No workspace'')
       | Some _ \<Rightarrow>
           (notify_ui_refresh (set_tabs (edit_target w (\<lambda>ws. fst (in_layout equalize ws)) (tabs sv)) sv),
            ROk (JObj [(''equalized'', JBool True)])))"

section \<open>Moving panels between workspaces\<close>

text \<open>The workspace \<open>source\<close> gives up a panel and goes away when that emptied it.\<close>

definition drop_if_empty :: "nat \<Rightarrow> uuid \<Rightarrow> tab_manager \<Rightarrow> tab_manager" where
  "drop_if_empty now source tm =
     (case tm_workspace source tm of
        Some ws \<Rightarrow> if ws_is_empty ws then fst (remove_by_id now source tm) else tm
      | None \<Rightarrow> tm)"

definition take_panel :: "nat \<Rightarrow> uuid \<Rightarrow> uuid \<Rightarrow> tab_manager \<Rightarrow> tab_manager \<times> panel option" where
  "take_panel now source p tm =
     (case Option.bind (tm_workspace source tm) (\<lambda>ws. snd (detach_panel p ws)) of
        None \<Rightarrow> (tm, None)
      | Some panel \<Rightarrow>
          (drop_if_empty now source (edit_workspace source (\<lambda>ws. fst (detach_panel p ws)) tm), Some panel))"

definition broken_out :: "rstr option \<Rightarrow> uuid \<Rightarrow> rstr \<Rightarrow> uuid \<Rightarrow> panel \<Rightarrow> workspace" where
  "broken_out home n dir p panel =
     (ws_new home n (Suc n))\<lparr> ws_current_directory := dir, ws_panels := [(p, panel)],
        ws_layout := single_pane p, ws_focused_panel_id := Some p \<rparr>"

definition handle_pane_break :: "sock_env \<Rightarrow> json \<Rightarrow> server \<Rightarrow> outcome" where
  "handle_pane_break e params sv =
     on_panel_id e params sv (\<lambda>p.
       case find_workspace_with_panel p (tabs sv) of
         None \<Rightarrow> (sv, RErr ''not_found'' ''Panel not found in any workspace'')
       | Some src \<Rightarrow>
           (if length (ws_panels src) \<le> 1
            then (sv, RErr ''invalid_params'' ''Cannot break the only panel in a workspace'')
            else case take_panel (the_clock e) (ws_id src) p (tabs sv) of
                   (_, None) \<Rightarrow> (sv, RErr ''not_found'' ''Panel not found'')
                 | (tm, Some panel) \<Rightarrow>
                     (let n = next_id sv;
                          ws = broken_out (en_home (se_env e)) n (ws_current_directory src) p panel
                      in (notify_ui_refresh (draw 2 (set_tabs (fst (add_workspace ws tm)) sv)),
                          ROk (JObj [(''panel_id'', juuid p), (''workspace_id'', juuid n)])))))"

text \<open>Both handlers that move a panel answer alike.\<close>

definition moved_reply :: "rstr \<Rightarrow> uuid \<Rightarrow> uuid \<Rightarrow> reply" where
  "moved_reply k p w = ROk (JObj [(''panel_id'', juuid p), (''workspace_id'', juuid w), (k, JBool True)])"

definition handle_pane_join :: "sock_env \<Rightarrow> json \<Rightarrow> server \<Rightarrow> outcome" where
  "handle_pane_join e params sv =
     (case first_str [''panel'', ''surface'', ''id''] params of
        None \<Rightarrow> (sv, RErr ''invalid_params'' (''Provide '' @ quoted ''panel'' @ '' UUID to join''))
      | Some s \<Rightarrow>
          (case se_parse e s of
             None \<Rightarrow> (sv, RErr ''invalid_params'' ''Invalid panel UUID'')
           | Some p \<Rightarrow>
               (case tm_selected_id (tabs sv) of
                  None \<Rightarrow> (sv, RErr ''not_found'' ''No workspace selected'')
                | Some t \<Rightarrow>
                    (case find_workspace_with_panel p (tabs sv) of
                       None \<Rightarrow> (sv, RErr ''not_found'' ''Panel not found in any workspace'')
                     | Some src \<Rightarrow>
                         (if ws_id src = t
                          then (sv, RErr ''invalid_params'' ''Panel is already in the target workspace'')
                          else case take_panel (the_clock e) (ws_id src) p (tabs sv) of
                                 (_, None) \<Rightarrow> (sv, RErr ''not_found'' ''Panel not found'')
                               | (tm, Some panel) \<Rightarrow>
                                   (notify_ui_refresh (set_tabs
                                      (edit_workspace t (\<lambda>w. fst (insert_panel panel (orientation_param params) w)) tm) sv),
                                    moved_reply ''joined'' p t))))))"

definition handle_panel_move_to_workspace :: "sock_env \<Rightarrow> json \<Rightarrow> server \<Rightarrow> outcome" where
  "handle_panel_move_to_workspace e params sv =
     on_panel_id e params sv (\<lambda>p.
       case first_str [''workspace'', ''target_workspace'', ''target_workspace_id''] params of
         None \<Rightarrow> (sv, RErr ''invalid_params'' (''Provide '' @ quoted ''workspace'' @ '' UUID''))
       | Some s \<Rightarrow>
           (case se_parse e s of
              None \<Rightarrow> (sv, RErr ''invalid_params'' ''Invalid workspace UUID'')
            | Some t \<Rightarrow>
                (if tm_workspace t (tabs sv) = None then (sv, RErr ''not_found'' ''Target workspace not found'')
                 else let (tm, r) = move_panel_to_workspace (the_clock e) p t (tabs sv) in
                   case r of
                     Some w \<Rightarrow> (notify_ui_refresh (set_tabs tm sv), moved_reply ''moved'' p w)
                   | None \<Rightarrow> (set_tabs tm sv,
                       RErr ''invalid_params'' ''Cannot move panel (already in target or not found)''))))"

end
