(* ===== verification/Socket_Surface.thy ===== *)
theory Socket_Surface imports Socket_Pane begin

text \<open>
  The handlers for terminal surfaces (\<open>jmux/src/socket/v2/surface.rs\<close>) and tabs
  (\<open>jmux/src/socket/v2/tab.rs\<close>). What the GTK thread reads from a terminal is \<open>se_read_text\<close>; lower-casing is
  that of ASCII.
\<close>

section \<open>Input\<close>

definition fire :: "ui_event \<Rightarrow> json \<Rightarrow> server \<Rightarrow> outcome" where
  "fire ev r sv = (fst (send_ui_event ev sv), ROk r)"

definition jflag :: "rstr \<Rightarrow> json" where
  "jflag k = JObj [(k, JBool True)]"

definition handle_surface_send_input :: "sock_env \<Rightarrow> json \<Rightarrow> server \<Rightarrow> outcome" where
  "handle_surface_send_input e params sv =
     (case param_str ''input'' params of
        None \<Rightarrow> (sv, need [''input''])
      | Some input \<Rightarrow>
          (case explicit_id e [''surface'', ''panel''] ''surface/panel must be a string''
                  ''Invalid surface/panel UUID format'' params of
             Inl r \<Rightarrow> (sv, r)
           | Inr given \<Rightarrow>
               (case (case given of
                        Some p \<Rightarrow> if find_workspace_with_panel p (tabs sv) = None then Inl ''Surface not found'' else Inr p
                      | None \<Rightarrow>
                          (case tm_selected (tabs sv) of
                             None \<Rightarrow> Inl ''No workspace selected''
                           | Some ws \<Rightarrow>
                               (case or_else (ws_focused_panel_id ws) (head_opt (ws_panel_ids ws)) of
                                  Some p \<Rightarrow> Inr p | None \<Rightarrow> Inl ''No focused surface''))) of
                  Inl m \<Rightarrow> (sv, RErr ''not_found'' m)
                | Inr p \<Rightarrow>
                    (let (sv', sent) = send_ui_event (UiSendInput p (truncate_str input MAX_SURFACE_INPUT_LEN)) sv
                     in if sent then (sv', ROk (JObj [(''sent'', JBool True), (''surface'', juuid p)]))
                        else (sv', RErr ''not_ready'' ''UI is not ready'')))))"

definition handle_surface_list :: "sock_env \<Rightarrow> json \<Rightarrow> server \<Rightarrow> outcome" where
  "handle_surface_list e params sv = handle_pane_list e params sv"

definition handle_surface_focus :: "sock_env \<Rightarrow> json \<Rightarrow> server \<Rightarrow> outcome" where
  "handle_surface_focus e params sv = handle_pane_focus e params sv"

definition handle_surface_current :: "server \<Rightarrow> outcome" where
  "handle_surface_current sv =
     on_selected sv (\<lambda>ws.
       case ws_focused_panel_id ws of
         None \<Rightarrow> (sv, RErr ''not_found'' ''No focused surface'')
       | Some p \<Rightarrow> (sv, ROk (JObj (surface_fields ws p @ [directory_field ws p]))))"

definition mod_bit :: "rstr \<Rightarrow> u32" where
  "mod_bit s =
     (let l = ascii_lowercase s in
      if l = ''ctrl'' \<or> l = ''control'' then 2
      else if l = ''shift'' then 1
      else if l = ''alt'' then 4
      else if l = ''super'' \<or> l = ''meta'' then 8
      else 0)"

definition mods_of :: "json \<Rightarrow> u32" where
  "mods_of params =
     (case Option.bind (json_field ''mods'' params) as_array of
        None \<Rightarrow> 0
      | Some vs \<Rightarrow> foldl (\<lambda>m s. or m (mod_bit s)) 0 (List.map_filter as_str vs))"

definition named_keys :: "(rstr list \<times> nat \<times> nat) list" where
  "named_keys =
     [([''return'', ''enter''], 0xff0d, 36), ([''escape'', ''esc''], 0xff1b, 9), ([''tab''], 0xff09, 23),
      ([''backspace''], 0xff08, 22), ([''delete'', ''del''], 0xffff, 119), ([''space''], 0x0020, 65),
      ([''up'', ''arrow_up''], 0xff52, 111), ([''down'', ''arrow_down''], 0xff54, 116),
      ([''left'', ''arrow_left''], 0xff51, 113), ([''right'', ''arrow_right''], 0xff53, 114),
      ([''home''], 0xff50, 110), ([''end''], 0xff57, 115), ([''page_up'', ''pageup''], 0xff55, 112),
      ([''page_down'', ''pagedown''], 0xff56, 117), ([''insert''], 0xff63, 118), ([''f1''], 0xffbe, 67),
      ([''f2''], 0xffbf, 68), ([''f3''], 0xffc0, 69), ([''f4''], 0xffc1, 70), ([''f5''], 0xffc2, 71),
      ([''f6''], 0xffc3, 72), ([''f7''], 0xffc4, 73), ([''f8''], 0xffc5, 74), ([''f9''], 0xffc6, 75),
      ([''f10''], 0xffc7, 76), ([''f11''], 0xffc8, 95), ([''f12''], 0xffc9, 96)]"

definition resolve_key_name :: "rstr \<Rightarrow> (u32 \<times> u32) option" where
  "resolve_key_name name =
     (case name of
        [c] \<Rightarrow> if (0x20 :: nat) \<le> of_char c \<and> (of_char c :: nat) \<le> 0x7E then Some (of_char c, 0) else None
      | _ \<Rightarrow> map_option (\<lambda>(_, k, c). (word_of_nat k, word_of_nat c))
               (find (\<lambda>(ns, _). ascii_lowercase name \<in> set ns) named_keys))"

text \<open>\<open>panel\<close>, \<open>surface\<close> or the focused panel, as most of these handlers resolve it.\<close>

definition handle_surface_send_key :: "sock_env \<Rightarrow> json \<Rightarrow> server \<Rightarrow> outcome" where
  "handle_surface_send_key e params sv =
     (case param_str ''key'' params of
        None \<Rightarrow> (sv, RErr ''invalid_params''
          (''Provide '' @ quoted ''key'' @ '' (e.g. '' @ quoted ''c'' @ '', '' @ quoted ''Return'' @ '', '' @ quoted ''Escape'' @ '')''))
      | Some name \<Rightarrow>
          (case resolve_key_name name of
             None \<Rightarrow> (sv, RErr ''invalid_params'' (''Unknown key name: '' @ quoted name))
           | Some (keyval, keycode) \<Rightarrow>
               on_panel_id e params sv (\<lambda>p. fire (UiSendKey p keyval keycode (mods_of params)) (jflag ''sent'') sv)))"

definition handle_surface_read_text :: "sock_env \<Rightarrow> json \<Rightarrow> server \<Rightarrow> outcome" where
  "handle_surface_read_text e params sv =
     on_panel_id e params sv (\<lambda>p.
       (let scrollback = or_default False (param_bool ''scrollback'' params);
            n = Option.bind (json_field ''lines'' params) as_u64;
            (sv', sent) = send_ui_event (UiReadText p scrollback n) sv
        in case (if sent then se_read_text e p scrollback n else None) of
             Some (Some t) \<Rightarrow> (sv', ROk (JObj [(''text'', JStr t)]))
           | Some None \<Rightarrow> (sv', RErr ''not_found'' ''Surface not ready or not found'')
           | None \<Rightarrow> (sv', RErr ''internal'' ''GTK thread did not reply'')))"

section \<open>Actions on a surface\<close>

definition handle_surface_action :: "sock_env \<Rightarrow> json \<Rightarrow> server \<Rightarrow> outcome" where
  "handle_surface_action e params sv =
     on_panel_id e params sv (\<lambda>p.
       case param_str ''action'' params of
         None \<Rightarrow> (sv, need [''action''])
       | Some action \<Rightarrow>
           if action = ''toggle_zoom''
           then (case find_workspace_with_panel p (tabs sv) of
                   None \<Rightarrow> (sv, RErr ''not_found'' ''Panel not found'')
                 | Some ws \<Rightarrow>
                     (let z = (if ws_zoomed_panel_id ws = Some p then None else Some p)
                      in (notify_ui_refresh (set_tabs (edit_holder p (\<lambda>ws. ws\<lparr> ws_zoomed_panel_id := z \<rparr>) (tabs sv)) sv),
                          ROk (JObj [(''zoomed'', JBool (z \<noteq> None))]))))
           else if action = ''clear_screen'' then fire (UiClearHistory p) (jflag ''cleared'') sv
           else if action = ''refresh'' then fire (UiRefreshSurface p) (jflag ''refreshed'') sv
           else if action = ''flash'' then fire (UiTriggerFlash p) (jflag ''flashed'') sv
           else (sv, RErr ''invalid_params'' ''Unknown action. Use: toggle_zoom, clear_screen, refresh, flash''))"

definition handle_surface_health :: "sock_env \<Rightarrow> json \<Rightarrow> server \<Rightarrow> outcome" where
  "handle_surface_health e params sv =
     on_panel_id e params sv (\<lambda>p.
       (let exists = find_workspace_with_panel p (tabs sv) \<noteq> None
        in (sv, ROk (JObj [(''panel_id'', juuid p), (''exists'', JBool exists), (''healthy'', JBool exists)]))))"

definition handle_surface_refresh :: "sock_env \<Rightarrow> json \<Rightarrow> server \<Rightarrow> outcome" where
  "handle_surface_refresh e params sv =
     on_panel_id e params sv (\<lambda>p. fire (UiRefreshSurface p) (jflag ''refreshed'') sv)"

definition handle_surface_clear_history :: "sock_env \<Rightarrow> json \<Rightarrow> server \<Rightarrow> outcome" where
  "handle_surface_clear_history e params sv =
     on_panel_id e params sv (\<lambda>p. fire (UiClearHistory p) (jflag ''cleared'') sv)"

definition handle_surface_trigger_flash :: "sock_env \<Rightarrow> json \<Rightarrow> server \<Rightarrow> outcome" where
  "handle_surface_trigger_flash e params sv =
     on_panel_id e params sv (\<lambda>p. fire (UiTriggerFlash p) (jflag ''flashed'') sv)"

section \<open>Moving surfaces\<close>

text \<open>The panel is taken out of its workspace before the target is looked up.\<close>

definition handle_surface_move :: "sock_env \<Rightarrow> json \<Rightarrow> server \<Rightarrow> outcome" where
  "handle_surface_move e params sv =
     on_panel_id e params sv (\<lambda>p.
       case first_str [''workspace'', ''workspace_id''] params of
         None \<Rightarrow> (sv, RErr ''invalid_params'' (''Provide '' @ quoted ''workspace'' @ '' target UUID''))
       | Some s \<Rightarrow>
           (case se_parse e s of
              None \<Rightarrow> (sv, RErr ''invalid_params'' ''Invalid workspace UUID'')
            | Some t \<Rightarrow>
                (case find_workspace_with_panel p (tabs sv) of
                   None \<Rightarrow> (sv, RErr ''not_found'' ''Panel not found in any workspace'')
                 | Some src \<Rightarrow>
                     (if ws_id src = t
                      then (sv, RErr ''invalid_params'' ''Panel is already in the target workspace'')
                      else case take_panel (the_clock e) (ws_id src) p (tabs sv) of
                             (_, None) \<Rightarrow> (sv, RErr ''not_found'' ''Panel not found'')
                           | (tm, Some panel) \<Rightarrow>
                               (if tm_workspace t tm = None
                                then (set_tabs tm sv, RErr ''not_found'' ''Target workspace not found'')
                                else (notify_ui_refresh (set_tabs
                                        (edit_workspace t (\<lambda>w. fst (insert_panel panel (orientation_param params) w)) tm) sv),
                                      moved_reply ''moved'' p t))))))"

definition handle_surface_reorder :: "sock_env \<Rightarrow> json \<Rightarrow> server \<Rightarrow> outcome" where
  "handle_surface_reorder e params sv =
     on_panel_id e params sv (\<lambda>p.
       case Option.bind (json_field ''index'' params) as_u64 of
         None \<Rightarrow> (sv, RErr ''invalid_params'' (''Provide '' @ quoted ''index'' @ '' (integer)''))
       | Some i \<Rightarrow>
           (case find_workspace_with_panel p (tabs sv) of
              None \<Rightarrow> (sv, RErr ''not_found'' ''Panel not found in any workspace'')
            | Some ws \<Rightarrow>
                (let f = in_layout (reorder_panel_in_pane p i); sv' = set_tabs (edit_holder p (\<lambda>w. fst (f w)) (tabs sv)) sv
                 in if snd (f ws)
                    then (notify_ui_refresh sv',
                          ROk (JObj [(''panel_id'', juuid p), (''index'', JInt (int i)), (''reordered'', JBool True)]))
                    else (sv', RErr ''not_found'' ''Panel not found in any pane''))))"

text \<open>The new panel joins the focused pane; without one it becomes the whole layout.\<close>

definition add_focused :: "panel \<Rightarrow> workspace \<Rightarrow> workspace" where
  "add_focused q ws =
     (let (l, added) = (case ws_focused_panel_id ws of
              Some f \<Rightarrow> add_panel_to_pane f (p_id q) (ws_layout ws) | None \<Rightarrow> (ws_layout ws, False))
      in ws\<lparr> ws_panels := AList.update (p_id q) q (ws_panels ws),
             ws_layout := (if added then l else single_pane (p_id q)),
             ws_previous_focused_panel_id := ws_focused_panel_id ws,
             ws_focused_panel_id := Some (p_id q) \<rparr>)"

definition handle_surface_create :: "json \<Rightarrow> server \<Rightarrow> outcome" where
  "handle_surface_create params sv =
     (let p = next_id sv;
          q = (if param_str ''type'' params = Some ''browser''
               then (new_browser p)\<lparr> p_browser_url := param_str ''url'' params \<rparr> else new_terminal p)
      in on_selected sv (\<lambda>_.
           (notify_ui_refresh (draw 1 (set_tabs (edit_selected (add_focused q) (tabs sv)) sv)),
            ROk (JObj [(''panel_id'', juuid p), (''created'', JBool True)]))))"

definition handle_surface_drag_to_split :: "sock_env \<Rightarrow> json \<Rightarrow> server \<Rightarrow> outcome" where
  "handle_surface_drag_to_split e params sv =
     on_panel_id e params sv (\<lambda>p. on_direction params sv (\<lambda>d.
       case find_workspace_with_panel p (tabs sv) of
         None \<Rightarrow> (sv, RErr ''not_found'' ''Panel not found in any workspace'')
       | Some ws \<Rightarrow>
           (if length (ws_panels ws) < 2
            then (sv, RErr ''invalid_params'' ''Need at least 2 panels to drag to split'')
            else
             (let sv' = set_tabs (edit_holder p (\<lambda>w. fst (drag_to_split p d w)) (tabs sv)) sv
              in if snd (drag_to_split p d ws)
                 then (notify_ui_refresh sv', ROk (JObj [(''panel_id'', juuid p),
                         (''direction'', JStr (or_default [] (param_str ''direction'' params))), (''moved'', JBool True)]))
                 else (sv', RErr ''not_found'' ''Could not split panel'')))))"

section \<open>Tabs\<close>

definition tabs_to_close :: "rstr \<Rightarrow> uuid \<Rightarrow> uuid list \<Rightarrow> uuid list" where
  "tabs_to_close action p ps =
     (let pos = or_default 0 (position (\<lambda>i. i = p) ps)
      in if action = ''close_left'' then take pos ps
         else if action = ''close_right'' then drop (pos + 1) ps
         else filter (\<lambda>i. i \<noteq> p) ps)"

definition close_tabs :: "uuid \<Rightarrow> uuid list \<Rightarrow> workspace \<Rightarrow> workspace" where
  "close_tabs p doomed ws =
     (let ws = fold (\<lambda>i ws. ws\<lparr> ws_panels := AList.delete i (ws_panels ws),
                               ws_layout := fst (remove_panel i (ws_layout ws)) \<rparr>) doomed ws
      in case ws_focused_panel_id ws of
           Some f \<Rightarrow> if f \<in> set doomed then ws\<lparr> ws_focused_panel_id := Some p \<rparr> else ws
         | None \<Rightarrow> ws)"

definition add_duplicate :: "uuid \<Rightarrow> uuid \<Rightarrow> workspace \<Rightarrow> workspace" where
  "add_duplicate p new ws =
     ws\<lparr> ws_panels := AList.update new (new_terminal new) (ws_panels ws),
         ws_layout := fst (add_panel_to_pane p new (ws_layout ws)),
         ws_previous_focused_panel_id := ws_focused_panel_id ws,
         ws_focused_panel_id := Some new \<rparr>"

definition edit_tab :: "uuid \<Rightarrow> (panel \<Rightarrow> panel) \<Rightarrow> server \<Rightarrow> outcome" where
  "edit_tab p f sv =
     (notify_ui_refresh (set_tabs (edit_holder p (\<lambda>ws. ws\<lparr> ws_panels := modify_panel p f (ws_panels ws) \<rparr>) (tabs sv)) sv),
      ok_true)"

definition unknown_tab_action :: rstr where
  "unknown_tab_action =
     ''Unknown action. Use: rename, clear_name, close_left, close_right, close_others, pin, unpin, mark_read, mark_unread, duplicate''"

definition tab_action :: "sock_env \<Rightarrow> rstr \<Rightarrow> uuid \<Rightarrow> workspace \<Rightarrow> json \<Rightarrow> server \<Rightarrow> outcome" where
  "tab_action e action p ws params sv =
     (if action = ''rename''
      then (case param_str ''title'' params of
              None \<Rightarrow> (sv, RErr ''invalid_params'' (''rename requires '' @ quoted ''title''))
            | Some t \<Rightarrow> edit_tab p (\<lambda>q. q\<lparr> p_custom_title := Some (truncate_str t MAX_TITLE_LEN) \<rparr>) sv)
      else if action = ''clear_name'' then edit_tab p (\<lambda>q. q\<lparr> p_custom_title := None \<rparr>) sv
      else if action \<in> {''close_left'', ''close_right'', ''close_others''}
      then (case find_pane_readonly p (ws_layout ws) of
              None \<Rightarrow> (sv, RErr ''not_found'' ''Panel not in any pane'')
            | Some ps \<Rightarrow>
                (let doomed = tabs_to_close action p ps;
                     tm = edit_holder p (close_tabs p doomed) (tabs sv);
                     tm = (if ws_is_empty (close_tabs p doomed ws) then fst (remove_by_id (the_clock e) (ws_id ws) tm) else tm)
                 in (notify_ui_refresh (set_tabs tm sv), ROk (JObj [(''closed'', JInt (int (length doomed)))]))))
      else if action = ''pin'' then edit_tab p (\<lambda>q. q\<lparr> p_is_pinned := True \<rparr>) sv
      else if action = ''unpin'' then edit_tab p (\<lambda>q. q\<lparr> p_is_pinned := False \<rparr>) sv
      else if action = ''mark_read'' then edit_tab p (\<lambda>q. q\<lparr> p_is_manually_unread := False \<rparr>) sv
      else if action = ''mark_unread'' then edit_tab p (\<lambda>q. q\<lparr> p_is_manually_unread := True \<rparr>) sv
      else if action = ''duplicate''
      then (notify_ui_refresh (draw 1 (set_tabs (edit_holder p (add_duplicate p (next_id sv)) (tabs sv)) sv)),
            ROk (JObj [(''panel_id'', juuid (next_id sv)), (''duplicated'', JBool True)]))
      else (sv, RErr ''invalid_params'' unknown_tab_action))"

definition handle_tab_action :: "sock_env \<Rightarrow> json \<Rightarrow> server \<Rightarrow> outcome" where
  "handle_tab_action e params sv =
     on_panel_id e params sv (\<lambda>p.
       case param_str ''action'' params of
         None \<Rightarrow> (sv, need [''action''])
       | Some action \<Rightarrow>
           (case find_workspace_with_panel p (tabs sv) of
              None \<Rightarrow> (sv, RErr ''not_found'' ''Panel not found in any workspace'')
            | Some ws \<Rightarrow> tab_action e action p ws params sv))"

end
