(* ===== verification/Socket_Misc.thy ===== *)
theory Socket_Misc imports Socket_Surface begin

text \<open>
  The remaining small handlers: groups, notifications, windows, sidebar, files, application windows and the
  panels of the browser (\<open>group.rs\<close>, \<open>notification.rs\<close>, \<open>window.rs\<close>, \<open>sidebar.rs\<close>, \<open>markdown.rs\<close>, \<open>file.rs\<close> and
  \<open>system.rs\<close> in \<open>jmux/src/socket/v2\<close>, the tab handlers of \<open>socket/browser/tabs.rs\<close>). The sound of a
  notification and the process list are left out.
\<close>

section \<open>Groups\<close>

definition refresh_if :: "tab_manager \<times> bool \<Rightarrow> rstr \<Rightarrow> server \<Rightarrow> outcome" where
  "refresh_if r missing sv =
     (if snd r then (notify_ui_refresh (set_tabs (fst r) sv), ok_true)
      else (set_tabs (fst r) sv, RErr ''not_found'' missing))"

definition on_group :: "sock_env \<Rightarrow> json \<Rightarrow> server \<Rightarrow> (uuid \<Rightarrow> outcome) \<Rightarrow> outcome" where
  "on_group e params sv k =
     (case first_uuid e [''group'', ''group_id''] params of
        None \<Rightarrow> (sv, RErr ''invalid_params'' ''Invalid group UUID'')
      | Some g \<Rightarrow> k g)"

definition handle_group_create :: "json \<Rightarrow> server \<Rightarrow> outcome" where
  "handle_group_create params sv =
     (let name = or_default ''New Group'' (opt_filter (\<lambda>s. trim s \<noteq> []) (param_str ''name'' params));
          win = Option.bind (tm_selected (tabs sv)) ws_window_id;
          (tm, g) = create_group (next_id sv) name win (tabs sv)
      in (notify_ui_refresh (draw 1 (set_tabs tm sv)), ROk (JObj [(''group_id'', juuid g)])))"

definition group_json :: "tab_manager \<Rightarrow> workspace_group \<Rightarrow> json" where
  "group_json tm g =
     JObj [(''id'', juuid (wg_id g)), (''name'', JStr (wg_name g)), (''color'', json_opt_str (wg_color g)),
           (''collapsed'', JBool (wg_collapsed g)), (''unread_count'', JInt (uint (group_unread_count (wg_id g) tm))),
           (''workspace_ids'', JArr (map (\<lambda>w. juuid (ws_id w))
              (filter (\<lambda>w. ws_group_id w = Some (wg_id g)) (tm_workspaces tm))))]"

definition handle_group_list :: "server \<Rightarrow> outcome" where
  "handle_group_list sv =
     (sv, ROk (JObj [(''groups'', JArr (map (group_json (tabs sv)) (tm_groups (tabs sv))))]))"

definition handle_group_assign :: "sock_env \<Rightarrow> json \<Rightarrow> server \<Rightarrow> outcome" where
  "handle_group_assign e params sv =
     on_workspace_param e params sv (\<lambda>w.
       case or_else w (tm_selected_id (tabs sv)) of
         None \<Rightarrow> (sv, RErr ''not_found'' ''No workspace specified'')
       | Some i \<Rightarrow>
           (case (case first_key [''group'', ''group_id''] params of
                    None \<Rightarrow> Some None
                  | Some JNull \<Rightarrow> Some None
                  | Some v \<Rightarrow> map_option Some (Option.bind (as_str v) (se_parse e))) of
              None \<Rightarrow> (sv, RErr ''invalid_params'' ''Invalid group UUID'')
            | Some g \<Rightarrow> refresh_if (assign_to_group i g (tabs sv)) ''Workspace or group not found'' sv))"

definition handle_group_rename :: "sock_env \<Rightarrow> json \<Rightarrow> server \<Rightarrow> outcome" where
  "handle_group_rename e params sv =
     on_group e params sv (\<lambda>g.
       case param_str ''name'' params of
         None \<Rightarrow> (sv, need [''name''])
       | Some name \<Rightarrow> refresh_if (rename_group g name (tabs sv)) ''Group not found'' sv)"

definition handle_group_collapse :: "sock_env \<Rightarrow> json \<Rightarrow> server \<Rightarrow> outcome" where
  "handle_group_collapse e params sv =
     on_group e params sv (\<lambda>g.
       let (tm, c) = set_group_collapsed g (param_bool ''collapsed'' params) (tabs sv) in
       case c of
         Some b \<Rightarrow> (notify_ui_refresh (set_tabs tm sv), ROk (JObj [(''collapsed'', JBool b)]))
       | None \<Rightarrow> (set_tabs tm sv, RErr ''not_found'' ''Group not found''))"

definition handle_group_color :: "sock_env \<Rightarrow> json \<Rightarrow> server \<Rightarrow> outcome" where
  "handle_group_color e params sv =
     on_group e params sv (\<lambda>g.
       refresh_if (set_group_color g (opt_filter (\<lambda>s. s \<noteq> []) (param_str ''color'' params)) (tabs sv)) ''Group not found'' sv)"

definition handle_group_delete :: "sock_env \<Rightarrow> json \<Rightarrow> server \<Rightarrow> outcome" where
  "handle_group_delete e params sv =
     on_group e params sv (\<lambda>g. refresh_if (remove_group g (tabs sv)) ''Group not found'' sv)"

section \<open>Notifications\<close>

text \<open>The workspace a notification is for.\<close>

definition note_target :: "uuid option \<Rightarrow> uuid option \<Rightarrow> tab_manager \<Rightarrow> rstr + uuid" where
  "note_target w p tm =
     (case w of
        Some i \<Rightarrow> if tm_workspace i tm \<noteq> None then Inr i else Inl ''Workspace not found''
      | None \<Rightarrow>
          (case (case p of
                   Some q \<Rightarrow> map_option ws_id (find_workspace_with_panel q tm)
                 | None \<Rightarrow> tm_selected_id tm) of
             Some i \<Rightarrow> Inr i | None \<Rightarrow> Inl ''No workspace selected''))"

definition raise_workspace :: "uuid \<Rightarrow> tab_manager \<Rightarrow> tab_manager" where
  "raise_workspace w tm =
     (case workspace_index w tm of
        None \<Rightarrow> tm
      | Some i \<Rightarrow>
          (let first_unpinned = or_default 0 (position (\<lambda>ws. \<not> ws_is_pinned ws) (tm_workspaces tm))
           in if first_unpinned < i then fst (move_workspace i first_unpinned tm) else tm))"

definition is_codex :: "panel \<Rightarrow> bool" where
  "is_codex p \<longleftrightarrow> detect_agent_resume_command (p_title p) (p_command p) = Some ''codex''"

definition store_note :: "sock_env \<Rightarrow> rstr \<Rightarrow> rstr \<Rightarrow> uuid \<Rightarrow> uuid option \<Rightarrow> bool \<Rightarrow> bool \<Rightarrow> server \<Rightarrow> server" where
  "store_note e title body w p desktop retain sv =
     (let (ns, _, d) = add_with_retain (next_id sv) (en_time (se_env e)) title body (Some w) p desktop retain (sh_notes (sv_sh sv));
          sv = draw 1 (set_notes ns sv)
      in case d of Some (t, b) \<Rightarrow> sv\<lparr> sv_sh := act (Desktop t b) (sv_sh sv) \<rparr> | None \<Rightarrow> sv)"

definition handle_notification_create :: "sock_env \<Rightarrow> json \<Rightarrow> server \<Rightarrow> outcome" where
  "handle_notification_create e params sv =
     (let title = truncate_str (or_default ''jmux'' (param_str ''title'' params)) 1024;
          body = truncate_str (or_default [] (param_str ''body'' params)) 8192
      in on_workspace_param e params sv (\<lambda>w.
        case explicit_id e [''surface'', ''panel''] ''surface/panel must be a string''
               ''Invalid surface/panel UUID format'' params of
          Inl r \<Rightarrow> (sv, r)
        | Inr p \<Rightarrow>
            (case note_target w p (tabs sv) of
               Inl m \<Rightarrow> (sv, RErr ''not_found'' m)
             | Inr i \<Rightarrow>
                 (let panels = (case tm_workspace i (tabs sv) of Some ws \<Rightarrow> ws_panels ws | None \<Rightarrow> []);
                      p = opt_filter (\<lambda>q. has_key q panels) p;
                      panel = Option.bind p (map_of panels)
                  in if Option.bind panel p_parent_panel_id \<noteq> None
                     then (sv, ROk (JObj [(''notified'', JBool False), (''suppressed'', JBool True),
                             (''reason'', JStr ''nested_agent_panel''), (''workspace'', juuid i),
                             (''workspace_id'', juuid i), (''surface'', jopt juuid p)]))
                     else
                      (let sv = set_tabs (edit_workspace i (record_notification (en_time (se_env e)) title body p) (tabs sv)) sv;
                           sv = store_note e title body i p (or_default True (param_bool ''send_desktop'' params))
                                  (case panel of Some q \<Rightarrow> is_codex q | None \<Rightarrow> False) sv;
                           sv = (if se_reorder_on_notification e then set_tabs (raise_workspace i (tabs sv)) sv else sv)
                       in (notify_ui_refresh sv,
                           ROk (JObj [(''notified'', JBool True), (''workspace'', juuid i), (''workspace_id'', juuid i),
                                      (''surface'', jopt juuid p)])))))))"

definition note_json :: "notification \<Rightarrow> json" where
  "note_json n =
     JObj [(''id'', juuid (nt_id n)), (''title'', JStr (nt_title n)), (''body'', JStr (nt_body n)),
           (''workspace_id'', jopt juuid (nt_source_workspace_id n)), (''panel_id'', jopt juuid (nt_source_panel_id n)),
           (''timestamp'', JNum (nt_timestamp n)), (''is_read'', JBool (nt_is_read n))]"

definition handle_notification_list :: "json \<Rightarrow> server \<Rightarrow> outcome" where
  "handle_notification_list params sv =
     (let unread_only = or_default False (param_bool ''unread'' params);
          ns = filter (\<lambda>n. \<not> unread_only \<or> \<not> nt_is_read n) (sh_notes (sv_sh sv))
      in (sv, ROk (JObj [(''notifications'', JArr (map note_json ns)), (''count'', JInt (int (length ns)))])))"

definition handle_notification_clear :: "server \<Rightarrow> outcome" where
  "handle_notification_clear sv =
     (notify_ui_refresh (set_notes (clear_notifications (sh_notes (sv_sh sv))) sv), ok_true)"

definition on_note_id :: "sock_env \<Rightarrow> json \<Rightarrow> server \<Rightarrow> (uuid \<Rightarrow> outcome) \<Rightarrow> outcome" where
  "on_note_id e params sv k =
     (case param_str ''id'' params of
        None \<Rightarrow> (sv, RErr ''invalid_params'' ''Missing notification id'')
      | Some s \<Rightarrow>
          (case se_parse e s of
             None \<Rightarrow> (sv, RErr ''invalid_params'' ''Invalid notification UUID'')
           | Some i \<Rightarrow> k i))"

definition handle_notification_mark_read :: "sock_env \<Rightarrow> json \<Rightarrow> server \<Rightarrow> outcome" where
  "handle_notification_mark_read e params sv =
     on_note_id e params sv (\<lambda>i. (notify_ui_refresh (set_notes (mark_read i (sh_notes (sv_sh sv))) sv), ok_true))"

definition handle_notification_dismiss :: "sock_env \<Rightarrow> json \<Rightarrow> server \<Rightarrow> outcome" where
  "handle_notification_dismiss e params sv =
     on_note_id e params sv (\<lambda>i.
       let (ns, removed) = dismiss i (or_default False (param_bool ''force'' params)) (sh_notes (sv_sh sv)) in
       if removed then (notify_ui_refresh (set_notes ns sv), ok_true)
       else (set_notes ns sv, RErr ''not_found'' ''Notification not found or protected''))"

definition handle_notification_open :: "sock_env \<Rightarrow> json \<Rightarrow> server \<Rightarrow> outcome" where
  "handle_notification_open e params sv =
     on_note_id e params sv (\<lambda>i.
       case Option.bind (find (\<lambda>n. nt_id n = i) (sh_notes (sv_sh sv))) nt_source_workspace_id of
         None \<Rightarrow> (sv, RErr ''not_found'' ''Notification not found or has no source workspace'')
       | Some w \<Rightarrow>
           (case workspace_index w (tabs sv) of
              None \<Rightarrow> (sv, RErr ''not_found'' ''Source workspace no longer exists'')
            | Some idx \<Rightarrow>
                (notify_ui_refresh (set_notes (mark_read i (sh_notes (sv_sh sv))) (set_tabs (fst (tm_select idx (tabs sv))) sv)),
                 ROk (JObj [(''ok'', JBool True), (''workspace_id'', juuid w)]))))"

section \<open>Windows and sidebar\<close>

definition handle_window_new :: "server \<Rightarrow> outcome" where
  "handle_window_new sv = fire UiCreateWindow (jflag ''created'') sv"

definition handle_window_displays :: "sock_env \<Rightarrow> server \<Rightarrow> outcome" where
  "handle_window_displays e sv =
     (let (sv', sent) = send_ui_event UiListDisplays sv in
      if \<not> sent then (sv', RErr ''no_window'' ''No window to query displays from'')
      else case se_displays e of
        Some names \<Rightarrow> (sv', ROk (JObj [(''displays'', JArr (map JStr names))]))
      | None \<Rightarrow> (sv', RErr ''internal'' ''GTK thread did not reply''))"

definition handle_window_display :: "sock_env \<Rightarrow> json \<Rightarrow> server \<Rightarrow> outcome" where
  "handle_window_display e params sv =
     (case param_str ''monitor'' params of
        None \<Rightarrow> (sv, RErr ''invalid_params'' (''Provide '' @ quoted ''monitor'' @ '' (name or index)''))
      | Some m \<Rightarrow>
          (let (sv', sent) = send_ui_event (UiWindowToDisplay m) sv in
           if \<not> sent then (sv', RErr ''no_window'' ''No window to place'')
           else case se_to_display e m of
             Some (Inr l) \<Rightarrow> (sv', ROk (JObj [(''display'', JStr l)]))
           | Some (Inl msg) \<Rightarrow> (sv', RErr ''not_found'' msg)
           | None \<Rightarrow> (sv', RErr ''internal'' ''GTK thread did not reply'')))"

definition handle_window_list :: "server \<Rightarrow> outcome" where
  "handle_window_list sv =
     (sv, ROk (JObj [(''windows'', JArr (map (\<lambda>(i, w). JObj [(''id'', juuid w), (''focused'', JBool (i = 0))])
        (enumerate 0 (window_ids sv))))]))"

definition handle_window_current :: "server \<Rightarrow> outcome" where
  "handle_window_current sv =
     (case head_opt (window_ids sv) of
        Some w \<Rightarrow> (sv, ROk (JObj [(''id'', juuid w), (''focused'', JBool True)]))
      | None \<Rightarrow> (sv, RErr ''no_window'' ''No windows available''))"

definition handle_window_focus :: "sock_env \<Rightarrow> json \<Rightarrow> server \<Rightarrow> outcome" where
  "handle_window_focus e params sv =
     (case first_uuid e [''id''] params of
        Some w \<Rightarrow> (fst (send_ui_event_to w UiRefresh sv), ROk (jflag ''focused''))
      | None \<Rightarrow> fire UiRefresh (jflag ''focused'') sv)"

definition handle_window_close :: "sock_env \<Rightarrow> json \<Rightarrow> server \<Rightarrow> outcome" where
  "handle_window_close e params sv =
     (case param_str ''id'' params of
        None \<Rightarrow> (sv, RErr ''missing_param'' (''Missing '' @ quoted ''id'' @ '' parameter''))
      | Some s \<Rightarrow>
          (case se_parse e s of
             Some w \<Rightarrow> (sv\<lparr> sv_windows := AList.delete w (sv_windows sv) \<rparr>, ROk (jflag ''closed''))
           | None \<Rightarrow> (sv, RErr ''invalid_id'' ''Invalid window ID'')))"

definition handle_sidebar_show :: "server \<Rightarrow> outcome" where
  "handle_sidebar_show sv = fire (UiShowSidebar True) (jflag ''visible'') sv"

definition handle_sidebar_hide :: "server \<Rightarrow> outcome" where
  "handle_sidebar_hide sv = fire (UiShowSidebar False) (JObj [(''visible'', JBool False)]) sv"

definition handle_sidebar_toggle :: "server \<Rightarrow> outcome" where
  "handle_sidebar_toggle sv = fire UiToggleSidebar (jflag ''toggled'') sv"

definition handle_sidebar_status :: "server \<Rightarrow> outcome" where
  "handle_sidebar_status sv =
     (sv, ROk (JObj [(''workspace_count'', JInt (int (length (tm_workspaces (tabs sv)))))]))"

section \<open>Opening files\<close>

definition is_markdown :: "rstr \<Rightarrow> bool" where
  "is_markdown path \<longleftrightarrow>
     (\<exists>ext \<in> set [''.md'', ''.markdown'', ''.mdown'', ''.mkd'', ''.mdwn'']. ends_with ext (ascii_lowercase path))"

text \<open>A panel put beside the focused one or, without an orientation or a focus, into a pane.\<close>

definition place_panel :: "SplitOrientation option \<Rightarrow> panel \<Rightarrow> workspace \<Rightarrow> workspace" where
  "place_panel ori q ws =
     (let l = ws_layout ws;
          add = (\<lambda>t. fst (add_panel_to_pane t (p_id q) l));
          l' = (case (ori, ws_focused_panel_id ws) of
                  (Some d, Some f) \<Rightarrow>
                    (case update_pane (\<lambda>pane. split_node pane d (p_id q)) f l of Some l' \<Rightarrow> l' | None \<Rightarrow> add f)
                | (_, f) \<Rightarrow> (case or_else f (head_opt (all_panel_ids l)) of Some t \<Rightarrow> add t | None \<Rightarrow> l))
      in ws\<lparr> ws_panels := AList.update (p_id q) q (ws_panels ws), ws_layout := l',
             ws_previous_focused_panel_id := ws_focused_panel_id ws, ws_focused_panel_id := Some (p_id q) \<rparr>)"

text \<open>The named workspace or the selected one; without either the nil identifier, which no workspace has.\<close>

definition open_in :: "sock_env \<Rightarrow> json \<Rightarrow> server \<Rightarrow> (uuid \<Rightarrow> outcome) \<Rightarrow> outcome" where
  "open_in e params sv k =
     (case optional_uuid e params ''workspace_id'' of
        Inl r \<Rightarrow> (sv, r)
      | Inr w \<Rightarrow>
          (case Option.bind (or_else w (tm_selected_id (tabs sv))) (\<lambda>i. tm_workspace i (tabs sv)) of
             None \<Rightarrow> (sv, RErr ''not_found'' ''Workspace not found'')
           | Some ws \<Rightarrow> k (ws_id ws)))"

definition split_direction :: "rstr \<Rightarrow> SplitOrientation option" where
  "split_direction d =
     (if d \<in> {''right'', ''left'', ''horizontal''} then Some Horizontal
      else if d \<in> {''down'', ''up'', ''vertical''} then Some Vertical else None)"

definition opened_file :: "uuid \<Rightarrow> rstr \<Rightarrow> reply" where
  "opened_file p f = ROk (JObj [(''panel_id'', juuid p), (''file'', JStr f)])"

definition handle_markdown_open :: "sock_env \<Rightarrow> json \<Rightarrow> server \<Rightarrow> outcome" where
  "handle_markdown_open e params sv =
     (case param_str ''file'' params of
        None \<Rightarrow> (sv, need [''file''])
      | Some f \<Rightarrow>
          open_in e params sv (\<lambda>w.
            (notify_ui_refresh (draw 1 (set_tabs (edit_workspace w
               (place_panel (Option.bind (param_str ''direction'' params) split_direction) (new_markdown (next_id sv) f))
               (tabs sv)) sv)), opened_file (next_id sv) f)))"

definition file_panel :: "uuid \<Rightarrow> rstr \<Rightarrow> panel" where
  "file_panel i path = (if is_markdown path then new_markdown i path else new_file_preview i path)"

definition open_file :: "uuid \<Rightarrow> rstr \<Rightarrow> server \<Rightarrow> server" where
  "open_file w path sv =
     draw 1 (set_tabs (edit_workspace w (place_panel None (file_panel (next_id sv) path)) (tabs sv)) sv)"

definition handle_file_open :: "sock_env \<Rightarrow> json \<Rightarrow> server \<Rightarrow> outcome" where
  "handle_file_open e params sv =
     (case (case Option.bind (json_field ''paths'' params) as_array of
              Some vs \<Rightarrow> Some (List.map_filter as_str vs)
            | None \<Rightarrow> map_option (\<lambda>p. [p]) (first_str [''path'', ''file''] params)) of
        None \<Rightarrow> (sv, RErr ''invalid_params'' (''Provide '' @ quoted ''paths'' @ '' or '' @ quoted ''path''))
      | Some paths \<Rightarrow>
          (if paths = [] then (sv, RErr ''invalid_params'' ''No file paths provided'')
           else open_in e params sv (\<lambda>w.
             (notify_ui_refresh (fold (open_file w) paths sv),
              ROk (JObj [(''panel_ids'', JArr (map juuid [next_id sv ..< next_id sv + length paths])),
                         (''count'', JInt (int (length paths)))])))))"

definition handle_notes_open :: "sock_env \<Rightarrow> json \<Rightarrow> server \<Rightarrow> outcome" where
  "handle_notes_open e params sv =
     (let f = or_default (se_notes_path e) (opt_filter (\<lambda>s. s \<noteq> []) (param_str ''file'' params));
          d = param_str ''direction'' params;
          ori = (if d = Some ''tab'' then None
                 else if d \<in> {Some ''down'', Some ''up'', Some ''vertical''} then Some Vertical else Some Horizontal)
      in open_in e params sv (\<lambda>w.
           (notify_ui_refresh (draw 1 (set_tabs (edit_workspace w (place_panel ori (new_notes (next_id sv) f)) (tabs sv)) sv)),
            opened_file (next_id sv) f)))"

section \<open>The application\<close>

definition handle_system_ping :: "server \<Rightarrow> outcome" where
  "handle_system_ping sv = (sv, ROk (jflag ''pong''))"

definition handle_system_identify :: "sock_env \<Rightarrow> server \<Rightarrow> outcome" where
  "handle_system_identify e sv =
     (sv, ROk (JObj [(''app'', JStr ''jmux''), (''platform'', JStr ''linux''), (''version'', JStr (se_version e))]))"

definition handle_system_tree :: "server \<Rightarrow> outcome" where
  "handle_system_tree sv =
     (sv, ROk (JObj [(''workspaces'', JArr (map (\<lambda>(i, ws).
        JObj [(''index'', JInt (int i)), (''id'', juuid (ws_id ws)), (''title'', JStr (ws_display_title ws)),
              (''selected'', JBool (tm_selected_index (tabs sv) = Some i)),
              (''layout'', to_json_tree (ws_panels ws) (ws_layout ws))])
        (enumerate 0 (tm_workspaces (tabs sv)))))]))"

definition handle_open_task_manager :: "server \<Rightarrow> outcome" where
  "handle_open_task_manager sv = fire UiOpenTaskManager (jflag ''opened'') sv"

definition handle_overview :: "server \<Rightarrow> outcome" where
  "handle_overview sv = fire UiOpenOverview (jflag ''opened'') sv"

definition handle_command_palette :: "server \<Rightarrow> outcome" where
  "handle_command_palette sv = fire UiOpenCommandPalette (jflag ''opened'') sv"

definition handle_dock :: "server \<Rightarrow> outcome" where
  "handle_dock sv = fire UiShowDock (jflag ''opened'') sv"

definition handle_quick_terminal :: "json \<Rightarrow> server \<Rightarrow> outcome" where
  "handle_quick_terminal params sv =
     (let action = or_default ''toggle'' (param_str ''action'' params)
      in if action \<in> {''show'', ''hide'', ''toggle''} then fire (UiQuickTerminal action) (jflag ''ok'') sv
         else (sv, RErr ''invalid_params'' (''Unknown action: '' @ action)))"

definition handle_run_command :: "json \<Rightarrow> server \<Rightarrow> outcome" where
  "handle_run_command params sv =
     (case param_str ''name'' params of
        None \<Rightarrow> (sv, need [''name''])
      | Some n \<Rightarrow> fire (UiRunCustomCommand n) (JObj [(''ran'', JStr n)]) sv)"

section \<open>Browser panels\<close>

definition require_panel_id :: "sock_env \<Rightarrow> json \<Rightarrow> server \<Rightarrow> (uuid \<Rightarrow> outcome) \<Rightarrow> outcome" where
  "require_panel_id e params sv k =
     (case explicit_id e [''panel'', ''surface'', ''panel_id''] ''panel must be a string UUID''
             ''Invalid panel UUID format'' params of
        Inl r \<Rightarrow> (sv, r)
      | Inr None \<Rightarrow> (sv, RErr ''invalid_params'' (''Provide '' @ quoted ''panel'' @ '' UUID''))
      | Inr (Some p) \<Rightarrow> k p)"

definition handle_tab_new :: "json \<Rightarrow> server \<Rightarrow> outcome" where
  "handle_tab_new params sv =
     (let url = or_default ''about:blank'' (param_str ''url'' params); p = next_id sv
      in on_selected sv (\<lambda>_.
           (notify_ui_refresh (draw 1 (set_tabs (edit_selected (\<lambda>ws.
              (let ws = fst (ws_split Horizontal Browser p ws)
               in ws\<lparr> ws_panels := modify_panel p (\<lambda>q. q\<lparr> p_browser_url := Some url, p_directory := Some url \<rparr>) (ws_panels ws) \<rparr>))
              (tabs sv)) sv)), panel_reply p)))"

definition handle_tab_list :: "server \<Rightarrow> outcome" where
  "handle_tab_list sv =
     (sv, ROk (JObj [(''tabs'', JArr (concat (map (\<lambda>ws.
        map (\<lambda>(_, q). JObj [(''panel_id'', juuid (p_id q)), (''workspace_id'', juuid (ws_id ws)),
               (''url'', JStr (or_default [] (p_browser_url q))),
               (''title'', JStr (or_default [] (or_else (p_title q) (p_custom_title q))))])
          (filter (\<lambda>(_, q). p_panel_type q = Browser) (ws_panels ws))) (tm_workspaces (tabs sv)))))]))"

definition handle_tab_switch :: "sock_env \<Rightarrow> json \<Rightarrow> server \<Rightarrow> outcome" where
  "handle_tab_switch e params sv =
     require_panel_id e params sv (\<lambda>p.
       case find_workspace_with_panel p (tabs sv) of
         None \<Rightarrow> (sv, RErr ''not_found'' ''Panel not found'')
       | Some ws \<Rightarrow>
           (notify_ui_refresh (set_tabs (fst (select_by_id (ws_id ws)
              (edit_holder p (\<lambda>ws. fst (focus_panel p ws)) (tabs sv)))) sv), ok_true))"

definition handle_tab_close :: "sock_env \<Rightarrow> json \<Rightarrow> server \<Rightarrow> outcome" where
  "handle_tab_close e params sv =
     require_panel_id e params sv (\<lambda>p. refresh_if (close_panel (the_clock e) p (tabs sv)) ''Panel not found'' sv)"

end
