(* ===== verification/Socket_Goal.thy ===== *)
theory Socket_Goal imports Socket_Core begin

text \<open>
  The handlers of goals and graphs (\<open>goal.rs\<close> and \<open>graph.rs\<close> in \<open>jmux/src/socket/v2\<close>) and the resolution of a
  goal's source (\<open>resolve_goal_source\<close> in \<open>jmux/src/goal/mod.rs\<close>), over the operations of \<open>Goal_Runs\<close> and
  \<open>Graph_Ops\<close>. The JSON of a graph is what serde derives from its types. Files are looked at in the history so
  far; \<open>se_is_dir\<close> and \<open>se_read_error\<close> are the file system's other answers.
\<close>

section \<open>Paths\<close>

text \<open>\<open>Path::parent\<close> and \<open>Path::file_stem\<close>.\<close>

function trim_path :: "rstr \<Rightarrow> rstr" where
  "trim_path s =
     (if ends_with ''/.'' s then trim_path (take (length s - 1) s)
      else if ends_with ''/'' s \<and> 1 < length s then trim_path (take (length s - 1) s)
      else s)"
  by pat_completeness auto
termination
proof (relation "measure length")
  fix s assume "ends_with ''/.'' s"
  then have "s \<noteq> []" by (auto simp: ends_with_def starts_with_def)
  then show "(take (length s - 1) s, s) \<in> measure length" by simp
qed auto

declare trim_path.simps [simp del]

definition path_parent :: "rstr \<Rightarrow> rstr option" where
  "path_parent p =
     (let t = trim_path p in
      if t = [] \<or> t = ''/'' then None
      else (let parent = rev (dropWhile (\<lambda>c. c \<noteq> CHR ''/'') (rev t))
            in Some (trim_path parent)))"

definition file_stem :: "rstr \<Rightarrow> rstr option" where
  "file_stem p =
     map_option (\<lambda>n.
       (let before = rev (drop 1 (dropWhile (\<lambda>c. c \<noteq> CHR ''.'') (rev n))) in if before = [] then n else before))
       (file_name p)"

text \<open>The walk goes up at most as many steps as the path has bytes.\<close>

fun git_root :: "(rstr \<Rightarrow> bool) \<Rightarrow> nat \<Rightarrow> rstr \<Rightarrow> rstr option" where
  "git_root exists 0 d = (if exists (path_join d ''.git'') then Some d else None)"
| "git_root exists (Suc n) d =
     (if exists (path_join d ''.git'') then Some d
      else case path_parent d of None \<Rightarrow> None | Some d' \<Rightarrow> git_root exists n d')"

definition find_git_root :: "env \<Rightarrow> shared \<Rightarrow> rstr \<Rightarrow> rstr option" where
  "find_git_root env sh d = git_root (en_exists env (sh_log sh)) (Suc (length d)) d"

section \<open>The source of a goal\<close>

definition MAX_GOAL_BYTES :: nat where "MAX_GOAL_BYTES = 256 * 1024"

definition str_param :: "rstr \<Rightarrow> json \<Rightarrow> rstr option" where
  "str_param k params = opt_filter (\<lambda>s. s \<noteq> []) (map_option trim (param_str k params))"

definition write_inline_goal :: "env \<Rightarrow> rstr \<Rightarrow> rstr \<Rightarrow> shared \<Rightarrow> shared \<times> (rstr + rstr)" where
  "write_inline_goal env slug txt sh =
     (let dir = path_join (en_data_dir env) ''goal-texts'' in
      case try_io env (MakeDir dir) sh of
        (sh, Some m) \<Rightarrow> (sh, Inl (''cannot create '' @ en_debug env dir @ '': '' @ m))
      | (sh, None) \<Rightarrow>
          (let path = path_join dir (slug @ ''-'' @ show_nat (unat (en_epoch env)) @ ''.md'') in
           case try_io env (WriteFile path (trim_end txt @ nl)) sh of
             (sh, Some m) \<Rightarrow> (sh, Inl (''cannot write goal file: '' @ m))
           | (sh, None) \<Rightarrow> (sh, Inr path)))"

definition goal_source_of :: "rstr \<Rightarrow> rstr \<Rightarrow> rstr \<Rightarrow> rstr \<Rightarrow> bool \<Rightarrow> goal_source" where
  "goal_source_of path txt cwd name inline =
     \<lparr> src_path = path, src_text = txt, src_cwd = cwd, src_name = name,
       src_repo_name = slugify_goal (or_default name (file_name cwd)), src_inline = inline \<rparr>"

definition checked_source :: "sock_env \<Rightarrow> goal_source \<Rightarrow> (rstr \<times> rstr) + goal_source" where
  "checked_source e src =
     (if se_is_dir e (src_cwd src) then Inr src
      else Inl (''invalid_params'', ''Resolved cwd is not a directory''))"

definition file_goal_name :: "rstr \<Rightarrow> rstr" where
  "file_goal_name p =
     (let stem = or_default ''goal'' (file_stem p)
      in if stem = ''goal'' then or_default stem (Option.bind (path_parent p) file_name) else stem)"

definition resolve_goal_source :: "sock_env \<Rightarrow> json \<Rightarrow> shared \<Rightarrow> shared \<times> ((rstr \<times> rstr) + goal_source)" where
  "resolve_goal_source e params sh =
     (let env = se_env e; explicit = str_param ''cwd'' params; client = str_param ''client_cwd'' params in
      case str_param ''goal_text'' params of
        Some txt \<Rightarrow>
          if MAX_GOAL_BYTES < length txt then (sh, Inl (''invalid_params'', ''Goal text is too large (256 KiB max)''))
          else (case or_else explicit (map_option (\<lambda>c. or_default c (find_git_root env sh c)) client) of
                  None \<Rightarrow> (sh, Inl (''invalid_params'', ''Inline goal text needs a working directory ('' @
                            quoted ''cwd'' @ '' or '' @ quoted ''client_cwd'' @ '')''))
                | Some cwd \<Rightarrow>
                    (let name = slugify_goal txt in
                     case write_inline_goal env name txt sh of
                       (sh, Inl m) \<Rightarrow> (sh, Inl (''internal'', m))
                     | (sh, Inr path) \<Rightarrow> (sh, checked_source e (goal_source_of path txt cwd name True))))
      | None \<Rightarrow>
          (case str_param ''goal'' params of
             None \<Rightarrow> (sh, Inl (''invalid_params'', ''Missing '' @ quoted ''goal'' @ '' (a goal .md file) or '' @ quoted ''goal_text''))
           | Some p \<Rightarrow>
               if \<not> starts_with ''/'' p then (sh, Inl (''invalid_params'', quoted ''goal'' @ '' must be an absolute path''))
               else (case en_file env (sh_log sh) p of
                       None \<Rightarrow> (sh, Inl (''not_found'', ''Cannot read goal file: '' @ se_read_error e p))
                     | Some txt \<Rightarrow>
                         if MAX_GOAL_BYTES < length txt
                         then (sh, Inl (''invalid_params'', ''Goal file is too large (256 KiB max)''))
                         else
                          (let parent = or_default ''/'' (path_parent p);
                               cwd = or_default (or_default parent (find_git_root env sh parent)) explicit
                           in (sh, checked_source e (goal_source_of p txt cwd (file_goal_name p) False))))))"

section \<open>Goals\<close>

definition override :: "(rstr \<Rightarrow> goal_runner \<Rightarrow> goal_runner) \<Rightarrow> rstr \<Rightarrow> json \<Rightarrow> goal_runner \<Rightarrow> goal_runner" where
  "override f k params r = (case param_str k params of Some v \<Rightarrow> f v r | None \<Rightarrow> r)"

definition resolve_runner :: "json \<Rightarrow> goal_settings \<Rightarrow> rstr + (rstr \<times> goal_runner)" where
  "resolve_runner params s =
     (let name = or_default (st_default_runner s) (param_str ''runner'' params) in
      case (if name = [] then Some default_runner else map_of (st_runners s) name) of
        None \<Rightarrow> Inl (''Unknown runner '' @ quoted name @ '' (configure it in settings goal.runners)'')
      | Some r \<Rightarrow>
          (let r = override (\<lambda>v r. r\<lparr> gr_agent := v \<rparr>) ''agent'' params r;
               r = override (\<lambda>v r. r\<lparr> gr_model := v \<rparr>) ''model'' params r;
               r = override (\<lambda>v r. r\<lparr> gr_effort := v \<rparr>) ''effort'' params r
           in if gr_agent r = ''custom'' \<and> gr_command_template r = [] then Inl ''custom runner needs a command_template''
              else if gr_agent r \<notin> {[], ''claude'', ''custom''}
              then Inl (''unknown runner agent '' @ quoted (gr_agent r) @ '' (expected claude or custom)'')
              else Inr (if name = [] then ''claude'' else name, r)))"

definition requested_launch :: "json \<Rightarrow> goal_settings \<Rightarrow> goal_source \<Rightarrow> rstr \<Rightarrow> goal_runner \<Rightarrow> launch_spec" where
  "requested_launch params s src runner_name r =
     \<lparr> la_goal_name = or_default (src_name src) (str_param ''name'' params),
       la_goal_path = src_path src, la_goal_text = src_text src, la_cwd = src_cwd src,
       la_output_dir_rel = settings_output_dir s, la_upstream_refs = [], la_runner_name = runner_name, la_runner = r,
       la_max_iterations =
         (case Option.bind (json_field ''max_iterations'' params) as_u64 of
            Some n \<Rightarrow> clamp_u32 1 50 (word_of_nat n) | None \<Rightarrow> clamp_u32 1 50 (st_max_iterations s)),
       la_permission_mode = resolve_permission_mode (param_str ''permission_mode'' params) r s,
       la_wall_clock_minutes = st_wall_clock_minutes s, la_title = param_str ''title'' params,
       la_graph = None, la_group_id = None, la_select = True \<rparr>"

definition launched_json :: "goal_run \<Rightarrow> json" where
  "launched_json r =
     JObj [(''workspace_id'', juuid (rn_workspace_id r)), (''session_id'', JStr (rn_session_id r)),
           (''goal'', JStr (rn_goal_name r)), (''iteration'', JInt (uint (rn_iteration r))),
           (''output'', JStr (output_rel r (rn_iteration r))), (''runner'', JStr (rn_runner_name r))]"

definition create_goal :: "sock_env \<Rightarrow> json \<Rightarrow> shared \<Rightarrow> shared \<times> ((rstr \<times> rstr) + goal_run)" where
  "create_goal e params sh =
     (let s = en_settings (se_env e) in
      case resolve_goal_source e params sh of
        (sh, Inl er) \<Rightarrow> (sh, Inl er)
      | (sh, Inr src) \<Rightarrow>
          (case resolve_runner params s of
             Inl m \<Rightarrow> (sh, Inl (''invalid_params'', m))
           | Inr (name, r) \<Rightarrow>
               (case launch_goal (se_env e) (requested_launch params s src name r) sh of
                  (sh, Inl m) \<Rightarrow> (sh, Inl (''internal'', m))
                | (sh, Inr run) \<Rightarrow> (sh, Inr run))))"

definition set_sh :: "shared \<Rightarrow> server \<Rightarrow> server" where
  "set_sh sh sv = sv\<lparr> sv_sh := sh \<rparr>"

definition handle_goal_configure :: "json \<Rightarrow> server \<Rightarrow> outcome" where
  "handle_goal_configure params sv =
     (let (sv', sent) = send_ui_event (UiOpenGoalDialog (str_param ''goal_text'' params)) sv in
      if sent then (sv', ROk (JObj [(''opened'', JBool True), (''message'', JStr ''Opened the Run goal dialog in jmux'')]))
      else (sv', RErr ''internal'' ''No jmux window is open to show the dialog in''))"

definition handle_goal_create :: "sock_env \<Rightarrow> json \<Rightarrow> server \<Rightarrow> outcome" where
  "handle_goal_create e params sv =
     (if se_confirm_goals e then handle_goal_configure params sv
      else case create_goal e params (sv_sh sv) of
        (sh, Inr run) \<Rightarrow> (set_sh sh sv, ROk (launched_json run))
      | (sh, Inl (code, m)) \<Rightarrow> (set_sh sh sv, RErr code m))"

definition target_param :: "json \<Rightarrow> rstr option" where
  "target_param params =
     opt_filter (\<lambda>s. s \<noteq> []) (map_option trim (head_opt
       (List.map_filter (\<lambda>k. param_str k params) [''workspace'', ''workspace_id'', ''name'', ''goal''])))"

definition on_target :: "sock_env \<Rightarrow> json \<Rightarrow> server \<Rightarrow> (uuid \<Rightarrow> outcome) \<Rightarrow> outcome" where
  "on_target e params sv k =
     (case resolve_run (se_parse e) (sh_goals (sv_sh sv)) (target_param params) (first_uuid e [''hint_workspace''] params) of
        Inl m \<Rightarrow> (sv, RErr ''not_found'' m)
      | Inr i \<Rightarrow> k i)"

definition run_json :: "goal_run \<Rightarrow> json" where
  "run_json r =
     JObj [(''workspace_id'', juuid (rn_workspace_id r)), (''panel_id'', juuid (rn_panel_id r)),
           (''session_id'', JStr (rn_session_id r)), (''goal'', JStr (rn_goal_name r)),
           (''goal_path'', JStr (rn_goal_path r)), (''cwd'', JStr (rn_cwd r)),
           (''iteration'', JInt (uint (rn_iteration r))), (''max_iterations'', JInt (uint (rn_max_iterations r))),
           (''runner'', JStr (rn_runner_name r)), (''status'', JStr (status_str (rn_status r))),
           (''detail'', json_opt_str (status_detail (rn_status r))),
           (''output'', JStr (output_rel r (rn_iteration r))), (''nudges_sent'', JInt (uint (rn_nudges_sent r))),
           (''started_epoch'', JInt (uint (rn_started_epoch r))),
           (''graph'', json_opt_str (map_option gl_graph (rn_graph r))),
           (''node'', json_opt_str (map_option gl_node (rn_graph r)))]"

definition no_goal :: reply where
  "no_goal = RErr ''not_found'' ''No goal registered for that workspace''"

definition handle_goal_status :: "sock_env \<Rightarrow> json \<Rightarrow> server \<Rightarrow> outcome" where
  "handle_goal_status e params sv =
     (case target_param params of
        Some t \<Rightarrow>
          (case resolve_run (se_parse e) (sh_goals (sv_sh sv)) (Some t) None of
             Inl m \<Rightarrow> (sv, RErr ''not_found'' m)
           | Inr i \<Rightarrow> (case goal_of i (sv_sh sv) of Some r \<Rightarrow> (sv, ROk (run_json r)) | None \<Rightarrow> (sv, no_goal)))
      | None \<Rightarrow> (sv, ROk (JObj [(''goals'', JArr (map (\<lambda>(_, r). run_json r) (sh_goals (sv_sh sv))))])))"

definition verdict_reply :: "uuid \<Rightarrow> rstr \<Rightarrow> u32 \<Rightarrow> (rstr \<times> json) list \<Rightarrow> reply" where
  "verdict_reply i name n rest =
     ROk (JObj ([(''workspace_id'', juuid i), (''goal'', JStr name), (''iteration'', JInt (uint n))] @ rest))"

definition handle_goal_complete :: "sock_env \<Rightarrow> json \<Rightarrow> server \<Rightarrow> outcome" where
  "handle_goal_complete e params sv =
     on_target e params sv (\<lambda>i.
       case goal_of i (sv_sh sv) of
         None \<Rightarrow> (sv, no_goal)
       | Some r \<Rightarrow>
           (let env = se_env e; it = rn_iteration r;
                file = Option.bind (parse_iteration_file env (sv_sh sv) (output_abs r it)) id;
                status = or_default [] (or_else file (map_option ascii_lowercase (param_str ''status'' params)))
            in if status = ''done''
               then (notify_metadata_refresh (set_sh (post_note env ''Goal finished''
                       (quoted (rn_goal_name r) @ '' is done '' @ em_dash @ '' read '' @ output_rel r it) (Some i) True
                       (set_run i (\<lambda>r. r\<lparr> rn_status := GsDone \<rparr>) (sv_sh sv))) sv),
                     verdict_reply i (rn_goal_name r) it [(''status'', JStr ''done'')])
               else if status = ''blocked'' then (sv, verdict_reply i (rn_goal_name r) it [(''status'', JStr ''blocked'')])
               else (sv, RErr ''invalid_params'' (''No usable status: iteration file '' @ output_rel r it @ '' '' @
                       (if file = None then ''is missing or has no front matter'' else ''has an unknown status'') @
                       '' '' @ em_dash @ '' write it with front-matter status done|blocked''))))"

text \<open>\<open>char::is_control\<close>: the categories \<open>C0\<close>, \<open>DEL\<close> and \<open>C1\<close>.\<close>

definition is_control :: "rstr \<Rightarrow> bool" where
  "is_control c \<longleftrightarrow>
     (case c of
        [b] \<Rightarrow> (of_char b :: nat) < 0x20 \<or> (of_char b :: nat) = 0x7F
      | [a, b] \<Rightarrow> a = CHR 0xC2 \<and> 0x80 \<le> (of_char b :: nat) \<and> (of_char b :: nat) \<le> 0x9F
      | _ \<Rightarrow> False)"

definition sanitize_note :: "rstr \<Rightarrow> rstr" where
  "sanitize_note s =
     take_chars 500 (join '' '' (split_whitespace (concat (map (\<lambda>c. if is_control c then '' '' else c) (chars s)))))"

definition handle_goal_continue :: "sock_env \<Rightarrow> json \<Rightarrow> server \<Rightarrow> outcome" where
  "handle_goal_continue e params sv =
     on_target e params sv (\<lambda>i.
       (let remark = or_default [] (map_option sanitize_note (param_str ''note'' params));
            reason = (if remark = [] then ''The reviewer asked for another iteration.''
                      else ''The reviewer asked for another iteration, with this note: '' @ remark)
        in case advance_iteration (se_env e) i reason (sv_sh sv) of
             (sh, Inl m) \<Rightarrow> (set_sh sh sv, RErr ''not_found'' m)
           | (sh, Inr n) \<Rightarrow>
               (let sh = continue_node i sh
                in (set_sh sh sv, verdict_reply i (or_default [] (map_option rn_goal_name (goal_of i sh))) n []))))"

definition handle_goal_accept :: "sock_env \<Rightarrow> json \<Rightarrow> server \<Rightarrow> outcome" where
  "handle_goal_accept e params sv =
     on_target e params sv (\<lambda>i.
       case goal_of i (sv_sh sv) of
         None \<Rightarrow> (sv, no_goal)
       | Some r \<Rightarrow>
           (set_sh (accept_node (se_env e) i (set_run i (\<lambda>r. r\<lparr> rn_status := GsDone \<rparr>) (sv_sh sv))) sv,
            verdict_reply i (rn_goal_name r) (rn_iteration r) [(''status'', JStr ''done'')]))"

definition handle_goal_stop :: "sock_env \<Rightarrow> json \<Rightarrow> server \<Rightarrow> outcome" where
  "handle_goal_stop e params sv =
     on_target e params sv (\<lambda>i.
       case stop_run i (sv_sh sv) of
         (sh, Inl m) \<Rightarrow> (set_sh sh sv, RErr ''not_found'' m)
       | (sh, Inr r) \<Rightarrow>
           (set_sh sh sv, verdict_reply i (rn_goal_name r) (rn_iteration r)
              [(''status'', JStr ''blocked''), (''detail'', JStr ''stopped by user'')]))"

section \<open>Graphs\<close>

definition graph_state_name :: "GraphState \<Rightarrow> rstr" where
  "graph_state_name s =
     (case s of GProposing \<Rightarrow> ''proposing'' | GProposed \<Rightarrow> ''proposed'' | GRunning \<Rightarrow> ''running''
      | GComplete \<Rightarrow> ''complete'' | GPaused \<Rightarrow> ''paused'' | GStopped \<Rightarrow> ''stopped'')"

definition node_state_name :: "NodeState \<Rightarrow> rstr" where
  "node_state_name s =
     (case s of NPending \<Rightarrow> ''pending'' | NRunning \<Rightarrow> ''running'' | NReview \<Rightarrow> ''review'' | NDone \<Rightarrow> ''done''
      | NBlocked \<Rightarrow> ''blocked'' | NInterrupted \<Rightarrow> ''interrupted'')"

definition graph_node_json :: "graph_node \<Rightarrow> json" where
  "graph_node_json n =
     JObj [(''id'', JStr (gn_id n)), (''title'', JStr (gn_title n)), (''goal'', JStr (gn_goal n)),
           (''deps'', JArr (map JStr (gn_deps n))), (''runner'', json_opt_str (gn_runner n)),
           (''status'', JStr (node_state_name (gn_status n))), (''workspace'', jopt juuid (gn_workspace n)),
           (''iteration'', JInt (uint (gn_iteration n))), (''branch'', json_opt_str (gn_branch n)),
           (''worktree'', json_opt_str (gn_worktree n)), (''detail'', json_opt_str (gn_detail n)),
           (''pos'', jopt (\<lambda>(x, y). JArr [JNum x, JNum y]) (gn_pos n))]"

definition spec_json :: "graph_spec \<Rightarrow> json" where
  "spec_json s =
     JObj [(''name'', JStr (gs_name s)), (''base_cwd'', JStr (gs_base_cwd s)), (''goal_path'', JStr (gs_goal_path s)),
           (''status'', JStr (graph_state_name (gs_status s))),
           (''max_concurrency'', JInt (uint (gs_max_concurrency s))),
           (''max_iterations'', JInt (uint (gs_max_iterations s))), (''review'', JBool (gs_review s)),
           (''review_iterations'', JBool (gs_review_iterations s)), (''use_worktrees'', JBool (gs_use_worktrees s)),
           (''output_dir'', JStr (gs_output_dir s)), (''permission_mode'', JStr (gs_permission_mode s)),
           (''runner'', json_opt_str (gs_runner s)),
           (''orchestrator_workspace'', jopt juuid (gs_orchestrator_workspace s)),
           (''group_id'', jopt juuid (gs_group_id s)),
           (''min_proposal_mtime'', jopt (\<lambda>t. JInt (uint t)) (gs_min_proposal_mtime s)),
           (''nodes'', JArr (map graph_node_json (gs_nodes s)))]"

definition name_param :: "json \<Rightarrow> rstr option" where
  "name_param params = opt_filter (\<lambda>s. s \<noteq> []) (first_str [''name'', ''graph''] params)"

definition wrap :: "('a \<Rightarrow> json) \<Rightarrow> shared \<times> (rstr + 'a) \<Rightarrow> server \<Rightarrow> outcome" where
  "wrap f r sv = (set_sh (fst r) sv, case snd r of Inr x \<Rightarrow> ROk (f x) | Inl m \<Rightarrow> RErr ''invalid_params'' m)"

definition on_graph :: "json \<Rightarrow> server \<Rightarrow> (rstr \<Rightarrow> outcome) \<Rightarrow> outcome" where
  "on_graph params sv k =
     (case name_param params of None \<Rightarrow> (sv, RErr ''invalid_params'' ''Missing graph name'') | Some n \<Rightarrow> k n)"

definition graph_params_of :: "json \<Rightarrow> graph_params" where
  "graph_params_of params =
     \<lparr> gp_max_concurrency = map_option word_of_nat (Option.bind (json_field ''max_concurrency'' params) as_u64),
       gp_max_iterations = map_option word_of_nat (Option.bind (json_field ''max_iterations'' params) as_u64),
       gp_use_worktrees = param_bool ''use_worktrees'' params, gp_review = param_bool ''review'' params,
       gp_review_iterations = param_bool ''review_iterations'' params,
       gp_permission_mode = param_str ''permission_mode'' params, gp_runner = param_str ''runner'' params \<rparr>"

definition graph_created_json :: "graph_spec \<times> rstr \<Rightarrow> json" where
  "graph_created_json r =
     JObj [(''graph'', JStr (gs_name (fst r))), (''status'', JStr ''proposing''),
           (''orchestrator_workspace'', jopt juuid (gs_orchestrator_workspace (fst r))),
           (''dir'', JStr (spec_dir (fst r))), (''runner'', JStr (snd r))]"

definition handle_graph_create :: "sock_env \<Rightarrow> json \<Rightarrow> server \<Rightarrow> outcome" where
  "handle_graph_create e params sv =
     (case resolve_goal_source e params (sv_sh sv) of
        (sh, Inl (code, m)) \<Rightarrow> (set_sh sh sv, RErr code m)
      | (sh, Inr src) \<Rightarrow>
          (let name = or_default (if src_inline src then src_name src else src_repo_name src) (name_param params)
           in wrap graph_created_json (create_graph (se_env e) name src (graph_params_of params) sh) sv))"

definition graph_now :: "rstr \<Rightarrow> rstr \<Rightarrow> json" where
  "graph_now name status = JObj [(''graph'', JStr name), (''status'', JStr status)]"

definition handle_graph_approve :: "sock_env \<Rightarrow> json \<Rightarrow> server \<Rightarrow> outcome" where
  "handle_graph_approve e params sv =
     on_graph params sv (\<lambda>n.
       wrap (\<lambda>spec. JObj [(''graph'', JStr n), (''status'', JStr ''running''), (''nodes'', JInt (int (length (gs_nodes spec))))])
         (approve_graph (se_env e) n (sv_sh sv)) sv)"

definition handle_graph_revise :: "sock_env \<Rightarrow> json \<Rightarrow> server \<Rightarrow> outcome" where
  "handle_graph_revise e params sv =
     on_graph params sv (\<lambda>n.
       (let remark = or_default [] (param_str ''note'' params) in
        if remark = [] then (sv, RErr ''invalid_params'' (''Missing '' @ quoted ''note'' @ '' (what to change)''))
        else wrap (\<lambda>_. graph_now n ''proposing'') (revise_graph (se_env e) n remark (sv_sh sv)) sv))"

definition handle_graph_status :: "sock_env \<Rightarrow> json \<Rightarrow> server \<Rightarrow> outcome" where
  "handle_graph_status e params sv =
     (let name = name_param params in
      wrap (\<lambda>specs. if name = None then JObj [(''graphs'', JArr (map spec_json specs))] else spec_json (hd specs))
        (graph_status (se_env e) name (sv_sh sv)) sv)"

definition handle_graph_pause :: "sock_env \<Rightarrow> json \<Rightarrow> server \<Rightarrow> outcome" where
  "handle_graph_pause e params sv = on_graph params sv (\<lambda>n. wrap spec_json (pause_graph (se_env e) n (sv_sh sv)) sv)"

definition handle_graph_resume :: "sock_env \<Rightarrow> json \<Rightarrow> server \<Rightarrow> outcome" where
  "handle_graph_resume e params sv =
     on_graph params sv (\<lambda>n. wrap (\<lambda>_. graph_now n ''running'') (resume_graph (se_env e) n (sv_sh sv)) sv)"

definition handle_graph_stop :: "sock_env \<Rightarrow> json \<Rightarrow> server \<Rightarrow> outcome" where
  "handle_graph_stop e params sv = on_graph params sv (\<lambda>n. wrap spec_json (stop_graph (se_env e) n (sv_sh sv)) sv)"

end
