(* ===== verification/Agent_Monitor.thy ===== *)
theory Agent_Monitor imports Socket_Workspace Session_Store begin

text \<open>
  The monitor of sub-agents (\<open>jmux/src/agent_monitor.rs\<close>): it looks for the transcripts of a workspace's Claude
  session and keeps one read-only panel for each that is still being written. The home directory, directory
  listings, modification times (in nanoseconds) and the JSON beside a transcript are the record \<open>disk\<close>.
\<close>

record disk =
  dk_home :: "rstr option"
  dk_is_dir :: "rstr \<Rightarrow> bool"
  dk_entries :: "rstr \<Rightarrow> (rstr \<times> nat option) list option"
  dk_json :: "rstr \<Rightarrow> json option"
  dk_now :: nat

record subagent =
  sa_transcript :: rstr
  sa_title :: rstr

definition ACTIVE_WINDOW_SECS :: nat where "ACTIVE_WINDOW_SECS = 10 * 60"
definition MAX_MONITOR_PANES :: nat where "MAX_MONITOR_PANES = 6"

section \<open>Finding the sub-agents\<close>

definition claude_projects_dir :: "disk \<Rightarrow> rstr option" where
  "claude_projects_dir d = map_option (\<lambda>h. path_join h ''.claude/projects'') (dk_home d)"

text \<open>Newest first, by the names without \<open>.jsonl\<close>.\<close>

definition session_ids_for_cwd :: "disk \<Rightarrow> rstr \<Rightarrow> rstr list" where
  "session_ids_for_cwd d cwd =
     (case claude_projects_dir d of
        None \<Rightarrow> []
      | Some projects \<Rightarrow>
          map snd (sort_by (\<lambda>a b. fst b < fst a)
            (List.map_filter (\<lambda>(n, t).
               case (strip_suffix ''.jsonl'' n, t) of
                 (Some stem, Some t) \<Rightarrow> if stem = [] then None else Some (t, stem)
               | _ \<Rightarrow> None)
             (or_default [] (dk_entries d (path_join projects (encode_project_dir cwd)))))))"

definition is_monitor :: "panel \<Rightarrow> bool" where
  "is_monitor p \<longleftrightarrow> p_panel_type p = AgentMonitor"

text \<open>The focused panel first, then the terminals in the order of their identifiers.\<close>

definition candidate_panels :: "workspace \<Rightarrow> panel list" where
  "candidate_panels ws =
     filter (\<lambda>p. p_panel_type p = Terminal)
       ((case Option.bind (ws_focused_panel_id ws) (map_of (ws_panels ws)) of Some p \<Rightarrow> [p] | None \<Rightarrow> [])
        @ sort_by (\<lambda>a b. p_id a < p_id b) (map snd (ws_panels ws)))"

definition panel_dir :: "workspace \<Rightarrow> panel \<Rightarrow> rstr" where
  "panel_dir ws p = or_default (ws_current_directory ws) (p_directory p)"

definition subagents_path :: "rstr \<Rightarrow> rstr \<Rightarrow> rstr \<Rightarrow> rstr" where
  "subagents_path projects dir session = path_join (path_join (path_join projects (encode_project_dir dir)) session) ''subagents''"

definition subagents_dir :: "disk \<Rightarrow> workspace \<Rightarrow> rstr option" where
  "subagents_dir d ws =
     (case claude_projects_dir d of
        None \<Rightarrow> None
      | Some projects \<Rightarrow>
          (let ps = candidate_panels ws;
               reported = List.map_filter (\<lambda>p. map_option (subagents_path projects (panel_dir ws p)) (p_agent_session_id p)) ps;
               newest = concat (map (\<lambda>p. map (subagents_path projects (panel_dir ws p))
                                           (session_ids_for_cwd d (panel_dir ws p))) ps)
           in find (dk_is_dir d) (reported @ newest)))"

text \<open>\<open>agent-7.jsonl\<close> is described by \<open>agent-7.meta.json\<close>: both extensions after the last dot are replaced.\<close>

definition without_extension :: "rstr \<Rightarrow> rstr" where
  "without_extension n =
     (let before = rev (drop 1 (dropWhile (\<lambda>c. c \<noteq> CHR ''.'') (rev n))) in if before = [] then n else before)"

definition meta_description :: "disk \<Rightarrow> rstr \<Rightarrow> rstr \<Rightarrow> rstr option" where
  "meta_description d dir n =
     Option.bind (dk_json d (path_join dir (without_extension (without_extension n) @ ''.meta.json'')))
       (param_str ''description'')"

function trim_jsonl :: "rstr \<Rightarrow> rstr" where
  "trim_jsonl s = (case strip_suffix ''.jsonl'' s of Some r \<Rightarrow> if length r < length s then trim_jsonl r else s | None \<Rightarrow> s)"
  by pat_completeness auto
termination by (relation "measure length") auto

declare trim_jsonl.simps [simp del]

definition live_agent :: "disk \<Rightarrow> rstr \<Rightarrow> rstr \<times> nat option \<Rightarrow> (nat \<times> subagent) option" where
  "live_agent d dir entry =
     (case entry of
        (n, Some t) \<Rightarrow>
          if starts_with ''agent-'' n \<and> ends_with ''.jsonl'' n \<and> (dk_now d - t) div 10 ^ 9 \<le> ACTIVE_WINDOW_SECS
          then Some (t, \<lparr> sa_transcript = path_join dir n,
                          sa_title = or_default (trim_jsonl n) (meta_description d dir n) \<rparr>)
          else None
      | _ \<Rightarrow> None)"

definition discover_subagents :: "disk \<Rightarrow> workspace \<Rightarrow> subagent list" where
  "discover_subagents d ws =
     (case subagents_dir d ws of
        None \<Rightarrow> []
      | Some dir \<Rightarrow>
          (case dk_entries d dir of
             None \<Rightarrow> []
           | Some es \<Rightarrow>
               map snd (rev (take MAX_MONITOR_PANES
                 (sort_by (\<lambda>a b. fst b < fst a) (List.map_filter (live_agent d dir) es))))))"

section \<open>Keeping the panels\<close>

definition mirrors :: "panel \<Rightarrow> subagent \<Rightarrow> bool" where
  "mirrors p a \<longleftrightarrow> is_monitor p \<and> p_markdown_file p = Some (sa_transcript a)"

definition stale_monitors :: "subagent list \<Rightarrow> workspace \<Rightarrow> uuid list" where
  "stale_monitors desired ws =
     map fst (filter (\<lambda>(_, p). is_monitor p \<and> \<not> list_ex (mirrors p) desired) (ws_panels ws))"

definition drop_id :: "uuid \<Rightarrow> uuid option \<Rightarrow> uuid option" where
  "drop_id i x = (if x = Some i then None else x)"

definition drop_monitor :: "uuid \<Rightarrow> workspace \<Rightarrow> workspace" where
  "drop_monitor i ws =
     (let l = fst (remove_panel i (ws_layout ws))
      in ws\<lparr> ws_layout := l, ws_panels := AList.delete i (ws_panels ws),
             ws_focused_panel_id :=
               (if ws_focused_panel_id ws = Some i then head_opt (all_panel_ids l) else ws_focused_panel_id ws),
             ws_previous_focused_panel_id := drop_id i (ws_previous_focused_panel_id ws),
             ws_attention_panel_id := drop_id i (ws_attention_panel_id ws),
             ws_zoomed_panel_id := drop_id i (ws_zoomed_panel_id ws) \<rparr>)"

definition is_primary :: "workspace \<Rightarrow> uuid \<Rightarrow> bool" where
  "is_primary ws i \<longleftrightarrow> (case map_of (ws_panels ws) i of Some p \<Rightarrow> \<not> is_monitor p | None \<Rightarrow> False)"

definition monitor_anchor :: "uuid option \<Rightarrow> workspace \<Rightarrow> uuid option" where
  "monitor_anchor prev ws =
     or_else prev (or_else (opt_filter (is_primary ws) (ws_focused_panel_id ws))
       (find (is_primary ws) (all_panel_ids (ws_layout ws))))"

definition count_monitors :: "workspace \<Rightarrow> nat" where
  "count_monitors ws = length (filter is_monitor (map snd (ws_panels ws)))"

text \<open>\<open>n\<close> is the next identifier, \<open>cnt\<close> decides the direction of the next split.\<close>

fun add_monitors :: "subagent list \<Rightarrow> uuid option \<Rightarrow> nat \<Rightarrow> uuid \<Rightarrow> workspace \<Rightarrow> workspace \<times> uuid \<times> bool" where
  "add_monitors [] prev cnt n ws = (ws, n, False)"
| "add_monitors (a # as) prev cnt n ws =
     (case find (\<lambda>p. mirrors p a) (map snd (ws_panels ws)) of
        Some p \<Rightarrow> add_monitors as (Some (p_id p)) cnt n ws
      | None \<Rightarrow>
          (case monitor_anchor prev ws of
             None \<Rightarrow> (ws, n, False)
           | Some anchor \<Rightarrow>
               (let (ori, dir) = (if even cnt then (Horizontal, DRight) else (Vertical, DDown));
                    (l, placed) = split_pane_with_panel anchor n ori dir (ws_layout ws)
                in if \<not> placed then add_monitors as prev cnt (Suc n) ws
                   else let ws = ws\<lparr> ws_panels := AList.update n (new_agent_monitor n (sa_transcript a) (sa_title a)) (ws_panels ws),
                                     ws_layout := l \<rparr>;
                            (ws, n', _) = add_monitors as (Some n) (Suc cnt) (Suc n) ws
                        in (ws, n', True))))"

definition sync_workspace :: "disk \<Rightarrow> uuid \<Rightarrow> workspace \<Rightarrow> workspace \<times> uuid \<times> bool" where
  "sync_workspace d n ws =
     (let desired = (if ws_subagent_monitor ws then discover_subagents d ws else []);
          stale = stale_monitors desired ws;
          ws = fold drop_monitor stale ws;
          (ws, n, added) = add_monitors desired None (count_monitors ws) n ws
      in (ws, n, stale \<noteq> [] \<or> added))"

text \<open>The two-second tick: in automatic mode the flag follows the agents.\<close>

definition tick_workspace :: "disk \<Rightarrow> bool \<Rightarrow> workspace \<Rightarrow> uuid \<times> bool \<Rightarrow> workspace \<times> uuid \<times> bool" where
  "tick_workspace d auto ws st =
     (let live = (discover_subagents d ws \<noteq> []);
          flipped = (auto \<and> ws_subagent_monitor ws \<noteq> live);
          ws = (if auto then ws\<lparr> ws_subagent_monitor := live \<rparr> else ws)
      in if ws_subagent_monitor ws
         then let (ws, n, changed) = sync_workspace d (fst st) ws in (ws, n, snd st \<or> flipped \<or> changed)
         else (ws, fst st, snd st \<or> flipped))"

fun tick_all :: "disk \<Rightarrow> bool \<Rightarrow> workspace list \<Rightarrow> uuid \<times> bool \<Rightarrow> workspace list \<times> uuid \<times> bool" where
  "tick_all d auto [] st = ([], st)"
| "tick_all d auto (w # ws) st =
     (let (w, st) = tick_workspace d auto w st; (ws, st) = tick_all d auto ws st in (w # ws, st))"

definition monitor_tick :: "disk \<Rightarrow> bool \<Rightarrow> server \<Rightarrow> server" where
  "monitor_tick d auto sv =
     (let (wss, n, changed) = tick_all d auto (tm_workspaces (tabs sv)) (next_id sv, False);
          sv = draw (n - next_id sv) (set_tabs ((tabs sv)\<lparr> tm_workspaces := wss \<rparr>) sv)
      in if changed then notify_ui_refresh sv else sv)"

definition toggle_toast :: "workspace \<Rightarrow> rstr" where
  "toggle_toast ws =
     (if \<not> ws_subagent_monitor ws then ''Sub-agent monitor off''
      else let live = count_monitors ws in
        if live = 0
        then ''Sub-agent monitor on '' @ em_dash @ '' panes appear when Claude runs sub-agents here''
        else ''Sub-agent monitor on '' @ em_dash @ '' showing '' @ show_nat live @ '' live sub-agent(s)'')"

text \<open>Switching the monitor of the selected workspace; the toast is the value returned.\<close>

definition switch_monitor :: "disk \<Rightarrow> bool option \<Rightarrow> server \<Rightarrow> server \<times> workspace option" where
  "switch_monitor d enable sv =
     (case tm_selected (tabs sv) of
        None \<Rightarrow> (sv, None)
      | Some ws \<Rightarrow>
          (let (ws, n, _) = sync_workspace d (next_id sv)
                 (ws\<lparr> ws_subagent_monitor := or_default (\<not> ws_subagent_monitor ws) enable \<rparr>)
           in (draw (n - next_id sv) (set_tabs (edit_selected (\<lambda>_. ws) (tabs sv)) sv), Some ws)))"

definition toggle_selected :: "disk \<Rightarrow> server \<Rightarrow> server \<times> rstr option" where
  "toggle_selected d sv =
     (let (sv, ws) = switch_monitor d None sv in (notify_ui_refresh sv, map_option toggle_toast ws))"

definition handle_workspace_agent_monitor :: "disk \<Rightarrow> json \<Rightarrow> server \<Rightarrow> outcome" where
  "handle_workspace_agent_monitor d params sv =
     (case switch_monitor d (param_bool ''enable'' params) sv of
        (sv, Some ws) \<Rightarrow>
          (notify_ui_refresh sv, ROk (JObj [(''enabled'', JBool (ws_subagent_monitor ws)),
             (''monitor_panes'', JInt (int (count_monitors ws)))]))
      | (sv, None) \<Rightarrow> (sv, RErr ''not_found'' ''No selected workspace''))"

end
