(* ===== verification/Socket_Dispatch.thy ===== *)
theory Socket_Dispatch
  imports Socket_Action Socket_Misc Socket_Goal Agent_Monitor
begin

text \<open>
  The dispatch of a request (\<open>dispatch\<close> of \<open>jmux/src/socket/v2/mod.rs\<close>, \<open>dispatch\<close> and \<open>method_names\<close> of
  \<open>socket/browser/mod.rs\<close>, \<open>handle_capabilities\<close> of \<open>socket/v2/system.rs\<close>). The table gives each method its
  handler. The handlers that are not modelled (\<open>system.processes\<close>, \<open>workspace.ai_name\<close> and the browser methods
  other than those of panels) are the argument \<open>other\<close>; the JSON reader, and the text of its errors, is the
  argument \<open>parse\<close>. Browser support is compiled in.
\<close>

section \<open>The advertised methods\<close>

definition method_names :: "rstr list" where
  "method_names =
     [''browser.navigate'', ''browser.execute_js'', ''browser.get_url'', ''browser.get_text'', ''browser.back'',
      ''browser.forward'', ''browser.reload'', ''browser.set_zoom'', ''browser.screenshot'', ''browser.click'',
      ''browser.dblclick'', ''browser.hover'', ''browser.type'', ''browser.fill'', ''browser.clear'', ''browser.press'',
      ''browser.select_option'', ''browser.check'', ''browser.focus'', ''browser.blur'', ''browser.scroll_to'',
      ''browser.get_html'', ''browser.get_value'', ''browser.get_attribute'', ''browser.get_property'',
      ''browser.get_bounding_box'', ''browser.get_computed_style'', ''browser.is_visible'', ''browser.is_enabled'',
      ''browser.is_checked'', ''browser.is_editable'', ''browser.count'', ''browser.find'', ''browser.find_all'',
      ''browser.find_by_text'', ''browser.find_by_role'', ''browser.find_by_label'', ''browser.find_by_placeholder'',
      ''browser.find_by_test_id'', ''browser.release_ref'', ''browser.wait_for_selector'', ''browser.wait_for_navigation'',
      ''browser.wait_for_load_state'', ''browser.wait_for_function'', ''browser.snapshot'', ''browser.title'',
      ''browser.get_cookies'', ''browser.set_cookie'', ''browser.clear_cookies'', ''browser.local_storage_get'',
      ''browser.local_storage_set'', ''browser.session_storage_get'', ''browser.session_storage_set'',
      ''browser.get_console_messages'', ''browser.set_dialog_handler'', ''browser.inject_script'', ''browser.inject_style'',
      ''browser.remove_injected'', ''browser.uncheck'', ''browser.scroll'', ''browser.scroll_into_view'', ''browser.keydown'',
      ''browser.keyup'', ''browser.find.alt'', ''browser.find.title'', ''browser.find.first'', ''browser.find.last'',
      ''browser.find.nth'', ''browser.frame.select'', ''browser.frame.main'', ''browser.dialog.accept'',
      ''browser.dialog.dismiss'', ''browser.highlight'', ''browser.console.clear'', ''browser.geolocation.set'',
      ''browser.offline.set'', ''browser.open_split'', ''browser.focus_webview'', ''browser.is_webview_focused'',
      ''browser.state.save'', ''browser.state.load'', ''browser.network.route'', ''browser.network.unroute'',
      ''browser.network.requests'', ''browser.input_mouse'', ''browser.input_keyboard'', ''browser.input_touch'',
      ''browser.trace.start'', ''browser.trace.stop'', ''browser.screencast.start'', ''browser.screencast.stop'',
      ''browser.addinitscript'', ''browser.addscript'', ''browser.addstyle'', ''browser.tab.new'', ''browser.tab.list'',
      ''browser.tab.switch'', ''browser.tab.close'', ''browser.viewport.set'', ''browser.download.wait'',
      ''browser.errors.list'', ''browser.eval'', ''browser.select'', ''browser.find.text'', ''browser.find.role'',
      ''browser.find.label'', ''browser.find.placeholder'', ''browser.find.testid'', ''browser.get.text'', ''browser.get.html'',
      ''browser.get.value'', ''browser.get.attr'', ''browser.get.title'', ''browser.get.count'', ''browser.get.box'',
      ''browser.get.styles'', ''browser.is.visible'', ''browser.is.enabled'', ''browser.is.checked'', ''browser.storage.get'',
      ''browser.storage.set'', ''browser.console.list'', ''browser.import_cookies'', ''browser.navigate'', ''browser.eval'',
      ''browser.get.text'', ''browser.find.text'']"

definition advertised :: "rstr list" where
  "advertised =
     [''system.ping'', ''system.capabilities'', ''system.identify'', ''system.tree'', ''system.processes'',
      ''system.task_manager'', ''system.overview'', ''system.quick_terminal'', ''system.command_palette'', ''system.dock'',
      ''system.run_command'', ''workspace.list'', ''workspace.new'', ''workspace.open_history'', ''workspace.open_vault'',
      ''workspace.reopen_closed_tab'', ''workspace.create'', ''workspace.create_ssh'', ''workspace.remote.status'',
      ''workspace.select'', ''workspace.next'', ''workspace.previous'', ''workspace.last'', ''workspace.latest_unread'',
      ''workspace.close'', ''workspace.current'', ''workspace.rename'', ''workspace.ai_name'', ''workspace.set_description'',
      ''workspace.reorder'', ''workspace.set_status'', ''workspace.report_git_branch'', ''workspace.set_progress'',
      ''workspace.clear_progress'', ''workspace.append_log'', ''workspace.clear_status'', ''workspace.list_status'',
      ''workspace.clear_log'', ''workspace.list_log'', ''workspace.report_meta'', ''workspace.clear_meta'',
      ''workspace.list_meta'', ''workspace.report_meta_block'', ''workspace.clear_meta_block'', ''workspace.list_meta_blocks'',
      ''workspace.action'', ''workspace.report_pr'', ''workspace.move_to_window'', ''app.focus_override.set'',
      ''app.simulate_active'', ''pane.new'', ''pane.split_off'', ''pane.list'', ''pane.focus'', ''pane.close'', ''pane.last'',
      ''pane.swap'', ''pane.create'', ''pane.resize'', ''pane.focus_direction'', ''pane.break'', ''pane.join'',
      ''surface.send_input'', ''surface.send_text'', ''surface.list'', ''surface.current'', ''surface.focus'', ''surface.split'',
      ''surface.close'', ''surface.action'', ''surface.health'', ''surface.send_key'', ''surface.read_text'',
      ''surface.refresh'', ''surface.clear_history'', ''surface.trigger_flash'', ''surface.move'', ''surface.reorder'',
      ''surface.create'', ''surface.drag_to_split'', ''tab.action'', ''pane.surfaces'', ''pane.equalize'',
      ''workspace.report_pwd'', ''workspace.report_ports'', ''workspace.clear_ports'', ''workspace.report_tty'',
      ''workspace.ports_kick'', ''settings.open'', ''settings.reload'', ''notification.create'',
      ''notification.create_for_surface'', ''notification.create_for_target'', ''notification.list'', ''notification.clear'',
      ''markdown.open'', ''window.new'', ''window.list'', ''window.current'', ''window.focus'', ''window.close'']
     @ method_names"

definition handle_capabilities :: "server \<Rightarrow> outcome" where
  "handle_capabilities sv = (sv, ROk (JObj [(''methods'', JArr (map JStr advertised))]))"

text \<open>The browser methods that are dispatched.\<close>

definition browser_methods :: "rstr list" where
  "browser_methods =
     [''browser.navigate'', ''browser.execute_js'', ''browser.get_url'', ''browser.get_text'', ''browser.back'',
      ''browser.forward'', ''browser.reload'', ''browser.set_zoom'', ''browser.mute'', ''browser.focus_mode'',
      ''browser.react_grab'', ''browser.react-grab'', ''browser.screenshot'', ''browser.click'', ''browser.dblclick'',
      ''browser.hover'', ''browser.type'', ''browser.fill'', ''browser.clear'', ''browser.press'', ''browser.select_option'',
      ''browser.check'', ''browser.focus'', ''browser.blur'', ''browser.scroll_to'', ''browser.get_html'', ''browser.get_value'',
      ''browser.get_attribute'', ''browser.get_property'', ''browser.get_bounding_box'', ''browser.get_computed_style'',
      ''browser.is_visible'', ''browser.is_enabled'', ''browser.is_checked'', ''browser.is_editable'', ''browser.count'',
      ''browser.find'', ''browser.find_all'', ''browser.find_by_text'', ''browser.find_by_role'', ''browser.find_by_label'',
      ''browser.find_by_placeholder'', ''browser.find_by_test_id'', ''browser.release_ref'', ''browser.wait_for_selector'',
      ''browser.wait_for_navigation'', ''browser.wait_for_load_state'', ''browser.wait_for_function'', ''browser.snapshot'',
      ''browser.title'', ''browser.get_cookies'', ''browser.set_cookie'', ''browser.clear_cookies'',
      ''browser.local_storage_get'', ''browser.local_storage_set'', ''browser.session_storage_get'',
      ''browser.session_storage_set'', ''browser.get_console_messages'', ''browser.set_dialog_handler'',
      ''browser.inject_script'', ''browser.inject_style'', ''browser.remove_injected'', ''browser.uncheck'', ''browser.scroll'',
      ''browser.scroll_into_view'', ''browser.keydown'', ''browser.keyup'', ''browser.find.alt'', ''browser.find.title'',
      ''browser.find.first'', ''browser.find.last'', ''browser.find.nth'', ''browser.frame.select'', ''browser.frame.main'',
      ''browser.dialog.accept'', ''browser.dialog.dismiss'', ''browser.highlight'', ''browser.console.clear'',
      ''browser.geolocation.set'', ''browser.offline.set'', ''browser.open_split'', ''browser.focus_webview'',
      ''browser.is_webview_focused'', ''browser.state.save'', ''browser.state.load'', ''browser.network.route'',
      ''browser.network.unroute'', ''browser.network.requests'', ''browser.input_mouse'', ''browser.input_keyboard'',
      ''browser.input_touch'', ''browser.trace.start'', ''browser.trace.stop'', ''browser.screencast.start'',
      ''browser.screencast.stop'', ''browser.addinitscript'', ''browser.addscript'', ''browser.addstyle'', ''browser.tab.new'',
      ''browser.tab.list'', ''browser.tab.switch'', ''browser.tab.close'', ''browser.viewport.set'', ''browser.download.wait'',
      ''browser.errors.list'', ''browser.import_cookies'', ''browser.eval'', ''browser.select'', ''browser.find.text'',
      ''browser.find.role'', ''browser.find.label'', ''browser.find.placeholder'', ''browser.find.testid'', ''browser.get.text'',
      ''browser.get.html'', ''browser.get.value'', ''browser.get.attr'', ''browser.get.title'', ''browser.get.count'',
      ''browser.get.box'', ''browser.get.styles'', ''browser.is.visible'', ''browser.is.enabled'', ''browser.is.checked'',
      ''browser.storage.get'', ''browser.storage.set'', ''browser.console.list'']"

section \<open>The table\<close>

definition system_methods :: "(rstr \<Rightarrow> json \<Rightarrow> server \<Rightarrow> outcome) \<Rightarrow> sock_env \<Rightarrow> (rstr \<times> (json \<Rightarrow> server \<Rightarrow> outcome)) list" where
  "system_methods other e =
     [(''system.ping'', (\<lambda>_. handle_system_ping)),
      (''system.capabilities'', (\<lambda>_. handle_capabilities)),
      (''system.identify'', (\<lambda>_. handle_system_identify e)),
      (''system.tree'', (\<lambda>_. handle_system_tree)), (''system.processes'', other ''system.processes''),
      (''system.task_manager'', (\<lambda>_. handle_open_task_manager)),
      (''system.overview'', (\<lambda>_. handle_overview)),
      (''system.command_palette'', (\<lambda>_. handle_command_palette)),
      (''system.dock'', (\<lambda>_. handle_dock)), (''system.quick_terminal'', handle_quick_terminal),
      (''system.run_command'', handle_run_command)]"

definition workspace_methods :: "(rstr \<Rightarrow> json \<Rightarrow> server \<Rightarrow> outcome) \<Rightarrow> disk \<Rightarrow> sock_env \<Rightarrow> (rstr \<times> (json \<Rightarrow> server \<Rightarrow> outcome)) list" where
  "workspace_methods other d e =
     [(''workspace.list'', (\<lambda>_. handle_workspace_list)), (''workspace.new'', handle_workspace_new e),
      (''workspace.new_browser'', handle_workspace_new_browser e),
      (''workspace.new_diff'', handle_workspace_new_diff e),
      (''workspace.new_project'', handle_workspace_new_project e),
      (''workspace.new_notes'', handle_workspace_new_notes e),
      (''workspace.group.create'', handle_group_create),
      (''workspace.group.list'', (\<lambda>_. handle_group_list)),
      (''workspace.group.assign'', handle_group_assign e), (''workspace.group.rename'', handle_group_rename e),
      (''workspace.group.collapse'', handle_group_collapse e),
      (''workspace.group.color'', handle_group_color e), (''workspace.group.delete'', handle_group_delete e),
      (''workspace.create'', handle_workspace_create e),
      (''workspace.create_ssh'', handle_workspace_create_ssh e),
      (''workspace.remote.status'', handle_workspace_remote_status e),
      (''workspace.select'', handle_workspace_select e), (''workspace.next'', handle_workspace_next),
      (''workspace.previous'', handle_workspace_previous),
      (''workspace.last'', (\<lambda>_. handle_workspace_last)),
      (''workspace.focus_back'', (\<lambda>_. handle_workspace_focus_back)),
      (''workspace.focus_forward'', (\<lambda>_. handle_workspace_focus_forward)),
      (''workspace.reopen_closed'', (\<lambda>_. handle_workspace_reopen_closed)),
      (''workspace.reopen_closed_tab'', (\<lambda>_. handle_workspace_reopen_closed_tab)),
      (''workspace.clear_closed'', (\<lambda>_. handle_workspace_clear_closed)),
      (''workspace.open_history'', (\<lambda>_. handle_workspace_open_history)),
      (''workspace.open_vault'', (\<lambda>_. handle_workspace_open_vault)),
      (''workspace.hibernate'', handle_workspace_hibernate e), (''workspace.wake'', handle_workspace_wake e),
      (''workspace.agent_monitor'', handle_workspace_agent_monitor d),
      (''workspace.latest_unread'', (\<lambda>_. handle_workspace_latest_unread)),
      (''workspace.close'', handle_workspace_close e),
      (''workspace.set_status'', handle_workspace_set_status e),
      (''workspace.report_git_branch'', handle_workspace_report_git e),
      (''workspace.set_progress'', handle_workspace_set_progress e),
      (''workspace.append_log'', handle_workspace_append_log e),
      (''workspace.reorder'', handle_workspace_reorder),
      (''workspace.reorder_workspaces'', handle_workspace_reorder_workspaces),
      (''workspace.clear_status'', handle_workspace_clear_status e),
      (''workspace.list_status'', handle_workspace_list_status e),
      (''workspace.clear_progress'', handle_workspace_clear_progress e),
      (''workspace.clear_log'', handle_workspace_clear_log e),
      (''workspace.list_log'', handle_workspace_list_log e),
      (''workspace.report_meta'', handle_workspace_report_meta e),
      (''workspace.clear_meta'', handle_workspace_clear_meta e),
      (''workspace.list_meta'', handle_workspace_list_meta e),
      (''workspace.report_meta_block'', handle_workspace_report_meta_block e),
      (''workspace.clear_meta_block'', handle_workspace_clear_meta_block e),
      (''workspace.list_meta_blocks'', handle_workspace_list_meta_blocks e),
      (''workspace.current'', (\<lambda>_. handle_workspace_current)),
      (''workspace.rename'', handle_workspace_rename e), (''workspace.ai_name'', other ''workspace.ai_name''),
      (''workspace.set_description'', handle_workspace_set_description e),
      (''workspace.action'', handle_workspace_action e),
      (''workspace.report_pr'', handle_workspace_report_pr e),
      (''workspace.report_pr_checks'', handle_workspace_report_pr_checks e),
      (''workspace.move_to_window'', handle_workspace_move_to_window e),
      (''workspace.set_imessage_mode'', handle_workspace_set_imessage_mode e),
      (''workspace.report_pwd'', handle_workspace_report_pwd e),
      (''workspace.report_ports'', handle_workspace_report_ports e),
      (''workspace.clear_ports'', handle_workspace_clear_ports e),
      (''workspace.report_tty'', handle_workspace_report_tty e),
      (''workspace.report_agent_session'', handle_workspace_report_agent_session e),
      (''workspace.ports_kick'', (\<lambda>_. handle_workspace_ports_kick)),
      (''workspace.files'', handle_workspace_files e)]"

definition goal_methods :: "sock_env \<Rightarrow> (rstr \<times> (json \<Rightarrow> server \<Rightarrow> outcome)) list" where
  "goal_methods e =
     [(''agent.fork_conversation'', handle_agent_fork_conversation e),
      (''agent.spawn_subagent'', handle_agent_spawn_subagent e), (''goal.create'', handle_goal_create e),
      (''goal.configure'', handle_goal_configure), (''goal.status'', handle_goal_status e),
      (''goal.complete'', handle_goal_complete e), (''goal.continue'', handle_goal_continue e),
      (''goal.accept'', handle_goal_accept e), (''goal.stop'', handle_goal_stop e),
      (''graph.create'', handle_graph_create e), (''graph.approve'', handle_graph_approve e),
      (''graph.revise'', handle_graph_revise e), (''graph.status'', handle_graph_status e),
      (''graph.pause'', handle_graph_pause e), (''graph.resume'', handle_graph_resume e),
      (''graph.stop'', handle_graph_stop e),
      (''app.focus_override.set'', (\<lambda>_. handle_app_focus_override)),
      (''app.simulate_active'', (\<lambda>_. handle_app_simulate_active))]"

definition pane_methods :: "sock_env \<Rightarrow> (rstr \<times> (json \<Rightarrow> server \<Rightarrow> outcome)) list" where
  "pane_methods e =
     [(''pane.new'', handle_pane_new), (''pane.split_off'', handle_pane_split_off),
      (''pane.list'', handle_pane_list e), (''pane.focus'', handle_pane_focus e),
      (''pane.close'', handle_pane_close e), (''pane.last'', handle_pane_last e),
      (''pane.swap'', handle_pane_swap e), (''pane.resize'', handle_pane_resize e),
      (''pane.focus_direction'', handle_pane_focus_direction), (''pane.create'', handle_pane_new),
      (''pane.break'', handle_pane_break e), (''pane.join'', handle_pane_join e),
      (''panel.move_to_workspace'', handle_panel_move_to_workspace e),
      (''panel.toggle_zoom'', handle_panel_toggle_zoom e),
      (''surface.send_input'', handle_surface_send_input e),
      (''surface.send_text'', handle_surface_send_input e), (''surface.list'', handle_surface_list e),
      (''surface.current'', (\<lambda>_. handle_surface_current)), (''surface.focus'', handle_surface_focus e),
      (''surface.split'', handle_pane_new), (''surface.close'', handle_pane_close e),
      (''surface.action'', handle_surface_action e), (''surface.health'', handle_surface_health e),
      (''surface.send_key'', handle_surface_send_key e), (''surface.read_text'', handle_surface_read_text e),
      (''surface.refresh'', handle_surface_refresh e),
      (''surface.clear_history'', handle_surface_clear_history e),
      (''surface.trigger_flash'', handle_surface_trigger_flash e), (''surface.move'', handle_surface_move e),
      (''surface.reorder'', handle_surface_reorder e), (''surface.create'', handle_surface_create),
      (''surface.drag_to_split'', handle_surface_drag_to_split e), (''tab.action'', handle_tab_action e),
      (''pane.surfaces'', handle_pane_surfaces e), (''pane.equalize'', handle_pane_equalize e)]"

definition other_methods :: "sock_env \<Rightarrow> (rstr \<times> (json \<Rightarrow> server \<Rightarrow> outcome)) list" where
  "other_methods e =
     [(''settings.open'', (\<lambda>_. handle_settings_open)),
      (''settings.reload'', (\<lambda>_. handle_settings_reload)),
      (''notification.create'', handle_notification_create e),
      (''notification.create_for_surface'', handle_notification_create e),
      (''notification.create_for_target'', handle_notification_create e),
      (''notification.list'', handle_notification_list),
      (''notification.clear'', (\<lambda>_. handle_notification_clear)),
      (''notification.mark_read'', handle_notification_mark_read e),
      (''notification.dismiss'', handle_notification_dismiss e),
      (''notification.open'', handle_notification_open e), (''markdown.open'', handle_markdown_open e),
      (''file.open'', handle_file_open e), (''notes.open'', handle_notes_open e),
      (''window.new'', (\<lambda>_. handle_window_new)), (''window.list'', (\<lambda>_. handle_window_list)),
      (''window.current'', (\<lambda>_. handle_window_current)), (''window.focus'', handle_window_focus e),
      (''window.close'', handle_window_close e), (''window.displays'', (\<lambda>_. handle_window_displays e)),
      (''window.display'', handle_window_display e), (''sidebar.show'', (\<lambda>_. handle_sidebar_show)),
      (''sidebar.hide'', (\<lambda>_. handle_sidebar_hide)),
      (''sidebar.toggle'', (\<lambda>_. handle_sidebar_toggle)),
      (''sidebar.status'', (\<lambda>_. handle_sidebar_status))]"

definition browser_dispatch ::
  "(rstr \<Rightarrow> json \<Rightarrow> server \<Rightarrow> outcome) \<Rightarrow> sock_env \<Rightarrow> rstr \<Rightarrow> (json \<Rightarrow> server \<Rightarrow> outcome) option" where
  "browser_dispatch other e m =
     (if m \<notin> set browser_methods then None
      else case map_of [(''browser.tab.new'', handle_tab_new), (''browser.open_split'', handle_tab_new),
              (''browser.tab.list'', (\<lambda>_. handle_tab_list)),
              (''browser.tab.switch'', handle_tab_switch e), (''browser.tab.close'', handle_tab_close e)] m of
             Some h \<Rightarrow> Some h
           | None \<Rightarrow> Some (other m))"

definition method_table ::
  "(rstr \<Rightarrow> json \<Rightarrow> server \<Rightarrow> outcome) \<Rightarrow> disk \<Rightarrow> sock_env \<Rightarrow> (rstr \<times> (json \<Rightarrow> server \<Rightarrow> outcome)) list" where
  "method_table other d e =
     system_methods other e @ workspace_methods other d e @ goal_methods e @ pane_methods e @ other_methods e"

section \<open>Requests\<close>

record request =
  rq_method :: rstr
  rq_params :: json
  rq_window :: "rstr option"

definition unknown_method :: "rstr \<Rightarrow> reply" where
  "unknown_method m = RErr ''unknown_method'' (''Unknown method: '' @ m)"

definition run_method ::
  "(rstr \<Rightarrow> json \<Rightarrow> server \<Rightarrow> outcome) \<Rightarrow> disk \<Rightarrow> sock_env \<Rightarrow> rstr \<Rightarrow> json \<Rightarrow> server \<Rightarrow> outcome" where
  "run_method other d e m params sv =
     (case map_of (method_table other d e) m of
        Some h \<Rightarrow> h params sv
      | None \<Rightarrow>
          if starts_with ''browser.'' m
          then case browser_dispatch other e m of
                 Some h \<Rightarrow> h params sv
               | None \<Rightarrow> (sv, unknown_method m)
          else (sv, unknown_method (truncate_str m MAX_METHOD_LEN)))"

text \<open>A window named in the request must exist.\<close>

definition check_window :: "sock_env \<Rightarrow> rstr option \<Rightarrow> server \<Rightarrow> reply option" where
  "check_window e w sv =
     (case w of
        None \<Rightarrow> None
      | Some s \<Rightarrow>
          (case se_parse e s of
             None \<Rightarrow> Some (RErr ''invalid_params'' ''window_id must be a valid UUID'')
           | Some u \<Rightarrow> if u \<in> set (window_ids sv) then None
                       else Some (RErr ''not_found'' (''Window '' @ quoted s @ '' not found''))))"

definition dispatch_request ::
  "(rstr \<Rightarrow> json \<Rightarrow> server \<Rightarrow> outcome) \<Rightarrow> disk \<Rightarrow> sock_env \<Rightarrow> request \<Rightarrow> server \<Rightarrow> outcome" where
  "dispatch_request other d e rq sv =
     (case check_window e (rq_window rq) sv of
        Some r \<Rightarrow> (sv, r)
      | None \<Rightarrow> run_method other d e (rq_method rq) (rq_params rq) sv)"

definition dispatch ::
  "(rstr \<Rightarrow> rstr + request) \<Rightarrow> (rstr \<Rightarrow> json \<Rightarrow> server \<Rightarrow> outcome) \<Rightarrow> disk \<Rightarrow> sock_env \<Rightarrow> rstr \<Rightarrow> server \<Rightarrow> outcome" where
  "dispatch parse other d e line sv =
     (case parse line of
        Inl msg \<Rightarrow> (sv, RErr ''parse_error'' (''Invalid JSON: '' @ msg))
      | Inr rq \<Rightarrow> dispatch_request other d e rq sv)"

end
