(* ===== verification/Fresh_Ids.thy ===== *)
theory Fresh_Ids imports Tab_Manager_More Goal_Runs_More begin

text \<open>
  Identifiers are drawn from a counter. A tab manager \<open>fits\<close> below the counter when it is well formed and every
  identifier of a workspace, panel or group is smaller, so that what is drawn next is new. Each operation of
  the tab manager keeps this; an operation that adds something needs as many identifiers as it draws.
\<close>

named_theorems fits

definition known :: "tab_manager \<Rightarrow> uuid set" where
  "known tm = (\<Union>w \<in> set (tm_spaces tm). insert (ws_id w) (set (panel_keys w))) \<union> wg_id ` set (tm_groups tm)"

definition fits :: "nat \<Rightarrow> tab_manager \<Rightarrow> bool" where
  "fits n tm \<longleftrightarrow> tm_ok tm \<and> (\<forall>i \<in> known tm. i < n)"

lemma fits_ok: "fits n tm \<Longrightarrow> tm_ok tm"
  by (simp add: fits_def)

lemma fits_mono: "fits n tm \<Longrightarrow> n \<le> m \<Longrightarrow> fits m tm"
  by (auto simp: fits_def)

lemma fitsI: "fits n tm \<Longrightarrow> (tm_ok tm \<Longrightarrow> tm_ok tm') \<Longrightarrow> known tm' \<subseteq> known tm \<Longrightarrow> fits n tm'"
  by (auto simp: fits_def)

lemma known_sub:
  assumes "set (tm_spaces tm') \<subseteq> set (tm_spaces tm)" and "wg_id ` set (tm_groups tm') \<subseteq> wg_id ` set (tm_groups tm)"
  shows "known tm' \<subseteq> known tm"
  unfolding known_def by (rule Un_mono [OF UN_mono [OF assms(1)] assms(2)]) simp

lemma known_edit:
  assumes "tm_spaces tm = xs @ w # ys" and "tm_spaces tm' = xs @ w' # ys" and "ws_id w' = ws_id w"
    and "set (panel_keys w') \<subseteq> set (panel_keys w) \<union> N" and "tm_groups tm' = tm_groups tm"
  shows "known tm' \<subseteq> known tm \<union> N"
  using assms(4) by (auto simp: known_def assms(1-3,5) simp del: set_map)

lemma set_remove_at: "set (remove_at i xs) \<subseteq> set xs"
  using remove_at_mset_sub [of i xs] by (metis set_mset_mono set_mset_mset)

lemma set_push_capped: "set (push_capped n x xs) \<subseteq> insert x (set xs)"
  using push_capped_mset_sub [of n x xs] by (metis set_mset_mono set_mset_mset set_mset_add_mset_insert)

section \<open>Operations that add nothing\<close>

lemma select_spaces [simp]:
  "tm_spaces (fst (tm_select i tm)) = tm_spaces tm" "tm_groups (fst (tm_select i tm)) = tm_groups tm"
  "tm_spaces (fst (select_by_id j tm)) = tm_spaces tm" "tm_groups (fst (select_by_id j tm)) = tm_groups tm"
  "tm_spaces (select_next wrap tm) = tm_spaces tm" "tm_groups (select_next wrap tm) = tm_groups tm"
  "tm_spaces (select_previous wrap tm) = tm_spaces tm" "tm_groups (select_previous wrap tm) = tm_groups tm"
  "tm_spaces (select_last tm) = tm_spaces tm" "tm_groups (select_last tm) = tm_groups tm"
  "tm_spaces (fst (select_latest_unread tm)) = tm_spaces tm"
  "tm_groups (fst (select_latest_unread tm)) = tm_groups tm"
  by (simp_all add: tm_select_def select_by_id_def select_next_def select_previous_def select_last_def
      select_latest_unread_def tm_spaces_def split: option.split)

lemma focus_walk_spaces:
  "tm_spaces (fst (focus_back tm)) = tm_spaces tm \<and> tm_groups (fst (focus_back tm)) = tm_groups tm"
  "tm_spaces (fst (focus_forward tm)) = tm_spaces tm \<and> tm_groups (fst (focus_forward tm)) = tm_groups tm"
proof -
  have p: "tm_spaces (tm\<lparr> tm_focus_pos := k \<rparr>) = tm_spaces tm" for tm k by (simp add: tm_spaces_def)
  show "tm_spaces (fst (focus_back tm)) = tm_spaces tm \<and> tm_groups (fst (focus_back tm)) = tm_groups tm"
  proof (induction tm rule: focus_back.induct)
    case (1 tm)
    show ?case
      unfolding focus_back.simps [of tm]
      using 1 by (auto simp: Let_def p simp del: focus_back.simps split: option.split)
  qed
  show "tm_spaces (fst (focus_forward tm)) = tm_spaces tm \<and> tm_groups (fst (focus_forward tm)) = tm_groups tm"
  proof (induction tm rule: focus_forward.induct)
    case (1 tm)
    show ?case
      unfolding focus_forward.simps [of tm]
      using 1 by (auto simp: Let_def p simp del: focus_forward.simps split: option.split)
  qed
qed

lemma tm_remove_known: "known (fst (tm_remove now i tm)) \<subseteq> known tm"
proof (rule known_sub)
  let ?e = "\<lparr> ce_workspace = tm_workspaces tm ! i, ce_closed_at = now, ce_title = ws_display_title (tm_workspaces tm ! i) \<rparr>"
  have "ce_workspace ` set (push_capped CLOSED_STACK_CAP ?e (tm_closed_stack tm)) \<subseteq>
      insert (tm_workspaces tm ! i) (ce_workspace ` set (tm_closed_stack tm))"
    using set_push_capped [of CLOSED_STACK_CAP ?e "tm_closed_stack tm"] by auto
  then show "set (tm_spaces (fst (tm_remove now i tm))) \<subseteq> set (tm_spaces tm)"
    using set_remove_at [of i "tm_workspaces tm"] nth_mem [of i "tm_workspaces tm"]
    by (auto simp: tm_remove_def tm_spaces_def Let_def)
qed (simp add: tm_remove_def Let_def)

lemma remove_by_id_known: "known (fst (remove_by_id now i tm)) \<subseteq> known tm"
  using tm_remove_known by (simp add: remove_by_id_def split: option.split)

lemma move_workspace_known: "known (fst (move_workspace i j tm)) \<subseteq> known tm"
proof (cases "i < length (tm_workspaces tm)")
  case True
  have "set (insert_at j (tm_workspaces tm ! i) (remove_at i (tm_workspaces tm))) \<subseteq> set (tm_workspaces tm)"
    using set_remove_at [of i "tm_workspaces tm"] nth_mem [OF True]
    by (auto simp: insert_at_def dest: in_set_takeD in_set_dropD)
  then show ?thesis
    by (intro known_sub) (auto simp: move_workspace_def tm_spaces_def Let_def)
qed (simp add: move_workspace_def Let_def)

lemma close_many_known:
  "known (fst (close_others i tm)) \<subseteq> known tm" "known (fst (close_above i tm)) \<subseteq> known tm"
  "known (fst (close_below i tm)) \<subseteq> known tm"
proof -
  show "known (fst (close_others i tm)) \<subseteq> known tm"
    by (rule known_sub) (auto simp: tm_spaces_def close_others_spaces close_frame)
  show "known (fst (close_above i tm)) \<subseteq> known tm"
  proof (cases "workspace_index i tm")
    case (Some t)
    show ?thesis
      by (rule known_sub)
        (auto simp: tm_spaces_def close_above_spaces [OF Some] close_frame dest: in_set_takeD in_set_dropD)
  qed (simp add: close_above_def)
  show "known (fst (close_below i tm)) \<subseteq> known tm"
  proof (cases "workspace_index i tm")
    case (Some t)
    show ?thesis
      by (rule known_sub)
        (auto simp: tm_spaces_def close_below_spaces [OF Some] close_frame dest: in_set_takeD in_set_dropD)
  qed (simp add: close_below_def)
qed

lemma known_map:
  assumes "tm_workspaces tm' = map f (tm_workspaces tm)" and "\<And>w. ws_id (f w) = ws_id w \<and> ws_panels (f w) = ws_panels w"
    and "tm_closed_stack tm' = tm_closed_stack tm" and "wg_id ` set (tm_groups tm') \<subseteq> wg_id ` set (tm_groups tm)"
  shows "known tm' \<subseteq> known tm"
  using assms(4) by (auto simp: known_def tm_spaces_def assms(1-3))

lemma edit_group_known: "(\<And>g. wg_id (f g) = wg_id g) \<Longrightarrow> known (fst (edit_group i f tm)) \<subseteq> known tm"
proof (rule known_sub)
  assume f: "\<And>g. wg_id (f g) = wg_id g"
  have "wg_id ` set (update_first P f gs) = wg_id ` set gs" for P gs
    using arg_cong [OF map_update_first [where g = wg_id and f = f and p = P and xs = gs], of set] f by simp
  then show "wg_id ` set (tm_groups (fst (edit_group i f tm))) \<subseteq> wg_id ` set (tm_groups tm)"
    by (simp add: edit_group_def split: option.split)
qed (simp add: edit_group_def tm_spaces_def split: option.split)

lemma remove_group_known: "known (fst (remove_group i tm)) \<subseteq> known tm"
  by (rule known_map [where f = "\<lambda>w. if snd (remove_group i tm) \<and> ws_group_id w = Some i then w\<lparr> ws_group_id := None \<rparr> else w"])
    (auto simp: remove_group_def Let_def)

lemma assign_known: "known (fst (assign_to_group wid gid tm)) \<subseteq> known tm"
proof -
  let ?tm1 = "\<lambda>idx. tm\<lparr> tm_workspaces := (tm_workspaces tm)[idx := (tm_workspaces tm ! idx)\<lparr> ws_group_id := gid \<rparr>] \<rparr>"
  have e: "known (?tm1 idx) \<subseteq> known tm" for idx
  proof (cases "idx < length (tm_workspaces tm)")
    case True
    have "known (?tm1 idx) \<subseteq> known tm \<union> {}"
    proof (rule known_edit)
      show "tm_spaces tm = take idx (tm_workspaces tm) @ (tm_workspaces tm ! idx) #
          (drop (Suc idx) (tm_workspaces tm) @ map ce_workspace (tm_closed_stack tm))"
        using id_take_nth_drop [OF True] by (simp add: tm_spaces_def)
      show "tm_spaces (?tm1 idx) = take idx (tm_workspaces tm) @ ((tm_workspaces tm ! idx)\<lparr> ws_group_id := gid \<rparr>) #
          (drop (Suc idx) (tm_workspaces tm) @ map ce_workspace (tm_closed_stack tm))"
        using True by (simp add: tm_spaces_def upd_conv_take_nth_drop)
    qed simp_all
    then show ?thesis by simp
  qed (simp add: list_update_beyond)
  have "known (fst (move_workspace a b (?tm1 idx))) \<subseteq> known tm" for a b idx
    using move_workspace_known e by blast
  with e show ?thesis
    by (cases gid) (simp_all add: assign_to_group_def Let_def split: option.split)
qed

lemma reopen_known:
  "known (fst (reopen_last_closed tm)) \<subseteq> known tm" "known (fst (reopen_closed i tm)) \<subseteq> known tm"
  "known (clear_closed tm) \<subseteq> known tm"
proof -
  show "known (fst (reopen_last_closed tm)) \<subseteq> known tm"
    by (rule known_sub)
      (auto simp: reopen_last_closed_def tm_spaces_def add_workspace_def Let_def dest: in_set_butlastD)
  show "known (fst (reopen_closed i tm)) \<subseteq> known tm"
  proof (cases "position (\<lambda>e. ws_id (ce_workspace e) = i) (tm_closed_stack tm)")
    case (Some k)
    then have "tm_closed_stack tm ! k \<in> set (tm_closed_stack tm)" by (auto dest: position_Some)
    with Some set_remove_at [of k "tm_closed_stack tm"] show ?thesis
      by (intro known_sub) (auto simp: reopen_closed_def tm_spaces_def add_workspace_def Let_def)
  qed (simp add: reopen_closed_def)
  show "known (clear_closed tm) \<subseteq> known tm"
    by (rule known_sub) (auto simp: clear_closed_def tm_spaces_def)
qed

lemmas known_ops = focus_walk_spaces tm_remove_known remove_by_id_known move_workspace_known close_many_known
  remove_group_known assign_known reopen_known

lemma select_known:
  "known (fst (tm_select k tm)) \<subseteq> known tm" "known (fst (select_by_id i tm)) \<subseteq> known tm"
  "known (select_next wrap tm) \<subseteq> known tm" "known (select_previous wrap tm) \<subseteq> known tm"
  "known (select_last tm) \<subseteq> known tm" "known (fst (select_latest_unread tm)) \<subseteq> known tm"
  "known (fst (focus_back tm)) \<subseteq> known tm" "known (fst (focus_forward tm)) \<subseteq> known tm"
  by (simp_all add: known_def focus_walk_spaces)

lemma group_known:
  "known (fst (rename_group i name tm)) \<subseteq> known tm" "known (fst (set_group_color i color tm)) \<subseteq> known tm"
  "known (fst (set_group_collapsed i c tm)) \<subseteq> known tm"
  by (simp_all add: rename_group_def set_group_color_def set_group_collapsed_def edit_group_known Let_def split: option.split)

lemma fits_select [fits]:
  assumes "fits n tm"
  shows "fits n (fst (tm_select k tm))" "fits n (fst (select_by_id i tm))" "fits n (select_next wrap tm)"
    "fits n (select_previous wrap tm)" "fits n (select_last tm)" "fits n (fst (select_latest_unread tm))"
    "fits n (fst (focus_back tm))" "fits n (fst (focus_forward tm))"
  by (rule fitsI [OF assms], erule keeps, rule select_known)+

lemma fits_remove [fits]:
  assumes "fits n tm"
  shows "fits n (fst (tm_remove now k tm))" "fits n (fst (remove_by_id now i tm))"
    "fits n (fst (move_workspace k l tm))" "fits n (fst (close_others i tm))"
    "fits n (fst (close_above i tm))" "fits n (fst (close_below i tm))"
    "fits n (fst (reopen_last_closed tm))" "fits n (fst (reopen_closed i tm))" "fits n (clear_closed tm)"
  by (rule fitsI [OF assms], erule keeps, rule known_ops)+

lemma fits_groups [fits]:
  assumes "fits n tm"
  shows "fits n (fst (remove_group i tm))" "fits n (fst (assign_to_group i g tm))"
    "fits n (fst (rename_group i name tm))" "fits n (fst (set_group_color i color tm))"
    "fits n (fst (set_group_collapsed i c tm))"
  by (rule fitsI [OF assms], erule keeps, rule known_ops group_known)+

section \<open>Edits of one workspace\<close>

text \<open>An edit that may use the identifiers from \<open>n\<close> up to \<open>m\<close>.\<close>

definition good_edit :: "nat \<Rightarrow> nat \<Rightarrow> workspace \<Rightarrow> workspace \<Rightarrow> bool" where
  "good_edit n m w w' \<longleftrightarrow>
     ws_ok w' \<and> ws_id w' = ws_id w \<and> ws_panels w' \<noteq> [] \<and> set (panel_keys w') \<subseteq> set (panel_keys w) \<union> {n..<m}"

definition sound_space :: "nat \<Rightarrow> workspace \<Rightarrow> bool" where
  "sound_space n w \<longleftrightarrow> ws_ok w \<and> ws_panels w \<noteq> [] \<and> (\<forall>k \<in> set (panel_keys w). k < n)"

lemma fits_space:
  assumes "fits n tm" and "w \<in> set (tm_workspaces tm)" shows "sound_space n w"
  using assms tm_ok_live [of tm w] by (auto simp: fits_def sound_space_def known_def tm_spaces_def simp del: set_map)

lemma fits_keys_less:
  assumes "fits n tm" and "k \<in> set (concat (map panel_keys (tm_spaces tm)))" shows "k < n"
proof -
  from assms(2) obtain w where "w \<in> set (tm_spaces tm)" "k \<in> set (panel_keys w)" by auto
  then have "k \<in> known tm" unfolding known_def by blast
  with assms(1) show ?thesis by (simp add: fits_def)
qed

lemma fits_replace:
  assumes "fits n tm" and "tm_workspaces tm = xs @ w # ys" and "good_edit n m w w'" and "n \<le> m"
  shows "fits m (tm\<lparr> tm_workspaces := xs @ w' # ys \<rparr>)"
proof -
  let ?tm = "tm\<lparr> tm_workspaces := xs @ w' # ys \<rparr>" let ?c = "map ce_workspace (tm_closed_stack tm)"
  note g = assms(3) [unfolded good_edit_def]
  have "spaces_ok (tm_spaces ?tm)"
  proof (rule spaces_ok_edit [OF tm_okD(1) [OF fits_ok [OF assms(1)]] assms(2)])
    fix k assume "k \<in> set (panel_keys w')"
    then have "k \<in> set (panel_keys w) \<or> n \<le> k" using g by auto
    then show "k \<in> set (panel_keys w) \<or> k \<notin> set (concat (map panel_keys (tm_spaces tm)))"
      using fits_keys_less [OF assms(1), of k] by linarith
  qed (use g in simp_all)
  then have "tm_ok ?tm" using assms(2) by (intro tm_ok_editI [OF fits_ok [OF assms(1)]]) simp_all
  moreover have "known ?tm \<subseteq> known tm \<union> {n..<m}"
    by (rule known_edit [of tm xs w "ys @ ?c" ?tm w']) (use g assms(2) in \<open>simp_all add: tm_spaces_def del: set_map\<close>)
  moreover have "i < m" if "i \<in> known tm \<union> {n..<m}" for i
    using that fits_mono [OF assms(1,4)] by (auto simp: fits_def)
  ultimately show ?thesis unfolding fits_def by blast
qed

lemma fits_update_first:
  assumes "fits n tm" and "n \<le> m" and "\<And>w. find P (tm_workspaces tm) = Some w \<Longrightarrow> sound_space n w \<Longrightarrow> good_edit n m w (f w)"
  shows "fits m (tm\<lparr> tm_workspaces := update_first P f (tm_workspaces tm) \<rparr>)"
proof (cases "find P (tm_workspaces tm)")
  case None
  have same: "find P ws = None \<Longrightarrow> update_first P f ws = ws" for ws by (induction ws) (auto split: if_splits)
  from same [OF None] have "update_first P f (tm_workspaces tm) = tm_workspaces tm" .
  then show ?thesis using fits_mono [OF assms(1,2)] by simp
next
  case (Some w)
  from find_split [OF this] obtain xs ys where l: "tm_workspaces tm = xs @ w # ys"
    "update_first P f (tm_workspaces tm) = xs @ f w # ys" by blast
  from fits_space [OF assms(1)] l(1) have "sound_space n w" by simp
  with fits_replace [OF assms(1) l(1) assms(3) [OF Some] assms(2)] l(2) show ?thesis by simp
qed

end
