(* ===== verification/Socket_Facts.thy ===== *)
theory Socket_Facts imports Socket_Dispatch Fresh_Ids begin

text \<open>
  The invariant of the server's state, that its workspaces fit below the counter of identifiers, and the rules by
  which the handlers keep it: one per way the state is changed (\<open>edits\<close>, \<open>fits\<close>) and one per way a handler is
  composed (\<open>served\<close>).
\<close>

named_theorems edits and served

definition server_ok :: "server \<Rightarrow> bool" where
  "server_ok sv \<longleftrightarrow> fits (next_id sv) (tabs sv) \<and> notes_ok (sh_notes (sv_sh sv))"

definition okay :: "outcome \<Rightarrow> bool" where
  "okay r \<longleftrightarrow> server_ok (fst r)"

section \<open>The state\<close>

lemma tabs_simps [simp]:
  "tabs (set_tabs tm sv) = tm" "tabs (set_notes ns sv) = tabs sv" "tabs (draw k sv) = tabs sv"
  "tabs (fst (send_ui_event ev sv)) = tabs sv" "tabs (fst (send_ui_event_to w ev sv)) = tabs sv"
  "tabs (notify_ui_refresh sv) = tabs sv" "tabs (notify_metadata_refresh sv) = tabs sv"
  "tabs (set_sh sh sv) = sh_tabs sh" "tabs (sv\<lparr> sv_hibernated := h \<rparr>) = tabs sv" "tabs (sv\<lparr> sv_windows := ws \<rparr>) = tabs sv"
  by (auto simp: tabs_def set_tabs_def set_notes_def draw_def send_ui_event_def send_ui_event_to_def
      notify_ui_refresh_def notify_metadata_refresh_def set_sh_def split: list.splits prod.splits bool.splits)

lemma next_id_simps [simp]:
  "next_id (set_tabs tm sv) = next_id sv" "next_id (set_notes ns sv) = next_id sv" "next_id (draw k sv) = next_id sv + k"
  "next_id (fst (send_ui_event ev sv)) = next_id sv" "next_id (fst (send_ui_event_to w ev sv)) = next_id sv"
  "next_id (notify_ui_refresh sv) = next_id sv" "next_id (notify_metadata_refresh sv) = next_id sv"
  "next_id (set_sh sh sv) = sh_next sh" "next_id (sv\<lparr> sv_hibernated := h \<rparr>) = next_id sv"
  "next_id (sv\<lparr> sv_windows := ws \<rparr>) = next_id sv"
  by (auto simp: set_tabs_def set_notes_def draw_def send_ui_event_def send_ui_event_to_def
      notify_ui_refresh_def notify_metadata_refresh_def set_sh_def split: list.splits prod.splits bool.splits)

lemma notes_simps [simp]:
  "sh_notes (sv_sh (set_tabs tm sv)) = sh_notes (sv_sh sv)" "sh_notes (sv_sh (set_notes ns sv)) = ns"
  "sh_notes (sv_sh (draw k sv)) = sh_notes (sv_sh sv)" "sh_notes (sv_sh (fst (send_ui_event ev sv))) = sh_notes (sv_sh sv)"
  "sh_notes (sv_sh (fst (send_ui_event_to w ev sv))) = sh_notes (sv_sh sv)"
  "sh_notes (sv_sh (notify_ui_refresh sv)) = sh_notes (sv_sh sv)"
  "sh_notes (sv_sh (notify_metadata_refresh sv)) = sh_notes (sv_sh sv)" "sh_notes (sv_sh (set_sh sh sv)) = sh_notes sh"
  by (auto simp: set_tabs_def set_notes_def draw_def send_ui_event_def send_ui_event_to_def
      notify_ui_refresh_def notify_metadata_refresh_def set_sh_def split: list.splits prod.splits bool.splits)

lemma notes_served [served]:
  "server_ok sv \<Longrightarrow> notes_ok (sh_notes (sv_sh sv))"
  by (simp add: server_ok_def)

lemmas notes_ops_served [served] = notes_ops_ok

lemma server_okI [served]:
  "server_ok sv \<Longrightarrow> server_ok (fst (send_ui_event ev sv))" "server_ok sv \<Longrightarrow> server_ok (fst (send_ui_event_to w ev sv))"
  "server_ok sv \<Longrightarrow> server_ok (notify_ui_refresh sv)" "server_ok sv \<Longrightarrow> server_ok (notify_metadata_refresh sv)"
  "server_ok sv \<Longrightarrow> server_ok (sv\<lparr> sv_windows := ws \<rparr>)"
  "server_ok sv \<Longrightarrow> notes_ok ns \<Longrightarrow> server_ok (set_notes ns sv)" "server_ok sv \<Longrightarrow> server_ok (sv\<lparr> sv_hibernated := h \<rparr>)"
  "server_ok sv \<Longrightarrow> (fits (next_id sv) (tabs sv) \<Longrightarrow> fits (next_id sv + k) tm) \<Longrightarrow> server_ok (draw k (set_tabs tm sv))"
  "server_ok sv \<Longrightarrow> server_ok (draw k sv)"
  "server_ok sv \<Longrightarrow> (fits (next_id sv) (tabs sv) \<Longrightarrow> fits (next_id sv) tm) \<Longrightarrow> server_ok (set_tabs tm sv)"
  by (simp_all add: server_ok_def fits_mono [of "next_id sv"])

lemma server_okD: "server_ok sv \<Longrightarrow> fits (next_id sv) (tabs sv)"
  by (simp add: server_ok_def)

section \<open>Composition\<close>

lemma okay_compose [served]:
  "server_ok sv \<Longrightarrow> okay (sv, r)"
  "(x = None \<Longrightarrow> okay a) \<Longrightarrow> (\<And>y. x = Some y \<Longrightarrow> okay (f y)) \<Longrightarrow> okay (case x of None \<Rightarrow> a | Some y \<Rightarrow> f y)"
  "(\<And>y. s = Inl y \<Longrightarrow> okay (g y)) \<Longrightarrow> (\<And>z. s = Inr z \<Longrightarrow> okay (h z)) \<Longrightarrow> okay (case s of Inl y \<Rightarrow> g y | Inr z \<Rightarrow> h z)"
  "(c \<Longrightarrow> okay a) \<Longrightarrow> (\<not> c \<Longrightarrow> okay b) \<Longrightarrow> okay (if c then a else b)"
  "okay (k v) \<Longrightarrow> okay (Let v k)"
  "okay (l (fst p) (snd p)) \<Longrightarrow> okay (case p of (y, z) \<Rightarrow> l y z)"
  by (auto simp: okay_def split: option.split sum.split prod.split)

lemma server_ok_compose [served]:
  "(x = None \<Longrightarrow> server_ok a) \<Longrightarrow> (\<And>y. x = Some y \<Longrightarrow> server_ok (f y)) \<Longrightarrow> server_ok (case x of None \<Rightarrow> a | Some y \<Rightarrow> f y)"
  "(c \<Longrightarrow> server_ok a) \<Longrightarrow> (\<not> c \<Longrightarrow> server_ok b) \<Longrightarrow> server_ok (if c then a else b)"
  "server_ok (k v) \<Longrightarrow> server_ok (Let v k)" "server_ok a \<Longrightarrow> server_ok (fst (a, r))"
  "(c \<Longrightarrow> server_ok (fst p)) \<Longrightarrow> (\<not> c \<Longrightarrow> server_ok (fst q)) \<Longrightarrow> server_ok (fst (if c then p else q))"
  by (auto split: option.split)

lemma fits_compose [fits]:
  "(x = None \<Longrightarrow> fits n a) \<Longrightarrow> (\<And>y. x = Some y \<Longrightarrow> fits n (f y)) \<Longrightarrow> fits n (case x of None \<Rightarrow> a | Some y \<Rightarrow> f y)"
  "(c \<Longrightarrow> fits n a) \<Longrightarrow> (\<not> c \<Longrightarrow> fits n b) \<Longrightarrow> fits n (if c then a else b)"
  "fits n (k v) \<Longrightarrow> fits n (Let v k)" "fits n tm \<Longrightarrow> fits n (fst (tm, r))"
  "(x = None \<Longrightarrow> fits n (fst p)) \<Longrightarrow> (\<And>y. x = Some y \<Longrightarrow> fits n (fst (q y))) \<Longrightarrow>
     fits n (fst (case x of None \<Rightarrow> p | Some y \<Rightarrow> q y))"
  "(c \<Longrightarrow> fits n (fst p)) \<Longrightarrow> (\<not> c \<Longrightarrow> fits n (fst p')) \<Longrightarrow> fits n (fst (if c then p else p'))"
  by (auto split: option.split)

lemma okay_shapes [served]:
  "server_ok sv \<Longrightarrow> okay (list_reply e params sv name h)"
  "server_ok sv \<Longrightarrow> (\<And>w. okay (k w)) \<Longrightarrow> okay (on_workspace_param e params sv k)"
  "server_ok sv \<Longrightarrow> (\<And>p. okay (l p)) \<Longrightarrow> okay (on_panel_id e params sv l)"
  "server_ok sv \<Longrightarrow> okay (fire ev r sv)"
  by (auto simp: on_workspace_param_def on_panel_id_def list_reply_def fire_def split: option.split sum.split intro!: served)

section \<open>Edits of a workspace\<close>

lemma sound_ok: "sound_space n w \<Longrightarrow> ws_ok w" "sound_space n w \<Longrightarrow> ws_panels w \<noteq> []"
  by (simp_all add: sound_space_def)

lemma good_same [edits]: "sound_space n w \<Longrightarrow> good_edit n m w w"
  by (simp add: sound_space_def good_edit_def)

lemma good_then:
  assumes "sound_space n w" and "good_edit n m w w'" and "n \<le> m" shows "sound_space m w'"
proof -
  have "k < m" if "k \<in> set (panel_keys w')" for k
    using assms that unfolding sound_space_def good_edit_def by (meson UnE atLeastLessThan_iff less_le_trans subsetD)
  with assms(2) show ?thesis by (simp add: sound_space_def good_edit_def)
qed

lemma good_trans:
  assumes "good_edit n m w w'" and "good_edit m k w' w''" and "n \<le> m" and "m \<le> k"
  shows "good_edit n k w w''"
proof -
  have i: "{n..<m} \<subseteq> {n..<k}" "{m..<k} \<subseteq> {n..<k}" using assms(3,4) by auto
  have "set (panel_keys w'') \<subseteq> set (panel_keys w') \<union> {m..<k}" "set (panel_keys w') \<subseteq> set (panel_keys w) \<union> {n..<m}"
    using assms(1,2) unfolding good_edit_def by simp_all
  with i have "set (panel_keys w'') \<subseteq> set (panel_keys w) \<union> {n..<k}" by blast
  with assms(1,2) show ?thesis unfolding good_edit_def by simp
qed

text \<open>Fields the invariant does not read.\<close>

lemma good_frame:
  assumes "good_edit n m w v" and "ws_id v' = ws_id v" and "ws_layout v' = ws_layout v" and "ws_panels v' = ws_panels v"
    and "ws_focused_panel_id v' = ws_focused_panel_id v" and "ws_closed_panels v' = ws_closed_panels v"
    and "meta_ok v \<Longrightarrow> meta_ok v'"
  shows "good_edit n m w v'"
  using assms by (simp add: good_edit_def ws_ok_def)

lemma good_fields [edits]:
  assumes "good_edit n m w v"
  shows
    "good_edit n m w (ws_process_title_update f1 v)" "good_edit n m w (ws_custom_title_update f2 v)"
    "good_edit n m w (ws_custom_color_update f3 v)" "good_edit n m w (ws_is_pinned_update f4 v)"
    "good_edit n m w (ws_current_directory_update f5 v)" "good_edit n m w (ws_previous_focused_panel_id_update f6 v)"
    "good_edit n m w (ws_zoomed_panel_id_update f7 v)" "good_edit n m w (v\<lparr> ws_status_entries := [] \<rparr>)"
    "good_edit n m w (v\<lparr> ws_log_entries := [] \<rparr>)" "good_edit n m w (v\<lparr> ws_metadata_entries := [] \<rparr>)"
    "good_edit n m w (v\<lparr> ws_metadata_blocks := [] \<rparr>)" "good_edit n m w (ws_progress_update f12 v)"
    "good_edit n m w (ws_git_branch_update f13 v)" "good_edit n m w (ws_unread_count_update f14 v)"
    "good_edit n m w (ws_latest_notification_update f15 v)" "good_edit n m w (ws_latest_notification_at_update f16 v)"
    "good_edit n m w (ws_attention_panel_id_update f17 v)" "good_edit n m w (ws_pr_status_update f18 v)"
    "good_edit n m w (ws_pr_url_update f19 v)" "good_edit n m w (ws_pr_checks_update f20 v)"
    "good_edit n m w (ws_window_id_update f21 v)" "good_edit n m w (ws_group_id_update f22 v)"
    "good_edit n m w (ws_remote_config_update f23 v)" "good_edit n m w (ws_remote_state_update f24 v)"
    "good_edit n m w (ws_imessage_mode_update f25 v)" "good_edit n m w (ws_env_update f26 v)"
    "good_edit n m w (ws_description_update f27 v)" "good_edit n m w (ws_subagent_monitor_update f28 v)"
  by (rule good_frame [OF assms]; simp add: meta_ok_def)+

lemma good_reports [edits]:
  assumes "good_edit n m w v"
  shows "good_edit n m w (set_status_with_url now key val icon color url v)"
    "good_edit n m w (set_metadata now key val icon color url pr fmt v)" "good_edit n m w (clear_metadata key v)"
    "good_edit n m w (set_metadata_block now key val pr v)" "good_edit n m w (clear_metadata_block key v)"
    "good_edit n m w (append_log now msg level source v)" "good_edit n m w (mark_notifications_read v)"
  by (rule good_frame [OF assms _ _ _ _ _ meta_step_ok(1)] good_frame [OF assms _ _ _ _ _ meta_step_ok(2)]
      good_frame [OF assms _ _ _ _ _ meta_step_ok(3)] good_frame [OF assms _ _ _ _ _ meta_step_ok(4)]
      good_frame [OF assms _ _ _ _ _ meta_step_ok(5)] good_frame [OF assms _ _ _ _ _ meta_step_ok(6)]
      good_frame [OF assms _ _ _ _ _ meta_step_ok(8)];
      simp add: meta_defs Let_def split: option.split)+

lemma good_compose [edits]:
  "(x = None \<Longrightarrow> good_edit n m w a) \<Longrightarrow> (\<And>y. x = Some y \<Longrightarrow> good_edit n m w (f y)) \<Longrightarrow>
     good_edit n m w (case x of None \<Rightarrow> a | Some y \<Rightarrow> f y)"
  "(c \<Longrightarrow> good_edit n m w a) \<Longrightarrow> (\<not> c \<Longrightarrow> good_edit n m w b) \<Longrightarrow> good_edit n m w (if c then a else b)"
  "good_edit n m w (k z) \<Longrightarrow> good_edit n m w (Let z k)"
  "(x = None \<Longrightarrow> good_edit n m w (a' u)) \<Longrightarrow> (\<And>y. x = Some y \<Longrightarrow> good_edit n m w (f' y u)) \<Longrightarrow>
     good_edit n m w ((case x of None \<Rightarrow> a' | Some y \<Rightarrow> f' y) u)"
  by (auto split: option.split)

lemma modify_panel_facts:
  "keys_of (modify_panel p f m) = keys_of m" "modify_panel p f m = [] \<longleftrightarrow> m = []"
  "map_of (modify_panel p f m) k = map_option (\<lambda>q. if k = p then f q else q) (map_of m k)"
proof -
  show "keys_of (modify_panel p f m) = keys_of m" "modify_panel p f m = [] \<longleftrightarrow> m = []"
    by (induction m) (auto simp: modify_panel_def)
  show "map_of (modify_panel p f m) k = map_option (\<lambda>q. if k = p then f q else q) (map_of m k)"
    by (induction m) (auto simp: modify_panel_def)
qed

lemma good_ok: "good_edit n m w v \<Longrightarrow> ws_ok v" "good_edit n m w v \<Longrightarrow> ws_panels v \<noteq> []"
  by (simp_all add: good_edit_def)

lemma good_modify [edits]:
  assumes "good_edit n m w v" and "\<And>q. p_id (f q) = p_id q"
  shows "good_edit n m w (v\<lparr> ws_panels := modify_panel p f (ws_panels v) \<rparr>)"
proof -
  have "panels_keyed (modify_panel p f (ws_panels v))"
    using ws_okD(3) [OF good_ok(1) [OF assms(1)]] assms(2) by (auto simp: panels_keyed_def modify_panel_facts)
  moreover have "focus_ok x (modify_panel p f (ws_panels v)) = focus_ok x (ws_panels v)" for x
    by (simp add: focus_ok_def modify_panel_facts split: option.split)
  moreover have "consistent (modify_panel p f (ws_panels v)) is = consistent (ws_panels v) is" for "is"
    by (simp add: consistent_def modify_panel_facts del: set_map)
  ultimately show ?thesis
    using assms(1) by (simp add: good_edit_def ws_ok_def modify_panel_facts del: set_map)
qed

lemma fresh_key:
  assumes "sound_space n w" and "good_edit n p w v" and "n \<le> p" shows "\<not> has_key p (ws_panels v)"
proof -
  have "sound_space p v" by (rule good_then [OF assms])
  then show ?thesis unfolding has_key_iff sound_space_def by blast
qed

lemma good_new_key:
  assumes "good_edit n p w v" and "p < m" and "n \<le> p" and "ws_ok v'" and "ws_id v' = ws_id v" and "ws_panels v' \<noteq> []"
    and "set (panel_keys v') \<subseteq> insert p (set (panel_keys v))"
  shows "good_edit n m w v'"
proof -
  have "{n..<p} \<subseteq> {n..<m}" "p \<in> {n..<m}" using assms(2,3) by auto
  moreover have "set (panel_keys v) \<subseteq> set (panel_keys w) \<union> {n..<p}" "ws_id v = ws_id w"
    using assms(1) by (simp_all add: good_edit_def)
  ultimately have "set (panel_keys v') \<subseteq> set (panel_keys w) \<union> {n..<m}" using assms(7) by blast
  with assms(4-6) \<open>ws_id v = ws_id w\<close> show ?thesis by (simp add: good_edit_def)
qed

lemma good_insert [edits]:
  assumes "sound_space n w" and "good_edit n (p_id p) w v" and "n \<le> p_id p" and "p_id p < m"
  shows "good_edit n m w (fst (insert_panel p ori v))"
proof (rule good_new_key [OF assms(2,4,3)])
  show "ws_ok (fst (insert_panel p ori v))"
    using insert_panel_ok [OF good_ok(1) [OF assms(2)] fresh_key [OF assms(1-3)]] good_ok(2) [OF assms(2)]
    by (simp add: ws_is_empty_def)
qed (auto simp: insert_panel_def keys_update update_nonempty simp del: set_map)

lemma good_split [edits]:
  "sound_space n w \<Longrightarrow> good_edit n p w v \<Longrightarrow> n \<le> p \<Longrightarrow> p < m \<Longrightarrow> good_edit n m w (fst (ws_split ori ty p v))"
  using good_insert [of n w "panel_for_split ty p" v m ori] by (simp add: ws_split_insert)

lemma focus_panel_facts [simp]:
  "ws_id (fst (focus_panel p w)) = ws_id w" "ws_panels (fst (focus_panel p w)) = ws_panels w"
  by (simp_all add: focus_panel_def split_beta Let_def)

lemma good_focus [edits]: "good_edit n m w v \<Longrightarrow> good_edit n m w (fst (focus_panel p v))"
  by (simp add: good_edit_def focus_panel_ok)

lemma good_reopen [edits]:
  assumes "sound_space n w" and "good_edit n p w v" and "n \<le> p" and "p < m"
  shows "good_edit n m w (fst (reopen_last_closed_panel p v))"
proof (rule good_new_key [OF assms(2,4,3)])
  show "ws_ok (fst (reopen_last_closed_panel p v))"
    using reopen_ok [OF good_ok(1) [OF assms(2)] fresh_key [OF assms(1-3)]] by blast
qed (use good_ok(2) [OF assms(2)] in \<open>auto simp: reopen_last_closed_panel_def Let_def keys_update update_nonempty
       simp del: set_map split: option.split\<close>)

lemma good_layout [edits]:
  assumes "good_edit n m w v" and "layout_ok l" and "set (all_panel_ids l) = set (all_panel_ids (ws_layout v))"
  shows "good_edit n m w (v\<lparr> ws_layout := l \<rparr>)"
proof -
  have "consistent (ws_panels v) (all_panel_ids l)"
    using ws_okD(2) [OF good_ok(1) [OF assms(1)]] assms(3) by (simp add: consistent_def)
  with assms show ?thesis by (simp add: good_edit_def ws_ok_def)
qed

section \<open>Edits in the tab manager\<close>

lemma fits_edit_workspace [fits]:
  assumes "fits n tm" and "n \<le> m" and "\<And>w. tm_workspace i tm = Some w \<Longrightarrow> sound_space n w \<Longrightarrow> good_edit n m w (f w)"
  shows "fits m (edit_workspace i f tm)"
  unfolding edit_workspace_def by (rule fits_update_first [OF assms(1,2)]) (simp add: assms(3) tm_workspace_def)

lemma fits_edit_holder [fits]:
  assumes "fits n tm" and "n \<le> m"
    and "\<And>w. find_workspace_with_panel p tm = Some w \<Longrightarrow> sound_space n w \<Longrightarrow> good_edit n m w (f w)"
  shows "fits m (edit_holder p f tm)"
  unfolding edit_holder_def
  by (rule fits_update_first [OF assms(1,2)]) (simp add: assms(3) find_workspace_with_panel_def)

lemma fits_edit_selected [fits]:
  assumes "fits n tm" and "n \<le> m" and "\<And>w. tm_selected tm = Some w \<Longrightarrow> sound_space n w \<Longrightarrow> good_edit n m w (f w)"
  shows "fits m (edit_selected f tm)"
proof (cases "\<exists>i. tm_selected_index tm = Some i \<and> i < length (tm_workspaces tm)")
  case True
  then obtain i where i: "tm_selected_index tm = Some i" "i < length (tm_workspaces tm)" by blast
  let ?w = "tm_workspaces tm ! i"
  have "tm_selected tm = Some ?w" using i by (simp add: tm_selected_def get_at_def)
  from assms(3) [OF this fits_space [OF assms(1)]] i(2) have g: "good_edit n m ?w (f ?w)" by simp
  have "tm_workspaces tm = take i (tm_workspaces tm) @ ?w # drop (Suc i) (tm_workspaces tm)"
    using i(2) by (rule id_take_nth_drop)
  from fits_replace [OF assms(1) this g assms(2)] i show ?thesis
    by (simp add: edit_selected_def upd_conv_take_nth_drop)
next
  case False
  then have "edit_selected f tm = tm" by (auto simp: edit_selected_def split: option.split)
  with fits_mono [OF assms(1,2)] show ?thesis by simp
qed

lemma fits_edit_target [fits]:
  assumes "fits n tm" and "n \<le> m" and "\<And>w. target i tm = Some w \<Longrightarrow> sound_space n w \<Longrightarrow> good_edit n m w (f w)"
  shows "fits m (edit_target i f tm)"
  using assms by (cases i) (auto simp: edit_target_def target_def intro!: fits_edit_workspace fits_edit_selected)

definition new_space :: "nat \<Rightarrow> nat \<Rightarrow> workspace \<Rightarrow> bool" where
  "new_space n m w \<longleftrightarrow> ws_ok w \<and> ws_panels w \<noteq> [] \<and> n \<le> ws_id w \<and> ws_id w < m \<and> set (panel_keys w) \<subseteq> {n..<m}"

lemma fits_fresh:
  assumes "fits n tm" and "new_space n m w" shows "fresh_space w tm"
proof -
  note d = assms(2) [unfolded new_space_def]
  have "i < n" if "i \<in> ws_id ` set (tm_spaces tm)" for i
    using assms(1) that unfolding fits_def known_def by blast
  with d have id: "ws_id w \<notin> ws_id ` set (tm_spaces tm)" by (meson leD)
  have disj: "set (panel_keys w) \<inter> set (concat (map panel_keys (tm_spaces tm))) = {}"
  proof (rule Int_emptyI)
    fix k assume "k \<in> set (panel_keys w)" and k: "k \<in> set (concat (map panel_keys (tm_spaces tm)))"
    then have "n \<le> k" using d by auto
    with fits_keys_less [OF assms(1) k] show False by simp
  qed
  have keys: "distinct (panel_keys w)" using ws_okD(2) [of w] d by (simp add: consistent_def)
  have "distinct (concat (map panel_keys (w # tm_spaces tm)))"
    using keys disj tm_okD(1) [OF fits_ok [OF assms(1)]] by (simp add: spaces_sound_def del: set_concat set_map)
  with id d tm_okD(1) [OF fits_ok [OF assms(1)]] show ?thesis
    unfolding fresh_in_def spaces_sound_def by simp
qed

lemma fits_addI:
  assumes "fits n tm" and "ws_id w < m" and "\<forall>k \<in> set (panel_keys w). k < m" and "n \<le> m" and "tm_ok tm'"
    and "mset (tm_spaces tm') = add_mset w (mset (tm_spaces tm))" and "tm_groups tm' = tm_groups tm"
  shows "fits m tm'"
proof -
  have s: "set (tm_spaces tm') = insert w (set (tm_spaces tm))"
    using arg_cong [OF assms(6), of set_mset] by simp
  have "i < m" if "i \<in> known tm'" for i
  proof -
    from that consider "i \<in> known tm" | "i = ws_id w" | "i \<in> set (panel_keys w)"
      unfolding known_def s assms(7) by blast
    then show ?thesis
      using fits_mono [OF assms(1,4)] assms(2,3) unfolding fits_def by cases auto
  qed
  with assms(5) show ?thesis by (simp add: fits_def)
qed

lemma new_bounds: "new_space n m w \<Longrightarrow> ws_id w < m" "new_space n m w \<Longrightarrow> \<forall>k \<in> set (panel_keys w). k < m"
  unfolding new_space_def by auto

lemma added_spaces:
  "mset (tm_spaces (fst (add_workspace w tm))) = add_mset w (mset (tm_spaces tm))"
  "mset (tm_spaces (fst (add_workspace_with_placement w pl tm))) = add_mset w (mset (tm_spaces tm))"
  "mset (tm_spaces (fst (add_workspace_keep_selection w pl tm))) = add_mset w (mset (tm_spaces tm))"
  "tm_groups (fst (add_workspace w tm)) = tm_groups tm"
  "tm_groups (fst (add_workspace_with_placement w pl tm)) = tm_groups tm"
  "tm_groups (fst (add_workspace_keep_selection w pl tm)) = tm_groups tm"
  by (cases pl; simp add: tm_spaces_def add_workspace_def add_workspace_with_placement_def add_workspace_at_top_def
        add_workspace_after_current_def add_workspace_keep_selection_def Let_def split: option.split)+

lemma fits_add [fits]:
  assumes "fits n tm" and "new_space n m w" and "n \<le> m"
  shows "fits m (fst (add_workspace w tm))" "fits m (fst (add_workspace_with_placement w pl tm))"
    "fits m (fst (add_workspace_keep_selection w pl tm))"
  by (rule fits_addI [OF assms(1) new_bounds [OF assms(2)] assms(3)]; rule add_ops_ok [OF fits_ok [OF assms(1)] fits_fresh [OF assms(1,2)]] added_spaces)+

lemma fits_create_group [fits]:
  assumes "fits n tm" and "n \<le> g" and "g < m"
  shows "fits m (fst (create_group g name win tm))"
proof -
  have "g \<notin> known tm" using assms(1,2) by (auto simp: fits_def)
  then have "g \<notin> wg_id ` set (tm_groups tm)" by (simp add: known_def)
  then have "tm_ok (fst (create_group g name win tm))" by (rule create_group_ok [OF fits_ok [OF assms(1)]])
  moreover have "known (fst (create_group g name win tm)) = insert g (known tm)"
    by (simp add: known_def create_group_def new_group_def tm_spaces_def Let_def)
  moreover have "i < m" if "i \<in> known tm" for i using assms that by (auto simp: fits_def)
  ultimately show ?thesis using assms(3) by (simp add: fits_def)
qed

section \<open>Panels that are closed or moved\<close>

lemma known_update_first:
  assumes "\<And>w. find P (tm_workspaces tm) = Some w \<Longrightarrow> ws_id (f w) = ws_id w \<and> set (panel_keys (f w)) \<subseteq> set (panel_keys w) \<union> N"
  shows "known (tm\<lparr> tm_workspaces := update_first P f (tm_workspaces tm) \<rparr>) \<subseteq> known tm \<union> N"
proof (cases "find P (tm_workspaces tm)")
  case None
  have "find P ws = None \<Longrightarrow> update_first P f ws = ws" for ws by (induction ws) (auto split: if_splits)
  from this [OF None] show ?thesis by simp
next
  case (Some w)
  let ?tm = "tm\<lparr> tm_workspaces := update_first P f (tm_workspaces tm) \<rparr>"
  from find_split [OF Some] obtain xs ys where l: "tm_workspaces tm = xs @ w # ys"
    "update_first P f (tm_workspaces tm) = xs @ f w # ys" by blast
  show ?thesis
    by (rule known_edit [of tm xs w "ys @ map ce_workspace (tm_closed_stack tm)" ?tm "f w"])
      (use assms [OF Some] l in \<open>simp_all add: tm_spaces_def del: set_map\<close>)
qed

lemma known_edit_workspace:
  assumes "\<And>w. tm_workspace i tm = Some w \<Longrightarrow> ws_id (f w) = ws_id w \<and> set (panel_keys (f w)) \<subseteq> set (panel_keys w) \<union> N"
  shows "known (edit_workspace i f tm) \<subseteq> known tm \<union> N"
  unfolding edit_workspace_def by (rule known_update_first) (rule assms, simp only: tm_workspace_def)

lemma detached_keys: "set (panel_keys (fst (detach_panel p w))) \<subseteq> set (panel_keys w)"
  "set (panel_keys (fst (ws_remove_panel p w))) \<subseteq> set (panel_keys w)"
  using keys_delete [of p "ws_panels w"] by (auto simp: detach_panel_def ws_remove_panel_def Let_def simp del: set_map split: option.split)

lemma fits_close_panel [fits]:
  assumes "fits n tm" shows "fits n (fst (close_panel now p tm))"
proof (rule fitsI [OF assms])
  show "known (fst (close_panel now p tm)) \<subseteq> known tm"
  proof (cases "find_workspace_with_panel p tm")
    case (Some w)
    let ?tm = "tm\<lparr> tm_workspaces := update_first (\<lambda>w. has_key p (ws_panels w)) (\<lambda>_. fst (ws_remove_panel p w)) (tm_workspaces tm) \<rparr>"
    have "known ?tm \<subseteq> known tm \<union> {}"
      by (rule known_update_first) (use Some detached_keys in \<open>auto simp: find_workspace_with_panel_def simp del: set_map\<close>)
    moreover have "fst (close_panel now p tm) \<in> {?tm, fst (remove_by_id now (ws_id w) ?tm)}"
      using Some by (auto simp: close_panel_def Let_def split_beta)
    ultimately show ?thesis using remove_by_id_known [of now "ws_id w" ?tm] by auto
  qed (simp add: close_panel_def)
qed (rule close_panel_ok)

lemma known_detach: "known (detach_and_drop now p w tm) \<subseteq> known tm"
  if "tm_workspace (ws_id w) tm = Some w"
proof -
  have "known (edit_workspace (ws_id w) (\<lambda>_. fst (detach_panel p w)) tm) \<subseteq> known tm \<union> {}"
    by (rule known_edit_workspace) (use that detached_keys in \<open>auto simp del: set_map\<close>)
  then show ?thesis
    using remove_by_id_known [of now "ws_id w" "edit_workspace (ws_id w) (\<lambda>_. fst (detach_panel p w)) tm"]
    by (auto simp: detach_and_drop_def Let_def)
qed

lemma holder_facts:
  assumes "fits n tm" and "find_workspace_with_panel p tm = Some w"
  shows "w \<in> set (tm_workspaces tm)" "tm_workspace (ws_id w) tm = Some w" "has_key p (ws_panels w)" "sound_space n w"
    "p \<in> known tm"
proof -
  show w: "w \<in> set (tm_workspaces tm)" and k: "has_key p (ws_panels w)"
    using assms(2) find_Some_in [of "\<lambda>w. has_key p (ws_panels w)" "tm_workspaces tm" w]
    by (auto simp: find_workspace_with_panel_def)
  show "tm_workspace (ws_id w) tm = Some w" by (rule tm_ok_live(3) [OF fits_ok [OF assms(1)] w])
  show "sound_space n w" by (rule fits_space [OF assms(1) w])
  from k have "p \<in> set (panel_keys w)" unfolding has_key_iff .
  with w show "p \<in> known tm" unfolding known_def tm_spaces_def by auto
qed

lemma fits_move_panel [fits]:
  assumes "fits n tm" shows "fits n (fst (move_panel_to_workspace now p to tm))"
proof (rule fitsI [OF assms])
  show "known (fst (move_panel_to_workspace now p to tm)) \<subseteq> known tm"
  proof (cases "\<exists>w t. find_workspace_with_panel p tm = Some w \<and> tm_workspace to tm = Some t \<and> ws_id w \<noteq> to")
    case False
    then have "move_panel_to_workspace now p to tm = (tm, None)"
      by (auto simp: move_panel_to_workspace_def Let_def split: option.splits)
    then show ?thesis by simp
  next
    case True
    then obtain w t where a: "find_workspace_with_panel p tm = Some w" "tm_workspace to tm = Some t" "ws_id w \<noteq> to"
      by blast
    note h = holder_facts [OF assms a(1)]
    from move_panel_eq [OF fits_ok [OF assms] a] obtain panel where m: "map_of (ws_panels w) p = Some panel"
      "move_panel_to_workspace now p to tm =
        (edit_workspace to (\<lambda>v. fst (insert_panel panel Horizontal v)) (detach_and_drop now p w tm), Some to)" by blast
    have id: "p_id panel = p"
      using ws_okD(3) [OF sound_ok(1) [OF h(4)]] m(1) by (simp add: panels_keyed_def)
    have "known (edit_workspace to (\<lambda>v. fst (insert_panel panel Horizontal v)) (detach_and_drop now p w tm))
        \<subseteq> known (detach_and_drop now p w tm) \<union> {p}"
      by (rule known_edit_workspace) (auto simp: insert_panel_def keys_update id simp del: set_map)
    with known_detach [OF h(2)] h(5) show ?thesis unfolding m(2) by auto
  qed
qed (rule move_panel_ok)

end
