(* ===== verification/Socket_Edits.thy ===== *)
theory Socket_Edits imports Socket_Facts begin

text \<open>
  The edits of a workspace that only the socket's handlers make: changes of its layout, a new panel in an
  existing pane, closing the tabs of a pane; and what is left when a panel is taken out of its workspace.
\<close>

section \<open>Layouts\<close>

lemma swap_id_image: "a \<in> X \<Longrightarrow> b \<in> X \<Longrightarrow> swap_id a b ` X = X"
  unfolding swap_id_def by (auto simp: image_iff split: if_splits)

lemma in_layout_simps [simp]:
  "fst (in_layout f w) = w\<lparr> ws_layout := fst (f (ws_layout w)) \<rparr>" "snd (in_layout f w) = snd (f (ws_layout w))"
  by (simp_all add: in_layout_def split_beta)

lemma good_layouts [edits]:
  assumes "good_edit n m w v"
  shows "good_edit n m w (fst (in_layout (resize_panel p x) v))" "good_edit n m w (fst (in_layout equalize v))"
    "good_edit n m w (fst (in_layout (reorder_panel_in_pane p k) v))"
    "has_key a (ws_panels v) \<Longrightarrow> has_key b (ws_panels v) \<Longrightarrow> good_edit n m w (fst (in_layout (swap_panels a b) v))"
proof -
  note d = ws_okD [OF good_ok(1) [OF assms]]
  have o: "mset (all_panel_ids (fst (reorder_panel_in_pane p k (ws_layout v)))) = mset (all_panel_ids (ws_layout v))"
    by (rule reorder_ids)
  show "good_edit n m w (fst (in_layout (resize_panel p x) v))" "good_edit n m w (fst (in_layout equalize v))"
    using d by (simp_all add: good_layout [OF assms] keeps ids)
  show "good_edit n m w (fst (in_layout (reorder_panel_in_pane p k) v))"
    using d arg_cong [OF o, of set_mset] by (simp add: good_layout [OF assms] keeps)
  show "good_edit n m w (fst (in_layout (swap_panels a b) v))" if "has_key a (ws_panels v)" "has_key b (ws_panels v)"
    using d that ws_ok_has_key [OF good_ok(1) [OF assms]]
    by (simp add: good_layout [OF assms] keeps ids swap_id_image)
qed

lemma good_drag [edits]: "good_edit n m w v \<Longrightarrow> good_edit n m w (fst (drag_to_split p d v))"
  using drag_to_split_ok [of v p d]
  by (auto simp: good_edit_def drag_to_split_def Let_def split_beta simp del: set_map split: option.splits if_splits)

lemma good_focus_set [edits]:
  "good_edit n m w v \<Longrightarrow> has_key p (ws_panels v) \<Longrightarrow> good_edit n m w (v\<lparr> ws_focused_panel_id := Some p \<rparr>)"
  by (simp add: good_edit_def ws_ok_def focus_ok_def)

lemma good_record [edits]: "good_edit n m w v \<Longrightarrow> good_edit n m w (record_notification now title body p v)"
  by (rule good_frame [OF _ _ _ _ _ _ meta_step_ok(7)]) (auto simp: record_notification_def Let_def split: option.split)

section \<open>A new panel in a pane\<close>

lemma good_add:
  assumes "sound_space n w" and "good_edit n p w v" and "n \<le> p" and "p < m" and "p_id q = p"
    and "layout_ok l" and "set (all_panel_ids l) = insert p (set (all_panel_ids (ws_layout v)))"
  shows "good_edit n m w (v\<lparr> ws_panels := AList.update p q (ws_panels v), ws_layout := l,
           ws_previous_focused_panel_id := x, ws_focused_panel_id := Some p \<rparr>)" (is "good_edit n m w ?v")
proof (rule good_new_key [OF assms(2,4,3)])
  note d = ws_okD [OF good_ok(1) [OF assms(2)]]
  have "consistent (AList.update p q (ws_panels v)) (all_panel_ids l)"
    using d(2) assms(7) by (simp add: consistent_def keys_update distinct_keys_update del: set_map)
  with d assms(5,6) show "ws_ok ?v"
    by (simp add: ws_ok_def panels_keyed_update focus_ok_def AList.update_conv)
qed (auto simp: keys_update update_nonempty simp del: set_map)

lemma add_to_pane_layout:
  assumes "layout_ok l" and "t \<in> set (all_panel_ids l)" and "p \<notin> set (all_panel_ids l)"
  shows "layout_ok (fst (add_panel_to_pane t p l))"
    "set (all_panel_ids (fst (add_panel_to_pane t p l))) = insert p (set (all_panel_ids l))"
  using add_panel_to_pane_ok [OF assms(1,3)] arg_cong [OF add_panel_to_pane_ids [OF assms(2), of p], of set_mset] by simp_all

lemma split_at_layout:
  assumes "layout_ok l" and "f \<in> set (all_panel_ids l)" and "p \<notin> set (all_panel_ids l)"
    and "update_pane (\<lambda>pane. split_node pane d p) f l = Some l'"
  shows "layout_ok l'" "set (all_panel_ids l') = insert p (set (all_panel_ids l))"
proof -
  have e: "l' = split_focused (Some f) d p l" using assms(4) by (simp add: split_focused_def)
  from assms(2) have "all_panel_ids l \<noteq> []" by auto
  from split_focused_ok [OF assms(1) this assms(3)] show "layout_ok l'" unfolding e .
  show "set (all_panel_ids l') = insert p (set (all_panel_ids l))"
    using arg_cong [OF split_focused_ids [of "Some f" d p l], of set_mset] by (simp add: e)
qed

text \<open>What a workspace to which a panel is added looks like.\<close>

lemma before_adding:
  assumes "sound_space n w" and "good_edit n p w v" and "n \<le> p"
  obtains f where "ws_focused_panel_id v = Some f" "f \<in> set (all_panel_ids (ws_layout v))"
    "p \<notin> set (all_panel_ids (ws_layout v))" "layout_ok (ws_layout v)"
proof -
  note d = ws_okD [OF good_ok(1) [OF assms(2)]] and k = ws_ok_has_key [OF good_ok(1) [OF assms(2)]]
  from d(4) good_ok(2) [OF assms(2)] obtain f where "ws_focused_panel_id v = Some f" "has_key f (ws_panels v)"
    by (auto simp: focus_ok_def split: option.splits)
  with d(1) fresh_key [OF assms] show ?thesis unfolding k by (intro that [of f])
qed

lemma good_add_focused [edits]:
  assumes "sound_space n w" and "good_edit n (p_id q) w v" and "n \<le> p_id q" and "p_id q < m"
  shows "good_edit n m w (add_focused q v)"
proof -
  from before_adding [OF assms(1-3)] obtain f where f: "ws_focused_panel_id v = Some f"
    "f \<in> set (all_panel_ids (ws_layout v))" "p_id q \<notin> set (all_panel_ids (ws_layout v))" "layout_ok (ws_layout v)" .
  from good_add [OF assms refl add_to_pane_layout [OF f(4,2,3)]] f(1,2) show ?thesis
    by (simp add: add_focused_def split_beta ids)
qed

lemma new_terminal_id [simp]: "p_id (new_terminal i) = i" "p_id (new_browser i) = i"
  by (simp_all add: new_terminal_def new_browser_def blank_panel_def)

lemma good_add_duplicate [edits]:
  assumes "sound_space n w" and "good_edit n new w v" and "n \<le> new" and "new < m" and "has_key p (ws_panels v)"
  shows "good_edit n m w (add_duplicate p new v)"
proof -
  from ws_ok_has_key [OF good_ok(1) [OF assms(2)]] assms(5) fresh_key [OF assms(1-3)] have
    f: "p \<in> set (all_panel_ids (ws_layout v))" "new \<notin> set (all_panel_ids (ws_layout v))" by simp_all
  have l: "layout_ok (ws_layout v)" by (rule ws_okD(1) [OF good_ok(1) [OF assms(2)]])
  from good_add [OF assms(1-4) _ add_to_pane_layout [OF l f], of "new_terminal new"] show ?thesis
    by (simp add: add_duplicate_def)
qed

lemma good_place [edits]:
  assumes "sound_space n w" and "good_edit n (p_id q) w v" and "n \<le> p_id q" and "p_id q < m"
  shows "good_edit n m w (place_panel ori q v)"
proof -
  from before_adding [OF assms(1-3)] obtain f where f: "ws_focused_panel_id v = Some f"
    "f \<in> set (all_panel_ids (ws_layout v))" "p_id q \<notin> set (all_panel_ids (ws_layout v))" "layout_ok (ws_layout v)" .
  note add = good_add [OF assms refl add_to_pane_layout [OF f(4,2,3)]]
  show ?thesis
  proof (cases ori)
    case None
    with add f(1) show ?thesis by (simp add: place_panel_def or_else_def)
  next
    case (Some d)
    show ?thesis
    proof (cases "update_pane (\<lambda>pane. split_node pane d (p_id q)) f (ws_layout v)")
      case None
      with f(2) show ?thesis by (simp add: update_pane_None)
    next
      case l: (Some l')
      from good_add [OF assms refl split_at_layout [OF f(4,2,3) l]] l Some f(1) show ?thesis
        by (simp add: place_panel_def)
    qed
  qed
qed

section \<open>Closing the tabs of a pane\<close>

lemma find_pane_distinct:
  "find_pane_readonly p l = Some ps \<Longrightarrow> distinct (all_panel_ids l) \<Longrightarrow> distinct ps"
  by (induction l) (auto simp: or_else_split split: if_splits)

lemma not_doomed:
  assumes "find_pane_readonly p l = Some ps" and "distinct (all_panel_ids l)"
  shows "p \<notin> set (tabs_to_close action p ps)"
proof -
  have p: "p \<in> set ps" "distinct ps"
    using find_pane_readonly_mem [OF assms(1)] find_pane_distinct [OF assms] by auto
  then obtain i where i: "position (\<lambda>i. i = p) ps = Some i" by (cases "position (\<lambda>i. i = p) ps") (auto simp: position_None)
  from position_Some [OF i] have "i < length ps" "ps ! i = p" by auto
  then have "ps = take i ps @ p # drop (Suc i) ps" by (metis id_take_nth_drop)
  with p(2) have "p \<notin> set (take i ps)" "p \<notin> set (drop (Suc i) ps)" by (metis distinct.simps(2) distinct_append not_distinct_conv_prefix)+
  with i show ?thesis by (auto simp: tabs_to_close_def or_default_def)
qed

definition drop_tabs :: "uuid list \<Rightarrow> workspace \<Rightarrow> workspace" where
  "drop_tabs doomed =
     fold (\<lambda>i ws. ws\<lparr> ws_panels := AList.delete i (ws_panels ws), ws_layout := fst (remove_panel i (ws_layout ws)) \<rparr>) doomed"

lemma drop_tabs_frame:
  "ws_id (drop_tabs ps v) = ws_id v" "ws_focused_panel_id (drop_tabs ps v) = ws_focused_panel_id v"
  "ws_closed_panels (drop_tabs ps v) = ws_closed_panels v" "meta_ok (drop_tabs ps v) = meta_ok v"
  "map_of (ws_panels (drop_tabs ps v)) k = (if k \<in> set ps then None else map_of (ws_panels v) k)"
  by (induction ps arbitrary: v) (simp_all add: drop_tabs_def AList.delete_conv')

lemma drop_tabs_ok:
  assumes "layout_ok (ws_layout v)" and "consistent (ws_panels v) (all_panel_ids (ws_layout v))"
  shows "layout_ok (ws_layout (drop_tabs ps v)) \<and>
    consistent (ws_panels (drop_tabs ps v)) (all_panel_ids (ws_layout (drop_tabs ps v)))"
  using assms
proof (induction ps arbitrary: v)
  case (Cons i ps)
  let ?v = "v\<lparr> ws_panels := AList.delete i (ws_panels v), ws_layout := fst (remove_panel i (ws_layout v)) \<rparr>"
  from Cons.IH [of ?v] remove_panel_ok [OF Cons.prems(1)] lay.detach_consistent [OF Cons.prems] show ?case
    by (simp add: drop_tabs_def)
qed (simp add: drop_tabs_def)

lemma close_tabs_drop: "close_tabs p ps v =
    (case ws_focused_panel_id v of
       Some f \<Rightarrow> if f \<in> set ps then (drop_tabs ps v)\<lparr> ws_focused_panel_id := Some p \<rparr> else drop_tabs ps v
     | None \<Rightarrow> drop_tabs ps v)"
  by (simp add: close_tabs_def drop_tabs_def [symmetric] drop_tabs_frame Let_def cong: option.case_cong)

lemma good_close_tabs [edits]:
  assumes "good_edit n m w v" and "has_key p (ws_panels v)" and "p \<notin> set ps"
  shows "good_edit n m w (close_tabs p ps v)"
proof -
  let ?v = "drop_tabs ps v"
  note d = ws_okD [OF good_ok(1) [OF assms(1)]]
  have h: "has_key k (ws_panels ?v) \<longleftrightarrow> has_key k (ws_panels v) \<and> k \<notin> set ps" for k
    by (simp add: drop_tabs_frame)
  have "focus_ok (ws_focused_panel_id (close_tabs p ps v)) (ws_panels ?v)"
    using d(4) good_ok(2) [OF assms(1)] assms(2,3) h
    by (auto simp: close_tabs_drop drop_tabs_frame focus_ok_def split: option.split)
  moreover have "panels_keyed (ws_panels ?v)" using d(3) by (simp add: panels_keyed_def drop_tabs_frame)
  ultimately have "ws_ok (close_tabs p ps v)"
    using d drop_tabs_ok [OF d(1,2)] unfolding ws_ok_def
    by (auto simp: close_tabs_drop drop_tabs_frame split: option.splits)
  moreover have "has_key p (ws_panels ?v)" using h assms(2,3) by blast
  then have "ws_panels ?v \<noteq> []" by auto
  moreover have "set (panel_keys ?v) \<subseteq> set (panel_keys v)" using h unfolding has_key_iff by blast
  ultimately show ?thesis
    using assms(1) unfolding good_edit_def
    by (auto simp: close_tabs_drop drop_tabs_frame split: option.splits simp del: set_map)
qed

section \<open>Taking a panel out\<close>

lemma take_panel_eq:
  assumes "fits n tm" and "find_workspace_with_panel p tm = Some w"
  obtains panel where "take_panel now (ws_id w) p tm = (detach_and_drop now p w tm, Some panel)" and "p_id panel = p"
proof -
  note h = holder_facts [OF assms] and t = fits_ok [OF assms(1)]
  from h(3) obtain panel where m: "map_of (ws_panels w) p = Some panel" by auto
  have id: "p_id panel = p" using ws_okD(3) [OF sound_ok(1) [OF h(4)]] m by (simp add: panels_keyed_def)
  obtain w' where d: "detach_panel p w = (w', Some panel)" using m by (simp add: detach_panel_def Let_def)
  moreover have "ws_id w' = ws_id w" using ws_id_ops(2) [of p w] d by simp
  ultimately have a: "tm_workspace (ws_id w) (edit_workspace (ws_id w) (\<lambda>_. w') tm) = Some w'"
    using h(2) by (simp add: tm_workspace_def edit_workspace_def find_update_first)
  from live_split [OF t h(2) [unfolded tm_workspace_def]] have
    "edit_workspace (ws_id w) (\<lambda>v. fst (detach_panel p v)) tm = edit_workspace (ws_id w) (\<lambda>_. fst (detach_panel p w)) tm"
    by (auto simp: edit_workspace_def)
  with a d h(2) have "take_panel now (ws_id w) p tm = (detach_and_drop now p w tm, Some panel)"
    by (simp add: take_panel_def drop_if_empty_def detach_and_drop_def Let_def)
  with id that show ?thesis by blast
qed

lemma taken_facts:
  assumes "fits n tm" and "find_workspace_with_panel p tm = Some w"
  shows "fits n (detach_and_drop now p w tm)"
    "p \<notin> set (concat (map panel_keys (tm_spaces (detach_and_drop now p w tm))))" "p < n"
proof -
  note h = holder_facts [OF assms] and t = fits_ok [OF assms(1)]
  show "p < n" using h(5) assms(1) by (simp add: fits_def)
  show "p \<notin> set (concat (map panel_keys (tm_spaces (detach_and_drop now p w tm))))"
    by (rule detach_and_drop_ok(2) [OF t assms(2)])
  show "fits n (detach_and_drop now p w tm)"
    by (rule fitsI [OF assms(1) detach_and_drop_ok(1) [OF t assms(2)] known_detach [OF h(2)]])
qed

text \<open>A panel that no workspace has is put into one.\<close>

lemma fits_put_in:
  assumes "fits n tm" and "p \<notin> set (concat (map panel_keys (tm_spaces tm)))" and "p < n" and "p_id q = p"
  shows "fits n (edit_workspace t (\<lambda>v. fst (insert_panel q ori v)) tm)" (is "fits n ?tm")
proof (cases "tm_workspace t tm")
  case None
  have "find P ws = None \<Longrightarrow> update_first P f ws = ws" for P and f :: "workspace \<Rightarrow> workspace" and ws
    by (induction ws) (auto split: if_splits)
  with None have "?tm = tm" by (simp add: edit_workspace_def tm_workspace_def)
  with assms(1) show ?thesis by simp
next
  case (Some v)
  let ?v = "fst (insert_panel q ori v)"
  note ok = fits_ok [OF assms(1)]
  from live_split [OF ok Some [unfolded tm_workspace_def]] obtain xs ys where l: "tm_workspaces tm = xs @ v # ys"
    "v \<in> set (tm_workspaces tm)" "\<forall>f. update_first (\<lambda>v. ws_id v = t) f (tm_workspaces tm) = xs @ f v # ys" by blast
  have "p \<notin> set (panel_keys v)" using assms(2) l(2) unfolding tm_spaces_def by auto
  then have "\<not> has_key (p_id q) (ws_panels v)" unfolding assms(4) has_key_iff .
  then have okv: "ws_ok ?v"
    using tm_ok_live(1,2) [OF ok l(2)] by (intro insert_panel_ok) (simp_all add: ws_is_empty_def)
  have keys: "set (panel_keys ?v) \<subseteq> set (panel_keys v) \<union> {p}"
    by (auto simp: insert_panel_def keys_update assms(4) simp del: set_map)
  have "spaces_ok (tm_spaces ?tm)"
  proof (rule spaces_ok_edit [OF tm_okD(1) [OF ok] l(1) _ okv])
    fix k assume "k \<in> set (panel_keys ?v)"
    with keys assms(2) show "k \<in> set (panel_keys v) \<or> k \<notin> set (concat (map panel_keys (tm_spaces tm)))" by blast
  qed (use l(3) in \<open>simp_all add: edit_workspace_def insert_panel_def update_nonempty\<close>)
  then have "tm_ok ?tm" by (rule tm_ok_editI [OF ok]) (simp_all add: edit_workspace_def)
  moreover have "known ?tm \<subseteq> known tm \<union> {p}"
    by (rule known_edit_workspace) (use Some keys in \<open>auto simp: insert_panel_def keys_update assms(4) simp del: set_map\<close>)
  then have "\<forall>i \<in> known ?tm. i < n" using assms(1,3) unfolding fits_def by blast
  ultimately show ?thesis by (simp add: fits_def)
qed

lemma fits_put_alone:
  assumes "fits n tm" and "p \<notin> set (concat (map panel_keys (tm_spaces tm)))" and "p < n" and "p_id q = p"
  shows "fits (n + 2) (fst (add_workspace (broken_out home n dir p q) tm))"
proof -
  let ?w = "broken_out home n dir p q"
  have w: "ws_id ?w = n" "panel_keys ?w = [p]" "ws_ok ?w" "ws_panels ?w \<noteq> []"
    using assms(4) by (simp_all add: broken_out_def ws_new_def ws_ok_def meta_ok_def consistent_def panels_keyed_def focus_ok_def)
  have "n \<notin> known tm" using assms(1) by (auto simp: fits_def)
  then have "n \<notin> ws_id ` set (tm_spaces tm)" unfolding known_def by blast
  with w assms(2) tm_okD(1) [OF fits_ok [OF assms(1)]] have f: "fresh_space ?w tm"
    by (simp add: fresh_in_def spaces_sound_def)
  from w assms(3) have b: "ws_id ?w < n + 2" "\<forall>k \<in> set (panel_keys ?w). k < n + 2" by simp_all
  show ?thesis
    by (rule fits_addI [OF assms(1) b _ _ added_spaces(1,4)]) (simp_all add: add_ops_ok [OF fits_ok [OF assms(1)] f])
qed

end
