(* ===== verification/Socket_New.thy ===== *)
theory Socket_New imports Socket_Edits begin

text \<open>
  The workspaces the socket's handlers create are well formed and use only identifiers that were just drawn.
\<close>

lemma new_space_good:
  assumes "new_space n m w" and "\<And>k. sound_space k w \<Longrightarrow> good_edit k k w w'"
  shows "new_space n m w'"
proof -
  have "sound_space (m + n) w" using assms(1) by (auto simp: new_space_def sound_space_def)
  from assms(2) [OF this] have "ws_ok w'" "ws_id w' = ws_id w" "ws_panels w' \<noteq> []" "set (panel_keys w') \<subseteq> set (panel_keys w)"
    unfolding good_edit_def by simp_all
  with assms(1) show ?thesis unfolding new_space_def by (metis subset_trans)
qed

lemma new_space_grow:
  assumes "new_space n k w" and "n \<le> k" and "k \<le> m" and "sound_space k w \<Longrightarrow> good_edit k m w v"
  shows "new_space n m v"
proof -
  have "sound_space k w" using assms(1) by (auto simp: new_space_def sound_space_def)
  note g = assms(4) [OF this, unfolded good_edit_def]
  have "{n..<k} \<subseteq> {n..<m}" "{k..<m} \<subseteq> {n..<m}" using assms(2,3) by auto
  with g assms(1) have "set (panel_keys v) \<subseteq> {n..<m}" unfolding new_space_def by blast
  with g assms(1,3) show ?thesis by (simp add: new_space_def)
qed

text \<open>Initialising the first panel.\<close>

lemma new_space_modify: "new_space n m w \<Longrightarrow> (\<And>q. p_id (f q) = p_id q) \<Longrightarrow> new_space n m (initial_panel f w)"
  unfolding initial_panel_def by (erule new_space_good) ((rule edits | assumption | simp; fail)+)

lemma new_space_ws_new: "new_space n (n + 2) (ws_new home n (Suc n))" "new_space n (n + 2) (with_directory home n (Suc n) d)"
proof -
  show w: "new_space n (n + 2) (ws_new home n (Suc n))"
    using ws_new_ok [of home n "Suc n"] by (auto simp: new_space_def ws_new_def new_terminal_def)
  show "new_space n (n + 2) (with_directory home n (Suc n) d)"
    unfolding with_directory_def by (rule new_space_good [OF w]) ((rule edits | assumption | simp; fail)+)
qed

lemma new_space_frame:
  "new_space n m w \<Longrightarrow> new_space n m (w\<lparr> ws_custom_title := t \<rparr>)"
  by (simp add: new_space_def ws_ok_def)

lemma first_is_initial: "new_space n m w \<Longrightarrow> length (ws_panels w) = 1 \<Longrightarrow> first_panel f w = initial_panel f w"
  by (cases "ws_panels w") (auto simp: first_panel_def initial_panel_def modify_panel_def new_space_def ws_ok_def focus_ok_def
      or_else_def split: option.splits if_splits)

lemma requested_new: "new_space n (n + 2) (requested_workspace e params n)"
proof -
  define m where "m = n + 2"
  note new = new_space_ws_new [of n, folded m_def]
  have kinds: "new_space n m w \<Longrightarrow> new_space n m (as_notes e params (as_project params (as_diff params (as_browser params w))))" for w
    unfolding as_notes_def as_project_def as_diff_def as_browser_def by (simp add: new_space_modify)
  have one: "length (ws_panels (ws_new home n (Suc n))) = 1" "length (ws_panels (with_directory home n (Suc n) d)) = 1" for home d
    by (simp_all add: ws_new_def with_directory_def modify_panel_def)
  have first: "new_space n m w \<Longrightarrow> length (ws_panels w) = 1 \<Longrightarrow> (\<And>q. p_id (f q) = p_id q) \<Longrightarrow> new_space n m (first_panel f w)" for f w
    by (simp add: first_is_initial new_space_modify)
  show ?thesis
    unfolding requested_workspace_def Let_def m_def [symmetric]
    by (rule kinds) (use one in \<open>auto intro!: first new_space_frame new split: option.split\<close>)
qed

end
