(* ===== verification/Goal_Invariant.thy ===== *)
theory Goal_Invariant imports Socket_New Goal_Launch begin

text \<open>
  What goals and graphs do to the workspaces: most of their operations leave them as they are and only draw
  identifiers, a launch opens a workspace, and a graph makes a group and the workspace of its planner.
\<close>

named_theorems shared_steps

definition shared_fits :: "shared \<Rightarrow> bool" where
  "shared_fits sh \<longleftrightarrow> fits (sh_next sh) (sh_tabs sh) \<and> notes_ok (sh_notes sh)"

definition calm :: "shared \<Rightarrow> shared \<Rightarrow> bool" where
  "calm sh sh' \<longleftrightarrow> sh_tabs sh' = sh_tabs sh \<and> sh_next sh \<le> sh_next sh' \<and> (notes_ok (sh_notes sh) \<longrightarrow> notes_ok (sh_notes sh'))"

lemma calm_fits: "shared_fits sh \<Longrightarrow> calm sh sh' \<Longrightarrow> shared_fits sh'"
  using fits_mono by (auto simp: shared_fits_def calm_def)

lemma calm_trans: "calm sh sh' \<Longrightarrow> calm sh' sh'' \<Longrightarrow> calm sh sh''"
  by (auto simp: calm_def)

lemma calm_refl [simp]: "calm sh sh"
  by (simp add: calm_def)

lemma calm_simple:
  "calm sh (act a sh)" "calm sh (set_run i f sh)" "calm sh (put_graph g x sh)" "calm sh (save_graph x sh)"
  "calm sh (post_note env t b w d sh)" "calm sh (notify env i t b d sh)" "calm sh (notify_graph_name env w t b sh)"
  "calm sh (fst (try_io env a sh))" "calm sh (fst (git env dir args sh))" "calm sh (fst (send_ui_input env p inp sh))"
  "calm sh (fst (read_plan env x sh))" "calm sh (fst (draw_uuid sh))" "calm sh (sh\<lparr> sh_graphs := gs \<rparr>)"
  "calm sh (sh\<lparr> sh_pointers := ps \<rparr>)" "calm sh (sh\<lparr> sh_goals := rs \<rparr>)" "calm sh (sh\<lparr> sh_loaded := loaded \<rparr>)"
proof -
  have post: "calm sh (post_note env t b w d sh)" for w d
    using notes_ops_ok(2) [of "sh_notes sh" "sh_next sh" "en_time env" t b w None d]
    by (auto simp: calm_def post_note_def split: prod.split)
  show "calm sh (post_note env t b w d sh)" by (rule post)
  show "calm sh (notify env i t b d sh)" "calm sh (notify_graph_name env w t b sh)"
    using post by (simp_all add: calm_def notify_def notify_graph_name_def)
qed (simp_all add: calm_def put_graph_def save_graph_def try_io_def git_def send_ui_input_def read_plan_def draw_uuid_def)

lemma calm_on:
  "calm s sh \<Longrightarrow> calm s (act a sh)" "calm s sh \<Longrightarrow> calm s (set_run i f sh)" "calm s sh \<Longrightarrow> calm s (put_graph g x sh)"
  "calm s sh \<Longrightarrow> calm s (save_graph x sh)" "calm s sh \<Longrightarrow> calm s (post_note env t b w d sh)"
  "calm s sh \<Longrightarrow> calm s (notify_graph_name env w t b sh)"
  "calm s sh \<Longrightarrow> calm s (fst (try_io env a sh))" "calm s sh \<Longrightarrow> calm s (fst (git env dir args sh))"
  "calm s sh \<Longrightarrow> calm s (fst (send_ui_input env p inp sh))" "calm s sh \<Longrightarrow> calm s (fst (read_plan env x sh))"
  by (rule calm_trans [OF _ calm_simple(1)] calm_trans [OF _ calm_simple(2)] calm_trans [OF _ calm_simple(3)]
      calm_trans [OF _ calm_simple(4)] calm_trans [OF _ calm_simple(5)] calm_trans [OF _ calm_simple(7)]
      calm_trans [OF _ calm_simple(8)] calm_trans [OF _ calm_simple(9)] calm_trans [OF _ calm_simple(10)]
      calm_trans [OF _ calm_simple(11)]; assumption)+

lemma calm_compose:
  "(x = None \<Longrightarrow> calm s (fst p)) \<Longrightarrow> (\<And>y. x = Some y \<Longrightarrow> calm s (fst (q y))) \<Longrightarrow> calm s (fst (case x of None \<Rightarrow> p | Some y \<Rightarrow> q y))"
  "(\<And>y. t = Inl y \<Longrightarrow> calm s (fst (g y))) \<Longrightarrow> (\<And>z. t = Inr z \<Longrightarrow> calm s (fst (h z))) \<Longrightarrow>
     calm s (fst (case t of Inl y \<Rightarrow> g y | Inr z \<Rightarrow> h z))"
  "(c \<Longrightarrow> calm s (fst p)) \<Longrightarrow> (\<not> c \<Longrightarrow> calm s (fst p')) \<Longrightarrow> calm s (fst (if c then p else p'))"
  "calm s (fst (k v)) \<Longrightarrow> calm s (fst (Let v k))"
  "calm s (fst (l (fst r) (snd r))) \<Longrightarrow> calm s (fst (case r of (y, z) \<Rightarrow> l y z))"
  "calm s sh \<Longrightarrow> calm s (fst (sh, reply))"
  by (auto split: option.split sum.split prod.split)

lemma calm_loaded: "calm s sh \<Longrightarrow> calm s (ensure_loaded env sh)"
proof -
  have l: "calm sh (load_graph env x sh)" for x sh
    by (auto simp: load_graph_def calm_def put_graph_def save_graph_def Let_def split: prod.split option.split)
  have "calm sh (fold (load_graph env) xs sh)" for xs sh
  proof (induction xs arbitrary: sh)
    case (Cons x xs)
    show ?case using calm_trans [OF l Cons.IH] by simp
  qed simp
  then have "calm sh (ensure_loaded env sh)"
    using calm_trans [OF calm_simple(16) [of sh True]] by (simp add: ensure_loaded_def)
  then show "calm s sh \<Longrightarrow> calm s (ensure_loaded env sh)" using calm_trans by blast
qed

lemma calm_merge: "calm s sh \<Longrightarrow> calm s (fst (merge_worktree env spec node wt br sh))"
  unfolding merge_worktree_def by ((rule calm_compose calm_on | assumption | simp; fail)+)

lemma calm_finish: "calm s (fst st) \<Longrightarrow> calm s (fst (finish_node env i st))"
  unfolding finish_node_def split_beta Let_def
  by (auto split: option.split merge_result.split intro!: calm_on calm_merge simp: calm_merge)

lemma calm_finish_all: "calm s (fst st) \<Longrightarrow> calm s (fst (fold (finish_node env) is st))"
  by (induction "is" arbitrary: st) (simp_all add: calm_finish)

lemma calm_steps:
  "calm sh (fst (advance_iteration env i reason sh))" "calm sh (fst (stop_run i sh))"
  "calm sh (fst (approve_graph env n sh))" "calm sh (fst (revise_graph env n remark sh))"
  "calm sh (fst (set_graph_state env n state sh))" "calm sh (fst (resume_graph env n sh))"
  "calm sh (fst (graph_status env nm sh))"
  unfolding advance_iteration_def stop_run_def approve_graph_def revise_graph_def set_graph_state_def resume_graph_def
    graph_status_def
  by ((rule calm_compose calm_on calm_loaded calm_finish_all calm_refl | simp; fail)+)

lemma calm_nodes:
  "calm sh (continue_node i sh)" "calm sh (accept_node env i sh)"
proof -
  show "calm sh (continue_node i sh)"
    by (auto simp: continue_node_def Let_def split: option.split intro!: calm_on)
  have "calm sh (fst (finish_node env j (sh, spec)))" for j spec by (rule calm_finish) simp
  then show "calm sh (accept_node env i sh)"
    by (auto simp: accept_node_def Let_def split_beta split: option.split intro!: calm_on)
qed

section \<open>What opens workspaces\<close>

lemma fits_place:
  "fits n (sh_tabs sh) \<Longrightarrow> new_space n m w \<Longrightarrow> n \<le> m \<Longrightarrow> fits m (sh_tabs (place_workspace env sel w sh))"
  by (simp add: place_workspace_def fits_add)

lemma launch_fits:
  assumes "shared_fits sh" shows "shared_fits (fst (launch_goal env spec sh))"
proof -
  obtain sh' r where l: "launch_goal env spec sh = (sh', r)" by force
  note cs = launch_goal_cases [OF l]
  show ?thesis
  proof (cases r)
    case (Inl e)
    with cs have "calm sh sh'" by (simp add: calm_def)
    with assms l show ?thesis using calm_fits by simp
  next
    case (Inr run)
    with cs obtain cmd where t: "sh_tabs sh' = sh_tabs (place_workspace env (la_select spec) (launched_space env spec sh cmd) sh)"
      "sh_next sh' = sh_next sh + 3" by (auto simp: launched_space_def)
    have "ws_panels (launched_space env spec sh cmd) \<noteq> []"
      using launched_space_facts(2) [of env spec sh cmd] by force
    then have "new_space (sh_next sh) (sh_next sh + 3) (launched_space env spec sh cmd)"
      by (simp add: new_space_def del: set_map)
    from fits_place [OF conjunct1 [OF assms [unfolded shared_fits_def]] this] t l cs assms show ?thesis by (simp add: shared_fits_def)
  qed
qed

lemma calm_source: "calm sh (fst (resolve_goal_source e params sh))"
  unfolding resolve_goal_source_def write_inline_goal_def
  by ((rule calm_compose calm_on calm_refl | simp; fail)+)

lemma create_goal_fits: "shared_fits sh \<Longrightarrow> shared_fits (fst (create_goal e params sh))"
  using calm_fits [OF _ calm_source, of sh e params] launch_fits
  unfolding create_goal_def Let_def
  by (auto split: prod.split sum.split) (metis fst_conv)+

text \<open>The planner's workspace has its terminal and the panel that draws the graph.\<close>

lemma planner_space:
  "new_space n (n + 3) (orchestrator_workspace env spec n (Suc n) (n + 2) session command is_claude)"
proof (rule new_space_grow [OF new_space_ws_new(2)])
  let ?w = "with_directory (en_home env) n (Suc n) (gs_base_cwd spec)"
  assume s: "sound_space (n + 2) ?w"
  show "good_edit (n + 2) (n + 3) ?w (orchestrator_workspace env spec n (Suc n) (n + 2) session command is_claude)"
    unfolding orchestrator_workspace_def
    by ((rule edits s | simp add: new_graph_def blank_panel_def Let_def; fail)+)
qed simp_all

lemma graph_group_fits: "shared_fits sh \<Longrightarrow> shared_fits (fst (graph_group name sh))"
  by (auto simp: graph_group_def shared_fits_def draw_uuid_def split: option.split intro!: fits_create_group)

lemma fits_io:
  "shared_fits sh \<Longrightarrow> shared_fits (fst (try_io env a sh))" "shared_fits sh \<Longrightarrow> shared_fits (fst (git env dir args sh))"
  "shared_fits sh \<Longrightarrow> shared_fits (fst (draw_uuid sh))" "shared_fits sh \<Longrightarrow> shared_fits (sh\<lparr> sh_graphs := gs \<rparr>)"
  "shared_fits sh \<Longrightarrow> shared_fits (ensure_loaded env sh)"
  "shared_fits sh \<Longrightarrow> shared_fits (put_graph g x sh)" "shared_fits sh \<Longrightarrow> shared_fits (save_graph x sh)"
  "shared_fits sh \<Longrightarrow> shared_fits (act a sh)" "shared_fits sh \<Longrightarrow> shared_fits (sh\<lparr> sh_pointers := ps \<rparr>)"
  by (erule calm_fits; rule calm_simple calm_loaded [OF calm_refl])+

lemma fits_planner:
  assumes "shared_fits sh"
  shows "shared_fits (place_workspace env sel
    (orchestrator_workspace env spec (snd (draw_uuid sh)) (snd (draw_uuid (fst (draw_uuid sh))))
      (snd (draw_uuid (fst (draw_uuid (fst (draw_uuid sh)))))) session command is_claude)
    (fst (draw_uuid (fst (draw_uuid (fst (draw_uuid sh)))))))"
proof -
  let ?n = "sh_next sh"
  have "new_space ?n (Suc (Suc (Suc ?n))) (orchestrator_workspace env spec ?n (Suc ?n) (Suc (Suc ?n)) session command is_claude)"
    using planner_space [of ?n env spec session command is_claude] by (simp add: numeral_3_eq_3 numeral_2_eq_2)
  from fits_add(2,3) [OF conjunct1 [OF assms [unfolded shared_fits_def]] this] assms show ?thesis
    by (simp add: shared_fits_def draw_uuid_def place_workspace_def)
qed

lemma fits_compose_shared:
  "(x = None \<Longrightarrow> shared_fits (fst p)) \<Longrightarrow> (\<And>y. x = Some y \<Longrightarrow> shared_fits (fst (q y))) \<Longrightarrow>
     shared_fits (fst (case x of None \<Rightarrow> p | Some y \<Rightarrow> q y))"
  "(\<And>y. t = Inl y \<Longrightarrow> shared_fits (fst (g y))) \<Longrightarrow> (\<And>z. t = Inr z \<Longrightarrow> shared_fits (fst (h z))) \<Longrightarrow>
     shared_fits (fst (case t of Inl y \<Rightarrow> g y | Inr z \<Rightarrow> h z))"
  "(c \<Longrightarrow> shared_fits (fst p)) \<Longrightarrow> (\<not> c \<Longrightarrow> shared_fits (fst p')) \<Longrightarrow> shared_fits (fst (if c then p else p'))"
  "shared_fits (fst (k v)) \<Longrightarrow> shared_fits (fst (Let v k))"
  "shared_fits (fst (l (fst r) (snd r))) \<Longrightarrow> shared_fits (fst (case r of (y, z) \<Rightarrow> l y z))"
  "shared_fits sh \<Longrightarrow> shared_fits (fst (sh, reply))"
  by (auto split: option.split sum.split prod.split)

lemma create_graph_fits: "shared_fits sh \<Longrightarrow> shared_fits (fst (create_graph env name source params sh))"
  unfolding create_graph_def
  by ((rule fits_compose_shared fits_io graph_group_fits fits_planner | assumption | simp; fail)+)

lemma stop_graph_fits: "shared_fits sh \<Longrightarrow> shared_fits (fst (stop_graph env name sh))"
proof -
  assume "shared_fits sh"
  then have "shared_fits (fst (set_graph_state env name GStopped sh))" by (rule calm_fits) (rule calm_steps)
  then show ?thesis
    by (auto simp: stop_graph_def shared_fits_def Let_def split: prod.split sum.split option.split intro!: fits)
qed

end
