(* ===== verification/Socket_Invariant.thy ===== *)
theory Socket_Invariant imports Goal_Invariant begin

text \<open>
  Every handler of the control socket keeps the server's state well formed.
\<close>

section \<open>Shapes of handlers\<close>

lemma edit_shapes [served]:
  assumes "server_ok sv"
  shows "(\<And>n v. sound_space n v \<Longrightarrow> good_edit n n v (f v)) \<Longrightarrow> okay (edit_reply w f r missing sv)"
    "(\<And>n v. sound_space n v \<Longrightarrow> good_edit n n v (f v)) \<Longrightarrow> okay (edit_action w f r sv)"
    "(\<And>q. p_id (g q) = p_id q) \<Longrightarrow> okay (edit_tab p g sv)"
  unfolding edit_reply_def edit_action_def edit_tab_def
  by ((rule assms served fits edits server_okD | assumption | simp; fail)+)

lemma read_everywhere [served]: "server_ok sv \<Longrightarrow> server_ok (mark_workspace_read_everywhere w sv)"
  unfolding mark_workspace_read_everywhere_def
  by ((rule served fits edits server_okD | assumption | simp; fail)+)

lemma pair_shapes [served]:
  assumes "server_ok sv"
  shows "fits (next_id sv) (fst q) \<Longrightarrow> okay (refresh_if q missing sv)"
    "fits (next_id sv) (fst c) \<Longrightarrow> okay (closed_count c sv)"
    "fits (next_id sv) (fst g) \<Longrightarrow> okay (go_to g done none sv)"
    "fits (next_id sv) (h (tabs sv)) \<Longrightarrow> okay (step_selection h sv)"
  unfolding refresh_if_def closed_count_def go_to_def step_selection_def
  by ((rule assms served fits edits server_okD | assumption | simp; fail)+)

lemma param_shapes [served]:
  assumes "server_ok sv"
  shows "(\<And>d. okay (k d)) \<Longrightarrow> okay (on_direction params sv k)"
    "(\<And>w. tm_selected (tabs sv) = Some w \<Longrightarrow> okay (h w)) \<Longrightarrow> okay (on_selected sv h)"
    "(\<And>g. okay (l g)) \<Longrightarrow> okay (on_group e params sv l)" "(\<And>i. okay (l i)) \<Longrightarrow> okay (on_note_id e params sv l)"
    "(\<And>p. okay (l p)) \<Longrightarrow> okay (require_panel_id e params sv l)" "(\<And>w. okay (l w)) \<Longrightarrow> okay (open_in e params sv l)"
    "okay (moved_to i m sv)"
  unfolding on_direction_def on_selected_def on_group_def on_note_id_def require_panel_id_def open_in_def moved_to_def
  by ((rule assms served fits edits server_okD | assumption | simp; fail)+)

section \<open>Handlers with more than one change\<close>

lemma edit_panel_ok:
  assumes "server_ok sv" and "\<And>q. p_id (f q) = p_id q" and "edit_panel_or_focused p f sv = Some sv'"
  shows "server_ok sv'"
proof -
  have "okay (case edit_panel_or_focused p f sv of None \<Rightarrow> (sv, RPanic) | Some sv' \<Rightarrow> (sv', RPanic))"
    unfolding edit_panel_or_focused_def
    by (cases p; cases "tm_selected (tabs sv)"; cases "find_workspace_with_panel (the p) (tabs sv)"; simp;
        (rule assms served fits edits server_okD | assumption | simp; fail)+)
  with assms(3) show ?thesis by (simp add: okay_def)
qed

lemma report_okay [served]:
  assumes "server_ok sv"
  shows "okay (handle_workspace_report_ports e params sv)" "okay (handle_workspace_report_tty e params sv)"
    "okay (handle_workspace_clear_ports e params sv)" "okay (handle_workspace_report_agent_session e params sv)"
  unfolding handle_workspace_report_ports_def handle_workspace_report_tty_def handle_workspace_clear_ports_def
    handle_workspace_report_agent_session_def
  by ((rule assms served | erule edit_panel_ok [OF assms, rotated] | simp; fail)+)

lemma wake_ok [served]:
  assumes "server_ok sv" shows "server_ok (fst (wake_panel e p sv))" "server_ok (fst (hibernate_panel e p sv))"
  unfolding wake_panel_def hibernate_panel_def using assms
  by (auto simp: Let_def split: option.split intro!: served)

lemma hibernate_okay [served]:
  assumes "server_ok sv"
  shows "okay (handle_workspace_hibernate e params sv)" "okay (handle_workspace_wake e params sv)"
  unfolding handle_workspace_hibernate_def handle_workspace_wake_def
  by ((rule assms served | simp; fail)+)

lemma aliases_okay [served]:
  assumes "server_ok sv"
  shows "okay (handle_surface_focus e params sv)" "okay (handle_surface_list e params sv)" "okay (handle_window_close e params sv)"
  unfolding handle_surface_focus_def handle_pane_focus_def handle_surface_list_def handle_pane_list_def handle_window_close_def
  by ((rule assms served fits edits server_okD | assumption | simp add: assms server_ok_def [symmetric]; fail)+)

section \<open>New workspaces\<close>

lemma create_okay [served]: "server_ok sv \<Longrightarrow> okay (create_workspace e params preserve sv)"
  unfolding create_workspace_def
  by ((rule served fits requested_new server_okD | assumption | simp; fail)+)

lemma create_with_okay [served]:
  assumes "server_ok sv"
  shows "okay (create_with e k x params sv)" "okay (handle_workspace_new e params sv)"
    "okay (handle_workspace_new_browser e params sv)" "okay (handle_workspace_new_diff e params sv)"
    "okay (handle_workspace_new_project e params sv)" "okay (handle_workspace_new_notes e params sv)"
  unfolding create_with_def handle_workspace_new_def handle_workspace_new_browser_def handle_workspace_new_diff_def
    handle_workspace_new_project_def handle_workspace_new_notes_def
  by ((rule assms served | simp add: create_with_def; fail)+)

lemma fold_ok: "server_ok sv \<Longrightarrow> (\<And>x sv. server_ok sv \<Longrightarrow> server_ok (f x sv)) \<Longrightarrow> server_ok (fold f xs sv)"
  by (induction xs arbitrary: sv) simp_all

lemma split_terminal_ok [served]: "server_ok sv \<Longrightarrow> server_ok (split_terminal w ori focus sv)"
  unfolding split_terminal_def by ((rule served fits edits server_okD | assumption | simp; fail)+)

lemma apply_layout_ok [served]: "server_ok sv \<Longrightarrow> server_ok (apply_workspace_layout w layout sv)"
  unfolding apply_workspace_layout_def by ((rule served fold_ok | assumption | simp; fail)+)

lemma created_ok [served]: "server_ok sv \<Longrightarrow> server_ok (fst (create_workspace e params preserve sv))"
  using create_okay by (simp add: okay_def)

lemma okay_reply [served]:
  "(\<And>v. r = ROk v \<Longrightarrow> okay (f v)) \<Longrightarrow> (\<And>c m. r = RErr c m \<Longrightarrow> okay (g c m)) \<Longrightarrow> okay h \<Longrightarrow>
     okay (case r of ROk v \<Rightarrow> f v | RErr c m \<Rightarrow> g c m | RPanic \<Rightarrow> h)"
  by (cases r) auto

lemma create_more_okay [served]:
  assumes "server_ok sv"
  shows "okay (handle_workspace_create e params sv)" "okay (handle_workspace_create_ssh e params sv)"
    "okay (handle_agent_fork_conversation e params sv)"
  unfolding handle_workspace_create_def handle_workspace_create_ssh_def handle_agent_fork_conversation_def
  by ((rule assms served fits edits server_okD | assumption | simp; fail)+)

lemma open_side_okay [served]:
  assumes "server_ok sv"
  shows "(\<And>i. p_id (new i) = i) \<Longrightarrow> okay (open_side_panel new sv)" "okay (handle_workspace_open_history sv)"
    "okay (handle_workspace_open_vault sv)"
proof -
  have side: "okay (open_side_panel new sv)" if "\<And>i. p_id (new i) = i" for new
    unfolding open_side_panel_def
    by ((rule assms served fits edits server_okD | assumption | simp add: that insert_panel_def AList.update_conv; fail)+)
  then show "(\<And>i. p_id (new i) = i) \<Longrightarrow> okay (open_side_panel new sv)" .
  show "okay (handle_workspace_open_history sv)" "okay (handle_workspace_open_vault sv)"
    unfolding handle_workspace_open_history_def handle_workspace_open_vault_def
    by (rule side; simp add: new_history_def new_vault_def blank_panel_def)+
qed

section \<open>Order and actions\<close>

lemma fits_fold: "fits n tm \<Longrightarrow> (\<And>x tm. fits n tm \<Longrightarrow> fits n (f x tm)) \<Longrightarrow> fits n (fold f xs tm)"
  by (induction xs arbitrary: tm) simp_all

lemma place_fits [fits]: "fits n tm \<Longrightarrow> fits n (place_at iw tm)" "fits n tm \<Longrightarrow> fits n (raise_workspace w tm)"
  unfolding place_at_def raise_workspace_def by ((rule fits | assumption | simp; fail)+)

lemma order_okay [served]:
  assumes "server_ok sv"
  shows "okay (handle_workspace_reorder_workspaces params sv)" "okay (handle_workspace_action e params sv)"
  unfolding handle_workspace_reorder_workspaces_def handle_workspace_action_def workspace_action_def
  by ((rule assms served fits_fold fits edits server_okD | assumption | simp; fail)+)

lemma layout_okay [served]:
  assumes "server_ok sv"
  shows "okay (handle_pane_equalize e params sv)" "okay (handle_pane_swap e params sv)"
    "okay (handle_pane_resize e params sv)" "okay (handle_surface_reorder e params sv)"
    "okay (handle_surface_drag_to_split e params sv)"
  unfolding handle_pane_equalize_def handle_pane_swap_def handle_pane_resize_def handle_surface_reorder_def
    handle_surface_drag_to_split_def try_selected_def
  by ((rule assms served fits edits server_okD | assumption | simp; fail)+)

section \<open>New panels and closed ones\<close>

lemma new_panel_ids [simp]:
  "p_id (new_markdown i f) = i" "p_id (new_notes i f) = i" "p_id (file_panel i f) = i" "p_id (subagent_panel i q d c) = i"
  by (simp_all add: new_markdown_def new_notes_def file_panel_def new_file_preview_def subagent_panel_def blank_panel_def)

lemma add_okay [served]:
  assumes "server_ok sv"
  shows "okay (handle_surface_create params sv)" "okay (handle_markdown_open e params sv)"
    "okay (handle_notes_open e params sv)"
  unfolding handle_surface_create_def handle_markdown_open_def handle_notes_open_def
  by ((rule assms served fits edits server_okD | assumption | simp; fail)+)

lemma open_file_ok: "server_ok sv \<Longrightarrow> server_ok (open_file w path sv)"
  unfolding open_file_def by ((rule served fits edits server_okD | assumption | simp; fail)+)

lemma file_open_okay [served]:
  assumes "server_ok sv" shows "okay (handle_file_open e params sv)"
  unfolding handle_file_open_def by ((rule assms open_file_ok fold_ok served | simp; fail)+)

lemma holder_has: "find_workspace_with_panel p tm = Some w \<Longrightarrow> has_key p (ws_panels w)"
  using find_Some_in [of "\<lambda>w. has_key p (ws_panels w)" "tm_workspaces tm" w] by (simp add: find_workspace_with_panel_def)

lemma not_doomed_holder:
  assumes "find_workspace_with_panel p tm = Some w" and "find_pane_readonly p (ws_layout w) = Some ps" and "fits n tm"
  shows "p \<notin> set (tabs_to_close action p ps)"
  using not_doomed [OF assms(2)] ws_okD(1) [OF sound_ok(1) [OF holder_facts(4) [OF assms(3,1)]]]
  by (simp add: layout_ok_def)

lemma tab_okay [served]:
  assumes "server_ok sv" shows "okay (handle_tab_action e params sv)"
  unfolding handle_tab_action_def tab_action_def
  by ((rule assms served fits edits server_okD holder_has not_doomed_holder | assumption | simp; fail)+)

lemma found_has:
  "find_workspace_with_panel p tm = Some v \<Longrightarrow> fits n tm \<Longrightarrow> tm_workspace (ws_id v) tm = Some w \<Longrightarrow> has_key p (ws_panels w)"
  using holder_facts(2,3) [of n tm p v] by simp

lemma spawn_okay [served]:
  assumes "server_ok sv" shows "okay (handle_agent_spawn_subagent e params sv)"
  unfolding handle_agent_spawn_subagent_def
  by ((rule assms served fits edits server_okD found_has | assumption | simp; fail)+)

lemma act_simps [simp]: "sh_tabs (act a sh) = sh_tabs sh" "sh_next (act a sh) = sh_next sh"
  by (simp_all add: act_def)

lemma store_note_ok [served]: "server_ok sv \<Longrightarrow> server_ok (store_note e title body w p desktop retain sv)"
proof -
  have "tabs (store_note e title body w p desktop retain sv) = tabs sv"
    "next_id (store_note e title body w p desktop retain sv) = next_id sv + 1"
    by (simp_all add: store_note_def tabs_def set_notes_def draw_def split_beta Let_def split: option.split)
  moreover have "sh_notes (sv_sh (store_note e title body w p desktop retain sv)) =
      fst (add_with_retain (next_id sv) (en_time (se_env e)) title body (Some w) p desktop retain (sh_notes (sv_sh sv)))"
    by (simp add: store_note_def set_tabs_def set_notes_def draw_def act_def split_beta Let_def split: option.split)
  ultimately show "server_ok sv \<Longrightarrow> server_ok (store_note e title body w p desktop retain sv)"
    by (simp add: server_ok_def fits_mono [of "next_id sv"] notes_ops_ok)
qed

lemma note_okay [served]:
  assumes "server_ok sv"
  shows "okay (handle_notification_create e params sv)"
  unfolding handle_notification_create_def
  by ((rule assms served fits edits server_okD | assumption | simp; fail)+)

section \<open>Panels that change workspace\<close>

lemma taken:
  assumes "server_ok sv" and "find_workspace_with_panel p (tabs sv) = Some src"
  shows "take_panel now (ws_id src) p (tabs sv) = (tm, Some q) \<Longrightarrow> fits (next_id sv) tm"
    "take_panel now (ws_id src) p (tabs sv) = (tm, Some q) \<Longrightarrow>
       fits (next_id sv) (edit_workspace t (\<lambda>v. fst (insert_panel q ori v)) tm)"
    "take_panel now (ws_id src) p (tabs sv) = (tm, Some q) \<Longrightarrow>
       fits (next_id sv + 2) (fst (add_workspace (broken_out home (next_id sv) dir p q) tm))"
proof -
  note f = server_okD [OF assms(1)]
  from take_panel_eq [OF f assms(2)] obtain panel where
    t: "take_panel now (ws_id src) p (tabs sv) = (detach_and_drop now p src (tabs sv), Some panel)" "p_id panel = p" .
  note k = taken_facts(1,2) [OF f assms(2), of now] taken_facts(3) [OF f assms(2)]
  show "take_panel now (ws_id src) p (tabs sv) = (tm, Some q) \<Longrightarrow> fits (next_id sv) tm" using t(1) k(1) by auto
  show "take_panel now (ws_id src) p (tabs sv) = (tm, Some q) \<Longrightarrow>
      fits (next_id sv) (edit_workspace t (\<lambda>v. fst (insert_panel q ori v)) tm)"
    using t fits_put_in [OF k t(2)] by auto
  show "take_panel now (ws_id src) p (tabs sv) = (tm, Some q) \<Longrightarrow>
      fits (next_id sv + 2) (fst (add_workspace (broken_out home (next_id sv) dir p q) tm))"
    using t fits_put_alone [OF k t(2)] by auto
qed

lemma okay_taken:
  "(\<And>tm. x = (tm, None) \<Longrightarrow> okay a) \<Longrightarrow> (\<And>tm q. x = (tm, Some q) \<Longrightarrow> okay (f tm q)) \<Longrightarrow>
     okay (case x of (tm, None) \<Rightarrow> a | (tm, Some q) \<Rightarrow> f tm q)"
  by (auto split: prod.split option.split)

lemma move_okay [served]:
  assumes "server_ok sv"
  shows "okay (handle_pane_join e params sv)" "okay (handle_surface_move e params sv)" "okay (handle_pane_break e params sv)"
  unfolding handle_pane_join_def handle_surface_move_def handle_pane_break_def
  by ((rule okay_taken assms served taken(2,3,1) [OF assms] | assumption | simp; fail)+)

section \<open>Goals and graphs\<close>

lemma server_ok_shared: "server_ok sv \<longleftrightarrow> shared_fits (sv_sh sv)"
  by (simp add: server_ok_def shared_fits_def tabs_def)

lemma set_sh_ok: "shared_fits sh \<Longrightarrow> server_ok (set_sh sh sv)"
  by (simp add: server_ok_shared set_sh_def)

lemma okay_set_sh: "shared_fits sh \<Longrightarrow> okay (set_sh sh sv, r)"
  by (simp add: okay_def set_sh_ok)

lemma goal_shapes [served]:
  assumes "server_ok sv"
  shows "(\<And>i. okay (k i)) \<Longrightarrow> okay (on_target e params sv k)" "(\<And>n. okay (h n)) \<Longrightarrow> okay (on_graph params sv h)"
    "shared_fits (fst q) \<Longrightarrow> okay (wrap f q sv)"
  using assms by (auto simp: on_target_def on_graph_def wrap_def okay_set_sh set_sh_ok okay_def split: sum.split option.split)

lemma calm_ok: "server_ok sv \<Longrightarrow> calm (sv_sh sv) sh \<Longrightarrow> shared_fits sh"
  unfolding server_ok_shared by (rule calm_fits)

lemma goal_okay [served]:
  assumes "server_ok sv"
  shows "okay (handle_goal_configure params sv)" "okay (handle_goal_create e params sv)" "okay (handle_goal_status e params sv)"
    "okay (handle_goal_complete e params sv)" "okay (handle_goal_continue e params sv)" "okay (handle_goal_accept e params sv)"
    "okay (handle_goal_stop e params sv)"
proof -
  note f = assms [unfolded server_ok_shared] and c = calm_ok [OF assms]
  have n: "server_ok (notify_metadata_refresh (set_sh (post_note env t b w d (set_run i f (sv_sh sv))) sv))" for env t b w d i f
    by (rule server_okI set_sh_ok c calm_on calm_refl)+
  have go: "shared_fits (fst (advance_iteration env i m (sv_sh sv)))" "shared_fits (fst (stop_run i (sv_sh sv)))" for env i m
    by (rule c calm_steps)+
  have k: "shared_fits (continue_node i (fst (advance_iteration env j m (sv_sh sv))))"
    "shared_fits (accept_node env i (set_run i f (sv_sh sv)))" for env i j m f
    by (rule calm_fits [OF _ calm_nodes(1)] calm_fits [OF _ calm_nodes(2)] go c calm_simple)+
  show conf: "okay (handle_goal_configure params sv)"
    unfolding handle_goal_configure_def by ((rule assms served | simp; fail)+)
  show "okay (handle_goal_create e params sv)"
    unfolding handle_goal_create_def using conf create_goal_fits [OF f]
    by (auto simp: okay_set_sh split: prod.split sum.split) (metis fst_conv okay_set_sh)+
  show "okay (handle_goal_status e params sv)" "okay (handle_goal_complete e params sv)" "okay (handle_goal_accept e params sv)"
    unfolding handle_goal_status_def handle_goal_complete_def handle_goal_accept_def
    by ((rule assms n k served okay_set_sh | simp; fail)+)
  show "okay (handle_goal_continue e params sv)" "okay (handle_goal_stop e params sv)"
    unfolding handle_goal_continue_def handle_goal_stop_def
    by ((rule assms go k served okay_set_sh | simp; fail)+)
qed

lemma graph_okay [served]:
  assumes "server_ok sv"
  shows "okay (handle_graph_create e params sv)" "okay (handle_graph_approve e params sv)" "okay (handle_graph_revise e params sv)"
    "okay (handle_graph_status e params sv)" "okay (handle_graph_pause e params sv)" "okay (handle_graph_resume e params sv)"
    "okay (handle_graph_stop e params sv)"
proof -
  note f = assms [unfolded server_ok_shared] and c = calm_ok [OF assms]
  have s: "shared_fits (fst (resolve_goal_source e params (sv_sh sv)))" by (rule c calm_source)+
  show "okay (handle_graph_create e params sv)"
    unfolding handle_graph_create_def using s create_graph_fits
    by (auto simp: okay_set_sh Let_def split: prod.split sum.split intro!: goal_shapes(3) assms)
  show "okay (handle_graph_approve e params sv)" "okay (handle_graph_revise e params sv)"
    "okay (handle_graph_status e params sv)" "okay (handle_graph_pause e params sv)" "okay (handle_graph_resume e params sv)"
    "okay (handle_graph_stop e params sv)"
    unfolding handle_graph_approve_def handle_graph_revise_def handle_graph_status_def handle_graph_pause_def
      handle_graph_resume_def handle_graph_stop_def pause_graph_def
    by ((rule assms served stop_graph_fits c calm_steps f | simp; fail)+)
qed

section \<open>The remaining handlers\<close>

lemma telemetry_okay [served]:
  assumes "server_ok sv"
  shows
    "okay (handle_workspace_set_status e params sv)" "okay (handle_workspace_clear_status e params sv)"
    "okay (handle_workspace_list_status e params sv)" "okay (handle_workspace_report_git e params sv)"
    "okay (handle_workspace_set_progress e params sv)" "okay (handle_workspace_clear_progress e params sv)"
    "okay (handle_workspace_append_log e params sv)" "okay (handle_workspace_clear_log e params sv)"
    "okay (handle_workspace_list_log e params sv)" "okay (handle_workspace_report_meta e params sv)"
    "okay (handle_workspace_clear_meta e params sv)" "okay (handle_workspace_list_meta e params sv)"
  unfolding
    handle_workspace_set_status_def handle_workspace_clear_status_def handle_workspace_list_status_def
    handle_workspace_report_git_def handle_workspace_set_progress_def handle_workspace_clear_progress_def
    handle_workspace_append_log_def handle_workspace_clear_log_def handle_workspace_list_log_def
    handle_workspace_report_meta_def handle_workspace_clear_meta_def handle_workspace_list_meta_def
  by ((rule assms served fits edits server_okD | assumption | simp; fail)+)

lemma telemetry_okay_2 [served]:
  assumes "server_ok sv"
  shows
    "okay (handle_workspace_report_meta_block e params sv)" "okay (handle_workspace_clear_meta_block e params sv)"
    "okay (handle_workspace_list_meta_blocks e params sv)" "okay (handle_workspace_rename e params sv)"
    "okay (handle_workspace_set_description e params sv)" "okay (handle_workspace_report_pr e params sv)"
    "okay (handle_workspace_report_pr_checks e params sv)" "okay (handle_workspace_set_imessage_mode e params sv)"
    "okay (handle_workspace_move_to_window e params sv)" "okay (handle_workspace_report_pwd e params sv)"
    "okay (handle_workspace_ports_kick sv)"
  unfolding
    handle_workspace_report_meta_block_def handle_workspace_clear_meta_block_def handle_workspace_list_meta_blocks_def
    handle_workspace_rename_def handle_workspace_set_description_def handle_workspace_report_pr_def
    handle_workspace_report_pr_checks_def handle_workspace_set_imessage_mode_def handle_workspace_move_to_window_def
    handle_workspace_report_pwd_def handle_workspace_ports_kick_def
  by ((rule assms served fits edits server_okD | assumption | simp; fail)+)

lemma workspace_okay [served]:
  assumes "server_ok sv"
  shows
    "okay (handle_workspace_list sv)" "okay (handle_workspace_current sv)"
    "okay (handle_workspace_remote_status e params sv)" "okay (handle_workspace_select e params sv)"
    "okay (handle_workspace_next params sv)" "okay (handle_workspace_previous params sv)"
    "okay (handle_workspace_last sv)" "okay (handle_workspace_focus_back sv)"
    "okay (handle_workspace_focus_forward sv)" "okay (handle_workspace_latest_unread sv)"
    "okay (handle_workspace_reopen_closed_tab sv)" "okay (handle_workspace_clear_closed sv)"
  unfolding
    handle_workspace_list_def handle_workspace_current_def handle_workspace_remote_status_def
    handle_workspace_select_def handle_workspace_next_def handle_workspace_previous_def handle_workspace_last_def
    handle_workspace_focus_back_def handle_workspace_focus_forward_def handle_workspace_latest_unread_def
    handle_workspace_reopen_closed_tab_def handle_workspace_clear_closed_def
  by ((rule assms served fits edits server_okD | assumption | simp; fail)+)

lemma workspace_okay_2 [served]:
  assumes "server_ok sv"
  shows
    "okay (handle_workspace_reopen_closed sv)" "okay (handle_workspace_close e params sv)"
    "okay (handle_workspace_reorder params sv)"
  unfolding
    handle_workspace_reopen_closed_def handle_workspace_close_def handle_workspace_reorder_def
  by ((rule assms served fits edits server_okD | assumption | simp; fail)+)

lemma action_okay [served]:
  assumes "server_ok sv"
  shows
    "okay (handle_app_focus_override sv)" "okay (handle_app_simulate_active sv)" "okay (handle_settings_open sv)"
    "okay (handle_settings_reload sv)" "okay (handle_workspace_files e params sv)"
  unfolding
    handle_app_focus_override_def handle_app_simulate_active_def handle_settings_open_def handle_settings_reload_def
    handle_workspace_files_def
  by ((rule assms served fits edits server_okD | assumption | simp; fail)+)

lemma pane_okay [served]:
  assumes "server_ok sv"
  shows
    "okay (handle_pane_new params sv)" "okay (handle_pane_split_off params sv)" "okay (handle_pane_list e params sv)"
    "okay (handle_pane_surfaces e params sv)" "okay (handle_pane_focus e params sv)"
    "okay (handle_pane_last e params sv)" "okay (handle_pane_focus_direction params sv)"
    "okay (handle_panel_toggle_zoom e params sv)" "okay (handle_pane_close e params sv)"
    "okay (handle_panel_move_to_workspace e params sv)"
  unfolding
    handle_pane_new_def handle_pane_split_off_def handle_pane_list_def handle_pane_surfaces_def handle_pane_focus_def
    handle_pane_last_def handle_pane_focus_direction_def handle_panel_toggle_zoom_def handle_pane_close_def
    handle_panel_move_to_workspace_def
  by ((rule assms served fits edits server_okD | assumption | simp; fail)+)

lemma surface_okay [served]:
  assumes "server_ok sv"
  shows
    "okay (handle_surface_send_input e params sv)" "okay (handle_surface_current sv)"
    "okay (handle_surface_send_key e params sv)" "okay (handle_surface_read_text e params sv)"
    "okay (handle_surface_action e params sv)" "okay (handle_surface_health e params sv)"
    "okay (handle_surface_refresh e params sv)" "okay (handle_surface_clear_history e params sv)"
    "okay (handle_surface_trigger_flash e params sv)"
  unfolding
    handle_surface_send_input_def handle_surface_current_def handle_surface_send_key_def handle_surface_read_text_def
    handle_surface_action_def handle_surface_health_def handle_surface_refresh_def handle_surface_clear_history_def
    handle_surface_trigger_flash_def
  by ((rule assms served fits edits server_okD | assumption | simp; fail)+)

lemma misc_okay [served]:
  assumes "server_ok sv"
  shows
    "okay (handle_group_create params sv)" "okay (handle_group_list sv)" "okay (handle_group_assign e params sv)"
    "okay (handle_group_rename e params sv)" "okay (handle_group_collapse e params sv)"
    "okay (handle_group_color e params sv)" "okay (handle_group_delete e params sv)"
    "okay (handle_notification_list params sv)" "okay (handle_notification_clear sv)"
    "okay (handle_notification_mark_read e params sv)" "okay (handle_notification_dismiss e params sv)"
    "okay (handle_notification_open e params sv)"
  unfolding
    handle_group_create_def handle_group_list_def handle_group_assign_def handle_group_rename_def
    handle_group_collapse_def handle_group_color_def handle_group_delete_def handle_notification_list_def
    handle_notification_clear_def handle_notification_mark_read_def handle_notification_dismiss_def
    handle_notification_open_def
  by ((rule assms served fits edits server_okD | assumption | simp; fail)+)

lemma misc_okay_2 [served]:
  assumes "server_ok sv"
  shows
    "okay (handle_window_new sv)" "okay (handle_window_displays e sv)" "okay (handle_window_display e params sv)"
    "okay (handle_window_list sv)" "okay (handle_window_current sv)" "okay (handle_window_focus e params sv)"
    "okay (handle_sidebar_show sv)" "okay (handle_sidebar_hide sv)" "okay (handle_sidebar_toggle sv)"
    "okay (handle_sidebar_status sv)" "okay (handle_system_ping sv)" "okay (handle_system_identify e sv)"
  unfolding
    handle_window_new_def handle_window_displays_def handle_window_display_def handle_window_list_def
    handle_window_current_def handle_window_focus_def handle_sidebar_show_def handle_sidebar_hide_def
    handle_sidebar_toggle_def handle_sidebar_status_def handle_system_ping_def handle_system_identify_def
  by ((rule assms served fits edits server_okD | assumption | simp; fail)+)

lemma misc_okay_3 [served]:
  assumes "server_ok sv"
  shows
    "okay (handle_system_tree sv)" "okay (handle_open_task_manager sv)" "okay (handle_overview sv)"
    "okay (handle_command_palette sv)" "okay (handle_dock sv)" "okay (handle_quick_terminal params sv)"
    "okay (handle_run_command params sv)" "okay (handle_tab_new params sv)" "okay (handle_tab_list sv)"
    "okay (handle_tab_switch e params sv)" "okay (handle_tab_close e params sv)"
  unfolding
    handle_system_tree_def handle_open_task_manager_def handle_overview_def handle_command_palette_def handle_dock_def
    handle_quick_terminal_def handle_run_command_def handle_tab_new_def handle_tab_list_def handle_tab_switch_def
    handle_tab_close_def
  by ((rule assms served fits edits server_okD | assumption | simp; fail)+)

section \<open>Requests\<close>

lemma capabilities_okay [served]: "server_ok sv \<Longrightarrow> okay (handle_capabilities sv)"
  by (simp add: handle_capabilities_def okay_def)

definition served_well :: "(rstr \<Rightarrow> json \<Rightarrow> server \<Rightarrow> outcome) \<Rightarrow> json \<Rightarrow> server \<Rightarrow> rstr \<times> (json \<Rightarrow> server \<Rightarrow> outcome) \<Rightarrow> bool" where
  "served_well other params sv mh \<longleftrightarrow>
     fst mh = ''workspace.agent_monitor'' \<or> snd mh = other (fst mh) \<or> okay (snd mh params sv)"

lemma served_wellI:
  "okay (h params sv) \<Longrightarrow> served_well other params sv (m, h)" "served_well other params sv (m, other m)"
  "served_well other params sv (''workspace.agent_monitor'', h)"
  by (simp_all add: served_well_def)

lemma table_parts:
  assumes "server_ok sv"
  shows
    "list_all (served_well other params sv) (system_methods other e)"
    "list_all (served_well other params sv) (workspace_methods other d e)"
    "list_all (served_well other params sv) (goal_methods e)"
    "list_all (served_well other params sv) (pane_methods e)"
    "list_all (served_well other params sv) (other_methods e)"
  unfolding system_methods_def workspace_methods_def goal_methods_def pane_methods_def other_methods_def list.pred_inject
  by ((rule conjI list.pred_inject(1) served_wellI(2,3) | (rule served_wellI(1), rule served, rule assms))+)

lemma table_okay:
  "server_ok sv \<Longrightarrow> mh \<in> set (method_table other d e) \<Longrightarrow> served_well other params sv mh"
  using table_parts [of sv other params] unfolding method_table_def list_all_iff by auto

lemma browser_okay:
  assumes "server_ok sv" and "\<And>m params. server_ok (fst (other m params sv))" and "browser_dispatch other e m = Some h"
  shows "okay (h params sv)"
proof -
  consider "h = handle_tab_new" | "h = (\<lambda>_. handle_tab_list)" | "h = handle_tab_switch e" | "h = handle_tab_close e" | "h = other m"
    using assms(3) by (auto simp: browser_dispatch_def split: if_splits option.splits)
  then show ?thesis
    by cases (simp_all add: misc_okay misc_okay_2 misc_okay_3 assms(1) okay_def [of "other m params sv"] assms(2))
qed

lemma dispatch_ok:
  assumes "server_ok sv" and "\<And>m params sv. server_ok sv \<Longrightarrow> server_ok (fst (other m params sv))"
    and "rq_method rq \<noteq> ''workspace.agent_monitor''"
  shows "server_ok (fst (dispatch_request other d e rq sv))"
proof -
  note o = assms(2) [OF assms(1)]
  have "okay (run_method other d e (rq_method rq) (rq_params rq) sv)"
  proof (cases "map_of (method_table other d e) (rq_method rq)")
    case None
    have "okay (h (rq_params rq) sv)" if "browser_dispatch other e (rq_method rq) = Some h" for h
      by (rule browser_okay [where other = other, OF assms(1) o that])
    with None assms(1) show ?thesis by (auto simp: run_method_def okay_def split: option.split)
  next
    case (Some h)
    from table_okay [OF assms(1) map_of_SomeD [OF Some], of "rq_params rq"] assms(3)
    have "h = other (rq_method rq) \<or> okay (h (rq_params rq) sv)" by (simp add: served_well_def)
    with Some o show ?thesis by (auto simp: run_method_def okay_def)
  qed
  then show ?thesis by (simp add: dispatch_request_def okay_def assms(1) split: option.split)
qed

text \<open>C14. Whatever request the control socket is sent, one for each of its methods with any parameters, well formed
  or not, leaves the window's state well formed: identifiers of workspaces and panels stay unique and below
  the counter they are drawn from, no workspace is empty, each workspace's layout shows exactly its panels,
  focus, selection and history point at something that exists, and the lists that requests feed stay within
  their caps: status entries, metadata entries and blocks (with unique keys) and log entries of a workspace,
  closed panels, closed workspaces, focus history and notifications. The handlers outside the model are
  assumed to keep this too; the agent monitor, which may take a workspace's last panel, is left out.\<close>

theorem request_keeps_ok:
  assumes "server_ok sv" and "\<And>m params sv. server_ok sv \<Longrightarrow> server_ok (fst (other m params sv))"
    and "rq_method rq \<noteq> ''workspace.agent_monitor''"
  shows "server_ok (fst (dispatch_request other d e rq sv))"
  by (rule dispatch_ok [OF assms])

end
