(* ===== verification/Socket_V1.thy ===== *)
theory Socket_V1 imports Socket_Core begin

text \<open>
  The first protocol of the socket, lines of text sent by shell scripts (\<open>jmux/src/socket/v1.rs\<close>): how a
  line is split and which method with which parameters it stands for. Reading JSON text (crate \<open>serde_json\<close>) is
  an argument.
\<close>

section \<open>Reading a line\<close>

definition is_v1 :: "rstr \<Rightarrow> bool" where
  "is_v1 line = (let t = trim line in t \<noteq> [] \<and> \<not> starts_with ''{'' t)"

definition split_once :: "char \<Rightarrow> rstr \<Rightarrow> (rstr \<times> rstr) option" where
  "split_once c s =
     (if c \<in> set s then Some (takeWhile (\<lambda>x. x \<noteq> c) s, drop 1 (dropWhile (\<lambda>x. x \<noteq> c) s)) else None)"

definition next_token :: "rstr \<Rightarrow> (rstr \<times> rstr) option" where
  "next_token s =
     (case dropWhile (\<lambda>c. c = CHR '' '') s of
        [] \<Rightarrow> None
      | c # cs \<Rightarrow>
          if c = CHR 0x22
          then Some (takeWhile (\<lambda>x. x \<noteq> CHR 0x22) cs, drop 1 (dropWhile (\<lambda>x. x \<noteq> CHR 0x22) cs))
          else Some (takeWhile (\<lambda>x. x \<noteq> CHR '' '') (c # cs), dropWhile (\<lambda>x. x \<noteq> CHR '' '') (c # cs)))"

lemma next_token_shorter: "next_token s = Some (t, r) \<Longrightarrow> length r < length s"
proof -
  assume t: "next_token s = Some (t, r)"
  let ?d = "dropWhile (\<lambda>c. c = CHR '' '') s"
  have d: "length ?d \<le> length s" by (rule length_dropWhile_le)
  obtain c cs where c: "?d = c # cs" using t by (cases ?d) (auto simp: next_token_def)
  have "c \<noteq> CHR '' ''" using hd_dropWhile [of "\<lambda>c. c = CHR '' ''" s] c by simp
  then have "length r \<le> length cs"
    using t c length_dropWhile_le [of "\<lambda>x. x \<noteq> CHR 0x22" cs] length_dropWhile_le [of "\<lambda>x. x \<noteq> CHR '' ''" cs]
    by (auto simp: next_token_def split: if_splits)
  then show ?thesis using d c by simp
qed

function tokens :: "rstr \<Rightarrow> rstr list" where
  "tokens s = (case next_token s of None \<Rightarrow> [] | Some (t, r) \<Rightarrow> t # tokens r)"
  by pat_completeness auto
termination
  by (relation "measure length") (auto dest: next_token_shorter)

declare tokens.simps [simp del]

definition flag_of :: "rstr \<Rightarrow> (rstr \<times> rstr) option" where
  "flag_of t = map_option (\<lambda>f. case split_once (CHR ''='') f of Some kv \<Rightarrow> kv | None \<Rightarrow> (f, [])) (strip_prefix ''--'' t)"

record v1_line =
  vl_args :: "rstr list"
  vl_flags :: "(rstr, rstr) hashmap"

definition parse_args :: "rstr \<Rightarrow> v1_line" where
  "parse_args s =
     \<lparr> vl_args = filter (\<lambda>t. flag_of t = None) (tokens s),
       vl_flags = fold (\<lambda>(k, v) m. AList.update k v m) (List.map_filter flag_of (tokens s)) [] \<rparr>"

definition vflag :: "rstr \<Rightarrow> v1_line \<Rightarrow> rstr option" where
  "vflag k l = map_of (vl_flags l) k"

definition varg :: "nat \<Rightarrow> v1_line \<Rightarrow> rstr" where
  "varg i l = or_default [] (get_at i (vl_args l))"

definition vworkspace :: "v1_line \<Rightarrow> rstr option" where
  "vworkspace l = or_else (vflag ''tab'' l) (vflag ''workspace'' l)"

definition vpanel :: "v1_line \<Rightarrow> rstr option" where
  "vpanel l = or_else (vflag ''panel'' l) (vflag ''surface'' l)"

text \<open>Numbers: \<open>parse::<i64>()\<close> and \<open>parse::<f64>()\<close>.\<close>

definition parse_i64 :: "rstr \<Rightarrow> int option" where
  "parse_i64 s =
     (case s of
        c # cs \<Rightarrow>
          if c = CHR ''-''
          then (if cs \<noteq> [] \<and> list_all is_ascii_digit cs \<and> digits_val cs \<le> 2 ^ 63 then Some (- int (digits_val cs)) else None)
          else map_option int (parse_unsigned (2 ^ 63) s)
      | [] \<Rightarrow> None)"

definition signed :: "rstr \<Rightarrow> bool \<times> rstr" where
  "signed s =
     (case s of
        c # cs \<Rightarrow> if c = CHR ''-'' then (True, cs) else if c = CHR ''+'' then (False, cs) else (False, s)
      | [] \<Rightarrow> (False, s))"

definition parse_exponent :: "rstr \<Rightarrow> int option" where
  "parse_exponent r =
     (case r of
        [] \<Rightarrow> Some 0
      | c # cs \<Rightarrow>
          (let (neg, d) = signed cs
           in if c \<in> {CHR ''e'', CHR ''E''} \<and> d \<noteq> [] \<and> list_all is_ascii_digit d
              then Some (if neg then - int (digits_val d) else int (digits_val d)) else None))"

definition pow10 :: "int \<Rightarrow> rat" where
  "pow10 k = (if 0 \<le> k then 10 ^ nat k else 1 / 10 ^ nat (- k))"

definition parse_f64 :: "rstr \<Rightarrow> f64 option" where
  "parse_f64 s =
     (let (neg, t) = signed s; l = ascii_lowercase t in
      if l \<in> {''inf'', ''infinity''} then Some (Inf neg)
      else if l = ''nan'' then Some (NaN neg)
      else
       (let ip = takeWhile is_ascii_digit t; r = dropWhile is_ascii_digit t;
            (fp, r) = (case r of c # r' \<Rightarrow> if c = CHR ''.'' then (takeWhile is_ascii_digit r', dropWhile is_ascii_digit r')
                                           else ([], r) | [] \<Rightarrow> ([], r))
        in if ip = [] \<and> fp = [] then None
           else map_option (\<lambda>k. f64_round neg (of_nat (digits_val (ip @ fp)) * pow10 (k - int (length fp)))) (parse_exponent r)))"

text \<open>\<open>json!\<close> of a float: what is not finite becomes null.\<close>

definition jfloat :: "f64 \<Rightarrow> json" where
  "jfloat x = (if is_finite x then JNum x else JNull)"

section \<open>Commands\<close>

type_synonym call = "rstr \<times> json"

definition jfield :: "rstr \<Rightarrow> rstr option \<Rightarrow> (rstr \<times> json) list" where
  "jfield k x = (case x of Some v \<Rightarrow> [(k, JStr v)] | None \<Rightarrow> [])"

definition in_workspace :: "v1_line \<Rightarrow> (rstr \<times> json) list" where
  "in_workspace l = jfield ''workspace'' (vworkspace l)"

definition on_surface :: "v1_line \<Rightarrow> (rstr \<times> json) list" where
  "on_surface l = jfield ''surface'' (vpanel l)"

definition vtarget :: "v1_line \<Rightarrow> (rstr \<times> json) list" where
  "vtarget l = in_workspace l @ on_surface l"

definition sarg :: "rstr \<Rightarrow> nat \<Rightarrow> v1_line \<Rightarrow> rstr \<times> json" where
  "sarg k i l = (k, JStr (varg i l))"

definition priority_field :: "v1_line \<Rightarrow> (rstr \<times> json) list" where
  "priority_field l =
     (case Option.bind (vflag ''priority'' l) parse_i64 of Some n \<Rightarrow> [(''priority'', JInt n)] | None \<Rightarrow> [])"

definition first_arg_field :: "rstr \<Rightarrow> v1_line \<Rightarrow> (rstr \<times> json) list" where
  "first_arg_field k l = jfield k (get_at 0 (vl_args l))"

definition arg_or_panel :: "v1_line \<Rightarrow> rstr" where
  "arg_or_panel l = or_default [] (or_else (get_at 0 (vl_args l)) (vpanel l))"

definition call :: "rstr \<Rightarrow> (rstr \<times> json) list \<Rightarrow> call option" where
  "call m fs = Some (m, JObj fs)"

text \<open>Reports of the shell integration.\<close>

definition v1_reports :: "(rstr \<Rightarrow> json option) \<Rightarrow> rstr \<Rightarrow> v1_line \<Rightarrow> call option" where
  "v1_reports parse c l =
     (if c = ''report_pwd'' then call ''workspace.report_pwd'' ([sarg ''directory'' 0 l] @ vtarget l)
      else if c = ''report_git_branch''
      then (let raw = varg 0 l;
                (branch, dirty) = (case strip_suffix ''*'' raw of
                    Some b \<Rightarrow> (b, True) | None \<Rightarrow> (raw, vflag ''status'' l = Some ''dirty''))
            in call ''workspace.report_git_branch'' ([(''branch'', JStr branch), (''is_dirty'', JBool dirty)] @ vtarget l))
      else if c = ''clear_git_branch''
      then call ''workspace.report_git_branch'' [(''branch'', JStr []), (''workspace'', json_opt_str (vworkspace l))]
      else if c = ''report_pr''
      then call ''workspace.report_pr''
             ([(''status'', JStr (or_default (varg 0 l) (vflag ''state'' l)))] @ jfield ''url'' (get_at 1 (vl_args l)) @ vtarget l)
      else if c = ''clear_pr'' then call ''workspace.report_pr'' ([(''status'', JStr [])] @ in_workspace l)
      else if c = ''report_pr_checks''
      then call ''workspace.report_pr_checks''
             ([(''checks'', or_default (JArr []) (parse (or_default ''[]'' (get_at 0 (vl_args l)))))] @ in_workspace l)
      else if c = ''report_tty'' then call ''workspace.report_tty'' ([sarg ''tty'' 0 l] @ vtarget l)
      else if c = ''report_agent_session''
      then call ''workspace.report_agent_session'' ([sarg ''agent'' 0 l, sarg ''session_id'' 1 l] @ vtarget l)
      else if c = ''ports_kick'' then call ''workspace.ports_kick'' []
      else if c = ''report_shell_state''
      then call ''workspace.set_status''
             ([(''state'', JStr (or_default ''prompt'' (get_at 0 (vl_args l))))] @ in_workspace l)
      else if c = ''ping'' then call ''system.ping'' []
      else if c = ''report_ports''
      then call ''workspace.report_ports'' ([(''ports'', JArr (map JStr (vl_args l)))] @ in_workspace l)
      else None)"

definition v1_meta :: "rstr \<Rightarrow> v1_line \<Rightarrow> call option" where
  "v1_meta c l =
     (if c = ''report_meta''
      then call ''workspace.report_meta''
             ([sarg ''key'' 0 l, sarg ''value'' 1 l] @ jfield ''icon'' (vflag ''icon'' l) @ jfield ''color'' (vflag ''color'' l)
              @ jfield ''url'' (vflag ''url'' l) @ priority_field l @ jfield ''format'' (vflag ''format'' l) @ in_workspace l)
      else if c = ''report_meta_block''
      then call ''workspace.report_meta_block'' ([sarg ''key'' 0 l, sarg ''content'' 1 l] @ priority_field l @ in_workspace l)
      else if c = ''clear_meta'' then call ''workspace.clear_meta'' (first_arg_field ''key'' l @ in_workspace l)
      else if c = ''clear_meta_block'' then call ''workspace.clear_meta_block'' (first_arg_field ''key'' l @ in_workspace l)
      else if c = ''list_meta'' then call ''workspace.list_meta'' (in_workspace l)
      else if c = ''list_meta_blocks'' then call ''workspace.list_meta_blocks'' (in_workspace l)
      else if c = ''capabilities'' then call ''system.capabilities'' []
      else if c = ''identify'' then call ''system.identify'' []
      else if c = ''tree'' then call ''system.tree'' []
      else None)"

definition v1_windows :: "rstr \<Rightarrow> v1_line \<Rightarrow> call option" where
  "v1_windows c l =
     (if c \<in> {''list_windows'', ''window_list''} then call ''window.list'' []
      else if c \<in> {''current_window'', ''window_current''} then call ''window.current'' []
      else if c \<in> {''new_window'', ''window_new''} then call ''window.new'' []
      else if c \<in> {''focus_window'', ''window_focus''} then call ''window.focus'' [sarg ''window'' 0 l]
      else if c \<in> {''close_window'', ''window_close''} then call ''window.close'' [sarg ''window'' 0 l]
      else None)"

text \<open>The first argument without a dash is the destination. No argument starts with two dashes.\<close>

definition ssh_fields :: "v1_line \<Rightarrow> (rstr \<times> json) list" where
  "ssh_fields l =
     jfield ''destination'' (find (\<lambda>a. \<not> starts_with ''-'' a) (vl_args l))
     @ (if list_ex (\<lambda>a. a \<in> {''-A'', ''--forward-agent''}) (vl_args l) then [(''agent_forward'', JBool True)] else [])"

definition v1_workspaces :: "rstr \<Rightarrow> v1_line \<Rightarrow> call option" where
  "v1_workspaces c l =
     (if c \<in> {''list_workspaces'', ''workspace_list'', ''list''} then call ''workspace.list'' []
      else if c \<in> {''new_workspace'', ''workspace_new'', ''new''} then call ''workspace.new'' (first_arg_field ''directory'' l)
      else if c = ''ssh'' then call ''workspace.create_ssh'' (ssh_fields l)
      else if c \<in> {''select_workspace'', ''workspace_select'', ''select''}
      then call ''workspace.select''
             [case parse_unsigned (2 ^ 64) (varg 0 l) of Some i \<Rightarrow> (''index'', JInt (int i)) | None \<Rightarrow> sarg ''workspace'' 0 l]
      else if c \<in> {''current_workspace'', ''workspace_current'', ''current''} then call ''workspace.current'' []
      else if c \<in> {''close_workspace'', ''workspace_close''}
      then call ''workspace.close'' (jfield ''workspace'' (or_else (get_at 0 (vl_args l)) (vworkspace l)))
      else if c \<in> {''next_workspace'', ''workspace_next'', ''next''} then call ''workspace.next'' []
      else if c \<in> {''previous_workspace'', ''workspace_previous'', ''prev''} then call ''workspace.previous'' []
      else if c \<in> {''last_workspace'', ''workspace_last'', ''last''} then call ''workspace.last'' []
      else if c \<in> {''focus_back'', ''back''} then call ''workspace.focus_back'' []
      else if c \<in> {''focus_forward'', ''forward''} then call ''workspace.focus_forward'' []
      else if c \<in> {''reopen'', ''reopen_closed''} then call ''workspace.reopen_closed'' []
      else if c = ''hibernate'' then call ''workspace.hibernate'' [(''toggle'', JBool True)]
      else if c = ''wake'' then call ''workspace.wake'' []
      else if c = ''latest_unread'' then call ''workspace.latest_unread'' []
      else if c \<in> {''rename_workspace'', ''workspace_rename'', ''rename''}
      then call ''workspace.rename'' ([sarg ''name'' 0 l] @ in_workspace l)
      else if c \<in> {''reorder_workspace'', ''workspace_reorder''}
      then call ''workspace.reorder''
             ([(''index'', JInt (int (or_default 0 (Option.bind (get_at 0 (vl_args l)) (parse_unsigned (2 ^ 64))))))] @ in_workspace l)
      else if c = ''workspace_action'' then call ''workspace.action'' ([sarg ''action'' 0 l] @ in_workspace l)
      else if c = ''move_workspace_to_window'' then call ''workspace.move_to_window'' ([sarg ''window'' 0 l] @ in_workspace l)
      else None)"

definition v1_status :: "rstr \<Rightarrow> v1_line \<Rightarrow> call option" where
  "v1_status c l =
     (if c = ''set_status''
      then call ''workspace.set_status''
             ([sarg ''key'' 0 l, sarg ''value'' 1 l] @ jfield ''icon'' (vflag ''icon'' l) @ jfield ''color'' (vflag ''color'' l)
              @ jfield ''url'' (vflag ''url'' l) @ in_workspace l)
      else if c = ''clear_status'' then call ''workspace.clear_status'' (first_arg_field ''key'' l @ in_workspace l)
      else if c = ''list_status'' then call ''workspace.list_status'' (in_workspace l)
      else if c = ''set_progress''
      then call ''workspace.set_progress''
             ([(''value'', jfloat (or_default (Fin False 0) (Option.bind (get_at 0 (vl_args l)) parse_f64)))]
              @ jfield ''label'' (get_at 1 (vl_args l)) @ in_workspace l)
      else if c = ''clear_progress'' then call ''workspace.clear_progress'' (in_workspace l)
      else if c \<in> {''log'', ''append_log''}
      then call ''workspace.append_log''
             ([sarg ''message'' 0 l] @ jfield ''level'' (vflag ''level'' l) @ jfield ''source'' (vflag ''source'' l) @ in_workspace l)
      else if c = ''clear_log'' then call ''workspace.clear_log'' (in_workspace l)
      else if c = ''list_log'' then call ''workspace.list_log'' (in_workspace l)
      else if c = ''set_agent_pid''
      then call ''workspace.set_status'' ([(''key'', JStr ''agent_pid''), sarg ''value'' 0 l] @ in_workspace l)
      else if c = ''clear_agent_pid'' then call ''workspace.clear_status'' ([(''key'', JStr ''agent_pid'')] @ in_workspace l)
      else if c = ''sidebar_state'' then call ''workspace.current'' []
      else if c = ''reset_sidebar'' then call ''workspace.clear_status'' (in_workspace l)
      else if c = ''report_review'' then call ''workspace.report_pr'' ([sarg ''status'' 0 l] @ in_workspace l)
      else None)"

definition v1_surfaces :: "rstr \<Rightarrow> v1_line \<Rightarrow> call option" where
  "v1_surfaces c l =
     (if c \<in> {''list_surfaces'', ''surface_list''} then call ''surface.list'' (in_workspace l)
      else if c \<in> {''current_surface'', ''surface_current''} then call ''surface.current'' []
      else if c \<in> {''focus_surface'', ''surface_focus''} then call ''surface.focus'' [(''surface'', JStr (arg_or_panel l))]
      else if c = ''send'' then call ''surface.send_input'' [(''text'', JStr (join '' '' (vl_args l)))]
      else if c = ''send_surface''
      then call ''surface.send_input'' [sarg ''surface'' 0 l, (''text'', JStr (join '' '' (drop 1 (vl_args l))))]
      else if c = ''send_key'' then call ''surface.send_key'' ([sarg ''key'' 0 l] @ on_surface l)
      else if c = ''send_key_surface'' then call ''surface.send_key'' [sarg ''surface'' 0 l, sarg ''key'' 1 l]
      else if c \<in> {''close_surface'', ''surface_close''} then call ''surface.close'' [(''surface'', JStr (arg_or_panel l))]
      else if c \<in> {''read_screen'', ''read_text''}
      then call ''surface.read_text''
             (on_surface l @ jfield ''point'' (vflag ''point'' l)
              @ (if vflag ''scrollback'' l \<noteq> None then [(''scrollback'', JBool True)] else [])
              @ (case Option.bind (vflag ''lines'' l) (parse_unsigned (2 ^ 64)) of
                   Some n \<Rightarrow> [(''lines'', JInt (int n))] | None \<Rightarrow> []))
      else if c = ''clear_history'' then call ''surface.clear_history'' (on_surface l)
      else if c = ''surface_health'' then call ''surface.health'' [(''surface'', JStr (arg_or_panel l))]
      else if c = ''refresh_surfaces'' then call ''surface.refresh'' []
      else None)"

definition v1_panes :: "rstr \<Rightarrow> v1_line \<Rightarrow> call option" where
  "v1_panes c l =
     (if c \<in> {''new_split'', ''split''}
      then call ''pane.new''
             ([(''orientation'', JStr (if or_default ''right'' (get_at 0 (vl_args l)) \<in> {''down'', ''vertical'', ''v''}
                                      then ''vertical'' else ''horizontal'')),
               (''panel_type'', JStr (or_default ''terminal'' (vflag ''type'' l)))] @ in_workspace l)
      else if c \<in> {''list_panes'', ''pane_list''} then call ''pane.list'' (in_workspace l)
      else if c = ''focus_direction''
      then call ''pane.focus_direction''
             ([(''direction'', JStr (or_default ''right'' (get_at 0 (vl_args l))))] @ in_workspace l)
      else if c \<in> {''swap_panes'', ''pane_swap''} then call ''pane.swap'' [sarg ''surface_a'' 0 l, sarg ''surface_b'' 1 l]
      else if c \<in> {''resize_pane'', ''pane_resize''}
      then call ''pane.resize''
             ([(''delta'', jfloat (or_default (Fin False 0) (Option.bind (get_at 0 (vl_args l)) parse_f64)))] @ on_surface l)
      else if c \<in> {''break_pane'', ''pane_break''} then call ''pane.break'' (on_surface l)
      else if c \<in> {''equalize'', ''pane_equalize''} then call ''pane.equalize'' (in_workspace l)
      else if c = ''new_surface''
      then call ''pane.new'' ([(''panel_type'', JStr (or_default ''terminal'' (vflag ''type'' l)))] @ in_workspace l)
      else if c = ''focus_pane'' then call ''pane.focus'' [sarg ''surface'' 0 l]
      else if c = ''list_pane_surfaces'' then call ''pane.surfaces'' [sarg ''surface'' 0 l]
      else if c = ''open_browser''
      then call ''pane.new'' ([(''panel_type'', JStr ''browser'')] @ first_arg_field ''url'' l @ in_workspace l)
      else if c = ''navigate'' then call ''browser.navigate'' ([sarg ''url'' 0 l] @ on_surface l)
      else if c = ''browser_back'' then call ''browser.back'' (on_surface l)
      else if c = ''browser_forward'' then call ''browser.forward'' (on_surface l)
      else if c = ''browser_reload'' then call ''browser.reload'' (on_surface l)
      else None)"

definition v1_rest :: "rstr \<Rightarrow> v1_line \<Rightarrow> call option" where
  "v1_rest c l =
     (if c = ''notify'' then call ''notification.create'' ([sarg ''title'' 0 l, sarg ''body'' 1 l] @ vtarget l)
      else if c = ''notify_surface''
      then call ''notification.create'' [sarg ''surface'' 0 l, sarg ''title'' 1 l, sarg ''body'' 2 l]
      else if c = ''notify_target''
      then call ''notification.create'' [sarg ''workspace'' 0 l, sarg ''surface'' 1 l, sarg ''title'' 2 l, sarg ''body'' 3 l]
      else if c = ''list_notifications'' then call ''notification.list'' []
      else if c = ''clear_notifications'' then call ''notification.clear'' []
      else if c \<in> {''settings'', ''open_settings''} then call ''settings.open'' []
      else if c \<in> {''open_markdown'', ''markdown''} then call ''markdown.open'' ([sarg ''file_path'' 0 l] @ in_workspace l)
      else if c = ''reload_config'' then call ''settings.open'' []
      else None)"

definition v1_call :: "(rstr \<Rightarrow> json option) \<Rightarrow> rstr \<Rightarrow> v1_line \<Rightarrow> call option" where
  "v1_call parse c l =
     or_else (v1_reports parse c l) (or_else (v1_meta c l) (or_else (v1_windows c l) (or_else (v1_workspaces c l)
       (or_else (v1_status c l) (or_else (v1_surfaces c l) (or_else (v1_panes c l) (v1_rest c l)))))))"

section \<open>Dispatching\<close>

definition v1_split :: "rstr \<Rightarrow> rstr \<times> v1_line" where
  "v1_split line =
     (case split_once (CHR '' '') (trim line) of
        Some (c, rest) \<Rightarrow> (c, parse_args (trim rest))
      | None \<Rightarrow> (trim line, parse_args []))"

text \<open>A line is a call, the two lines that are answered at once, or unknown. The help text itself is left out.\<close>

datatype v1_request = V1Call rstr json | V1Help | V1Auth | V1Unknown rstr

definition v1_request_of :: "(rstr \<Rightarrow> json option) \<Rightarrow> rstr \<Rightarrow> v1_request" where
  "v1_request_of parse line =
     (let (c, l) = v1_split line in
      if c = ''help'' then V1Help
      else if c = ''auth'' then V1Auth
      else case v1_call parse c l of Some (m, p) \<Rightarrow> V1Call m p | None \<Rightarrow> V1Unknown c)"

end
