(* ===== verification/Socket_Auth.thy ===== *)
theory Socket_Auth imports Text_Lines begin

unbundle bit_operations_syntax

text \<open>
  Who may talk to the control socket (\<open>jmux/src/socket/auth.rs\<close>): the control modes, the walk up the process
  tree, the hexadecimal code and the comparison of message authentication codes. The contents of
  \<open>/proc/<pid>/status\<close>, the user of the process and HMAC-SHA256 (crates \<open>hmac\<close> and \<open>sha2\<close>) are arguments.
\<close>

section \<open>Peers and modes\<close>

record peer_info =
  pi_pid :: u32
  pi_uid :: u32
  pi_gid :: u32

datatype socket_control_mode = Off | JmuxOnly | LocalUser | Automation | AllowAll

definition mode_from_env :: "rstr option \<Rightarrow> socket_control_mode" where
  "mode_from_env v =
     (if v = Some ''off'' then Off
      else if v = Some ''allowAll'' then AllowAll
      else if v = Some ''jmuxOnly'' then JmuxOnly
      else if v = Some ''automation'' then Automation
      else LocalUser)"

definition is_same_user :: "u32 \<Rightarrow> peer_info \<Rightarrow> bool" where
  "is_same_user me p \<longleftrightarrow> pi_uid p = me"

definition read_ppid :: "(u32 \<Rightarrow> rstr option) \<Rightarrow> u32 \<Rightarrow> u32 option" where
  "read_ppid status pid =
     Option.bind (status pid) (\<lambda>s.
       Option.bind (head_opt (List.map_filter (strip_prefix ''PPid:'') (lines_of s))) (\<lambda>rest.
         map_option of_nat (parse_unsigned (2 ^ 32) (trim rest))))"

fun descends :: "(u32 \<Rightarrow> rstr option) \<Rightarrow> nat \<Rightarrow> u32 \<Rightarrow> u32 \<Rightarrow> bool" where
  "descends status 0 current anc = False"
| "descends status (Suc n) current anc =
     (if current = anc then True
      else if current \<le> 1 then False
      else case read_ppid status current of
             Some ppid \<Rightarrow> if ppid \<noteq> current then descends status n ppid anc else False
           | None \<Rightarrow> False)"

definition is_descendant :: "(u32 \<Rightarrow> rstr option) \<Rightarrow> u32 \<Rightarrow> u32 \<Rightarrow> bool" where
  "is_descendant status pid anc \<longleftrightarrow> pid \<noteq> 0 \<and> descends status 64 pid anc"

definition is_authorized ::
  "(u32 \<Rightarrow> rstr option) \<Rightarrow> u32 \<Rightarrow> peer_info \<Rightarrow> socket_control_mode \<Rightarrow> u32 \<Rightarrow> bool" where
  "is_authorized status me p mode server_pid =
     (case mode of
        Off \<Rightarrow> False
      | AllowAll \<Rightarrow> True
      | LocalUser \<Rightarrow> is_same_user me p
      | Automation \<Rightarrow> is_same_user me p
      | JmuxOnly \<Rightarrow> is_same_user me p \<and> is_descendant status (pi_pid p) server_pid)"

section \<open>Hexadecimal text\<close>

definition hex_digit :: "nat \<Rightarrow> char" where
  "hex_digit n = (if n < 10 then char_of (48 + n) else char_of (87 + n))"

definition hex_encode :: "8 word list \<Rightarrow> rstr" where
  "hex_encode bytes = concat (map (\<lambda>b. [hex_digit (unat b div 16), hex_digit (unat b mod 16)]) bytes)"

text \<open>\<open>to_digit(16)\<close> of a character, given by its encoding.\<close>

definition to_digit16 :: "rstr \<Rightarrow> nat option" where
  "to_digit16 ch =
     (case ch of
        [c] \<Rightarrow>
          (let n = of_char c in
           if 48 \<le> n \<and> n \<le> 57 then Some (n - 48)
           else if 97 \<le> n \<and> n \<le> 102 then Some (n - 87)
           else if 65 \<le> n \<and> n \<le> 70 then Some (n - 55)
           else None)
      | _ \<Rightarrow> None)"

fun decode_pairs :: "rstr list \<Rightarrow> 8 word list option" where
  "decode_pairs (a # b # cs) =
     Option.bind (to_digit16 a) (\<lambda>hi. Option.bind (to_digit16 b) (\<lambda>lo.
       map_option ((#) (of_nat (push_bit 4 hi OR lo))) (decode_pairs cs)))"
| "decode_pairs _ = Some []"

definition hex_decode :: "rstr \<Rightarrow> 8 word list option" where
  "hex_decode s = (if length s mod 2 \<noteq> 0 then None else decode_pairs (chars s))"

section \<open>Message authentication\<close>

definition byte_of :: "char \<Rightarrow> 8 word" where
  "byte_of c = of_nat (of_char c)"

definition same_text :: "rstr \<Rightarrow> rstr \<Rightarrow> bool" where
  "same_text a b \<longleftrightarrow>
     length a = length b \<and>
     foldl (\<lambda>acc (x, y). acc OR (byte_of x XOR byte_of y)) 0 (zip a b) = 0"

definition verify_hmac :: "(8 word list \<Rightarrow> 8 word list \<Rightarrow> 8 word list) \<Rightarrow> rstr \<Rightarrow> 8 word list \<Rightarrow> rstr \<Rightarrow> bool" where
  "verify_hmac hmac password challenge response =
     same_text (hex_encode (hmac (map byte_of password) challenge)) response"

definition verify_hmac_raw ::
  "(8 word list \<Rightarrow> 8 word list \<Rightarrow> 8 word list) \<Rightarrow> 8 word list \<Rightarrow> 8 word list \<Rightarrow> rstr \<Rightarrow> bool" where
  "verify_hmac_raw hmac key message response = same_text (hex_encode (hmac key message)) response"

section \<open>Facts\<close>

lemma xor_zero_iff: "(a :: 'a :: ring_bit_operations) XOR b = 0 \<longleftrightarrow> a = b"
  by (auto simp: bit_eq_iff bit_xor_iff)

lemma xor_fold_acc:
  "foldl (\<lambda>acc (x, y). acc OR (byte_of x XOR byte_of y)) a ps = 0 \<longleftrightarrow>
   a = 0 \<and> (\<forall>p \<in> set ps. byte_of (fst p) = byte_of (snd p))"
proof (induction ps arbitrary: a)
  case (Cons p ps)
  have "a OR (byte_of (fst p) XOR byte_of (snd p)) = 0 \<longleftrightarrow> a = 0 \<and> byte_of (fst p) = byte_of (snd p)"
    by (simp add: or_eq_0_iff xor_zero_iff)
  with Cons.IH show ?case by (simp add: case_prod_beta)
qed simp

lemma byte_of_inj: "byte_of x = byte_of y \<longleftrightarrow> x = y"
proof
  assume "byte_of x = byte_of y"
  then have "(of_char x :: nat) mod 256 = of_char y mod 256"
    by (simp add: byte_of_def unat_of_nat word_unat_eq_iff)
  then show "x = y" by (simp add: of_char_eq_iff)
qed simp

lemma same_text_iff: "same_text a b \<longleftrightarrow> a = b"
proof -
  have "same_text a b \<longleftrightarrow> length a = length b \<and> (\<forall>p \<in> set (zip a b). fst p = snd p)"
    unfolding same_text_def xor_fold_acc byte_of_inj by simp
  then show ?thesis by (auto simp: list_eq_iff_zip_eq)
qed

text \<open>One step up the process tree, as the walk takes it.\<close>

definition parents :: "(u32 \<Rightarrow> rstr option) \<Rightarrow> (u32 \<times> u32) set" where
  "parents status = {(c, p). 1 < c \<and> read_ppid status c = Some p \<and> p \<noteq> c}"

lemma parents_iff: "(c, p) \<in> parents status \<longleftrightarrow> 1 < c \<and> read_ppid status c = Some p \<and> p \<noteq> c"
  by (simp add: parents_def)

lemma chain_Suc: "(\<exists>k < Suc n. (c, a) \<in> R ^^ k) \<longleftrightarrow> c = a \<or> (\<exists>p. (c, p) \<in> R \<and> (\<exists>k < n. (p, a) \<in> R ^^ k))"
proof
  assume "\<exists>k < Suc n. (c, a) \<in> R ^^ k"
  then obtain k where k: "k < Suc n" "(c, a) \<in> R ^^ k" by blast
  show "c = a \<or> (\<exists>p. (c, p) \<in> R \<and> (\<exists>k < n. (p, a) \<in> R ^^ k))"
  proof (cases k)
    case (Suc m)
    then show ?thesis using k relpow_Suc_D2 [of c a m R] by fastforce
  qed (use k in simp)
next
  assume "c = a \<or> (\<exists>p. (c, p) \<in> R \<and> (\<exists>k < n. (p, a) \<in> R ^^ k))"
  then show "\<exists>k < Suc n. (c, a) \<in> R ^^ k"
    by (metis Suc_mono relpow_0_I relpow_Suc_I2 zero_less_Suc)
qed

lemma descends_iff: "descends status n c a \<longleftrightarrow> (\<exists>k < n. (c, a) \<in> parents status ^^ k)"
proof (induction n arbitrary: c)
  case (Suc n)
  have "descends status (Suc n) c a \<longleftrightarrow> c = a \<or> (\<exists>p. (c, p) \<in> parents status \<and> descends status n p a)"
    by (cases "read_ppid status c") (auto simp: parents_iff)
  then show ?case by (simp only: Suc.IH chain_Suc)
qed simp

lemma hex_digit_code: "n < 16 \<Longrightarrow> of_char (hex_digit n) = (if n < 10 then 48 + n else 87 + n)"
  by (simp add: hex_digit_def of_char_of take_bit_eq_mod)

lemma to_digit16_hex: "n < 16 \<Longrightarrow> to_digit16 [hex_digit n] = Some n"
  by (simp add: to_digit16_def hex_digit_code)

lemma chars_no_cont: "list_all (\<lambda>c. \<not> is_cont c) s \<Longrightarrow> chars s = map (\<lambda>c. [c]) s"
proof (induction s)
  case (Cons c s)
  then have "takeWhile is_cont s = []" "dropWhile is_cont s = s" by (cases s; simp)+
  with Cons show ?case by simp
qed simp

lemma nibbles: "push_bit 4 (n div 16) OR n mod 16 = (n :: nat)"
proof -
  have "n div 16 = drop_bit 4 n" "n mod 16 = take_bit 4 n" by (simp_all add: drop_bit_eq_div take_bit_eq_mod)
  then show ?thesis
    by (auto simp: bit_eq_iff bit_or_iff bit_push_bit_iff bit_drop_bit_eq bit_take_bit_iff)
qed

lemma byte_nibbles: "unat b div 16 < 16" "unat b mod 16 < 16" for b :: "8 word"
proof -
  have "unat b < 16 * 16" by (rule order_less_le_trans [OF unsigned_less]) simp
  then show "unat b div 16 < 16" by (rule less_mult_imp_div_less)
qed simp

lemma decode_encoded: "decode_pairs (map (\<lambda>c. [c]) (hex_encode bs)) = Some bs"
proof (induction bs)
  case (Cons b bs)
  from Cons show ?case by (simp add: hex_encode_def to_digit16_hex byte_nibbles nibbles)
qed (simp add: hex_encode_def)

lemma hex_encode_ascii: "list_all (\<lambda>c. \<not> is_cont c) (hex_encode bs)"
proof -
  have "\<not> is_cont (hex_digit n)" if "n < 16" for n using that by (simp add: is_cont_def hex_digit_code)
  then show ?thesis by (auto simp: hex_encode_def list_all_iff byte_nibbles)
qed

lemma hex_encode_even: "length (hex_encode bs) = 2 * length bs"
  by (induction bs) (simp_all add: hex_encode_def)

section \<open>Properties\<close>

text \<open>C34. A peer is let in exactly as its mode says: always, as the same user, or as the same user whose process has
  the server among its first 63 ancestors (or is the server), with no step through process 0 or 1.\<close>

theorem authorized_iff:
  "is_authorized status me p mode server_pid \<longleftrightarrow>
     (case mode of
        Off \<Rightarrow> False
      | AllowAll \<Rightarrow> True
      | JmuxOnly \<Rightarrow> pi_uid p = me \<and> pi_pid p \<noteq> 0 \<and> (\<exists>k < 64. (pi_pid p, server_pid) \<in> parents status ^^ k)
      | _ \<Rightarrow> pi_uid p = me)"
  by (simp add: is_authorized_def is_same_user_def is_descendant_def descends_iff split: socket_control_mode.split)

text \<open>Decoding what was encoded in hexadecimal gives the bytes back.\<close>

theorem hex_roundtrip: "hex_decode (hex_encode bs) = Some bs"
  by (simp add: hex_decode_def hex_encode_even chars_no_cont [OF hex_encode_ascii] decode_encoded)

text \<open>The comparison of authentication codes, which looks at every byte, accepts exactly the expected text.\<close>

theorem verify_hmac_exact:
  "verify_hmac hmac password challenge response \<longleftrightarrow>
   response = hex_encode (hmac (map byte_of password) challenge)"
  by (auto simp: verify_hmac_def same_text_iff)

text \<open>The decoder drops a last unpaired character of two bytes instead of refusing it.\<close>

theorem hex_decode_not_hex:
  "hex_decode [CHR 0xC3, CHR 0xA9] = Some [] \<and> hex_decode [CHR ''a'', CHR ''b'', CHR 0xC3, CHR 0xA9] = Some [0xab]"
  by code_simp

end
