(* ===== verification/Socket_Server.thy ===== *)
theory Socket_Server
  imports Socket_Dispatch Socket_V1 Socket_Auth
begin

text \<open>
  The server of the control socket (\<open>jmux/src/socket/server.rs\<close>): where the socket is, whether an old one may be
  replaced, and one client's connection. What arrives is the list of the answers of \<open>fill_buf\<close>: data, no data for
  the idle timeout, or an error; no data at all is the end. Writing to the client succeeds, clients are served one
  request at a time, and the limit on the number of connections is left out. A request is answered by an argument,
  which \<open>answer_line\<close> instantiates with the two protocols; no answer is a panic of the handler.
\<close>

definition MAX_REQUEST_LEN :: nat where "MAX_REQUEST_LEN = 1024 * 1024"

section \<open>The socket's file\<close>

record dir_meta =
  dm_is_dir :: bool
  dm_is_symlink :: bool
  dm_uid :: u32
  dm_mode :: u32

definition socket_path :: "rstr option \<Rightarrow> (rstr \<Rightarrow> dir_meta option) \<Rightarrow> u32 \<Rightarrow> rstr" where
  "socket_path runtime_dir stat me =
     (let fallback = ''/tmp/jmux-'' @ show_nat (unat me) @ ''.sock'' in
      case runtime_dir of
        None \<Rightarrow> fallback
      | Some dir \<Rightarrow>
          (case (if starts_with ''/'' dir then stat dir else None) of
             Some m \<Rightarrow>
               if dm_is_dir m \<and> \<not> dm_is_symlink m \<and> dm_uid m = me \<and> take_bit 9 (dm_mode m) = 0x1C0
               then dir @ ''/jmux.sock'' else fallback
           | None \<Rightarrow> fallback))"

text \<open>The lock file's text and \<open>kill(pid, 0)\<close>.\<close>

definition is_stale_socket :: "rstr option \<Rightarrow> (u32 \<Rightarrow> bool) \<Rightarrow> bool" where
  "is_stale_socket lock alive =
     (case Option.bind lock (\<lambda>c. parse_unsigned (2 ^ 32) (trim c)) of
        None \<Rightarrow> True
      | Some pid \<Rightarrow> \<not> alive (of_nat pid))"

datatype at_path = Nothing | ASocket | OtherFile | NoMetadata
datatype startup = Bind bool | AlreadyRunning | NotASocket | MetadataError

text \<open>What is found at the path; \<open>Bind\<close> tells whether a stale socket and its lock are removed first.\<close>

definition start_server :: "at_path \<Rightarrow> rstr option \<Rightarrow> (u32 \<Rightarrow> bool) \<Rightarrow> bool \<Rightarrow> startup" where
  "start_server found lock alive connects =
     (case found of
        Nothing \<Rightarrow> Bind False
      | NoMetadata \<Rightarrow> MetadataError
      | OtherFile \<Rightarrow> NotASocket
      | ASocket \<Rightarrow> if \<not> is_stale_socket lock alive \<and> connects then AlreadyRunning else Bind True)"

section \<open>Reading lines\<close>

datatype arrival = Data rstr | Idle | Broken

text \<open>The remaining arrivals and the line, with whether the input ended in it; no value is a disconnection.\<close>

fun read_line :: "rstr \<Rightarrow> arrival list \<Rightarrow> (bool \<times> rstr \<times> arrival list) option" where
  "read_line buf [] = Some (True, buf, [])"
| "read_line buf (Idle # es) = None"
| "read_line buf (Broken # es) = None"
| "read_line buf (Data c # es) =
     (if c = [] then Some (True, buf, [])
      else if CHR 0x0A \<in> set c
      then (let l = takeWhile (\<lambda>b. b \<noteq> CHR 0x0A) c; r = drop (length l + 1) c in
            if length buf + length l > MAX_REQUEST_LEN then None
            else Some (False, buf @ l, if r = [] then es else Data r # es))
      else if length (buf @ c) > MAX_REQUEST_LEN then None
      else read_line (buf @ c) es)"

definition request_text :: "rstr \<Rightarrow> rstr" where
  "request_text buf = (if utf8_valid buf then trim buf else [])"

section \<open>A connection\<close>

fun arrival_size :: "arrival \<Rightarrow> nat" where
  "arrival_size (Data c) = 1 + length c"
| "arrival_size _ = 1"

lemma read_line_smaller:
  "read_line buf es = Some (False, l, es') \<Longrightarrow> sum_list (map arrival_size es') < sum_list (map arrival_size es)"
proof (induction buf es rule: read_line.induct)
  case (4 buf c es)
  show ?case
  proof (cases "CHR 0x0A \<in> set c")
    case True
    then have "c \<noteq> []" by auto
    with True "4.prems" show ?thesis
      by (auto simp: Let_def split: if_splits)
  next
    case False
    with "4.prems" "4.IH" show ?thesis by (auto split: if_splits)
  qed
qed auto

text \<open>The replies written, in order, and the state left.\<close>

function handle_client :: "(rstr \<Rightarrow> 's \<Rightarrow> 's \<times> 'a option) \<Rightarrow> arrival list \<Rightarrow> 's \<Rightarrow> 's \<times> 'a list" where
  "handle_client respond es st =
     (case read_line [] es of
        None \<Rightarrow> (st, [])
      | Some (eof, buf, es') \<Rightarrow>
          if eof \<and> buf = [] then (st, [])
          else if length buf > MAX_REQUEST_LEN then (st, [])
          else if request_text buf = []
          then (if eof then (st, []) else handle_client respond es' st)
          else case respond (request_text buf) st of
                 (st', None) \<Rightarrow> (st', [])
               | (st', Some a) \<Rightarrow>
                   if eof then (st', [a])
                   else (let (st'', as) = handle_client respond es' st' in (st'', a # as)))"
  by pat_completeness auto
termination
  by (relation "measure (\<lambda>(_, es, _). sum_list (map arrival_size es))") (auto dest: read_line_smaller)

declare handle_client.simps [simp del]

section \<open>The two protocols\<close>

datatype answer = Replied reply | HelpText | Authenticated | UnknownV1 rstr

text \<open>The request of a line of the first protocol is dispatched as it is, without writing it as JSON and reading it
  back.\<close>

definition answer_line ::
  "(rstr \<Rightarrow> rstr + request) \<Rightarrow> (rstr \<Rightarrow> json option) \<Rightarrow> (rstr \<Rightarrow> json \<Rightarrow> server \<Rightarrow> outcome) \<Rightarrow> disk \<Rightarrow> sock_env
     \<Rightarrow> rstr \<Rightarrow> server \<Rightarrow> server \<times> answer option" where
  "answer_line parse parse_value other d e line sv =
     (let replied = (\<lambda>(sv', r). (sv', if r = RPanic then None else Some (Replied r))) in
      if is_v1 line
      then (case v1_request_of parse_value line of
              V1Help \<Rightarrow> (sv, Some HelpText)
            | V1Auth \<Rightarrow> (sv, Some Authenticated)
            | V1Unknown c \<Rightarrow> (sv, Some (UnknownV1 c))
            | V1Call m p \<Rightarrow> replied (dispatch_request other d e \<lparr> rq_method = m, rq_params = p, rq_window = None \<rparr> sv))
      else replied (dispatch parse other d e line sv))"

text \<open>A connection is served when the peer is known and authorized.\<close>

definition serve_peer ::
  "(u32 \<Rightarrow> rstr option) \<Rightarrow> u32 \<Rightarrow> socket_control_mode \<Rightarrow> u32 \<Rightarrow> (rstr \<Rightarrow> 's \<Rightarrow> 's \<times> 'a option)
     \<Rightarrow> peer_info option \<Rightarrow> arrival list \<Rightarrow> 's \<Rightarrow> 's \<times> 'a list" where
  "serve_peer status me mode server_pid respond peer es st =
     (case peer of
        None \<Rightarrow> (st, [])
      | Some p \<Rightarrow> if is_authorized status me p mode server_pid then handle_client respond es st else (st, []))"

end
