(* ===== verification/Socket_Stream.thy ===== *)
theory Socket_Stream imports Socket_Server begin

text \<open>
  What a connection promises: however the bytes arrive, a client is served as if they had been cut at the line
  feeds and the lines answered one after the other.
\<close>

section \<open>The specification\<close>

abbreviation line_feed :: char where
  "line_feed \<equiv> CHR 0x0A"

fun split_lines :: "rstr \<Rightarrow> rstr list" where
  "split_lines [] = [[]]"
| "split_lines (c # cs) =
     (if c = line_feed then [] # split_lines cs
      else case split_lines cs of [] \<Rightarrow> [[c]] | l # ls \<Rightarrow> (c # l) # ls)"

text \<open>The bytes of a stream up to its end, and whether it ended regularly.\<close>

fun incoming :: "arrival list \<Rightarrow> rstr \<times> bool" where
  "incoming [] = ([], True)"
| "incoming (Idle # es) = ([], False)"
| "incoming (Broken # es) = ([], False)"
| "incoming (Data c # es) = (if c = [] then ([], True) else (c @ fst (incoming es), snd (incoming es)))"

definition lines_received :: "arrival list \<Rightarrow> rstr list" where
  "lines_received es =
     (let ls = split_lines (fst (incoming es)) in if snd (incoming es) then ls else butlast ls)"

fun answer_all :: "(rstr \<Rightarrow> 's \<Rightarrow> 's \<times> 'a option) \<Rightarrow> rstr list \<Rightarrow> 's \<Rightarrow> 's \<times> 'a list" where
  "answer_all respond [] st = (st, [])"
| "answer_all respond (l # ls) st =
     (if length l > MAX_REQUEST_LEN then (st, [])
      else if request_text l = [] then answer_all respond ls st
      else case respond (request_text l) st of
             (st', None) \<Rightarrow> (st', [])
           | (st', Some a) \<Rightarrow> (let (st'', as) = answer_all respond ls st' in (st'', a # as)))"

section \<open>Lines\<close>

lemma split_lines_nonempty [simp]: "split_lines s \<noteq> []"
  by (cases s) (auto split: list.split)

lemma split_lines_one: "line_feed \<notin> set s \<Longrightarrow> split_lines s = [s]"
  by (induction s) auto

lemma split_lines_more: "line_feed \<notin> set l \<Longrightarrow> split_lines (l @ line_feed # s) = l # split_lines s"
  by (induction l) auto

lemma take_line:
  assumes "line_feed \<in> set c"
  shows "c = takeWhile (\<lambda>b. b \<noteq> line_feed) c @ line_feed # drop (length (takeWhile (\<lambda>b. b \<noteq> line_feed) c) + 1) c"
  using assms by (induction c) auto

text \<open>What \<open>read_line\<close> takes off a stream, and why it gives up.\<close>

definition read_spec :: "rstr \<Rightarrow> bool \<Rightarrow> (bool \<times> rstr \<times> arrival list) option \<Rightarrow> bool" where
  "read_spec s eof r \<longleftrightarrow>
     (case r of
        None \<Rightarrow> (\<exists>l ls. split_lines s = l # ls \<and> MAX_REQUEST_LEN < length l) \<or> line_feed \<notin> set s \<and> \<not> eof
      | Some (True, l, es') \<Rightarrow> eof \<and> line_feed \<notin> set s \<and> l = s \<and> length l \<le> MAX_REQUEST_LEN
      | Some (False, l, es') \<Rightarrow> line_feed \<notin> set l \<and> length l \<le> MAX_REQUEST_LEN \<and>
          s = l @ line_feed # fst (incoming es') \<and> snd (incoming es') = eof)"

lemma long_line:
  "line_feed \<notin> set l \<Longrightarrow> MAX_REQUEST_LEN < length l \<Longrightarrow> \<exists>l' ls. split_lines (l @ s) = l' # ls \<and> MAX_REQUEST_LEN < length l'"
proof -
  have "line_feed \<notin> set l \<Longrightarrow> \<exists>m ls. split_lines (l @ s) = (l @ m) # ls"
  proof (induction l)
    case Nil
    then show ?case by (cases "split_lines s") auto
  next
    case (Cons c l)
    then show ?case by fastforce
  qed
  then show "line_feed \<notin> set l \<Longrightarrow> MAX_REQUEST_LEN < length l \<Longrightarrow> ?thesis" by fastforce
qed

lemma read_line_spec:
  assumes "length buf \<le> MAX_REQUEST_LEN" and "line_feed \<notin> set buf"
  shows "read_spec (buf @ fst (incoming es)) (snd (incoming es)) (read_line buf es)"
  using assms
proof (induction buf es rule: read_line.induct)
  case (4 buf c es)
  show ?case
  proof (cases "line_feed \<in> set c")
    case True
    let ?l = "takeWhile (\<lambda>b. b \<noteq> line_feed) c" and ?r = "drop (length (takeWhile (\<lambda>b. b \<noteq> line_feed) c) + 1) c"
    have l: "line_feed \<notin> set (buf @ ?l)" using 4(3) by (auto dest: set_takeWhileD)
    have c: "c \<noteq> []" using True by auto
    have s: "buf @ fst (incoming (Data c # es)) = (buf @ ?l) @ line_feed # ?r @ fst (incoming es)"
      using c by (simp add: arg_cong [OF take_line [OF True], of "\<lambda>x. x @ fst (incoming es)"])
    show ?thesis
    proof (cases "MAX_REQUEST_LEN < length buf + length ?l")
      case long: True
      then have "read_line buf (Data c # es) = None" using True c by (simp add: Let_def)
      moreover have "\<exists>l' ls. split_lines (buf @ fst (incoming (Data c # es))) = l' # ls \<and> MAX_REQUEST_LEN < length l'"
        unfolding s using long by (intro long_line [OF l]) simp
      ultimately show ?thesis by (simp add: read_spec_def)
    next
      case False
      then have "read_line buf (Data c # es) = Some (False, buf @ ?l, if ?r = [] then es else Data ?r # es)"
        using True c by (simp add: Let_def)
      with l False c show ?thesis unfolding s by (simp add: read_spec_def)
    qed
  next
    case False
    show ?thesis
    proof (cases "c = []")
      case True
      with 4(2,3) show ?thesis by (simp add: read_spec_def)
    next
      case c: False
      show ?thesis
      proof (cases "MAX_REQUEST_LEN < length (buf @ c)")
        case True
        with False c 4(3) long_line [of "buf @ c" "fst (incoming es)"] show ?thesis by (simp add: read_spec_def)
      next
        case short: False
        with 4(1) [OF c False] 4(3) False c show ?thesis by simp
      qed
    qed
  qed
qed (simp_all add: read_spec_def)

text \<open>C23. A connection is its lines. However the bytes a client sends are cut into packets, the server answers
  exactly the lines between the line feeds, in order: the last one too when the client closed its side,
  not when it fell silent or broke off; a line above the limit ends the connection, and so does a request
  that panics; blank lines and lines that are not UTF-8 are skipped.\<close>

theorem client_refines_lines: "handle_client respond es st = answer_all respond (lines_received es) st"
proof (induction respond es st rule: handle_client.induct)
  case (1 respond es st)
  note r = read_line_spec [of "[]" es, simplified]
  show ?case
  proof (cases "read_line [] es")
    case None
    with r consider l ls where "split_lines (fst (incoming es)) = l # ls" "MAX_REQUEST_LEN < length l"
      | "line_feed \<notin> set (fst (incoming es))" "\<not> snd (incoming es)"
      by (auto simp: read_spec_def)
    then have "answer_all respond (lines_received es) st = (st, [])"
      by cases (auto simp: lines_received_def split_lines_one Let_def)
    with None show ?thesis by (simp add: handle_client.simps)
  next
    case (Some x)
    obtain eof l es' where x: "x = (eof, l, es')" by (cases x)
    show ?thesis
    proof (cases eof)
      case True
      with r Some x have s: "lines_received es = [l]" "length l \<le> MAX_REQUEST_LEN"
        by (auto simp: read_spec_def lines_received_def split_lines_one)
      have "request_text [] = []" by code_simp
      with s Some x True show ?thesis
        by (auto simp: handle_client.simps [of respond es st] split: prod.split option.split)
    next
      case False
      with r Some x have l: "line_feed \<notin> set l" "length l \<le> MAX_REQUEST_LEN"
        "fst (incoming es) = l @ line_feed # fst (incoming es')" "snd (incoming es') = snd (incoming es)"
        by (auto simp: read_spec_def)
      then have s: "lines_received es = l # lines_received es'"
        by (simp add: lines_received_def split_lines_more Let_def)
      show ?thesis
        unfolding s handle_client.simps [of respond es st] using Some x False l(2) 1
        by (auto split: prod.split option.split)
    qed
  qed
qed

end
