(* ===== verification/Socket_Props.thy ===== *)
theory Socket_Props imports Socket_Invariant Socket_Stream begin

text \<open>
  Further properties of the control socket's handlers: what the reordering of workspaces ends in, a move that
  loses its panel, and commands of the first protocol that are always refused.
\<close>

section \<open>A sample\<close>

definition sample_env :: sock_env where
  "sample_env =
     \<lparr> se_env = quiet_env, se_parse = parse_unsigned 1000, se_escape = (\<lambda>s. s), se_remote_ssh = True,
       se_reorder_on_notification = False, se_confirm_goals = False, se_notes_path = ''/notes.md'',
       se_suspend = (\<lambda>_. True), se_resume = (\<lambda>_. True), se_read_text = (\<lambda>_ _ _. None), se_displays = None,
       se_to_display = (\<lambda>_. None), se_version = ''1'', se_is_dir = (\<lambda>_. True), se_read_error = (\<lambda>_. []), se_dir = (\<lambda>_. None) \<rparr>"

definition sample_server :: server where
  "sample_server = \<lparr> sv_sh = sample_shared, sv_windows = [(1, True)], sv_hibernated = [], sv_events = [] \<rparr>"

lemma sample_server_ok: "server_ok sample_server"
  by (auto simp: server_ok_def fits_def known_def tabs_def sample_server_def sample_shared_def tm_sound_def tm_new_def tm_spaces_def
      spaces_sound_def notes_ok_def selection_ok_def history_ok_def ws_new_def ws_ok_def meta_ok_def consistent_def panels_keyed_def
      focus_ok_def new_terminal_def blank_panel_def single_pane_def layout_ok_def)

definition empty_disk :: disk where
  "empty_disk = \<lparr> dk_home = None, dk_is_dir = (\<lambda>_. False), dk_entries = (\<lambda>_. None), dk_json = (\<lambda>_. None), dk_now = 0 \<rparr>"

definition idle_other :: "rstr \<Rightarrow> json \<Rightarrow> server \<Rightarrow> outcome" where
  "idle_other m params sv = (sv, ok_true)"

lemma request_keeps_ok_witness:
  "server_ok (fst (dispatch_request idle_other empty_disk sample_env
     \<lparr> rq_method = ''surface.close'', rq_params = JObj [(''surface'', JStr ''8'')], rq_window = None \<rparr> sample_server))"
  by (rule request_keeps_ok [OF sample_server_ok]) (simp_all add: idle_other_def)

section \<open>A panel that is lost\<close>

definition ids_of :: "tab_manager \<Rightarrow> uuid list" where
  "ids_of tm = map ws_id (tm_workspaces tm)"

lemma tm_workspace_None: "tm_workspace t tm = None \<longleftrightarrow> t \<notin> set (ids_of tm)"
  by (auto simp: tm_workspace_def ids_of_def find_None_iff)

lemma detached_ids:
  assumes "tm_workspace (ws_id w) tm = Some w"
  shows "set (ids_of (detach_and_drop now p w tm)) \<subseteq> set (ids_of tm)"
proof -
  let ?e = "edit_workspace (ws_id w) (\<lambda>_. fst (detach_panel p w)) tm"
  have "set (ids_of ?e) \<subseteq> set (ids_of tm)"
  proof -
    from find_split [OF assms [unfolded tm_workspace_def]] obtain xs ys where "tm_workspaces tm = xs @ w # ys"
      "\<forall>f. update_first (\<lambda>x. ws_id x = ws_id w) f (tm_workspaces tm) = xs @ f w # ys" by blast
    then show ?thesis by (simp add: ids_of_def edit_workspace_def)
  qed
  moreover have "set (ids_of (fst (remove_by_id now i tm))) \<subseteq> set (ids_of tm)" for i tm
    by (auto simp: ids_of_def remove_by_id_def tm_remove_def Let_def dest: set_mp [OF set_remove_at_subset] split: option.split)
  ultimately show ?thesis by (auto simp: detach_and_drop_def Let_def)
qed

text \<open>Moving a surface to a workspace that does not exist is refused as not found, but the panel is gone: no open
  workspace has it any more, and no closed one either.\<close>

theorem surface_move_loses_panel:
  assumes "server_ok sv" and "resolve_panel_id e params sv = Inr p" and "find_workspace_with_panel p (tabs sv) = Some src"
    and "Option.bind (first_str [''workspace'', ''workspace_id''] params) (se_parse e) = Some t"
    and "tm_workspace t (tabs sv) = None"
  shows "snd (handle_surface_move e params sv) = RErr ''not_found'' ''Target workspace not found'' \<and>
    (\<forall>w \<in> set (tm_spaces (tabs (fst (handle_surface_move e params sv)))). \<not> has_key p (ws_panels w))"
proof -
  note f = server_okD [OF assms(1)] and h = holder_facts [OF server_okD [OF assms(1)] assms(3)]
  let ?d = "detach_and_drop (the_clock e) p src (tabs sv)"
  from take_panel_eq [OF f assms(3)] obtain q where
    q: "take_panel (the_clock e) (ws_id src) p (tabs sv) = (?d, Some q)" "p_id q = p" .
  from assms(4) obtain s where s: "first_str [''workspace'', ''workspace_id''] params = Some s" "se_parse e s = Some t"
    unfolding bind_eq_Some_conv by blast
  have "ws_id src \<noteq> t" using h(2) assms(5) by auto
  moreover have "tm_workspace t ?d = None"
    using detached_ids [OF h(2), of "the_clock e" p] assms(5) unfolding tm_workspace_None by blast
  ultimately have "handle_surface_move e params sv = (set_tabs ?d sv, RErr ''not_found'' ''Target workspace not found'')"
    using assms(2,3) s q by (simp add: handle_surface_move_def on_panel_id_def)
  moreover have "\<not> has_key p (ws_panels w)" if "w \<in> set (tm_spaces ?d)" for w
    using taken_facts(2) [OF f assms(3), of "the_clock e"] that unfolding has_key_iff by auto
  ultimately show ?thesis by simp
qed

lemma surface_move_loses_panel_witness:
  "snd (handle_surface_move sample_env (JObj [(''surface'', JStr ''8''), (''workspace'', JStr ''99'')]) sample_server)
     = RErr ''not_found'' ''Target workspace not found''"
proof -
  let ?p = "JObj [(''surface'', JStr ''8''), (''workspace'', JStr ''99'')]"
  have r: "resolve_panel_id sample_env ?p sample_server = Inr 8" by code_simp
  have b: "Option.bind (first_str [''workspace'', ''workspace_id''] ?p) (se_parse sample_env) = Some 99" by code_simp
  have n: "tm_workspace 99 (tabs sample_server) = None" by code_simp
  have "find_workspace_with_panel 8 (tabs sample_server) \<noteq> None" by code_simp
  then obtain src where "find_workspace_with_panel 8 (tabs sample_server) = Some src" by blast
  from surface_move_loses_panel [OF sample_server_ok r this b n] show ?thesis by blast
qed

section \<open>The order of workspaces\<close>

lemma place_ids:
  assumes "ids_of tm = pre @ xs" and "distinct (pre @ xs)" and "w \<in> set xs"
  shows "ids_of (place_at (length pre, w) tm) = pre @ w # remove1 w xs"
proof -
  from split_list_first [OF assms(3)] obtain ys zs where s: "xs = ys @ w # zs" "w \<notin> set ys" by blast
  let ?c = "length pre + length ys"
  have len: "length (tm_workspaces tm) = ?c + 1 + length zs"
    using arg_cong [OF assms(1), of length] by (simp add: ids_of_def s)
  have at: "map ws_id (tm_workspaces tm) = (pre @ ys) @ w # zs" using assms(1) by (simp add: ids_of_def s)
  have "workspace_index w tm = Some ?c"
  proof -
    have "map ws_id ws = us @ w # zs \<Longrightarrow> w \<notin> set us \<Longrightarrow> position (\<lambda>x. ws_id x = w) ws = Some (length us)" for ws us
      by (induction us arbitrary: ws) (auto simp: Cons_eq_append_conv map_eq_Cons_conv)
    from this [OF at] assms(2) s show ?thesis by (auto simp: workspace_index_def)
  qed
  moreover have "ids_of (fst (move_workspace ?c (length pre) tm)) = pre @ w # remove1 w xs" if "ys \<noteq> []"
  proof -
    have "ws_id (tm_workspaces tm ! ?c) = w"
      using nth_map [of ?c "tm_workspaces tm" ws_id] len by (simp add: at nth_append)
    with that len show ?thesis
      by (simp add: move_workspace_def ids_of_def map_insert_at map_remove_at at Let_def)
        (simp add: insert_at_def remove_at_def s remove1_append)
  qed
  ultimately show ?thesis using s assms(1) by (cases "ys = []") (simp_all add: place_at_def remove1_append)
qed

lemma place_all:
  assumes "ids_of tm = pre @ xs" and "distinct (pre @ xs)" and "mset ws = mset xs"
  shows "ids_of (fold place_at (enumerate (length pre) ws) tm) = pre @ ws"
  using assms
proof (induction ws arbitrary: pre xs tm)
  case (Cons w ws)
  from Cons.prems(3) have w: "w \<in> set xs" by (metis list.set_intros(1) mset_eq_setD)
  have "ids_of (place_at (length pre, w) tm) = (pre @ [w]) @ remove1 w xs"
    using place_ids [OF Cons.prems(1,2) w] by simp
  moreover have "distinct ((pre @ [w]) @ remove1 w xs)" using Cons.prems(2) w by auto
  moreover have "mset ws = mset (remove1 w xs)" using Cons.prems(3) by (metis add_mset_remove_trivial mset.simps(2) mset_remove1)
  ultimately show ?case using Cons.IH [of "place_at (length pre, w) tm" "pre @ [w]" "remove1 w xs"] by simp
qed simp

lemma push_new_all: "fold push_new xs [] = rev (remdups (rev xs))"
  by (induction xs rule: rev_induct) (simp_all add: push_new_def)

lemma push_new_more: "distinct xs \<Longrightarrow> fold push_new xs acc = acc @ filter (\<lambda>x. x \<notin> set acc) xs"
proof (induction xs arbitrary: acc)
  case (Cons x xs)
  then have "filter (\<lambda>y. y \<notin> set (acc @ [x])) xs = filter (\<lambda>y. y \<notin> set acc) xs" by (auto intro: filter_cong)
  with Cons show ?case by (simp add: push_new_def)
qed simp

lemma resolved_are_ids: "resolve_names tm ns = Inr is \<Longrightarrow> set is \<subseteq> set (ids_of tm)"
proof (induction ns arbitrary: "is")
  case (Cons n ns)
  then show ?case
    by (auto simp: ids_of_def get_at_def split: option.splits sum.splits if_splits dest!: find_Some_in)
qed simp

text \<open>Reordering by names puts the named workspaces first, each once and in the order they are named, keeps the
  others behind them in their old order, loses none, and leaves the same workspace selected.\<close>

theorem reorder_by_names:
  assumes "server_ok sv" and "Option.bind (json_field ''workspaces'' params) as_array = Some vs"
    and "List.map_filter as_str vs \<noteq> []" and "resolve_names (tabs sv) (List.map_filter as_str vs) = Inr named"
  shows "ids_of (tabs (fst (handle_workspace_reorder_workspaces params sv))) =
      rev (remdups (rev named)) @ filter (\<lambda>i. i \<notin> set named) (ids_of (tabs sv)) \<and>
    (\<forall>s. tm_selected_id (tabs sv) = Some s \<longrightarrow>
      tm_selected_id (tabs (fst (handle_workspace_reorder_workspaces params sv))) = Some s)"
proof -
  let ?o = "wanted_order named (tabs sv)"
  have d: "distinct (ids_of (tabs sv))"
    using tm_okD(1) [OF fits_ok [OF server_okD [OF assms(1)]]] by (simp add: spaces_sound_def tm_spaces_def ids_of_def)
  have o: "?o = rev (remdups (rev named)) @ filter (\<lambda>i. i \<notin> set named) (ids_of (tabs sv))"
    unfolding wanted_order_def push_new_all ids_of_def [symmetric] by (simp add: push_new_more [OF d])
  have "set ?o = set (ids_of (tabs sv))" "distinct ?o"
    using resolved_are_ids [OF assms(4)] d by (auto simp: o)
  with d have "mset ?o = mset (ids_of (tabs sv))" by (simp add: set_eq_iff_mset_eq_distinct)
  from place_all [of "tabs sv" "[]", simplified, OF refl d this]
  have ids: "ids_of (fold place_at (enumerate 0 ?o) (tabs sv)) = ?o" .
  have sel: "tm_selected_id tm = Some s \<Longrightarrow> tm_selected_id (place_at x tm) = Some s" for tm s x
    by (auto simp: place_at_def move_keeps_selected split: option.split)
  have "tm_selected_id tm = Some s \<Longrightarrow> tm_selected_id (fold place_at xs tm) = Some s" for tm s xs
    by (induction xs arbitrary: tm) (simp_all add: sel)
  moreover have "tabs (fst (handle_workspace_reorder_workspaces params sv)) = fold place_at (enumerate 0 ?o) (tabs sv)"
    using assms(2-4) by (simp add: handle_workspace_reorder_workspaces_def Let_def)
  ultimately show ?thesis using ids o by simp
qed

definition named_spaces :: server where
  "named_spaces = draw 2 (set_tabs (fst (add_workspace ((ws_new None 9 (Suc 9))\<lparr> ws_custom_title := Some ''b'' \<rparr>) (tabs sample_server)))
     sample_server)"

lemma named_spaces_ok: "server_ok named_spaces"
proof -
  have n: "next_id sample_server = 9" by (simp add: sample_server_def sample_shared_def)
  have w: "new_space 9 (9 + 2) ((ws_new None 9 (Suc 9))\<lparr> ws_custom_title := Some ''b'' \<rparr>)"
    by (rule new_space_frame [OF new_space_ws_new(1)])
  have "fits (9 + 2) (fst (add_workspace ((ws_new None 9 (Suc 9))\<lparr> ws_custom_title := Some ''b'' \<rparr>) (tabs sample_server)))"
    using server_okD [OF sample_server_ok] n by (intro fits_add(1) [OF _ w]) simp_all
  with n show ?thesis unfolding named_spaces_def by (intro server_okI(8) sample_server_ok) simp
qed

lemma reorder_by_names_witness:
  "ids_of (tabs (fst (handle_workspace_reorder_workspaces (JObj [(''workspaces'', JArr [JStr ''b''])]) named_spaces))) = [9, 7]"
proof -
  have t: "map (\<lambda>w. (ws_display_title w, ws_id w)) (tm_workspaces (tabs named_spaces)) = [(''Terminal'', 7), (''b'', 9)]"
    by code_simp
  have "parse_unsigned (2 ^ 64) ''b'' = None" by (simp add: parse_unsigned_def is_ascii_digit_def Let_def)
  with t have "resolve_names (tabs named_spaces) [''b''] = Inr [9]" by (auto simp: map_eq_Cons_conv)
  moreover have "ids_of (tabs named_spaces) = [7, 9]" using t by (auto simp: ids_of_def map_eq_Cons_conv)
  ultimately show ?thesis
    using reorder_by_names [OF named_spaces_ok, of "JObj [(''workspaces'', JArr [JStr ''b''])]" "[JStr ''b'']" "[9]"]
    by (simp add: json_field_def as_array_def as_str_def List.map_filter_def)
qed

section \<open>Commands that are always refused\<close>

lemma map_of_skip: "l \<noteq> k \<Longrightarrow> map_of ps k = r \<Longrightarrow> map_of ((l, v) # ps) k = r"
  by simp

lemma map_of_hit: "map_of ((k, v) # ps) k = Some v"
  by simp

lemma lookups:
  "map_of (method_table other d e) ''surface.send_input'' = Some (handle_surface_send_input e)"
  "map_of (method_table other d e) ''workspace.rename'' = Some (handle_workspace_rename e)"
  "map_of (method_table other d e) ''window.close'' = Some (handle_window_close e)"
  "map_of (method_table other d e) ''workspace.set_status'' = Some (handle_workspace_set_status e)"
  "map_of (method_table other d e) ''markdown.open'' = Some (handle_markdown_open e)"
  "map_of (method_table other d e) ''workspace.reorder'' = Some handle_workspace_reorder"
  unfolding method_table_def system_methods_def workspace_methods_def goal_methods_def pane_methods_def other_methods_def
    append_Cons append_Nil
  by (rule map_of_hit | (rule map_of_skip, (simp; fail)))+

lemmas v1_tables = v1_call_def v1_reports_def v1_meta_def v1_windows_def v1_workspaces_def v1_status_def v1_surfaces_def
  v1_panes_def v1_rest_def or_else_def

lemma v1_calls:
  "v1_call parse ''send'' l = call ''surface.send_input'' [(''text'', JStr (join '' '' (vl_args l)))]"
  "v1_call parse ''send_surface'' l =
     call ''surface.send_input'' [sarg ''surface'' 0 l, (''text'', JStr (join '' '' (drop 1 (vl_args l))))]"
  "v1_call parse ''rename_workspace'' l = call ''workspace.rename'' ([sarg ''name'' 0 l] @ in_workspace l)"
  "v1_call parse ''close_window'' l = call ''window.close'' [sarg ''window'' 0 l]"
  "v1_call parse ''report_shell_state'' l = call ''workspace.set_status''
     ([(''state'', JStr (or_default ''prompt'' (get_at 0 (vl_args l))))] @ in_workspace l)"
  "v1_call parse ''open_markdown'' l = call ''markdown.open'' ([sarg ''file_path'' 0 l] @ in_workspace l)"
  by (simp_all add: v1_tables call_def)

text \<open>C35. Some commands of the first protocol are translated to parameters their handler does not read: whatever their
  arguments are, they are refused and change nothing.\<close>

theorem v1_commands_refused:
  assumes "c \<in> {''send'', ''send_surface'', ''rename_workspace'', ''close_window'', ''report_shell_state'', ''open_markdown''}"
    and "v1_call parse c l = Some (m, p)"
  shows "\<exists>code msg. run_method other d e m p sv = (sv, RErr code msg)"
proof -
  note refused = run_method_def lookups handle_surface_send_input_def handle_workspace_rename_def handle_window_close_def
    handle_workspace_set_status_def handle_markdown_open_def on_workspace_param_def need_def param_str_def json_field_def sarg_def
  from assms(1) show ?thesis
  proof (elim insertE emptyE)
    assume "c = ''send''"
    with assms(2) v1_calls(1) [of parse l] show ?thesis by (auto simp: refused call_def)
  next
    assume "c = ''send_surface''"
    with assms(2) v1_calls(2) [of parse l] show ?thesis by (auto simp: refused call_def)
  next
    assume "c = ''rename_workspace''"
    with assms(2) v1_calls(3) [of parse l] show ?thesis
      by (auto simp: refused call_def in_workspace_def jfield_def split: option.split)
  next
    assume "c = ''close_window''"
    with assms(2) v1_calls(4) [of parse l] show ?thesis by (auto simp: refused call_def)
  next
    assume "c = ''report_shell_state''"
    with assms(2) v1_calls(5) [of parse l] show ?thesis
      by (auto simp: refused call_def in_workspace_def jfield_def split: option.split)
  next
    assume "c = ''open_markdown''"
    with assms(2) v1_calls(6) [of parse l] show ?thesis
      by (auto simp: refused call_def in_workspace_def jfield_def split: option.split)
  qed
qed

lemma v1_commands_refused_witness:
  "\<exists>code msg. run_method idle_other empty_disk sample_env ''surface.send_input'' (JObj [(''text'', JStr ''ls'')]) sample_server
     = (sample_server, RErr code msg)"
proof (rule v1_commands_refused)
  show "''send'' \<in> {''send'', ''send_surface'', ''rename_workspace'', ''close_window'', ''report_shell_state'', ''open_markdown''}"
    by simp
  show "v1_call (\<lambda>_. None) ''send'' (parse_args ''ls'') = Some (''surface.send_input'', JObj [(''text'', JStr ''ls'')])"
    unfolding v1_calls(1) by code_simp
qed

end
