(* ===== verification/Text_Split.thy ===== *)
theory Text_Split imports Text_Lines begin

text \<open>
  Splitting a string at a separator longer than one byte, searching for a substring, and the pieces that
  trimming leaves of a text padded with spaces.
\<close>

text \<open>\<open>split(pat)\<close> for a non-empty pattern.\<close>

function split_str_from :: "rstr \<Rightarrow> rstr \<Rightarrow> rstr \<Rightarrow> rstr list" where
  "split_str_from pat acc s =
     (case s of
        [] \<Rightarrow> [rev acc]
      | c # cs \<Rightarrow>
          if pat \<noteq> [] \<and> starts_with pat s then rev acc # split_str_from pat [] (drop (length pat) s)
          else split_str_from pat (c # acc) cs)"
  by pat_completeness auto
termination
  by (relation "measure (\<lambda>(_, _, s). length s)") auto

declare split_str_from.simps [simp del]

definition split_str :: "rstr \<Rightarrow> rstr \<Rightarrow> rstr list" where
  "split_str pat s = split_str_from pat [] s"

text \<open>\<open>find(pat)\<close>: what follows the first match.\<close>

definition after_str :: "rstr \<Rightarrow> rstr \<Rightarrow> rstr option" where
  "after_str pat s = map_option snd (head_opt (match_indices pat s))"

text \<open>\<open>rfind(c)\<close>: what is before and after the last occurrence.\<close>

definition rsplit_at :: "char \<Rightarrow> rstr \<Rightarrow> (rstr \<times> rstr) option" where
  "rsplit_at c s =
     (if c \<in> set s
      then Some (rev (drop 1 (dropWhile (\<lambda>x. x \<noteq> c) (rev s))), rev (takeWhile (\<lambda>x. x \<noteq> c) (rev s)))
      else None)"

section \<open>Facts\<close>

lemma starts_with_append [simp]: "starts_with p (p @ s)"
  by (simp add: starts_with_def)

lemma split_str_step:
  "split_str_from pat acc [] = [rev acc]"
  "pat \<noteq> [] \<Longrightarrow> split_str_from pat acc (pat @ s) = rev acc # split_str_from pat [] s"
  "\<not> starts_with pat (c # s) \<Longrightarrow> split_str_from pat acc (c # s) = split_str_from pat (c # acc) s"
proof -
  show "split_str_from pat acc [] = [rev acc]" by (simp add: split_str_from.simps [of pat acc "[]"])
  show "split_str_from pat acc (pat @ s) = rev acc # split_str_from pat [] s" if "pat \<noteq> []"
  proof (cases "pat @ s")
    case (Cons c cs)
    have "starts_with pat (c # cs)" "drop (length pat) (c # cs) = s" unfolding Cons [symmetric] by simp_all
    with that show ?thesis unfolding Cons by (simp add: split_str_from.simps [of pat acc "c # cs"])
  qed (use that in simp)
  show "split_str_from pat acc (c # s) = split_str_from pat (c # acc) s" if "\<not> starts_with pat (c # s)"
    using that by (simp add: split_str_from.simps [of pat acc "c # s"])
qed

text \<open>A separator of two equal bytes, between texts free of that byte.\<close>

lemma split_pieces:
  assumes "c \<notin> set t"
  shows "split_str_from [c, c] acc t = [rev acc @ t]"
    "split_str_from [c, c] acc (t @ [c, c] @ s) = (rev acc @ t) # split_str_from [c, c] [] s"
proof -
  show "split_str_from [c, c] acc t = [rev acc @ t]"
    using assms
  proof (induction t arbitrary: acc)
    case (Cons a t)
    then have "\<not> starts_with [c, c] (a # t)" by (auto simp: starts_with_def)
    with Cons show ?case by (simp add: split_str_step)
  qed (simp add: split_str_step)
  show "split_str_from [c, c] acc (t @ [c, c] @ s) = (rev acc @ t) # split_str_from [c, c] [] s"
    using assms
  proof (induction t arbitrary: acc)
    case (Cons a t)
    then have "\<not> starts_with [c, c] (a # (t @ [c, c] @ s))" by (auto simp: starts_with_def)
    with Cons show ?case by (simp add: split_str_step(3))
  next
    case Nil
    show ?case using split_str_step(2) [of "[c, c]" acc s] by simp
  qed
qed

definition solid :: "char \<Rightarrow> bool" where
  "solid c \<longleftrightarrow> 0x21 \<le> (of_char c :: nat) \<and> (of_char c :: nat) \<le> 0x7E"

lemma ws_len_None: "(\<forall>w \<in> set ws. w \<noteq> [] \<and> hd w \<noteq> c) \<Longrightarrow> ws_len ws (c # s) = None"
  by (auto simp: ws_len_def find_None_iff starts_with_iff Cons_eq_append_conv)

lemma white_space_bytes: "\<forall>w \<in> set white_space. w \<noteq> [] \<and> \<not> solid (hd w) \<and> \<not> solid (last w)"
  unfolding white_space_def solid_def by simp

lemma solid_start:
  assumes "solid c"
  shows "ws_len white_space (c # s) = None" "ws_len (map rev white_space) (c # s) = None"
  using assms white_space_bytes by (auto intro!: ws_len_None simp: hd_rev)

lemma space_start:
  "ws_len white_space (CHR '' '' # s) = Some 1" "ws_len (map rev white_space) (CHR '' '' # s) = Some 1"
  by (simp_all add: ws_len_def white_space_def starts_with_def)

lemma trim_solid:
  assumes "solid (hd s)" and "solid (last s)" and "s \<noteq> []"
  shows "trim (replicate i (CHR '' '') @ s @ replicate j (CHR '' '')) = s"
proof -
  have a: "trim_with ws (replicate i (CHR '' '') @ c # r) = c # r"
    if "ws_len ws (c # r) = None" "\<And>r. ws_len ws (CHR '' '' # r) = Some 1" for ws c r i
    using that by (induction i) (simp_all add: trim_with.simps [of ws "CHR '' '' # _"] trim_with.simps [of ws "c # r"])
  have start: "trim_start (replicate i (CHR '' '') @ s @ t) = s @ t" for t
  proof -
    obtain c r where "s = c # r" using assms(3) by (cases s) auto
    with a [of white_space c "r @ t" i] solid_start(1) [OF assms(1)] space_start(1) show ?thesis
      by (simp add: trim_start_def)
  qed
  obtain t c where s: "s = t @ [c]" using assms(3) by (cases s rule: rev_cases) auto
  have "trim_end (s @ replicate j (CHR '' '')) = s"
    using a [of "map rev white_space" c "rev t" j] solid_start(2) [of c] space_start(2) assms(2)
    by (simp add: trim_end_def s)
  with start show ?thesis by (simp add: trim_def)
qed

text \<open>Texts joined by a doubled byte between spaces are got back by splitting and trimming.\<close>

lemma split_joined:
  assumes "ts \<noteq> []" and "\<forall>t \<in> set ts. t \<noteq> [] \<and> solid (hd t) \<and> solid (last t) \<and> c \<notin> set t" and "c \<noteq> CHR '' ''"
  shows "map trim (split_str [c, c] (join ([CHR '' '', c, c, CHR '' '']) ts)) = ts"
proof -
  have one: "c \<notin> set (replicate i (CHR '' '') @ t @ replicate j (CHR '' ''))" if "c \<notin> set t" for t i j
    using that assms(3) by (simp add: set_replicate_conv_if)
  have tr: "trim (CHR '' '' # t @ [CHR '' '']) = t" "trim (t @ [CHR '' '']) = t" "trim (CHR '' '' # t) = t" "trim t = t"
    if "t \<noteq> []" "solid (hd t)" "solid (last t)" for t
    using trim_solid [OF that(2,3,1), of 1 1] trim_solid [OF that(2,3,1), of 0 1] trim_solid [OF that(2,3,1), of 1 0]
      trim_solid [OF that(2,3,1), of 0 0] by simp_all
  have "map trim (split_str_from [c, c] [] (replicate k (CHR '' '') @ join [CHR '' '', c, c, CHR '' ''] ts)) = ts" if "k \<le> 1" for k
    using assms(1,2) that
  proof (induction ts arbitrary: k rule: join.induct [where ?a0.0 = "[CHR '' '', c, c, CHR '' '']", of "\<lambda>_ ts. _ ts"])
    case (2 sep t)
    then have k: "k = 0 \<or> k = 1" by auto
    from 2 split_pieces(1) [OF one [of t k 0], of "[]"] tr [of t] k show ?case by auto
  next
    case (3 sep t u zs)
    then have k: "k = 0 \<or> k = 1" by auto
    have e: "replicate k (CHR '' '') @ join [CHR '' '', c, c, CHR '' ''] (t # u # zs) =
        (replicate k (CHR '' '') @ t @ replicate 1 (CHR '' '')) @ [c, c] @
          (replicate 1 (CHR '' '') @ join [CHR '' '', c, c, CHR '' ''] (u # zs))" by simp
    have "map trim (split_str_from [c, c] [] (replicate 1 (CHR '' '') @ join [CHR '' '', c, c, CHR '' ''] (u # zs))) = u # zs"
      by (rule 3(1)) (use 3(3) in simp_all)
    moreover have "c \<notin> set t" using 3(3) by simp
    note split_pieces(2) [OF one [OF this, of k 1], of "[]" "replicate 1 (CHR '' '') @ join [CHR '' '', c, c, CHR '' ''] (u # zs)"]
    moreover have "trim (replicate k (CHR '' '') @ t @ replicate 1 (CHR '' '')) = t"
      by (rule trim_solid) (use 3(3) in simp_all)
    ultimately show ?case unfolding e by simp
  qed simp
  from this [of 0] show ?thesis by (simp add: split_str_def)
qed

end
