(* ===== verification/Shortcuts.thy ===== *)
theory Shortcuts imports Text_Split begin

text \<open>
  Keyboard shortcuts (\<open>jmux/src/settings/shortcuts.rs\<close>): bindings, the conditions under which they fire, the
  defaults, and merging a saved file with them. The JSON reader is an argument.
\<close>

section \<open>Bindings\<close>

record keybinding =
  kb_key :: rstr
  kb_ctrl :: bool
  kb_shift :: bool
  kb_alt :: bool

definition chord :: "rstr \<Rightarrow> bool \<Rightarrow> bool \<Rightarrow> bool \<Rightarrow> keybinding" where
  "chord key ctrl shift alt = \<lparr> kb_key = key, kb_ctrl = ctrl, kb_shift = shift, kb_alt = alt \<rparr>"

definition ctrl_shift :: "rstr \<Rightarrow> keybinding" where
  "ctrl_shift key = chord key True True False"

definition ctrl_only :: "rstr \<Rightarrow> keybinding" where
  "ctrl_only key = chord key True False False"

definition binding_display :: "keybinding \<Rightarrow> rstr" where
  "binding_display b =
     join ''+''
       ((if kb_ctrl b then [''Ctrl''] else []) @ (if kb_shift b then [''Shift''] else []) @
        (if kb_alt b then [''Alt''] else []) @ [if kb_key b = ''space'' then ''Space'' else kb_key b])"

text \<open>\<open>None\<close> is an action without a key.\<close>

record shortcut_config =
  sc_bindings :: "(rstr, keybinding option) hashmap"
  sc_when :: "(rstr, rstr) hashmap"

definition tab_bindings :: "(rstr \<times> keybinding option) list" where
  "tab_bindings =
     [(''tab.new'', Some (ctrl_shift ''T'')), (''textbox.focus'', None), (''tab.reopen'', None),
      (''dock.toggle'', None), (''overview.open'', None), (''notes.open'', Some (ctrl_shift ''N''))]"

definition workspace_bindings :: "(rstr \<times> keybinding option) list" where
  "workspace_bindings =
     [(''workspace.new'', None), (''workspace.close'', Some (ctrl_shift ''W'')),
      (''workspace.latest_unread'', Some (ctrl_shift ''U'')), (''workspace.rename'', Some (ctrl_shift ''R'')),
      (''workspace.toggle_agent_monitor'', Some (ctrl_shift ''S'')),
      (''workspace.move_up'', Some (ctrl_shift ''Page_Up'')), (''workspace.move_down'', Some (ctrl_shift ''Page_Down'')),
      (''close.tab'', Some (ctrl_only ''w'')), (''close.tab.others'', None)]"

definition pane_bindings :: "(rstr \<times> keybinding option) list" where
  "pane_bindings =
     [(''pane.close'', Some (ctrl_shift ''Q'')), (''pane.split_horizontal'', Some (ctrl_shift ''D'')),
      (''pane.split_vertical'', Some (ctrl_shift ''E'')), (''pane.focus_prev'', Some (ctrl_shift ''bracketleft'')),
      (''pane.focus_next'', Some (ctrl_shift ''bracketright'')), (''pane.rename'', Some (chord ''F2'' False False False)),
      (''pane.focus_left'', Some (chord ''Left'' False False True)),
      (''pane.focus_right'', Some (chord ''Right'' False False True)),
      (''pane.focus_up'', Some (chord ''Up'' False False True)),
      (''pane.focus_down'', Some (chord ''Down'' False False True))]"

definition view_bindings :: "(rstr \<times> keybinding option) list" where
  "view_bindings =
     [(''find'', Some (ctrl_only ''f'')), (''find.next'', Some (ctrl_only ''g'')),
      (''find.previous'', Some (ctrl_shift ''G'')), (''find.use_selection'', Some (ctrl_only ''e'')),
      (''notifications.toggle'', Some (ctrl_shift ''I'')), (''settings'', Some (ctrl_only ''comma'')),
      (''font.increase'', Some (ctrl_only ''equal'')), (''font.decrease'', Some (ctrl_only ''minus'')),
      (''font.reset'', Some (ctrl_only ''0'')), (''surface.clear'', Some (ctrl_only ''k'')),
      (''reload'', Some (chord ''r'' True False False)),
      (''browser.split_horizontal'', Some (chord ''d'' True False True)),
      (''browser.split_vertical'', Some (chord ''e'' True False True)),
      (''tab.close_others'', Some (chord ''W'' True True True)),
      (''browser.console_toggle'', Some (chord ''c'' True False True)),
      (''config.reload'', Some (ctrl_shift ''comma'')), (''find.in_directory'', None),
      (''notification.defer_unread'', None), (''notification.toggle_unread'', None), (''agent.resume'', None)]"

definition color_bindings :: "(rstr \<times> keybinding option) list" where
  "color_bindings = map (\<lambda>i. (''workspace.color.'' @ show_nat i, Some (chord (show_nat i) True False True))) [0..<10]"

definition default_shortcuts :: shortcut_config where
  "default_shortcuts =
     \<lparr> sc_bindings = tab_bindings @ workspace_bindings @ pane_bindings @ view_bindings @ color_bindings, sc_when = [] \<rparr>"

definition shortcut_for :: "shortcut_config \<Rightarrow> rstr \<Rightarrow> keybinding option" where
  "shortcut_for c action = Option.bind (map_of (sc_bindings c) action) id"

section \<open>Conditions\<close>

record shortcut_context =
  cx_terminal :: bool
  cx_browser :: bool
  cx_editor :: bool
  cx_zoomed :: bool

definition context_has :: "shortcut_context \<Rightarrow> rstr \<Rightarrow> bool" where
  "context_has c key =
     (if key = ''terminalFocused'' then cx_terminal c
      else if key = ''browserFocused'' then cx_browser c
      else if key = ''editorFocused'' then cx_editor c
      else if key = ''panelFocused'' then \<not> cx_terminal c
      else if key = ''paneZoomed'' then cx_zoomed c
      else False)"

definition and_term :: "shortcut_context \<Rightarrow> rstr \<Rightarrow> bool" where
  "and_term c t =
     (case strip_prefix ''!'' t of
        Some r \<Rightarrow> \<not> context_has c (trim r)
      | None \<Rightarrow> context_has c t)"

definition eval_when :: "rstr \<Rightarrow> shortcut_context \<Rightarrow> bool" where
  "eval_when e c \<longleftrightarrow>
     list_ex (\<lambda>o_t. trim o_t \<noteq> [] \<and> list_all (\<lambda>a_t. and_term c (trim a_t)) (split_str ''&&'' (trim o_t)))
       (split_str ''||'' e)"

definition when_allows :: "shortcut_config \<Rightarrow> rstr \<Rightarrow> shortcut_context \<Rightarrow> bool" where
  "when_allows c action cx =
     (case map_of (sc_when c) action of Some e \<Rightarrow> eval_when e cx | None \<Rightarrow> True)"

section \<open>Loading\<close>

text \<open>\<open>entry(action).or_insert(binding)\<close>.\<close>

definition or_insert :: "rstr \<times> 'a \<Rightarrow> (rstr, 'a) hashmap \<Rightarrow> (rstr, 'a) hashmap" where
  "or_insert kv m = (if has_key (fst kv) m then m else m @ [kv])"

definition load_shortcuts :: "(rstr \<Rightarrow> shortcut_config option) \<Rightarrow> rstr option \<Rightarrow> shortcut_config" where
  "load_shortcuts parse content =
     (case content of
        None \<Rightarrow> default_shortcuts
      | Some s \<Rightarrow>
          (let c = (case parse s of Some c \<Rightarrow> c | None \<Rightarrow> default_shortcuts)
           in c\<lparr> sc_bindings := fold or_insert (sc_bindings default_shortcuts) (sc_bindings c) \<rparr>))"

section \<open>Facts\<close>

lemma map_of_or_insert:
  "map_of (fold or_insert xs m) a = (case map_of m a of Some v \<Rightarrow> Some v | None \<Rightarrow> map_of xs a)"
proof (induction xs arbitrary: m)
  case (Cons x xs)
  then show ?case by (cases x) (auto simp: or_insert_def map_add_def split: option.split)
qed (simp split: option.split)

lemma loaded_binding:
  "map_of (sc_bindings (load_shortcuts parse (Some s))) a =
     (case Option.bind (parse s) (\<lambda>c. map_of (sc_bindings c) a) of
        Some v \<Rightarrow> Some v
      | None \<Rightarrow> map_of (sc_bindings default_shortcuts) a)"
  by (simp add: load_shortcuts_def Let_def map_of_or_insert split: option.split)

text \<open>No two of the default shortcuts use the same keys, and each action has one entry; reading a file keeps
  what it says about an action, also that it has no key, and gives every action it does not name its default.\<close>

theorem shortcuts_merged:
  "distinct (List.map_filter snd (sc_bindings default_shortcuts)) \<and> distinct (map fst (sc_bindings default_shortcuts)) \<and>
   shortcut_for (load_shortcuts parse (Some s)) a =
     (case Option.bind (parse s) (\<lambda>c. map_of (sc_bindings c) a) of
        Some v \<Rightarrow> v
      | None \<Rightarrow> shortcut_for default_shortcuts a)"
proof (intro conjI)
  show "distinct (List.map_filter snd (sc_bindings default_shortcuts))" by code_simp
  show "distinct (map fst (sc_bindings default_shortcuts))" by code_simp
qed (simp add: shortcut_for_def loaded_binding split: option.split)

section \<open>Conditions against their meaning\<close>

text \<open>A literal is a context key, perhaps negated; an expression is a disjunction of conjunctions of literals.\<close>

definition show_literal :: "bool \<times> rstr \<Rightarrow> rstr" where
  "show_literal l = (if fst l then ''!'' @ snd l else snd l)"

definition show_expr :: "(bool \<times> rstr) list list \<Rightarrow> rstr" where
  "show_expr e = join '' || '' (map (\<lambda>ls. join '' && '' (map show_literal ls)) e)"

definition key_word :: "rstr \<Rightarrow> bool" where
  "key_word k \<longleftrightarrow> k \<noteq> [] \<and> list_all (\<lambda>c. solid c \<and> c \<notin> {CHR ''!'', CHR ''&'', CHR ''|''}) k"

lemma literal_facts:
  assumes "key_word (snd l)"
  shows "show_literal l \<noteq> []" "solid (hd (show_literal l))" "solid (last (show_literal l))"
    "CHR ''&'' \<notin> set (show_literal l)" "CHR ''|'' \<notin> set (show_literal l)"
    "and_term c (show_literal l) \<longleftrightarrow> context_has c (snd l) \<noteq> fst l"
proof -
  obtain n k where l: "l = (n, k)" by (cases l)
  with assms have k: "k \<noteq> []" "\<forall>c \<in> set k. solid c" "CHR ''&'' \<notin> set k" "CHR ''|'' \<notin> set k" "hd k \<noteq> CHR ''!''"
    by (auto simp: key_word_def list_all_iff)
  have "trim k = k" using trim_solid [of k 0 0] k(1,2) by simp
  moreover have "strip_prefix ''!'' k = None" using k(1,5) by (cases k) (auto simp: strip_prefix_def starts_with_def)
  ultimately show "and_term c (show_literal l) \<longleftrightarrow> context_has c (snd l) \<noteq> fst l"
    by (auto simp: l show_literal_def and_term_def strip_prefix_def starts_with_def)
  show "show_literal l \<noteq> []" "solid (hd (show_literal l))" "solid (last (show_literal l))"
    "CHR ''&'' \<notin> set (show_literal l)" "CHR ''|'' \<notin> set (show_literal l)"
    using k by (auto simp: l show_literal_def solid_def)
qed

lemma join_ends:
  assumes "ts \<noteq> []" and "\<forall>t \<in> set ts. t \<noteq> []"
  shows "join sep ts \<noteq> []" "hd (join sep ts) = hd (hd ts)" "last (join sep ts) = last (last ts)"
    "set (join sep ts) \<subseteq> set sep \<union> \<Union> (set (map set ts))"
  using assms by (induction sep ts rule: join.induct) auto

text \<open>C12. A shortcut's condition means what it says: a disjunction of conjunctions of context keys, some of them
  negated, written with the usual spaces, holds in a context exactly when one of the conjunctions does.\<close>

theorem eval_when_correct:
  assumes "e \<noteq> []" and "\<forall>ls \<in> set e. ls \<noteq> [] \<and> (\<forall>l \<in> set ls. key_word (snd l))"
  shows "eval_when (show_expr e) c \<longleftrightarrow> (\<exists>ls \<in> set e. \<forall>l \<in> set ls. context_has c (snd l) \<noteq> fst l)"
proof -
  let ?conj = "\<lambda>ls. join '' && '' (map show_literal ls)"
  have lit: "?conj ls \<noteq> [] \<and> solid (hd (?conj ls)) \<and> solid (last (?conj ls)) \<and> CHR ''|'' \<notin> set (?conj ls)"
    if "ls \<in> set e" for ls
  proof -
    from assms(2) that have ls: "ls \<noteq> []" "\<forall>l \<in> set ls. key_word (snd l)" by blast+
    have ends: "last ls \<in> set ls" "hd ls \<in> set ls" using ls(1) by simp_all
    have ne: "map show_literal ls \<noteq> []" "\<forall>t \<in> set (map show_literal ls). t \<noteq> []" using ls literal_facts(1) by auto
    note j = join_ends [OF ne, of "'' && ''"]
    have "CHR ''|'' \<notin> set t" if "t \<in> set (map show_literal ls)" for t using ls(2) literal_facts(5) that by auto
    with j(4) have "CHR ''|'' \<notin> set (?conj ls)" by auto
    moreover have "solid (hd (?conj ls))" "solid (last (?conj ls))"
      unfolding j(2,3) using ls ends literal_facts(2,3) by (simp_all add: hd_map last_map)
    ultimately show ?thesis using j(1) by blast
  qed
  have all: "map trim (split_str ''||'' (show_expr e)) = map ?conj e"
    using split_joined [of "map ?conj e" "CHR ''|''"] assms(1) lit by (simp add: show_expr_def)
  have one: "list_all (\<lambda>t. and_term c (trim t)) (split_str ''&&'' (?conj ls)) \<longleftrightarrow>
      (\<forall>l \<in> set ls. context_has c (snd l) \<noteq> fst l)" if "ls \<in> set e" for ls
  proof -
    from assms(2) that have ls: "ls \<noteq> []" "\<forall>l \<in> set ls. key_word (snd l)" by blast+
    have "map trim (split_str ''&&'' (?conj ls)) = map show_literal ls"
      using split_joined [of "map show_literal ls" "CHR ''&''"] ls literal_facts(1-4) by simp
    then have "list_all (and_term c) (map trim (split_str ''&&'' (?conj ls))) \<longleftrightarrow> list_all (and_term c) (map show_literal ls)"
      by simp
    with ls(2) literal_facts(6) show ?thesis by (simp add: list_all_iff)
  qed
  have "eval_when (show_expr e) c \<longleftrightarrow>
      list_ex (\<lambda>t. t \<noteq> [] \<and> list_all (\<lambda>a. and_term c (trim a)) (split_str ''&&'' t)) (map trim (split_str ''||'' (show_expr e)))"
    by (simp add: eval_when_def list_ex_iff)
  then show ?thesis unfolding all using lit one by (auto simp: list_ex_iff)
qed

lemma eval_when_correct_witness:
  "eval_when ''browserFocused && !terminalFocused || paneZoomed''
     \<lparr> cx_terminal = False, cx_browser = True, cx_editor = False, cx_zoomed = False \<rparr>"
proof -
  let ?e = "[[(False, ''browserFocused''), (True, ''terminalFocused'')], [(False, ''paneZoomed'')]]"
  let ?c = "\<lparr> cx_terminal = False, cx_browser = True, cx_editor = False, cx_zoomed = False \<rparr>"
  have "show_expr ?e = ''browserFocused && !terminalFocused || paneZoomed''" by code_simp
  moreover have "eval_when (show_expr ?e) ?c \<longleftrightarrow> (\<exists>ls \<in> set ?e. \<forall>l \<in> set ls. context_has ?c (snd l) \<noteq> fst l)"
    by (rule eval_when_correct) (simp_all add: key_word_def solid_def)
  ultimately show ?thesis by (simp add: context_has_def)
qed

end
