(* ===== verification/Custom_Commands.thy ===== *)
theory Custom_Commands imports Socket_New begin

text \<open>
  Custom commands of \<open>jmux.json\<close> (\<open>jmux/src/settings/custom_commands.rs\<close>): merging the files by priority and
  building a workspace from a layout description. Reading a file as JSON is an argument.
\<close>

section \<open>Descriptions\<close>

record surface_spec =
  su_kind :: "rstr option"
  su_name :: "rstr option"
  su_command :: "rstr option"
  su_url :: "rstr option"
  su_cwd :: "rstr option"
  su_focus :: bool

datatype layout_spec = LaySplit rstr f64 "layout_spec list" | LayPane "surface_spec list"

record workspace_spec =
  wo_name :: "rstr option"
  wo_cwd :: "rstr option"
  wo_color :: "rstr option"
  wo_env :: "(rstr \<times> rstr) list"
  wo_layout :: layout_spec

record command_entry =
  cm_name :: rstr
  cm_description :: "rstr option"
  cm_keywords :: "rstr list"
  cm_command :: "rstr option"
  cm_confirm :: bool
  cm_workspace :: "workspace_spec option"

section \<open>Loading\<close>

definition command_files :: "rstr \<Rightarrow> rstr \<Rightarrow> rstr list" where
  "command_files config_dir dir =
     (if dir \<noteq> [] then [path_join dir ''.jmux/jmux.json'', path_join dir ''jmux.json''] else []) @
     [path_join config_dir ''jmux.json'']"

definition runnable_entry :: "command_entry \<Rightarrow> bool" where
  "runnable_entry e \<longleftrightarrow> cm_name e \<noteq> [] \<and> (cm_command e \<noteq> None \<or> cm_workspace e \<noteq> None)"

definition take_entry :: "command_entry \<Rightarrow> command_entry list \<Rightarrow> command_entry list" where
  "take_entry e es =
     (if runnable_entry e \<and> cm_name e \<notin> cm_name ` set es then es @ [e] else es)"

definition load_commands ::
  "(rstr \<Rightarrow> command_entry list option) \<Rightarrow> rstr \<Rightarrow> rstr \<Rightarrow> command_entry list" where
  "load_commands read config_dir dir =
     fold (\<lambda>p es. case read p of Some new \<Rightarrow> fold take_entry new es | None \<Rightarrow> es) (command_files config_dir dir) []"

section \<open>Building a workspace\<close>

definition resolve_dir :: "rstr option \<Rightarrow> rstr option \<Rightarrow> rstr \<Rightarrow> rstr" where
  "resolve_dir home cwd base =
     (case cwd of
        None \<Rightarrow> base
      | Some raw \<Rightarrow>
          (let raw = trim raw in
           if raw = [] \<or> raw = ''.'' then base
           else case strip_prefix ''~/'' raw of
                  Some rest \<Rightarrow> (case home of Some h \<Rightarrow> path_join h rest | None \<Rightarrow> raw)
                | None \<Rightarrow>
                    if starts_with ''/'' raw then raw
                    else path_join base (case strip_prefix ''./'' raw of Some rel \<Rightarrow> rel | None \<Rightarrow> raw)))"

text \<open>What the recursion threads: the next identifier, the panels made and the one to focus.\<close>

record building =
  bu_next :: uuid
  bu_panels :: "(uuid, panel) hashmap"
  bu_focus :: "uuid option"

definition surface_panel :: "rstr option \<Rightarrow> rstr \<Rightarrow> surface_spec \<Rightarrow> uuid \<Rightarrow> panel" where
  "surface_panel home base s i =
     (let browser = su_kind s = Some ''browser'';
          p = (if browser then new_browser i else new_terminal i)
      in p\<lparr> p_directory := Some (resolve_dir home (su_cwd s) base),
            p_command := opt_filter (\<lambda>c. trim c \<noteq> []) (su_command s),
            p_browser_url := (if browser then su_url s else None),
            p_custom_title := su_name s \<rparr>)"

definition add_surface :: "rstr option \<Rightarrow> rstr \<Rightarrow> surface_spec \<Rightarrow> building \<Rightarrow> building" where
  "add_surface home base s b =
     (let i = bu_next b
      in \<lparr> bu_next = i + 1, bu_panels = AList.update i (surface_panel home base s i) (bu_panels b),
           bu_focus = (if su_focus s then Some i else bu_focus b) \<rparr>)"

definition build_pane :: "rstr option \<Rightarrow> rstr \<Rightarrow> surface_spec list \<Rightarrow> building \<Rightarrow> LayoutNode \<times> building" where
  "build_pane home base ss b =
     (let i = bu_next b in
      if ss = []
      then (Pane [i] (Some i), b\<lparr> bu_next := i + 1, bu_panels := AList.update i (new_terminal i) (bu_panels b) \<rparr>)
      else (Pane [i..<i + length ss] (Some i), fold (add_surface home base) ss b))"

definition f64_0_1 :: f64 where
  "f64_0_1 = Fin False (3602879701896397 / 2 ^ 55)"

definition f64_0_9 :: f64 where
  "f64_0_9 = Fin False (8106479329266893 / 2 ^ 53)"

fun fold_split :: "SplitOrientation \<Rightarrow> f64 \<Rightarrow> LayoutNode list \<Rightarrow> LayoutNode" where
  "fold_split ori ratio [] = Pane [] None"
| "fold_split ori ratio [n] = n"
| "fold_split ori ratio (n # m # ns) = Split ori (f64_clamp ratio f64_0_1 f64_0_9) n (fold_split ori ratio (m # ns))"

definition spec_orientation :: "rstr \<Rightarrow> SplitOrientation" where
  "spec_orientation d = (if ascii_lowercase d = ''vertical'' then Vertical else Horizontal)"

fun build_layout :: "rstr option \<Rightarrow> rstr \<Rightarrow> layout_spec \<Rightarrow> building \<Rightarrow> LayoutNode \<times> building"
  and build_layouts :: "rstr option \<Rightarrow> rstr \<Rightarrow> layout_spec list \<Rightarrow> building \<Rightarrow> LayoutNode list \<times> building" where
  "build_layout home base (LaySplit d ratio cs) b =
     (let (ns, b') = build_layouts home base cs b in (fold_split (spec_orientation d) ratio ns, b'))"
| "build_layout home base (LayPane ss) b = build_pane home base ss b"
| "build_layouts home base [] b = ([], b)"
| "build_layouts home base (c # cs) b =
     (let (n, b1) = build_layout home base c b; (ns, b2) = build_layouts home base cs b1 in (n # ns, b2))"

text \<open>\<open>Workspace::with_directory\<close> draws two identifiers, its default panel is then dropped.\<close>

definition build_workspace :: "rstr option \<Rightarrow> workspace_spec \<Rightarrow> rstr \<Rightarrow> uuid \<Rightarrow> workspace \<times> uuid" where
  "build_workspace home spec base n =
     (let dir = resolve_dir home (wo_cwd spec) base;
          ws = with_directory home n (n + 1) dir;
          ws = (case wo_name spec of Some t \<Rightarrow> ws\<lparr> ws_custom_title := Some t \<rparr> | None \<Rightarrow> ws);
          ws = (case wo_color spec of Some c \<Rightarrow> ws\<lparr> ws_custom_color := Some c \<rparr> | None \<Rightarrow> ws);
          ws = ws\<lparr> ws_env := wo_env spec \<rparr>;
          (l, b) = build_layout home dir (wo_layout spec) \<lparr> bu_next = n + 2, bu_panels = [], bu_focus = None \<rparr>
      in if bu_panels b = []
         then (let i = bu_next b
               in (ws\<lparr> ws_panels := [(i, new_terminal i)], ws_layout := Pane [i] (Some i), ws_focused_panel_id := Some i \<rparr>,
                   i + 1))
         else (ws\<lparr> ws_panels := bu_panels b, ws_layout := l,
                   ws_focused_panel_id := or_else (bu_focus b) (head_opt (all_panel_ids l)) \<rparr>, bu_next b))"

section \<open>Facts\<close>

text \<open>Splits have children, and their ratio is a number.\<close>

fun spec_filled :: "layout_spec \<Rightarrow> bool" where
  "spec_filled (LaySplit d ratio cs) \<longleftrightarrow> cs \<noteq> [] \<and> list_all spec_filled cs"
| "spec_filled (LayPane ss) \<longleftrightarrow> True"

fun ratios_ok :: "layout_spec \<Rightarrow> bool" where
  "ratios_ok (LaySplit d ratio cs) \<longleftrightarrow> \<not> is_nan ratio \<and> list_all ratios_ok cs"
| "ratios_ok (LayPane ss) \<longleftrightarrow> True"

text \<open>While a layout is built, the panels made are keyed by the identifiers drawn, in order.\<close>

definition built_ok :: "uuid \<Rightarrow> building \<Rightarrow> bool" where
  "built_ok n b \<longleftrightarrow>
     n \<le> bu_next b \<and> keys_of (bu_panels b) = [n..<bu_next b] \<and> panels_keyed (bu_panels b) \<and>
     (\<forall>i. bu_focus b = Some i \<longrightarrow> has_key i (bu_panels b))"

lemma update_new: "k \<notin> set (keys_of m) \<Longrightarrow> AList.update k v m = m @ [(k, v)]"
  by (induction m) auto

lemma surface_panel_id [simp]: "p_id (surface_panel home base s i) = i"
  by (simp add: surface_panel_def Let_def new_browser_def new_terminal_def blank_panel_def)

lemma built_add:
  assumes "built_ok n b" and "p_id q = bu_next b" and "f = bu_focus b \<or> f = Some (bu_next b)"
  shows "built_ok n \<lparr> bu_next = bu_next b + 1, bu_panels = AList.update (bu_next b) q (bu_panels b), bu_focus = f \<rparr>"
  using assms update_new [of "bu_next b" "bu_panels b" q] panels_keyed_update [of "bu_panels b" q "bu_next b"]
  by (auto simp: built_ok_def has_key_iff simp del: set_map)

lemma built_surfaces:
  "built_ok n b \<Longrightarrow> built_ok n (fold (add_surface home base) ss b) \<and> bu_next (fold (add_surface home base) ss b) = bu_next b + length ss"
proof (induction ss arbitrary: b)
  case (Cons s ss)
  have "built_ok n (add_surface home base s b)"
    unfolding add_surface_def Let_def by (rule built_add [OF Cons.prems]) simp_all
  from Cons.IH [OF this] show ?case by (simp add: add_surface_def Let_def)
qed simp

text \<open>A node built between two states: its panels are those drawn in between.\<close>

definition node_built :: "uuid \<Rightarrow> building \<Rightarrow> building \<Rightarrow> bool \<Rightarrow> bool \<Rightarrow> LayoutNode \<Rightarrow> bool" where
  "node_built n b b' full sane l \<longleftrightarrow>
     built_ok n b' \<and> bu_next b \<le> bu_next b' \<and> all_panel_ids l = [bu_next b..<bu_next b'] \<and> sel_ok l \<and>
     (full \<longrightarrow> panes_filled l) \<and> (sane \<longrightarrow> dividers_ok l)"

lemma pane_built:
  assumes "built_ok n b" and "build_pane home base ss b = (l, b')"
  shows "node_built n b b' True True l"
proof (cases "ss = []")
  case True
  have "built_ok n (b\<lparr> bu_next := bu_next b + 1, bu_panels := AList.update (bu_next b) (new_terminal (bu_next b)) (bu_panels b) \<rparr>)"
    using built_add [OF assms(1), of "new_terminal (bu_next b)" "bu_focus b"] by (cases b) simp
  with True assms(2) show ?thesis by (auto simp: build_pane_def Let_def node_built_def)
next
  case False
  with assms built_surfaces [OF assms(1), of home base ss] show ?thesis
    by (auto simp: build_pane_def Let_def node_built_def)
qed

lemma clamp_divider:
  "\<not> is_nan x \<Longrightarrow> f64_le (Fin False 0) (f64_clamp x f64_0_1 f64_0_9) \<and> f64_le (f64_clamp x f64_0_1 f64_0_9) (Fin False 1)"
proof -
  assume "\<not> is_nan x"
  moreover have "f64_le f64_0_1 f64_0_9" "f64_le (Fin False 0) f64_0_1" "f64_le f64_0_9 (Fin False 1)"
    by (simp_all add: f64_0_1_def f64_0_9_def f64_le_def)
  ultimately show ?thesis using f64_clamp_bounds [of x f64_0_1 f64_0_9] f64_le_trans by blast
qed

lemma fold_split_facts:
  "all_panel_ids (fold_split ori ratio ns) = concat (map all_panel_ids ns)"
  "list_all sel_ok ns \<Longrightarrow> sel_ok (fold_split ori ratio ns)"
  "ns \<noteq> [] \<Longrightarrow> list_all panes_filled ns \<Longrightarrow> panes_filled (fold_split ori ratio ns)"
  "list_all dividers_ok ns \<Longrightarrow> \<not> is_nan ratio \<Longrightarrow> dividers_ok (fold_split ori ratio ns)"
  by (induction ori ratio ns rule: fold_split.induct) (auto simp: clamp_divider)

lemma layout_built:
  "built_ok n b \<Longrightarrow> build_layout home base spec b = (l, b') \<Longrightarrow> node_built n b b' (spec_filled spec) (ratios_ok spec) l"
  "built_ok n b \<Longrightarrow> build_layouts home base specs b = (ls, b') \<Longrightarrow>
     built_ok n b' \<and> bu_next b \<le> bu_next b' \<and> concat (map all_panel_ids ls) = [bu_next b..<bu_next b'] \<and>
     list_all sel_ok ls \<and> length ls = length specs \<and> (list_all spec_filled specs \<longrightarrow> list_all panes_filled ls) \<and>
     (list_all ratios_ok specs \<longrightarrow> list_all dividers_ok ls)"
proof (induction home base spec b and home base specs b arbitrary: l b' and ls b' rule: build_layout_build_layouts.induct)
  case (1 home base d ratio cs b)
  obtain ns b2 where ns: "build_layouts home base cs b = (ns, b2)" by fastforce
  note h = 1(1) [OF 1(2) ns]
  then have "cs \<noteq> [] \<Longrightarrow> ns \<noteq> []" by (metis length_0_conv)
  with h 1(3) ns show ?case by (auto simp: node_built_def fold_split_facts)
next
  case (2 home base ss b)
  then show ?case using pane_built by simp
next
  case (4 home base c cs b)
  obtain n1 b1 where n1: "build_layout home base c b = (n1, b1)" by fastforce
  obtain ns b2 where ns: "build_layouts home base cs b1 = (ns, b2)" by fastforce
  note h = 4(1) [OF 4(3) n1, unfolded node_built_def]
  then have "built_ok n b1" by blast
  note t = 4(2) [OF n1 [symmetric] refl this ns]
  from h t 4(4) n1 ns show ?case
    using upt_add_eq_append [of "bu_next b" "bu_next b1" "bu_next b2 - bu_next b1"] by auto
qed simp

lemma build_workspace_new:
  assumes "spec_filled (wo_layout spec)" and "build_workspace home spec base n = (w, m)"
  shows "new_space n m w \<and> (ratios_ok (wo_layout spec) \<longrightarrow> dividers_ok (ws_layout w))"
proof -
  let ?dir = "resolve_dir home (wo_cwd spec) base" and ?b0 = "\<lparr> bu_next = n + 2, bu_panels = [], bu_focus = None \<rparr>"
  obtain l b where b: "build_layout home ?dir (wo_layout spec) ?b0 = (l, b)" by fastforce
  have "built_ok (n + 2) ?b0" by (simp add: built_ok_def panels_keyed_def)
  note h = layout_built(1) [OF this b, unfolded node_built_def built_ok_def]
  with assms(1) have f: "panes_filled l" by blast
  have keys: "keys_of (bu_panels b) = all_panel_ids l" using h by simp
  with panes_filled_nonempty [OF f] have ne: "bu_panels b \<noteq> []" by (metis map_is_Nil_conv)
  have w: "ws_id w = n" "ws_panels w = bu_panels b" "ws_layout w = l" "ws_closed_panels w = []" "meta_ok w"
      "ws_focused_panel_id w = or_else (bu_focus b) (head_opt (all_panel_ids l))" and m: "m = bu_next b"
    using assms(2) b ne
    by (auto simp: build_workspace_def Let_def with_directory_def ws_new_def meta_ok_def split: option.splits)
  obtain p ps where p: "all_panel_ids l = p # ps" using panes_filled_nonempty [OF f] by (cases "all_panel_ids l") auto
  have "focus_ok (ws_focused_panel_id w) (bu_panels b)"
  proof (cases "bu_focus b")
    case None
    have "p \<in> set (keys_of (bu_panels b))" unfolding keys p by simp
    then have "has_key p (bu_panels b)" unfolding has_key_iff .
    with None p show ?thesis by (simp add: w(6) or_else_def focus_ok_def)
  next
    case (Some i)
    with h have "has_key i (bu_panels b)" by blast
    with Some show ?thesis by (simp add: w(6) or_else_def focus_ok_def)
  qed
  moreover have "layout_ok l" "consistent (bu_panels b) (all_panel_ids l)"
    using h f keys by (simp_all add: layout_ok_def consistent_def del: set_map)
  ultimately have "ws_ok w" using h by (simp add: ws_ok_def w)
  moreover have "set (panel_keys w) \<subseteq> {n..<m}" using h by (auto simp: w m)
  ultimately show ?thesis using h assms(1) ne by (auto simp: new_space_def w m simp del: set_map)
qed

text \<open>C13. A workspace described in \<open>jmux.json\<close> comes out well formed, whatever the description says, if no split is
  without children: every panel is in the layout exactly once under an identifier of its own, no pane is
  empty, the focus is on one of the panels, and the dividers lie between 0 and 1.\<close>

theorem described_workspace_ok:
  assumes "spec_filled (wo_layout spec)" and "build_workspace home spec base n = (w, m)"
  shows "new_space n m w \<and> (ratios_ok (wo_layout spec) \<longrightarrow> dividers_ok (ws_layout w))"
  by (rule build_workspace_new [OF assms])

definition sample_spec :: workspace_spec where
  "sample_spec = \<lparr> wo_name = Some ''dev'', wo_cwd = None, wo_color = None, wo_env = [],
     wo_layout = LaySplit ''vertical'' half
       [LayPane [\<lparr> su_kind = None, su_name = None, su_command = Some ''make'', su_url = None, su_cwd = None, su_focus = False \<rparr>],
        LayPane []] \<rparr>"

lemma described_workspace_ok_witness:
  "new_space 3 7 (fst (build_workspace None sample_spec ''/src'' 3))"
proof -
  have "snd (build_workspace None sample_spec ''/src'' 3) = 7" by code_simp
  then have "build_workspace None sample_spec ''/src'' 3 = (fst (build_workspace None sample_spec ''/src'' 3), 7)"
    by (metis prod.collapse)
  from described_workspace_ok [OF _ this] show ?thesis by (simp add: sample_spec_def)
qed

text \<open>A split without children leaves an empty pane in the layout, next to one with a panel.\<close>

lemma empty_split_shows:
  "let w = fst (build_workspace None \<lparr> wo_name = None, wo_cwd = None, wo_color = None, wo_env = [],
         wo_layout = LaySplit ''vertical'' half [LayPane [], LaySplit ''vertical'' half []] \<rparr> ''/src'' 3)
   in \<not> ws_ok w \<and> ws_layout w = Split Vertical half (Pane [5] (Some 5)) (Pane [] None)"
  by (simp add: build_workspace_def Let_def build_pane_def spec_orientation_def ascii_lowercase_def to_ascii_lower_def
      with_directory_def ws_ok_def meta_ok_def layout_ok_def f64_clamp_def half_def f64_0_1_def f64_0_9_def)

end
