(* ===== verification/Window_State.thy ===== *)
theory Window_State imports Shortcuts Custom_Commands Session_Restore begin

text \<open>
  The main window: what the GTK thread keeps beside the state it shares with the socket server
  (\<open>AppState\<close> and \<open>SharedState\<close> in \<open>jmux/src/app.rs\<close>, \<open>refresh_ui\<close> in \<open>jmux/src/ui/window/mod.rs\<close>), what a press of
  a key, a palette entry and an event have in common, and the log of what is done to widgets, terminals and
  the desktop. One window is modelled; browsers are built in.
\<close>

section \<open>State\<close>

text \<open>What the widgets, the terminals and the desktop are told.\<close>

datatype fx =
    FxRebuild | FxMetadata | FxFocusTerminal | FxQuit
  | FxToast rstr | FxFlash uuid | FxType uuid rstr | FxKey uuid u32 u32 u32 | FxBinding uuid rstr | FxRedraw uuid
  | FxDialog rstr | FxRenameDialog rstr | FxRenameTabDialog uuid | FxGoalDialog "rstr option"
  | FxTextbox uuid | FxDock rstr | FxShowDock rstr | FxOverview | FxPalette | FxSearchAll | FxTaskManager
  | FxFind bool | FxBrowserFind uuid | FxConsole uuid | FxReadSelection | FxFindText rstr | FxFindStep bool
  | FxShowNotifications | FxOpenWith rstr rstr | FxOpenUrl rstr | FxBrowser uuid browser_action | FxImport import_source
  | FxWindow | FxReloadGhostty | FxReloadTheme | FxCopyBadge uuid | FxStopRemote uuid | FxStartRemote uuid remote_config
  | FxPickFolder | FxPickMarkdown | FxAnswerText "rstr option" | FxAnswerDisplays | FxPlaceOn rstr | FxIdleKey uuid u32 u32 u32 | FxQuickTerminal rstr | FxSaveMinimal bool | FxRelease uuid

text \<open>\<open>wi_terminals\<close> gives each cached terminal the address of its surface; \<open>wi_sessions\<close> are the workspaces with a
  remote session.\<close>

record window =
  wi_server :: server
  wi_closed_urls :: "rstr list"
  wi_terminals :: "(uuid, nat) hashmap"
  wi_browsers :: "uuid list"
  wi_sessions :: "uuid list"
  wi_find :: bool
  wi_notifications :: bool
  wi_collapsed :: bool
  wi_header :: bool
  wi_fx :: "fx list"

text \<open>The settings as they are read at this moment, and what is asked of the system.\<close>

record win_env =
  we_sock :: sock_env
  we_disk :: disk
  we_shortcuts :: shortcut_config
  we_fold_case :: "rstr \<Rightarrow> rstr"
  we_cwd :: "uuid \<Rightarrow> rstr option"
  we_commands :: "rstr \<Rightarrow> command_entry list"
  we_branch :: "rstr \<Rightarrow> git_branch option"
  we_external :: "rstr \<Rightarrow> bool"
  we_restore :: agent_restore
  we_flash :: bool
  we_quake :: bool
  we_welcome :: bool
  we_config_path :: rstr
  we_editor :: "rstr option"
  we_screen :: "uuid \<Rightarrow> bool \<Rightarrow> rstr option"
  we_surface :: "uuid \<Rightarrow> nat"

definition fx :: "fx \<Rightarrow> window \<Rightarrow> window" where
  "fx x w = w\<lparr> wi_fx := wi_fx w @ [x] \<rparr>"

definition on_server :: "(server \<Rightarrow> server) \<Rightarrow> window \<Rightarrow> window" where
  "on_server f w = w\<lparr> wi_server := f (wi_server w) \<rparr>"

definition on_tabs :: "(tab_manager \<Rightarrow> tab_manager) \<Rightarrow> window \<Rightarrow> window" where
  "on_tabs f = on_server (\<lambda>sv. set_tabs (f (tabs sv)) sv)"

definition send :: "ui_event \<Rightarrow> window \<Rightarrow> window" where
  "send ev = on_server (\<lambda>sv. fst (send_ui_event ev sv))"

abbreviation wtabs :: "window \<Rightarrow> tab_manager" where
  "wtabs w \<equiv> tabs (wi_server w)"

abbreviation home_of :: "win_env \<Rightarrow> rstr option" where
  "home_of e \<equiv> en_home (se_env (we_sock e))"

definition focused_panel :: "window \<Rightarrow> uuid option" where
  "focused_panel w = Option.bind (tm_selected (wtabs w)) ws_focused_panel_id"

text \<open>The focused panel and its type.\<close>

definition focused_info :: "window \<Rightarrow> (uuid \<times> PanelType) option" where
  "focused_info w =
     Option.bind (tm_selected (wtabs w)) (\<lambda>ws.
       Option.bind (ws_focused_panel_id ws) (\<lambda>p.
         map_option (\<lambda>q. (p, p_panel_type q)) (map_of (ws_panels ws) p)))"

text \<open>A mutation of the selected workspace, and one of its panels that draws an identifier.\<close>

definition in_selected :: "(workspace \<Rightarrow> workspace) \<Rightarrow> window \<Rightarrow> window" where
  "in_selected f = on_tabs (edit_selected f)"

definition new_in_selected :: "(uuid \<Rightarrow> workspace \<Rightarrow> workspace) \<Rightarrow> window \<Rightarrow> window" where
  "new_in_selected f =
     on_server (\<lambda>sv. case tm_selected (tabs sv) of
                       None \<Rightarrow> sv
                     | Some _ \<Rightarrow> draw 1 (set_tabs (edit_selected (f (next_id sv)) (tabs sv)) sv))"

section \<open>Refreshing\<close>

definition live_panel_ids :: "tab_manager \<Rightarrow> uuid list" where
  "live_panel_ids tm = concat (map (\<lambda>ws. map (p_id \<circ> snd) (ws_panels ws)) (tm_workspaces tm))"

definition prune_terminal_cache :: "window \<Rightarrow> window" where
  "prune_terminal_cache w =
     (let live = live_panel_ids (wtabs w); dead = filter (\<lambda>p. p \<notin> set live) (map fst (wi_terminals w))
      in w\<lparr> wi_terminals := filter (\<lambda>(p, _). p \<in> set live) (wi_terminals w),
            wi_browsers := filter (\<lambda>p. p \<in> set live) (wi_browsers w), wi_fx := wi_fx w @ map FxRelease dead \<rparr>)"

definition cleanup_stale_remote_sessions :: "window \<Rightarrow> window" where
  "cleanup_stale_remote_sessions w =
     (let live = map ws_id (tm_workspaces (wtabs w)); stale = filter (\<lambda>i. i \<notin> set live) (wi_sessions w)
      in w\<lparr> wi_sessions := filter (\<lambda>i. i \<in> set live) (wi_sessions w), wi_fx := wi_fx w @ map FxStopRemote stale \<rparr>)"

definition enforce_workspace_invariant :: "win_env \<Rightarrow> window \<Rightarrow> window \<times> bool" where
  "enforce_workspace_invariant e w =
     (if tm_workspaces (wtabs w) \<noteq> [] then (w, True)
      else if we_welcome e then (w, True)
      else if we_quake e
      then (on_server (\<lambda>sv. draw 2 (set_tabs (fst (add_workspace (ws_new (home_of e) (next_id sv) (Suc (next_id sv))) (tabs sv))) sv)) w,
            True)
      else (fx FxQuit w, False))"

definition refresh_ui :: "win_env \<Rightarrow> window \<Rightarrow> window" where
  "refresh_ui e w =
     (let (w, go) = enforce_workspace_invariant e w
      in if go then fx FxRebuild (cleanup_stale_remote_sessions (prune_terminal_cache w)) else w)"

definition refresh_if_changed :: "win_env \<Rightarrow> window \<times> bool \<Rightarrow> window" where
  "refresh_if_changed e r = (if snd r then refresh_ui e (fst r) else fst r)"

section \<open>Steps the keys, the palette and the events share\<close>

text \<open>\<open>mark_workspace_read\<close>, \<open>select_workspace_by_index\<close> and \<open>select_latest_unread\<close> of \<open>event_handler.rs\<close>.\<close>

definition read_workspace :: "uuid \<Rightarrow> window \<Rightarrow> window" where
  "read_workspace i =
     on_server (\<lambda>sv. let sv = set_notes (mark_workspace_read i (sh_notes (sv_sh sv))) sv
                     in set_tabs (edit_workspace i (\<lambda>ws. clear_attention (mark_notifications_read ws)) (tabs sv)) sv)"

definition select_workspace_by_index :: "nat \<Rightarrow> window \<Rightarrow> window \<times> bool" where
  "select_workspace_by_index i w =
     (let already = tm_selected_index (wtabs w) = Some i;
          (tm, selected) = tm_select i (wtabs w);
          w = on_tabs (\<lambda>_. tm) w
      in if \<not> selected \<or> already then (w, False)
         else (case get_at i (tm_workspaces tm) of Some ws \<Rightarrow> read_workspace (ws_id ws) w | None \<Rightarrow> w, True))"

definition go_to_latest_unread :: "window \<Rightarrow> window \<times> bool" where
  "go_to_latest_unread w =
     (let (tm, i) = select_latest_unread (wtabs w); w = on_tabs (\<lambda>_. tm) w
      in case i of None \<Rightarrow> (w, False) | Some i \<Rightarrow> (read_workspace i w, True))"

text \<open>A step of the focus inside the selected workspace: \<open>next\<close> looks for the panel to go to.\<close>

definition focus_step :: "(uuid \<Rightarrow> LayoutNode \<Rightarrow> uuid option) \<Rightarrow> window \<Rightarrow> window \<times> bool" where
  "focus_step next w =
     (case tm_selected (wtabs w) of
        None \<Rightarrow> (w, False)
      | Some ws \<Rightarrow>
          (case Option.bind (ws_focused_panel_id ws) (\<lambda>p. next p (ws_layout ws)) of
             None \<Rightarrow> (w, False)
           | Some q \<Rightarrow> (in_selected (\<lambda>ws. fst (focus_panel q ws)) w, snd (focus_panel q ws))))"

definition toggle_zoom :: "workspace \<Rightarrow> workspace" where
  "toggle_zoom ws =
     (if ws_zoomed_panel_id ws \<noteq> None then ws\<lparr> ws_zoomed_panel_id := None \<rparr>
      else ws\<lparr> ws_zoomed_panel_id := ws_focused_panel_id ws \<rparr>)"

text \<open>The other panels of the focused pane.\<close>

definition pane_others :: "workspace \<Rightarrow> uuid list" where
  "pane_others ws =
     (case Option.bind (ws_focused_panel_id ws)
             (\<lambda>p. map_option (filter (\<lambda>i. i \<noteq> p)) (find_pane_readonly p (ws_layout ws))) of
        Some ps \<Rightarrow> ps | None \<Rightarrow> [])"

definition close_others_in_pane :: "window \<Rightarrow> window \<times> bool" where
  "close_others_in_pane w =
     (in_selected (\<lambda>ws. drop_tabs (pane_others ws) ws) w,
      case tm_selected (wtabs w) of Some ws \<Rightarrow> pane_others ws \<noteq> [] | None \<Rightarrow> False)"

definition close_focused :: "win_env \<Rightarrow> window \<Rightarrow> window \<times> bool" where
  "close_focused e w =
     (case focused_panel w of
        None \<Rightarrow> (w, False)
      | Some p \<Rightarrow>
          (let (tm, closed) = close_panel (the_clock (we_sock e)) p (wtabs w) in (on_tabs (\<lambda>_. tm) w, closed)))"

definition close_selected_workspace :: "win_env \<Rightarrow> window \<Rightarrow> window" where
  "close_selected_workspace e w =
     (case tm_selected_index (wtabs w) of
        Some i \<Rightarrow> on_tabs (\<lambda>tm. fst (tm_remove (the_clock (we_sock e)) i tm)) w
      | None \<Rightarrow> w)"

text \<open>\<open>AppState::close_panel\<close>: the process of a terminal has ended.\<close>

definition panel_exited :: "win_env \<Rightarrow> uuid \<Rightarrow> window \<Rightarrow> window \<times> bool" where
  "panel_exited e p w =
     (let (tm, closed) = close_panel (the_clock (we_sock e)) p (wtabs w) in
      if \<not> closed then (w, False)
      else (let w = on_tabs (\<lambda>_. tm) w;
                w = (if has_key p (wi_terminals w)
                     then fx (FxRelease p) (w\<lparr> wi_terminals := filter (\<lambda>(q, _). q \<noteq> p) (wi_terminals w) \<rparr>) else w)
            in (on_server (\<lambda>sv. notify_ui_refresh (sv\<lparr> sv_hibernated := removeAll p (sv_hibernated sv) \<rparr>)) (fx FxFocusTerminal w), True)))"

text \<open>The font of a terminal or the zoom of a browser.\<close>

definition font_step :: "browser_action \<Rightarrow> rstr \<Rightarrow> window \<Rightarrow> window" where
  "font_step zoom binding w =
     (case focused_info w of
        None \<Rightarrow> w
      | Some (p, ty) \<Rightarrow>
          if ty = Browser then send (UiBrowserAction p zoom) w
          else if has_key p (wi_terminals w) then fx (FxBinding p binding) w else w)"

definition send_about_focused :: "(uuid \<Rightarrow> ui_event) \<Rightarrow> window \<Rightarrow> window" where
  "send_about_focused ev w = (case focused_panel w of Some p \<Rightarrow> send (ev p) w | None \<Rightarrow> w)"

text \<open>\<open>insert_notes_panel\<close> of \<open>command_palette.rs\<close>: the panels of notes are closed, or one is opened.\<close>

definition notes_panels :: "workspace \<Rightarrow> uuid list" where
  "notes_panels ws = map fst (filter (\<lambda>(_, q). p_panel_type q = Notes) (ws_panels ws))"

definition insert_notes_panel :: "win_env \<Rightarrow> window \<Rightarrow> window" where
  "insert_notes_panel e =
     on_server (\<lambda>sv.
       case tm_selected (tabs sv) of
         None \<Rightarrow> sv
       | Some ws \<Rightarrow>
           if notes_panels ws \<noteq> []
           then set_tabs (edit_selected (\<lambda>ws. fold (\<lambda>i ws. fst (ws_remove_panel i ws)) (notes_panels ws) ws) (tabs sv)) sv
           else draw 1 (set_tabs (edit_selected
                  (\<lambda>ws. fst (insert_panel (new_notes (next_id sv) (se_notes_path (we_sock e))) Horizontal ws)) (tabs sv)) sv))"

definition current_dir :: "window \<Rightarrow> rstr" where
  "current_dir w = (case tm_selected (wtabs w) of Some ws \<Rightarrow> ws_current_directory ws | None \<Rightarrow> [])"

text \<open>The stack of closed browser addresses.\<close>

definition push_closed_browser_url :: "rstr \<Rightarrow> window \<Rightarrow> window" where
  "push_closed_browser_url url w =
     w\<lparr> wi_closed_urls := (if 20 \<le> length (wi_closed_urls w) then drop 1 (wi_closed_urls w) else wi_closed_urls w) @ [url] \<rparr>"

definition pop_closed_browser_url :: "window \<Rightarrow> window \<times> rstr option" where
  "pop_closed_browser_url w =
     (if wi_closed_urls w = [] then (w, None)
      else (w\<lparr> wi_closed_urls := butlast (wi_closed_urls w) \<rparr>, Some (last (wi_closed_urls w))))"

text \<open>\<open>do_custom_command\<close>: a described workspace is opened, a command typed into the focused terminal.\<close>

definition do_custom_command :: "win_env \<Rightarrow> command_entry \<Rightarrow> rstr \<Rightarrow> window \<Rightarrow> window" where
  "do_custom_command e c base w =
     (case cm_workspace c of
        Some spec \<Rightarrow>
          on_server (\<lambda>sv.
            let (ws, m) = build_workspace (home_of e) spec base (next_id sv);
                ws = ws\<lparr> ws_window_id := Option.bind (tm_selected (tabs sv)) ws_window_id \<rparr>;
                tm = fst (select_by_id (ws_id ws) (fst (add_workspace ws (tabs sv))))
            in draw (m - next_id sv) (set_tabs tm sv)) w
      | None \<Rightarrow>
          (case cm_command c of
             None \<Rightarrow> w
           | Some s \<Rightarrow>
               (case focused_panel w of
                  Some p \<Rightarrow> if has_key p (wi_terminals w) then fx (FxType p (s @ [CHR 0x0A])) w else w
                | None \<Rightarrow> w)))"

end
