(* ===== verification/Window_Keys.thy ===== *)
theory Window_Keys imports Window_State begin

text \<open>
  What a key press in the main window does (\<open>jmux/src/ui/window/shortcuts.rs\<close>): first the shortcuts the user
  can configure, then the fixed ones. A key is known by its name in GDK; the fixed table is in the order of
  the source.
\<close>

record key_press =
  kp_key :: rstr
  kp_unicode :: "rstr option"
  kp_ctrl :: bool
  kp_shift :: bool
  kp_alt :: bool

section \<open>Configurable shortcuts\<close>

definition when_context :: "tab_manager \<Rightarrow> shortcut_context" where
  "when_context tm =
     (case tm_selected tm of
        None \<Rightarrow> \<lparr> cx_terminal = False, cx_browser = False, cx_editor = False, cx_zoomed = False \<rparr>
      | Some ws \<Rightarrow>
          (let ty = map_option p_panel_type (Option.bind (ws_focused_panel_id ws) (map_of (ws_panels ws)))
           in \<lparr> cx_terminal = (ty = Some Terminal), cx_browser = (ty = Some Browser),
                cx_editor = (ty = Some Notes \<or> ty = Some Markdown), cx_zoomed = (ws_zoomed_panel_id ws \<noteq> None) \<rparr>))"

definition configurable_actions :: "rstr list" where
  "configurable_actions =
     [''notification.defer_unread'', ''notification.toggle_unread'', ''tab.new'', ''tab.reopen'', ''textbox.focus'',
      ''notes.open'', ''dock.toggle'', ''close.tab'', ''close.tab.others'', ''find.in_directory'',
      ''workspace.toggle_agent_monitor'']"

definition pressed :: "key_press \<Rightarrow> keybinding \<Rightarrow> bool" where
  "pressed k b \<longleftrightarrow> kb_ctrl b = kp_ctrl k \<and> kb_shift b = kp_shift k \<and> kb_alt b = kp_alt k \<and> kb_key b = kp_key k"

definition configured_action :: "win_env \<Rightarrow> key_press \<Rightarrow> window \<Rightarrow> rstr option" where
  "configured_action e k w =
     find (\<lambda>a. case shortcut_for (we_shortcuts e) a of
                 Some b \<Rightarrow> pressed k b \<and> when_allows (we_shortcuts e) a (when_context (wtabs w))
               | None \<Rightarrow> False) configurable_actions"

definition new_tab_directory :: "win_env \<Rightarrow> workspace \<Rightarrow> rstr option" where
  "new_tab_directory e ws =
     or_else (opt_filter (\<lambda>d. d \<noteq> []) (Option.bind (ws_focused_panel_id ws) (we_cwd e))) (inherited_terminal_directory ws)"

definition add_tab :: "win_env \<Rightarrow> uuid \<Rightarrow> workspace \<Rightarrow> workspace" where
  "add_tab e i ws =
     (let q = (new_terminal i)\<lparr> p_directory := new_tab_directory e ws \<rparr>;
          l = (case or_else (ws_focused_panel_id ws) (head_opt (all_panel_ids (ws_layout ws))) of
                 Some t \<Rightarrow> fst (add_panel_to_pane t i (ws_layout ws)) | None \<Rightarrow> ws_layout ws)
      in ws\<lparr> ws_panels := AList.update i q (ws_panels ws), ws_layout := l,
             ws_previous_focused_panel_id := ws_focused_panel_id ws, ws_focused_panel_id := Some i \<rparr>)"

text \<open>The arm of \<open>overview.open\<close>, which is not among the actions looked up, is left out.\<close>

definition run_configured :: "win_env \<Rightarrow> rstr \<Rightarrow> window \<Rightarrow> window" where
  "run_configured e a w =
     (if a = ''notification.defer_unread'' then send UiDeferUnread w
      else if a = ''workspace.toggle_agent_monitor'' then on_server (\<lambda>sv. fst (toggle_selected (we_disk e) sv)) w
      else if a = ''notification.toggle_unread'' then send UiToggleUnread w
      else if a = ''tab.new'' then refresh_ui e (new_in_selected (add_tab e) w)
      else if a = ''tab.reopen'' then refresh_ui e (new_in_selected (\<lambda>i ws. fst (reopen_last_closed_panel i ws)) w)
      else if a = ''textbox.focus'' then (case focused_panel w of Some p \<Rightarrow> fx (FxTextbox p) w | None \<Rightarrow> w)
      else if a = ''notes.open'' then refresh_ui e (insert_notes_panel e w)
      else if a = ''dock.toggle'' then fx (FxDock (current_dir w)) w
      else if a = ''close.tab''
      then (let (w, closed) = close_focused e w in if closed then refresh_ui e (fx FxFocusTerminal w) else w)
      else if a = ''close.tab.others'' then refresh_if_changed e (close_others_in_pane w)
      else w)"

section \<open>Fixed shortcuts\<close>

definition arrow :: "rstr \<Rightarrow> Direction option" where
  "arrow key =
     map_of [(''Left'', DLeft), (''Right'', DRight), (''Up'', DUp), (''Down'', DDown)] key"

definition PRESET_COLORS :: "rstr list" where
  "PRESET_COLORS =
     [''#ef4444'', ''#f97316'', ''#eab308'', ''#22c55e'', ''#14b8a6'', ''#3b82f6'', ''#8b5cf6'', ''#ec4899'', ''#64748b'']"

definition digit_key :: "rstr \<Rightarrow> nat option" where
  "digit_key key = map_of (map (\<lambda>i. (show_nat i, i)) [0..<10]) key"

definition preset_color :: "nat \<Rightarrow> rstr option" where
  "preset_color i = (if i = 0 then None else get_at (i - 1) PRESET_COLORS)"

definition split_in_selected :: "win_env \<Rightarrow> SplitOrientation \<Rightarrow> PanelType \<Rightarrow> window \<Rightarrow> window" where
  "split_in_selected e ori ty w = refresh_ui e (new_in_selected (\<lambda>i ws. fst (ws_split ori ty i ws)) w)"

definition ctrl_alt_key :: "win_env \<Rightarrow> rstr \<Rightarrow> window \<Rightarrow> window option" where
  "ctrl_alt_key e key w =
     (case digit_key key of
        Some i \<Rightarrow> Some (refresh_ui e (in_selected (\<lambda>ws. ws\<lparr> ws_custom_color := preset_color i \<rparr>) w))
      | None \<Rightarrow>
          if key = ''d'' then Some (split_in_selected e Horizontal Browser w)
          else if key = ''e'' then Some (split_in_selected e Vertical Browser w)
          else if key = ''c''
          then Some (case focused_info w of Some (p, ty) \<Rightarrow> if ty = Browser then fx (FxConsole p) w else w | None \<Rightarrow> w)
          else None)"

definition toggle_find :: "window \<Rightarrow> window" where
  "toggle_find w =
     (case focused_info w of
        Some (p, ty) \<Rightarrow>
          if ty = Browser then fx (FxBrowserFind p) w
          else fx (FxFind (\<not> wi_find w)) (w\<lparr> wi_find := \<not> wi_find w \<rparr>)
      | None \<Rightarrow> fx (FxFind (\<not> wi_find w)) (w\<lparr> wi_find := \<not> wi_find w \<rparr>))"

text \<open>The answer to \<open>FxReadSelection\<close>.\<close>

definition selection_read :: "rstr option \<Rightarrow> window \<Rightarrow> window" where
  "selection_read text w =
     (case text of
        Some s \<Rightarrow> if s \<noteq> [] then fx (FxFindText s) (w\<lparr> wi_find := True \<rparr>) else w
      | None \<Rightarrow> w)"

definition toggle_notifications :: "window \<Rightarrow> window" where
  "toggle_notifications w = fx FxShowNotifications (w\<lparr> wi_notifications := \<not> wi_notifications w \<rparr>)"

definition toggle_minimal :: "window \<Rightarrow> window" where
  "toggle_minimal w = fx (FxSaveMinimal (wi_header w)) (w\<lparr> wi_header := \<not> wi_header w \<rparr>)"

definition close_pane_key :: "win_env \<Rightarrow> window \<Rightarrow> window" where
  "close_pane_key e w =
     (let url = Option.bind (tm_selected (wtabs w)) (\<lambda>ws. Option.bind (ws_focused_panel_id ws) (\<lambda>p.
                  Option.bind (map_of (ws_panels ws) p) (\<lambda>q. if p_panel_type q = Browser then p_browser_url q else None)));
          w = (case url of Some u \<Rightarrow> push_closed_browser_url u w | None \<Rightarrow> w);
          (w, closed) = close_focused e w
      in if closed then refresh_ui e (fx FxFocusTerminal w) else w)"

definition open_directory :: "win_env \<Rightarrow> window \<Rightarrow> window" where
  "open_directory e w =
     (case tm_selected (wtabs w) of
        None \<Rightarrow> w
      | Some ws \<Rightarrow>
          fx (FxOpenWith ''xdg-open''
                (if ws_current_directory ws = [] then (case home_of e of Some h \<Rightarrow> h | None \<Rightarrow> ''/'')
                 else ws_current_directory ws)) w)"

definition shift_selected :: "bool \<Rightarrow> tab_manager \<Rightarrow> tab_manager" where
  "shift_selected up tm =
     (case tm_selected_index tm of
        None \<Rightarrow> tm
      | Some i \<Rightarrow>
          if up then (if 0 < i then fst (move_workspace i (i - 1) tm) else tm)
          else if i + 1 < length (tm_workspaces tm) then fst (move_workspace i (i + 1) tm) else tm)"

definition cycle_workspace :: "win_env \<Rightarrow> (tab_manager \<Rightarrow> tab_manager) \<Rightarrow> window \<Rightarrow> window" where
  "cycle_workspace e f w =
     (let w = on_tabs f w;
          w = (case tm_selected_id (wtabs w) of Some i \<Rightarrow> read_workspace i w | None \<Rightarrow> w)
      in refresh_ui e (fx FxFocusTerminal w))"

definition reload_key :: "window \<Rightarrow> window" where
  "reload_key w =
     (case focused_info w of
        Some (p, ty) \<Rightarrow> if ty = Browser then send (UiBrowserAction p BaReload) w else send UiReloadConfig w
      | None \<Rightarrow> w)"

text \<open>The keys pressed with control and shift, and those with control alone.\<close>

definition ctrl_shift_key :: "win_env \<Rightarrow> rstr \<Rightarrow> window \<Rightarrow> window option" where
  "ctrl_shift_key e key w =
     (if key = ''comma'' then Some (send UiReloadConfig w)
      else if key = ''b'' then Some (toggle_minimal w)
      else if key = ''I'' then Some (toggle_notifications w)
      else if key = ''P'' then Some (fx FxPalette w)
      else if key = ''Z''
      then Some (if tm_selected (wtabs w) = None then w else refresh_ui e (in_selected toggle_zoom w))
      else if key = ''H'' then Some (send_about_focused UiTriggerFlash w)
      else if key = ''B'' then Some (w\<lparr> wi_collapsed := \<not> wi_collapsed w \<rparr>)
      else if key = ''R''
      then Some (case tm_selected (wtabs w) of Some ws \<Rightarrow> fx (FxRenameDialog (ws_display_title ws)) w | None \<Rightarrow> w)
      else if key = ''N'' then Some (send UiCreateWindow w)
      else if key = ''W'' then Some (refresh_ui e (close_selected_workspace e w))
      else if key = ''Q'' then Some (close_pane_key e w)
      else if key = ''D'' then Some (split_in_selected e Horizontal Terminal w)
      else if key = ''E'' then Some (split_in_selected e Vertical Terminal w)
      else if key = ''O'' then Some (open_directory e w)
      else if key = ''Y'' then Some (send UiReopenClosedBrowser w)
      else if key = ''A'' then Some (send UiOpenTaskManager w)
      else if key = ''M'' then Some (send_about_focused UiCopyMode w)
      else if key = ''U'' then Some (refresh_if_changed e (go_to_latest_unread w))
      else if key = ''bracketleft'' then Some (refresh_if_changed e (focus_step (\<lambda>p l. prev_panel_id l p) w))
      else if key = ''bracketright'' then Some (refresh_if_changed e (focus_step (\<lambda>p l. next_panel_id l p) w))
      else if key = ''Page_Up'' then Some (refresh_ui e (on_tabs (shift_selected True) w))
      else if key = ''Page_Down'' then Some (refresh_ui e (on_tabs (shift_selected False) w))
      else if key = ''ISO_Left_Tab'' then Some (cycle_workspace e (select_previous True) w)
      else if key = ''G'' then Some (if wi_find w then fx (FxFindStep False) w else w)
      else if key = ''plus'' then Some (font_step BaZoomIn ''increase_font_size:1'' w)
      else None)"

definition ctrl_key :: "win_env \<Rightarrow> rstr \<Rightarrow> window \<Rightarrow> window option" where
  "ctrl_key e key w =
     (case digit_key key of
        Some (Suc i) \<Rightarrow>
          Some (let (w, changed) = select_workspace_by_index i w in if changed then refresh_ui e (fx FxFocusTerminal w) else w)
      | _ \<Rightarrow>
          if key = ''comma'' then Some (fx (FxDialog ''settings'') w)
          else if key = ''f'' then Some (toggle_find w)
          else if key = ''e'' then Some (fx FxReadSelection w)
          else if key = ''p'' then Some (fx FxSearchAll w)
          else if key = ''o'' then Some (send UiOpenFolderAsWorkspace w)
          else if key = ''Tab'' then Some (cycle_workspace e (select_next True) w)
          else if key = ''k'' then Some (send_about_focused UiClearHistory w)
          else if key = ''g'' then Some (if wi_find w then fx (FxFindStep True) w else w)
          else if key \<in> {''equal'', ''plus''} then Some (font_step BaZoomIn ''increase_font_size:1'' w)
          else if key = ''minus'' then Some (font_step BaZoomOut ''decrease_font_size:1'' w)
          else if key = ''0'' then Some (font_step (BaSetZoom (Fin False 1)) ''reset_font_size'' w)
          else if key = ''r'' then Some (reload_key w)
          else None)"

definition agent_resume_key :: "win_env \<Rightarrow> key_press \<Rightarrow> bool" where
  "agent_resume_key e k \<longleftrightarrow>
     (case shortcut_for (we_shortcuts e) ''agent.resume'' of
        None \<Rightarrow> False
      | Some b \<Rightarrow>
          ((kp_key k \<noteq> [] \<and> we_fold_case e (kp_key k) = we_fold_case e (kb_key b)) \<or>
           map_option (we_fold_case e) (kp_unicode k) = Some (we_fold_case e (kb_key b))) \<and>
          kp_ctrl k = kb_ctrl b \<and> kp_shift k = kb_shift b \<and> kp_alt k = kb_alt b)"

text \<open>The flag says whether the key goes on to the terminal.\<close>

definition fixed_key :: "win_env \<Rightarrow> key_press \<Rightarrow> window \<Rightarrow> window option" where
  "fixed_key e k w =
     (let ctrl = kp_ctrl k; shift = kp_shift k; alt = kp_alt k; key = kp_key k
      in if alt \<and> \<not> ctrl \<and> \<not> shift \<and> arrow key \<noteq> None
         then Some (refresh_if_changed e (focus_step (\<lambda>p. neighbor p (the (arrow key))) w))
         else case (if ctrl \<and> alt \<and> \<not> shift then ctrl_alt_key e key w else None) of
                Some w' \<Rightarrow> Some w'
              | None \<Rightarrow>
                  if ctrl \<and> shift \<and> alt \<and> key = ''W'' then Some (refresh_if_changed e (close_others_in_pane w))
                  else if ctrl \<and> shift then ctrl_shift_key e key w
                  else if ctrl then ctrl_key e key w
                  else if \<not> shift \<and> key = ''F2''
                  then Some (case focused_panel w of Some p \<Rightarrow> fx (FxRenameTabDialog p) w | None \<Rightarrow> w)
                  else None)"

definition press_key :: "win_env \<Rightarrow> key_press \<Rightarrow> window \<Rightarrow> window \<times> bool" where
  "press_key e k w =
     (case configured_action e k w of
        Some a \<Rightarrow> (run_configured e a w, False)
      | None \<Rightarrow>
          (case fixed_key e k w of
             Some w' \<Rightarrow> (w', False)
           | None \<Rightarrow> if agent_resume_key e k then (send UiAgentResume w, False) else (w, True)))"

end
