(* ===== verification/Command_Palette.thy ===== *)
theory Command_Palette imports Window_Keys Socket_V1 begin

text \<open>
  The command palette (\<open>jmux/src/ui/command_palette.rs\<close>): which entries it offers, how a query filters them, and
  what each entry does. Reading a terminal's screen and looking for programs are arguments.
\<close>

section \<open>Entries\<close>

record palette_action =
  pa_name :: rstr
  pa_label :: rstr
  pa_shortcut :: "rstr option"
  pa_is_workspace :: bool
  pa_is_search_result :: bool
  pa_search_terms :: rstr

text \<open>\<open>shortcut_for_action\<close>: the shortcut an entry shows is looked up under its own name or another one.\<close>

definition same_name_actions :: "rstr list" where
  "same_name_actions =
     [''workspace.new'', ''workspace.close'', ''workspace.rename'', ''workspace.latest_unread'', ''pane.close'',
      ''pane.split_horizontal'', ''pane.split_vertical'', ''pane.focus_next'', ''pane.focus_prev'', ''pane.focus_left'',
      ''pane.focus_right'', ''pane.focus_up'', ''pane.focus_down'', ''config.reload'', ''notifications.toggle'',
      ''notification.defer_unread'', ''notification.toggle_unread'', ''font.increase'', ''font.decrease'', ''font.reset'',
      ''tab.close_others'']"

definition shortcut_key :: "rstr \<Rightarrow> rstr option" where
  "shortcut_key name =
     (if name \<in> set same_name_actions then Some name
      else map_of [(''settings.open'', ''settings''), (''surface.clear_screen'', ''surface.clear''),
                   (''surface.clear_history'', ''surface.clear''), (''pane.split_browser_h'', ''browser.split_horizontal''),
                   (''pane.split_browser_v'', ''browser.split_vertical'')] name)"

definition shortcut_for_action :: "shortcut_config \<Rightarrow> rstr \<Rightarrow> rstr option" where
  "shortcut_for_action c name =
     (if name = ''task_manager.open'' then Some ''Ctrl+Shift+A''
      else map_option binding_display (Option.bind (shortcut_key name) (shortcut_for c)))"

definition entry :: "rstr \<Rightarrow> rstr \<Rightarrow> rstr option \<Rightarrow> palette_action" where
  "entry name label shortcut =
     \<lparr> pa_name = name, pa_label = label, pa_shortcut = shortcut, pa_is_workspace = False, pa_is_search_result = False,
       pa_search_terms = [] \<rparr>"

definition fixed_entries :: "(rstr \<times> rstr) list" where
  "fixed_entries =
     [(''workspace.new'', ''New Workspace''), (''workspace.reopen_closed'', ''Reopen Closed Workspace''),
      (''workspace.new_browser'', ''New Browser Workspace''), (''workspace.new_diff'', ''New Diff Workspace''),
      (''workspace.new_project'', ''New Project Visualizer''), (''workspace.new_notes'', ''Open Notes Scratchpad''),
      (''workspace.open_history'', ''Open History''), (''workspace.open_vault'', ''Open Vault''),
      (''pane.split_horizontal'', ''Split Horizontal''), (''pane.split_vertical'', ''Split Vertical''),
      (''pane.close'', ''Close Pane''), (''workspace.close'', ''Close Workspace''), (''pane.zoom_toggle'', ''Toggle Pane Zoom''),
      (''settings.open'', ''Open Settings''), (''config.reload'', ''Reload Ghostty Config''),
      (''pane.focus_next'', ''Focus Next Pane''), (''pane.focus_prev'', ''Focus Previous Pane''),
      (''pane.focus_left'', ''Focus Pane Left''), (''pane.focus_right'', ''Focus Pane Right''),
      (''pane.focus_up'', ''Focus Pane Up''), (''pane.focus_down'', ''Focus Pane Down''), (''pane.last'', ''Focus Last Pane''),
      (''pane.break'', ''Break Pane to New Workspace''), (''pane.join'', ''Join Pane from Other Workspace''),
      (''workspace.next'', ''Next Workspace''), (''workspace.previous'', ''Previous Workspace''),
      (''workspace.last'', ''Last Workspace''), (''workspace.focus_back'', ''Back (Recently Focused)''),
      (''workspace.focus_forward'', ''Forward (Recently Focused)''), (''workspace.hibernate'', ''Hibernate Agent (toggle)''),
      (''workspace.latest_unread'', ''Jump to Latest Unread''), (''workspace.rename'', ''Rename Workspace''),
      (''workspace.pin'', ''Pin/Unpin Workspace''), (''sidebar.toggle'', ''Toggle Sidebar''), (''dock.toggle'', ''Toggle Dock''),
      (''overview.open'', ''Pane Overview''), (''workspace.mark_read'', ''Mark Workspace as Read''),
      (''workspace.mark_unread'', ''Mark Workspace as Unread''), (''open_folder'', ''Open Folder in File Manager''),
      (''pane.new_browser'', ''New Browser Panel''), (''surface.flash'', ''Flash Panel''),
      (''surface.clear_screen'', ''Clear Terminal''), (''surface.clear_history'', ''Clear Scrollback History''),
      (''pane.equalize'', ''Equalize Splits''), (''tab.close'', ''Close Tab''), (''tab.reopen'', ''Reopen Closed Tab''),
      (''tab.rename'', ''Rename Tab''), (''tab.next_in_pane'', ''Next Tab in Pane''),
      (''tab.prev_in_pane'', ''Previous Tab in Pane''), (''notifications.toggle'', ''Show Notifications''),
      (''notification.defer_unread'', ''Defer Unread Notifications''),
      (''notification.toggle_unread'', ''Toggle Unread for Workspace''),
      (''workspace.open_folder'', ''Open Folder as Workspace...''), (''terminal.copy_mode'', ''Enter Copy Mode''),
      (''browser.reopen_closed'', ''Reopen Closed Browser Tab''), (''markdown.open'', ''Open Markdown File...''),
      (''tab.close_others'', ''Close Other Tabs in Pane''), (''pane.split_browser_h'', ''Split Browser (Horizontal)''),
      (''pane.split_browser_v'', ''Split Browser (Vertical)''), (''font.increase'', ''Increase Font Size''),
      (''font.decrease'', ''Decrease Font Size''), (''font.reset'', ''Reset Font Size''),
      (''task_manager.open'', ''Open Task Manager''), (''settings.ghostty'', ''Ghostty Settings''),
      (''settings.jmux'', ''jmux Settings''), (''goal.run'', ''Run Goal...'')]"

definition editors :: "(rstr \<times> rstr) list" where
  "editors =
     [(''code'', ''Open in VS Code''), (''cursor'', ''Open in Cursor''), (''zed'', ''Open in Zed''),
      (''ghostty'', ''Open in Ghostty''), (''nvim'', ''Open in Neovim (terminal)''), (''vim'', ''Open in Vim (terminal)''),
      (''emacs'', ''Open in Emacs''), (''subl'', ''Open in Sublime Text''), (''idea'', ''Open in IntelliJ IDEA'')]"

definition window_suffix :: "server \<Rightarrow> workspace \<Rightarrow> rstr" where
  "window_suffix sv ws =
     (if 1 < length (window_ids sv)
      then '' (Window '' @ show_nat (case Option.bind (ws_window_id ws) (\<lambda>i. position (\<lambda>w. w = i) (sort (window_ids sv))) of
             Some k \<Rightarrow> k + 1 | None \<Rightarrow> 1) @ '')''
      else [])"

definition em_dash_between :: "rstr \<Rightarrow> rstr \<Rightarrow> rstr" where
  "em_dash_between a b = a @ [CHR '' '', CHR 0xE2, CHR 0x80, CHR 0x94, CHR '' ''] @ b"

definition workspace_entries :: "server \<Rightarrow> palette_action list" where
  "workspace_entries sv =
     map (\<lambda>(i, ws). (entry (''workspace.select.'' @ show_nat i)
                        (em_dash_between (ws_display_title ws @ window_suffix sv ws) (ws_current_directory ws))
                        (if i < 9 then Some (''Ctrl+'' @ show_nat (i + 1)) else None))\<lparr> pa_is_workspace := True \<rparr>)
       (enumerate 0 (tm_workspaces (tabs sv)))"

text \<open>The last line of a screen that is not blank, cut to 80 characters.\<close>

definition screen_preview :: "rstr \<Rightarrow> rstr" where
  "screen_preview text =
     (case find (\<lambda>l. trim l \<noteq> []) (rev (lines_of text)) of Some l \<Rightarrow> take_chars 80 l | None \<Rightarrow> [])"

definition search_entries :: "(uuid \<Rightarrow> rstr option) \<Rightarrow> window \<Rightarrow> palette_action list" where
  "search_entries screen w =
     concat (map (\<lambda>(i, ws).
       List.map_filter (\<lambda>(p, q).
         if p_panel_type q = Terminal \<and> has_key p (wi_terminals w)
         then (case screen p of
                 Some t \<Rightarrow>
                   if trim t \<noteq> []
                   then Some ((entry (''surface.search.'' @ show_nat i @ ''.'' @ uuid_str p)
                                (em_dash_between (ws_display_title ws) (screen_preview t)) None)\<lparr> pa_is_search_result := True \<rparr>)
                   else None
               | None \<Rightarrow> None)
         else None) (ws_panels ws)) (enumerate 0 (tm_workspaces (wtabs w))))"

definition custom_entries :: "command_entry list \<Rightarrow> palette_action list" where
  "custom_entries cs =
     map (\<lambda>c. (entry (''custom:'' @ cm_name c) ([CHR 0xE2, CHR 0x96, CHR 0xB6, CHR '' ''] @ cm_name c) None)\<lparr>
                pa_search_terms := join '' '' (cm_keywords c) \<rparr>) cs"

definition build_actions :: "win_env \<Rightarrow> (rstr \<Rightarrow> bool) \<Rightarrow> (uuid \<Rightarrow> rstr option) \<Rightarrow> window \<Rightarrow> palette_action list" where
  "build_actions e installed screen w =
     map (\<lambda>(n, l). entry n l (shortcut_for_action (we_shortcuts e) n)) fixed_entries @
     (if se_remote_ssh (we_sock e) then [entry ''workspace.new_ssh'' ''New SSH Workspace...'' None] else []) @
     map (\<lambda>(b, l). entry (''open_in.'' @ b) l None) (filter (\<lambda>(b, _). installed b) editors) @
     workspace_entries (wi_server w) @ search_entries screen w @ custom_entries (we_commands e (current_dir w))"

text \<open>The characters of the query appear in the entry in this order.\<close>

fun in_order :: "'a list \<Rightarrow> 'a list \<Rightarrow> bool" where
  "in_order hay [] \<longleftrightarrow> True"
| "in_order [] (n # ns) \<longleftrightarrow> False"
| "in_order (h # hay) (n # ns) \<longleftrightarrow> (if h = n then in_order hay ns else in_order hay (n # ns))"

definition fuzzy_match :: "(rstr \<Rightarrow> rstr) \<Rightarrow> rstr \<Rightarrow> rstr \<Rightarrow> bool" where
  "fuzzy_match fold_case haystack needle \<longleftrightarrow> in_order (chars (fold_case haystack)) (chars needle)"

text \<open>The entries \<open>populate_list\<close> shows: a leading \<open>>\<close> asks for commands, otherwise workspaces are listed, and with a
  query also what is on the screens.\<close>

definition shown_entry :: "(rstr \<Rightarrow> rstr) \<Rightarrow> rstr \<Rightarrow> palette_action \<Rightarrow> bool" where
  "shown_entry fold_case query a \<longleftrightarrow>
     (let (command_mode, q) = (case strip_prefix ''>'' query of
            Some r \<Rightarrow> (True, fold_case (trim_start r)) | None \<Rightarrow> (False, fold_case query))
      in (if command_mode then \<not> pa_is_workspace a \<and> \<not> pa_is_search_result a
          else if query = [] then pa_is_workspace a
          else pa_is_workspace a \<or> pa_is_search_result a) \<and>
         (q \<noteq> [] \<longrightarrow> fuzzy_match fold_case (pa_label a) q \<or>
            (pa_search_terms a \<noteq> [] \<and> fuzzy_match fold_case (pa_search_terms a) q)))"

definition populate_list :: "(rstr \<Rightarrow> rstr) \<Rightarrow> rstr \<Rightarrow> palette_action list \<Rightarrow> palette_action list" where
  "populate_list fold_case query = filter (shown_entry fold_case query)"

section \<open>What an entry does\<close>

definition new_workspace_of :: "win_env \<Rightarrow> (workspace \<Rightarrow> workspace) \<Rightarrow> window \<Rightarrow> window" where
  "new_workspace_of e f =
     on_server (\<lambda>sv. draw 2 (set_tabs (fst (add_workspace (f (ws_new (home_of e) (next_id sv) (Suc (next_id sv)))) (tabs sv))) sv))"

definition typed_workspace :: "PanelType \<Rightarrow> (rstr option \<Rightarrow> panel \<Rightarrow> panel) \<Rightarrow> workspace \<Rightarrow> workspace" where
  "typed_workspace ty f ws =
     initial_panel (\<lambda>q. f (Some (ws_current_directory ws)) (q\<lparr> p_panel_type := ty, p_command := None \<rparr>)) ws"

definition break_focused :: "win_env \<Rightarrow> window \<Rightarrow> window" where
  "break_focused e =
     on_server (\<lambda>sv.
       case tm_selected (tabs sv) of
         None \<Rightarrow> sv
       | Some ws \<Rightarrow>
           (case ws_focused_panel_id ws of
              None \<Rightarrow> sv
            | Some p \<Rightarrow>
                if length (ws_panels ws) \<le> 1 then sv
                else (case detach_panel p ws of
                        (_, None) \<Rightarrow> sv
                      | (ws', Some q) \<Rightarrow>
                          (let tm = edit_selected (\<lambda>_. ws') (tabs sv);
                               tm = (if ws_is_empty ws' then fst (remove_by_id (the_clock (we_sock e)) (ws_id ws) tm) else tm)
                           in draw 2 (set_tabs (fst (add_workspace
                                (broken_out (home_of e) (next_id sv) (ws_current_directory ws) p q) tm)) sv)))))"

definition toggle_hibernation :: "win_env \<Rightarrow> window \<Rightarrow> window" where
  "toggle_hibernation e w =
     (case focused_panel w of
        None \<Rightarrow> w
      | Some p \<Rightarrow>
          on_server (\<lambda>sv. if p \<in> set (sv_hibernated sv) then fst (wake_panel (we_sock e) p sv)
                          else fst (hibernate_panel (we_sock e) p sv)) w)"

text \<open>The entries that only send an event, those that change the tab manager, and the rest. Each table is in the
  order of the source; an event is sent without a refresh.\<close>

definition event_entries :: "(rstr \<times> ui_event) list" where
  "event_entries =
     [(''settings.open'', UiOpenSettings), (''config.reload'', UiReloadConfig), (''notifications.toggle'', UiToggleNotifications),
      (''notification.defer_unread'', UiDeferUnread), (''notification.toggle_unread'', UiToggleUnread),
      (''workspace.open_folder'', UiOpenFolderAsWorkspace), (''workspace.new_ssh'', UiOpenSshDialog),
      (''browser.reopen_closed'', UiReopenClosedBrowser), (''markdown.open'', UiOpenMarkdownFile),
      (''task_manager.open'', UiOpenTaskManager)]"

definition panel_event_entries :: "(rstr \<times> (uuid \<Rightarrow> ui_event)) list" where
  "panel_event_entries =
     [(''surface.flash'', UiTriggerFlash), (''surface.clear_screen'', UiClearHistory), (''surface.clear_history'', UiClearHistory),
      (''tab.rename'', UiRenameTab), (''terminal.copy_mode'', UiCopyMode)]"

definition tab_entries :: "(rstr \<times> (tab_manager \<Rightarrow> tab_manager)) list" where
  "tab_entries =
     [(''workspace.next'', select_next True), (''workspace.previous'', select_previous True), (''workspace.last'', select_last),
      (''workspace.focus_back'', \<lambda>tm. fst (focus_back tm)), (''workspace.focus_forward'', \<lambda>tm. fst (focus_forward tm)),
      (''workspace.latest_unread'', \<lambda>tm. fst (select_latest_unread tm)),
      (''workspace.reopen_closed'', \<lambda>tm. fst (reopen_last_closed tm))]"

definition selected_entries :: "(rstr \<times> (workspace \<Rightarrow> workspace)) list" where
  "selected_entries =
     [(''pane.zoom_toggle'', toggle_zoom),
      (''pane.last'', \<lambda>ws. case ws_previous_focused_panel_id ws of Some p \<Rightarrow> fst (focus_panel p ws) | None \<Rightarrow> ws),
      (''workspace.pin'', \<lambda>ws. ws\<lparr> ws_is_pinned := \<not> ws_is_pinned ws \<rparr>), (''workspace.mark_read'', mark_notifications_read),
      (''workspace.mark_unread'', \<lambda>ws. ws\<lparr> ws_unread_count := max (ws_unread_count ws) 1 \<rparr>),
      (''pane.equalize'', \<lambda>ws. fst (in_layout equalize ws)), (''tab.close_others'', \<lambda>ws. drop_tabs (pane_others ws) ws)]"

definition focus_entries :: "(rstr \<times> (uuid \<Rightarrow> LayoutNode \<Rightarrow> uuid option)) list" where
  "focus_entries =
     [(''pane.focus_next'', \<lambda>p l. next_panel_id l p), (''pane.focus_prev'', \<lambda>p l. prev_panel_id l p),
      (''pane.focus_left'', \<lambda>p. neighbor p DLeft), (''pane.focus_right'', \<lambda>p. neighbor p DRight),
      (''pane.focus_up'', \<lambda>p. neighbor p DUp), (''pane.focus_down'', \<lambda>p. neighbor p DDown),
      (''tab.next_in_pane'', \<lambda>p l. next_panel_in_pane l p), (''tab.prev_in_pane'', \<lambda>p l. prev_panel_in_pane l p)]"

text \<open>A new panel in the selected workspace.\<close>

definition panel_entries :: "(rstr \<times> (uuid \<Rightarrow> workspace \<Rightarrow> workspace)) list" where
  "panel_entries =
     [(''workspace.open_history'', \<lambda>i ws. fst (insert_panel (new_history i) Horizontal ws)),
      (''workspace.open_vault'', \<lambda>i ws. fst (insert_panel (new_vault i) Horizontal ws)),
      (''pane.split_horizontal'', \<lambda>i ws. fst (ws_split Horizontal Terminal i ws)),
      (''pane.split_vertical'', \<lambda>i ws. fst (ws_split Vertical Terminal i ws)),
      (''pane.new_browser'', \<lambda>i ws. fst (ws_split Vertical Browser i ws)),
      (''tab.reopen'', \<lambda>i ws. fst (reopen_last_closed_panel i ws)),
      (''pane.split_browser_h'', \<lambda>i ws. fst (ws_split Horizontal Browser i ws)),
      (''pane.split_browser_v'', \<lambda>i ws. fst (ws_split Vertical Browser i ws))]"

definition workspace_kinds :: "(rstr \<times> (workspace \<Rightarrow> workspace)) list" where
  "workspace_kinds =
     [(''workspace.new'', \<lambda>ws. ws),
      (''workspace.new_browser'', typed_workspace Browser (\<lambda>d q. q)),
      (''workspace.new_diff'', typed_workspace Diff (\<lambda>d q. q\<lparr> p_directory := d, p_title := Some ''Diff'' \<rparr>)),
      (''workspace.new_project'', typed_workspace Project (\<lambda>d q. q\<lparr> p_directory := d, p_title := Some ''Project'' \<rparr>))]"

definition search_target :: "win_env \<Rightarrow> rstr \<Rightarrow> (nat \<times> uuid option) option" where
  "search_target e name =
     (case strip_prefix ''surface.search.'' name of
        None \<Rightarrow> None
      | Some r \<Rightarrow>
          (case split_once (CHR ''.'') r of
             None \<Rightarrow> None
           | Some (i, p) \<Rightarrow> map_option (\<lambda>i. (i, se_parse (we_sock e) p)) (parse_unsigned (2 ^ 64) i)))"

definition select_found :: "nat \<times> uuid option \<Rightarrow> window \<Rightarrow> window" where
  "select_found t w =
     (let w = on_tabs (\<lambda>tm. fst (tm_select (fst t) tm)) w
      in case snd t of Some p \<Rightarrow> in_selected (\<lambda>ws. fst (focus_panel p ws)) w | None \<Rightarrow> w)"

definition open_selected_with :: "rstr \<Rightarrow> window \<Rightarrow> window" where
  "open_selected_with program w =
     (case tm_selected (wtabs w) of Some ws \<Rightarrow> fx (FxOpenWith program (ws_current_directory ws)) w | None \<Rightarrow> w)"

definition open_in_editor :: "win_env \<Rightarrow> rstr \<Rightarrow> window \<Rightarrow> window" where
  "open_in_editor e path =
     fx (FxOpenWith (case opt_filter (\<lambda>s. s \<noteq> []) (we_editor e) of Some ed \<Rightarrow> ed | None \<Rightarrow> ''xdg-open'') path)"

text \<open>Entries that return without a refresh; no value is an entry of the other kind.\<close>

definition silent_entry :: "win_env \<Rightarrow> rstr \<Rightarrow> window \<Rightarrow> window option" where
  "silent_entry e name w =
     (case map_of event_entries name of
        Some ev \<Rightarrow> Some (send ev w)
      | None \<Rightarrow>
          (case map_of panel_event_entries name of
             Some ev \<Rightarrow> Some (send_about_focused ev w)
           | None \<Rightarrow>
               if name = ''open_folder'' then Some (open_selected_with ''xdg-open'' w)
               else if starts_with ''open_in.'' name
               then Some (if drop 8 name \<in> fst ` set editors then open_selected_with (drop 8 name) w else w)
               else if name = ''font.increase'' then Some (font_step BaZoomIn ''increase_font_size:1'' w)
               else if name = ''font.decrease'' then Some (font_step BaZoomOut ''decrease_font_size:1'' w)
               else if name = ''font.reset'' then Some (font_step (BaSetZoom (Fin False 1)) ''reset_font_size'' w)
               else if name = ''settings.ghostty''
               then Some (open_in_editor e (path_join (case home_of e of Some h \<Rightarrow> h | None \<Rightarrow> ''~'') ''.config/ghostty/config'') w)
               else if name = ''settings.jmux'' then Some (open_in_editor e (we_config_path e) w)
               else None))"

text \<open>The entries of the palette that only refresh do nothing else.\<close>

definition changing_entry :: "win_env \<Rightarrow> rstr \<Rightarrow> window \<Rightarrow> window" where
  "changing_entry e name w =
     (case map_of tab_entries name of
        Some f \<Rightarrow> on_tabs f w
      | None \<Rightarrow>
     (case map_of selected_entries name of
        Some f \<Rightarrow> in_selected f w
      | None \<Rightarrow>
     (case map_of focus_entries name of
        Some f \<Rightarrow> fst (focus_step f w)
      | None \<Rightarrow>
     (case map_of panel_entries name of
        Some f \<Rightarrow> new_in_selected f w
      | None \<Rightarrow>
     (case map_of workspace_kinds name of
        Some f \<Rightarrow> new_workspace_of e f w
      | None \<Rightarrow>
          if name = ''workspace.new_notes'' then insert_notes_panel e w
          else if name \<in> {''pane.close'', ''tab.close''}
          then (if focused_panel w = None then w else fx FxFocusTerminal (fst (close_focused e w)))
          else if name = ''workspace.close'' then close_selected_workspace e w
          else if name = ''pane.break'' then break_focused e w
          else if name = ''workspace.hibernate'' then toggle_hibernation e w
          else if name = ''goal.run'' then send (UiOpenGoalDialog None) w
          else if name = ''overview.open'' then fx FxOverview w
          else if name = ''dock.toggle'' then fx (FxDock (current_dir w)) w
          else (case Option.bind (strip_prefix ''workspace.select.'' name) (parse_unsigned (2 ^ 64)) of
                  Some i \<Rightarrow> on_tabs (\<lambda>tm. fst (tm_select i tm)) w
                | None \<Rightarrow> (case search_target e name of Some t \<Rightarrow> select_found t w | None \<Rightarrow> w)))))))"

text \<open>\<open>confirmed\<close> is the user's answer to the question a command may ask before it runs.\<close>

definition execute_action :: "win_env \<Rightarrow> bool \<Rightarrow> rstr \<Rightarrow> window \<Rightarrow> window" where
  "execute_action e confirmed name w =
     (case silent_entry e name w of
        Some w' \<Rightarrow> w'
      | None \<Rightarrow>
          (case strip_prefix ''custom:'' name of
             Some c \<Rightarrow>
               (case find (\<lambda>x. cm_name x = c) (we_commands e (current_dir w)) of
                  None \<Rightarrow> w
                | Some x \<Rightarrow>
                    if cm_confirm x \<and> \<not> confirmed then w else refresh_ui e (do_custom_command e x (current_dir w) w))
           | None \<Rightarrow> refresh_ui e (changing_entry e name w)))"

definition run_custom_command_by_name :: "win_env \<Rightarrow> rstr \<Rightarrow> window \<Rightarrow> window" where
  "run_custom_command_by_name e name w =
     (case find (\<lambda>c. cm_name c = name) (we_commands e (current_dir w)) of
        Some c \<Rightarrow> do_custom_command e c (current_dir w) w
      | None \<Rightarrow> w)"

end
