(* ===== verification/Window_Events.thy ===== *)
theory Window_Events imports Command_Palette begin

text \<open>
  The event loop of the main window (\<open>bind_shared_state_updates\<close> in \<open>jmux/src/ui/window/event_handler.rs\<close>): what each
  event does, with the answers of dialogs as steps of their own, and what the terminals report
  (\<open>on_action\<close> and \<open>parse_deep_link\<close> in \<open>jmux/src/app.rs\<close>).
\<close>

section \<open>Shared steps\<close>

text \<open>\<open>filter(|c| !c.is_control())\<close>\<close>

definition sanitize :: "rstr \<Rightarrow> rstr" where
  "sanitize s = concat (filter (\<lambda>c. \<not> is_control c) (chars s))"

definition panel_of_surface :: "nat \<Rightarrow> window \<Rightarrow> uuid option" where
  "panel_of_surface s w = map_option fst (find (\<lambda>(_, a). a = s) (wi_terminals w))"

text \<open>A terminal that has no surface yet gets one.\<close>

definition send_input_to_panel :: "win_env \<Rightarrow> uuid \<Rightarrow> rstr \<Rightarrow> window \<Rightarrow> window" where
  "send_input_to_panel e p text w =
     (if has_key p (wi_terminals w) then fx (FxType p text) w
      else case Option.bind (find_workspace_with_panel p (wtabs w)) (\<lambda>ws. map_of (ws_panels ws) p) of
             Some q \<Rightarrow>
               if p_panel_type q = Terminal
               then fx (FxType p text) (w\<lparr> wi_terminals := wi_terminals w @ [(p, we_surface e p)] \<rparr>) else w
           | None \<Rightarrow> w)"

text \<open>\<open>open_browser_tab\<close>: a browser panel that shows an address joins the pane of a panel. The result of adding it to
  the pane is not looked at.\<close>

definition browser_panel_for :: "uuid \<Rightarrow> rstr \<Rightarrow> panel" where
  "browser_panel_for i url = (new_browser i)\<lparr> p_browser_url := Some url, p_directory := Some url \<rparr>"

definition open_browser_tab :: "(workspace \<Rightarrow> uuid option) \<Rightarrow> rstr \<Rightarrow> uuid \<Rightarrow> workspace \<Rightarrow> workspace" where
  "open_browser_tab source url i ws =
     ws\<lparr> ws_panels := AList.update i (browser_panel_for i url) (ws_panels ws),
         ws_layout := fst (add_panel_to_pane (or_default i (source ws)) i (ws_layout ws)),
         ws_focused_panel_id := Some i \<rparr>"

definition open_markdown_tab :: "rstr \<Rightarrow> uuid \<Rightarrow> workspace \<Rightarrow> workspace" where
  "open_markdown_tab path i ws =
     ws\<lparr> ws_panels := AList.update i (new_markdown i path) (ws_panels ws),
         ws_layout := (case ws_focused_panel_id ws of Some f \<Rightarrow> fst (add_panel_to_pane f i (ws_layout ws)) | None \<Rightarrow> ws_layout ws),
         ws_previous_focused_panel_id := ws_focused_panel_id ws, ws_focused_panel_id := Some i \<rparr>"

definition set_panel_title :: "uuid \<Rightarrow> rstr \<Rightarrow> workspace \<Rightarrow> workspace" where
  "set_panel_title p t ws =
     (let ws = ws\<lparr> ws_panels := modify_panel p (\<lambda>q. q\<lparr> p_title := Some t \<rparr>) (ws_panels ws) \<rparr>
      in if ws_focused_panel_id ws = Some p then ws\<lparr> ws_process_title := t \<rparr> else ws)"

definition set_panel_pwd :: "win_env \<Rightarrow> uuid \<Rightarrow> rstr \<Rightarrow> workspace \<Rightarrow> workspace" where
  "set_panel_pwd e p d ws =
     (let ws = ws\<lparr> ws_panels := modify_panel p (\<lambda>q. q\<lparr> p_directory := Some d \<rparr>) (ws_panels ws) \<rparr>
      in if ws_focused_panel_id ws = Some p then ws\<lparr> ws_current_directory := d, ws_git_branch := we_branch e d \<rparr> else ws)"

definition set_remote_state :: "uuid \<Rightarrow> remote_state \<Rightarrow> window \<Rightarrow> window" where
  "set_remote_state i s = on_tabs (edit_workspace i (\<lambda>ws. ws\<lparr> ws_remote_state := Some s \<rparr>))"

text \<open>\<open>store.add\<close> and the badge of the workspace the panel is in.\<close>

definition terminal_notification :: "win_env \<Rightarrow> uuid option \<Rightarrow> rstr \<Rightarrow> rstr \<Rightarrow> window \<Rightarrow> window" where
  "terminal_notification e p title body w =
     (let now = en_time (se_env (we_sock e));
          i = map_option ws_id (Option.bind p (\<lambda>p. find_workspace_with_panel p (wtabs w)));
          w = on_server (\<lambda>sv.
                let (ns, _, d) = notify_add (next_id sv) now title body i p True (sh_notes (sv_sh sv));
                    sv = draw 1 (set_notes ns sv)
                in case d of Some (t, b) \<Rightarrow> sv\<lparr> sv_sh := act (Desktop t b) (sv_sh sv) \<rparr> | None \<Rightarrow> sv) w
      in case i of Some i \<Rightarrow> on_tabs (edit_workspace i (record_notification now title body p)) w | None \<Rightarrow> w)"

definition toggle_unread :: "uuid \<Rightarrow> window \<Rightarrow> window" where
  "toggle_unread i w =
     (let ns = sh_notes (sv_sh (wi_server w)) in
      if 0 < unread_count_for_workspace i ns then read_workspace i w
      else on_server (\<lambda>sv. set_tabs (edit_workspace i (\<lambda>ws. ws\<lparr> ws_unread_count := 1 \<rparr>) (tabs sv))
                             (set_notes (fst (mark_latest_unread_for_workspace i ns)) sv)) w)"

definition remote_connect :: "win_env \<Rightarrow> uuid \<Rightarrow> window \<Rightarrow> window \<times> bool" where
  "remote_connect e i w =
     (if \<not> se_remote_ssh (we_sock e) then (w, False)
      else case Option.bind (tm_workspace i (wtabs w)) ws_remote_config of
             Some c \<Rightarrow> (fx (FxStartRemote i c) (set_remote_state i Connecting w), True)
           | None \<Rightarrow> (w, False))"

text \<open>\<open>AgentResume\<close>\<close>

definition agent_resume :: "win_env \<Rightarrow> window \<Rightarrow> window" where
  "agent_resume e w =
     (case Option.bind (tm_selected (wtabs w)) (\<lambda>ws. Option.bind (ws_focused_panel_id ws) (map_of (ws_panels ws))) of
        None \<Rightarrow> w
      | Some q \<Rightarrow>
          (case opt_filter (is_enabled_for (we_restore e)) (detect_agent_resume_command (p_title q) (p_command q)) of
             Some c \<Rightarrow> send_input_to_panel e (the (focused_panel w)) (c @ [CHR 0x0A]) w
           | None \<Rightarrow> w))"

definition screen_answer :: "win_env \<Rightarrow> uuid \<Rightarrow> bool \<Rightarrow> nat option \<Rightarrow> window \<Rightarrow> rstr option" where
  "screen_answer e p scrollback n w =
     map_option (\<lambda>t. case n of
                       Some k \<Rightarrow> if 0 < k then (let ls = lines_of t in join [CHR 0x0A] (drop (length ls - k) ls)) else t
                     | None \<Rightarrow> t)
       (if has_key p (wi_terminals w) then we_screen e p scrollback else None)"

section \<open>Events\<close>

text \<open>What an event asks for: nothing, the sidebar and titles, or everything.\<close>

datatype refresh_need = NeedNothing | NeedMetadata | NeedAll

definition on_terminal :: "uuid \<Rightarrow> fx list \<Rightarrow> window \<Rightarrow> window" where
  "on_terminal p xs w = (if has_key p (wi_terminals w) then w\<lparr> wi_fx := wi_fx w @ xs \<rparr> else w)"

definition on_selected_id :: "(uuid \<Rightarrow> window \<Rightarrow> window) \<Rightarrow> window \<Rightarrow> window \<times> refresh_need" where
  "on_selected_id f w =
     (case tm_selected (wtabs w) of Some ws \<Rightarrow> (f (ws_id ws) w, NeedMetadata) | None \<Rightarrow> (w, NeedNothing))"

definition on_surface_panel :: "nat \<Rightarrow> (uuid \<Rightarrow> workspace \<Rightarrow> workspace) \<Rightarrow> window \<Rightarrow> window \<times> refresh_need" where
  "on_surface_panel s f w =
     (case panel_of_surface s w of
        Some p \<Rightarrow> (on_tabs (edit_holder p (f p)) w, NeedMetadata)
      | None \<Rightarrow> (w, NeedNothing))"

definition deep_link_params :: "rstr \<Rightarrow> nat option \<Rightarrow> json" where
  "deep_link_params destination port =
     JObj ((''destination'', JStr destination) # (case port of Some p \<Rightarrow> [(''port'', JInt (int p))] | None \<Rightarrow> []))"

fun handle_event :: "win_env \<Rightarrow> ui_event \<Rightarrow> window \<Rightarrow> window \<times> refresh_need" where
  "handle_event e UiRefresh w = (w, NeedAll)"
| "handle_event e UiMetadataRefresh w = (w, NeedMetadata)"
| "handle_event e (UiShowToast m) w = (fx (FxToast m) w, NeedNothing)"
| "handle_event e (UiSendInput p t) w = (send_input_to_panel e p t w, NeedNothing)"
| "handle_event e UiOpenSettings w = (fx (FxDialog ''settings'') w, NeedNothing)"
| "handle_event e (UiTriggerFlash p) w = (if we_flash e then on_terminal p [FxFlash p] w else w, NeedNothing)"
| "handle_event e (UiSendKey p a b c) w =
     (if has_key p (wi_terminals w) then fx (FxKey p a b c) w else fx (FxIdleKey p a b c) w, NeedNothing)"
| "handle_event e (UiReadText p s n) w = (fx (FxAnswerText (screen_answer e p s n w)) w, NeedNothing)"
| "handle_event e (UiRefreshSurface p) w = (on_terminal p [FxRedraw p] w, NeedNothing)"
| "handle_event e (UiClearHistory p) w = (on_terminal p [FxBinding p ''clear_screen'', FxRedraw p] w, NeedNothing)"
| "handle_event e UiToggleMinimalMode w = (toggle_minimal w, NeedNothing)"
| "handle_event e UiToggleNotifications w = (toggle_notifications w, NeedNothing)"
| "handle_event e (UiShowSidebar s) w =
     ((if s \<and> wi_notifications w then w\<lparr> wi_notifications := False, wi_collapsed := False \<rparr>
       else w\<lparr> wi_collapsed := \<not> s \<rparr>), NeedNothing)"
| "handle_event e UiToggleSidebar w = (w\<lparr> wi_collapsed := \<not> wi_collapsed w \<rparr>, NeedNothing)"
| "handle_event e UiDeferUnread w = on_selected_id read_workspace w"
| "handle_event e UiToggleUnread w = on_selected_id toggle_unread w"
| "handle_event e (UiRenameTab p) w = (fx (FxRenameTabDialog p) w, NeedAll)"
| "handle_event e (UiSetTitle s t) w = on_surface_panel s (\<lambda>p. set_panel_title p (sanitize t)) w"
| "handle_event e (UiSetPwd s d) w = on_surface_panel s (\<lambda>p. set_panel_pwd e p (sanitize d)) w"
| "handle_event e UiOpenFolderAsWorkspace w = (fx FxPickFolder w, NeedNothing)"
| "handle_event e (UiCopyMode p) w = (on_terminal p [FxBinding p ''copy_mode'', FxCopyBadge p] w, NeedNothing)"
| "handle_event e (UiBrowserOpenInNewTab p url) w = (new_in_selected (open_browser_tab (\<lambda>_. Some p) url) w, NeedAll)"
| "handle_event e UiReopenClosedBrowser w =
     (case pop_closed_browser_url w of
        (w', Some url) \<Rightarrow> (new_in_selected (open_browser_tab ws_focused_panel_id url) w', NeedAll)
      | (w', None) \<Rightarrow> (w', NeedNothing))"
| "handle_event e (UiOpenUrlInBrowser url) w =
     (if we_external e url then (fx (FxOpenUrl url) w, NeedNothing)
      else (new_in_selected (open_browser_tab ws_focused_panel_id url) w, NeedAll))"
| "handle_event e UiOpenMarkdownFile w = (fx FxPickMarkdown w, NeedNothing)"
| "handle_event e (UiBrowserAction p a) w = (fx (FxBrowser p a) w, NeedNothing)"
| "handle_event e (UiImportBrowserCookies s) w = (fx (FxImport s) w, NeedNothing)"
| "handle_event e UiCreateWindow w = (fx FxWindow w, NeedNothing)"
| "handle_event e UiListDisplays w = (fx FxAnswerDisplays w, NeedNothing)"
| "handle_event e (UiWindowToDisplay m) w = (fx (FxPlaceOn m) w, NeedNothing)"
| "handle_event e UiReloadConfig w = (refresh_ui e (fx FxReloadGhostty w), NeedNothing)"
| "handle_event e UiReloadTheme w = (fx FxReloadTheme w, NeedNothing)"
| "handle_event e (UiDesktopNotification s t b) w = (terminal_notification e (panel_of_surface s w) t b w, NeedMetadata)"
| "handle_event e (UiOpenGoalDialog t) w = (fx (FxGoalDialog t) w, NeedNothing)"
| "handle_event e UiOpenSshDialog w = (fx (FxDialog ''ssh'') w, NeedNothing)"
| "handle_event e (UiOpenSshDeepLink d port) w =
     (on_server (\<lambda>sv. fst (handle_workspace_create_ssh (we_sock e) (deep_link_params d port) sv)) w, NeedNothing)"
| "handle_event e (UiRemoteConnect i) w = map_prod id (\<lambda>r. if r then NeedAll else NeedNothing) (remote_connect e i w)"
| "handle_event e (UiRemoteDisconnect i) w =
     (set_remote_state i Disconnected
        (if i \<in> set (wi_sessions w) then fx (FxStopRemote i) (w\<lparr> wi_sessions := removeAll i (wi_sessions w) \<rparr>) else w), NeedAll)"
| "handle_event e (UiRemoteStateChanged i s) w =
     (set_remote_state i s (case s of RemoteError m \<Rightarrow> fx (FxToast m) w | _ \<Rightarrow> w), NeedAll)"
| "handle_event e UiOpenTaskManager w = (fx FxTaskManager w, NeedNothing)"
| "handle_event e UiOpenOverview w = (fx FxOverview w, NeedNothing)"
| "handle_event e UiOpenCommandPalette w = (fx FxPalette w, NeedNothing)"
| "handle_event e UiShowDock w = (fx (FxShowDock (current_dir w)) w, NeedNothing)"
| "handle_event e (UiRunCustomCommand n) w = (run_custom_command_by_name e n w, NeedNothing)"
| "handle_event e (UiQuickTerminal a) w = (fx (FxQuickTerminal a) w, NeedNothing)"
| "handle_event e UiAgentResume w = (agent_resume e w, NeedNothing)"
| "handle_event e UiStartSearch w = (w, NeedNothing)"
| "handle_event e UiEndSearch w = (w, NeedNothing)"
| "handle_event e UiSearchTotal w = (w, NeedNothing)"
| "handle_event e UiSearchSelected w = (w, NeedNothing)"

text \<open>The events that wait are taken in one go, with what they ask for together.\<close>

fun handle_batch :: "win_env \<Rightarrow> ui_event list \<Rightarrow> window \<Rightarrow> window \<times> bool \<times> bool" where
  "handle_batch e [] w = (w, False, False)"
| "handle_batch e (ev # evs) w =
     (let (w, n) = handle_event e ev w; (w, full, meta) = handle_batch e evs w
      in (w, full \<or> n = NeedAll, meta \<or> n = NeedMetadata))"

section \<open>Answers\<close>

text \<open>The answers of the two file choosers, the key that had to wait, and the end of a connection attempt.\<close>

definition folder_picked :: "win_env \<Rightarrow> rstr option \<Rightarrow> window \<Rightarrow> window" where
  "folder_picked e dir w =
     (case dir of
        None \<Rightarrow> w
      | Some d \<Rightarrow>
          refresh_ui e (on_server (\<lambda>sv.
            draw 2 (set_tabs (fst (add_workspace_with_placement (with_directory (home_of e) (next_id sv) (Suc (next_id sv)) d)
                     (en_placement (se_env (we_sock e))) (tabs sv))) sv)) w))"

definition markdown_picked :: "win_env \<Rightarrow> rstr option \<Rightarrow> window \<Rightarrow> window" where
  "markdown_picked e path w =
     (case path of None \<Rightarrow> w | Some f \<Rightarrow> refresh_ui e (new_in_selected (open_markdown_tab f) w))"

definition idle_key :: "uuid \<Rightarrow> u32 \<Rightarrow> u32 \<Rightarrow> u32 \<Rightarrow> window \<Rightarrow> window" where
  "idle_key p a b c = on_terminal p [FxKey p a b c]"

text \<open>\<open>ok\<close> says whether the connection was made; its state is announced in either case.\<close>

definition remote_started :: "uuid \<Rightarrow> bool \<Rightarrow> remote_state \<Rightarrow> window \<Rightarrow> window" where
  "remote_started i ok s w =
     send (UiRemoteStateChanged i s) (if ok then w\<lparr> wi_sessions := List.insert i (wi_sessions w) \<rparr> else w)"

text \<open>The monitor of a connection: it gives up when the session is gone or no longer alive.\<close>

definition remote_lost :: "rstr" where
  "remote_lost = ''Connection lost '' @ [CHR 0xE2, CHR 0x80, CHR 0x94] @ '' use Reconnect to retry''"

definition monitor_remote :: "uuid \<Rightarrow> bool \<Rightarrow> window \<Rightarrow> window \<times> bool" where
  "monitor_remote i alive w =
     (if i \<notin> set (wi_sessions w) then (w, False)
      else if alive then (w, True)
      else (send (UiRemoteStateChanged i (RemoteError remote_lost)) (w\<lparr> wi_sessions := removeAll i (wi_sessions w) \<rparr>), False))"

section \<open>What the terminals and links report\<close>

text \<open>\<open>on_action\<close>; a pointer that is null is no value, text that is not UTF-8 neither.\<close>

datatype ghostty_action =
    GaRender | GaSetTitle "nat option" "rstr option" | GaPwd "nat option" "rstr option" | GaStartSearch | GaEndSearch
  | GaSearchTotal | GaSearchSelected | GaRingBell | GaScrollbar | GaNewTab | GaOpenUrl "rstr option" | GaCommandFinished
  | GaDesktopNotification "nat option" rstr rstr | GaOther

definition send_opt :: "ui_event option \<Rightarrow> window \<Rightarrow> window" where
  "send_opt ev w = (case ev of Some ev \<Rightarrow> send ev w | None \<Rightarrow> w)"

definition both :: "'a option \<Rightarrow> 'b option \<Rightarrow> ('a \<Rightarrow> 'b \<Rightarrow> 'c) \<Rightarrow> 'c option" where
  "both a b f = Option.bind a (\<lambda>x. map_option (f x) b)"

fun on_action :: "win_env \<Rightarrow> ghostty_action \<Rightarrow> window \<Rightarrow> window \<times> bool" where
  "on_action e GaRender w = (w, True)"
| "on_action e (GaSetTitle s t) w = (send_opt (both s t UiSetTitle) w, True)"
| "on_action e (GaPwd s d) w = (send_opt (both s d UiSetPwd) w, True)"
| "on_action e GaStartSearch w = (send UiStartSearch w, True)"
| "on_action e GaEndSearch w = (send UiEndSearch w, True)"
| "on_action e GaSearchTotal w = (send UiSearchTotal w, True)"
| "on_action e GaSearchSelected w = (send UiSearchSelected w, True)"
| "on_action e GaRingBell w = (w, True)"
| "on_action e GaScrollbar w = (w, True)"
| "on_action e GaNewTab w = (on_server notify_ui_refresh (new_in_selected (add_tab e) w), True)"
| "on_action e (GaOpenUrl u) w = (send_opt (map_option UiOpenUrlInBrowser u) w, True)"
| "on_action e GaCommandFinished w = (w, True)"
| "on_action e (GaDesktopNotification s t b) w = (send_opt (map_option (\<lambda>s. UiDesktopNotification s t b) s) w, True)"
| "on_action e GaOther w = (w, False)"

text \<open>\<open>host:port\<close>; a port that is not a number stays in the name.\<close>

definition host_port :: "rstr \<Rightarrow> rstr \<times> nat option" where
  "host_port s =
     (case rsplit_at (CHR '':'') s of
        Some (h, p) \<Rightarrow> (case parse_unsigned (2 ^ 16) p of Some n \<Rightarrow> (h, Some n) | None \<Rightarrow> (s, None))
      | None \<Rightarrow> (s, None))"

definition link_authority :: "rstr \<Rightarrow> rstr \<times> nat option" where
  "link_authority a =
     (case rsplit_at (CHR 0x40) a of
        Some (user, host) \<Rightarrow>
          (case host_port host of (h, Some p) \<Rightarrow> (user @ [CHR 0x40] @ h, Some p) | (_, None) \<Rightarrow> (a, None))
      | None \<Rightarrow> host_port a)"

definition parse_deep_link :: "rstr \<Rightarrow> ui_event option" where
  "parse_deep_link uri =
     (case strip_prefix ''jmux://'' uri of
        None \<Rightarrow> None
      | Some rest \<Rightarrow>
          (let (cmd, tail) = (case split_once (CHR ''/'') rest of Some ct \<Rightarrow> ct | None \<Rightarrow> (rest, [])) in
           if cmd \<noteq> ''ssh'' then None
           else (let a = takeWhile (\<lambda>c. c \<noteq> CHR ''/'') tail; (d, port) = link_authority a
                 in if a = [] \<or> d = [] then None else Some (UiOpenSshDeepLink d port))))"

end
