(* ===== verification/Window_Invariant.thy ===== *)
theory Window_Invariant imports Socket_Invariant Window_Events begin

text \<open>
  The whole application as a machine: requests on the socket, keys, entries of the palette, events and answers of
  dialogs in any order keep the window's state well formed.
\<close>

named_theorems windowed

definition win_ok :: "window \<Rightarrow> bool" where
  "win_ok w \<longleftrightarrow>
     server_ok (wi_server w) \<and> distinct (map fst (wi_terminals w)) \<and> distinct (wi_sessions w) \<and> length (wi_closed_urls w) \<le> 20"

section \<open>Parts\<close>

lemma win_fields [windowed]:
  assumes "win_ok w"
  shows "win_ok (fx x w)" "win_ok (w\<lparr> wi_fx := f \<rparr>)" "win_ok (w\<lparr> wi_find := b \<rparr>)" "win_ok (w\<lparr> wi_notifications := b \<rparr>)"
    "win_ok (w\<lparr> wi_collapsed := b \<rparr>)" "win_ok (w\<lparr> wi_header := b \<rparr>)" "win_ok (w\<lparr> wi_sessions := removeAll i (wi_sessions w) \<rparr>)"
    "win_ok (w\<lparr> wi_sessions := List.insert i (wi_sessions w) \<rparr>)" "win_ok (push_closed_browser_url url w)"
    "win_ok (fst (pop_closed_browser_url w))" "win_ok (on_terminal p xs w)"
    "win_ok (w\<lparr> wi_notifications := b, wi_collapsed := c \<rparr>)"
  using assms
  by (auto simp: win_ok_def fx_def distinct_removeAll push_closed_browser_url_def pop_closed_browser_url_def on_terminal_def)

lemma win_server [windowed]:
  assumes "win_ok w"
  shows "(server_ok (wi_server w) \<Longrightarrow> server_ok (f (wi_server w))) \<Longrightarrow> win_ok (on_server f w)"
    "(fits (next_id (wi_server w)) (wtabs w) \<Longrightarrow> fits (next_id (wi_server w)) (g (wtabs w))) \<Longrightarrow> win_ok (on_tabs g w)"
    "win_ok (send ev w)"
    "(\<And>n v. tm_selected (wtabs w) = Some v \<Longrightarrow> sound_space n v \<Longrightarrow> good_edit n n v (h v)) \<Longrightarrow> win_ok (in_selected h w)"
    "(\<And>n v. tm_selected (wtabs w) = Some v \<Longrightarrow> sound_space n v \<Longrightarrow> good_edit n (n + 1) v (k n v)) \<Longrightarrow> win_ok (new_in_selected k w)"
proof -
  have s: "server_ok (wi_server w)" using assms by (simp add: win_ok_def)
  show on: "win_ok (on_server f w)" if "server_ok (wi_server w) \<Longrightarrow> server_ok (f (wi_server w))" for f
    using assms that by (simp add: win_ok_def on_server_def)
  show tabs: "win_ok (on_tabs g w)" if "fits (next_id (wi_server w)) (wtabs w) \<Longrightarrow> fits (next_id (wi_server w)) (g (wtabs w))" for g
    unfolding on_tabs_def by (rule on, rule served) (use s that in simp_all)
  show "win_ok (send ev w)" unfolding send_def by (rule on, rule served)
  show "win_ok (in_selected h w)" if "\<And>n v. tm_selected (wtabs w) = Some v \<Longrightarrow> sound_space n v \<Longrightarrow> good_edit n n v (h v)"
    unfolding in_selected_def by (rule tabs, rule fits, assumption) (use that in simp_all)
  show "win_ok (new_in_selected k w)"
    if "\<And>n v. tm_selected (wtabs w) = Some v \<Longrightarrow> sound_space n v \<Longrightarrow> good_edit n (n + 1) v (k n v)"
    unfolding new_in_selected_def
    by (rule on, rule served, assumption, rule served, assumption, rule fits, assumption) (use that in simp_all)
qed

lemma win_compose [windowed]:
  "(x = None \<Longrightarrow> win_ok a) \<Longrightarrow> (\<And>y. x = Some y \<Longrightarrow> win_ok (f y)) \<Longrightarrow> win_ok (case x of None \<Rightarrow> a | Some y \<Rightarrow> f y)"
  "(c \<Longrightarrow> win_ok a) \<Longrightarrow> (\<not> c \<Longrightarrow> win_ok b) \<Longrightarrow> win_ok (if c then a else b)"
  "win_ok (k v) \<Longrightarrow> win_ok (Let v k)" "win_ok (l (fst p) (snd p)) \<Longrightarrow> win_ok (case p of (y, z) \<Rightarrow> l y z)"
  "win_ok a \<Longrightarrow> win_ok (fst (a, r))"
  "(c \<Longrightarrow> win_ok (fst q)) \<Longrightarrow> (\<not> c \<Longrightarrow> win_ok (fst q')) \<Longrightarrow> win_ok (fst (if c then q else q'))"
  "(x = None \<Longrightarrow> win_ok (fst q)) \<Longrightarrow> (\<And>y. x = Some y \<Longrightarrow> win_ok (fst (g y))) \<Longrightarrow> win_ok (fst (case x of None \<Rightarrow> q | Some y \<Rightarrow> g y))"
  "win_ok (fst (m v)) \<Longrightarrow> win_ok (fst (Let v m))"
  "win_ok (fst (h (fst p) (snd p))) \<Longrightarrow> win_ok (fst (case p of (y, z) \<Rightarrow> h y z))"
  "win_ok (fst q) \<Longrightarrow> win_ok (fst (map_prod id u q))"
  by (auto split: option.split prod.split)

section \<open>Edits of the selected workspace\<close>

lemma good_selected [edits]:
  assumes "good_edit n m w v"
  shows "good_edit n m w (toggle_zoom v)" "good_edit n m w (clear_attention v)"
    "good_edit n m w (set_panel_title p t v)" "good_edit n m w (set_panel_pwd e p d v)"
proof -
  show "good_edit n m w (toggle_zoom v)" "good_edit n m w (clear_attention v)"
    unfolding toggle_zoom_def clear_attention_def by ((rule assms edits | simp; fail)+)
  have q: "good_edit n m w (v\<lparr> ws_panels := modify_panel p f (ws_panels v) \<rparr>)" if "\<And>q. p_id (f q) = p_id q" for f
    by (rule edits, rule assms, rule that)
  show "good_edit n m w (set_panel_title p t v)" "good_edit n m w (set_panel_pwd e p d v)"
    unfolding set_panel_title_def set_panel_pwd_def Let_def by ((rule q edits | simp; fail)+)
qed

text \<open>Tabs that do not hold the focus are dropped.\<close>

lemma good_drop [edits]:
  assumes "good_edit n m w v" and "ws_focused_panel_id v = Some p" and "p \<notin> set ps"
  shows "good_edit n m w (drop_tabs ps v)"
proof -
  from ws_okD(4) [OF good_ok(1) [OF assms(1)]] assms(2) have "has_key p (ws_panels v)" by (simp add: focus_ok_def)
  moreover have "(drop_tabs ps v)\<lparr> ws_focused_panel_id := Some p \<rparr> = drop_tabs ps v"
    using drop_tabs_frame(2) [of ps v] assms(2) by (cases "drop_tabs ps v") simp
  ultimately show ?thesis using good_close_tabs [OF assms(1) _ assms(3)] assms(2)
    by (simp add: close_tabs_drop split: if_splits)
qed

lemma good_drop_others [edits]:
  assumes "sound_space n w" shows "good_edit n m w (drop_tabs (pane_others w) w)"
proof (cases "ws_focused_panel_id w")
  case None
  then show ?thesis using good_same [OF assms] by (simp add: pane_others_def drop_tabs_def)
next
  case (Some p)
  have "p \<notin> set (pane_others w)" by (auto simp: pane_others_def Some split: option.splits)
  from good_drop [OF good_same [OF assms] Some this] show ?thesis .
qed

lemma good_added_tab:
  assumes "sound_space n w" and "good_edit n p w v" and "n \<le> p" and "p < m" and "p_id q = p"
    and "t \<in> set (all_panel_ids (ws_layout v))"
  shows "good_edit n m w (v\<lparr> ws_panels := AList.update p q (ws_panels v), ws_layout := fst (add_panel_to_pane t p (ws_layout v)),
           ws_previous_focused_panel_id := x, ws_focused_panel_id := Some p \<rparr>)"
proof -
  from before_adding [OF assms(1-3)] obtain f where
    f: "p \<notin> set (all_panel_ids (ws_layout v))" "layout_ok (ws_layout v)" by metis
  from good_add [OF assms(1-5) add_to_pane_layout [OF f(2) assms(6) f(1)]] show ?thesis .
qed

lemma focused_in:
  assumes "sound_space n w" obtains f where "ws_focused_panel_id w = Some f" "f \<in> set (all_panel_ids (ws_layout w))"
proof -
  note d = ws_okD(4) [OF sound_ok(1) [OF assms]] sound_ok(2) [OF assms] ws_ok_has_key [OF sound_ok(1) [OF assms]]
  then obtain f where "ws_focused_panel_id w = Some f" "has_key f (ws_panels w)"
    by (auto simp: focus_ok_def split: option.splits)
  with d that show ?thesis by metis
qed

lemma good_new_tab:
  assumes "sound_space n w"
  shows "good_edit n (n + 1) w (add_tab e n w)" "good_edit n (n + 1) w (open_markdown_tab path n w)"
    "(\<And>p. source w = Some p \<Longrightarrow> p \<in> set (all_panel_ids (ws_layout w))) \<Longrightarrow> source w \<noteq> None \<Longrightarrow>
       good_edit n (n + 1) w (open_browser_tab source url n w)"
    "good_edit n (n + 1) w (open_browser_tab ws_focused_panel_id url n w)"
proof -
  obtain f where f: "ws_focused_panel_id w = Some f" "f \<in> set (all_panel_ids (ws_layout w))" by (rule focused_in [OF assms])
  have n: "n \<le> n" "n < n + 1" by simp_all
  note add = good_added_tab [OF assms good_same [OF assms] n]
  show "good_edit n (n + 1) w (add_tab e n w)"
    unfolding add_tab_def Let_def using add [of "(new_terminal n)\<lparr> p_directory := new_tab_directory e w \<rparr>", OF _ f(2)] f(1)
    by (simp add: or_else_def)
  show "good_edit n (n + 1) w (open_markdown_tab path n w)"
    unfolding open_markdown_tab_def using add [of "new_markdown n path", OF _ f(2)] f(1) by simp
  have b: "good_edit n (n + 1) w (open_browser_tab source url n w)"
    if s: "source w = Some p" "p \<in> set (all_panel_ids (ws_layout w))" for source p
  proof -
    have "p_id (browser_panel_for n url) = n" by (simp add: browser_panel_for_def)
    from add [OF this s(2), of "ws_previous_focused_panel_id w"] s(1) show ?thesis
      by (simp add: open_browser_tab_def or_default_def)
  qed
  show "(\<And>p. source w = Some p \<Longrightarrow> p \<in> set (all_panel_ids (ws_layout w))) \<Longrightarrow> source w \<noteq> None \<Longrightarrow>
      good_edit n (n + 1) w (open_browser_tab source url n w)" using b by blast
  show "good_edit n (n + 1) w (open_browser_tab ws_focused_panel_id url n w)" by (rule b [of ws_focused_panel_id, OF f])
qed

lemmas good_new_tabs [edits] = good_new_tab(1,2,4)


section \<open>Shared steps\<close>

lemma refresh_win [windowed]: "win_ok w \<Longrightarrow> win_ok (refresh_ui e w)"
proof -
  assume w: "win_ok w"
  have "win_ok (prune_terminal_cache w)" "win_ok (cleanup_stale_remote_sessions w)" if "win_ok w" for w
    using that by (auto simp: win_ok_def prune_terminal_cache_def cleanup_stale_remote_sessions_def Let_def distinct_map_filter)
  note k = this
  have g: "win_ok (fst (enforce_workspace_invariant e w))"
    unfolding enforce_workspace_invariant_def by ((rule w windowed served fits new_space_ws_new(1) | assumption | simp; fail)+)
  show ?thesis unfolding refresh_ui_def Let_def split_beta by ((rule g k windowed | assumption | simp; fail)+)
qed

lemma refreshed_win [windowed]: "win_ok (fst r) \<Longrightarrow> win_ok (refresh_if_changed e r)"
  unfolding refresh_if_changed_def by ((rule windowed | assumption | simp; fail)+)

lemma read_win [windowed]: "win_ok w \<Longrightarrow> win_ok (read_workspace i w)"
  unfolding read_workspace_def Let_def
  by ((rule windowed served fits edits server_okD | assumption | simp; fail)+)

lemma select_win [windowed]:
  assumes "win_ok w"
  shows "win_ok (fst (select_workspace_by_index i w))" "win_ok (fst (go_to_latest_unread w))" "win_ok (fst (focus_step nx w))"
    "win_ok (fst (close_others_in_pane w))" "win_ok (fst (close_focused e w))" "win_ok (close_selected_workspace e w)"
  unfolding select_workspace_by_index_def go_to_latest_unread_def focus_step_def close_others_in_pane_def close_focused_def
    close_selected_workspace_def Let_def split_beta
  by ((rule assms windowed served fits edits | assumption | simp; fail)+)

lemma terminals_win [windowed]: "win_ok w \<Longrightarrow> win_ok (w\<lparr> wi_terminals := filter P (wi_terminals w) \<rparr>)"
  by (simp add: win_ok_def distinct_map_filter)

lemma exited_win [windowed]: "win_ok w \<Longrightarrow> win_ok (fst (panel_exited e p w))"
  unfolding panel_exited_def split_beta Let_def
  by ((rule windowed served fits | assumption | simp; fail)+)

lemma send_win [windowed]:
  assumes "win_ok w"
  shows "win_ok (font_step z b w)" "win_ok (send_about_focused ev w)" "win_ok (send_opt o' w)" "win_ok (set_remote_state i s w)"
  unfolding font_step_def send_about_focused_def send_opt_def set_remote_state_def
  by ((rule assms windowed served fits edits | assumption | simp split: prod.split; fail)+)


section \<open>Keys\<close>

text \<open>The descriptions of workspaces that are offered have no split without children; a workspace whose notes are
  closed has another panel.\<close>

definition commands_filled :: "win_env \<Rightarrow> bool" where
  "commands_filled e \<longleftrightarrow>
     (\<forall>d. \<forall>c \<in> set (we_commands e d). \<forall>s. cm_workspace c = Some s \<longrightarrow> spec_filled (wo_layout s))"

definition other_than_notes :: "window \<Rightarrow> bool" where
  "other_than_notes w \<longleftrightarrow>
     (\<forall>ws. tm_selected (wtabs w) = Some ws \<longrightarrow> (\<exists>(k, q) \<in> set (ws_panels ws). p_panel_type q \<noteq> Notes))"

lemma removed_has: "has_key k (ws_panels (fst (ws_remove_panel i v))) \<longleftrightarrow> has_key k (ws_panels v) \<and> k \<noteq> i"
  by (auto simp: ws_remove_panel_def Let_def AList.delete_conv' split: option.splits)

lemma good_remove_all:
  "good_edit n m w v \<Longrightarrow> has_key k (ws_panels v) \<Longrightarrow> k \<notin> set ps \<Longrightarrow>
     good_edit n m w (fold (\<lambda>i ws. fst (ws_remove_panel i ws)) ps v)"
proof (induction ps arbitrary: v)
  case (Cons i ps)
  let ?v = "fst (ws_remove_panel i v)"
  from Cons.prems have k: "has_key k (ws_panels ?v)" unfolding removed_has by auto
  then have "ws_panels ?v \<noteq> []" by auto
  moreover have "ws_id ?v = ws_id v" by (simp add: ws_remove_panel_def Let_def split: option.split)
  ultimately have "good_edit n m w ?v"
    using Cons.prems(1) ws_remove_panel_ok [of v i] detached_keys(2) [of i v] unfolding good_edit_def by auto
  with Cons.IH [of ?v] k Cons.prems(3) show ?case by simp
qed simp

lemma notes_win [windowed]:
  assumes "win_ok w" and "other_than_notes w"
  shows "win_ok (insert_notes_panel e w)"
proof -
  have g: "good_edit n n v (fold (\<lambda>i ws. fst (ws_remove_panel i ws)) (notes_panels v) v)"
    if v: "tm_selected (wtabs w) = Some v" "sound_space n v" for n v
  proof -
    from assms(2) v(1) obtain k q where q: "(k, q) \<in> set (ws_panels v)" "p_panel_type q \<noteq> Notes"
      unfolding other_than_notes_def by blast
    have "distinct (keys_of (ws_panels v))"
      using ws_okD(2) [OF sound_ok(1) [OF v(2)]] by (simp add: consistent_def del: set_map)
    with q have "map_of (ws_panels v) k = Some q" "k \<notin> set (notes_panels v)"
      by (auto simp: notes_panels_def dest: eq_key_imp_eq_value)
    then show ?thesis using good_remove_all [OF good_same [OF v(2)], of k] by simp
  qed
  have "server_ok (wi_server w)" using assms(1) by (simp add: win_ok_def)
  then show ?thesis unfolding insert_notes_panel_def
    by - ((rule assms windowed served fits g edits | assumption | simp; fail)+)
qed

lemma custom_win [windowed]:
  assumes "win_ok w" and "\<And>s. cm_workspace c = Some s \<Longrightarrow> spec_filled (wo_layout s)"
  shows "win_ok (do_custom_command e c base w)"
proof (cases "cm_workspace c")
  case None
  then show ?thesis unfolding do_custom_command_def by (simp) ((rule assms windowed | assumption | simp; fail)+)
next
  case (Some spec)
  let ?sv = "wi_server w"
  obtain ws m where b: "build_workspace (home_of e) spec base (next_id ?sv) = (ws, m)" by fastforce
  from build_workspace_new [OF assms(2) [OF Some] b] have "new_space (next_id ?sv) m ws" by blast
  then have n: "new_space (next_id ?sv) m (ws\<lparr> ws_window_id := i \<rparr>)" "next_id ?sv \<le> m" for i
    by (auto simp: new_space_def ws_ok_def)
  have ok: "server_ok ?sv" using assms(1) by (simp add: win_ok_def)
  show ?thesis unfolding do_custom_command_def Some option.case
    by (rule windowed assms(1))+ (simp only: b prod.case Let_def, (rule ok served fits server_okD n | assumption | simp add: n; fail)+)
qed


lemma monitor_win [windowed]: "win_ok w \<Longrightarrow> server_ok (fst (toggle_selected d (wi_server w))) \<Longrightarrow>
    win_ok (on_server (\<lambda>sv. fst (toggle_selected d sv)) w)"
  by (rule windowed)

text \<open>The two configurable actions that may leave a workspace empty.\<close>

definition risky_actions :: "rstr list" where
  "risky_actions = [''workspace.toggle_agent_monitor'', ''notes.open'']"

lemma configured_win [windowed]:
  assumes "win_ok w" and "a \<notin> set risky_actions \<or> a = ''notes.open'' \<and> other_than_notes w"
  shows "win_ok (run_configured e a w)"
proof (cases "a = ''notes.open''")
  case True
  with assms show ?thesis
    by (simp add: run_configured_def risky_actions_def notes_win refresh_win)
next
  case False
  with assms(2) have m: "a \<noteq> ''workspace.toggle_agent_monitor''" by (simp add: risky_actions_def)
  show ?thesis unfolding run_configured_def if_not_P [OF m] if_not_P [OF False]
    by ((rule assms(1) windowed served fits edits | assumption | simp; fail)+)
qed

lemma shift_fits [fits]: "fits n tm \<Longrightarrow> fits n (shift_selected up tm)"
  unfolding shift_selected_def by ((rule fits | assumption | simp; fail)+)

lemma key_parts [windowed]:
  assumes "win_ok w"
  shows "win_ok (split_in_selected e ori ty w)" "win_ok (toggle_find w)" "win_ok (selection_read s w)"
    "win_ok (toggle_notifications w)" "win_ok (toggle_minimal w)" "win_ok (close_pane_key e w)" "win_ok (open_directory e w)"
    "win_ok (reload_key w)" "(\<And>n tm. fits n tm \<Longrightarrow> fits n (f tm)) \<Longrightarrow> win_ok (cycle_workspace e f w)"
  unfolding split_in_selected_def toggle_find_def selection_read_def toggle_notifications_def toggle_minimal_def
    close_pane_key_def open_directory_def reload_key_def cycle_workspace_def
  by ((rule assms windowed served fits edits | assumption | simp; fail)+)

lemma fixed_win:
  assumes "win_ok w"
  shows "pred_option win_ok (ctrl_alt_key e key w)" "pred_option win_ok (ctrl_shift_key e key w)"
    "pred_option win_ok (ctrl_key e key w)" "pred_option win_ok (fixed_key e k w)"
proof -
  have c: "pred_option P (if b then x else y)" if "b \<Longrightarrow> pred_option P x" "\<not> b \<Longrightarrow> pred_option P y" for P :: "'p \<Rightarrow> bool" and b x y
    using that by simp
  have o: "pred_option P (case z of None \<Rightarrow> x | Some v \<Rightarrow> g v)"
    if "z = None \<Longrightarrow> pred_option P x" "\<And>v. z = Some v \<Longrightarrow> pred_option P (g v)" for P :: "'p \<Rightarrow> bool" and x and z :: "'z option" and g
    using that by (auto split: option.split)
  have d: "pred_option P (case z of 0 \<Rightarrow> x | Suc v \<Rightarrow> g v)"
    if "pred_option P x" "\<And>v. pred_option P (g v)" for P :: "'p \<Rightarrow> bool" and x z g
    using that by (cases z) auto
  have s: "pred_option P (Some x)" "pred_option P None" if "P x" for P :: "'p \<Rightarrow> bool" and x using that by simp_all
  show a: "pred_option win_ok (ctrl_alt_key e key w)" "pred_option win_ok (ctrl_shift_key e key w)"
    "pred_option win_ok (ctrl_key e key w)" for key
    unfolding ctrl_alt_key_def ctrl_shift_key_def ctrl_key_def
    by ((rule c o d option.pred_inject(1) s(1) assms windowed served fits edits | assumption | simp; fail)+)
  have alt: "(if b then ctrl_alt_key e key w else None) = Some v \<Longrightarrow> win_ok v" for b key v
    using a(1) [of key] by (auto split: if_splits)
  show "pred_option win_ok (fixed_key e k w)"
    unfolding fixed_key_def Let_def
    by ((rule c o a s(1) | erule alt | rule assms windowed served fits edits | assumption | simp; fail)+)
qed


text \<open>What a key press needs: a key of the agent monitor is not pressed, and a key of the notes not where they stand
  alone.\<close>

definition safe_key :: "win_env \<Rightarrow> key_press \<Rightarrow> window \<Rightarrow> bool" where
  "safe_key e k w \<longleftrightarrow>
     (\<forall>a. configured_action e k w = Some a \<longrightarrow> a \<notin> set risky_actions \<or> a = ''notes.open'' \<and> other_than_notes w)"

lemma press_win [windowed]:
  assumes "win_ok w" and "safe_key e k w" shows "win_ok (fst (press_key e k w))"
proof (cases "configured_action e k w")
  case None
  then show ?thesis using fixed_win(4) [OF assms(1), of e k] assms(1) win_server(3) [OF assms(1)]
    by (auto simp: press_key_def split: option.split)
next
  case (Some a)
  with assms configured_win [of w a e] show ?thesis by (simp add: press_key_def safe_key_def)
qed

section \<open>The palette\<close>

lemma in_table: "map_of xs k = Some f \<Longrightarrow> list_all (\<lambda>(k, f). P f) xs \<Longrightarrow> P f"
  by (auto dest!: map_of_SomeD simp: list_all_iff)

lemma table_edits:
  "list_all (\<lambda>(k, f). \<forall>n tm. fits n tm \<longrightarrow> fits n (f tm)) tab_entries"
  "list_all (\<lambda>(k, f). \<forall>n v. sound_space n v \<longrightarrow> good_edit n n v (f v)) selected_entries"
  "list_all (\<lambda>(k, f). \<forall>n v. sound_space n v \<longrightarrow> good_edit n (n + 1) v (f n v)) panel_entries"
  "list_all (\<lambda>(k, f). \<forall>n m v. new_space n m v \<longrightarrow> new_space n m (f v)) workspace_kinds"
proof -
  show "list_all (\<lambda>(k, f). \<forall>n tm. fits n tm \<longrightarrow> fits n (f tm)) tab_entries"
    unfolding tab_entries_def by (simp add: fits)
  show "list_all (\<lambda>(k, f). \<forall>n v. sound_space n v \<longrightarrow> good_edit n n v (f v)) selected_entries"
    unfolding selected_entries_def list.pred_inject prod.case
    by ((rule conjI allI impI TrueI edits | assumption | simp; fail)+)
  have ids: "p_id (new_history i) = i" "p_id (new_vault i) = i" for i by (simp_all add: new_history_def new_vault_def blank_panel_def)
  show "list_all (\<lambda>(k, f). \<forall>n v. sound_space n v \<longrightarrow> good_edit n (n + 1) v (f n v)) panel_entries"
    unfolding panel_entries_def list.pred_inject prod.case
    by ((rule conjI allI impI TrueI edits | assumption | simp add: ids; fail)+)
  show "list_all (\<lambda>(k, f). \<forall>n m v. new_space n m v \<longrightarrow> new_space n m (f v)) workspace_kinds"
    unfolding workspace_kinds_def list.pred_inject prod.case typed_workspace_def
    by ((rule conjI allI impI TrueI new_space_modify | assumption | simp; fail)+)
qed

lemma sole_key:
  "distinct (concat (map f xs)) \<Longrightarrow> v \<in> set xs \<Longrightarrow> w \<in> set xs \<Longrightarrow> p \<in> set (f v) \<Longrightarrow> p \<in> set (f w) \<Longrightarrow> v = w"
  by (induction xs) auto

lemma sole_holder:
  assumes "fits n tm" and "v \<in> set (tm_workspaces tm)" and "has_key p (ws_panels v)"
  shows "find_workspace_with_panel p tm = Some v"
proof -
  from assms(2,3) have "find_workspace_with_panel p tm \<noteq> None"
    by (auto simp: find_workspace_with_panel_def find_None_iff)
  then obtain w where w: "find_workspace_with_panel p tm = Some w" by blast
  note h = holder_facts(1,3) [OF assms(1) w]
  have "distinct (concat (map panel_keys (tm_workspaces tm)))"
    using tm_okD(1) [OF fits_ok [OF assms(1)]] by (simp add: spaces_sound_def tm_spaces_def del: set_map set_concat)
  from sole_key [OF this assms(2) h(1)] assms(3) h(2) have "v = w" unfolding has_key_iff by blast
  with w show ?thesis by simp
qed

text \<open>The selected workspace is edited by its position or by its identifier.\<close>

lemma edit_selected_id:
  assumes "fits n tm" and "tm_selected tm = Some ws"
  shows "edit_selected f tm = edit_workspace (ws_id ws) f tm" "ws \<in> set (tm_workspaces tm)"
proof -
  from assms(2) obtain i where i: "tm_selected_index tm = Some i" "i < length (tm_workspaces tm)" "tm_workspaces tm ! i = ws"
    by (cases "tm_selected_index tm") (auto simp: tm_selected_def get_at_def split: if_splits)
  then show w: "ws \<in> set (tm_workspaces tm)" by auto
  from live_split [OF fits_ok [OF assms(1)] tm_ok_live(3) [OF fits_ok [OF assms(1)] w, unfolded tm_workspace_def]] obtain xs ys where
    l: "tm_workspaces tm = xs @ ws # ys" "\<forall>f. update_first (\<lambda>v. ws_id v = ws_id ws) f (tm_workspaces tm) = xs @ f ws # ys" by blast
  have d: "distinct (map ws_id (tm_workspaces tm))"
    using tm_okD(1) [OF fits_ok [OF assms(1)]] by (simp add: spaces_sound_def tm_spaces_def)
  have x: "length xs < length (tm_workspaces tm)" "tm_workspaces tm ! length xs = ws" using l(1) by simp_all
  then have "map ws_id (tm_workspaces tm) ! i = map ws_id (tm_workspaces tm) ! length xs" using i by simp
  with nth_eq_iff_index_eq [OF d, of i "length xs"] i(2) x(1) have "i = length xs" by simp
  then have "(tm_workspaces tm)[i := f ws] = xs @ f ws # ys" using l(1) by (simp add: list_update_append)
  with i l(2) show "edit_selected f tm = edit_workspace (ws_id ws) f tm"
    by (simp add: edit_selected_def edit_workspace_def)
qed

lemma break_win [windowed]:
  assumes "win_ok w" shows "win_ok (break_focused e w)"
proof -
  let ?sv = "wi_server w" let ?n = "next_id ?sv" let ?c = "the_clock (we_sock e)"
  have ok: "server_ok ?sv" using assms by (simp add: win_ok_def)
  note f = server_okD [OF ok]
  have "server_ok (draw 2 (set_tabs (fst (add_workspace (broken_out (home_of e) ?n dir p q)
      (if ws_is_empty ws' then fst (remove_by_id ?c (ws_id ws) (edit_selected (\<lambda>_. ws') (tabs ?sv))) else edit_selected (\<lambda>_. ws') (tabs ?sv)))) ?sv))"
    if s: "tm_selected (tabs ?sv) = Some ws" and d: "detach_panel p ws = (ws', Some q)" for ws ws' p q dir
  proof -
    note e = edit_selected_id [OF f s]
    from d have k: "map_of (ws_panels ws) p = Some q" by (auto simp: detach_panel_def Let_def split: option.splits)
    then have h: "find_workspace_with_panel p (tabs ?sv) = Some ws" by (intro sole_holder [OF f e(2)]) simp
    have q: "p_id q = p"
      using ws_okD(3) [OF sound_ok(1) [OF fits_space [OF f e(2)]]] k by (simp add: panels_keyed_def)
    have "(if ws_is_empty ws' then fst (remove_by_id ?c (ws_id ws) (edit_selected (\<lambda>_. ws') (tabs ?sv))) else edit_selected (\<lambda>_. ws') (tabs ?sv))
        = detach_and_drop ?c p ws (tabs ?sv)"
      using d by (simp add: e(1) detach_and_drop_def Let_def)
    with fits_put_alone [OF taken_facts [OF f h] q] notes_served [OF ok] show ?thesis by (simp add: server_ok_def)
  qed
  then show ?thesis unfolding break_focused_def
    by (intro win_server(1) [OF assms])
      (auto simp: ok Let_def split: option.split prod.split split del: if_split intro!: server_ok_compose(2))
qed

lemma silent_win: "win_ok w \<Longrightarrow> pred_option win_ok (silent_entry e name w)"
proof -
  assume w: "win_ok w"
  have c: "pred_option P (if b then x else y)" if "b \<Longrightarrow> pred_option P x" "\<not> b \<Longrightarrow> pred_option P y" for P :: "'p \<Rightarrow> bool" and b x y
    using that by simp
  have o: "pred_option P (case z of None \<Rightarrow> x | Some v \<Rightarrow> g v)"
    if "z = None \<Longrightarrow> pred_option P x" "\<And>v. z = Some v \<Longrightarrow> pred_option P (g v)" for P :: "'p \<Rightarrow> bool" and x and z :: "'z option" and g
    using that by (auto split: option.split)
  have s: "pred_option P (Some x)" if "P x" for P :: "'p \<Rightarrow> bool" and x using that by simp
  show ?thesis unfolding silent_entry_def open_selected_with_def open_in_editor_def
    by ((rule c o option.pred_inject(1) s w windowed | assumption | simp; fail)+)
qed

lemma hibernation_win [windowed]: "win_ok w \<Longrightarrow> win_ok (toggle_hibernation e w)"
  unfolding toggle_hibernation_def by ((rule windowed served | assumption | simp; fail)+)

lemma changing_win [windowed]:
  assumes "win_ok w" and "name = ''workspace.new_notes'' \<Longrightarrow> other_than_notes w"
  shows "win_ok (changing_entry e name w)"
proof -
  have new: "win_ok (new_workspace_of e f w)" if "map_of workspace_kinds name = Some f" for f
    using in_table [OF that table_edits(4)] unfolding new_workspace_of_def
    by - ((rule assms(1) windowed served fits | assumption | simp add: new_space_ws_new [simplified]; fail)+)
  have found: "win_ok (select_found t w)" for t
    unfolding select_found_def by ((rule assms(1) windowed served fits edits | assumption | simp; fail)+)
  show ?thesis
    unfolding changing_entry_def
    using in_table [OF _ table_edits(1)] in_table [OF _ table_edits(2)] in_table [OF _ table_edits(3)] assms(2)
    by - ((rule assms(1) new found windowed served fits edits | assumption | simp; fail)+)
qed

lemma execute_win [windowed]:
  assumes "win_ok w" and "name = ''workspace.new_notes'' \<Longrightarrow> other_than_notes w" and "commands_filled e"
  shows "win_ok (execute_action e ok name w)"
proof (cases "silent_entry e name w")
  case None
  have f: "find (\<lambda>x. cm_name x = c) (we_commands e d) = Some x \<Longrightarrow> cm_workspace x = Some s \<Longrightarrow> spec_filled (wo_layout s)" for c d x s
    using assms(3) by (auto simp: commands_filled_def dest: find_Some_in)
  show ?thesis unfolding execute_action_def None option.case
    by ((rule assms(1,2) windowed | assumption | erule (1) f | simp; fail)+)
next
  case (Some w')
  with silent_win [OF assms(1), of e name] show ?thesis by (simp add: execute_action_def)
qed

lemma named_command_win [windowed]:
  assumes "win_ok w" and "commands_filled e" shows "win_ok (run_custom_command_by_name e name w)"
  unfolding run_custom_command_by_name_def
  by (rule windowed assms(1) | (use assms(2) in \<open>auto simp: commands_filled_def dest: find_Some_in\<close>; fail))+


section \<open>Events\<close>

text \<open>A link that opens in a new tab comes from a browser of the selected workspace.\<close>

fun safe_event :: "ui_event \<Rightarrow> window \<Rightarrow> bool" where
  "safe_event (UiBrowserOpenInNewTab p url) w \<longleftrightarrow> (\<forall>ws. tm_selected (wtabs w) = Some ws \<longrightarrow> has_key p (ws_panels ws))"
| "safe_event ev w \<longleftrightarrow> True"

lemma input_win [windowed]: "win_ok w \<Longrightarrow> win_ok (send_input_to_panel e p s w)"
  by (auto simp: win_ok_def send_input_to_panel_def fx_def map_of_eq_None_iff split: option.split)

lemma more_served [served]:
  assumes "server_ok sv"
  shows "server_ok (sv\<lparr> sv_sh := act a (sv_sh sv) \<rparr>)" "server_ok (fst (handle_workspace_create_ssh e params sv))"
  using assms create_more_okay(2) [OF assms] by (simp_all add: server_ok_def tabs_def okay_def)

lemma badge_win: "win_ok w \<Longrightarrow> win_ok (case i of Some i \<Rightarrow> on_tabs (edit_workspace i (record_notification now t b p)) w | None \<Rightarrow> w)"
  by ((rule windowed fits edits | assumption | simp; fail)+)

lemma note_win [windowed]: "win_ok w \<Longrightarrow> win_ok (terminal_notification e p t b w)"
  unfolding terminal_notification_def Let_def split_beta
  by ((rule badge_win | rule windowed served fits edits server_okD | assumption | simp; fail)+)

lemma unread_win [windowed]: "win_ok w \<Longrightarrow> win_ok (toggle_unread i w)"
  unfolding toggle_unread_def Let_def
  by ((rule windowed served fits edits server_okD | assumption | simp; fail)+)

lemma event_parts [windowed]:
  assumes "win_ok w"
  shows "win_ok (fst (remote_connect e i w))" "win_ok (agent_resume e w)"
    "(\<And>i. win_ok (f i w)) \<Longrightarrow> win_ok (fst (on_selected_id f w))"
    "(\<And>n p v. find_workspace_with_panel p (wtabs w) = Some v \<Longrightarrow> sound_space n v \<Longrightarrow> good_edit n n v (g p v)) \<Longrightarrow>
       win_ok (fst (on_surface_panel s g w))"
  unfolding remote_connect_def agent_resume_def on_selected_id_def on_surface_panel_def
  by ((rule assms windowed served fits edits | assumption | simp; fail)+)

lemma error_win: "win_ok w \<Longrightarrow> win_ok (case s of RemoteError m \<Rightarrow> fx (FxToast m) w | _ \<Rightarrow> w)"
  by (cases s) (simp_all add: win_fields)

lemma event_win [windowed]:
  assumes "win_ok w" and "commands_filled e" and "safe_event ev w"
  shows "win_ok (fst (handle_event e ev w))"
proof (cases ev)
  case (UiBrowserOpenInNewTab p url)
  have "good_edit n (n + 1) v (open_browser_tab (\<lambda>_. Some p) url n v)"
    if "tm_selected (wtabs w) = Some v" "sound_space n v" for n v
    using assms(3) that UiBrowserOpenInNewTab ws_ok_has_key [OF sound_ok(1) [OF that(2)]] by (intro good_new_tab(3)) auto
  then show ?thesis using win_server(5) [OF assms(1)] UiBrowserOpenInNewTab by simp
next
  case UiReopenClosedBrowser
  then show ?thesis by simp ((rule assms(1) windowed edits | assumption | simp; fail)+)
qed ((simp only: handle_event.simps, (rule assms(1,2) error_win windowed served fits edits | assumption | simp; fail)+)+)


lemma answers_win [windowed]:
  assumes "win_ok w"
  shows "win_ok (folder_picked e dir w)" "win_ok (markdown_picked e path w)" "win_ok (idle_key p a b c w)"
    "win_ok (remote_started i ok s w)" "win_ok (fst (monitor_remote i alive w))" "win_ok (fst (on_action e ga w))"
proof -
  show "win_ok (folder_picked e dir w)" "win_ok (markdown_picked e path w)" "win_ok (idle_key p a b c w)"
    "win_ok (remote_started i ok s w)" "win_ok (fst (monitor_remote i alive w))"
    unfolding folder_picked_def markdown_picked_def idle_key_def remote_started_def monitor_remote_def
    by ((rule assms windowed served fits edits | assumption | simp add: new_space_ws_new [simplified]; fail)+)
  show "win_ok (fst (on_action e ga w))"
    by (cases ga; simp only: on_action.simps; (rule assms windowed served fits edits | assumption | simp; fail)+)
qed

section \<open>The machine\<close>

text \<open>One step of the application. The settings and the system may be others at each step; the methods of the
  socket outside the model are \<open>other\<close>.\<close>

inductive app_step :: "(rstr \<Rightarrow> json \<Rightarrow> server \<Rightarrow> outcome) \<Rightarrow> window \<Rightarrow> window \<Rightarrow> bool" for other where
  by_request: "rq_method rq \<noteq> ''workspace.agent_monitor'' \<Longrightarrow>
     app_step other w (on_server (\<lambda>sv. fst (dispatch_request other d e' rq sv)) w)"
| by_key: "safe_key e k w \<Longrightarrow> app_step other w (fst (press_key e k w))"
| by_entry: "commands_filled e \<Longrightarrow> name = ''workspace.new_notes'' \<longrightarrow> other_than_notes w \<Longrightarrow>
     app_step other w (execute_action e confirmed name w)"
| by_event: "commands_filled e \<Longrightarrow> safe_event ev w \<Longrightarrow> app_step other w (fst (handle_event e ev w))"
| by_refresh: "app_step other w (refresh_ui e w)"
| by_folder: "app_step other w (folder_picked e dir w)"
| by_markdown: "app_step other w (markdown_picked e path w)"
| by_selection: "app_step other w (selection_read text w)"
| by_idle_key: "app_step other w (idle_key p a b c w)"
| by_connection: "app_step other w (remote_started i alive s w)"
| by_monitor: "app_step other w (fst (monitor_remote i alive w))"
| by_action: "app_step other w (fst (on_action e ga w))"
| by_exit: "app_step other w (fst (panel_exited e p w))"

definition fresh_window :: "server \<Rightarrow> window" where
  "fresh_window sv =
     \<lparr> wi_server = sv, wi_closed_urls = [], wi_terminals = [], wi_browsers = [], wi_sessions = [], wi_find = False,
       wi_notifications = False, wi_collapsed = False, wi_header = True, wi_fx = [] \<rparr>"

text \<open>A window starts with the workspaces of a well-formed server: none, one, or those of a saved session.\<close>

inductive app_reachable :: "(rstr \<Rightarrow> json \<Rightarrow> server \<Rightarrow> outcome) \<Rightarrow> window \<Rightarrow> bool" for other where
  start: "server_ok sv \<Longrightarrow> app_reachable other (fresh_window sv)"
| steps: "app_reachable other w \<Longrightarrow> app_step other w w' \<Longrightarrow> app_reachable other w'"

inductive_cases app_stepE: "app_step other w w'"

lemma app_step_win:
  assumes "app_step other w w'" and "win_ok w" and "\<And>m params sv. server_ok sv \<Longrightarrow> server_ok (fst (other m params sv))"
  shows "win_ok w'"
  using assms(1)
proof cases
  case (by_request rq d e')
  show ?thesis unfolding by_request(1) by (rule win_server(1) [OF assms(2)], rule dispatch_ok) (use assms(3) by_request(2) in auto)
next
  case (by_entry e name confirmed)
  then show ?thesis using execute_win [OF assms(2), of name e confirmed] by simp
qed (simp_all add: assms(2) press_win event_win refresh_win answers_win key_parts exited_win)

text \<open>C6. However requests on the socket, key presses, entries of the palette, events, answers of dialogs, reports
  of terminals and connections follow each other, the application stays well formed: identifiers of workspaces
  and panels stay unique, every workspace's layout shows exactly its panels, focus and selection point at
  something that exists, each panel has at most one terminal, each workspace at most one remote session, and at
  most twenty closed addresses are kept. Left out are the steps that are known to break this: the agent monitor,
  and closing the notes of a workspace that has nothing else.\<close>

theorem app_reachable_ok:
  assumes "app_reachable other w" and "\<And>m params sv. server_ok sv \<Longrightarrow> server_ok (fst (other m params sv))"
  shows "win_ok w"
  using assms(1)
proof induction
  case (start sv)
  then show ?case by (simp add: win_ok_def fresh_window_def)
qed (rule app_step_win [OF _ _ assms(2)])

section \<open>Refreshing\<close>

text \<open>C9. A rebuild leaves nothing behind for what has been closed: every terminal and browser kept belongs to a
  panel that exists, every remote session to a workspace that exists, terminals of live panels are kept, and
  unless the application quits or shows its welcome page there is a workspace.\<close>

theorem refresh_leaves_no_orphans:
  assumes "last (wi_fx (refresh_ui e w)) = FxRebuild"
  shows "set (map fst (wi_terminals (refresh_ui e w))) = set (map fst (wi_terminals w)) \<inter> set (live_panel_ids (wtabs (refresh_ui e w))) \<and>
    set (wi_browsers (refresh_ui e w)) = set (wi_browsers w) \<inter> set (live_panel_ids (wtabs (refresh_ui e w))) \<and>
    set (wi_sessions (refresh_ui e w)) = set (wi_sessions w) \<inter> ws_id ` set (tm_workspaces (wtabs (refresh_ui e w))) \<and>
    (tm_workspaces (wtabs (refresh_ui e w)) \<noteq> [] \<or> we_welcome e)"
proof -
  obtain v go where v: "enforce_workspace_invariant e w = (v, go)" by fastforce
  then have keep: "wi_terminals v = wi_terminals w" "wi_browsers v = wi_browsers w" "wi_sessions v = wi_sessions w"
    by (auto simp: enforce_workspace_invariant_def on_server_def fx_def split: if_splits)
  have added: "tm_workspaces (fst (add_workspace ws tm)) \<noteq> []" for ws tm by (simp add: add_workspace_def Let_def)
  have "go" using assms v
    by (auto simp: refresh_ui_def enforce_workspace_invariant_def fx_def split: if_splits)
  moreover have "tm_workspaces (wtabs v) \<noteq> [] \<or> we_welcome e" if go
    using v that added by (auto simp: enforce_workspace_invariant_def on_server_def split: if_splits)
  moreover have "wtabs (refresh_ui e w) = wtabs v" if go
    using v that by (simp add: refresh_ui_def fx_def cleanup_stale_remote_sessions_def prune_terminal_cache_def Let_def)
  ultimately show ?thesis using v keep
    by (auto simp: refresh_ui_def fx_def cleanup_stale_remote_sessions_def prune_terminal_cache_def Let_def)
qed

end
