(* ===== verification/Refresh_Throttle.thy ===== *)
theory Refresh_Throttle imports Window_Events begin

text \<open>
  When the window is redrawn (the end of the event loop in \<open>jmux/src/ui/window/event_handler.rs\<close>): rebuilds of
  everything and of the sidebar are each throttled with a flag, the time of the last one and a timer. Times are in
  milliseconds; a timer does not run before it is due, but may be late.
\<close>

section \<open>Throttling\<close>

text \<open>A rebuild by the throttle, one somebody made past it, and a redraw of the sidebar.\<close>

datatype redraw = Rebuild | Direct | Sidebar

text \<open>\<open>th_full\<close> and \<open>th_meta\<close> are the timers that are set, by the time they are due; \<open>th_log\<close> what was redrawn and
  when, the latest first.\<close>

record throttle =
  th_now :: nat
  th_full_scheduled :: bool
  th_last_full :: nat
  th_full :: "nat list"
  th_meta_scheduled :: bool
  th_last_meta :: nat
  th_meta :: "nat list"
  th_log :: "(nat \<times> redraw) list"

definition FULL_REFRESH_THROTTLE :: nat where "FULL_REFRESH_THROTTLE = 300"
definition METADATA_THROTTLE :: nat where "METADATA_THROTTLE = 200"

text \<open>The last redraws are taken to be a second ago.\<close>

definition throttle_start :: "nat \<Rightarrow> throttle" where
  "throttle_start t =
     \<lparr> th_now = t + 1000, th_full_scheduled = False, th_last_full = t, th_full = [], th_meta_scheduled = False,
       th_last_meta = t, th_meta = [], th_log = [] \<rparr>"

definition rebuild_at :: "nat \<Rightarrow> throttle \<Rightarrow> throttle" where
  "rebuild_at t th =
     th\<lparr> th_now := t, th_last_full := t, th_meta_scheduled := False, th_log := (t, Rebuild) # th_log th \<rparr>"

text \<open>The end of a batch of events at a time: what it needs.\<close>

definition after_batch :: "nat \<Rightarrow> bool \<Rightarrow> bool \<Rightarrow> throttle \<Rightarrow> throttle" where
  "after_batch t full meta th =
     (let th = th\<lparr> th_now := t \<rparr> in
      if full \<and> \<not> th_full_scheduled th
      then (let elapsed = t - th_last_full th
            in if FULL_REFRESH_THROTTLE \<le> elapsed then rebuild_at t th
               else th\<lparr> th_full_scheduled := True, th_full := (t + (FULL_REFRESH_THROTTLE - elapsed)) # th_full th \<rparr>)
      else if meta \<and> \<not> th_meta_scheduled th
      then (let elapsed = t - th_last_meta th
            in th\<lparr> th_meta_scheduled := True,
                   th_meta := (if METADATA_THROTTLE \<le> elapsed then t else t + (METADATA_THROTTLE - elapsed)) # th_meta th \<rparr>)
      else th)"

text \<open>The timers.\<close>

definition full_timer :: "nat \<Rightarrow> nat \<Rightarrow> throttle \<Rightarrow> throttle" where
  "full_timer d t th = rebuild_at t (th\<lparr> th_full_scheduled := False, th_full := remove1 d (th_full th) \<rparr>)"

definition meta_timer :: "nat \<Rightarrow> nat \<Rightarrow> throttle \<Rightarrow> throttle" where
  "meta_timer d t th =
     th\<lparr> th_now := t, th_meta_scheduled := False, th_last_meta := t, th_meta := remove1 d (th_meta th),
         th_log := (t, Sidebar) # th_log th \<rparr>"

text \<open>The window with it: a batch of events, and a timer that rebuilds. A handler that calls \<open>refresh_ui\<close> itself
  (\<open>ReloadConfig\<close> does) neither asks the throttle nor tells it.\<close>

definition rebuilt :: "window \<Rightarrow> nat" where
  "rebuilt w = length (filter (\<lambda>x. x = FxRebuild) (wi_fx w))"

definition log_direct :: "nat \<Rightarrow> nat \<Rightarrow> throttle \<Rightarrow> throttle" where
  "log_direct t n th = th\<lparr> th_log := replicate n (t, Direct) @ th_log th \<rparr>"

definition run_batch :: "win_env \<Rightarrow> nat \<Rightarrow> ui_event list \<Rightarrow> window \<times> throttle \<Rightarrow> window \<times> throttle" where
  "run_batch e t evs s =
     (let (w, full, meta) = handle_batch e evs (fst s);
          handled = log_direct t (rebuilt w - rebuilt (fst s)) (snd s);
          th = after_batch t full meta handled
      in (if th_log th \<noteq> th_log handled then refresh_ui e w else w, th))"

definition run_full_timer :: "win_env \<Rightarrow> nat \<Rightarrow> nat \<Rightarrow> window \<times> throttle \<Rightarrow> window \<times> throttle" where
  "run_full_timer e d t s = (refresh_ui e (fst s), full_timer d t (snd s))"

definition run_meta_timer :: "nat \<Rightarrow> nat \<Rightarrow> window \<times> throttle \<Rightarrow> window \<times> throttle" where
  "run_meta_timer d t s = (fx FxMetadata (fst s), meta_timer d t (snd s))"

inductive loop_step :: "window \<times> throttle \<Rightarrow> window \<times> throttle \<Rightarrow> bool" where
  batch: "th_now (snd s) \<le> t \<Longrightarrow> loop_step s (run_batch e t evs s)"
| full: "d \<in> set (th_full (snd s)) \<Longrightarrow> d \<le> t \<Longrightarrow> th_now (snd s) \<le> t \<Longrightarrow> loop_step s (run_full_timer e d t s)"
| meta: "d \<in> set (th_meta (snd s)) \<Longrightarrow> d \<le> t \<Longrightarrow> th_now (snd s) \<le> t \<Longrightarrow> loop_step s (run_meta_timer d t s)"
| elsewhere: "th_now th \<le> t \<Longrightarrow> loop_step (w, th) (w', log_direct t (rebuilt w' - rebuilt w) (th\<lparr> th_now := t \<rparr>))"

text \<open>The last rule is for what keys, the palette and dialogs do to the window between two batches, with every
  rebuild they make.\<close>

inductive loop_reachable :: "window \<times> throttle \<Rightarrow> bool" where
  loop_start: "loop_reachable (w, throttle_start t)"
| loop_steps: "loop_reachable s \<Longrightarrow> loop_step s s' \<Longrightarrow> loop_reachable s'"

section \<open>Invariant\<close>

definition rebuilds :: "throttle \<Rightarrow> nat list" where
  "rebuilds th = map fst (filter (\<lambda>(t, r). r = Rebuild) (th_log th))"

definition throttle_ok :: "throttle \<Rightarrow> bool" where
  "throttle_ok th \<longleftrightarrow>
     th_full th = (if th_full_scheduled th then [th_last_full th + FULL_REFRESH_THROTTLE] else []) \<and>
     (th_meta_scheduled th \<longrightarrow> (\<exists>d \<in> set (th_meta th). d \<le> th_now th + METADATA_THROTTLE)) \<and>
     th_last_full th \<le> th_now th \<and> th_last_meta th \<le> th_now th \<and>
     (\<forall>t \<in> set (rebuilds th). t \<le> th_last_full th) \<and>
     sorted_wrt (\<lambda>b a. a + FULL_REFRESH_THROTTLE \<le> b) (rebuilds th)"


lemmas throttle_defs = throttle_ok_def rebuilds_def rebuild_at_def FULL_REFRESH_THROTTLE_def METADATA_THROTTLE_def

lemma start_ok: "throttle_ok (throttle_start t)"
  by (simp add: throttle_start_def throttle_defs)

lemma later_ok:
  assumes "throttle_ok th" and "th_now th \<le> t" shows "throttle_ok (th\<lparr> th_now := t \<rparr>)"
proof -
  have "\<exists>d \<in> set (th_meta th). d \<le> t + METADATA_THROTTLE" if "\<exists>d \<in> set (th_meta th). d \<le> th_now th + METADATA_THROTTLE"
    using that assms(2) by (meson add_le_mono1 order_trans)
  with assms show ?thesis by (simp add: throttle_ok_def rebuilds_def)
qed

lemma rebuild_ok:
  assumes "throttle_ok th" and "th_last_full th + FULL_REFRESH_THROTTLE \<le> t" and "th_now th \<le> t"
    and "th_full th' = []" and "\<not> th_full_scheduled th'" and "th_last_meta th' = th_last_meta th" and "th_log th' = th_log th"
  shows "throttle_ok (rebuild_at t th')"
  using assms by (force simp: throttle_defs)

lemma direct_ok [simp]: "throttle_ok (log_direct t n th) = throttle_ok th" "th_now (log_direct t n th) = th_now th"
  by (simp_all add: log_direct_def throttle_ok_def rebuilds_def)

lemma batch_ok:
  assumes "throttle_ok th" and "th_now th \<le> t" shows "throttle_ok (after_batch t full meta th)"
proof -
  let ?th = "th\<lparr> th_now := t \<rparr>"
  have th: "throttle_ok ?th" by (rule later_ok [OF assms])
  consider (now) "full" "\<not> th_full_scheduled th" "th_last_full th + FULL_REFRESH_THROTTLE \<le> t"
    | (later) "full" "\<not> th_full_scheduled th" "t < th_last_full th + FULL_REFRESH_THROTTLE"
    | (bar) "\<not> (full \<and> \<not> th_full_scheduled th)" "meta" "\<not> th_meta_scheduled th"
    | (no) "\<not> (full \<and> \<not> th_full_scheduled th)" "\<not> (meta \<and> \<not> th_meta_scheduled th)" by linarith
  then show ?thesis
  proof cases
    case now
    moreover have "throttle_ok (rebuild_at t ?th)" by (rule rebuild_ok [OF th]) (use now th in \<open>auto simp: throttle_ok_def\<close>)
    moreover have "FULL_REFRESH_THROTTLE \<le> t - th_last_full th" using now(3) by simp
    ultimately show ?thesis by (simp add: after_batch_def Let_def)
  next
    case later
    have le: "th_last_full th \<le> t" using th by (simp add: throttle_ok_def)
    then have "t + (FULL_REFRESH_THROTTLE - (t - th_last_full th)) = th_last_full th + FULL_REFRESH_THROTTLE" using later(3) by simp
    moreover have "\<not> FULL_REFRESH_THROTTLE \<le> t - th_last_full th" using later(3) le by linarith
    ultimately show ?thesis using later th by (simp add: after_batch_def Let_def throttle_ok_def rebuilds_def)
  next
    case bar
    let ?d = "if METADATA_THROTTLE \<le> t - th_last_meta th then t else t + (METADATA_THROTTLE - (t - th_last_meta th))"
    have "after_batch t full meta th = ?th\<lparr> th_meta_scheduled := True, th_meta := ?d # th_meta th \<rparr>"
      using bar by (auto simp: after_batch_def Let_def)
    moreover have "?d \<le> t + METADATA_THROTTLE" by simp
    ultimately obtain d where "after_batch t full meta th = ?th\<lparr> th_meta_scheduled := True, th_meta := d # th_meta th \<rparr>"
      "d \<le> t + METADATA_THROTTLE" by blast
    with th show ?thesis by (simp add: throttle_ok_def rebuilds_def)
  next
    case no
    then have "after_batch t full meta th = ?th" by (auto simp: after_batch_def Let_def)
    with th show ?thesis by simp
  qed
qed

lemma timers_ok:
  assumes "throttle_ok th" and "d \<le> t" and "th_now th \<le> t"
  shows "d \<in> set (th_full th) \<Longrightarrow> throttle_ok (full_timer d t th)" "throttle_ok (meta_timer d' t th)"
proof -
  assume "d \<in> set (th_full th)"
  then have "th_full th = [d]" "d = th_last_full th + FULL_REFRESH_THROTTLE"
    using assms(1) by (auto simp: throttle_ok_def split: if_splits)
  then show "throttle_ok (full_timer d t th)"
    unfolding full_timer_def using assms(2,3) by (intro rebuild_ok [OF assms(1)]) simp_all
next
  show "throttle_ok (meta_timer d' t th)" using assms(1,3) by (auto simp: meta_timer_def throttle_ok_def rebuilds_def)
qed

lemma loop_ok: "loop_reachable s \<Longrightarrow> throttle_ok (snd s)"
proof (induction rule: loop_reachable.induct)
  case (loop_steps s s')
  from loop_steps.hyps(2) loop_steps.IH show ?case
    by cases (simp_all add: run_batch_def run_full_timer_def run_meta_timer_def split_beta Let_def batch_ok timers_ok later_ok)
qed (simp add: start_ok)

text \<open>C8. However fast the events come, the rebuilds they ask the event loop for are at least 300 ms apart. The rebuilds
  made past the throttle, by \<open>ReloadConfig\<close>, keys, the palette and dialogs, are logged but not counted here: they
  happen at once, however often.\<close>

theorem rebuilds_apart:
  assumes "loop_reachable s"
  shows "sorted_wrt (\<lambda>b a. a + 300 \<le> b) (rebuilds (snd s))"
  using loop_ok [OF assms] by (simp add: throttle_ok_def FULL_REFRESH_THROTTLE_def)

text \<open>C7. No event waits for its redraw without end: when a batch of events asked for everything to be rebuilt, it was
  rebuilt at once or a timer will within 300 ms; when it asked for the sidebar, that or a timer that redraws the
  sidebar within 200 ms.\<close>

theorem redraw_is_due:
  assumes "loop_reachable s" and "th_now (snd s) \<le> t" and "handle_batch e evs (fst s) = (w, full, meta)"
    and "snd (run_batch e t evs s) = th"
  shows "(full \<longrightarrow> (t, Rebuild) \<in> set (th_log th) \<or> (\<exists>d \<in> set (th_full th). d \<le> t + 300)) \<and>
    (meta \<longrightarrow> (t, Rebuild) \<in> set (th_log th) \<or> (\<exists>d \<in> set (th_full th). d \<le> t + 300) \<or> (\<exists>d \<in> set (th_meta th). d \<le> t + 200))"
proof -
  obtain n where th: "th = after_batch t full meta (log_direct t n (snd s))" using assms(3,4) by (auto simp: run_batch_def Let_def)
  have ok: "throttle_ok th"
    unfolding th using loop_ok [OF assms(1)] assms(2) by (intro batch_ok) simp_all
  have now: "th_now th = t" by (simp add: th after_batch_def Let_def rebuild_at_def)
  have due: "\<exists>d \<in> set (th_full th). d \<le> t + 300" if "th_full_scheduled th"
    using ok that now by (auto simp: throttle_ok_def FULL_REFRESH_THROTTLE_def)
  have bar: "\<exists>d \<in> set (th_meta th). d \<le> t + 200" if "th_meta_scheduled th"
    using ok that now by (auto simp: throttle_ok_def METADATA_THROTTLE_def)
  have "full \<Longrightarrow> (t, Rebuild) \<in> set (th_log th) \<or> th_full_scheduled th"
    "meta \<Longrightarrow> (t, Rebuild) \<in> set (th_log th) \<or> th_full_scheduled th \<or> th_meta_scheduled th"
    by (auto simp: th after_batch_def Let_def rebuild_at_def)
  with due bar show ?thesis by blast
qed

text \<open>Two reloads of the configuration in one batch rebuild the window twice at once, and the throttle does not
  know of either.\<close>

lemma refresh_rebuilds:
  assumes "tm_workspaces (wtabs w) \<noteq> []"
  shows "rebuilt (refresh_ui e w) = Suc (rebuilt w)" "wtabs (refresh_ui e w) = wtabs w"
proof -
  have "[x \<leftarrow> map FxRelease ps. x = FxRebuild] = []" "[x \<leftarrow> map FxStopRemote is. x = FxRebuild] = []" for ps "is"
    by (simp_all add: filter_empty_conv)
  with assms show "rebuilt (refresh_ui e w) = Suc (rebuilt w)" "wtabs (refresh_ui e w) = wtabs w"
    by (simp_all add: refresh_ui_def enforce_workspace_invariant_def cleanup_stale_remote_sessions_def
        prune_terminal_cache_def fx_def rebuilt_def Let_def)
qed

lemma reloads_rebuild_twice:
  assumes "tm_workspaces (wtabs w) \<noteq> []"
  shows "snd (run_batch e t [UiReloadConfig, UiReloadConfig] (w, th)) = (log_direct t 2 th)\<lparr> th_now := t \<rparr>"
proof -
  have fx: "rebuilt (fx FxReloadGhostty v) = rebuilt v" "wtabs (fx FxReloadGhostty v) = wtabs v" for v
    by (simp_all add: fx_def rebuilt_def)
  then show ?thesis
    using assms by (simp add: run_batch_def after_batch_def refresh_rebuilds fx Let_def)
qed

text \<open>The sidebar is not throttled as it means to be: a rebuild lets a second timer be set while one is still
  waiting, and the sidebar is drawn twice at the same time.\<close>

lemma sidebar_twice:
  "let th = after_batch 1000 False True (throttle_start 0);
       th = meta_timer 1000 1000 th;
       th = after_batch 1050 False True th;
       th = after_batch 1060 True False th;
       th = after_batch 1070 False True th
   in th_log (meta_timer 1200 1200 (meta_timer 1200 1200 th)) = [(1200, Sidebar), (1200, Sidebar), (1060, Rebuild), (1000, Sidebar)] \<and>
      th_meta th = [1200, 1200]"
  by code_simp

end
