(* ===== verification/Window_Props.thy ===== *)
theory Window_Props imports Socket_Props Window_Invariant Refresh_Throttle "HOL-Library.Sublist" begin

text \<open>
  Properties of the main window on samples, the witnesses of the theorems before, and the steps that break the
  window's invariant.
\<close>

section \<open>A sample\<close>

definition sample_win_env :: win_env where
  "sample_win_env =
     \<lparr> we_sock = sample_env, we_disk = empty_disk, we_shortcuts = default_shortcuts, we_fold_case = ascii_lowercase,
       we_cwd = (\<lambda>_. None), we_commands = (\<lambda>_. []), we_branch = (\<lambda>_. None), we_external = (\<lambda>_. False),
       we_restore = agent_restore_default, we_flash = True, we_quake = False, we_welcome = False, we_config_path = ''/c'',
       we_editor = None, we_screen = (\<lambda>_ _. None), we_surface = (\<lambda>p. p) \<rparr>"

definition sample_window :: window where
  "sample_window = (fresh_window sample_server)\<lparr> wi_terminals := [(3, 3), (8, 8)] \<rparr>"

lemma app_reachable_ok_witness:
  "win_ok (fst (handle_event sample_win_env (UiOpenUrlInBrowser ''http://a'') (refresh_ui sample_win_env (fresh_window sample_server))))"
proof (rule app_reachable_ok)
  have "app_reachable idle_other (refresh_ui sample_win_env (fresh_window sample_server))"
    by (rule app_reachable.steps [OF app_reachable.start [OF sample_server_ok] app_step.by_refresh])
  then show "app_reachable idle_other
      (fst (handle_event sample_win_env (UiOpenUrlInBrowser ''http://a'') (refresh_ui sample_win_env (fresh_window sample_server))))"
    by (rule app_reachable.steps) (rule app_step.by_event, simp_all add: commands_filled_def sample_win_env_def)
qed (simp add: idle_other_def)

lemma refresh_leaves_no_orphans_witness:
  "set (map fst (wi_terminals (refresh_ui sample_win_env sample_window))) = {8}"
proof -
  have w: "tm_workspaces (wtabs sample_window) = [ws_new None 7 8]"
    by (simp add: sample_window_def fresh_window_def sample_server_def sample_shared_def tabs_def tm_new_def)
  then have r: "last (wi_fx (refresh_ui sample_win_env sample_window)) = FxRebuild"
    by (simp add: refresh_ui_def enforce_workspace_invariant_def fx_def)
  have "wtabs (refresh_ui sample_win_env sample_window) = wtabs sample_window" using w
    by (simp add: refresh_ui_def enforce_workspace_invariant_def fx_def cleanup_stale_remote_sessions_def prune_terminal_cache_def Let_def)
  with refresh_leaves_no_orphans [OF r] w show ?thesis
    by (simp add: live_panel_ids_def ws_new_def new_terminal_def blank_panel_def) (simp add: sample_window_def)
qed

lemma rebuilds_apart_witness:
  "sorted_wrt (\<lambda>b a. a + 300 \<le> b) (rebuilds (snd (run_full_timer sample_win_env 1300 1301
     (run_batch sample_win_env 1100 [UiRefresh] (run_batch sample_win_env 1000 [UiRefresh] (sample_window, throttle_start 0))))))"
proof (rule rebuilds_apart)
  let ?s1 = "run_batch sample_win_env 1000 [UiRefresh] (sample_window, throttle_start 0)"
  let ?s2 = "run_batch sample_win_env 1100 [UiRefresh] ?s1"
  have s1: "snd ?s1 = rebuild_at 1000 (throttle_start 0)"
    by (simp add: run_batch_def log_direct_def after_batch_def throttle_start_def rebuild_at_def FULL_REFRESH_THROTTLE_def)
  then have s2: "th_full (snd ?s2) = [1300]" "th_now (snd ?s2) = 1100"
    by (simp_all add: run_batch_def log_direct_def after_batch_def throttle_start_def rebuild_at_def FULL_REFRESH_THROTTLE_def)
  have "loop_reachable ?s1" by (rule loop_steps [OF loop_start batch]) (simp add: throttle_start_def)
  then have "loop_reachable ?s2" by (rule loop_steps [OF _ batch]) (simp add: s1 rebuild_at_def)
  then show "loop_reachable (run_full_timer sample_win_env 1300 1301 ?s2)" by (rule loop_steps [OF _ full]) (simp_all add: s2)
qed

lemma redraw_is_due_witness:
  "(1000, Rebuild) \<in> set (th_log (snd (run_batch sample_win_env 1000 [UiRefresh] (sample_window, throttle_start 0)))) \<or>
   (\<exists>d \<in> set (th_full (snd (run_batch sample_win_env 1000 [UiRefresh] (sample_window, throttle_start 0)))). d \<le> 1000 + 300)"
  using redraw_is_due [OF loop_start [of sample_window 0], of 1000 sample_win_env "[UiRefresh]" sample_window True False]
  by (simp add: throttle_start_def)

section \<open>Keys\<close>

text \<open>C10. Typing reaches the terminal: as long as every configured shortcut has control or alt, a key pressed without
  either is handed on and changes nothing, whatever the window shows; F2 alone is taken.\<close>

theorem typing_reaches_terminal:
  assumes "\<forall>a \<in> set (''agent.resume'' # configurable_actions). \<forall>b. shortcut_for (we_shortcuts e) a = Some b \<longrightarrow> kb_ctrl b \<or> kb_alt b"
    and "\<not> kp_ctrl k" and "\<not> kp_alt k" and "kp_key k \<noteq> ''F2'' \<or> kp_shift k"
  shows "press_key e k w = (w, True)"
proof -
  have "\<not> pressed k b" if "a \<in> set configurable_actions" "shortcut_for (we_shortcuts e) a = Some b" for a b
    using assms that by (auto simp: pressed_def)
  then have "configured_action e k w = None"
    unfolding configured_action_def find_None_iff by (auto split: option.splits)
  moreover have "\<not> agent_resume_key e k" using assms(1-3) by (auto simp: agent_resume_key_def split: option.splits)
  moreover have "fixed_key e k w = None" using assms(2-4) by (auto simp: fixed_key_def Let_def)
  ultimately show ?thesis by (simp add: press_key_def)
qed

lemma default_shortcuts_chords:
  "list_all (\<lambda>a. case shortcut_for default_shortcuts a of Some b \<Rightarrow> kb_ctrl b \<or> kb_alt b | None \<Rightarrow> True)
     (''agent.resume'' # configurable_actions)"
  by code_simp

lemma typing_reaches_terminal_witness:
  "press_key sample_win_env \<lparr> kp_key = ''A'', kp_unicode = Some ''A'', kp_ctrl = False, kp_shift = True, kp_alt = False \<rparr> sample_window
     = (sample_window, True)"
  by (rule typing_reaches_terminal)
    (use default_shortcuts_chords in \<open>auto simp: list_all_iff sample_win_env_def split: option.splits\<close>)

text \<open>The fixed key for a new window is shadowed by the default key of the notes.\<close>

lemma new_window_key_shadowed:
  "configured_action (sample_win_env\<lparr> we_shortcuts := default_shortcuts \<rparr>)
     \<lparr> kp_key = ''N'', kp_unicode = None, kp_ctrl = True, kp_shift = True, kp_alt = False \<rparr> sample_window = Some ''notes.open''"
  by code_simp

section \<open>The palette\<close>

lemma in_order_subseq: "in_order hay needle \<longleftrightarrow> subseq needle hay"
  by (induction hay needle rule: in_order.induct) auto

text \<open>C11. The palette's filter is the usual one: behind a \<open>>\<close> it lists the commands, otherwise the workspaces and, with a
  query, what is on the screens, in the order they come, each when the characters of the query are a
  subsequence of its label or of its search terms, upper and lower case alike.\<close>

theorem palette_filter:
  "populate_list fold_case (c # cs) as =
     filter (\<lambda>a. (if c = CHR ''>'' then \<not> pa_is_workspace a \<and> \<not> pa_is_search_result a else pa_is_workspace a \<or> pa_is_search_result a) \<and>
       (\<exists>s \<in> {pa_label a} \<union> ({pa_search_terms a} - {[]}).
          subseq (chars (fold_case (if c = CHR ''>'' then trim_start cs else c # cs))) (chars (fold_case s)))) as"
proof -
  have s: "strip_prefix ''>'' (c # cs) = (if c = CHR ''>'' then Some cs else None)"
    by (auto simp: strip_prefix_def starts_with_def)
  have [simp]: "chars [] = []" by simp
  show ?thesis unfolding populate_list_def
    by (rule filter_cong [OF refl]) (auto simp: shown_entry_def s fuzzy_match_def in_order_subseq)
qed

text \<open>The fixed entries that do nothing, and the entry of the notes that leaves a workspace without panels.\<close>

definition idle_names :: "rstr list" where
  "idle_names = [''workspace.rename'', ''sidebar.toggle'', ''pane.join'']"

lemma idle_entries:
  "list_all (\<lambda>n. n \<in> set (map fst fixed_entries)) idle_names" "n \<in> set idle_names \<Longrightarrow> changing_entry e n w = w"
proof -
  show "list_all (\<lambda>n. n \<in> set (map fst fixed_entries)) idle_names" by code_simp
  have "list_all (\<lambda>n. n \<notin> set (map fst tab_entries @ map fst selected_entries @ map fst focus_entries @ map fst panel_entries @
      map fst workspace_kinds @ [''workspace.new_notes'', ''pane.close'', ''tab.close'', ''workspace.close'', ''pane.break'',
      ''workspace.hibernate'', ''goal.run'', ''overview.open'', ''dock.toggle'']) \<and>
      strip_prefix ''workspace.select.'' n = None \<and> strip_prefix ''surface.search.'' n = None) idle_names" by code_simp
  then show "n \<in> set idle_names \<Longrightarrow> changing_entry e n w = w"
    by (simp add: list_all_iff changing_entry_def search_target_def map_of_eq_None_iff [THEN iffD2])
qed

definition notes_only :: window where
  "notes_only = on_tabs (edit_selected (\<lambda>ws. ws\<lparr> ws_panels := [(8, new_notes 8 ''/n'')] \<rparr>)) (fresh_window sample_server)"

lemma notes_leave_nothing:
  "map ws_panels (tm_workspaces (wtabs (changing_entry sample_win_env ''workspace.new_notes'' notes_only))) = [[]]"
  by code_simp

text \<open>A link opened in a new tab after another workspace was selected: its panel is in no pane.\<close>

lemma orphan_tab:
  "let ws = hd (tm_workspaces (wtabs (fst (handle_event sample_win_env (UiBrowserOpenInNewTab 4 ''http://a'') (fresh_window sample_server)))))
   in keys_of (ws_panels ws) = [8, 9] \<and> all_panel_ids (ws_layout ws) = [8] \<and> ws_focused_panel_id ws = Some 9"
  by code_simp


section \<open>Remote connections\<close>

text \<open>Disconnecting while the connection is being made has no effect: it is made all the same. And a connection made
  within ten seconds of a disconnect is dropped by the monitor of the old one, which is still waiting and only
  asks whether the workspace has a session.\<close>

definition connected_again :: "window \<Rightarrow> window" where
  "connected_again w = remote_started 7 True (Connected 22 ''d'') (fst (handle_event sample_win_env (UiRemoteDisconnect 7) w))"

lemma disconnect_lost:
  "let w = fst (handle_event sample_win_env (UiRemoteConnect 7) (fresh_window sample_server))
   in 7 \<in> set (wi_sessions (connected_again w))"
  by code_simp

lemma stale_monitor_drops:
  "let w = connected_again (remote_started 7 True (Connected 22 ''d'') (fresh_window sample_server))
   in wi_sessions w = [7] \<and> wi_sessions (fst (monitor_remote 7 False w)) = []"
  by code_simp

end
