(* ===== verification/Settings_Text.thy ===== *)
theory Settings_Text imports Text_Split Tab_Manager begin

text \<open>
  The choices a user makes in the settings and the small functions on them (\<open>jmux/src/settings/mod.rs\<close>): the
  enumerations with their positions in the dialog's lists, search addresses, link routing, approved commands,
  the port range, and comments in the settings file.
\<close>

section \<open>Choices\<close>

datatype PlusButtonAction = NewWorkspace | NewTab
datatype BrowserThemeMode = BtSystem | BtLight | BtDark
datatype SearchEngine = Google | DuckDuckGo | Bing | Kagi | Startpage | CustomEngine
datatype SidebarFocusStyle = SolidFill | LeftRail
datatype FileOpenAction = Preview | DefaultApp | PreferredEditor
datatype ThemeMode = ThSystem | ThLight | ThDark | ThOmarchy
datatype NotificationSound = SoundDefault | SoundNone | SoundTheme rstr | SoundFile rstr
datatype SocketAccess = AccessOff | JmuxOnly | AccessAllowAll
datatype LinkTarget = JmuxBrowser | SystemBrowser

text \<open>The lists \<open>ALL\<close> of the dialog, the labels, and \<open>from_index\<close> and \<open>to_index\<close> of each.\<close>

definition all_placements :: "NewWorkspacePlacement list" where "all_placements = [PEnd, PAfterCurrent, PTop]"
definition all_plus_actions :: "PlusButtonAction list" where "all_plus_actions = [NewWorkspace, NewTab]"
definition all_browser_themes :: "BrowserThemeMode list" where "all_browser_themes = [BtSystem, BtLight, BtDark]"
definition all_engines :: "SearchEngine list" where "all_engines = [Google, DuckDuckGo, Bing, Kagi, Startpage, CustomEngine]"
definition all_focus_styles :: "SidebarFocusStyle list" where "all_focus_styles = [SolidFill, LeftRail]"

fun placement_label :: "NewWorkspacePlacement \<Rightarrow> rstr" where
  "placement_label PEnd = ''End''"
| "placement_label PAfterCurrent = ''After Current''"
| "placement_label PTop = ''Top''"

definition placement_from_index :: "u32 \<Rightarrow> NewWorkspacePlacement" where
  "placement_from_index i = (if i = 1 then PAfterCurrent else if i = 2 then PTop else PEnd)"

fun placement_to_index :: "NewWorkspacePlacement \<Rightarrow> u32" where
  "placement_to_index PEnd = 0"
| "placement_to_index PAfterCurrent = 1"
| "placement_to_index PTop = 2"

fun plus_label :: "PlusButtonAction \<Rightarrow> rstr" where
  "plus_label NewWorkspace = ''New Workspace''"
| "plus_label NewTab = ''New Tab''"

definition plus_from_index :: "u32 \<Rightarrow> PlusButtonAction" where
  "plus_from_index i = (if i = 1 then NewTab else NewWorkspace)"

fun plus_to_index :: "PlusButtonAction \<Rightarrow> u32" where
  "plus_to_index NewWorkspace = 0"
| "plus_to_index NewTab = 1"

fun browser_theme_label :: "BrowserThemeMode \<Rightarrow> rstr" where
  "browser_theme_label BtSystem = ''System''"
| "browser_theme_label BtLight = ''Light''"
| "browser_theme_label BtDark = ''Dark''"

definition browser_theme_from_index :: "u32 \<Rightarrow> BrowserThemeMode" where
  "browser_theme_from_index i = (if i = 1 then BtLight else if i = 2 then BtDark else BtSystem)"

fun browser_theme_to_index :: "BrowserThemeMode \<Rightarrow> u32" where
  "browser_theme_to_index BtSystem = 0"
| "browser_theme_to_index BtLight = 1"
| "browser_theme_to_index BtDark = 2"

fun engine_label :: "SearchEngine \<Rightarrow> rstr" where
  "engine_label Google = ''Google''"
| "engine_label DuckDuckGo = ''DuckDuckGo''"
| "engine_label Bing = ''Bing''"
| "engine_label Kagi = ''Kagi''"
| "engine_label Startpage = ''Startpage''"
| "engine_label CustomEngine = ''Custom''"

definition engine_from_index :: "u32 \<Rightarrow> SearchEngine" where
  "engine_from_index i =
     (if i = 0 then Google else if i = 1 then DuckDuckGo else if i = 2 then Bing else if i = 3 then Kagi
      else if i = 4 then Startpage else if i = 5 then CustomEngine else DuckDuckGo)"

fun engine_to_index :: "SearchEngine \<Rightarrow> u32" where
  "engine_to_index Google = 0"
| "engine_to_index DuckDuckGo = 1"
| "engine_to_index Bing = 2"
| "engine_to_index Kagi = 3"
| "engine_to_index Startpage = 4"
| "engine_to_index CustomEngine = 5"

fun focus_style_label :: "SidebarFocusStyle \<Rightarrow> rstr" where
  "focus_style_label SolidFill = ''Solid Fill''"
| "focus_style_label LeftRail = ''Left Rail''"

definition focus_style_from_index :: "u32 \<Rightarrow> SidebarFocusStyle" where
  "focus_style_from_index i = (if i = 1 then LeftRail else SolidFill)"

fun focus_style_to_index :: "SidebarFocusStyle \<Rightarrow> u32" where
  "focus_style_to_index SolidFill = 0"
| "focus_style_to_index LeftRail = 1"

definition open_action_from_index :: "u32 \<Rightarrow> FileOpenAction" where
  "open_action_from_index i = (if i = 0 then Preview else if i = 2 then PreferredEditor else DefaultApp)"

fun open_action_to_index :: "FileOpenAction \<Rightarrow> u32" where
  "open_action_to_index Preview = 0"
| "open_action_to_index DefaultApp = 1"
| "open_action_to_index PreferredEditor = 2"

section \<open>Search addresses\<close>

definition hex_upper :: "nat \<Rightarrow> char" where
  "hex_upper n = (if n < 10 then char_of (48 + n) else char_of (55 + n))"

definition is_unreserved :: "char \<Rightarrow> bool" where
  "is_unreserved c \<longleftrightarrow>
     (let n = of_char c :: nat in 65 \<le> n \<and> n \<le> 90 \<or> 97 \<le> n \<and> n \<le> 122 \<or> 48 \<le> n \<and> n \<le> 57) \<or>
     c \<in> {CHR ''-'', CHR ''_'', CHR ''.'', CHR 0x7E}"

definition encode_byte :: "char \<Rightarrow> rstr" where
  "encode_byte c =
     (if is_unreserved c then [c]
      else if c = CHR '' '' then ''+''
      else [CHR ''%'', hex_upper (of_char c div 16), hex_upper (of_char c mod 16)])"

definition urlencoded :: "rstr \<Rightarrow> rstr" where
  "urlencoded s = concat (map encode_byte s)"

text \<open>A template with or without its place for the query.\<close>

definition fill_template :: "rstr \<Rightarrow> rstr \<Rightarrow> rstr" where
  "fill_template template encoded =
     (if contains_str ''%s'' template then replace_all ''%s'' encoded template else template @ encoded)"

definition search_url :: "rstr \<Rightarrow> SearchEngine \<Rightarrow> rstr \<Rightarrow> rstr" where
  "search_url custom engine query =
     (let q = urlencoded query in
      case engine of
        Google \<Rightarrow> ''https://www.google.com/search?q='' @ q
      | DuckDuckGo \<Rightarrow> ''https://duckduckgo.com/?q='' @ q
      | Bing \<Rightarrow> ''https://www.bing.com/search?q='' @ q
      | Kagi \<Rightarrow> ''https://kagi.com/search?q='' @ q
      | Startpage \<Rightarrow> ''https://www.startpage.com/do/search?q='' @ q
      | CustomEngine \<Rightarrow> if trim custom = [] then ''https://duckduckgo.com/?q='' @ q else fill_template custom q)"

record search_keyword =
  sk_keyword :: rstr
  sk_url_template :: rstr

definition try_resolve :: "search_keyword \<Rightarrow> rstr \<Rightarrow> rstr option" where
  "try_resolve k query =
     (let kw = trim (sk_keyword k) in
      if kw = [] then None
      else map_option (\<lambda>r. fill_template (sk_url_template k) (urlencoded (trim r)))
             (Option.bind (strip_prefix kw query) (strip_prefix '' '')))"

section \<open>Links and commands\<close>

record link_routing =
  lr_default_target :: LinkTarget
  lr_external_patterns :: "rstr list"

definition default_link_routing :: link_routing where
  "default_link_routing = \<lparr> lr_default_target = JmuxBrowser, lr_external_patterns = [] \<rparr>"

definition pattern_matches :: "(rstr \<Rightarrow> rstr) \<Rightarrow> rstr \<Rightarrow> rstr \<Rightarrow> bool" where
  "pattern_matches fold_case url pattern \<longleftrightarrow>
     (case strip_prefix ''^'' (fold_case pattern) of
        Some p \<Rightarrow> (case after_str ''://'' (fold_case url) of Some r \<Rightarrow> starts_with (trim p) r | None \<Rightarrow> False)
      | None \<Rightarrow> contains_str (fold_case pattern) (fold_case url))"

definition should_open_externally :: "(rstr \<Rightarrow> rstr) \<Rightarrow> link_routing \<Rightarrow> rstr \<Rightarrow> bool" where
  "should_open_externally fold_case r url \<longleftrightarrow>
     lr_default_target r = SystemBrowser \<or> list_ex (pattern_matches fold_case url) (lr_external_patterns r)"

definition default_resume_command_approvals :: "rstr list" where
  "default_resume_command_approvals = [''claude --continue'', ''codex'', ''opencode --resume'', ''agy'', ''rovo dev'']"

definition is_resume_command_approved :: "rstr list \<Rightarrow> rstr \<Rightarrow> bool" where
  "is_resume_command_approved approvals cmd \<longleftrightarrow>
     list_ex (\<lambda>a. cmd = a \<or> starts_with (a @ '' '') cmd) approvals"

record port_range =
  pr_start :: "16 word"
  pr_end :: "16 word"

definition default_ports :: port_range where
  "default_ports = \<lparr> pr_start = 10000, pr_end = 10100 \<rparr>"

definition port_bounds :: "port_range \<Rightarrow> 16 word \<times> 16 word" where
  "port_bounds r = (if pr_start r \<le> pr_end r then (pr_start r, pr_end r) else (pr_start default_ports, pr_end default_ports))"

section \<open>Comments\<close>

text \<open>\<open>strip_jsonc_comments\<close>, on bytes: every character it looks for is ASCII, and of an escaped character the bytes
  after the first are copied in the string as well. The settings and the command line client have the same.\<close>

fun skip_line :: "rstr \<Rightarrow> rstr \<times> rstr" where
  "skip_line [] = ([], [])"
| "skip_line (c # cs) = (if c = CHR 0x0A then ([CHR 0x0A], cs) else skip_line cs)"

fun skip_block :: "bool \<Rightarrow> rstr \<Rightarrow> rstr \<times> rstr" where
  "skip_block star [] = ([], [])"
| "skip_block star (c # cs) =
     (if star \<and> c = CHR ''/'' then ([], cs)
      else (let (out, r) = skip_block (c = CHR ''*'') cs in ((if c = CHR 0x0A then [c] else []) @ out, r)))"

lemma skip_shorter: "length (snd (skip_line cs)) \<le> length cs" "length (snd (skip_block star cs)) \<le> length cs"
  by (induction cs arbitrary: star) (auto simp: split_beta Let_def le_SucI)

lemma skip_shorter_eq: "skip_line cs = (a, r) \<Longrightarrow> length r \<le> length cs" "skip_block star cs = (a, r) \<Longrightarrow> length r \<le> length cs"
  using skip_shorter(1) [of cs] skip_shorter(2) [of star cs] by simp_all

function strip_from :: "bool \<Rightarrow> rstr \<Rightarrow> rstr" where
  "strip_from in_string [] = []"
| "strip_from True (c # cs) =
     (if c = CHR 0x5C then (case cs of [] \<Rightarrow> [c] | e # r \<Rightarrow> c # e # strip_from True r)
      else c # strip_from (c \<noteq> CHR 0x22) cs)"
| "strip_from False (c # cs) =
     (if c = CHR 0x22 then c # strip_from True cs
      else if c = CHR ''/'' then
        (case cs of
           [] \<Rightarrow> [c]
         | d # r \<Rightarrow>
             if d = CHR ''/'' then (case skip_line r of (out, r) \<Rightarrow> out @ strip_from False r)
             else if d = CHR ''*'' then (case skip_block False r of (out, r) \<Rightarrow> out @ strip_from False r)
             else c # strip_from False cs)
      else c # strip_from False cs)"
  by pat_completeness auto
termination
  by (relation "measure (\<lambda>(_, s). length s)") (auto dest!: skip_shorter_eq [OF sym])

definition strip_jsonc_comments :: "rstr \<Rightarrow> rstr" where
  "strip_jsonc_comments = strip_from False"


section \<open>Facts\<close>

text \<open>What a reader of the settings file means: string literals, other characters, and comments.\<close>

datatype piece = Literal rstr | Plain char | LineComment rstr | BlockComment rstr

fun written :: "piece \<Rightarrow> rstr" where
  "written (Literal s) = [CHR 0x22] @ s @ [CHR 0x22]"
| "written (Plain c) = [c]"
| "written (LineComment t) = ''//'' @ t @ [CHR 0x0A]"
| "written (BlockComment t) = ''/*'' @ t @ ''*/''"

fun meant :: "piece \<Rightarrow> rstr" where
  "meant (LineComment t) = [CHR 0x0A]"
| "meant (BlockComment t) = filter (\<lambda>c. c = CHR 0x0A) t"
| "meant p = written p"

text \<open>In a literal quotes and backslashes are escaped; a line comment has one line, a block comment does not contain
  its end, and a slash outside of comments stands in a literal.\<close>

fun literal_ok :: "rstr \<Rightarrow> bool" where
  "literal_ok [] \<longleftrightarrow> True"
| "literal_ok (c # cs) \<longleftrightarrow>
     (if c = CHR 0x5C then (case cs of [] \<Rightarrow> False | e # r \<Rightarrow> literal_ok r) else c \<noteq> CHR 0x22 \<and> literal_ok cs)"

fun no_end :: "bool \<Rightarrow> rstr \<Rightarrow> bool" where
  "no_end star [] \<longleftrightarrow> True"
| "no_end star (c # cs) \<longleftrightarrow> \<not> (star \<and> c = CHR ''/'') \<and> no_end (c = CHR ''*'') cs"

fun piece_ok :: "piece \<Rightarrow> bool" where
  "piece_ok (Literal s) \<longleftrightarrow> literal_ok s"
| "piece_ok (Plain c) \<longleftrightarrow> c \<noteq> CHR 0x22 \<and> c \<noteq> CHR ''/''"
| "piece_ok (LineComment t) \<longleftrightarrow> CHR 0x0A \<notin> set t"
| "piece_ok (BlockComment t) \<longleftrightarrow> no_end False t"

lemma strip_literal: "literal_ok s \<Longrightarrow> strip_from True (s @ CHR 0x22 # r) = s @ CHR 0x22 # strip_from False r"
  by (induction s rule: literal_ok.induct) (auto split: list.splits)

lemma skip_line_to: "CHR 0x0A \<notin> set t \<Longrightarrow> skip_line (t @ CHR 0x0A # r) = ([CHR 0x0A], r)"
  by (induction t) auto

lemma skip_block_to: "no_end star t \<Longrightarrow> skip_block star (t @ CHR ''*'' # CHR ''/'' # r) = (filter (\<lambda>c. c = CHR 0x0A) t, r)"
  by (induction star t rule: no_end.induct) (auto split: prod.split)

lemma strip_newlines: "strip_from False (filter (\<lambda>c. c = CHR 0x0A) t @ r) = filter (\<lambda>c. c = CHR 0x0A) t @ strip_from False r"
  by (induction t) auto

lemma strip_piece: "piece_ok p \<Longrightarrow> strip_from False (written p @ r) = meant p @ strip_from False r"
  by (cases p) (simp_all add: strip_literal skip_line_to skip_block_to)

lemma strip_pieces: "list_all piece_ok ps \<Longrightarrow> strip_from False (concat (map written ps)) = concat (map meant ps)"
  by (induction ps) (simp_all add: strip_piece)

text \<open>C39. Stripping the comments of a settings file removes exactly them: whatever string literals, comments and other
  characters it is made of, the literals and the rest stay as they are, also literals that look like comments,
  and of a comment only its line feeds stay, so that positions in error messages keep their line.\<close>

theorem comments_removed:
  assumes "list_all piece_ok ps"
  shows "strip_jsonc_comments (concat (map written ps)) = concat (map meant ps)"
  unfolding strip_jsonc_comments_def by (rule strip_pieces [OF assms])

lemma comments_removed_witness:
  "strip_jsonc_comments (concat (map written [Plain (CHR 0x7B), Literal ''http://a'', Plain (CHR '':''), BlockComment '' x*y '',
     Literal [CHR 0x5C, CHR 0x22, CHR ''/'', CHR ''/''], LineComment ''/ end'', Plain (CHR 0x7D)])) =
   [CHR 0x7B] @ [CHR 0x22] @ ''http://a'' @ [CHR 0x22] @ '':'' @ [CHR 0x22, CHR 0x5C, CHR 0x22, CHR ''/'', CHR ''/'', CHR 0x22, CHR 0x0A, CHR 0x7D]"
  by (subst comments_removed) simp_all

section \<open>Addresses\<close>

text \<open>How a server reads the query of an address.\<close>

definition hex_val :: "char \<Rightarrow> nat" where
  "hex_val c = (let n = of_char c in if n < 58 then n - 48 else n - 55)"

fun url_decode :: "rstr \<Rightarrow> rstr" where
  "url_decode (c # a # b # r) =
     (if c = CHR ''%'' then char_of (16 * hex_val a + hex_val b) # url_decode r
      else (if c = CHR ''+'' then CHR '' '' else c) # url_decode (a # b # r))"
| "url_decode (c # r) = (if c = CHR ''+'' then CHR '' '' else c) # url_decode r"
| "url_decode [] = []"

lemma decode_other: "c \<noteq> CHR ''%'' \<Longrightarrow> url_decode (c # r) = (if c = CHR ''+'' then CHR '' '' else c) # url_decode r"
  by (cases r rule: list.exhaust; cases "tl r") auto

lemma hex_val_upper: "n < 16 \<Longrightarrow> hex_val (hex_upper n) = n"
  by (simp add: hex_val_def hex_upper_def of_char_of take_bit_eq_mod)

lemma byte_less: "(of_char c :: nat) < 256"
  using of_char_mod_256 [of c, where 'a = nat] by (metis mod_less_divisor zero_less_numeral)

lemma decode_byte: "url_decode (encode_byte c @ r) = c # url_decode r"
proof -
  have n: "(of_char c :: nat) < 256" by (rule byte_less)
  then have "(of_char c :: nat) div 16 < 16" by (intro less_mult_imp_div_less) simp
  then have "hex_val (hex_upper (of_char c div 16)) = of_char c div 16" "hex_val (hex_upper (of_char c mod 16)) = of_char c mod 16"
    by (simp_all add: hex_val_upper)
  moreover have "16 * (of_char c div 16) + of_char c mod 16 = (of_char c :: nat)" by simp
  moreover have "is_unreserved c \<Longrightarrow> c \<noteq> CHR ''%'' \<and> c \<noteq> CHR ''+''" by (auto simp: is_unreserved_def)
  ultimately show ?thesis by (auto simp: encode_byte_def decode_other)
qed

text \<open>C40. What is searched for arrives as it was typed, whatever it contains: a server that decodes the query gets the
  text back, and the address holds only unreserved characters, plus signs and percent signs there, so the text
  cannot end the query or the address.\<close>

theorem query_roundtrip:
  "url_decode (urlencoded s) = s \<and> set (urlencoded s) \<subseteq> {c. is_unreserved c} \<union> {CHR ''+'', CHR ''%''}"
proof
  show "url_decode (urlencoded s) = s" by (induction s) (simp_all add: urlencoded_def decode_byte)
  have "is_unreserved (hex_upper n)" if "n < 16" for n
    using that by (auto simp: is_unreserved_def hex_upper_def of_char_of take_bit_eq_mod Let_def)
  then have "set (encode_byte c) \<subseteq> {c. is_unreserved c} \<union> {CHR ''+'', CHR ''%''}" for c
    using byte_less [of c] by (auto simp: encode_byte_def less_mult_imp_div_less)
  then show "set (urlencoded s) \<subseteq> {c. is_unreserved c} \<union> {CHR ''+'', CHR ''%''}" by (auto simp: urlencoded_def)
qed

section \<open>Choices, links and ports\<close>

text \<open>The positions of the dialog's lists and the choices correspond.\<close>

lemma choices_listed:
  "placement_from_index (placement_to_index p) = p \<and> all_placements ! unat (placement_to_index p) = p"
  "plus_from_index (plus_to_index a) = a \<and> all_plus_actions ! unat (plus_to_index a) = a"
  "browser_theme_from_index (browser_theme_to_index t) = t \<and> all_browser_themes ! unat (browser_theme_to_index t) = t"
  "engine_from_index (engine_to_index g) = g \<and> all_engines ! unat (engine_to_index g) = g"
  "focus_style_from_index (focus_style_to_index f) = f \<and> all_focus_styles ! unat (focus_style_to_index f) = f"
  "open_action_from_index (open_action_to_index x) = x"
  by (cases p; cases a; cases t; cases g; cases f; cases x;
      simp add: placement_from_index_def all_placements_def plus_from_index_def all_plus_actions_def browser_theme_from_index_def
        all_browser_themes_def engine_from_index_def all_engines_def focus_style_from_index_def all_focus_styles_def
        open_action_from_index_def)+

lemma ports_ordered: "fst (port_bounds r) \<le> snd (port_bounds r)"
  by (simp add: port_bounds_def default_ports_def)

text \<open>A command is approved with its arguments, but not a longer word.\<close>

lemma approved_words:
  "is_resume_command_approved [''codex''] ''codex --dir /a''" "\<not> is_resume_command_approved [''codex''] ''codexx''"
  by code_simp+

end
