(* ===== verification/Settings_File.thy ===== *)
theory Settings_File imports Settings_Text Shortcuts Session_Restore Goal_Config begin

text \<open>
  The settings and their files (\<open>jmux/src/settings/mod.rs\<close>): the defaults, loading with a backup and a cache, and
  saving, which may be refused or cut short. serde's reading and writing of JSON text are arguments.
\<close>

section \<open>The settings\<close>

record notification_settings =
  nt_sound_enabled :: bool
  nt_sound_name :: NotificationSound
  nt_custom_command :: "rstr option"
  nt_reorder_on_notification :: bool

record browser_settings =
  bs_enabled :: bool
  bs_search_engine :: SearchEngine
  bs_custom_search_template :: rstr
  bs_search_keywords :: "search_keyword list"
  bs_home_url :: rstr
  bs_search_suggestions :: bool
  bs_http_allowlist :: "rstr list"
  bs_browser_theme :: BrowserThemeMode
  bs_memory_saver_enabled :: bool

text \<open>An \<open>f32\<close> is given by its value, which is an \<open>f64\<close> too.\<close>

definition f32_0_85 :: f64 where "f32_0_85 = Fin False (7130317 / 8388608)"
definition f32_0_45 :: f64 where "f32_0_45 = Fin False (7549747 / 16777216)"

record sidebar_settings =
  sb_show_git_branch :: bool
  sb_show_directory :: bool
  sb_show_pr_status :: bool
  sb_show_ports :: bool
  sb_show_logs :: bool
  sb_show_progress :: bool
  sb_show_status_pills :: bool
  sb_hide_all_details :: bool
  sb_branch_vertical_layout :: bool
  sb_show_notification_message :: bool
  sb_focus_style :: SidebarFocusStyle
  sb_width :: u32
  sb_tint_color :: rstr
  sb_tint_color_light :: rstr
  sb_tint_color_dark :: rstr
  sb_tint_opacity :: f64
  sb_port_link_external :: bool
  sb_selection_color :: rstr
  sb_match_terminal_background :: bool

record quick_terminal_settings =
  qt_enabled :: bool
  qt_hotkey :: rstr
  qt_height_fraction :: f64
  qt_animation_ms :: u32
  qt_preferred_display :: rstr

record app_settings =
  ap_theme :: ThemeMode
  ap_focus_follows_mouse :: bool
  ap_confirm_before_close :: bool
  ap_new_workspace_placement :: NewWorkspacePlacement
  ap_notifications :: notification_settings
  ap_socket_access :: SocketAccess
  ap_sidebar :: sidebar_settings
  ap_browser :: browser_settings
  ap_first_click_focus :: bool
  ap_pane_attention_ring :: bool
  ap_pane_flash_enabled :: bool
  ap_link_routing :: link_routing
  ap_remote_ssh_enabled :: bool
  ap_remote_relay_ports :: port_range
  ap_minimal_mode :: bool
  ap_show_tab_close_button :: bool
  ap_persist_scrollback :: bool
  ap_warn_before_closing_tab :: bool
  ap_copy_on_select :: bool
  ap_confirm_quit :: bool
  ap_tab_bar_font_size :: f64
  ap_sidebar_font_size :: f64
  ap_workspace_cwd_inheritance :: bool
  ap_plus_button_action :: PlusButtonAction
  ap_split_ratio_persist :: bool
  ap_agent_restore :: agent_restore
  ap_resume_command_approvals :: "rstr list"
  ap_imessage_mode :: bool
  ap_notes_path :: rstr
  ap_show_textbox_on_new_terminals :: bool
  ap_focus_textbox_on_new_terminals :: bool
  ap_textbox_max_lines :: u32
  ap_show_dock :: bool
  ap_editor_word_wrap :: bool
  ap_file_explorer_open_action :: FileOpenAction
  ap_preferred_editor :: rstr
  ap_ai_auto_naming :: bool
  ap_auto_subagent_monitor :: bool
  ap_goal :: goal_settings
  ap_quick_terminal :: quick_terminal_settings
  ap_shortcuts :: shortcut_config

definition default_notification_settings :: notification_settings where
  "default_notification_settings =
     \<lparr> nt_sound_enabled = False, nt_sound_name = SoundDefault, nt_custom_command = None, nt_reorder_on_notification = False \<rparr>"

definition default_browser_settings :: browser_settings where
  "default_browser_settings =
     \<lparr> bs_enabled = True, bs_search_engine = DuckDuckGo, bs_custom_search_template = [], bs_search_keywords = [],
       bs_home_url = ''https://duckduckgo.com'', bs_search_suggestions = True, bs_http_allowlist = [],
       bs_browser_theme = BtSystem, bs_memory_saver_enabled = True \<rparr>"

definition default_sidebar_settings :: sidebar_settings where
  "default_sidebar_settings =
     \<lparr> sb_show_git_branch = True, sb_show_directory = True, sb_show_pr_status = True, sb_show_ports = True,
       sb_show_logs = True, sb_show_progress = True, sb_show_status_pills = True, sb_hide_all_details = False,
       sb_branch_vertical_layout = False, sb_show_notification_message = True, sb_focus_style = SolidFill, sb_width = 0,
       sb_tint_color = [], sb_tint_color_light = [], sb_tint_color_dark = [], sb_tint_opacity = f32_0_85,
       sb_port_link_external = False, sb_selection_color = [], sb_match_terminal_background = False \<rparr>"

definition default_quick_terminal :: quick_terminal_settings where
  "default_quick_terminal =
     \<lparr> qt_enabled = False, qt_hotkey = ''CTRL+grave'', qt_height_fraction = f32_0_45, qt_animation_ms = 150, qt_preferred_display = [] \<rparr>"

definition default_app_settings :: app_settings where
  "default_app_settings =
     \<lparr> ap_theme = ThSystem, ap_focus_follows_mouse = False, ap_confirm_before_close = True, ap_new_workspace_placement = PEnd,
       ap_notifications = default_notification_settings, ap_socket_access = JmuxOnly, ap_sidebar = default_sidebar_settings,
       ap_browser = default_browser_settings, ap_first_click_focus = False, ap_pane_attention_ring = True,
       ap_pane_flash_enabled = True, ap_link_routing = default_link_routing, ap_remote_ssh_enabled = False,
       ap_remote_relay_ports = default_ports, ap_minimal_mode = False, ap_show_tab_close_button = True,
       ap_persist_scrollback = True, ap_warn_before_closing_tab = True, ap_copy_on_select = False, ap_confirm_quit = True,
       ap_tab_bar_font_size = Fin False 0, ap_sidebar_font_size = Fin False 0, ap_workspace_cwd_inheritance = True,
       ap_plus_button_action = NewWorkspace, ap_split_ratio_persist = True, ap_agent_restore = agent_restore_default,
       ap_resume_command_approvals = default_resume_command_approvals, ap_imessage_mode = False, ap_notes_path = [],
       ap_show_textbox_on_new_terminals = False, ap_focus_textbox_on_new_terminals = False, ap_textbox_max_lines = 6,
       ap_show_dock = False, ap_editor_word_wrap = True, ap_file_explorer_open_action = DefaultApp, ap_preferred_editor = [],
       ap_ai_auto_naming = False, ap_auto_subagent_monitor = False, ap_goal = default_settings,
       ap_quick_terminal = default_quick_terminal, ap_shortcuts = default_shortcuts \<rparr>"

section \<open>Files\<close>

text \<open>The configuration directory: a file has a content, any bytes, and the time of its last change.\<close>

record config_file =
  cf_content :: rstr
  cf_mtime :: nat

type_synonym config_dir = "rstr \<Rightarrow> config_file option"

definition read_text :: "config_dir \<Rightarrow> rstr \<Rightarrow> rstr option" where
  "read_text d name = opt_filter utf8_valid (map_option cf_content (d name))"

definition mtime_of :: "config_dir \<Rightarrow> rstr \<Rightarrow> nat option" where
  "mtime_of d name = map_option cf_mtime (d name)"

definition active_config :: "config_dir \<Rightarrow> rstr" where
  "active_config d = (if d ''jmux.json'' \<noteq> None then ''jmux.json'' else ''settings.json'')"

text \<open>serde on the text without its comments, for the settings and for the shortcuts. The settings' own shortcuts are
  skipped (\<open>#[serde(skip)]\<close>): the text does not hold them, and reading it gives the default ones.\<close>

record parsers =
  pz_settings :: "rstr \<Rightarrow> app_settings option"
  pz_shortcuts :: "rstr \<Rightarrow> shortcut_config option"
  pz_print :: "app_settings \<Rightarrow> rstr"
  pz_print_shortcuts :: "shortcut_config \<Rightarrow> rstr"

definition parse_settings :: "parsers \<Rightarrow> rstr \<Rightarrow> app_settings option" where
  "parse_settings z content = pz_settings z (strip_jsonc_comments content)"

text \<open>How a copy and a write end: not at all, in full, or cut after some bytes.\<close>

datatype write_end = NotOpened | Complete | CutAfter nat

definition write_file :: "write_end \<Rightarrow> nat \<Rightarrow> rstr \<Rightarrow> rstr \<Rightarrow> config_dir \<Rightarrow> config_dir" where
  "write_file r now name text d =
     (case r of
        NotOpened \<Rightarrow> d
      | Complete \<Rightarrow> d(name \<mapsto> \<lparr> cf_content = text, cf_mtime = now \<rparr>)
      | CutAfter n \<Rightarrow> d(name \<mapsto> \<lparr> cf_content = take n text, cf_mtime = now \<rparr>))"

text \<open>A copy does nothing when the source is missing; how it ended is not looked at.\<close>

definition copy_file :: "write_end \<Rightarrow> nat \<Rightarrow> rstr \<Rightarrow> rstr \<Rightarrow> config_dir \<Rightarrow> config_dir" where
  "copy_file r now from_name to_name d =
     (case d from_name of
        Some f \<Rightarrow> write_file r now to_name (cf_content f) d
      | None \<Rightarrow> d)"

definition load_settings_at :: "parsers \<Rightarrow> write_end \<Rightarrow> nat \<Rightarrow> rstr \<Rightarrow> config_dir \<Rightarrow> config_dir \<times> app_settings" where
  "load_settings_at z copied now name d =
     (case read_text d name of
        None \<Rightarrow> (d, default_app_settings)
      | Some c \<Rightarrow>
          (case parse_settings z c of
             Some s \<Rightarrow> (d, s)
           | None \<Rightarrow>
               (let d = copy_file copied now name (name @ ''.invalid'') d
                in (d, case Option.bind (read_text d (name @ ''.bak'')) (parse_settings z) of
                         Some s \<Rightarrow> s | None \<Rightarrow> default_app_settings))))"

definition shortcuts_at :: "parsers \<Rightarrow> config_dir \<Rightarrow> shortcut_config" where
  "shortcuts_at z d = load_shortcuts (pz_shortcuts z) (read_text d ''shortcuts.json'')"

text \<open>The cache is valid as long as the path and both times are the same.\<close>

record settings_cache =
  ca_settings :: app_settings
  ca_main_path :: rstr
  ca_main_mtime :: "nat option"
  ca_shortcuts_mtime :: "nat option"

definition load_fresh :: "parsers \<Rightarrow> write_end \<Rightarrow> nat \<Rightarrow> config_dir \<Rightarrow> config_dir \<times> app_settings" where
  "load_fresh z copied now d =
     (let (d', s) = load_settings_at z copied now (active_config d) d in (d', s\<lparr> ap_shortcuts := shortcuts_at z d' \<rparr>))"

definition load_settings ::
  "parsers \<Rightarrow> write_end \<Rightarrow> nat \<Rightarrow> config_dir \<Rightarrow> settings_cache option \<Rightarrow> (config_dir \<times> settings_cache option) \<times> app_settings"
where
  "load_settings z copied now d cache =
     (let path = active_config d; m = mtime_of d path; k = mtime_of d ''shortcuts.json'' in
      case opt_filter (\<lambda>c. ca_main_path c = path \<and> ca_main_mtime c = m \<and> ca_shortcuts_mtime c = k \<and> m \<noteq> None) cache of
        Some c \<Rightarrow> ((d, cache), ca_settings c)
      | None \<Rightarrow>
          (let (d', s) = load_fresh z copied now d
           in ((d', Some \<lparr> ca_settings = s, ca_main_path = path, ca_main_mtime = m, ca_shortcuts_mtime = k \<rparr>), s)))"

text \<open>\<open>save_at\<close>; \<open>force\<close> is the dialog's save, which replaces a file that cannot be read.\<close>

definition save_at :: "parsers \<Rightarrow> bool \<Rightarrow> write_end \<Rightarrow> write_end \<Rightarrow> nat \<Rightarrow> rstr \<Rightarrow> app_settings \<Rightarrow> config_dir \<Rightarrow> config_dir \<times> bool" where
  "save_at z force copied w now name s d =
     (if \<not> force \<and> (\<exists>c. read_text d name = Some c \<and> parse_settings z c = None) then (d, False)
      else (let d = copy_file copied now name (name @ ''.bak'') d
            in (write_file w now name (pz_print z s) d, w = Complete)))"

definition save_shortcuts :: "parsers \<Rightarrow> write_end \<Rightarrow> nat \<Rightarrow> shortcut_config \<Rightarrow> config_dir \<Rightarrow> config_dir" where
  "save_shortcuts z w now c d = write_file w now ''shortcuts.json'' (pz_print_shortcuts z c) d"

definition save_guarded ::
  "parsers \<Rightarrow> bool \<Rightarrow> write_end \<Rightarrow> write_end \<Rightarrow> write_end \<Rightarrow> nat \<Rightarrow> app_settings \<Rightarrow> config_dir \<Rightarrow> config_dir \<times> bool" where
  "save_guarded z force copied w w' now s d =
     (let (d, ok) = save_at z force copied w now (active_config d) s d
      in if ok then (save_shortcuts z w' now (ap_shortcuts s) d, w' = Complete) else (d, False))"


section \<open>What is never lost\<close>

text \<open>A load, with or without the cache, and a save that the user did not ask for in the dialog.\<close>

inductive settings_step :: "parsers \<Rightarrow> config_dir \<times> settings_cache option \<Rightarrow> config_dir \<times> settings_cache option \<Rightarrow> bool" for z where
  by_load: "settings_step z (d, cache) (fst (load_settings z copied now d cache))"
| by_save: "settings_step z (d, cache) (fst (save_guarded z False copied w w' now s d), cache)"

definition unreadable :: "parsers \<Rightarrow> config_dir \<Rightarrow> rstr \<Rightarrow> bool" where
  "unreadable z d name \<longleftrightarrow> (\<exists>c. read_text d name = Some c \<and> parse_settings z c = None)"

lemma active_names: "active_config d \<in> {''jmux.json'', ''settings.json''}"
  by (simp add: active_config_def)

lemma other_names:
  assumes "name \<in> {''jmux.json'', ''settings.json''}"
  shows "name @ ''.invalid'' \<notin> {''jmux.json'', ''settings.json'', ''shortcuts.json''}"
    "name @ ''.bak'' \<notin> {''jmux.json'', ''settings.json'', ''shortcuts.json''}" "name @ ''.bak'' \<noteq> name @ ''.invalid''"
    "name \<noteq> ''shortcuts.json''" "name \<noteq> name @ ''.invalid''" "name \<noteq> name @ ''.bak''"
  using assms by auto

lemma copy_elsewhere: "k \<noteq> to_name \<Longrightarrow> copy_file r now from_name to_name d k = d k"
  by (simp add: copy_file_def write_file_def split: option.split write_end.split)

lemma active_same: "d' ''jmux.json'' = d ''jmux.json'' \<Longrightarrow> active_config d' = active_config d"
  by (simp add: active_config_def)

lemma load_keeps:
  assumes "k \<in> {''jmux.json'', ''settings.json'', ''shortcuts.json''}"
  shows "fst (load_settings_at z copied now (active_config d) d) k = d k" "fst (load_fresh z copied now d) k = d k"
    "fst (fst (load_settings z copied now d cache)) k = d k"
proof -
  show a: "fst (load_settings_at z copied now (active_config d) d) k = d k" for d
    using assms other_names(1) [OF active_names [of d]]
    by (auto simp: load_settings_at_def Let_def copy_elsewhere split: option.split)
  then show b: "fst (load_fresh z copied now d) k = d k" for d by (simp add: load_fresh_def split_beta Let_def)
  then show "fst (fst (load_settings z copied now d cache)) k = d k"
    by (simp add: load_settings_def Let_def split_beta split: option.split)
qed

text \<open>C37. A settings file this build cannot read is not touched: whatever loads happen and whatever is saved along the
  way, as long as it is not the settings dialog, the file stays byte for byte as it is, and it stays the one
  that is read.\<close>

theorem unreadable_settings_kept:
  assumes "(settings_step z)\<^sup>*\<^sup>* (d, cache) (d', cache')" and "unreadable z d (active_config d)"
  shows "active_config d' = active_config d \<and> d' (active_config d) = d (active_config d)"
  using assms(1)
proof (induction rule: rtranclp_induct2)
  case (step d1 c1 d2 c2)
  let ?a = "active_config d"
  have u: "unreadable z d1 ?a" using assms(2) step.IH by (simp add: unreadable_def read_text_def)
  have a: "?a \<in> {''jmux.json'', ''settings.json'', ''shortcuts.json''}" using active_names [of d] by auto
  from step.hyps(2) have "d2 ?a = d1 ?a \<and> d2 ''jmux.json'' = d1 ''jmux.json''"
  proof cases
    case (by_load copied now)
    then have "d2 = fst (fst (load_settings z copied now d1 c1))" by (metis fst_conv)
    with load_keeps(3) [OF a] load_keeps(3) [of "''jmux.json''"] show ?thesis by simp
  next
    case (by_save copied w w' now s)
    with u step.IH show ?thesis by (simp add: save_guarded_def save_at_def unreadable_def)
  qed
  with step.IH active_same [of d2 d1] show ?case by simp
qed simp

text \<open>C38. A save that is cut short loses nothing: if the settings file could be read before and its copy to the backup
  was completed, the next start has the new settings when the write was completed and the old ones otherwise,
  wherever it stopped between two characters. The shortcuts are not in this file: what is read has the default
  ones, until \<open>load\<close> puts those of their own file in. serde is assumed to read back what it wrote, but for the
  shortcuts, and nothing from a part of it.\<close>

theorem cut_save_recovers:
  assumes "name \<in> {''jmux.json'', ''settings.json''}" and "read_text d name = Some c" and "parse_settings z c = Some s0"
    and "utf8_valid (pz_print z s)" and "parse_settings z (pz_print z s) = Some (s\<lparr> ap_shortcuts := default_shortcuts \<rparr>)"
    and "\<And>n. n < length (pz_print z s) \<Longrightarrow> parse_settings z (take n (pz_print z s)) = None"
    and "\<And>n. w = CutAfter n \<Longrightarrow> n < length (pz_print z s) \<and> utf8_valid (take n (pz_print z s))"
  shows "snd (load_settings_at z r later name (fst (save_at z force Complete w now name s d))) =
    (if w = Complete then s\<lparr> ap_shortcuts := default_shortcuts \<rparr> else s0)"
proof -
  note o = other_names [OF assms(1)]
  let ?d = "copy_file Complete now name (name @ ''.bak'') d"
  from assms(2) obtain f where f: "d name = Some f" "cf_content f = c" "utf8_valid c"
    by (auto simp: read_text_def opt_filter_def split: option.splits if_splits)
  then have d: "?d = d(name @ ''.bak'' \<mapsto> \<lparr> cf_content = c, cf_mtime = now \<rparr>)" by (simp add: copy_file_def write_file_def)
  have sv: "fst (save_at z force Complete w now name s d) = write_file w now name (pz_print z s) ?d"
    using assms(2,3) by (simp add: save_at_def Let_def)
  have r: "read_text ?d name = Some c" "read_text ?d (name @ ''.bak'') = Some c"
    using f o(6) by (simp_all add: d read_text_def opt_filter_def)
  show ?thesis
  proof (cases w)
    case NotOpened
    with r assms(3) show ?thesis unfolding sv by (simp add: write_file_def load_settings_at_def)
  next
    case Complete
    with assms(4,5) show ?thesis unfolding sv by (simp add: write_file_def load_settings_at_def read_text_def opt_filter_def)
  next
    case (CutAfter n)
    let ?e = "write_file w now name (pz_print z s) ?d"
    from CutAfter assms(6,7) have e: "read_text ?e name = Some (take n (pz_print z s))" "parse_settings z (take n (pz_print z s)) = None"
      by (simp_all add: write_file_def read_text_def opt_filter_def)
    have "copy_file r later name (name @ ''.invalid'') ?e (name @ ''.bak'') = ?d (name @ ''.bak'')"
      using o(3,6) CutAfter by (simp add: copy_elsewhere write_file_def)
    then have "read_text (copy_file r later name (name @ ''.invalid'') ?e) (name @ ''.bak'') = Some c"
      using r(2) by (simp add: read_text_def)
    with e assms(3) CutAfter show ?thesis unfolding sv by (simp add: load_settings_at_def Let_def)
  qed
qed

text \<open>When the copy did not get anywhere, a save cut short leaves what an earlier backup holds, or the defaults.\<close>

lemma cut_save_without_copy:
  assumes "name \<in> {''jmux.json'', ''settings.json''}" and "read_text d name = Some c" and "parse_settings z c = Some s0"
    and "d (name @ ''.bak'') = None"
    and "utf8_valid (take n (pz_print z s))" and "parse_settings z (take n (pz_print z s)) = None"
  shows "snd (load_settings_at z r later name (fst (save_at z force NotOpened (CutAfter n) now name s d))) = default_app_settings"
proof -
  note o = other_names [OF assms(1)]
  from assms(2) obtain f where f: "d name = Some f" by (auto simp: read_text_def opt_filter_def split: option.splits)
  let ?e = "d(name \<mapsto> \<lparr> cf_content = take n (pz_print z s), cf_mtime = now \<rparr>)"
  have sv: "fst (save_at z force NotOpened (CutAfter n) now name s d) = ?e"
    using assms(2,3) f by (simp add: save_at_def copy_file_def write_file_def Let_def)
  have "copy_file r later name (name @ ''.invalid'') ?e (name @ ''.bak'') = None"
    using o(3,6) assms(4) by (simp add: copy_elsewhere)
  then show ?thesis
    unfolding sv using assms(5,6) by (simp add: load_settings_at_def read_text_def opt_filter_def Let_def)
qed

text \<open>The guard is for text that does not parse. A file that is not text, as a write cut inside a character leaves it,
  loads as the defaults, and the next incidental save replaces it, and the good backup by it.\<close>

lemma not_text_is_replaced:
  assumes "name \<in> {''jmux.json'', ''settings.json''}" and "d name = Some f" and "\<not> utf8_valid (cf_content f)"
  shows "snd (load_settings_at z r now name d) = default_app_settings"
    and "read_text (fst (save_at z False Complete Complete now name s d)) (name @ ''.bak'') = None"
proof -
  have t: "read_text d name = None" using assms(2,3) by (simp add: read_text_def opt_filter_def)
  then show "snd (load_settings_at z r now name d) = default_app_settings" by (simp add: load_settings_at_def)
  show "read_text (fst (save_at z False Complete Complete now name s d)) (name @ ''.bak'') = None"
    using t assms other_names(6) [OF assms(1)]
    by (simp add: save_at_def copy_file_def write_file_def read_text_def opt_filter_def Let_def)
qed

section \<open>The cache\<close>

fun load_all :: "parsers \<Rightarrow> write_end \<Rightarrow> nat \<Rightarrow> settings_cache option \<Rightarrow> config_dir list \<Rightarrow> app_settings list" where
  "load_all z copied now cache [] = []"
| "load_all z copied now cache (d # ds) =
     (case load_settings z copied now d cache of ((_, cache), s) \<Rightarrow> s # load_all z copied now cache ds)"

definition cached_from :: "parsers \<Rightarrow> write_end \<Rightarrow> nat \<Rightarrow> config_dir set \<Rightarrow> settings_cache option \<Rightarrow> bool" where
  "cached_from z copied now D cache \<longleftrightarrow>
     (\<forall>c. cache = Some c \<longrightarrow>
        (\<exists>e\<in>D. ca_main_path c = active_config e \<and> ca_main_mtime c = mtime_of e (active_config e) \<and>
           ca_shortcuts_mtime c = mtime_of e ''shortcuts.json'' \<and> ca_settings c = snd (load_fresh z copied now e)))"

text \<open>A file that was changed has another time.\<close>

definition stamped :: "config_dir set \<Rightarrow> bool" where
  "stamped D \<longleftrightarrow> (\<forall>d\<in>D. \<forall>e\<in>D. \<forall>name. mtime_of d name = mtime_of e name \<longrightarrow> d name = e name)"

lemma readable_load:
  "\<not> unreadable z d name \<Longrightarrow>
   load_settings_at z copied now name d =
     (d, case Option.bind (read_text d name) (parse_settings z) of Some s \<Rightarrow> s | None \<Rightarrow> default_app_settings)"
  by (auto simp: load_settings_at_def unreadable_def split: option.splits)

lemma same_fresh:
  assumes "d (active_config d) = e (active_config d)" "active_config e = active_config d" "d ''shortcuts.json'' = e ''shortcuts.json''"
    "\<not> unreadable z d (active_config d)" "\<not> unreadable z e (active_config d)"
  shows "snd (load_fresh z copied now d) = snd (load_fresh z copied now e)"
proof -
  have "read_text d (active_config d) = read_text e (active_config d)" "read_text d ''shortcuts.json'' = read_text e ''shortcuts.json''"
    using assms(1,3) by (simp_all add: read_text_def)
  with assms(2,4,5) show ?thesis by (simp add: load_fresh_def readable_load shortcuts_at_def)
qed

lemma load_cached:
  assumes "cached_from z copied now D cache" "d \<in> D"
    and "stamped D"
    and "\<And>d. d \<in> D \<Longrightarrow> \<not> unreadable z d (active_config d)"
    and "load_settings z copied now d cache = ((d', cache'), s)"
  shows "s = snd (load_fresh z copied now d) \<and> cached_from z copied now D cache'"
proof (cases "opt_filter (\<lambda>c. ca_main_path c = active_config d \<and> ca_main_mtime c = mtime_of d (active_config d) \<and>
    ca_shortcuts_mtime c = mtime_of d ''shortcuts.json'' \<and> mtime_of d (active_config d) \<noteq> None) cache")
  case None
  with assms(2,5) show ?thesis
    by (auto simp: load_settings_def Let_def cached_from_def split: prod.splits)
next
  case (Some c)
  then have c: "cache = Some c" "ca_main_path c = active_config d" "ca_main_mtime c = mtime_of d (active_config d)"
      "ca_shortcuts_mtime c = mtime_of d ''shortcuts.json''"
    by (auto simp: opt_filter_def split: option.splits if_splits)
  with assms(1) obtain e where e: "e \<in> D" "active_config e = active_config d"
      "mtime_of e (active_config d) = mtime_of d (active_config d)" "mtime_of e ''shortcuts.json'' = mtime_of d ''shortcuts.json''"
      "ca_settings c = snd (load_fresh z copied now e)"
    by (fastforce simp: cached_from_def)
  have "snd (load_fresh z copied now d) = snd (load_fresh z copied now e)"
  proof (rule same_fresh)
    show "\<not> unreadable z e (active_config d)" using assms(4) [OF e(1)] e(2) by simp
  qed (use assms(2-4) e(1-4) in \<open>auto simp: stamped_def\<close>)
  with Some assms(1,5) e(5) show ?thesis by (simp add: load_settings_def Let_def)
qed

lemma load_all_from:
  assumes "cached_from z copied now D cache" "set ds \<subseteq> D"
    and "stamped D"
    and "\<And>d. d \<in> D \<Longrightarrow> \<not> unreadable z d (active_config d)"
  shows "load_all z copied now cache ds = map (\<lambda>d. snd (load_fresh z copied now d)) ds"
  using assms(1,2)
proof (induction ds arbitrary: cache)
  case (Cons d ds)
  obtain d' cache' s where l: "load_settings z copied now d cache = ((d', cache'), s)" by (metis prod.exhaust)
  from Cons.prems(2) have "d \<in> D" by simp
  from load_cached [OF Cons.prems(1) this assms(3,4) l] Cons.prems(2) Cons.IH [of cache'] l show ?case by simp
qed simp

text \<open>C36. The cache changes nothing: however the files change between loads, each load gives what reading the files anew
  gives, as long as the settings file can be read and a file with the same time of change has the same
  content. A change of the shortcuts alone is seen as well.\<close>

theorem cached_loads_fresh:
  assumes "stamped (set ds)"
    and "\<And>d. d \<in> set ds \<Longrightarrow> \<not> unreadable z d (active_config d)"
  shows "load_all z copied now None ds = map (\<lambda>d. snd (load_fresh z copied now d)) ds"
  by (rule load_all_from [where D = "set ds"]) (use assms in \<open>auto simp: cached_from_def\<close>)

section \<open>Examples\<close>

text \<open>A toy serde: two texts, and one text of the shortcuts.\<close>

definition toy_parsers :: parsers where
  "toy_parsers =
     \<lparr> pz_settings = (\<lambda>t. if t = ''{}'' then Some default_app_settings
                         else if t = ''{!}'' then Some (default_app_settings\<lparr> ap_show_dock := True \<rparr>) else None),
       pz_shortcuts = (\<lambda>t. None), pz_print = (\<lambda>s. if ap_show_dock s then ''{!}'' else ''{}''),
       pz_print_shortcuts = (\<lambda>c. ''[]'') \<rparr>"

definition toy_file :: "rstr \<Rightarrow> nat \<Rightarrow> config_file" where
  "toy_file t n = \<lparr> cf_content = t, cf_mtime = n \<rparr>"

lemmas toy_defs = unreadable_def read_text_def active_config_def toy_file_def parse_settings_def toy_parsers_def
  strip_jsonc_comments_def opt_filter_def utf8_valid_ascii byte_in_def

lemma unreadable_settings_kept_witness:
  "fst (save_guarded toy_parsers False Complete Complete Complete 5 default_app_settings [''jmux.json'' \<mapsto> toy_file ''{'' 1]) ''jmux.json'' =
   Some (toy_file ''{'' 1)"
proof -
  let ?d = "[''jmux.json'' \<mapsto> toy_file ''{'' 1]"
  let ?s = "settings_step toy_parsers"
  have u: "unreadable toy_parsers ?d (active_config ?d)" and a: "active_config ?d = ''jmux.json''" by (simp_all add: toy_defs)
  have "?s\<^sup>*\<^sup>* (?d, None) (fst (save_guarded toy_parsers False Complete Complete Complete 5 default_app_settings ?d), None)"
    by (intro r_into_rtranclp by_save)
  from unreadable_settings_kept [OF this u, THEN conjunct2] show ?thesis unfolding a by simp
qed

lemma cut_save_recovers_witness:
  "snd (load_settings_at toy_parsers Complete 9 ''settings.json''
     (fst (save_at toy_parsers True Complete (CutAfter 2) 5 ''settings.json'' (default_app_settings\<lparr> ap_show_dock := True \<rparr>)
        [''settings.json'' \<mapsto> toy_file ''{}'' 1]))) = default_app_settings"
proof -
  have bounds: "n = 0 \<or> n = 1 \<or> n = 2" if "n < (3::nat)" for n using that by auto
  have p: "parse_settings toy_parsers (take n ''{!}'') = None" if "n < 3" for n
    using bounds [OF that] by (auto simp: toy_defs)
  show ?thesis
    by (subst cut_save_recovers [where c = "''{}''" and ?s0.0 = default_app_settings])
      (use p in \<open>auto simp: toy_defs default_app_settings_def\<close>)
qed

lemma cached_loads_fresh_witness:
  "length (load_all toy_parsers Complete 0 None [Map.empty, [''jmux.json'' \<mapsto> toy_file ''{!}'' 1]]) = 2 \<and>
   map ap_show_dock (load_all toy_parsers Complete 0 None [Map.empty, [''jmux.json'' \<mapsto> toy_file ''{!}'' 1]]) = [False, True]"
proof -
  have "\<not> unreadable toy_parsers d (active_config d)" if "d \<in> {Map.empty, [''jmux.json'' \<mapsto> toy_file ''{!}'' 1]}" for d
    using that by (auto simp: toy_defs)
  then have "load_all toy_parsers Complete 0 None [Map.empty, [''jmux.json'' \<mapsto> toy_file ''{!}'' 1]] =
      map (\<lambda>d. snd (load_fresh toy_parsers Complete 0 d)) [Map.empty, [''jmux.json'' \<mapsto> toy_file ''{!}'' 1]]"
    by (intro cached_loads_fresh) (auto simp: stamped_def mtime_of_def split: if_splits)
  moreover have "map (\<lambda>d. ap_show_dock (snd (load_fresh toy_parsers Complete 0 d))) [Map.empty, [''jmux.json'' \<mapsto> toy_file ''{!}'' 1]] = [False, True]"
    by (simp add: load_fresh_def load_settings_at_def read_text_def active_config_def toy_file_def parse_settings_def toy_parsers_def
        toy_defs default_app_settings_def Let_def split_beta)
  ultimately show ?thesis by (simp add: comp_def)
qed

end
