(* ===== verification/Spec2Isabelle.thy ===== *)
theory Spec2Isabelle imports
  Tab_Manager_More Notifications Remote_Config Goal_Config_Facts Claude_State_Props Graph_Samples
  Session_Props Session_Text Socket_Props Window_Props Settings_File
begin

text \<open>
  A verification development for jmux, a terminal multiplexer for coding agents written in Rust
  (\<open>src/jmux\<close>): the data model behind its windows, and the automation that runs agents towards goals.

  \<^bold>\<open>The program.\<close> A window shows a list of workspaces (\<open>TabManager\<close>), in groups. A workspace holds panels
  (terminals, browsers, notes, graphs), arranged by a layout tree of splits and panes
  (\<open>Workspace\<close>, \<open>Panel\<close>, \<open>LayoutNode\<close>). Agents report into it: status entries, logs, notifications, attention
  marks. A goal run is an agent working in one workspace towards a goal; a driver tick every two seconds reads
  its screen and its report file, reminds it, starts the next iteration or calls the human. A goal graph
  is a plan of nodes with dependencies; its scheduler, on the same tick, waits for the plan, launches ready
  nodes as goal runs, follows them and merges their branches into the user's checkout.

  \<^bold>\<open>Conventions.\<close> A struct is a record (the prefix of its fields names it: \<open>ws_\<close>, \<open>tm_\<close>, \<open>rn_\<close>, \<open>gs_\<close>, \<open>gn_\<close>), an
  enum a datatype, a method that mutates a function returning the new value, \<open>Result\<close> a sum with the
  error on the left. Strings are their UTF-8 bytes (\<open>Rust_Str\<close>), so that \<open>len\<close>, slicing at character
  boundaries and truncation mean what they mean in Rust. \<open>u32\<close> and \<open>u64\<close> are words; \<open>usize\<close> indices are \<open>nat\<close>,
  the source checking them against lengths. \<open>f64\<close> is modelled with rounding, NaN and infinities (\<open>F64\<close>).
  Random UUIDs are fresh arguments or drawn from a counter. A \<open>HashMap\<close> is an association list; where
  its order is visible, nothing is assumed about it.

  \<^bold>\<open>The theories, in the order of the code.\<close>
  \<^item> \<open>Jmux_Prelude\<close>, \<open>Rust_Str\<close>, \<open>F64\<close>, \<open>Text_Lines\<close>: names of the basic types, the parts of the standard library the
    sources use, generic lemmas.
  \<^item> \<open>Layout\<close> (\<open>LayoutNode\<close> in \<open>model/panel.rs\<close>), \<open>Layout_Interface\<close> (the contract a workspace relies on, as the
    locale \<open>panel_layout\<close>), \<open>Layout_Nav\<close>, \<open>Layout_Props\<close>: invariant over every sequence of edits, where panels go,
    cycling and directional navigation.
  \<^item> \<open>Panels\<close> (\<open>Panel\<close>), \<open>Workspaces\<close> (\<open>model/workspace.rs\<close>), \<open>Workspace_Facts\<close>, \<open>Workspace_Props\<close>: panel map and layout in
    step, focus after closing, reopening, capped metadata. \<open>Bounded_Log\<close> is the contract of all capped lists.
  \<^item> \<open>Tab_Manager\<close> (\<open>model/tab_manager.rs\<close>, \<open>model/workspace_group.rs\<close>), \<open>Tab_Manager_Facts\<close>, \<open>Tab_Manager_Props\<close>,
    \<open>Tab_Manager_More\<close>: invariant of the workspace list, selection, bulk closing, moving panels, focus history.
  \<^item> \<open>Notifications\<close> (\<open>notifications.rs\<close>), \<open>Remote_Config\<close> (\<open>remote/session.rs\<close>).
  \<^item> \<open>Claude_State\<close> (\<open>model/claude_state.rs\<close>), \<open>Claude_State_Props\<close>: the screen classifier against declarative
    descriptions of menus and timers; scrollback is not activity.
  \<^item> \<open>Goal_Config\<close> (\<open>goal/mod.rs\<close>, \<open>settings/mod.rs\<close>), \<open>Goal_Config_Facts\<close>: output directories, permissions, quoting.
  \<^item> \<open>Goal_World\<close>: the state runs and graphs share and the environment; \<open>Goal_Runs\<close> (\<open>goal/mod.rs\<close>): lookup, iteration
    files, escalation, driver, launch; \<open>Goal_Runs_Props\<close>, \<open>Goal_Runs_More\<close>, \<open>Goal_Launch\<close>: what is typed when, that a
    stuck agent is reported, that every end is announced, that a launch registers its run.
  \<^item> \<open>Graph_Data\<close>, \<open>Graph_Proposal\<close>, \<open>Graph_Proposal_Facts\<close> (\<open>goal/graph.rs\<close>): graphs, and the plan check against its
    declarative specification.
  \<^item> \<open>Graph_Scheduler\<close> (restart, launching, following, merging, ticks) and \<open>Graph_Ops\<close> (what a client can call);
    \<open>Graph_Facts\<close>, \<open>Graph_Props\<close>: lemmas and the invariant; \<open>Graph_Machine\<close>: a graph as a state machine and its
    reachable states; \<open>Graph_Progress\<close>: a tick never idles, what resuming does, a gap in the stall check;
    \<open>Graph_Merge\<close>: the sequence of git commands; \<open>Graph_Complete\<close>: graphs get done; \<open>Graph_Samples\<close>: concrete instances.

  \<^item> \<open>Session_Data\<close>, \<open>Session_Store\<close>, \<open>Session_Restore\<close> (\<open>session/snapshot.rs\<close>, \<open>session/store.rs\<close>,
    \<open>session/claude_resume.rs\<close>, the restoring half of \<open>app.rs\<close>): snapshots, the session file with its backup, and
    rebuilding the windows; \<open>Session_Facts\<close>, \<open>Session_Props\<close>, \<open>Session_Text\<close>: the round trip over a restart, that
    sessions are not clobbered, scrollback and which tab resumes which conversation.
  \<^item> The control socket. \<open>Socket_Core\<close> (\<open>socket/v2/mod.rs\<close>, \<open>helpers.rs\<close>): requests, replies, the state \<open>server\<close> of
    the handlers. One theory per group of handlers of \<open>socket/v2\<close>: \<open>Socket_Meta\<close> (telemetry), \<open>Socket_Workspace\<close>,
    \<open>Socket_Action\<close>, \<open>Socket_Pane\<close>, \<open>Socket_Surface\<close>, \<open>Socket_Misc\<close>, \<open>Socket_Goal\<close>; \<open>Agent_Monitor\<close> (\<open>agent_monitor.rs\<close>);
    \<open>Socket_V1\<close> (\<open>socket/v1.rs\<close>, the text protocol), \<open>Socket_Dispatch\<close> (the table of methods), \<open>Socket_Auth\<close>
    (\<open>socket/auth.rs\<close>), \<open>Socket_Server\<close> (\<open>socket/server.rs\<close>).
  \<^item> \<open>Fresh_Ids\<close>, \<open>Socket_Facts\<close>, \<open>Socket_Edits\<close>, \<open>Socket_New\<close>, \<open>Goal_Invariant\<close>, \<open>Socket_Invariant\<close>: every request keeps the
    state well formed, one lemma per handler, collected in \<open>served\<close> and applied by the table; \<open>Socket_Stream\<close>: a
    connection is its lines; \<open>Socket_Props\<close>: reordering, a lost panel, refused commands.
  \<^item> The main window. \<open>Text_Split\<close>, \<open>Shortcuts\<close> and \<open>Custom_Commands\<close> (\<open>settings/shortcuts.rs\<close>,
    \<open>settings/custom_commands.rs\<close>): bindings, when clauses, workspaces described in \<open>jmux.json\<close>. \<open>Window_State\<close> (\<open>app.rs\<close>,
    \<open>ui/window/mod.rs\<close>): the record \<open>window\<close> around the server's state, refreshing. \<open>Window_Keys\<close>
    (\<open>ui/window/shortcuts.rs\<close>), \<open>Command_Palette\<close> (\<open>ui/command_palette.rs\<close>), \<open>Window_Events\<close>
    (\<open>ui/window/event_handler.rs\<close>, \<open>on_action\<close> of \<open>app.rs\<close>): what keys, entries and events do. \<open>Refresh_Throttle\<close>: when
    the window is redrawn. \<open>Window_Invariant\<close>: the whole application as a machine and its invariant, with the rules
    \<open>windowed\<close>; \<open>Window_Props\<close>: witnesses, typing, the palette's filter, and what breaks the invariant.
  \<^item> \<open>Settings_Text\<close>, \<open>Settings_File\<close> (\<open>settings/mod.rs\<close>): choices, search addresses, comments; the settings with their
    defaults, loading through the cache and guarded saving, and what a failed save cannot lose.

  \<^bold>\<open>The outside world.\<close> Files, git, terminals, other processes and the clock are the record \<open>env\<close>: every answer is
  a function of the question and of the log of all actions so far, about which a theorem assumes
  nothing unless it says so. Every action on the outside is appended to that log (\<open>sh_log\<close>), so theorems
  can speak about the exact sequence of commands. An operation runs under its locks without
  interleaving; theorems about reachable states quantify over all orders of whole operations, each with
  an environment and a rest of the state of its own.

  \<^bold>\<open>Bounds and fuel.\<close> No model needs fuel except \<open>rounds\<close>, which counts scheduler ticks: a graph of n nodes needs
  n + 1 of them, because every tick with a finished run finishes a node and at least one node is
  always being worked on. Kahn's loop, the focus-history walk and the screen scans are total functions
  with explicit measures. Capped lists have the caps of the source.

  \<^bold>\<open>Exceptions the invariants carry.\<close> Two invariants hold with a set of exceptions that the steps themselves fill.
  Accepting finds a node by name alone, so that an old run can finish a node that is pending again:
  \<open>graph_reachable A\<close> collects such nodes, and \<open>A\<close> is exempt from dependencies before dependents. Some handlers
  edit a workspace's fields past its methods, or leave it standing without panels: \<open>tm_step\<close> puts it into \<open>E\<close>, of
  whose members only disjoint panels are promised (\<open>tm_sound E\<close>; \<open>tm_ok\<close> is \<open>tm_sound {}\<close>). Rebuilds past the
  throttle are logged apart (\<open>Direct\<close>).

  \<^bold>\<open>Assumptions that are easy to miss.\<close> A panel enters a workspace under a fresh identifier, and while it shows one.
  The plan check needs the hash map to yield each key once, in any order. \<open>graphs.json\<close> is read once,
  its later content being what was last written. The wait counter wraps at 2^32 ticks.

  \<^bold>\<open>Not modelled.\<close> The GTK widgets (\<open>ui\<close> apart from what its keys, palette and events do; start-up in \<open>app.rs\<close>) and the FFI crates
  around the Ghostty terminal: widgets and callbacks of libraries outside the repository. Browser automation
  beyond its tabs: JavaScript snippets run by WebKit. The remote bootstrap, relay and proxy, desktop
  notifications, sounds, the accept loop and file watching: processes, threads and sockets. serde's reading
  and writing of JSON text, HMAC-SHA256, UUID parsing and \<open>/proc\<close> are arguments of the definitions that use them.
\<close>

end
